(* ===== verification/Prelude.thy ===== *)
theory Prelude
  imports Main "HOL-Library.AList" "HOL-Library.Word" "HOL-Library.List_Lexorder" "HOL-Library.Char_ord"
begin

text \<open>
  Shared vocabulary of the development: identifiers, results, and the few standard-library
  operations of Rust the modelled code leans on (collecting an iterator into a hash map,
  guarded pushes onto an error vector, first-error-wins sequencing).  The two named
  collections gather the facts the component theories hand to the simplifier.
\<close>

named_theorems result_simps \<open>inversion of results built by sequencing\<close>
named_theorems error_simps \<open>emptiness and membership of accumulated error lists\<close>

subsection \<open>Identifiers\<close>

text \<open>
  Every id newtype of \<open>domain/ids.rs\<close> wraps a \<open>Uuid\<close>, a 128-bit value compared bitwise.
\<close>

type_synonym uuid = "128 word"

subsection \<open>Results\<close>

text \<open>Rust's \<open>Result<T, E>\<close> is the sum type, with the error on the left.\<close>

type_synonym ('e, 'a) res = "'e + 'a"

definition andThen :: "('e, 'a) res \<Rightarrow> ('a \<Rightarrow> ('e, 'b) res) \<Rightarrow> ('e, 'b) res" where
  "andThen x f = (case x of Inl e \<Rightarrow> Inl e | Inr a \<Rightarrow> f a)"

definition ok_or :: "'e \<Rightarrow> 'a option \<Rightarrow> ('e, 'a) res" where
  "ok_or e x = (case x of None \<Rightarrow> Inl e | Some a \<Rightarrow> Inr a)"

definition guard_r :: "bool \<Rightarrow> 'e \<Rightarrow> ('e, unit) res" where
  "guard_r b e = (if b then Inr () else Inl e)"

definition is_ok :: "('e, 'a) res \<Rightarrow> bool" where
  "is_ok x = (case x of Inl e \<Rightarrow> False | Inr a \<Rightarrow> True)"

lemma andThen_Inl [simp]: "andThen (Inl e) f = Inl e"
  by (simp add: andThen_def)

lemma andThen_Inr [simp]: "andThen (Inr a) f = f a"
  by (simp add: andThen_def)

lemma andThen_eq_Inr [result_simps]:
  "andThen x f = Inr b \<longleftrightarrow> (\<exists>a. x = Inr a \<and> f a = Inr b)"
  by (cases x) auto

lemma andThen_eq_Inl [result_simps]:
  "andThen x f = Inl e \<longleftrightarrow> x = Inl e \<or> (\<exists>a. x = Inr a \<and> f a = Inl e)"
  by (cases x) auto

lemma ok_or_eq_Inr [result_simps]: "ok_or e x = Inr a \<longleftrightarrow> x = Some a"
  by (cases x) (auto simp: ok_or_def)

lemma ok_or_eq_Inl [result_simps]: "ok_or e x = Inl e' \<longleftrightarrow> x = None \<and> e' = e"
  by (cases x) (auto simp: ok_or_def)

lemma ok_or_simps [simp]: "ok_or e None = Inl e" "ok_or e (Some a) = Inr a"
  by (simp_all add: ok_or_def)

lemma guard_r_eq_Inr [result_simps]: "guard_r b e = Inr u \<longleftrightarrow> b"
  by (cases u) (simp add: guard_r_def)

lemma guard_r_eq_Inl [result_simps]: "guard_r b e = Inl e' \<longleftrightarrow> \<not> b \<and> e' = e"
  by (auto simp: guard_r_def)

lemma is_ok_simps [simp]: "is_ok (Inl e) = False" "is_ok (Inr a) = True"
  by (simp_all add: is_ok_def)

lemma is_ok_iff: "is_ok x \<longleftrightarrow> (\<exists>a. x = Inr a)"
  by (cases x) auto

subsection \<open>Guarded pushes\<close>

text \<open>\<open>if b { errors.push(e) }\<close>: the validators accumulate errors and never stop at one.\<close>

definition push_if :: "bool \<Rightarrow> 'e \<Rightarrow> 'e list" where
  "push_if b e = (if b then [e] else [])"

lemma push_if_simps [simp]: "push_if True e = [e]" "push_if False e = []"
  by (simp_all add: push_if_def)

lemma push_if_eq_Nil [error_simps]: "push_if b e = [] \<longleftrightarrow> \<not> b"
  by (simp add: push_if_def)

lemma set_push_if [error_simps]: "set (push_if b e) = (if b then {e} else {})"
  by (simp add: push_if_def)

lemma concat_map_eq_Nil [error_simps]: "concat (map f xs) = [] \<longleftrightarrow> (\<forall>x\<in>set xs. f x = [])"
  by (induction xs) auto

subsection \<open>Hash maps\<close>

text \<open>
  \<open>iter.collect::<HashMap<_, _>>()\<close>: a later entry replaces an earlier one with the same key.
\<close>

definition hm_collect :: "('k \<times> 'v) list \<Rightarrow> ('k \<rightharpoonup> 'v)" where
  "hm_collect kvs = map_of (rev kvs)"

lemma hm_collect_SomeD: "hm_collect kvs k = Some v \<Longrightarrow> (k, v) \<in> set kvs"
  by (auto simp: hm_collect_def dest: map_of_SomeD)

lemma hm_collect_None: "hm_collect kvs k = None \<longleftrightarrow> k \<notin> fst ` set kvs"
  by (simp add: hm_collect_def map_of_eq_None_iff)

lemma dom_hm_collect: "dom (hm_collect kvs) = fst ` set kvs"
  by (simp add: hm_collect_def dom_map_of_conv_image_fst)

lemma hm_collect_distinct: "distinct (map fst kvs) \<Longrightarrow> hm_collect kvs = map_of kvs"
proof
  fix k assume "distinct (map fst kvs)"
  then have "hm_collect kvs k = Some v \<longleftrightarrow> map_of kvs k = Some v" for v
    by (simp add: hm_collect_def map_of_eq_Some_iff rev_map [symmetric])
  then show "hm_collect kvs k = map_of kvs k"
    by (cases "map_of kvs k"; cases "hm_collect kvs k") auto
qed

lemma hm_collect_is_Some:
  "distinct (map fst kvs) \<Longrightarrow> hm_collect kvs k = Some v \<longleftrightarrow> (k, v) \<in> set kvs"
  by (simp add: hm_collect_distinct)

text \<open>
  The iteration order of a hash map is not determined.  The one place where the modelled code
  walks over the keys of a hash map takes the order as a parameter: any function that lists the
  keys once each.
\<close>

definition is_iteration :: "(uuid list \<Rightarrow> uuid list) \<Rightarrow> bool" where
  "is_iteration it \<longleftrightarrow> (\<forall>ks. set (it ks) = set ks \<and> distinct (it ks))"

lemma is_iteration_remdups: "is_iteration remdups"
  by (simp add: is_iteration_def)

lemma is_iteration_set: "is_iteration it \<Longrightarrow> set (it ks) = set ks"
  by (simp add: is_iteration_def)

subsection \<open>Repeated elements\<close>

text \<open>
  The idiom \<open>if !seen.insert(x) { .. }\<close> over a list: the elements met for a second time.
\<close>

fun repeats :: "'a set \<Rightarrow> 'a list \<Rightarrow> 'a list" where
  "repeats seen [] = []"
| "repeats seen (x # xs) = (if x \<in> seen then x # repeats seen xs else repeats (insert x seen) xs)"

lemma repeats_eq_Nil:
  "repeats seen xs = [] \<longleftrightarrow> distinct xs \<and> set xs \<inter> seen = {}"
  by (induction xs arbitrary: seen) auto

subsection \<open>Finite relations given by edge lists\<close>

lemma rtrancl_edge_in_targets:
  assumes "(s, x) \<in> (set es)\<^sup>*" and "x \<noteq> s"
  shows "x \<in> snd ` set es"
  using assms by (induction rule: rtrancl_induct) force+

lemma tranclE2: "(a, b) \<in> R\<^sup>+ \<Longrightarrow> (\<And>c. (a, c) \<in> R \<Longrightarrow> P) \<Longrightarrow> P"
  by (erule converse_tranclE) blast+

lemma rtrancl_closed:
  assumes "(s, x) \<in> R\<^sup>*" and "s \<in> A" and "\<And>a b. a \<in> A \<Longrightarrow> (a, b) \<in> R \<Longrightarrow> b \<in> A"
  shows "x \<in> A"
  using assms by (induction rule: rtrancl_induct) auto

lemma finite_no_source_cycle:
  assumes "finite A" and "A \<noteq> {}" and pred: "\<And>v. v \<in> A \<Longrightarrow> \<exists>u\<in>A. (u, v) \<in> R"
  shows "\<not> acyclic R"
proof
  assume "acyclic R"
  then have "acyclic (R \<inter> A \<times> A)" by (rule acyclic_subset) simp
  moreover have "finite (R \<inter> A \<times> A)" using assms(1) by simp
  ultimately have "wf (R \<inter> A \<times> A)" by (rule finite_acyclic_wf [rotated])
  moreover obtain a where "a \<in> A" using assms(2) by blast
  ultimately obtain z where "z \<in> A" and "\<And>y. (y, z) \<in> R \<inter> A \<times> A \<Longrightarrow> y \<notin> A"
    by (rule wfE_min) blast
  with pred [of z] show False by blast
qed

end
