(* ===== verification/Model.thy ===== *)
theory Model
  imports Json
begin

text \<open>
  The data of the definition domain: the database enums of \<open>domain/enums.rs\<close> with their
  text form, the entities of \<open>domain/definition/model.rs\<close>, and the validation error value of
  \<open>domain/definition/error.rs\<close>.  The locale \<open>enum_codec\<close> states what \<open>make_enum!\<close> promises of
  every generated enum, and is interpreted on each of them.
\<close>

section \<open>Enumerations\<close>

datatype principal_type = PT_HUMAN | PT_AGENT | PT_SERVICE

fun principal_type_to_string :: "principal_type \<Rightarrow> string" where
  "principal_type_to_string PT_HUMAN = ''HUMAN''"
| "principal_type_to_string PT_AGENT = ''AGENT''"
| "principal_type_to_string PT_SERVICE = ''SERVICE''"

definition principal_type_variants :: "principal_type list" where
  "principal_type_variants = [PT_HUMAN, PT_AGENT, PT_SERVICE]"

datatype definition_version_status = VS_DRAFT | VS_PUBLISHED | VS_DEPRECATED | VS_REVOKED

fun version_status_to_string :: "definition_version_status \<Rightarrow> string" where
  "version_status_to_string VS_DRAFT = ''DRAFT''"
| "version_status_to_string VS_PUBLISHED = ''PUBLISHED''"
| "version_status_to_string VS_DEPRECATED = ''DEPRECATED''"
| "version_status_to_string VS_REVOKED = ''REVOKED''"

definition version_status_variants :: "definition_version_status list" where
  "version_status_variants = [VS_DRAFT, VS_PUBLISHED, VS_DEPRECATED, VS_REVOKED]"

datatype node_type = NT_DRAFT | NT_NORMAL | NT_TERMINAL | NT_TASK

fun node_type_to_string :: "node_type \<Rightarrow> string" where
  "node_type_to_string NT_DRAFT = ''DRAFT''"
| "node_type_to_string NT_NORMAL = ''NORMAL''"
| "node_type_to_string NT_TERMINAL = ''TERMINAL''"
| "node_type_to_string NT_TASK = ''TASK''"

definition node_type_variants :: "node_type list" where
  "node_type_variants = [NT_DRAFT, NT_NORMAL, NT_TERMINAL, NT_TASK]"

datatype activation_kind = HumanWorkItem | DispatchIntent

fun activation_kind_to_string :: "activation_kind \<Rightarrow> string" where
  "activation_kind_to_string HumanWorkItem = ''HUMAN_WORK_ITEM''"
| "activation_kind_to_string DispatchIntent = ''DISPATCH_INTENT''"

definition activation_kind_variants :: "activation_kind list" where
  "activation_kind_variants = [HumanWorkItem, DispatchIntent]"

datatype workflow_execution_class = Business | NonBusinessTest

fun execution_class_to_string :: "workflow_execution_class \<Rightarrow> string" where
  "execution_class_to_string Business = ''BUSINESS''"
| "execution_class_to_string NonBusinessTest = ''NON_BUSINESS_TEST''"

definition execution_class_variants :: "workflow_execution_class list" where
  "execution_class_variants = [Business, NonBusinessTest]"

datatype assignee_ref_type = WorkflowCreator | DomainOwner | FixedPrincipal | InstanceInputPrincipal

fun assignee_ref_type_to_string :: "assignee_ref_type \<Rightarrow> string" where
  "assignee_ref_type_to_string WorkflowCreator = ''WORKFLOW_CREATOR''"
| "assignee_ref_type_to_string DomainOwner = ''DOMAIN_OWNER''"
| "assignee_ref_type_to_string FixedPrincipal = ''FIXED_PRINCIPAL''"
| "assignee_ref_type_to_string InstanceInputPrincipal = ''INSTANCE_INPUT_PRINCIPAL''"

definition assignee_ref_type_variants :: "assignee_ref_type list" where
  "assignee_ref_type_variants =
     [WorkflowCreator, DomainOwner, FixedPrincipal, InstanceInputPrincipal]"

datatype transition_effect = Advance | Return | Terminate

fun transition_effect_to_string :: "transition_effect \<Rightarrow> string" where
  "transition_effect_to_string Advance = ''ADVANCE''"
| "transition_effect_to_string Return = ''RETURN''"
| "transition_effect_to_string Terminate = ''TERMINATE''"

definition transition_effect_variants :: "transition_effect list" where
  "transition_effect_variants = [Advance, Return, Terminate]"

datatype receipt_status = Processing | Completed

fun receipt_status_to_string :: "receipt_status \<Rightarrow> string" where
  "receipt_status_to_string Processing = ''PROCESSING''"
| "receipt_status_to_string Completed = ''COMPLETED''"

definition receipt_status_variants :: "receipt_status list" where
  "receipt_status_variants = [Processing, Completed]"

text \<open>
  \<open>FromStr\<close> of every generated enum: the variant whose label the text is, in the order of the
  variants; the error carries the enum's name and the rejected text.
\<close>

record unknown_enum_variant =
  enum_name :: string
  enum_value :: string

definition enum_from_str ::
  "string \<Rightarrow> 'a list \<Rightarrow> ('a \<Rightarrow> string) \<Rightarrow> string \<Rightarrow> (unknown_enum_variant, 'a) res" where
  "enum_from_str name variants label s =
     (case find (\<lambda>v. label v = s) variants of
        Some v \<Rightarrow> Inr v
      | None \<Rightarrow> Inl \<lparr>enum_name = name, enum_value = s\<rparr>)"

locale enum_codec =
  fixes name :: string
    and variants :: "'a list"
    and label :: "'a \<Rightarrow> string"
  assumes all_variants: "x \<in> set variants"
    and label_inject: "label x = label y \<Longrightarrow> x = y"
begin

lemma find_label: "find (\<lambda>v. label v = label x) variants = Some x"
proof (cases "find (\<lambda>v. label v = label x) variants")
  case None
  then show ?thesis using all_variants by (auto simp: find_None_iff)
next
  case (Some y)
  then have "label y = label x" by (auto simp: find_Some_iff)
  then show ?thesis using Some label_inject by simp
qed

lemma parse_display: "enum_from_str name variants label (label x) = Inr x"
  by (simp add: enum_from_str_def find_label)

lemma parse_iff: "enum_from_str name variants label s = Inr x \<longleftrightarrow> s = label x"
proof
  assume "enum_from_str name variants label s = Inr x"
  then have "find (\<lambda>v. label v = s) variants = Some x"
    by (simp add: enum_from_str_def split: option.splits)
  then show "s = label x" by (auto simp: find_Some_iff)
qed (simp add: parse_display)

lemma parse_error:
  "enum_from_str name variants label s = Inl e \<longleftrightarrow>
     s \<notin> range label \<and> e = \<lparr>enum_name = name, enum_value = s\<rparr>"
proof (cases "find (\<lambda>v. label v = s) variants")
  case None
  have "s \<noteq> label x" for x
  proof
    assume "s = label x"
    with None find_label [of x] show False by simp
  qed
  then have "s \<notin> range label" by blast
  with None show ?thesis by (simp add: enum_from_str_def eq_commute)
next
  case (Some y)
  then have "s = label y" by (auto simp: find_Some_iff)
  then have "s \<in> range label" by blast
  with Some show ?thesis by (simp add: enum_from_str_def)
qed

end

lemmas enum_variants_defs =
  principal_type_variants_def version_status_variants_def node_type_variants_def
  activation_kind_variants_def execution_class_variants_def assignee_ref_type_variants_def
  transition_effect_variants_def receipt_status_variants_def

interpretation principal_type_codec:
  enum_codec "''PrincipalType''" principal_type_variants principal_type_to_string
  by unfold_locales
    (metis (full_types) list.set_intros principal_type.exhaust principal_type_variants_def,
     auto elim!: principal_type_to_string.elims)

interpretation version_status_codec:
  enum_codec "''DefinitionVersionStatus''" version_status_variants version_status_to_string
  by unfold_locales
    (metis (full_types) list.set_intros definition_version_status.exhaust version_status_variants_def,
     auto elim!: version_status_to_string.elims)

interpretation node_type_codec:
  enum_codec "''NodeType''" node_type_variants node_type_to_string
  by unfold_locales
    (metis (full_types) list.set_intros node_type.exhaust node_type_variants_def,
     auto elim!: node_type_to_string.elims)

interpretation activation_kind_codec:
  enum_codec "''ActivationKind''" activation_kind_variants activation_kind_to_string
  by unfold_locales
    (metis (full_types) list.set_intros activation_kind.exhaust activation_kind_variants_def,
     auto elim!: activation_kind_to_string.elims)

interpretation execution_class_codec:
  enum_codec "''WorkflowExecutionClass''" execution_class_variants execution_class_to_string
  by unfold_locales
    (metis (full_types) list.set_intros workflow_execution_class.exhaust execution_class_variants_def,
     auto elim!: execution_class_to_string.elims)

interpretation assignee_ref_type_codec:
  enum_codec "''AssigneeRefType''" assignee_ref_type_variants assignee_ref_type_to_string
  by unfold_locales
    (metis (full_types) list.set_intros assignee_ref_type.exhaust assignee_ref_type_variants_def,
     auto elim!: assignee_ref_type_to_string.elims)

interpretation transition_effect_codec:
  enum_codec "''TransitionEffect''" transition_effect_variants transition_effect_to_string
  by unfold_locales
    (metis (full_types) list.set_intros transition_effect.exhaust transition_effect_variants_def,
     auto elim!: transition_effect_to_string.elims)

interpretation receipt_status_codec:
  enum_codec "''ReceiptStatus''" receipt_status_variants receipt_status_to_string
  by unfold_locales
    (metis (full_types) list.set_intros receipt_status.exhaust receipt_status_variants_def,
     auto elim!: receipt_status_to_string.elims)

section \<open>Semantic model version\<close>

datatype semantic_model_version = Legacy | Minimal | VisitActivation

definition default_semantic_model_version :: semantic_model_version where
  "default_semantic_model_version = Legacy"

fun as_i16 :: "semantic_model_version \<Rightarrow> int" where
  "as_i16 Legacy = 1"
| "as_i16 Minimal = 2"
| "as_i16 VisitActivation = 3"

definition semantic_model_try_from :: "int \<Rightarrow> semantic_model_version option" where
  "semantic_model_try_from v =
     (if v = 1 then Some Legacy else if v = 2 then Some Minimal
      else if v = 3 then Some VisitActivation else None)"

text \<open>The database integers order the models by age.\<close>

instantiation semantic_model_version :: linorder
begin

definition less_eq_semantic_model_version ::
  "semantic_model_version \<Rightarrow> semantic_model_version \<Rightarrow> bool" where
  "x \<le> y \<longleftrightarrow> as_i16 x \<le> as_i16 y"

definition less_semantic_model_version ::
  "semantic_model_version \<Rightarrow> semantic_model_version \<Rightarrow> bool" where
  "x < y \<longleftrightarrow> as_i16 x < as_i16 y"

instance
proof
  fix x y :: semantic_model_version
  show "x \<le> y \<Longrightarrow> y \<le> x \<Longrightarrow> x = y"
    by (cases x; cases y) (auto simp: less_eq_semantic_model_version_def)
qed (auto simp: less_eq_semantic_model_version_def less_semantic_model_version_def)

end

lemma semantic_model_try_from_iff: "semantic_model_try_from v = Some m \<longleftrightarrow> v = as_i16 m"
  by (cases m) (auto simp: semantic_model_try_from_def)

section \<open>Definition entities\<close>

text \<open>
  Timestamps are integers (a point on the time line), a database \<open>INTEGER\<close> (\<open>i32\<close>) is an \<open>int\<close>: the
  definition code only compares order indices and version numbers.
\<close>

record assignee_ref =
  ref_type :: assignee_ref_type
  fixed_principal_id :: "uuid option"
  assignee_input_key :: "string option"

record node_definition =
  node_id :: uuid
  node_version_id :: uuid
  node_key :: string
  node_display_name :: string
  order_index :: int
  node_type :: node_type
  assignee_ref :: "assignee_ref option"
  instructions :: "string option"
  primary_advance_transition_id :: "uuid option"
  node_metadata :: "json option"
  node_created_at :: int

record transition_definition =
  transition_id :: uuid
  trans_version_id :: uuid
  transition_key :: string
  trans_display_name :: string
  source_node_id :: uuid
  target_node_id :: uuid
  transition_effect :: transition_effect
  submission_schema :: "json option"
  trans_metadata :: "json option"
  trans_created_at :: int

record workflow_graph =
  nodes :: "node_definition list"
  transitions :: "transition_definition list"
  context_schema :: "json option"

record workflow_definition =
  wd_id :: uuid
  wd_domain_id :: uuid
  definition_key :: string
  wd_display_name :: string
  description :: "string option"
  wd_metadata :: "json option"
  wd_created_at :: int
  wd_updated_at :: int
  archived :: bool
  archived_at :: "int option"
  archived_by_principal_id :: "uuid option"

record workflow_definition_version =
  dv_id :: uuid
  workflow_definition_id :: uuid
  version_number :: int
  version_status :: definition_version_status
  semantic_model_version :: semantic_model_version
  definition_digest :: "string option"
  json_schema_dialect :: "string option"
  validator_version :: "string option"
  dv_context_schema :: "json option"
  dv_submission_schema :: "json option"
  dv_metadata :: "json option"
  dv_created_at :: int
  dv_updated_at :: int
  published_at :: "int option"
  deprecated_at :: "int option"
  revoked_at :: "int option"
  published_by_principal_id :: "uuid option"
  deprecated_by_principal_id :: "uuid option"
  revoked_by_principal_id :: "uuid option"

section \<open>Graph validation errors\<close>

text \<open>
  A validation error has a stable code and a human-readable message.  The message is a fixed
  text, chosen by the push, with values put into it; the model keeps the code and the values.
\<close>

datatype msg_arg = MStr string | MId uuid | MInt int

record graph_validation_error =
  code :: string
  message :: "msg_arg list"

abbreviation gve :: "string \<Rightarrow> msg_arg list \<Rightarrow> graph_validation_error" where
  "gve c args \<equiv> \<lparr>code = c, message = args\<rparr>"

record validation_result =
  valid :: bool
  errors :: "graph_validation_error list"
  warnings :: "string list"
  computed_digest :: "string option"

text \<open>Every validator ends the same way: valid exactly when no error was pushed.\<close>

definition result_of_errors :: "graph_validation_error list \<Rightarrow> validation_result" where
  "result_of_errors es =
     \<lparr>valid = (es = []), errors = es, warnings = [], computed_digest = None\<rparr>"

lemma result_of_errors_simps [simp]:
  "valid (result_of_errors es) = (es = [])"
  "errors (result_of_errors es) = es"
  by (simp_all add: result_of_errors_def)

definition codes :: "validation_result \<Rightarrow> string set" where
  "codes r = code ` set (errors r)"

section \<open>Lookups and edges of a graph\<close>

definition nodes_by_id :: "workflow_graph \<Rightarrow> uuid \<rightharpoonup> node_definition" where
  "nodes_by_id g = hm_collect (map (\<lambda>n. (node_id n, n)) (nodes g))"

definition transitions_by_id :: "workflow_graph \<Rightarrow> uuid \<rightharpoonup> transition_definition" where
  "transitions_by_id g = hm_collect (map (\<lambda>t. (transition_id t, t)) (transitions g))"

definition edge :: "transition_definition \<Rightarrow> uuid \<times> uuid" where
  "edge t = (source_node_id t, target_node_id t)"

definition edges_with :: "(transition_effect \<Rightarrow> bool) \<Rightarrow> workflow_graph \<Rightarrow> (uuid \<times> uuid) list" where
  "edges_with P g = map edge (filter (\<lambda>t. P (transition_effect t)) (transitions g))"

definition all_edges :: "workflow_graph \<Rightarrow> (uuid \<times> uuid) list" where
  "all_edges g = edges_with (\<lambda>_. True) g"

definition advance_edges :: "workflow_graph \<Rightarrow> (uuid \<times> uuid) list" where
  "advance_edges g = edges_with (\<lambda>e. e = Advance) g"

definition distinct_ids :: "workflow_graph \<Rightarrow> bool" where
  "distinct_ids g \<longleftrightarrow>
     distinct (map node_id (nodes g)) \<and> distinct (map transition_id (transitions g))"

lemma nodes_by_id_Some:
  "distinct_ids g \<Longrightarrow> nodes_by_id g i = Some n \<longleftrightarrow> n \<in> set (nodes g) \<and> node_id n = i"
  unfolding nodes_by_id_def distinct_ids_def
  by (subst hm_collect_is_Some) (auto simp: comp_def)

lemma nodes_by_id_None: "nodes_by_id g i = None \<longleftrightarrow> i \<notin> node_id ` set (nodes g)"
  by (force simp: nodes_by_id_def hm_collect_None)

lemma nodes_by_id_SomeD: "nodes_by_id g i = Some n \<Longrightarrow> n \<in> set (nodes g) \<and> node_id n = i"
  unfolding nodes_by_id_def by (drule hm_collect_SomeD) auto

lemma transitions_by_id_Some:
  "distinct_ids g \<Longrightarrow>
     transitions_by_id g i = Some t \<longleftrightarrow> t \<in> set (transitions g) \<and> transition_id t = i"
  unfolding transitions_by_id_def distinct_ids_def
  by (subst hm_collect_is_Some) (auto simp: comp_def)

lemma transitions_by_id_SomeD:
  "transitions_by_id g i = Some t \<Longrightarrow> t \<in> set (transitions g) \<and> transition_id t = i"
  unfolding transitions_by_id_def by (drule hm_collect_SomeD) auto

lemma set_edges_with:
  "set (edges_with P g) =
     {(source_node_id t, target_node_id t) |t. t \<in> set (transitions g) \<and> P (transition_effect t)}"
  by (auto simp: edges_with_def edge_def)

end
