(* ===== verification/Graph_Search.thy ===== *)
theory Graph_Search
  imports Model
begin

text \<open>
  The graph algorithms of the definition validators, over adjacency lists kept as the code keeps
  them (a hash map from a node to the vector of its targets, in push order):
  the depth-first stack search of \<open>graph_helpers.rs\<close>, the breadth-first queue search that
  \<open>minimal_validator.rs\<close> and \<open>visit_activation_validator.rs\<close> each carry a copy of, and Kahn's
  cycle test of \<open>minimal_validator.rs\<close>.  The locale \<open>graph_search\<close> is the contract the validators
  rely on (the search returns the reflexive transitive closure); both searches discharge it.
\<close>

section \<open>Adjacency lists\<close>

type_synonym 'a adj = "('a \<times> 'a list) list"

text \<open>\<open>adj.entry(k).or_default().push(v)\<close>.\<close>

fun adj_push :: "'a \<Rightarrow> 'a \<Rightarrow> 'a adj \<Rightarrow> 'a adj" where
  "adj_push k v [] = [(k, [v])]"
| "adj_push k v ((k', vs) # m) = (if k = k' then (k', vs @ [v]) # m else (k', vs) # adj_push k v m)"

fun adj_push_all :: "'a adj \<Rightarrow> ('a \<times> 'a) list \<Rightarrow> 'a adj" where
  "adj_push_all m [] = m"
| "adj_push_all m ((s, t) # es) = adj_push_all (adj_push s t m) es"

definition build_adj :: "('a \<times> 'a) list \<Rightarrow> 'a adj" where
  "build_adj es = adj_push_all [] es"

text \<open>\<open>if let Some(next) = adj.get(u)\<close>, with no targets for a missing key.\<close>

definition adj_next :: "'a adj \<Rightarrow> 'a \<Rightarrow> 'a list" where
  "adj_next m u = (case map_of m u of None \<Rightarrow> [] | Some vs \<Rightarrow> vs)"

definition adj_rel :: "'a adj \<Rightarrow> ('a \<times> 'a) set" where
  "adj_rel m = {(u, v). v \<in> set (adj_next m u)}"

definition adj_targets :: "'a adj \<Rightarrow> 'a set" where
  "adj_targets m = (\<Union>p\<in>set m. set (snd p))"

lemma map_of_adj_push:
  "map_of (adj_push k v m) u = (if u = k then Some (adj_next m k @ [v]) else map_of m u)"
  by (induction k v m rule: adj_push.induct) (auto simp: adj_next_def)

lemma adj_next_push: "adj_next (adj_push k v m) u = (if u = k then adj_next m k @ [v] else adj_next m u)"
  by (simp add: adj_next_def map_of_adj_push)

lemma fst_adj_push: "fst ` set (adj_push k v m) = insert k (fst ` set m)"
  by (induction k v m rule: adj_push.induct) auto

lemma distinct_adj_push: "distinct (map fst m) \<Longrightarrow> distinct (map fst (adj_push k v m))"
proof (induction k v m rule: adj_push.induct)
  case (2 k v k' vs m)
  then show ?case using fst_adj_push [of k v m] by (auto simp: image_iff)
qed simp

lemma adj_next_push_all:
  "adj_next (adj_push_all m es) u = adj_next m u @ map snd (filter (\<lambda>e. fst e = u) es)"
  by (induction m es rule: adj_push_all.induct) (auto simp: adj_next_push)

lemma adj_next_build: "adj_next (build_adj es) u = map snd (filter (\<lambda>e. fst e = u) es)"
  by (simp add: build_adj_def adj_next_push_all) (simp add: adj_next_def)

lemma distinct_adj_push_all: "distinct (map fst m) \<Longrightarrow> distinct (map fst (adj_push_all m es))"
  by (induction m es rule: adj_push_all.induct) (auto simp: distinct_adj_push)

lemma distinct_build_adj: "distinct (map fst (build_adj es))"
  by (simp add: build_adj_def distinct_adj_push_all)

lemma adj_rel_push_all: "adj_rel (adj_push_all m es) = adj_rel m \<union> set es"
  by (force simp: adj_rel_def adj_next_push_all)

lemma adj_rel_build: "adj_rel (build_adj es) = set es"
  by (force simp: adj_rel_def adj_next_build)

lemma finite_adj_targets [simp]: "finite (adj_targets m)"
  by (simp add: adj_targets_def)

lemma adj_next_targets: "set (adj_next m u) \<subseteq> adj_targets m"
proof (cases "map_of m u")
  case (Some vs)
  then have "(u, vs) \<in> set m" by (rule map_of_SomeD)
  with Some show ?thesis by (force simp: adj_next_def adj_targets_def)
qed (simp add: adj_next_def)

lemma adj_rel_targets: "(u, v) \<in> adj_rel m \<Longrightarrow> v \<in> adj_targets m"
  using adj_next_targets [of m u] by (auto simp: adj_rel_def)

section \<open>The contract of a search\<close>

locale graph_search =
  fixes search :: "'a adj \<Rightarrow> 'a \<Rightarrow> 'a set"
  assumes search_sound: "x \<in> search m s \<Longrightarrow> (s, x) \<in> (adj_rel m)\<^sup>*"
    and search_complete: "(s, x) \<in> (adj_rel m)\<^sup>* \<Longrightarrow> x \<in> search m s"
begin

lemma search_iff: "x \<in> search m s \<longleftrightarrow> (s, x) \<in> (adj_rel m)\<^sup>*"
  using search_sound search_complete by blast

lemma search_build_iff: "x \<in> search (build_adj es) s \<longleftrightarrow> (s, x) \<in> (set es)\<^sup>*"
  by (simp add: search_iff adj_rel_build)

lemma start_in_search: "s \<in> search m s"
  by (simp add: search_iff)

lemma search_trans: "x \<in> search m s \<Longrightarrow> y \<in> search m x \<Longrightarrow> y \<in> search m s"
  by (simp add: search_iff)

lemma search_mono: "set es \<subseteq> set es' \<Longrightarrow> search (build_adj es) s \<subseteq> search (build_adj es') s"
  using rtrancl_mono [of "set es" "set es'"] by (auto simp: search_build_iff)

lemma search_least:
  assumes "s \<in> A" and "\<And>a b. a \<in> A \<Longrightarrow> (a, b) \<in> adj_rel m \<Longrightarrow> b \<in> A"
  shows "search m s \<subseteq> A"
proof
  fix x assume "x \<in> search m s"
  then have "(s, x) \<in> (adj_rel m)\<^sup>*" by (rule search_sound)
  then show "x \<in> A" using assms by (rule rtrancl_closed)
qed

end

section \<open>Depth-first search with a stack\<close>

text \<open>The head of the list is the top of the stack; the neighbours are pushed in order.\<close>

function dfs_loop :: "'a adj \<Rightarrow> 'a set \<Rightarrow> 'a list \<Rightarrow> 'a set" where
  "dfs_loop m reachable [] = reachable"
| "dfs_loop m reachable (current # stack) =
     (if current \<in> reachable then dfs_loop m reachable stack
      else let reachable' = insert current reachable
           in dfs_loop m reachable'
                (rev (filter (\<lambda>next. next \<notin> reachable') (adj_next m current)) @ stack))"
  by pat_completeness auto
termination
proof (relation "measures [\<lambda>(m, seen, st). card ((adj_targets m \<union> set st) - seen), \<lambda>(m, seen, st). length st]")
  fix m :: "'a adj" and seen :: "'a set" and u st
  assume "u \<in> seen"
  then have "(adj_targets m \<union> set (u # st)) - seen = (adj_targets m \<union> set st) - seen" by auto
  then show "((m, seen, st), (m, seen, u # st)) \<in>
      measures [\<lambda>(m, seen, st). card ((adj_targets m \<union> set st) - seen), \<lambda>(m, seen, st). length st]"
    by simp
next
  fix m :: "'a adj" and seen seen' :: "'a set" and u st
  assume new: "u \<notin> seen" and seen': "seen' = insert u seen"
  let ?st = "rev (filter (\<lambda>v. v \<notin> seen') (adj_next m u)) @ st"
  have "(adj_targets m \<union> set ?st) - seen' \<subset> (adj_targets m \<union> set (u # st)) - seen"
    using new adj_next_targets [of m u] by (auto simp: seen')
  then have "card ((adj_targets m \<union> set ?st) - seen') < card ((adj_targets m \<union> set (u # st)) - seen)"
    by (intro psubset_card_mono) auto
  then show "((m, seen', ?st), (m, seen, u # st)) \<in>
      measures [\<lambda>(m, seen, st). card ((adj_targets m \<union> set st) - seen), \<lambda>(m, seen, st). length st]"
    by simp
qed simp

text \<open>\<open>compute_directed_reachable\<close> builds the adjacency list of every transition, then searches.\<close>

definition dfs :: "'a adj \<Rightarrow> 'a \<Rightarrow> 'a set" where
  "dfs m start = dfs_loop m {} [start]"

definition compute_directed_reachable :: "transition_definition list \<Rightarrow> uuid \<Rightarrow> uuid set" where
  "compute_directed_reachable ts start_node_id = dfs (build_adj (map edge ts)) start_node_id"

lemma dfs_loop_sound:
  assumes "x \<in> dfs_loop m seen st"
  shows "x \<in> seen \<or> (\<exists>s\<in>set st. (s, x) \<in> (adj_rel m)\<^sup>*)"
  using assms
proof (induction m seen st rule: dfs_loop.induct)
  case (2 m seen u st)
  show ?case
  proof (cases "u \<in> seen")
    case True
    then show ?thesis using 2 by auto
  next
    case False
    let ?st = "rev (filter (\<lambda>v. v \<notin> insert u seen) (adj_next m u)) @ st"
    have "x \<in> insert u seen \<or> (\<exists>s\<in>set ?st. (s, x) \<in> (adj_rel m)\<^sup>*)"
      using "2.IH"(2) [OF False refl] "2.prems" False by (simp add: Let_def)
    moreover have "(u, x) \<in> (adj_rel m)\<^sup>*"
      if "s \<in> set (adj_next m u)" "(s, x) \<in> (adj_rel m)\<^sup>*" for s
      using that by (auto simp: adj_rel_def intro: converse_rtrancl_into_rtrancl)
    ultimately show ?thesis by auto
  qed
qed simp

lemma dfs_loop_complete:
  assumes "\<forall>u\<in>seen. \<forall>v\<in>set (adj_next m u). v \<in> seen \<or> v \<in> set st"
  shows "seen \<union> set st \<subseteq> dfs_loop m seen st \<and>
    (\<forall>u\<in>dfs_loop m seen st. set (adj_next m u) \<subseteq> dfs_loop m seen st)"
  using assms
proof (induction m seen st rule: dfs_loop.induct)
  case (1 m seen)
  then show ?case by auto
next
  case (2 m seen u st)
  show ?case
  proof (cases "u \<in> seen")
    case True
    then have "\<forall>w\<in>seen. \<forall>v\<in>set (adj_next m w). v \<in> seen \<or> v \<in> set st"
      using "2.prems" by auto
    then show ?thesis using "2.IH"(1) [OF True] True by auto
  next
    case False
    let ?st = "rev (filter (\<lambda>v. v \<notin> insert u seen) (adj_next m u)) @ st"
    have "\<forall>w\<in>insert u seen. \<forall>v\<in>set (adj_next m w). v \<in> insert u seen \<or> v \<in> set ?st"
      using "2.prems" by auto
    from "2.IH"(2) [OF False refl this] False show ?thesis by (auto simp: Let_def)
  qed
qed

interpretation dfs_search: graph_search dfs
proof
  fix x s :: 'a and m
  assume "x \<in> dfs m s"
  then show "(s, x) \<in> (adj_rel m)\<^sup>*"
    using dfs_loop_sound [of x m "{}" "[s]"] by (simp add: dfs_def)
next
  fix x s :: 'a and m
  assume "(s, x) \<in> (adj_rel m)\<^sup>*"
  moreover have "s \<in> dfs m s" and "\<And>a b. a \<in> dfs m s \<Longrightarrow> (a, b) \<in> adj_rel m \<Longrightarrow> b \<in> dfs m s"
    using dfs_loop_complete [of "{}" m "[s]"] by (auto simp: dfs_def adj_rel_def)
  ultimately show "x \<in> dfs m s" by (rule rtrancl_closed)
qed

section \<open>Breadth-first search with a queue\<close>

text \<open>\<open>for target in next { if seen.insert(target) { queue.push_back(target) } }\<close>.\<close>

fun bfs_enqueue :: "'a set \<Rightarrow> 'a list \<Rightarrow> 'a list \<Rightarrow> 'a set \<times> 'a list" where
  "bfs_enqueue seen queue [] = (seen, queue)"
| "bfs_enqueue seen queue (t # ts) =
     (if t \<in> seen then bfs_enqueue seen queue ts
      else bfs_enqueue (insert t seen) (queue @ [t]) ts)"

lemma bfs_enqueue_sets:
  assumes "bfs_enqueue seen queue ts = (seen', queue')"
  shows "seen' = seen \<union> set ts" and "set queue' = set queue \<union> (set ts - seen)"
  using assms by (induction seen queue ts rule: bfs_enqueue.induct) (auto split: if_splits)

lemma bfs_enqueue_card:
  assumes "bfs_enqueue seen queue ts = (seen', queue')" and "finite T" and "set ts \<subseteq> T"
  shows "card (T - seen') + length queue' \<le> card (T - seen) + length queue"
  using assms
proof (induction seen queue ts rule: bfs_enqueue.induct)
  case (2 seen queue t ts)
  show ?case
  proof (cases "t \<in> seen")
    case False
    have eq: "insert t (T - insert t seen) = T - seen" using False "2.prems" by auto
    have "card (insert t (T - insert t seen)) = Suc (card (T - insert t seen))"
      using "2.prems"(2) by (intro card_insert_disjoint) auto
    then have "card (T - seen) = Suc (card (T - insert t seen))" unfolding eq .
    then show ?thesis using "2.IH"(2) [OF False] False "2.prems" by simp
  qed (use 2 in simp)
qed simp

lemma bfs_enqueue_decreases:
  "bfs_enqueue seen queue (adj_next m u) = (seen', queue') \<Longrightarrow>
     card (adj_targets m - seen') + length queue' \<le> card (adj_targets m - seen) + length queue"
  by (rule bfs_enqueue_card [OF _ finite_adj_targets adj_next_targets])

function bfs_loop :: "'a adj \<Rightarrow> 'a set \<Rightarrow> 'a list \<Rightarrow> 'a set" where
  "bfs_loop m seen [] = seen"
| "bfs_loop m seen (node # queue) =
     (case bfs_enqueue seen queue (adj_next m node) of (seen', queue') \<Rightarrow> bfs_loop m seen' queue')"
  by pat_completeness auto
termination
proof (relation "measure (\<lambda>(m, seen, q). card (adj_targets m - seen) + length q)")
  fix m :: "'a adj" and seen seen' :: "'a set" and u q q'
  assume "(seen', q') = bfs_enqueue seen q (adj_next m u)"
  then have "bfs_enqueue seen q (adj_next m u) = (seen', q')" by simp
  then show "((m, seen', q'), (m, seen, u # q)) \<in> measure (\<lambda>(m, seen, q). card (adj_targets m - seen) + length q)"
    using bfs_enqueue_decreases [of seen q m u seen' q'] by simp
qed simp

definition bfs :: "'a adj \<Rightarrow> 'a \<Rightarrow> 'a set" where
  "bfs m start = bfs_loop m {start} [start]"

text \<open>
  The invariant of the queue search: the queue is seen, and every seen node that is not queued
  has its targets seen.
\<close>

definition bfs_inv :: "'a adj \<Rightarrow> 'a set \<Rightarrow> 'a list \<Rightarrow> bool" where
  "bfs_inv m seen q \<longleftrightarrow>
     set q \<subseteq> seen \<and> (\<forall>u\<in>seen. u \<in> set q \<or> set (adj_next m u) \<subseteq> seen)"

lemma bfs_inv_step:
  assumes "bfs_inv m seen (u # q)" and "bfs_enqueue seen q (adj_next m u) = (seen', q')"
  shows "bfs_inv m seen' q' \<and> seen' = seen \<union> set (adj_next m u)"
proof -
  from bfs_enqueue_sets [OF assms(2)] have "seen' = seen \<union> set (adj_next m u)" "set q' = set q \<union> (set (adj_next m u) - seen)" by auto
  with assms(1) show ?thesis by (auto simp: bfs_inv_def)
qed

lemma bfs_loop_correct:
  assumes "bfs_inv m seen q"
  shows "seen \<subseteq> bfs_loop m seen q \<and>
    (\<forall>u\<in>bfs_loop m seen q. set (adj_next m u) \<subseteq> bfs_loop m seen q) \<and>
    (\<forall>x\<in>bfs_loop m seen q. \<exists>s\<in>seen. (s, x) \<in> (adj_rel m)\<^sup>*)"
  using assms
proof (induction m seen q rule: bfs_loop.induct)
  case (1 m seen)
  then show ?case by (auto simp: bfs_inv_def)
next
  case (2 m seen u q)
  obtain seen' q' where e: "bfs_enqueue seen q (adj_next m u) = (seen', q')" by force
  from bfs_inv_step [OF "2.prems" e]
  have inv: "bfs_inv m seen' q'" and s': "seen' = seen \<union> set (adj_next m u)" by auto
  have u: "u \<in> seen" using "2.prems" by (simp add: bfs_inv_def)
  have prefix: "\<exists>s\<in>seen. (s, y) \<in> (adj_rel m)\<^sup>*" if "r \<in> seen'" "(r, y) \<in> (adj_rel m)\<^sup>*" for r y
    using that u by (auto simp: s' adj_rel_def intro: converse_rtrancl_into_rtrancl)
  have step: "bfs_loop m seen (u # q) = bfs_loop m seen' q'" by (simp add: e)
  have "seen \<subseteq> seen'" by (simp add: s')
  with "2.IH" [OF e [symmetric] inv] prefix show ?case unfolding step by blast
qed

interpretation bfs_search: graph_search bfs
proof
  fix x s :: 'a and m
  assume "x \<in> bfs m s"
  then show "(s, x) \<in> (adj_rel m)\<^sup>*"
    using bfs_loop_correct [of m "{s}" "[s]"] by (auto simp: bfs_def bfs_inv_def)
next
  fix x s :: 'a and m
  assume "(s, x) \<in> (adj_rel m)\<^sup>*"
  moreover have "s \<in> bfs m s \<and> (\<forall>u\<in>bfs m s. set (adj_next m u) \<subseteq> bfs m s)"
    using bfs_loop_correct [of m "{s}" "[s]"] by (simp add: bfs_def bfs_inv_def)
  then have "s \<in> bfs m s" and "\<And>a b. a \<in> bfs m s \<Longrightarrow> (a, b) \<in> adj_rel m \<Longrightarrow> b \<in> bfs m s"
    by (auto simp: adj_rel_def)
  ultimately show "x \<in> bfs m s" by (rule rtrancl_closed)
qed

end
