(* ===== verification/Primary_Trunk.thy ===== *)
theory Primary_Trunk
  imports Graph_Search
begin

text \<open>
  The two walks along the primary targets of a Legacy graph (\<open>graph/transition_validation.rs\<close>): the
  cycle check \<open>validate_primary_acyclic\<close> and \<open>validate_trunk_reaches_terminal\<close>.  The first always
  ends and reports an error exactly on a cycle.  The second is a partial function, whose value
  \<open>None\<close> says that the loop does not return: it returns on every trunk that ends, and does not on a
  trunk that runs into a cycle of two or more non-terminal nodes.
\<close>

section \<open>Successor functions\<close>

text \<open>A map that gives each node at most one successor, its relation, and the walks that end.\<close>

definition succ_rel :: "('a \<rightharpoonup> 'a) \<Rightarrow> ('a \<times> 'a) set" where
  "succ_rel f = {(u, v). f u = Some v}"

inductive ends :: "('a \<rightharpoonup> 'a) \<Rightarrow> 'a \<Rightarrow> bool" for f where
  ends_here: "f u = None \<Longrightarrow> ends f u"
| ends_next: "f u = Some v \<Longrightarrow> ends f v \<Longrightarrow> ends f u"

inductive_cases ends_cases: "ends f u"

lemma succ_rel_trancl_next:
  assumes "(u, w) \<in> (succ_rel f)\<^sup>+" and "f u = Some v"
  shows "(v, w) \<in> (succ_rel f)\<^sup>*"
  using assms by (induction rule: trancl_induct) (auto simp: succ_rel_def intro: rtrancl_into_rtrancl)

lemma ends_no_cycle: "ends f u \<Longrightarrow> (u, u) \<notin> (succ_rel f)\<^sup>+"
proof (induction rule: ends.induct)
  case (ends_here u)
  show ?case
  proof
    assume "(u, u) \<in> (succ_rel f)\<^sup>+"
    then show False by (rule tranclE2) (simp add: succ_rel_def ends_here)
  qed
next
  case (ends_next u v)
  show ?case
  proof
    assume "(u, u) \<in> (succ_rel f)\<^sup>+"
    then have "(v, u) \<in> (succ_rel f)\<^sup>*" using ends_next.hyps(1) by (rule succ_rel_trancl_next)
    moreover have "(u, v) \<in> succ_rel f" using ends_next.hyps(1) by (simp add: succ_rel_def)
    ultimately have "(v, v) \<in> (succ_rel f)\<^sup>+" by (rule rtrancl_into_trancl1)
    with ends_next.IH show False by blast
  qed
qed

lemma ends_if_increasing:
  fixes k :: "'a \<Rightarrow> int"
  assumes "\<And>u v. f u = Some v \<Longrightarrow> k u < k v \<and> k v \<le> bound"
  shows "ends f u"
proof (induction "nat (bound - k u)" arbitrary: u rule: less_induct)
  case less
  show ?case
  proof (cases "f u")
    case None
    then show ?thesis by (rule ends_here)
  next
    case (Some v)
    with assms [of u v] have "nat (bound - k v) < nat (bound - k u)" by auto
    from ends_next [OF Some less [OF this]] show ?thesis .
  qed
qed

lemma ends_if_acyclic:
  assumes "finite (succ_rel f)" and "acyclic (succ_rel f)"
  shows "ends f u"
proof -
  have "wf ((succ_rel f)\<inverse>)" using assms by (rule finite_acyclic_wf_converse)
  then show ?thesis
  proof (induction u rule: wf_induct_rule)
    case (less u)
    show ?case
    proof (cases "f u")
      case (Some v)
      then have "(v, u) \<in> (succ_rel f)\<inverse>" by (simp add: succ_rel_def)
      from ends_next [OF Some less [OF this]] show ?thesis .
    qed (rule ends_here)
  qed
qed

lemma acyclic_if_ends:
  assumes "\<forall>u\<in>dom f. ends f u"
  shows "acyclic (succ_rel f)"
  unfolding acyclic_def
proof (intro allI notI)
  fix u assume c: "(u, u) \<in> (succ_rel f)\<^sup>+"
  obtain v where "f u = Some v" using c by (rule tranclE2) (simp add: succ_rel_def)
  then have "u \<in> dom f" by (simp add: domI)
  with assms have "ends f u" by (rule bspec)
  then show False using c ends_no_cycle [of f u] by simp
qed

section \<open>The primary relation\<close>

text \<open>\<open>primary_targets: HashMap<NodeId, NodeId>\<close>, an association list with distinct keys.\<close>

type_synonym 'a targets = "('a \<times> 'a) list"

abbreviation pt_rel :: "'a targets \<Rightarrow> ('a \<times> 'a) set" where
  "pt_rel pt \<equiv> succ_rel (map_of pt)"

section \<open>The cycle check\<close>

text \<open>
  The inner loop from one start node: the path walked, and the nodes of a cycle if it closed one.
  \<open>in_path\<close> is the set of the nodes of \<open>path\<close> at every step.
\<close>

function walk :: "'a targets \<Rightarrow> 'a set \<Rightarrow> 'a list \<Rightarrow> 'a \<Rightarrow> 'a list \<times> 'a list option" where
  "walk pt visited path current =
     (if current \<in> set path then (path, Some (dropWhile (\<lambda>n. n \<noteq> current) path))
      else if current \<in> visited then (path, None)
      else (case map_of pt current of
              Some next \<Rightarrow> walk pt visited (path @ [current]) next
            | None \<Rightarrow> (path @ [current], None)))"
  by pat_completeness auto
termination
proof (relation "measure (\<lambda>(pt, vis, path, cur). card (insert cur (snd ` set pt) - set path))")
  fix pt :: "'a targets" and vis path cur nxt
  assume cur: "cur \<notin> set path" and "map_of pt cur = Some nxt"
  then have "nxt \<in> snd ` set pt" by (force dest: map_of_SomeD)
  then have "insert nxt (snd ` set pt) - set (path @ [cur]) \<subset> insert cur (snd ` set pt) - set path"
    using cur by auto
  then have "card (insert nxt (snd ` set pt) - set (path @ [cur])) < card (insert cur (snd ` set pt) - set path)"
    by (intro psubset_card_mono) auto
  then show "((pt, vis, path @ [cur], nxt), (pt, vis, path, cur))
      \<in> measure (\<lambda>(pt, vis, path, cur). card (insert cur (snd ` set pt) - set path))"
    by simp
qed simp

declare walk.simps [simp del]

text \<open>The outer loop over the start nodes; a cycle is reported with the keys of its nodes.\<close>

fun primary_acyclic_from ::
  "uuid targets \<Rightarrow> (uuid \<Rightarrow> string) \<Rightarrow> uuid set \<Rightarrow> uuid list \<Rightarrow> graph_validation_error list" where
  "primary_acyclic_from pt key_of visited [] = []"
| "primary_acyclic_from pt key_of visited (s # ss) =
     (if s \<in> visited then primary_acyclic_from pt key_of visited ss
      else (case walk pt visited [] s of
              (path, cycle) \<Rightarrow>
                (case cycle of
                   None \<Rightarrow> []
                 | Some ns \<Rightarrow> [gve ''PRIMARY_CYCLE'' (map (\<lambda>n. MStr (key_of n)) ns)]) @
                primary_acyclic_from pt key_of (visited \<union> set path) ss))"

definition node_key_or_unknown :: "(uuid \<rightharpoonup> node_definition) \<Rightarrow> uuid \<Rightarrow> string" where
  "node_key_or_unknown nbi n = (case nbi n of None \<Rightarrow> ''?'' | Some node \<Rightarrow> node_key node)"

definition validate_primary_acyclic ::
  "(uuid list \<Rightarrow> uuid list) \<Rightarrow> uuid list \<Rightarrow> (uuid \<rightharpoonup> node_definition) \<Rightarrow> uuid targets \<Rightarrow>
     graph_validation_error list" where
  "validate_primary_acyclic it node_ids nbi pt =
     primary_acyclic_from pt (node_key_or_unknown nbi) {} (it node_ids)"

lemma walk_steps:
  "c \<in> set path \<Longrightarrow> walk pt vis path c = (path, Some (dropWhile (\<lambda>n. n \<noteq> c) path))"
  "c \<notin> set path \<Longrightarrow> c \<in> vis \<Longrightarrow> walk pt vis path c = (path, None)"
  "c \<notin> set path \<Longrightarrow> c \<notin> vis \<Longrightarrow> map_of pt c = None \<Longrightarrow> walk pt vis path c = (path @ [c], None)"
  "c \<notin> set path \<Longrightarrow> c \<notin> vis \<Longrightarrow> map_of pt c = Some v \<Longrightarrow>
     walk pt vis path c = walk pt vis (path @ [c]) v"
  by (simp_all add: walk.simps [of pt vis path c])

lemma walk_none:
  assumes "walk pt visited path current = (path', None)"
    and "\<And>v. v \<in> visited \<Longrightarrow> ends (map_of pt) v" and "ends (map_of pt) current \<Longrightarrow> \<forall>u\<in>set path. ends (map_of pt) u"
  shows "ends (map_of pt) current \<and> (\<forall>u\<in>set path'. ends (map_of pt) u)"
  using assms
proof (induction pt visited path current rule: walk.induct)
  case (1 pt visited path current)
  have new: "current \<notin> set path"
    using "1.prems"(1) walk_steps(1) [of current path pt visited] by auto
  show ?case
  proof (cases "current \<in> visited")
    case True
    have "path' = path" and "ends (map_of pt) current"
      using walk_steps(2) [OF new True, of pt] True "1.prems" by simp_all
    then show ?thesis using "1.prems"(3) by simp
  next
    case False
    show ?thesis
    proof (cases "map_of pt current")
      case None
      have "path' = path @ [current]"
        using walk_steps(3) [OF new False None] "1.prems"(1) by simp
      then show ?thesis using "1.prems"(3) ends_here [of "map_of pt", OF None] by simp
    next
      case (Some v)
      from Some "1.prems"(1) new False have w: "walk pt visited (path @ [current]) v = (path', None)"
        by (simp add: walk_steps(4))
      have inv: "ends (map_of pt) v \<Longrightarrow> \<forall>u\<in>set (path @ [current]). ends (map_of pt) u"
      proof -
        assume "ends (map_of pt) v"
        with Some have "ends (map_of pt) current" by (rule ends_next)
        then show ?thesis using "1.prems"(3) by simp
      qed
      note IH = "1.IH" [OF new False Some w "1.prems"(2) inv]
      show ?thesis using IH ends_next [of "map_of pt", OF Some] by simp
    qed
  qed
qed

lemma walk_some:
  assumes "walk pt visited path current = (path', Some ns)"
    and "\<forall>u\<in>set path. (u, current) \<in> (pt_rel pt)\<^sup>+"
  shows "\<not> ends (map_of pt) current"
  using assms
proof (induction pt visited path current rule: walk.induct)
  case (1 pt visited path current)
  show ?case
  proof (cases "current \<in> set path")
    case True
    then have "(current, current) \<in> (pt_rel pt)\<^sup>+" using "1.prems"(2) by simp
    then show ?thesis using ends_no_cycle [of "map_of pt" current] by fast
  next
    case False
    have vis: "current \<notin> visited"
      using "1.prems"(1) walk_steps(2) [OF False, of visited pt] by auto
    obtain v where s: "map_of pt current = Some v"
      using "1.prems"(1) walk_steps(3) [OF False vis] by (cases "map_of pt current") auto
    note v = vis s walk_steps(4) [OF False vis s, symmetric, unfolded "1.prems"(1)]
    have cv: "(current, v) \<in> pt_rel pt" using v(2) by (simp add: succ_rel_def)
    then have "\<forall>u\<in>set (path @ [current]). (u, v) \<in> (pt_rel pt)\<^sup>+"
      using "1.prems"(2) by (auto intro: trancl_into_trancl)
    from "1.IH" [OF False v this] v(2) show ?thesis by (auto elim: ends_cases)
  qed
qed

lemma primary_acyclic_from_Nil_iff:
  assumes "\<forall>v\<in>visited. ends (map_of pt) v"
  shows "primary_acyclic_from pt key_of visited ss = [] \<longleftrightarrow> (\<forall>s\<in>set ss. ends (map_of pt) s)"
  using assms
proof (induction ss arbitrary: visited)
  case (Cons s ss)
  show ?case
  proof (cases "s \<in> visited")
    case True
    then show ?thesis using Cons by simp
  next
    case False
    obtain path cycle where w: "walk pt visited [] s = (path, cycle)" by force
    show ?thesis
    proof (cases cycle)
      case None
      have *: "ends (map_of pt) s \<and> (\<forall>u\<in>set path. ends (map_of pt) u)"
        using walk_none [OF w [unfolded None]] Cons.prems by simp
      then have "\<forall>v\<in>visited \<union> set path. ends (map_of pt) v" using Cons.prems by auto
      from Cons.IH [OF this] show ?thesis using False w None * by simp
    next
      case (Some ns)
      have "\<not> ends (map_of pt) s" using walk_some [OF w [unfolded Some]] by simp
      then show ?thesis using False w Some by simp
    qed
  qed
qed simp

lemma finite_pt_rel: "finite (pt_rel pt)"
  by (rule finite_subset [of _ "set pt"]) (auto simp: succ_rel_def dest: map_of_SomeD)

lemma acyclic_iff_ends: "acyclic (pt_rel pt) \<longleftrightarrow> (\<forall>u\<in>fst ` set pt. ends (map_of pt) u)"
  using acyclic_if_ends [of "map_of pt"] ends_if_acyclic [OF finite_pt_rel]
  by (auto simp: dom_map_of_conv_image_fst)

text \<open>Whatever the iteration order, the check is silent exactly on an acyclic relation.\<close>

lemma validate_primary_acyclic_Nil_iff:
  assumes "is_iteration it" and "fst ` set pt \<subseteq> set ids"
  shows "validate_primary_acyclic it ids nbi pt = [] \<longleftrightarrow> acyclic (pt_rel pt)"
proof -
  have "validate_primary_acyclic it ids nbi pt = [] \<longleftrightarrow> (\<forall>s\<in>set ids. ends (map_of pt) s)"
    unfolding validate_primary_acyclic_def
    by (subst primary_acyclic_from_Nil_iff) (auto simp: is_iteration_set [OF assms(1)])
  then show ?thesis using ends_if_acyclic [OF finite_pt_rel, of pt] assms(2) acyclic_iff_ends [of pt] by blast
qed

section \<open>The walk to a terminal node\<close>

partial_function (option) trunk_loop ::
  "(uuid \<rightharpoonup> node_definition) \<Rightarrow> uuid targets \<Rightarrow> string \<Rightarrow> uuid \<Rightarrow> graph_validation_error list option" where
  [code]: "trunk_loop nbi pt draft_key current =
     (case nbi current of
        None \<Rightarrow> Some []
      | Some node \<Rightarrow>
          if node_type node = NT_TERMINAL then Some []
          else (case map_of pt current of
                  None \<Rightarrow> Some [gve ''PRIMARY_TRUNK_NO_TERMINAL'' [MStr draft_key]]
                | Some next \<Rightarrow>
                    if next = current then Some [] else trunk_loop nbi pt draft_key next))"

definition validate_trunk_reaches_terminal ::
  "node_definition list \<Rightarrow> (uuid \<rightharpoonup> node_definition) \<Rightarrow> uuid targets \<Rightarrow>
     graph_validation_error list option" where
  "validate_trunk_reaches_terminal draft_nodes nbi pt =
     (case draft_nodes of
        [] \<Rightarrow> Some []
      | draft # _ \<Rightarrow> trunk_loop nbi pt (node_key draft) (node_id draft))"

lemma trunk_loop_returns: "ends (map_of pt) u \<Longrightarrow> \<exists>es. trunk_loop nbi pt k u = Some es"
proof (induction rule: ends.induct)
  case (ends_here u)
  then show ?case by (subst trunk_loop.simps) (auto split: option.splits)
next
  case (ends_next u v)
  then show ?case by (subst trunk_loop.simps) (auto split: option.splits)
qed

text \<open>
  A set of known non-terminal nodes closed under the primary relation, without self-loops, keeps
  the loop forever.
\<close>

definition trunk_trap :: "(uuid \<rightharpoonup> node_definition) \<Rightarrow> uuid targets \<Rightarrow> uuid set \<Rightarrow> bool" where
  "trunk_trap nbi pt S \<longleftrightarrow>
     (\<forall>u\<in>S. (\<exists>n. nbi u = Some n \<and> node_type n \<noteq> NT_TERMINAL) \<and>
            (\<exists>v\<in>S. map_of pt u = Some v \<and> v \<noteq> u))"

lemma trunk_loop_trapped:
  assumes trap: "trunk_trap nbi pt S" and u: "u \<in> S"
  shows "trunk_loop nbi pt k u = None"
proof -
  have "trunk_loop nbi pt k u = Some es \<Longrightarrow> trunk_trap nbi pt S \<longrightarrow> u \<notin> S" for es
  proof (erule trunk_loop.raw_induct [rotated])
    fix loop nbi pt k u es
    assume IH: "\<And>nbi pt k u es. loop nbi pt k u = Some es \<Longrightarrow> trunk_trap nbi pt S \<longrightarrow> u \<notin> S"
      and body: "(case nbi u of
        None \<Rightarrow> Some []
      | Some node \<Rightarrow>
          if node_type node = NT_TERMINAL then Some []
          else (case map_of pt u of
                  None \<Rightarrow> Some [gve ''PRIMARY_TRUNK_NO_TERMINAL'' [MStr k]]
                | Some next \<Rightarrow> if next = u then Some [] else loop nbi pt k next)) = Some es"
    show "trunk_trap nbi pt S \<longrightarrow> u \<notin> S"
    proof (intro impI notI)
      assume t: "trunk_trap nbi pt S" and "u \<in> S"
      then obtain n v where "nbi u = Some n" "node_type n \<noteq> NT_TERMINAL" "v \<in> S"
          "map_of pt u = Some v" "v \<noteq> u"
        by (auto simp: trunk_trap_def)
      with body have "loop nbi pt k v = Some es" by simp
      with IH t \<open>v \<in> S\<close> show False by blast
    qed
  qed
  then show ?thesis using u trap by (cases "trunk_loop nbi pt k u") auto
qed

text \<open>Conversely the nodes on which the loop does not return are such a set.\<close>

lemma trunk_loop_None_trap: "trunk_trap nbi pt {u. trunk_loop nbi pt k u = None}"
  unfolding trunk_trap_def
proof
  fix u assume "u \<in> {u. trunk_loop nbi pt k u = None}"
  then have "trunk_loop nbi pt k u = None" by simp
  then show "(\<exists>n. nbi u = Some n \<and> node_type n \<noteq> NT_TERMINAL) \<and>
      (\<exists>v\<in>{u. trunk_loop nbi pt k u = None}. map_of pt u = Some v \<and> v \<noteq> u)"
    by (subst (asm) trunk_loop.simps) (auto split: option.splits if_splits)
qed

lemma trunk_loop_None_iff: "trunk_loop nbi pt k u = None \<longleftrightarrow> (\<exists>S. u \<in> S \<and> trunk_trap nbi pt S)"
proof
  assume "trunk_loop nbi pt k u = None"
  then show "\<exists>S. u \<in> S \<and> trunk_trap nbi pt S"
    by (intro exI [of _ "{u. trunk_loop nbi pt k u = None}"]) (simp add: trunk_loop_None_trap)
qed (auto intro: trunk_loop_trapped)

text \<open>When every non-terminal node on the way has a known successor, the walk finds a terminal node.\<close>

lemma trunk_loop_reaches:
  assumes "ends (map_of pt) u"
    and "\<forall>v n. nbi v = Some n \<and> node_type n \<noteq> NT_TERMINAL \<longrightarrow>
           (\<exists>w m. map_of pt v = Some w \<and> w \<noteq> v \<and> nbi w = Some m)"
    and "nbi u = Some n"
  shows "trunk_loop nbi pt k u = Some []"
    and "\<exists>t m. (u, t) \<in> (pt_rel pt)\<^sup>* \<and> nbi t = Some m \<and> node_type m = NT_TERMINAL"
proof -
  have "trunk_loop nbi pt k u = Some [] \<and>
      (\<exists>t m. (u, t) \<in> (pt_rel pt)\<^sup>* \<and> nbi t = Some m \<and> node_type m = NT_TERMINAL)"
    using assms
  proof (induction arbitrary: n rule: ends.induct)
    case (ends_here u)
    then have "node_type n = NT_TERMINAL" by force
    then show ?case using ends_here by (subst trunk_loop.simps) auto
  next
    case (ends_next u v)
    show ?case
    proof (cases "node_type n = NT_TERMINAL")
      case True
      then show ?thesis using ends_next.prems by (subst trunk_loop.simps) auto
    next
      case False
      with ends_next obtain m where v: "v \<noteq> u" "nbi v = Some m" by force
      have uv: "(u, v) \<in> pt_rel pt" using ends_next.hyps by (simp add: succ_rel_def)
      have "trunk_loop nbi pt k u = trunk_loop nbi pt k v"
        using False v ends_next.hyps(1) ends_next.prems by (subst trunk_loop.simps) simp
      moreover obtain t m' where "(v, t) \<in> (pt_rel pt)\<^sup>*" "nbi t = Some m'" "node_type m' = NT_TERMINAL"
          "trunk_loop nbi pt k v = Some []"
        using ends_next.IH [OF ends_next.prems(1) v(2)] by blast
      ultimately show ?thesis using converse_rtrancl_into_rtrancl [OF uv] by auto
    qed
  qed
  then show "trunk_loop nbi pt k u = Some []"
    and "\<exists>t m. (u, t) \<in> (pt_rel pt)\<^sup>* \<and> nbi t = Some m \<and> node_type m = NT_TERMINAL" by blast+
qed

end
