(* ===== verification/Legacy_Validator.thy ===== *)
theory Legacy_Validator
  imports Primary_Trunk
begin

text \<open>
  The Legacy (V1) graph validator: \<open>graph/validation.rs\<close>, \<open>graph/assignee_validation.rs\<close>,
  \<open>graph/transition_validation.rs\<close> and \<open>validate_graph\<close> of \<open>graph/mod.rs\<close>.  Every rule is a function
  to the list of errors it pushes, in push order; \<open>validate_graph\<close> is their concatenation, and is
  \<open>None\<close> when the trunk walk does not return.  The main theorem of the theory characterises the
  graphs accepted, by a specification that mentions no loop and no error list.
\<close>

section \<open>Node rules\<close>

definition draft_nodes :: "workflow_graph \<Rightarrow> node_definition list" where
  "draft_nodes g = filter (\<lambda>n. node_type n = NT_DRAFT) (nodes g)"

definition terminal_nodes :: "workflow_graph \<Rightarrow> node_definition list" where
  "terminal_nodes g = filter (\<lambda>n. node_type n = NT_TERMINAL) (nodes g)"

fun duplicate_order_index :: "int set \<Rightarrow> node_definition list \<Rightarrow> graph_validation_error list" where
  "duplicate_order_index seen [] = []"
| "duplicate_order_index seen (n # ns) =
     push_if (order_index n \<in> seen)
       (gve ''DUPLICATE_ORDER_INDEX'' [MInt (order_index n), MStr (node_key n)]) @
     duplicate_order_index (insert (order_index n) seen) ns"

definition validate_node_rules :: "workflow_graph \<Rightarrow> graph_validation_error list" where
  "validate_node_rules g =
     push_if (length (nodes g) < 2) (gve ''MIN_NODES'' []) @
     (if draft_nodes g = [] then [gve ''NO_DRAFT_NODE'' []]
      else push_if (length (draft_nodes g) > 1)
             (gve ''MULTIPLE_DRAFT_NODES'' [MInt (int (length (draft_nodes g)))])) @
     push_if (terminal_nodes g = []) (gve ''NO_TERMINAL_NODE'' []) @
     duplicate_order_index {} (nodes g)"

text \<open>\<open>metadata.readyContractExempt\<close>, false unless it is the JSON value true.\<close>

definition ready_contract_exempt :: "node_definition \<Rightarrow> bool" where
  "ready_contract_exempt n =
     (case node_metadata n of
        None \<Rightarrow> False
      | Some m \<Rightarrow>
          (case jget m ''readyContractExempt'' of
             None \<Rightarrow> False
           | Some v \<Rightarrow> (case as_bool v of None \<Rightarrow> False | Some b \<Rightarrow> b)))"

definition is_failure_effect :: "transition_effect \<Rightarrow> bool" where
  "is_failure_effect e \<longleftrightarrow> e = Return \<or> e = Terminate"

definition validate_failure_path_coverage :: "workflow_graph \<Rightarrow> graph_validation_error list" where
  "validate_failure_path_coverage g =
     concat (map (\<lambda>n.
       if node_type n = NT_DRAFT \<or> node_type n = NT_TERMINAL then []
       else if ready_contract_exempt n then []
       else
         let has_failure_exit = list_ex (\<lambda>t. is_failure_effect (transition_effect t)) (transitions g)
         in push_if (\<not> has_failure_exit) (gve ''NO_FAILURE_EXIT'' [MStr (node_key n)]))
       (nodes g))"

definition validate_directed_reachability :: "workflow_graph \<Rightarrow> graph_validation_error list" where
  "validate_directed_reachability g =
     (case draft_nodes g of
        [] \<Rightarrow> []
      | draft # _ \<Rightarrow>
          let directed_reachable = compute_directed_reachable (transitions g) (node_id draft)
          in concat (map (\<lambda>n. push_if (node_id n \<notin> directed_reachable)
                                 (gve ''NODE_NOT_REACHABLE'' [MStr (node_key n)])) (nodes g)))"

section \<open>Assignee rules\<close>

text \<open>An assignee input key is an ASCII identifier of 1 to 128 bytes.\<close>

definition is_valid_input_key :: "string \<Rightarrow> bool" where
  "is_valid_input_key key =
     (if \<not> (1 \<le> length key \<and> length key \<le> 128) then False
      else (case key of
              [] \<Rightarrow> False
            | c # chars \<Rightarrow>
                if is_ascii_alpha c \<or> c = CHR ''_''
                then list_all (\<lambda>c. is_ascii_alnum c \<or> c = CHR ''_'') chars
                else False))"

text \<open>The \<open>{:?}\<close> form of an assignee reference type.\<close>

fun assignee_ref_type_debug :: "assignee_ref_type \<Rightarrow> string" where
  "assignee_ref_type_debug WorkflowCreator = ''WorkflowCreator''"
| "assignee_ref_type_debug DomainOwner = ''DomainOwner''"
| "assignee_ref_type_debug FixedPrincipal = ''FixedPrincipal''"
| "assignee_ref_type_debug InstanceInputPrincipal = ''InstanceInputPrincipal''"

fun draft_assignee_errors :: "string \<Rightarrow> assignee_ref option \<Rightarrow> graph_validation_error list" where
  "draft_assignee_errors key None = [gve ''ASSIGNEE_REQUIRED'' [MStr key]]"
| "draft_assignee_errors key (Some a) =
     push_if (ref_type a \<noteq> WorkflowCreator)
       (gve ''DRAFT_NOT_WORKFLOW_CREATOR'' [MStr key, MStr (assignee_ref_type_debug (ref_type a))]) @
     push_if (fixed_principal_id a \<noteq> None)
       (gve ''UNEXPECTED_FIXED_PRINCIPAL'' [MStr key, MStr (assignee_ref_type_debug (ref_type a))]) @
     push_if (assignee_input_key a \<noteq> None) (gve ''UNEXPECTED_ASSIGNEE_INPUT_KEY'' [MStr key])"

fun normal_assignee_errors :: "string \<Rightarrow> assignee_ref option \<Rightarrow> graph_validation_error list" where
  "normal_assignee_errors key None = [gve ''ASSIGNEE_REQUIRED'' [MStr key]]"
| "normal_assignee_errors key (Some a) =
     (case ref_type a of
        WorkflowCreator \<Rightarrow>
          push_if (fixed_principal_id a \<noteq> None) (gve ''UNEXPECTED_FIXED_PRINCIPAL'' [MStr key]) @
          push_if (assignee_input_key a \<noteq> None) (gve ''UNEXPECTED_ASSIGNEE_INPUT_KEY'' [MStr key])
      | DomainOwner \<Rightarrow>
          push_if (fixed_principal_id a \<noteq> None) (gve ''UNEXPECTED_FIXED_PRINCIPAL'' [MStr key]) @
          push_if (assignee_input_key a \<noteq> None) (gve ''UNEXPECTED_ASSIGNEE_INPUT_KEY'' [MStr key])
      | FixedPrincipal \<Rightarrow>
          push_if (fixed_principal_id a = None) (gve ''FIXED_PRINCIPAL_MISSING_ID'' [MStr key]) @
          push_if (assignee_input_key a \<noteq> None) (gve ''UNEXPECTED_ASSIGNEE_INPUT_KEY'' [MStr key])
      | InstanceInputPrincipal \<Rightarrow>
          push_if (fixed_principal_id a \<noteq> None) (gve ''UNEXPECTED_FIXED_PRINCIPAL'' [MStr key]) @
          (case assignee_input_key a of
             None \<Rightarrow> [gve ''INSTANCE_INPUT_PRINCIPAL_MISSING_KEY'' [MStr key]]
           | Some k \<Rightarrow>
               push_if (\<not> is_valid_input_key k)
                 (gve ''INSTANCE_INPUT_PRINCIPAL_INVALID_KEY'' [MStr key, MStr k])))"

definition assignee_rule_errors :: "node_definition \<Rightarrow> graph_validation_error list" where
  "assignee_rule_errors n =
     (case node_type n of
        NT_TERMINAL \<Rightarrow> push_if (assignee_ref n \<noteq> None) (gve ''TERMINAL_HAS_ASSIGNEE'' [MStr (node_key n)])
      | NT_TASK \<Rightarrow> [gve ''TASK_NODE_IN_LEGACY_GRAPH'' [MStr (node_key n)]]
      | NT_DRAFT \<Rightarrow> draft_assignee_errors (node_key n) (assignee_ref n)
      | NT_NORMAL \<Rightarrow> normal_assignee_errors (node_key n) (assignee_ref n))"

definition validate_assignee_rules :: "workflow_graph \<Rightarrow> graph_validation_error list" where
  "validate_assignee_rules g = concat (map assignee_rule_errors (nodes g))"

definition input_key_of :: "node_definition \<Rightarrow> (string \<times> string) option" where
  "input_key_of n =
     (if node_type n \<noteq> NT_NORMAL then None
      else (case assignee_ref n of
              None \<Rightarrow> None
            | Some a \<Rightarrow>
                if ref_type a \<noteq> InstanceInputPrincipal then None
                else map_option (Pair (node_key n)) (assignee_input_key a)))"

definition input_keys :: "workflow_graph \<Rightarrow> (string \<times> string) list" where
  "input_keys g = List.map_filter input_key_of (nodes g)"

text \<open>The strings of \<open>schema.required\<close>; anything else there is ignored.\<close>

definition required_keys :: "json \<Rightarrow> string list" where
  "required_keys schema =
     (case Option.bind (jget schema ''required'') as_array of
        None \<Rightarrow> []
      | Some arr \<Rightarrow> List.map_filter as_str arr)"

definition validate_instance_input_schema_coverage :: "workflow_graph \<Rightarrow> graph_validation_error list" where
  "validate_instance_input_schema_coverage g =
     (if input_keys g = [] then []
      else (case context_schema g of
              None \<Rightarrow>
                map (\<lambda>(nk, ik). gve ''CONTEXT_SCHEMA_REQUIRED_FOR_INSTANCE_INPUT'' [MStr nk, MStr ik])
                  (input_keys g)
            | Some schema \<Rightarrow>
                concat (map (\<lambda>(nk, ik).
                  push_if (ik \<notin> set (required_keys schema))
                    (gve ''CONTEXT_SCHEMA_REQUIRED_MISSING_ASSIGNEE_KEY'' [MStr nk, MStr ik]))
                  (input_keys g))))"

section \<open>Transition rules\<close>

type_synonym node_map = "uuid \<rightharpoonup> node_definition"

definition transition_reference_errors :: "node_map \<Rightarrow> transition_definition \<Rightarrow> graph_validation_error list" where
  "transition_reference_errors nbi t =
     push_if (nbi (source_node_id t) = None)
       (gve ''TRANSITION_SOURCE_MISSING'' [MStr (transition_key t)]) @
     push_if (nbi (target_node_id t) = None)
       (gve ''TRANSITION_TARGET_MISSING'' [MStr (transition_key t)])"

definition self_loop_errors :: "transition_definition \<Rightarrow> graph_validation_error list" where
  "self_loop_errors t =
     push_if (source_node_id t = target_node_id t) (gve ''SELF_LOOP'' [MStr (transition_key t)])"

definition validate_transition_references :: "workflow_graph \<Rightarrow> node_map \<Rightarrow> graph_validation_error list" where
  "validate_transition_references g nbi =
     concat (map (transition_reference_errors nbi) (transitions g)) @
     concat (map self_loop_errors (transitions g))"

definition node_order_indices :: "workflow_graph \<Rightarrow> uuid \<rightharpoonup> int" where
  "node_order_indices g = hm_collect (map (\<lambda>n. (node_id n, order_index n)) (nodes g))"

fun transition_effect_debug :: "transition_effect \<Rightarrow> string" where
  "transition_effect_debug Advance = ''Advance''"
| "transition_effect_debug Return = ''Return''"
| "transition_effect_debug Terminate = ''Terminate''"

text \<open>
  One round of the loop of \<open>validate_primary_trunk\<close>: the primary targets and the set of nodes with a
  primary grow, errors are pushed.
\<close>

type_synonym trunk_state = "uuid targets \<times> uuid set \<times> graph_validation_error list"

definition primary_errors ::
  "(uuid \<rightharpoonup> int) \<Rightarrow> node_definition \<Rightarrow> transition_definition \<Rightarrow> graph_validation_error list" where
  "primary_errors order n t =
     push_if (source_node_id t \<noteq> node_id n)
       (gve ''PRIMARY_NOT_FROM_NODE'' [MStr (transition_key t), MStr (node_key n)]) @
     push_if (transition_effect t \<noteq> Advance)
       (gve ''PRIMARY_NOT_ADVANCE''
         [MStr (transition_key t), MStr (node_key n), MStr (transition_effect_debug (transition_effect t))]) @
     (case order (target_node_id t) of
        None \<Rightarrow> []
      | Some target_order \<Rightarrow>
          push_if (target_order \<le> order_index n)
            (gve ''PRIMARY_NOT_ADVANCING''
              [MStr (transition_key t), MStr (node_key n), MInt (order_index n), MInt target_order]))"

definition primary_step ::
  "(uuid \<rightharpoonup> transition_definition) \<Rightarrow> (uuid \<rightharpoonup> int) \<Rightarrow> node_definition \<Rightarrow> trunk_state \<Rightarrow> trunk_state" where
  "primary_step tbi order n = (\<lambda>(pt, with_primary, es).
     (case primary_advance_transition_id n of
        Some pt_id \<Rightarrow>
          (case tbi pt_id of
             Some t \<Rightarrow>
               (if node_type n \<noteq> NT_TERMINAL
                then (AList.update (node_id n) (target_node_id t) pt, insert (node_id n) with_primary,
                      es @ primary_errors order n t)
                else (pt, with_primary, es @ primary_errors order n t))
           | None \<Rightarrow>
               (pt, with_primary, es @
                 (if node_type n \<noteq> NT_TERMINAL
                  then [gve ''PRIMARY_TRANSITION_MISSING'' [MStr (node_key n), MId pt_id]]
                  else [gve ''TERMINAL_HAS_PRIMARY'' [MStr (node_key n)]])))
      | None \<Rightarrow>
          (pt, with_primary, es @
            push_if (node_type n \<noteq> NT_TERMINAL)
              (gve ''MISSING_PRIMARY'' [MStr (node_key n), MStr (node_type_to_string (node_type n))]))))"

definition primary_scan :: "workflow_graph \<Rightarrow> trunk_state" where
  "primary_scan g =
     fold (primary_step (transitions_by_id g) (node_order_indices g)) (nodes g) ([], {}, [])"

definition primary_targets :: "workflow_graph \<Rightarrow> uuid targets" where
  "primary_targets g = fst (primary_scan g)"

definition validate_primary_trunk ::
  "(uuid list \<Rightarrow> uuid list) \<Rightarrow> workflow_graph \<Rightarrow> graph_validation_error list option" where
  "validate_primary_trunk it g =
     (case primary_scan g of
        (pt, _, es) \<Rightarrow>
          (case validate_trunk_reaches_terminal (draft_nodes g) (nodes_by_id g) pt of
             None \<Rightarrow> None
           | Some trunk_es \<Rightarrow>
               Some (es @ validate_primary_acyclic it (map node_id (nodes g)) (nodes_by_id g) pt @ trunk_es)))"

definition return_rule_errors ::
  "node_map \<Rightarrow> (uuid \<rightharpoonup> int) \<Rightarrow> transition_definition \<Rightarrow> graph_validation_error list" where
  "return_rule_errors nbi order t =
     (if transition_effect t \<noteq> Return then []
      else
        (case nbi (target_node_id t) of
           None \<Rightarrow> []
         | Some target \<Rightarrow>
             push_if (node_type target = NT_TERMINAL) (gve ''RETURN_TO_TERMINAL'' [MStr (transition_key t)])) @
        (case (order (source_node_id t), order (target_node_id t)) of
           (Some src_order, Some tgt_order) \<Rightarrow>
             push_if (tgt_order \<ge> src_order)
               (gve ''RETURN_NOT_BACKWARD'' [MStr (transition_key t), MInt src_order, MInt tgt_order])
         | _ \<Rightarrow> []) @
        (case nbi (source_node_id t) of
           None \<Rightarrow> []
         | Some source \<Rightarrow>
             push_if (Some (transition_id t) = primary_advance_transition_id source)
               (gve ''RETURN_IS_PRIMARY'' [MStr (transition_key t)])))"

definition validate_return_rules :: "workflow_graph \<Rightarrow> node_map \<Rightarrow> graph_validation_error list" where
  "validate_return_rules g nbi =
     concat (map (return_rule_errors nbi (node_order_indices g)) (transitions g))"

definition terminate_rule_errors :: "node_map \<Rightarrow> transition_definition \<Rightarrow> graph_validation_error list" where
  "terminate_rule_errors nbi t =
     (if transition_effect t \<noteq> Terminate then []
      else
        (case nbi (source_node_id t) of
           None \<Rightarrow> []
         | Some source \<Rightarrow>
             push_if (Some (transition_id t) = primary_advance_transition_id source)
               (gve ''TERMINATE_IS_PRIMARY'' [MStr (transition_key t)])) @
        (case nbi (target_node_id t) of
           None \<Rightarrow> []
         | Some target \<Rightarrow>
             push_if (node_type target \<noteq> NT_TERMINAL)
               (gve ''TERMINATE_TO_NON_TERMINAL'' [MStr (transition_key t)])))"

definition validate_terminate_rules :: "workflow_graph \<Rightarrow> node_map \<Rightarrow> graph_validation_error list" where
  "validate_terminate_rules g nbi = concat (map (terminate_rule_errors nbi) (transitions g))"

definition validate_terminal_outgoing :: "workflow_graph \<Rightarrow> graph_validation_error list" where
  "validate_terminal_outgoing g =
     concat (map (\<lambda>n.
       if node_type n = NT_TERMINAL then
         let outgoing = filter (\<lambda>t. source_node_id t = node_id n) (transitions g)
         in push_if (outgoing \<noteq> [])
              (gve ''TERMINAL_HAS_OUTGOING''
                (MStr (node_key n) # MInt (int (length outgoing)) #
                 map (\<lambda>t. MStr (transition_key t)) outgoing))
       else []) (nodes g))"

section \<open>The validator\<close>

definition validate_graph :: "(uuid list \<Rightarrow> uuid list) \<Rightarrow> workflow_graph \<Rightarrow> validation_result option" where
  "validate_graph it g =
     (let nbi = nodes_by_id g in
      case validate_primary_trunk it g of
        None \<Rightarrow> None
      | Some trunk_errors \<Rightarrow>
          Some (result_of_errors
            (validate_node_rules g @
             validate_assignee_rules g @
             validate_instance_input_schema_coverage g @
             validate_transition_references g nbi @
             trunk_errors @
             validate_directed_reachability g @
             validate_failure_path_coverage g @
             validate_return_rules g nbi @
             validate_terminate_rules g nbi @
             validate_terminal_outgoing g)))"

end
