(* ===== verification/Legacy_Spec.thy ===== *)
theory Legacy_Spec
  imports Legacy_Validator
begin

text \<open>
  What the Legacy validator promises: a graph is accepted exactly when it satisfies \<open>legacy_ok\<close>, a
  specification over the nodes and transitions of the graph.  One lemma per rule relates the empty
  error list to its clause; the trunk clause also gives the termination of the trunk walk.
\<close>

section \<open>Specification\<close>

definition assignee_legal :: "node_definition \<Rightarrow> bool" where
  "assignee_legal n \<longleftrightarrow>
     (case node_type n of
        NT_TERMINAL \<Rightarrow> assignee_ref n = None
      | NT_TASK \<Rightarrow> False
      | NT_DRAFT \<Rightarrow>
          assignee_ref n =
            Some \<lparr>ref_type = WorkflowCreator, fixed_principal_id = None, assignee_input_key = None\<rparr>
      | NT_NORMAL \<Rightarrow>
          (\<exists>p k. assignee_ref n \<in>
             {Some \<lparr>ref_type = WorkflowCreator, fixed_principal_id = None, assignee_input_key = None\<rparr>,
              Some \<lparr>ref_type = DomainOwner, fixed_principal_id = None, assignee_input_key = None\<rparr>,
              Some \<lparr>ref_type = FixedPrincipal, fixed_principal_id = Some p, assignee_input_key = None\<rparr>} \<or>
             assignee_ref n =
              Some \<lparr>ref_type = InstanceInputPrincipal, fixed_principal_id = None, assignee_input_key = Some k\<rparr> \<and>
             is_valid_input_key k))"

definition inputs_covered :: "workflow_graph \<Rightarrow> bool" where
  "inputs_covered g \<longleftrightarrow>
     (\<forall>n\<in>set (nodes g). \<forall>nk ik. input_key_of n = Some (nk, ik) \<longrightarrow>
        (\<exists>schema. context_schema g = Some schema \<and> ik \<in> set (required_keys schema)))"

definition joins_nodes :: "workflow_graph \<Rightarrow> transition_definition \<Rightarrow> bool" where
  "joins_nodes g t \<longleftrightarrow>
     source_node_id t \<in> node_id ` set (nodes g) \<and> target_node_id t \<in> node_id ` set (nodes g) \<and>
     source_node_id t \<noteq> target_node_id t"

text \<open>The primary of a node: an ADVANCE transition out of the node to one of a higher order index.\<close>

definition primary_of :: "workflow_graph \<Rightarrow> node_definition \<Rightarrow> transition_definition \<Rightarrow> node_definition \<Rightarrow> bool" where
  "primary_of g n t m \<longleftrightarrow>
     t \<in> set (transitions g) \<and> m \<in> set (nodes g) \<and>
     primary_advance_transition_id n = Some (transition_id t) \<and>
     source_node_id t = node_id n \<and> target_node_id t = node_id m \<and>
     transition_effect t = Advance \<and> order_index n < order_index m"

definition is_terminal :: "node_definition \<Rightarrow> bool" where
  "is_terminal n \<longleftrightarrow> node_type n = NT_TERMINAL"

definition goes_back :: "workflow_graph \<Rightarrow> transition_definition \<Rightarrow> bool" where
  "goes_back g t \<longleftrightarrow>
     (\<exists>s\<in>set (nodes g). \<exists>m\<in>set (nodes g).
        node_id s = source_node_id t \<and> node_id m = target_node_id t \<and>
        \<not> is_terminal m \<and> order_index m < order_index s)"

definition needs_failure_exit :: "node_definition \<Rightarrow> bool" where
  "needs_failure_exit n \<longleftrightarrow> node_type n \<in> {NT_NORMAL, NT_TASK} \<and> \<not> ready_contract_exempt n"

definition legacy_ok :: "workflow_graph \<Rightarrow> bool" where
  "legacy_ok g \<longleftrightarrow>
     2 \<le> length (nodes g) \<and>
     (\<exists>d. draft_nodes g = [d] \<and>
        (\<forall>n\<in>set (nodes g). (node_id d, node_id n) \<in> (set (all_edges g))\<^sup>*)) \<and>
     (\<exists>n\<in>set (nodes g). is_terminal n) \<and>
     distinct (map order_index (nodes g)) \<and>
     (\<forall>n\<in>set (nodes g). assignee_legal n) \<and>
     inputs_covered g \<and>
     (\<forall>t\<in>set (transitions g). joins_nodes g t) \<and>
     (\<forall>n\<in>set (nodes g).
        if is_terminal n
        then primary_advance_transition_id n = None \<and>
             (\<forall>t\<in>set (transitions g). source_node_id t \<noteq> node_id n)
        else \<exists>t m. primary_of g n t m) \<and>
     (\<forall>t\<in>set (transitions g). transition_effect t = Return \<longrightarrow> goes_back g t) \<and>
     (\<forall>t\<in>set (transitions g). transition_effect t = Terminate \<longrightarrow>
        (\<exists>m\<in>set (nodes g). node_id m = target_node_id t \<and> is_terminal m)) \<and>
     ((\<exists>n\<in>set (nodes g). needs_failure_exit n) \<longrightarrow>
        (\<exists>t\<in>set (transitions g). is_failure_effect (transition_effect t)))"

section \<open>Node and assignee rules\<close>

lemma duplicate_order_index_Nil_iff:
  "duplicate_order_index seen ns = [] \<longleftrightarrow>
     distinct (map order_index ns) \<and> order_index ` set ns \<inter> seen = {}"
  by (induction ns arbitrary: seen) (auto simp: error_simps)

lemma one_draft_iff: "length xs = Suc 0 \<longleftrightarrow> (\<exists>d. xs = [d])"
  by (cases xs) auto

lemma validate_node_rules_Nil_iff:
  "validate_node_rules g = [] \<longleftrightarrow>
     2 \<le> length (nodes g) \<and> (\<exists>d. draft_nodes g = [d]) \<and>
     (\<exists>n\<in>set (nodes g). is_terminal n) \<and> distinct (map order_index (nodes g))"
proof -
  have "terminal_nodes g \<noteq> [] \<longleftrightarrow> (\<exists>n\<in>set (nodes g). is_terminal n)"
    by (auto simp: terminal_nodes_def is_terminal_def filter_empty_conv)
  moreover have "draft_nodes g \<noteq> [] \<and> \<not> length (draft_nodes g) > 1 \<longleftrightarrow> (\<exists>d. draft_nodes g = [d])"
    by (cases "draft_nodes g") auto
  ultimately show ?thesis
    by (auto simp: validate_node_rules_def error_simps duplicate_order_index_Nil_iff not_less)
qed

lemma draft_assignee_errors_Nil_iff:
  "draft_assignee_errors k a = [] \<longleftrightarrow>
     a = Some \<lparr>ref_type = WorkflowCreator, fixed_principal_id = None, assignee_input_key = None\<rparr>"
  by (cases a) (auto simp: error_simps intro: assignee_ref.equality)

lemma assignee_rule_errors_Nil_iff: "assignee_rule_errors n = [] \<longleftrightarrow> assignee_legal n"
proof (cases "node_type n")
  case NT_NORMAL
  show ?thesis
  proof (cases "assignee_ref n")
    case (Some a)
    obtain r p k where "a = \<lparr>ref_type = r, fixed_principal_id = p, assignee_input_key = k\<rparr>"
      by (cases a)
    with Some NT_NORMAL show ?thesis
      by (cases r; cases p; cases k)
         (simp_all add: assignee_rule_errors_def assignee_legal_def error_simps)
  qed (use NT_NORMAL in \<open>simp add: assignee_rule_errors_def assignee_legal_def\<close>)
qed (simp_all add: assignee_rule_errors_def assignee_legal_def error_simps draft_assignee_errors_Nil_iff)

lemma set_map_filter: "set (List.map_filter f xs) = {y. \<exists>x\<in>set xs. f x = Some y}"
  by (force simp: map_filter_def)

lemma input_schema_coverage_Nil_iff:
  "validate_instance_input_schema_coverage g = [] \<longleftrightarrow> inputs_covered g"
proof -
  have "set (input_keys g) = {k. \<exists>n\<in>set (nodes g). input_key_of n = Some k}"
    by (simp add: input_keys_def set_map_filter)
  moreover have "input_keys g = [] \<longleftrightarrow> set (input_keys g) = {}" by simp
  ultimately show ?thesis
    by (cases "context_schema g")
       (auto simp: validate_instance_input_schema_coverage_def inputs_covered_def error_simps)
qed

lemma directed_reachability_Nil_iff:
  "draft_nodes g = [d] \<Longrightarrow>
     validate_directed_reachability g = [] \<longleftrightarrow>
     (\<forall>n\<in>set (nodes g). (node_id d, node_id n) \<in> (set (all_edges g))\<^sup>*)"
  by (simp add: validate_directed_reachability_def Let_def error_simps compute_directed_reachable_def
      dfs_search.search_build_iff all_edges_def edges_with_def)

lemma failure_path_coverage_Nil_iff:
  "validate_failure_path_coverage g = [] \<longleftrightarrow>
     ((\<exists>n\<in>set (nodes g). needs_failure_exit n) \<longrightarrow>
      (\<exists>t\<in>set (transitions g). is_failure_effect (transition_effect t)))"
proof -
  have *: "needs_failure_exit n \<longleftrightarrow>
      node_type n \<noteq> NT_DRAFT \<and> node_type n \<noteq> NT_TERMINAL \<and> \<not> ready_contract_exempt n" for n
    by (cases "node_type n") (simp_all add: needs_failure_exit_def)
  show ?thesis
    unfolding * validate_failure_path_coverage_def concat_map_eq_Nil Let_def list_ex_iff
    by (simp add: push_if_eq_Nil) blast
qed

section \<open>Transition rules\<close>

lemma transition_references_Nil_iff:
  "validate_transition_references g (nodes_by_id g) = [] \<longleftrightarrow> (\<forall>t\<in>set (transitions g). joins_nodes g t)"
  by (auto simp: validate_transition_references_def transition_reference_errors_def self_loop_errors_def
      error_simps nodes_by_id_None joins_nodes_def)

lemma terminal_outgoing_Nil_iff:
  "validate_terminal_outgoing g = [] \<longleftrightarrow>
     (\<forall>n\<in>set (nodes g). is_terminal n \<longrightarrow> (\<forall>t\<in>set (transitions g). source_node_id t \<noteq> node_id n))"
  unfolding validate_terminal_outgoing_def concat_map_eq_Nil Let_def is_terminal_def
  by (simp add: push_if_eq_Nil filter_empty_conv)

lemma node_order_indices_Some:
  "distinct_ids g \<Longrightarrow> n \<in> set (nodes g) \<Longrightarrow> node_order_indices g (node_id n) = Some (order_index n)"
  unfolding node_order_indices_def distinct_ids_def
  by (subst hm_collect_is_Some) (auto simp: comp_def)

lemma nodes_by_id_of:
  "distinct_ids g \<Longrightarrow> n \<in> set (nodes g) \<Longrightarrow> nodes_by_id g (node_id n) = Some n"
  by (simp add: nodes_by_id_Some)

lemma joins_nodesE:
  assumes "joins_nodes g t" and "distinct_ids g"
  obtains s m where "s \<in> set (nodes g)" "m \<in> set (nodes g)"
    "source_node_id t = node_id s" "target_node_id t = node_id m" "node_id s \<noteq> node_id m"
    "nodes_by_id g (source_node_id t) = Some s" "nodes_by_id g (target_node_id t) = Some m"
    "node_order_indices g (source_node_id t) = Some (order_index s)"
    "node_order_indices g (target_node_id t) = Some (order_index m)"
proof -
  from assms(1) obtain s m where "s \<in> set (nodes g)" "m \<in> set (nodes g)"
    "source_node_id t = node_id s" "target_node_id t = node_id m" "node_id s \<noteq> node_id m"
    by (auto simp: joins_nodes_def)
  then show thesis
    using that nodes_by_id_of [OF assms(2)] node_order_indices_Some [OF assms(2)] by simp
qed

lemma same_node_id:
  assumes "distinct_ids g" and "n \<in> set (nodes g)" and "m \<in> set (nodes g)" and "node_id n = node_id m"
  shows "n = m"
proof -
  have "Some n = nodes_by_id g (node_id m)"
    unfolding assms(4) [symmetric] by (rule nodes_by_id_of [OF assms(1,2), symmetric])
  also have "\<dots> = Some m" by (rule nodes_by_id_of [OF assms(1,3)])
  finally show ?thesis by simp
qed

lemma return_rule_errors_Nil_iff:
  assumes "distinct_ids g" and "joins_nodes g t" and "transition_effect t = Return"
  shows "return_rule_errors (nodes_by_id g) (node_order_indices g) t = [] \<longleftrightarrow>
    goes_back g t \<and>
    (\<forall>s\<in>set (nodes g). node_id s = source_node_id t \<longrightarrow>
       primary_advance_transition_id s \<noteq> Some (transition_id t))"
proof -
  obtain s m where *: "s \<in> set (nodes g)" "m \<in> set (nodes g)"
    "source_node_id t = node_id s" "target_node_id t = node_id m" "node_id s \<noteq> node_id m"
    "nodes_by_id g (node_id s) = Some s" "nodes_by_id g (node_id m) = Some m"
    "node_order_indices g (node_id s) = Some (order_index s)"
    "node_order_indices g (node_id m) = Some (order_index m)"
    using joins_nodesE [OF assms(2,1)] by metis
  have gb: "goes_back g t \<longleftrightarrow> \<not> is_terminal m \<and> order_index m < order_index s"
    unfolding goes_back_def * using same_node_id [OF assms(1)] *(1,2) by metis
  have prim: "(\<forall>x\<in>set (nodes g). node_id x = source_node_id t \<longrightarrow>
       primary_advance_transition_id x \<noteq> Some (transition_id t)) \<longleftrightarrow>
       primary_advance_transition_id s \<noteq> Some (transition_id t)"
    unfolding *(3) using same_node_id [OF assms(1)] *(1) by metis
  show ?thesis unfolding gb prim
    by (auto simp: return_rule_errors_def assms(3) * error_simps is_terminal_def not_le)
qed

lemma terminate_rule_errors_Nil_iff:
  assumes "distinct_ids g" and "joins_nodes g t" and "transition_effect t = Terminate"
  shows "terminate_rule_errors (nodes_by_id g) t = [] \<longleftrightarrow>
    (\<exists>m\<in>set (nodes g). node_id m = target_node_id t \<and> is_terminal m) \<and>
    (\<forall>s\<in>set (nodes g). node_id s = source_node_id t \<longrightarrow>
       primary_advance_transition_id s \<noteq> Some (transition_id t))"
proof -
  obtain s m where *: "s \<in> set (nodes g)" "m \<in> set (nodes g)"
    "source_node_id t = node_id s" "target_node_id t = node_id m"
    "nodes_by_id g (node_id s) = Some s" "nodes_by_id g (node_id m) = Some m"
    using joins_nodesE [OF assms(2,1)] by metis
  have target: "(\<exists>x\<in>set (nodes g). node_id x = target_node_id t \<and> is_terminal x) \<longleftrightarrow> is_terminal m"
    unfolding *(4) using same_node_id [OF assms(1)] *(2) by metis
  have prim: "(\<forall>x\<in>set (nodes g). node_id x = source_node_id t \<longrightarrow>
       primary_advance_transition_id x \<noteq> Some (transition_id t)) \<longleftrightarrow>
       primary_advance_transition_id s \<noteq> Some (transition_id t)"
    unfolding *(3) using same_node_id [OF assms(1)] *(1) by metis
  show ?thesis unfolding target prim
    by (auto simp: terminate_rule_errors_def assms(3) * error_simps is_terminal_def)
qed

section \<open>The primary scan\<close>

definition primary_entry :: "workflow_graph \<Rightarrow> node_definition \<Rightarrow> uuid targets" where
  "primary_entry g n =
     (case Option.bind (primary_advance_transition_id n) (transitions_by_id g) of
        None \<Rightarrow> []
      | Some t \<Rightarrow> if is_terminal n then [] else [(node_id n, target_node_id t)])"

definition scan_errors :: "workflow_graph \<Rightarrow> node_definition \<Rightarrow> graph_validation_error list" where
  "scan_errors g n = snd (snd (primary_step (transitions_by_id g) (node_order_indices g) n ([], {}, [])))"

lemma primary_step_facts:
  assumes "primary_step (transitions_by_id g) (node_order_indices g) n (pt, w, es) = (pt', w', es')"
  shows "es' = es @ scan_errors g n" and "map_of pt' = map_of pt ++ map_of (primary_entry g n)"
    and "fst ` set pt' = fst ` set pt \<union> fst ` set (primary_entry g n)"
proof -
  note d = primary_step_def scan_errors_def primary_entry_def is_terminal_def
  show "es' = es @ scan_errors g n"
    using assms by (auto simp: d split: option.splits if_splits)
  show "map_of pt' = map_of pt ++ map_of (primary_entry g n)"
    using assms by (auto simp: d update_conv' split: option.splits if_splits)
  have "pt' = pt \<and> primary_entry g n = [] \<or>
      (\<exists>k v. pt' = AList.update k v pt \<and> primary_entry g n = [(k, v)])"
    using assms by (auto simp: d split: option.splits if_splits)
  then show "fst ` set pt' = fst ` set pt \<union> fst ` set (primary_entry g n)"
    by (elim disjE exE conjE) (simp_all add: dom_update)
qed

lemma hm_collect_append: "hm_collect (xs @ ys) = hm_collect xs ++ hm_collect ys"
  by (simp add: hm_collect_def)

lemma hm_collect_primary_entry: "hm_collect (primary_entry g n) = map_of (primary_entry g n)"
  by (auto simp: hm_collect_def primary_entry_def split: option.splits)

lemma primary_fold_facts:
  assumes "fold (primary_step (transitions_by_id g) (node_order_indices g)) ns (pt, w, es) = (pt', w', es')"
  shows "es' = es @ concat (map (scan_errors g) ns) \<and>
    map_of pt' = map_of pt ++ hm_collect (concat (map (primary_entry g) ns)) \<and>
    fst ` set pt' = fst ` set pt \<union> fst ` set (concat (map (primary_entry g) ns))"
  using assms
proof (induction ns arbitrary: pt w es)
  case Nil
  then show ?case by (simp add: hm_collect_def)
next
  case (Cons n ns)
  obtain pt1 w1 es1 where s: "primary_step (transitions_by_id g) (node_order_indices g) n (pt, w, es) = (pt1, w1, es1)"
    by (rule prod_cases3)
  with Cons.prems have f: "fold (primary_step (transitions_by_id g) (node_order_indices g)) ns (pt1, w1, es1) = (pt', w', es')"
    by simp
  note IH = Cons.IH [OF f] and st = primary_step_facts [OF s]
  show ?case
  proof (intro conjI)
    show "es' = es @ concat (map (scan_errors g) (n # ns))" using IH st(1) by simp
    show "map_of pt' = map_of pt ++ hm_collect (concat (map (primary_entry g) (n # ns)))"
      using IH st(2) by (simp add: hm_collect_append hm_collect_primary_entry)
    show "fst ` set pt' = fst ` set pt \<union> fst ` set (concat (map (primary_entry g) (n # ns)))"
      using IH st(3) by auto
  qed
qed

lemma primary_scan_facts:
  assumes "primary_scan g = (pt, w, es)"
  shows "es = concat (map (scan_errors g) (nodes g))"
    and "map_of pt = hm_collect (concat (map (primary_entry g) (nodes g)))"
    and "fst ` set pt \<subseteq> set (map node_id (nodes g))"
proof -
  note * = primary_fold_facts [OF assms [unfolded primary_scan_def]]
  show "es = concat (map (scan_errors g) (nodes g))"
    and "map_of pt = hm_collect (concat (map (primary_entry g) (nodes g)))"
    using * by simp_all
  have "fst ` set pt = fst ` set (concat (map (primary_entry g) (nodes g)))" using * by simp
  then show "fst ` set pt \<subseteq> set (map node_id (nodes g))"
    by (auto simp: primary_entry_def split: option.splits if_splits)
qed

lemma distinct_primary_entries:
  "distinct (map node_id ns) \<Longrightarrow> distinct (map fst (concat (map (primary_entry g) ns)))"
proof (induction ns)
  case (Cons n ns)
  have "fst ` set (concat (map (primary_entry g) ns)) \<subseteq> node_id ` set ns"
    by (auto simp: primary_entry_def split: option.splits if_splits)
  then show ?case using Cons
    by (auto simp: primary_entry_def map_concat comp_def split: option.splits)
qed simp

lemma primary_targets_Some:
  assumes "distinct_ids g"
  shows "map_of (primary_targets g) u = Some v \<longleftrightarrow>
    (\<exists>n\<in>set (nodes g). \<exists>t\<in>set (transitions g). u = node_id n \<and> v = target_node_id t \<and>
       \<not> is_terminal n \<and> primary_advance_transition_id n = Some (transition_id t))"
proof -
  obtain pt w es where s: "primary_scan g = (pt, w, es)" by (rule prod_cases3)
  have "distinct (map fst (concat (map (primary_entry g) (nodes g))))"
    using assms distinct_primary_entries by (simp add: distinct_ids_def)
  then have "map_of pt u = Some v \<longleftrightarrow> (\<exists>n\<in>set (nodes g). (u, v) \<in> set (primary_entry g n))"
    unfolding primary_scan_facts(2) [OF s] by (simp add: hm_collect_is_Some)
  moreover have "(u, v) \<in> set (primary_entry g n) \<longleftrightarrow>
      (\<exists>t\<in>set (transitions g). u = node_id n \<and> v = target_node_id t \<and>
         \<not> is_terminal n \<and> primary_advance_transition_id n = Some (transition_id t))" for n
  proof (cases "primary_advance_transition_id n")
    case (Some p)
    have "(u, v) \<in> set (primary_entry g n) \<longleftrightarrow>
        (\<exists>t. transitions_by_id g p = Some t \<and> u = node_id n \<and> v = target_node_id t \<and> \<not> is_terminal n)"
      using Some by (cases "transitions_by_id g p") (auto simp: primary_entry_def)
    then show ?thesis using Some by (auto simp: transitions_by_id_Some [OF assms])
  qed (simp add: primary_entry_def)
  ultimately show ?thesis by (simp add: primary_targets_def s)
qed

lemma scan_errors_None:
  "primary_advance_transition_id n = None \<Longrightarrow> scan_errors g n = [] \<longleftrightarrow> is_terminal n"
  by (simp add: scan_errors_def primary_step_def error_simps is_terminal_def)

lemma scan_errors_missing:
  "primary_advance_transition_id n = Some p \<Longrightarrow> transitions_by_id g p = None \<Longrightarrow> scan_errors g n \<noteq> []"
  by (simp add: scan_errors_def primary_step_def)

lemma scan_errors_found:
  assumes "distinct_ids g" and "primary_advance_transition_id n = Some p" "transitions_by_id g p = Some t"
    and "joins_nodes g t"
  shows "scan_errors g n = [] \<longleftrightarrow> (\<exists>m. primary_of g n t m)"
proof -
  have t: "t \<in> set (transitions g)" "transition_id t = p"
    using transitions_by_id_SomeD [OF assms(3)] by auto
  obtain m where m: "m \<in> set (nodes g)" "target_node_id t = node_id m"
    "node_order_indices g (target_node_id t) = Some (order_index m)"
    using joins_nodesE [OF assms(4,1)] by metis
  have "scan_errors g n = primary_errors (node_order_indices g) n t"
    by (simp add: scan_errors_def primary_step_def assms(2,3))
  then have "scan_errors g n = [] \<longleftrightarrow>
      source_node_id t = node_id n \<and> transition_effect t = Advance \<and> order_index n < order_index m"
    by (auto simp: primary_errors_def error_simps m(3))
  also have "\<dots> \<longleftrightarrow> (\<exists>m. primary_of g n t m)"
  proof -
    have "x = m" if "x \<in> set (nodes g)" "target_node_id t = node_id x" for x
      using same_node_id [OF assms(1) that(1) m(1)] that(2) m(2) by simp
    then show ?thesis using t m(1,2) assms(2) unfolding primary_of_def by (metis (full_types))
  qed
  finally show ?thesis .
qed

lemma scan_errors_Nil_iff:
  assumes ids: "distinct_ids g" and joins: "\<forall>t\<in>set (transitions g). joins_nodes g t"
  shows "scan_errors g n = [] \<longleftrightarrow>
    (if primary_advance_transition_id n = None then is_terminal n else \<exists>t m. primary_of g n t m)"
proof (cases "primary_advance_transition_id n")
  case None
  then show ?thesis by (simp add: scan_errors_None)
next
  case (Some p)
  show ?thesis
  proof (cases "transitions_by_id g p")
    case None
    have "\<not> primary_of g n t m" for t m
      using None Some transitions_by_id_Some [OF ids, of p t] by (auto simp: primary_of_def)
    then show ?thesis using scan_errors_missing [OF Some None] Some by simp
  next
    case (Some t)
    with transitions_by_id_SomeD have t: "t \<in> set (transitions g)" "transition_id t = p" by blast+
    have "primary_of g n t' m \<Longrightarrow> t' = t" for t' m
      using \<open>primary_advance_transition_id n = Some p\<close> Some transitions_by_id_Some [OF ids, of p t']
      by (auto simp: primary_of_def)
    then show ?thesis
      using scan_errors_found [OF ids \<open>primary_advance_transition_id n = Some p\<close> Some] joins t
        \<open>primary_advance_transition_id n = Some p\<close> by auto
  qed
qed

section \<open>Consequences of acceptance\<close>

lemma finite_orders_bounded:
  "m \<in> set (nodes g) \<Longrightarrow> order_index m \<le> Max (order_index ` set (nodes g))"
  by (intro Max_ge) auto

text \<open>Clauses of the specification, by name.\<close>

lemma legacy_okD:
  assumes "legacy_ok g"
  shows "2 \<le> length (nodes g)" and "\<exists>d. draft_nodes g = [d]" and "\<exists>n\<in>set (nodes g). is_terminal n"
    and "\<forall>t\<in>set (transitions g). joins_nodes g t"
    and "\<And>n. n \<in> set (nodes g) \<Longrightarrow> is_terminal n \<Longrightarrow> primary_advance_transition_id n = None"
    and "\<And>n. n \<in> set (nodes g) \<Longrightarrow> \<not> is_terminal n \<Longrightarrow> \<exists>t m. primary_of g n t m"
  using assms by (auto simp: legacy_ok_def)

lemma primary_targets_of:
  assumes "distinct_ids g" and "n \<in> set (nodes g)" "\<not> is_terminal n" and "primary_of g n t m"
  shows "map_of (primary_targets g) (node_id n) = Some (node_id m)"
proof -
  have "t \<in> set (transitions g)" "node_id m = target_node_id t"
    "primary_advance_transition_id n = Some (transition_id t)"
    using assms(4) by (simp_all add: primary_of_def)
  then show ?thesis unfolding primary_targets_Some [OF assms(1)] using assms(2,3) by blast
qed

lemma primary_targets_increase:
  assumes "distinct_ids g" and "\<forall>n\<in>set (nodes g). \<not> is_terminal n \<longrightarrow> (\<exists>t m. primary_of g n t m)"
    and uv: "map_of (primary_targets g) u = Some v"
  shows "the (node_order_indices g u) < the (node_order_indices g v) \<and>
    the (node_order_indices g v) \<le> Max (order_index ` set (nodes g))"
proof -
  from uv obtain n where n: "n \<in> set (nodes g)" "u = node_id n" "\<not> is_terminal n"
    unfolding primary_targets_Some [OF assms(1)] by blast
  then obtain t m where p: "primary_of g n t m" using assms(2) by blast
  have "v = node_id m" using primary_targets_of [OF assms(1) n(1,3) p] uv n(2) by simp
  moreover have "m \<in> set (nodes g)" and "order_index n < order_index m"
    using p by (simp_all add: primary_of_def)
  ultimately show ?thesis
    using n node_order_indices_Some [OF assms(1)] finite_orders_bounded by simp
qed

lemma primary_targets_end:
  assumes "distinct_ids g" and "\<forall>n\<in>set (nodes g). \<not> is_terminal n \<longrightarrow> (\<exists>t m. primary_of g n t m)"
  shows "ends (map_of (primary_targets g)) u"
  by (rule ends_if_increasing [where k = "\<lambda>u. the (node_order_indices g u)"],
      rule primary_targets_increase [OF assms])

lemma trunk_successor:
  assumes "distinct_ids g" and "\<forall>n\<in>set (nodes g). \<not> is_terminal n \<longrightarrow> (\<exists>t m. primary_of g n t m)"
  shows "\<forall>v n. nodes_by_id g v = Some n \<and> node_type n \<noteq> NT_TERMINAL \<longrightarrow>
    (\<exists>w m. map_of (primary_targets g) v = Some w \<and> w \<noteq> v \<and> nodes_by_id g w = Some m)"
proof (intro allI impI, elim conjE)
  fix v n assume "nodes_by_id g v = Some n" and nt: "node_type n \<noteq> NT_TERMINAL"
  then have n: "n \<in> set (nodes g)" "v = node_id n" using nodes_by_id_SomeD by auto
  moreover have "\<not> is_terminal n" using nt by (simp add: is_terminal_def)
  ultimately obtain t m where p: "primary_of g n t m" using assms(2) by blast
  have m: "m \<in> set (nodes g)" "order_index n < order_index m" using p by (simp_all add: primary_of_def)
  have "node_id m \<noteq> node_id n" using same_node_id [OF assms(1) m(1) n(1)] m(2) by auto
  then show "\<exists>w m. map_of (primary_targets g) v = Some w \<and> w \<noteq> v \<and> nodes_by_id g w = Some m"
    using primary_targets_of [OF assms(1) n(1) \<open>\<not> is_terminal n\<close> p] nodes_by_id_of [OF assms(1) m(1)] n(2)
    by blast
qed

lemma draft_is_node: "draft_nodes g = [d] \<Longrightarrow> d \<in> set (nodes g)"
  using filter_is_subset [of "\<lambda>n. node_type n = NT_DRAFT" "nodes g"] by (simp add: draft_nodes_def)

lemma trunk_reaches_terminal:
  assumes ids: "distinct_ids g" and d: "draft_nodes g = [d]"
    and prim: "\<forall>n\<in>set (nodes g). \<not> is_terminal n \<longrightarrow> (\<exists>t m. primary_of g n t m)"
  shows "validate_trunk_reaches_terminal (draft_nodes g) (nodes_by_id g) (primary_targets g) = Some []"
    and "\<exists>t m. (node_id d, t) \<in> (pt_rel (primary_targets g))\<^sup>* \<and> nodes_by_id g t = Some m \<and> is_terminal m"
proof -
  have nd: "nodes_by_id g (node_id d) = Some d" using nodes_by_id_of [OF ids draft_is_node [OF d]] .
  note * = trunk_loop_reaches [OF primary_targets_end [OF ids prim] trunk_successor [OF ids prim] nd]
  show "validate_trunk_reaches_terminal (draft_nodes g) (nodes_by_id g) (primary_targets g) = Some []"
    using *(1) by (simp add: validate_trunk_reaches_terminal_def d)
  show "\<exists>t m. (node_id d, t) \<in> (pt_rel (primary_targets g))\<^sup>* \<and> nodes_by_id g t = Some m \<and> is_terminal m"
    using *(2) unfolding is_terminal_def .
qed

lemma primary_trunk_returns_Nil_iff:
  assumes ids: "distinct_ids g" and it: "is_iteration it" and d: "draft_nodes g = [d]"
    and joins: "\<forall>t\<in>set (transitions g). joins_nodes g t"
  shows "validate_primary_trunk it g = Some [] \<longleftrightarrow>
    (\<forall>n\<in>set (nodes g). if primary_advance_transition_id n = None then is_terminal n
                       else \<exists>t m. primary_of g n t m)"
    (is "?L \<longleftrightarrow> ?R")
proof -
  obtain pt w es where s: "primary_scan g = (pt, w, es)" by (rule prod_cases3)
  have pt: "pt = primary_targets g" by (simp add: primary_targets_def s)
  have es: "es = [] \<longleftrightarrow> ?R"
    by (simp add: primary_scan_facts(1) [OF s] scan_errors_Nil_iff [OF ids joins])
  show ?thesis
  proof
    assume ?L
    then have "es = []" by (auto simp: validate_primary_trunk_def s split: option.splits)
    then show ?R using es by blast
  next
    assume R: ?R
    then have prim: "\<forall>n\<in>set (nodes g). \<not> is_terminal n \<longrightarrow> (\<exists>t m. primary_of g n t m)"
      by (auto split: if_splits)
    have "acyclic (pt_rel pt)"
      unfolding acyclic_iff_ends pt using primary_targets_end [OF ids prim] by blast
    then have "validate_primary_acyclic it (map node_id (nodes g)) (nodes_by_id g) pt = []"
      using validate_primary_acyclic_Nil_iff [OF it primary_scan_facts(3) [OF s]] by blast
    then show ?L
      using R es trunk_reaches_terminal(1) [OF ids d prim]
      by (simp add: validate_primary_trunk_def s pt)
  qed
qed

text \<open>The rule lists put together, clause by clause.\<close>

lemma return_rules_Nil_iff:
  "distinct_ids g \<Longrightarrow> \<forall>t\<in>set (transitions g). joins_nodes g t \<Longrightarrow>
     validate_return_rules g (nodes_by_id g) = [] \<longleftrightarrow>
     (\<forall>t\<in>set (transitions g). transition_effect t = Return \<longrightarrow>
        goes_back g t \<and>
        (\<forall>s\<in>set (nodes g). node_id s = source_node_id t \<longrightarrow>
           primary_advance_transition_id s \<noteq> Some (transition_id t)))"
  unfolding validate_return_rules_def concat_map_eq_Nil
proof (intro ball_cong refl)
  fix t assume "distinct_ids g" "\<forall>t\<in>set (transitions g). joins_nodes g t" "t \<in> set (transitions g)"
  note iff = return_rule_errors_Nil_iff [OF this(1) bspec [OF this(2,3)]]
  show "return_rule_errors (nodes_by_id g) (node_order_indices g) t = [] \<longleftrightarrow> (transition_effect t = Return \<longrightarrow>
      goes_back g t \<and>
      (\<forall>s\<in>set (nodes g). node_id s = source_node_id t \<longrightarrow>
         primary_advance_transition_id s \<noteq> Some (transition_id t)))"
  proof (cases "transition_effect t = Return")
    case True
    then show ?thesis unfolding iff [OF True] by simp
  qed (simp add: return_rule_errors_def)
qed

lemma terminate_rules_Nil_iff:
  "distinct_ids g \<Longrightarrow> \<forall>t\<in>set (transitions g). joins_nodes g t \<Longrightarrow>
     validate_terminate_rules g (nodes_by_id g) = [] \<longleftrightarrow>
     (\<forall>t\<in>set (transitions g). transition_effect t = Terminate \<longrightarrow>
        (\<exists>m\<in>set (nodes g). node_id m = target_node_id t \<and> is_terminal m) \<and>
        (\<forall>s\<in>set (nodes g). node_id s = source_node_id t \<longrightarrow>
           primary_advance_transition_id s \<noteq> Some (transition_id t)))"
  unfolding validate_terminate_rules_def concat_map_eq_Nil
proof (intro ball_cong refl)
  fix t assume "distinct_ids g" "\<forall>t\<in>set (transitions g). joins_nodes g t" "t \<in> set (transitions g)"
  note iff = terminate_rule_errors_Nil_iff [OF this(1) bspec [OF this(2,3)]]
  show "terminate_rule_errors (nodes_by_id g) t = [] \<longleftrightarrow> (transition_effect t = Terminate \<longrightarrow>
      (\<exists>m\<in>set (nodes g). node_id m = target_node_id t \<and> is_terminal m) \<and>
      (\<forall>s\<in>set (nodes g). node_id s = source_node_id t \<longrightarrow>
         primary_advance_transition_id s \<noteq> Some (transition_id t)))"
  proof (cases "transition_effect t = Terminate")
    case True
    then show ?thesis unfolding iff [OF True] by simp
  qed (simp add: terminate_rule_errors_def)
qed

text \<open>A transition that is somebody's primary is an ADVANCE transition.\<close>

lemma primary_is_advance:
  assumes ids: "distinct_ids g" and ok: "legacy_ok g"
    and "s \<in> set (nodes g)" "t \<in> set (transitions g)" "transition_effect t \<noteq> Advance"
  shows "primary_advance_transition_id s \<noteq> Some (transition_id t)"
proof
  assume p: "primary_advance_transition_id s = Some (transition_id t)"
  with legacy_okD(5) [OF ok assms(3)] have "\<not> is_terminal s" by auto
  with legacy_okD(6) [OF ok assms(3)] obtain t' m where "primary_of g s t' m" by blast
  then have t': "t' \<in> set (transitions g)" "transition_id t' = transition_id t" "transition_effect t' = Advance"
    using p by (auto simp: primary_of_def)
  have "transitions_by_id g (transition_id t) = Some t" "transitions_by_id g (transition_id t) = Some t'"
    using transitions_by_id_Some [OF ids] assms(4) t' by auto
  then show False using t'(3) assms(5) by simp
qed

lemma legacy_valid_imp_ok:
  assumes ids: "distinct_ids g" and it: "is_iteration it"
    and r: "validate_graph it g = Some r" and v: "valid r"
  shows "legacy_ok g"
proof -
  from r obtain te where te: "validate_primary_trunk it g = Some te"
    by (auto simp: validate_graph_def Let_def split: option.splits)
  with r v have nil: "validate_node_rules g = []" "validate_assignee_rules g = []"
      "validate_instance_input_schema_coverage g = []"
      "validate_transition_references g (nodes_by_id g) = []" "te = []"
      "validate_directed_reachability g = []" "validate_failure_path_coverage g = []"
      "validate_return_rules g (nodes_by_id g) = []" "validate_terminate_rules g (nodes_by_id g) = []"
      "validate_terminal_outgoing g = []"
    by (auto simp: validate_graph_def Let_def)
  from nil(1) obtain d where d: "draft_nodes g = [d]" by (auto simp: validate_node_rules_Nil_iff)
  have joins: "\<forall>t\<in>set (transitions g). joins_nodes g t"
    using nil(4) by (simp add: transition_references_Nil_iff)
  have out: "\<forall>n\<in>set (nodes g). is_terminal n \<longrightarrow> (\<forall>t\<in>set (transitions g). source_node_id t \<noteq> node_id n)"
    using nil(10) by (simp add: terminal_outgoing_Nil_iff)
  have prim: "\<forall>n\<in>set (nodes g). if primary_advance_transition_id n = None then is_terminal n
                       else \<exists>t m. primary_of g n t m"
    using primary_trunk_returns_Nil_iff [OF ids it d joins] te nil(5) by simp
  have "if is_terminal n
        then primary_advance_transition_id n = None \<and>
             (\<forall>t\<in>set (transitions g). source_node_id t \<noteq> node_id n)
        else \<exists>t m. primary_of g n t m" if n: "n \<in> set (nodes g)" for n
    using bspec [OF prim n] bspec [OF out n] by (auto simp: primary_of_def split: if_splits)
  then show ?thesis
    unfolding legacy_ok_def
    using nil(1) [unfolded validate_node_rules_Nil_iff] d joins
      nil(2) [unfolded validate_assignee_rules_def concat_map_eq_Nil assignee_rule_errors_Nil_iff]
      nil(3) [unfolded input_schema_coverage_Nil_iff]
      nil(6) [unfolded directed_reachability_Nil_iff [OF d]]
      nil(7) [unfolded failure_path_coverage_Nil_iff]
      nil(8) [unfolded return_rules_Nil_iff [OF ids joins]]
      nil(9) [unfolded terminate_rules_Nil_iff [OF ids joins]]
    by (intro conjI) (blast | simp)+
qed

lemma legacy_ok_imp_valid:
  assumes ids: "distinct_ids g" and it: "is_iteration it" and ok: "legacy_ok g"
  shows "validate_graph it g = Some (result_of_errors [])"
proof -
  from ok obtain d where d: "draft_nodes g = [d]" by (auto simp: legacy_ok_def)
  note joins = legacy_okD(4) [OF ok]
  have "\<forall>n\<in>set (nodes g). if primary_advance_transition_id n = None then is_terminal n
                       else \<exists>t m. primary_of g n t m"
  proof
    fix n assume n: "n \<in> set (nodes g)"
    have "\<not> is_terminal n \<Longrightarrow> primary_advance_transition_id n \<noteq> None"
      using legacy_okD(6) [OF ok n] by (auto simp: primary_of_def)
    then show "if primary_advance_transition_id n = None then is_terminal n
               else \<exists>t m. primary_of g n t m"
      using legacy_okD(5,6) [OF ok n] by (cases "is_terminal n") simp_all
  qed
  then have trunk: "validate_primary_trunk it g = Some []"
    using primary_trunk_returns_Nil_iff [OF ids it d joins] by blast
  have "validate_node_rules g = []"
    using ok by (simp add: validate_node_rules_Nil_iff legacy_ok_def)  blast
  moreover have "validate_assignee_rules g = []"
    using ok by (simp add: validate_assignee_rules_def error_simps assignee_rule_errors_Nil_iff legacy_ok_def)
  moreover have "validate_instance_input_schema_coverage g = []"
    using ok by (simp add: input_schema_coverage_Nil_iff legacy_ok_def)
  moreover have "validate_transition_references g (nodes_by_id g) = []"
    using joins by (simp add: transition_references_Nil_iff)
  moreover have "validate_directed_reachability g = []"
    using ok d by (auto simp: directed_reachability_Nil_iff [OF d] legacy_ok_def)
  moreover have "validate_failure_path_coverage g = []"
    using ok by (simp add: failure_path_coverage_Nil_iff legacy_ok_def)
  moreover have "validate_return_rules g (nodes_by_id g) = []"
    using ok primary_is_advance [OF ids ok] by (simp add: return_rules_Nil_iff [OF ids joins] legacy_ok_def)
  moreover have "validate_terminate_rules g (nodes_by_id g) = []"
    using ok primary_is_advance [OF ids ok] by (simp add: terminate_rules_Nil_iff [OF ids joins] legacy_ok_def)
  moreover have "validate_terminal_outgoing g = []"
    using ok by (simp add: terminal_outgoing_Nil_iff legacy_ok_def)
  ultimately show ?thesis using trunk by (simp add: validate_graph_def Let_def)
qed

end
