(* ===== verification/Legacy_Properties.thy ===== *)
theory Legacy_Properties
  imports Legacy_Spec
begin

text \<open>The properties of the Legacy validator, with the concrete graphs that exercise them.\<close>

section \<open>Concrete graphs\<close>

definition plain_node :: "uuid \<Rightarrow> string \<Rightarrow> int \<Rightarrow> node_type \<Rightarrow> assignee_ref option \<Rightarrow> uuid option \<Rightarrow> node_definition" where
  "plain_node i key order ty assignee primary =
     \<lparr>node_id = i, node_version_id = 100, node_key = key, node_display_name = key, order_index = order,
      node_type = ty, assignee_ref = assignee, instructions = None,
      primary_advance_transition_id = primary, node_metadata = None, node_created_at = 0\<rparr>"

definition plain_transition :: "uuid \<Rightarrow> string \<Rightarrow> uuid \<Rightarrow> uuid \<Rightarrow> transition_effect \<Rightarrow> transition_definition" where
  "plain_transition i key s t eff =
     \<lparr>transition_id = i, trans_version_id = 100, transition_key = key, trans_display_name = key,
      source_node_id = s, target_node_id = t, transition_effect = eff,
      submission_schema = None, trans_metadata = None, trans_created_at = 0\<rparr>"

abbreviation creator :: "assignee_ref option" where
  "creator \<equiv> Some \<lparr>ref_type = WorkflowCreator, fixed_principal_id = None, assignee_input_key = None\<rparr>"

definition review_graph :: workflow_graph where
  "review_graph =
     \<lparr>nodes = [plain_node 1 ''draft'' 0 NT_DRAFT creator (Some 11),
               plain_node 2 ''work'' 1 NT_NORMAL creator (Some 12),
               plain_node 3 ''review'' 2 NT_NORMAL creator (Some 13),
               plain_node 4 ''done'' 3 NT_TERMINAL None None],
      transitions = [plain_transition 11 ''start'' 1 2 Advance,
                     plain_transition 12 ''submit'' 2 3 Advance,
                     plain_transition 13 ''approve'' 3 4 Advance,
                     plain_transition 14 ''rework'' 3 2 Return],
      context_schema = None\<rparr>"

definition looping_graph :: workflow_graph where
  "looping_graph =
     \<lparr>nodes = [plain_node 1 ''draft'' 0 NT_DRAFT creator (Some 11),
               plain_node 2 ''work'' 1 NT_NORMAL creator (Some 12),
               plain_node 3 ''done'' 2 NT_TERMINAL None None],
      transitions = [plain_transition 11 ''start'' 1 2 Advance,
                     plain_transition 12 ''again'' 2 1 Advance],
      context_schema = None\<rparr>"

lemma distinct_ids_examples: "distinct_ids review_graph" "distinct_ids looping_graph"
  by (simp_all add: distinct_ids_def review_graph_def looping_graph_def plain_node_def plain_transition_def)

lemma review_graph_accepted: "validate_graph remdups review_graph = Some (result_of_errors [])"
  by code_simp

section \<open>Properties\<close>



lemma accepted_primary_ends:
  assumes "distinct_ids g" and ok: "legacy_ok g" and n: "n \<in> set (nodes g)"
  shows "\<exists>m\<in>set (nodes g). (node_id n, node_id m) \<in> (pt_rel (primary_targets g))\<^sup>* \<and> is_terminal m"
proof -
  have prim: "\<forall>n\<in>set (nodes g). \<not> is_terminal n \<longrightarrow> (\<exists>t m. primary_of g n t m)"
    using legacy_okD(6) [OF ok] by blast
  obtain t m where t: "(node_id n, t) \<in> (pt_rel (primary_targets g))\<^sup>*" "nodes_by_id g t = Some m"
      "node_type m = NT_TERMINAL"
    using trunk_loop_reaches(2) [OF primary_targets_end [OF assms(1) prim] trunk_successor [OF assms(1) prim]
        nodes_by_id_of [OF assms(1) n]] by blast
  from nodes_by_id_SomeD [OF t(2)] t show ?thesis by (auto simp: is_terminal_def)
qed

text \<open>
  C36. In an accepted Legacy graph no node is stuck: from every node the chain of primary ADVANCE
  transitions leads to a TERMINAL node.
\<close>
theorem legacy_accepted_reaches_terminal:
  assumes "distinct_ids g" and "is_iteration it" and "validate_graph it g = Some r" and "valid r"
    and "n \<in> set (nodes g)"
  shows "\<exists>m\<in>set (nodes g). (node_id n, node_id m) \<in> (pt_rel (primary_targets g))\<^sup>* \<and> is_terminal m"
  using accepted_primary_ends [OF assms(1) legacy_valid_imp_ok [OF assms(1-4)] assms(5)] .

theorem legacy_accepted_reaches_terminal_witness:
  "\<exists>m\<in>set (nodes review_graph).
     (node_id (hd (nodes review_graph)), node_id m) \<in> (pt_rel (primary_targets review_graph))\<^sup>* \<and> is_terminal m"
  by (rule legacy_accepted_reaches_terminal
      [OF distinct_ids_examples(1) is_iteration_remdups review_graph_accepted])
     (simp_all add: review_graph_def)

lemma validate_graph_None_iff:
  "validate_graph it g = None \<longleftrightarrow>
     validate_trunk_reaches_terminal (draft_nodes g) (nodes_by_id g) (primary_targets g) = None"
proof -
  obtain pt w es where "primary_scan g = (pt, w, es)" by (rule prod_cases3)
  then show ?thesis
    by (simp add: validate_graph_def Let_def validate_primary_trunk_def primary_targets_def
        split: option.splits)
qed

text \<open>
  C37. When the Legacy validator does not return: exactly when the first DRAFT node belongs to a set
  of known non-terminal nodes that primary targets never leave and that has no primary self-loop.
  A primary cycle of two nodes is such a set, so an invalid input makes the validator loop for ever.
\<close>
theorem legacy_validator_diverges_iff:
  "validate_graph it g = None \<longleftrightarrow>
     (\<exists>d ds S. draft_nodes g = d # ds \<and> node_id d \<in> S \<and>
        trunk_trap (nodes_by_id g) (primary_targets g) S)"
  unfolding validate_graph_None_iff
  by (cases "draft_nodes g") (simp_all add: validate_trunk_reaches_terminal_def trunk_loop_None_iff)

text \<open>
  The validator does not return on a concrete three-node graph whose DRAFT node and one NORMAL
  node are each other's primary target.
\<close>
theorem looping_graph_diverges: "validate_graph it looping_graph = None"
proof -
  have pt: "map_of (primary_targets looping_graph) 1 = Some 2"
      "map_of (primary_targets looping_graph) 2 = Some 1" by code_simp+
  have "draft_nodes looping_graph = [plain_node 1 ''draft'' 0 NT_DRAFT creator (Some 11)]"
    by (simp add: draft_nodes_def looping_graph_def plain_node_def)
  moreover have "trunk_trap (nodes_by_id looping_graph) (primary_targets looping_graph) {1, 2}"
    unfolding trunk_trap_def
    by (simp add: pt) (simp add: nodes_by_id_def hm_collect_def looping_graph_def plain_node_def)
  ultimately show ?thesis
    unfolding validate_graph_None_iff validate_trunk_reaches_terminal_def
    by (simp add: trunk_loop_trapped [of _ _ "{1, 2}"] plain_node_def)
qed

text \<open>
  The cycle check of the primary trunk is exact for every iteration order of the hash map it
  walks over: it pushes no error exactly when the primary relation of the graph is acyclic.
\<close>
theorem primary_cycle_check_exact:
  assumes "is_iteration it"
  shows "validate_primary_acyclic it (map node_id (nodes g)) (nodes_by_id g) (primary_targets g) = [] \<longleftrightarrow>
    acyclic (pt_rel (primary_targets g))"
proof -
  obtain pt w es where s: "primary_scan g = (pt, w, es)" by (rule prod_cases3)
  then have "pt = primary_targets g" by (simp add: primary_targets_def)
  with validate_primary_acyclic_Nil_iff [OF assms primary_scan_facts(3) [OF s]] show ?thesis by simp
qed

theorem primary_cycle_check_exact_witness:
  "\<not> acyclic (pt_rel (primary_targets looping_graph))"
proof -
  have "validate_primary_acyclic remdups (map node_id (nodes looping_graph)) (nodes_by_id looping_graph)
      (primary_targets looping_graph) \<noteq> []" by code_simp
  then show ?thesis using primary_cycle_check_exact [OF is_iteration_remdups, of looping_graph] by simp
qed

text \<open>
  The failure-path rule does not check what its documentation says.  The documentation asks every
  node that is neither DRAFT nor TERMINAL for an outgoing RETURN or TERMINATE transition; an accepted
  graph can have a non-exempt NORMAL node with none, as long as some other node has one.
\<close>
theorem failure_exit_not_per_node:
  "\<exists>n\<in>set (nodes review_graph).
     needs_failure_exit n \<and>
     filter (\<lambda>t. source_node_id t = node_id n \<and> is_failure_effect (transition_effect t))
       (transitions review_graph) = [] \<and>
     (\<exists>r. validate_graph remdups review_graph = Some r \<and> valid r)"
  using review_graph_accepted
  by (intro bexI [of _ "nodes review_graph ! 1"])
     (simp_all add: review_graph_def plain_node_def plain_transition_def needs_failure_exit_def
       ready_contract_exempt_def is_failure_effect_def)

end
