(* ===== verification/Cycle_Test.thy ===== *)
theory Cycle_Test
  imports Graph_Search
begin

text \<open>
  \<open>find_advance_cycle\<close> of \<open>minimal_validator.rs\<close>: Kahn's algorithm on the ADVANCE adjacency
  list.  The two ways the Rust loop could panic (\<open>get_mut(..).unwrap()\<close> on a missing key, \<open>*degree
  -= 1\<close> below zero) are the outcome \<open>None\<close> of the model, and are proved impossible.  The main
  result: the test reports no cycle exactly when the ADVANCE relation is acyclic.
\<close>

section \<open>In-degrees\<close>

type_synonym 'a degrees = "('a \<times> nat) list"

text \<open>\<open>in_degree.entry(k).or_insert(0)\<close>, alone and followed by \<open>+= 1\<close>.\<close>

definition deg_or_insert :: "'a \<Rightarrow> 'a degrees \<Rightarrow> 'a degrees" where
  "deg_or_insert k d = (if k \<in> fst ` set d then d else d @ [(k, 0)])"

definition deg_incr :: "'a \<Rightarrow> 'a degrees \<Rightarrow> 'a degrees" where
  "deg_incr k d = AList.update k (case map_of d k of None \<Rightarrow> 1 | Some n \<Rightarrow> Suc n) d"

fun count_in :: "'a adj \<Rightarrow> 'a degrees \<Rightarrow> 'a degrees" where
  "count_in [] d = d"
| "count_in ((from, targets) # m) d = count_in m (fold deg_incr targets (deg_or_insert from d))"

definition in_degree :: "'a adj \<Rightarrow> 'a degrees" where
  "in_degree m = count_in m []"

section \<open>The loop\<close>

text \<open>One removed node: its targets' degrees go down, those that reach zero are queued.\<close>

fun relax :: "'a degrees \<Rightarrow> 'a list \<Rightarrow> 'a list \<Rightarrow> ('a degrees \<times> 'a list) option" where
  "relax d queue [] = Some (d, queue)"
| "relax d queue (t # ts) =
     (case map_of d t of
        None \<Rightarrow> None
      | Some 0 \<Rightarrow> None
      | Some (Suc n) \<Rightarrow> relax (AList.update t n d) (if n = 0 then queue @ [t] else queue) ts)"

lemma sum_update_Suc:
  "map_of d t = Some (Suc n) \<Longrightarrow> Suc (sum_list (map snd (AList.update t n d))) = sum_list (map snd d)"
  by (induction d) (auto split: if_splits)

lemma relax_sum:
  "relax d q ts = Some (d', q') \<Longrightarrow>
     sum_list (map snd d') + length q' \<le> sum_list (map snd d) + length q"
proof (induction d q ts rule: relax.induct)
  case (2 d q t ts)
  then obtain n where n: "map_of d t = Some (Suc n)"
    by (auto split: option.splits nat.splits)
  with "2.prems" have "relax (AList.update t n d) (if n = 0 then q @ [t] else q) ts = Some (d', q')"
    by simp
  from "2.IH" [OF n refl this] sum_update_Suc [OF n] show ?case
    by (auto split: if_splits)
qed simp

function kahn_loop :: "'a adj \<Rightarrow> 'a degrees \<Rightarrow> 'a list \<Rightarrow> nat \<Rightarrow> ('a degrees \<times> nat) option" where
  "kahn_loop m d [] removed = Some (d, removed)"
| "kahn_loop m d (node # queue) removed =
     (case relax d queue (adj_next m node) of
        None \<Rightarrow> None
      | Some (d', queue') \<Rightarrow> kahn_loop m d' queue' (removed + 1))"
  by pat_completeness auto
termination
proof (relation "measure (\<lambda>(m, d, q, r). sum_list (map snd d) + length q)")
  fix m :: "'a adj" and d d' :: "'a degrees" and u q q' r z
  assume "relax d q (adj_next m u) = Some z" and "(d', q') = z"
  then show "((m, d', q', r + 1), (m, d, u # q, r)) \<in>
      measure (\<lambda>(m, d, q, r). sum_list (map snd d) + length q)"
    using relax_sum [of d q "adj_next m u" d' q'] by auto
qed simp

text \<open>The reported node is any with a positive degree; \<open>unwrap_or_default\<close> is the nil id.\<close>

definition find_advance_cycle :: "uuid adj \<Rightarrow> (uuid \<times> uuid) option option" where
  "find_advance_cycle m =
     (let d = in_degree m;
          queue = map fst (filter (\<lambda>p. snd p = 0) d)
      in case kahn_loop m d queue 0 of
           None \<Rightarrow> None
         | Some (d', removed) \<Rightarrow>
             if removed = length d' then Some None
             else (case find (\<lambda>p. snd p > 0) d' of
                     None \<Rightarrow> Some (Some (0, 0))
                   | Some p \<Rightarrow> Some (Some (fst p, fst p))))"

section \<open>In-degrees, declaratively\<close>

text \<open>The number of edges into a node from nodes not yet removed.\<close>

definition indeg :: "'a adj \<Rightarrow> 'a set \<Rightarrow> 'a \<Rightarrow> nat" where
  "indeg m P v = (\<Sum>p\<leftarrow>m. if fst p \<in> P then 0 else count_list (snd p) v)"

definition adj_nodes :: "'a adj \<Rightarrow> 'a set" where
  "adj_nodes m = fst ` set m \<union> adj_targets m"

lemma indeg_Cons: "indeg (p # m) P v = (if fst p \<in> P then 0 else count_list (snd p) v) + indeg m P v"
  by (simp add: indeg_def)

lemma adj_next_Cons: "adj_next ((k, vs) # m) u = (if u = k then vs else adj_next m u)"
  by (simp add: adj_next_def)

lemma adj_next_notin: "u \<notin> fst ` set m \<Longrightarrow> adj_next m u = []"
  by (simp add: adj_next_def map_of_eq_None_iff [THEN iffD2])

lemma indeg_insert_notin: "u \<notin> fst ` set m \<Longrightarrow> indeg m (insert u P) v = indeg m P v"
  by (induction m) (auto simp: indeg_Cons, simp add: indeg_def)

lemma indeg_insert:
  "distinct (map fst m) \<Longrightarrow> u \<notin> P \<Longrightarrow>
     indeg m P v = indeg m (insert u P) v + count_list (adj_next m u) v"
proof (induction m)
  case Nil
  then show ?case by (simp add: indeg_def adj_next_def)
next
  case (Cons p m)
  obtain k vs where p: "p = (k, vs)" by force
  show ?case
  proof (cases "u = k")
    case True
    with Cons.prems p have "u \<notin> fst ` set m" by auto
    with True p Cons.prems(2) show ?thesis
      by (simp add: indeg_Cons adj_next_Cons indeg_insert_notin)
  next
    case False
    with Cons p show ?thesis by (simp add: indeg_Cons adj_next_Cons)
  qed
qed

lemma indeg_zero_iff:
  assumes "distinct (map fst m)"
  shows "indeg m P v = 0 \<longleftrightarrow> (\<forall>u. (u, v) \<in> adj_rel m \<longrightarrow> u \<in> P)"
proof -
  have "indeg m P v = 0 \<longleftrightarrow> (\<forall>p\<in>set m. v \<in> set (snd p) \<longrightarrow> fst p \<in> P)"
    by (induction m) (auto simp: indeg_Cons count_list_0_iff, simp add: indeg_def)
  also have "\<dots> \<longleftrightarrow> (\<forall>u. (u, v) \<in> adj_rel m \<longrightarrow> u \<in> P)"
  proof
    assume all: "\<forall>p\<in>set m. v \<in> set (snd p) \<longrightarrow> fst p \<in> P"
    show "\<forall>u. (u, v) \<in> adj_rel m \<longrightarrow> u \<in> P"
    proof (intro allI impI)
      fix u assume uv: "(u, v) \<in> adj_rel m"
      then obtain vs where "map_of m u = Some vs" "v \<in> set vs"
        by (cases "map_of m u") (simp_all add: adj_rel_def adj_next_def)
      then show "u \<in> P" using all map_of_SomeD [of m u vs] by force
    qed
  next
    assume all: "\<forall>u. (u, v) \<in> adj_rel m \<longrightarrow> u \<in> P"
    show "\<forall>p\<in>set m. v \<in> set (snd p) \<longrightarrow> fst p \<in> P"
    proof (intro ballI impI)
      fix p assume "p \<in> set m" and v: "v \<in> set (snd p)"
      then have "map_of m (fst p) = Some (snd p)" using map_of_is_SomeI [OF assms] by simp
      then have "(fst p, v) \<in> adj_rel m" using v by (simp add: adj_rel_def adj_next_def)
      then show "fst p \<in> P" using all by blast
    qed
  qed
  finally show ?thesis .
qed

lemma adj_rel_nodes: "(u, v) \<in> adj_rel m \<Longrightarrow> u \<in> adj_nodes m \<and> v \<in> adj_nodes m"
  using adj_rel_targets [of u v m] adj_next_notin [of u m]
  by (cases "u \<in> fst ` set m") (auto simp: adj_nodes_def adj_rel_def)

definition deg_val :: "'a degrees \<Rightarrow> 'a \<Rightarrow> nat" where
  "deg_val d v = (case map_of d v of None \<Rightarrow> 0 | Some n \<Rightarrow> n)"

lemma deg_or_insert_facts:
  "deg_val (deg_or_insert k d) v = deg_val d v"
  "fst ` set (deg_or_insert k d) = insert k (fst ` set d)"
  "distinct (map fst d) \<Longrightarrow> distinct (map fst (deg_or_insert k d))"
  by (auto simp: deg_or_insert_def deg_val_def map_add_def split: option.splits
      dest: map_of_SomeD)

lemma deg_incr_facts:
  "deg_val (deg_incr k d) v = deg_val d v + (if v = k then 1 else 0)"
  "fst ` set (deg_incr k d) = insert k (fst ` set d)"
  "distinct (map fst d) \<Longrightarrow> distinct (map fst (deg_incr k d))"
  by (auto simp: deg_incr_def deg_val_def update_conv' dom_update distinct_update split: option.splits)

lemma fold_incr_facts:
  "deg_val (fold deg_incr ts d) v = deg_val d v + count_list ts v"
  "fst ` set (fold deg_incr ts d) = fst ` set d \<union> set ts"
  "distinct (map fst d) \<Longrightarrow> distinct (map fst (fold deg_incr ts d))"
  by (induction ts arbitrary: d) (auto simp: deg_incr_facts)

lemma count_in_facts:
  "deg_val (count_in m d) v = deg_val d v + indeg m {} v"
  "fst ` set (count_in m d) = fst ` set d \<union> adj_nodes m"
  "distinct (map fst d) \<Longrightarrow> distinct (map fst (count_in m d))"
proof (induction m d rule: count_in.induct)
  case (2 k vs m d)
  {
    case 1
    show ?case using 2 by (simp add: fold_incr_facts deg_or_insert_facts indeg_Cons)
  next
    case 2
    show ?case using "2.IH"(2)
      by (auto simp: fold_incr_facts deg_or_insert_facts adj_nodes_def adj_targets_def)
  next
    case 3
    then show ?case using "2.IH"(3) by (simp add: fold_incr_facts deg_or_insert_facts)
  }
qed (auto simp: indeg_def adj_nodes_def adj_targets_def)

lemma in_degree_facts:
  "fst ` set (in_degree m) = adj_nodes m"
  "distinct (map fst (in_degree m))"
  "v \<in> adj_nodes m \<Longrightarrow> map_of (in_degree m) v = Some (indeg m {} v)"
proof -
  show keys: "fst ` set (in_degree m) = adj_nodes m" and "distinct (map fst (in_degree m))"
    by (simp_all add: in_degree_def count_in_facts)
  assume "v \<in> adj_nodes m"
  then have "map_of (in_degree m) v \<noteq> None" using keys by (simp add: map_of_eq_None_iff)
  moreover have "deg_val (in_degree m) v = indeg m {} v"
    by (simp add: in_degree_def count_in_facts) (simp add: deg_val_def)
  ultimately show "map_of (in_degree m) v = Some (indeg m {} v)"
    by (auto simp: deg_val_def)
qed

section \<open>Correctness\<close>

lemma relax_correct:
  assumes "\<forall>t\<in>set ts. \<exists>n. map_of d t = Some n \<and> count_list ts t \<le> n"
  shows "\<exists>d' new. relax d q ts = Some (d', q @ new) \<and> map fst d' = map fst d \<and>
    (\<forall>v. map_of d' v = map_option (\<lambda>n. n - count_list ts v) (map_of d v)) \<and>
    distinct new \<and> set new = {t \<in> set ts. map_of d' t = Some 0}"
  using assms
proof (induction ts arbitrary: d q)
  case Nil
  then show ?case by (auto simp: option.map_ident)
next
  case (Cons t ts)
  from Cons.prems obtain k where k: "map_of d t = Some k" "Suc (count_list ts t) \<le> k" by auto
  then obtain n where n: "map_of d t = Some (Suc n)" and le: "count_list ts t \<le> n"
    by (cases k) auto
  let ?d = "AList.update t n d" and ?q = "if n = 0 then q @ [t] else q"
  have upd: "map_of ?d = (map_of d)(t \<mapsto> n)" by (rule update_conv')
  have "\<forall>s\<in>set ts. \<exists>k. map_of ?d s = Some k \<and> count_list ts s \<le> k"
    using Cons.prems le by (auto simp: upd)
  from Cons.IH [OF this, of ?q] obtain d' new where
    r: "relax ?d ?q ts = Some (d', ?q @ new)" and keys: "map fst d' = map fst ?d"
    and d': "\<forall>v. map_of d' v = map_option (\<lambda>n. n - count_list ts v) (map_of ?d v)"
    and new: "distinct new" "set new = {s \<in> set ts. map_of d' s = Some 0}"
    by blast
  have t_in: "t \<in> fst ` set d" using n by (force dest: map_of_SomeD)
  have "map fst ?d = map fst d" using t_in by (simp add: update_keys)
  moreover have "n = 0 \<Longrightarrow> t \<notin> set ts" using le count_list_0_iff [of ts t] by simp
  moreover have "map_of d' v = map_option (\<lambda>n. n - count_list (t # ts) v) (map_of d v)" for v
    using d' n by (simp add: upd)
  moreover have "map_of d' t = Some (n - count_list ts t)" using d' by (simp add: upd)
  ultimately show ?case
    using r keys new n
    by (intro exI [of _ d'] exI [of _ "(if n = 0 then [t] else []) @ new"])
       (auto simp: count_notin)
qed

text \<open>
  The loop invariant.  \<open>P\<close> lists the removed nodes in order, \<open>q\<close> is the queue: degrees count the
  edges from nodes not removed, the removed and queued nodes are exactly those of degree zero, and
  no removed node lies on a cycle.
\<close>

definition kahn_inv :: "'a adj \<Rightarrow> 'a degrees \<Rightarrow> 'a list \<Rightarrow> 'a list \<Rightarrow> bool" where
  "kahn_inv m d q P \<longleftrightarrow>
     map fst d = map fst (in_degree m) \<and>
     (\<forall>v\<in>adj_nodes m. map_of d v = Some (indeg m (set P) v)) \<and>
     distinct (P @ q) \<and>
     set (P @ q) \<subseteq> adj_nodes m \<and>
     (\<forall>v\<in>adj_nodes m. v \<in> set (P @ q) \<longleftrightarrow> indeg m (set P) v = 0) \<and>
     (\<forall>v\<in>set P. (v, v) \<notin> (adj_rel m)\<^sup>+)"

lemma kahn_inv_init:
  "kahn_inv m (in_degree m) (map fst (filter (\<lambda>p. snd p = 0) (in_degree m))) []"
proof -
  let ?q = "map fst (filter (\<lambda>p. snd p = 0) (in_degree m))"
  have mem: "v \<in> set ?q \<longleftrightarrow> (v, 0) \<in> set (in_degree m)" for v by force
  have "v \<in> set ?q \<longleftrightarrow> indeg m {} v = 0" if "v \<in> adj_nodes m" for v
    using map_of_eq_Some_iff [OF in_degree_facts(2) [of m], of v 0] in_degree_facts(3) [OF that]
    unfolding mem by auto
  moreover have "distinct ?q" using in_degree_facts(2) [of m] by (rule distinct_map_filter)
  moreover have "set ?q \<subseteq> adj_nodes m" using in_degree_facts(1) [of m] by auto
  ultimately show ?thesis by (simp add: kahn_inv_def in_degree_facts)
qed

lemma no_cycle_through:
  assumes preds: "\<forall>w. (w, u) \<in> R \<longrightarrow> w \<in> A" and "u \<notin> A" and nocyc: "\<forall>v\<in>A. (v, v) \<notin> R\<^sup>+"
  shows "(u, u) \<notin> R\<^sup>+"
proof
  assume "(u, u) \<in> R\<^sup>+"
  then obtain w where w: "(u, w) \<in> R\<^sup>*" "(w, u) \<in> R"
    by (meson tranclD2)
  then have "(w, w) \<in> R\<^sup>+" by (meson r_into_trancl rtrancl_into_trancl2)
  moreover have "w \<in> A" using preds w(2) by blast
  ultimately show False using nocyc by blast
qed

lemma kahn_inv_step:
  assumes m: "distinct (map fst m)" and inv: "kahn_inv m d (u # q) P"
  shows "\<exists>d' q'. relax d q (adj_next m u) = Some (d', q') \<and> kahn_inv m d' q' (P @ [u])"
proof -
  from inv have u: "u \<in> adj_nodes m" "u \<notin> set P" and
    deg: "\<And>v. v \<in> adj_nodes m \<Longrightarrow> map_of d v = Some (indeg m (set P) v)" and
    mem: "\<And>v. v \<in> adj_nodes m \<Longrightarrow> v \<in> set (P @ u # q) \<longleftrightarrow> indeg m (set P) v = 0"
    by (auto simp: kahn_inv_def)
  let ?ts = "adj_next m u"
  have ins: "indeg m (set P) v = indeg m (insert u (set P)) v + count_list ?ts v" for v
    by (rule indeg_insert [OF m u(2)])
  have ts: "set ?ts \<subseteq> adj_nodes m" using adj_next_targets by (force simp: adj_nodes_def)
  have "\<forall>t\<in>set ?ts. \<exists>n. map_of d t = Some n \<and> count_list ?ts t \<le> n"
    using deg ts ins by force
  from relax_correct [OF this, of q] obtain d' new where
    r: "relax d q ?ts = Some (d', q @ new)" and keys: "map fst d' = map fst d"
    and d': "\<And>v. map_of d' v = map_option (\<lambda>n. n - count_list ?ts v) (map_of d v)"
    and new: "distinct new" "set new = {t \<in> set ?ts. map_of d' t = Some 0}"
    by blast
  have deg': "map_of d' v = Some (indeg m (insert u (set P)) v)" if "v \<in> adj_nodes m" for v
    using deg [OF that] ins [of v] by (simp add: d')
  have pos: "0 < indeg m (set P) t" if "t \<in> set ?ts" for t
    using that ins [of t] count_list_0_iff [of ?ts t] by simp
  have "set new \<inter> set (P @ u # q) = {}" using new(2) pos mem ts by fastforce
  moreover have "v \<in> set (P @ u # q @ new) \<longleftrightarrow> indeg m (insert u (set P)) v = 0"
    if v: "v \<in> adj_nodes m" for v
  proof (cases "v \<in> set (P @ u # q)")
    case True
    then have "indeg m (set P) v = 0" using mem [OF v] by blast
    then have "indeg m (insert u (set P)) v = 0" using ins [of v] by simp
    then show ?thesis using True by auto
  next
    case False
    then have "0 < indeg m (set P) v" using mem [OF v] by simp
    then have pos_ts: "indeg m (insert u (set P)) v = 0 \<Longrightarrow> v \<in> set ?ts"
      using ins [of v] count_list_0_iff [of ?ts v] by simp
    have "v \<in> set new \<longleftrightarrow> v \<in> set ?ts \<and> indeg m (insert u (set P)) v = 0"
      unfolding new(2) using deg' [OF v] by simp
    also have "\<dots> \<longleftrightarrow> indeg m (insert u (set P)) v = 0" using pos_ts by blast
    finally show ?thesis using False by simp
  qed
  moreover have "(u, u) \<notin> (adj_rel m)\<^sup>+"
  proof (rule no_cycle_through [where A = "set P"])
    show "\<forall>w. (w, u) \<in> adj_rel m \<longrightarrow> w \<in> set P"
      using mem [OF u(1)] indeg_zero_iff [OF m, of "set P" u] by simp
  qed (use u(2) inv in \<open>auto simp: kahn_inv_def\<close>)
  ultimately have "kahn_inv m d' (q @ new) (P @ [u])"
    using inv new keys deg' ts by (auto simp: kahn_inv_def)
  with r show ?thesis by blast
qed

lemma kahn_loop_correct:
  "distinct (map fst m) \<Longrightarrow> kahn_inv m d q P \<Longrightarrow>
     \<exists>d' P'. kahn_loop m d q (length P) = Some (d', length P') \<and> kahn_inv m d' [] P'"
proof (induction m d q "length P" arbitrary: P rule: kahn_loop.induct)
  case (2 m d u q)
  from kahn_inv_step [OF "2.prems"] obtain d' q' where
    r: "relax d q (adj_next m u) = Some (d', q')" and inv: "kahn_inv m d' q' (P @ [u])"
    by blast
  have "length P + 1 = length (P @ [u])" by simp
  from "2.hyps" [OF r refl this "2.prems"(1) inv] show ?case by (simp add: r)
qed auto

text \<open>At the end of the loop the removed nodes are all the nodes exactly when there is no cycle.\<close>

lemma kahn_inv_final:
  assumes m: "distinct (map fst m)" and inv: "kahn_inv m d [] P"
  shows "length P = length d \<longleftrightarrow> acyclic (adj_rel m)"
proof -
  have len: "length d = card (adj_nodes m)"
  proof -
    have "length d = length (map fst (in_degree m))"
      using inv by (metis kahn_inv_def length_map)
    also have "\<dots> = card (adj_nodes m)"
      using distinct_card [OF in_degree_facts(2) [of m]] in_degree_facts(1) [of m] by simp
    finally show ?thesis .
  qed
  have P: "set P \<subseteq> adj_nodes m" "length P = card (set P)"
    using inv by (auto simp: kahn_inv_def distinct_card)
  have fin: "finite (adj_nodes m)" using in_degree_facts(1) [of m] by (metis finite_imageI finite_set)
  have "length P = length d \<longleftrightarrow> set P = adj_nodes m"
    unfolding P(2) len using card_subset_eq [OF fin P(1)] by metis
  also have "\<dots> \<longleftrightarrow> acyclic (adj_rel m)"
  proof
    assume all: "set P = adj_nodes m"
    show "acyclic (adj_rel m)"
      unfolding acyclic_def
    proof (intro allI notI)
      fix v assume v: "(v, v) \<in> (adj_rel m)\<^sup>+"
      obtain w where "(v, w) \<in> adj_rel m"
        using v by (rule tranclE2) auto
      then have "v \<in> set P" using adj_rel_nodes [of v w m] all by simp
      with v inv show False by (auto simp: kahn_inv_def)
    qed
  next
    assume ac: "acyclic (adj_rel m)"
    let ?A = "adj_nodes m - set P"
    have "\<exists>u\<in>?A. (u, v) \<in> adj_rel m" if "v \<in> ?A" for v
    proof -
      have "indeg m (set P) v \<noteq> 0" using that inv by (auto simp: kahn_inv_def)
      then obtain u where "(u, v) \<in> adj_rel m" "u \<notin> set P"
        unfolding indeg_zero_iff [OF m, of "set P" v] by blast
      then show ?thesis using adj_rel_nodes [of u v m] by blast
    qed
    moreover have "finite ?A" using fin by simp
    ultimately have "?A = {}" using ac finite_no_source_cycle [of ?A "adj_rel m"] by blast
    then show "set P = adj_nodes m" using P(1) by blast
  qed
  finally show ?thesis .
qed

lemma find_advance_cycle_total:
  assumes "distinct (map fst m)"
  shows "find_advance_cycle m \<noteq> None"
    and "find_advance_cycle m = Some None \<longleftrightarrow> acyclic (adj_rel m)"
proof -
  let ?q = "map fst (filter (\<lambda>p. snd p = 0) (in_degree m))"
  from kahn_loop_correct [OF assms kahn_inv_init] obtain d P where
    "kahn_loop m (in_degree m) ?q 0 = Some (d, length P)" and "kahn_inv m d [] P"
    by auto
  with kahn_inv_final [OF assms, of d P]
  show "find_advance_cycle m \<noteq> None"
    and "find_advance_cycle m = Some None \<longleftrightarrow> acyclic (adj_rel m)"
    by (auto simp: find_advance_cycle_def Let_def split: option.splits)
qed

end
