(* ===== verification/Minimal_Validator.thy ===== *)
theory Minimal_Validator
  imports Cycle_Test Legacy_Validator
begin

text \<open>
  The Minimal (V2) graph validator, \<open>graph/minimal_validator.rs\<close>.  The result is an option because
  its cycle test has two operations that can panic; \<open>None\<close> is the panic.  The set of the task ids is
  a hash set, walked over in an order that is the parameter \<open>it\<close>.
\<close>

section \<open>Node rules\<close>

datatype minimal_node_kind = MTask | MTerminal

definition minimal_node_kind :: "node_definition \<Rightarrow> (graph_validation_error, minimal_node_kind) res" where
  "minimal_node_kind n =
     (case node_type n of
        NT_DRAFT \<Rightarrow> Inl (gve ''v2_node_draft_forbidden'' [MStr (node_key n)])
      | NT_NORMAL \<Rightarrow> Inr MTask
      | NT_TERMINAL \<Rightarrow> Inr MTerminal
      | NT_TASK \<Rightarrow> Inl (gve ''v2_node_task_forbidden'' [MStr (node_key n)]))"

text \<open>One round of the node loop; a node of a forbidden kind is skipped after its error.\<close>

definition minimal_node_step ::
  "node_definition list \<times> graph_validation_error list \<Rightarrow> node_definition \<Rightarrow>
     node_definition list \<times> graph_validation_error list" where
  "minimal_node_step st n = (case st of (tasks, es) \<Rightarrow>
     (case minimal_node_kind n of
        Inl e \<Rightarrow> (tasks, es @ [e])
      | Inr kind \<Rightarrow>
          (case kind of
             MTask \<Rightarrow>
               (tasks @ [n],
                es @ push_if (assignee_ref n = None) (gve ''v2_task_assignee_required'' [MStr (node_key n)]) @
                push_if (primary_advance_transition_id n \<noteq> None)
                  (gve ''v2_primary_advance_forbidden'' [MStr (node_key n)]))
           | MTerminal \<Rightarrow>
               (tasks,
                es @ push_if (assignee_ref n \<noteq> None) (gve ''v2_terminal_assignee_forbidden'' [MStr (node_key n)]) @
                push_if (primary_advance_transition_id n \<noteq> None)
                  (gve ''v2_primary_advance_forbidden'' [MStr (node_key n)])))))"

definition is_single_segment :: "string \<Rightarrow> bool" where
  "is_single_segment key \<longleftrightarrow>
     key \<noteq> [] \<and> CHR ''.'' \<notin> set key \<and> CHR ''/'' \<notin> set key \<and> CHR ''['' \<notin> set key \<and>
     CHR '']'' \<notin> set key \<and> CHR '' '' \<notin> set key"

definition minimal_assignee_errors :: "node_definition \<Rightarrow> graph_validation_error list" where
  "minimal_assignee_errors n =
     (case assignee_ref n of
        None \<Rightarrow> []
      | Some a \<Rightarrow>
          (case ref_type a of
             WorkflowCreator \<Rightarrow> []
           | FixedPrincipal \<Rightarrow>
               push_if (fixed_principal_id a = None) (gve ''v2_fixed_principal_missing'' [MStr (node_key n)])
           | InstanceInputPrincipal \<Rightarrow>
               (case assignee_input_key a of
                  None \<Rightarrow> [gve ''v2_context_principal_key_required'' [MStr (node_key n)]]
                | Some key \<Rightarrow>
                    push_if (\<not> is_single_segment key)
                      (gve ''v2_context_principal_key_must_be_single_segment'' [MStr (node_key n), MStr key]))
           | DomainOwner \<Rightarrow> [gve ''v2_assignee_domain_owner_forbidden'' [MStr (node_key n)]]))"

section \<open>The ADVANCE graph\<close>

text \<open>
  The loop over the transitions: the adjacency list and the in-degrees of the ADVANCE edges, the
  RETURN edges in order, and an error for each TERMINATE.
\<close>

record edge_tables =
  advance_out :: "uuid adj"
  advance_in_degree :: "uuid degrees"
  returns :: "(uuid \<times> uuid) list"
  edge_errors :: "graph_validation_error list"

definition add_edge :: "transition_definition \<Rightarrow> edge_tables \<Rightarrow> edge_tables" where
  "add_edge t et =
     (case transition_effect t of
        Advance \<Rightarrow>
          et\<lparr>advance_out := adj_push (source_node_id t) (target_node_id t) (advance_out et),
             advance_in_degree := deg_incr (target_node_id t) (advance_in_degree et)\<rparr>
      | Return \<Rightarrow> et\<lparr>returns := returns et @ [(source_node_id t, target_node_id t)]\<rparr>
      | Terminate \<Rightarrow>
          et\<lparr>edge_errors := edge_errors et @ [gve ''v2_terminate_effect_forbidden'' [MStr (transition_key t)]]\<rparr>)"

definition collect_edges :: "workflow_graph \<Rightarrow> edge_tables" where
  "collect_edges g =
     fold add_edge (transitions g)
       \<lparr>advance_out = [], advance_in_degree = fold (\<lambda>n. AList.update (node_id n) 0) (nodes g) [],
        returns = [], edge_errors = []\<rparr>"

definition advance_reachable :: "uuid \<Rightarrow> uuid adj \<Rightarrow> uuid set" where
  "advance_reachable start out = bfs out start"

text \<open>\<open>advance_in_degree.get(id).copied().unwrap_or(0)\<close>.\<close>

definition degree_or_zero :: "uuid degrees \<Rightarrow> uuid \<Rightarrow> nat" where
  "degree_or_zero d i = (case map_of d i of None \<Rightarrow> 0 | Some n \<Rightarrow> n)"

definition entry_candidates :: "(uuid list \<Rightarrow> uuid list) \<Rightarrow> uuid degrees \<Rightarrow> node_definition list \<Rightarrow> uuid list" where
  "entry_candidates it d tasks = filter (\<lambda>i. degree_or_zero d i = 0) (it (map node_id tasks))"

definition minimal_entry :: "uuid list \<Rightarrow> uuid option \<times> graph_validation_error list" where
  "minimal_entry candidates =
     (case candidates of
        [] \<Rightarrow> (None, [gve ''v2_entry_task_required'' []])
      | [single] \<Rightarrow> (Some single, [])
      | many \<Rightarrow> (None, [gve ''v2_multiple_entry_tasks'' (MInt (int (length many)) # map MId many)]))"

definition minimal_return_errors :: "uuid adj \<Rightarrow> uuid \<times> uuid \<Rightarrow> graph_validation_error list" where
  "minimal_return_errors out e = (case e of (source, target) \<Rightarrow>
     (if source = target then [gve ''v2_return_target_not_strict_ancestor'' [MId source]]
      else push_if (source \<notin> advance_reachable target out)
             (gve ''v2_return_target_not_strict_ancestor'' [MId target, MId source])))"

definition minimal_terminal_outgoing :: "workflow_graph \<Rightarrow> graph_validation_error list" where
  "minimal_terminal_outgoing g =
     concat (map (\<lambda>n.
       if node_type n = NT_TERMINAL then
         push_if (list_ex (\<lambda>t. source_node_id t = node_id n) (transitions g))
           (gve ''v2_terminal_outgoing_forbidden'' [MStr (node_key n)])
       else []) (nodes g))"

section \<open>The validator\<close>

definition validate_minimal_graph ::
  "(uuid list \<Rightarrow> uuid list) \<Rightarrow> workflow_graph \<Rightarrow> validation_result option" where
  "validate_minimal_graph it g =
     (let (tasks, node_errors) = fold (\<lambda>n st. minimal_node_step st n) (nodes g) ([], []);
          et = collect_edges g;
          out = advance_out et
      in case find_advance_cycle out of
           None \<Rightarrow> None
         | Some cycle \<Rightarrow>
             (let (entry, entry_errors) = minimal_entry (entry_candidates it (advance_in_degree et) tasks)
              in Some (result_of_errors
                (validate_transition_references g (nodes_by_id g) @
                 node_errors @
                 concat (map minimal_assignee_errors (nodes g)) @
                 edge_errors et @
                 (case cycle of None \<Rightarrow> [] | Some (a, b) \<Rightarrow> [gve ''v2_advance_cycle'' [MId a, MId b]]) @
                 entry_errors @
                 (case entry of
                    None \<Rightarrow> []
                  | Some e \<Rightarrow>
                      (let reachable = advance_reachable e out
                       in concat (map (\<lambda>t. push_if (node_id t \<notin> reachable)
                            (gve ''v2_unreachable_task'' [MStr (node_key t)])) tasks))) @
                 concat (map (minimal_return_errors out) (returns et)) @
                 minimal_terminal_outgoing g))))"

section \<open>Specification\<close>

definition minimal_assignee_ok :: "assignee_ref \<Rightarrow> bool" where
  "minimal_assignee_ok a \<longleftrightarrow>
     ref_type a = WorkflowCreator \<or>
     ref_type a = FixedPrincipal \<and> fixed_principal_id a \<noteq> None \<or>
     ref_type a = InstanceInputPrincipal \<and> (\<exists>k. assignee_input_key a = Some k \<and> is_single_segment k)"

definition minimal_node_ok :: "workflow_graph \<Rightarrow> node_definition \<Rightarrow> bool" where
  "minimal_node_ok g n \<longleftrightarrow>
     primary_advance_transition_id n = None \<and>
     (node_type n = NT_NORMAL \<and> (\<exists>a. assignee_ref n = Some a \<and> minimal_assignee_ok a) \<or>
      node_type n = NT_TERMINAL \<and> assignee_ref n = None \<and>
        (\<forall>t\<in>set (transitions g). source_node_id t \<noteq> node_id n))"

definition task_ids :: "workflow_graph \<Rightarrow> uuid set" where
  "task_ids g = {node_id n |n. n \<in> set (nodes g) \<and> node_type n = NT_NORMAL}"

definition advance_rel :: "workflow_graph \<Rightarrow> (uuid \<times> uuid) set" where
  "advance_rel g = set (advance_edges g)"

definition minimal_ok :: "workflow_graph \<Rightarrow> bool" where
  "minimal_ok g \<longleftrightarrow>
     (\<forall>n\<in>set (nodes g). minimal_node_ok g n) \<and>
     (\<forall>t\<in>set (transitions g). transition_effect t \<noteq> Terminate \<and>
        source_node_id t \<in> node_id ` set (nodes g) \<and> target_node_id t \<in> node_id ` set (nodes g) \<and>
        source_node_id t \<noteq> target_node_id t) \<and>
     acyclic (advance_rel g) \<and>
     (\<exists>entry. {i \<in> task_ids g. i \<notin> Range (advance_rel g)} = {entry} \<and>
        (\<forall>i\<in>task_ids g. (entry, i) \<in> (advance_rel g)\<^sup>*)) \<and>
     (\<forall>t\<in>set (transitions g). transition_effect t = Return \<longrightarrow>
        (target_node_id t, source_node_id t) \<in> (advance_rel g)\<^sup>+)"

end
