(* ===== verification/Minimal_Spec.thy ===== *)
theory Minimal_Spec
  imports Minimal_Validator Legacy_Spec
begin

text \<open>
  The Minimal validator implements its specification \<open>minimal_ok\<close>: it never panics, and accepts
  exactly the graphs of the specification.
\<close>

section \<open>The loops\<close>

definition minimal_node_errors :: "node_definition \<Rightarrow> graph_validation_error list" where
  "minimal_node_errors n = snd (minimal_node_step ([], []) n)"

lemma minimal_node_step_eq:
  "minimal_node_step (tasks, es) n =
     (tasks @ (if node_type n = NT_NORMAL then [n] else []), es @ minimal_node_errors n)"
  by (cases "node_type n")
     (simp_all add: minimal_node_step_def minimal_node_errors_def minimal_node_kind_def)

lemma minimal_fold_nodes:
  "fold (\<lambda>n st. minimal_node_step st n) ns (tasks, es) =
     (tasks @ filter (\<lambda>n. node_type n = NT_NORMAL) ns, es @ concat (map minimal_node_errors ns))"
  by (induction ns arbitrary: tasks es) (simp_all add: minimal_node_step_eq)

lemma add_edge_fold:
  "advance_out (fold add_edge ts et) =
     adj_push_all (advance_out et) (map edge (filter (\<lambda>t. transition_effect t = Advance) ts))"
  "advance_in_degree (fold add_edge ts et) =
     fold deg_incr (map target_node_id (filter (\<lambda>t. transition_effect t = Advance) ts)) (advance_in_degree et)"
  "returns (fold add_edge ts et) =
     returns et @ map edge (filter (\<lambda>t. transition_effect t = Return) ts)"
  "edge_errors (fold add_edge ts et) =
     edge_errors et @ map (\<lambda>t. gve ''v2_terminate_effect_forbidden'' [MStr (transition_key t)])
       (filter (\<lambda>t. transition_effect t = Terminate) ts)"
  by (induction ts arbitrary: et) (auto simp: add_edge_def edge_def split: transition_effect.splits)

lemma zero_degrees: "degree_or_zero (fold (\<lambda>n. AList.update (node_id n) 0) ns d) i =
    (if i \<in> node_id ` set ns then 0 else degree_or_zero d i)"
  by (induction ns arbitrary: d) (auto simp: degree_or_zero_def update_conv')

lemma collect_edges_facts:
  "advance_out (collect_edges g) = build_adj (advance_edges g)"
  "degree_or_zero (advance_in_degree (collect_edges g)) i = count_list (map snd (advance_edges g)) i"
  "returns (collect_edges g) = edges_with (\<lambda>e. e = Return) g"
  "edge_errors (collect_edges g) = [] \<longleftrightarrow> (\<forall>t\<in>set (transitions g). transition_effect t \<noteq> Terminate)"
proof -
  show "advance_out (collect_edges g) = build_adj (advance_edges g)"
    and "returns (collect_edges g) = edges_with (\<lambda>e. e = Return) g"
    by (simp_all add: collect_edges_def add_edge_fold build_adj_def advance_edges_def edges_with_def)
  have "degree_or_zero d = deg_val d" for d
    by (simp add: fun_eq_iff degree_or_zero_def deg_val_def)
  moreover have "snd \<circ> edge = target_node_id" by (simp add: fun_eq_iff edge_def)
  moreover have "degree_or_zero (fold (\<lambda>n. AList.update (node_id n) 0) (nodes g) []) i = 0"
    by (simp add: zero_degrees) (simp add: degree_or_zero_def)
  ultimately show "degree_or_zero (advance_in_degree (collect_edges g)) i = count_list (map snd (advance_edges g)) i"
    by (simp add: collect_edges_def add_edge_fold fold_incr_facts advance_edges_def edges_with_def)
  show "edge_errors (collect_edges g) = [] \<longleftrightarrow> (\<forall>t\<in>set (transitions g). transition_effect t \<noteq> Terminate)"
    by (simp add: collect_edges_def add_edge_fold filter_empty_conv)
qed

lemma advance_cycle_total:
  "find_advance_cycle (build_adj (advance_edges g)) \<noteq> None"
  "find_advance_cycle (build_adj (advance_edges g)) = Some None \<longleftrightarrow> acyclic (advance_rel g)"
  using find_advance_cycle_total [OF distinct_build_adj [of "advance_edges g"]]
  by (simp_all add: adj_rel_build advance_rel_def)

lemma minimal_entry_Some_iff:
  "snd (minimal_entry cs) = [] \<longleftrightarrow> (\<exists>e. cs = [e])"
  "minimal_entry [e] = (Some e, [])"
  by (simp_all add: minimal_entry_def split: list.splits)

lemma entry_candidates_iff:
  assumes it: "is_iteration it" and d: "\<And>i. degree_or_zero d i = count_list (map snd (advance_edges g)) i"
  shows "entry_candidates it d tasks = [e] \<longleftrightarrow>
    {i \<in> node_id ` set tasks. i \<notin> Range (advance_rel g)} = {e}"
    (is "?cs = [e] \<longleftrightarrow> ?S = {e}")
proof -
  have s: "set ?cs = ?S"
    using is_iteration_set [OF it]
    by (auto simp: entry_candidates_def d count_list_0_iff advance_rel_def Range_snd)
  have dist: "distinct ?cs" using it by (simp add: entry_candidates_def is_iteration_def)
  show ?thesis
  proof
    assume "?S = {e}"
    then have *: "set ?cs = {e}" using s by simp
    with dist have "length ?cs = 1" by (metis distinct_card is_singleton_altdef is_singletonI)
    with * show "?cs = [e]" by (cases ?cs) auto
  qed (use s in simp)
qed

lemma entry_candidates_single:
  assumes "is_iteration it"
  shows "entry_candidates it (advance_in_degree (collect_edges g)) (filter (\<lambda>n. node_type n = NT_NORMAL) (nodes g)) = [e]
    \<longleftrightarrow> {i \<in> task_ids g. i \<notin> Range (advance_rel g)} = {e}"
proof -
  have "task_ids g = node_id ` set (filter (\<lambda>n. node_type n = NT_NORMAL) (nodes g))"
    by (auto simp: task_ids_def)
  then show ?thesis using entry_candidates_iff [OF assms collect_edges_facts(2)] by simp
qed

section \<open>Rule by rule\<close>

lemma advance_reachable_iff:
  "x \<in> advance_reachable s (build_adj (advance_edges g)) \<longleftrightarrow> (s, x) \<in> (advance_rel g)\<^sup>*"
  by (simp add: advance_reachable_def bfs_search.search_build_iff advance_rel_def)

lemma minimal_node_rules_Nil_iff:
  "minimal_node_errors n = [] \<and> minimal_assignee_errors n = [] \<longleftrightarrow>
     primary_advance_transition_id n = None \<and>
     (node_type n = NT_NORMAL \<and> (\<exists>a. assignee_ref n = Some a \<and> minimal_assignee_ok a) \<or>
      node_type n = NT_TERMINAL \<and> assignee_ref n = None)"
proof (cases "assignee_ref n")
  case None
  then show ?thesis
    by (cases "node_type n")
       (simp_all add: minimal_node_errors_def minimal_node_step_def minimal_node_kind_def error_simps
         minimal_assignee_errors_def)
next
  case (Some a)
  have "minimal_assignee_errors n = [] \<longleftrightarrow> minimal_assignee_ok a"
    by (cases "ref_type a"; cases "assignee_input_key a")
       (simp_all add: minimal_assignee_errors_def minimal_assignee_ok_def Some error_simps)
  then show ?thesis using Some
    by (cases "node_type n")
       (simp_all add: minimal_node_errors_def minimal_node_step_def minimal_node_kind_def error_simps)
qed

lemma minimal_terminal_outgoing_Nil_iff:
  "minimal_terminal_outgoing g = [] \<longleftrightarrow>
     (\<forall>n\<in>set (nodes g). node_type n = NT_TERMINAL \<longrightarrow>
        (\<forall>t\<in>set (transitions g). source_node_id t \<noteq> node_id n))"
  unfolding minimal_terminal_outgoing_def concat_map_eq_Nil
  by (simp add: push_if_eq_Nil list_ex_iff)

text \<open>On an acyclic ADVANCE graph a different node that reaches the source is a strict ancestor.\<close>

lemma minimal_return_Nil_iff:
  assumes "acyclic (advance_rel g)"
  shows "minimal_return_errors (build_adj (advance_edges g)) (s, t) = [] \<longleftrightarrow> (t, s) \<in> (advance_rel g)\<^sup>+"
proof (cases "s = t")
  case True
  then show ?thesis using assms by (simp add: minimal_return_errors_def acyclic_def)
next
  case False
  then have "(t, s) \<in> (advance_rel g)\<^sup>* \<longleftrightarrow> (t, s) \<in> (advance_rel g)\<^sup>+"
    by (metis rtranclD trancl_into_rtrancl)
  then show ?thesis using False
    by (simp add: minimal_return_errors_def advance_reachable_iff error_simps)
qed

section \<open>The validator\<close>

lemma validate_minimal_graph_errors:
  obtains cycle where
    "validate_minimal_graph it g =
       (let tasks = filter (\<lambda>n. node_type n = NT_NORMAL) (nodes g);
            out = build_adj (advance_edges g);
            et = collect_edges g;
            (entry, entry_errors) = minimal_entry (entry_candidates it (advance_in_degree et) tasks)
        in Some (result_of_errors
            (validate_transition_references g (nodes_by_id g) @
             concat (map minimal_node_errors (nodes g)) @
             concat (map minimal_assignee_errors (nodes g)) @
             edge_errors et @ cycle @ entry_errors @
             (case entry of
                None \<Rightarrow> []
              | Some e \<Rightarrow>
                  concat (map (\<lambda>t. push_if (node_id t \<notin> advance_reachable e out)
                            (gve ''v2_unreachable_task'' [MStr (node_key t)])) tasks)) @
             concat (map (minimal_return_errors out) (edges_with (\<lambda>e. e = Return) g)) @
             minimal_terminal_outgoing g)))"
    and "cycle = [] \<longleftrightarrow> acyclic (advance_rel g)"
proof -
  obtain c where c: "find_advance_cycle (build_adj (advance_edges g)) = Some c"
    using advance_cycle_total(1) by blast
  let ?cycle = "case c of None \<Rightarrow> [] | Some (a, b) \<Rightarrow> [gve ''v2_advance_cycle'' [MId a, MId b]]"
  have "?cycle = [] \<longleftrightarrow> acyclic (advance_rel g)"
    using advance_cycle_total(2) [of g] c by (auto split: option.splits)
  then show thesis
    by (intro that [of ?cycle])
       (simp_all add: validate_minimal_graph_def minimal_fold_nodes collect_edges_facts c Let_def split_beta
         split: option.split)
qed

lemma minimal_never_panics: "validate_minimal_graph it g \<noteq> None"
  by (rule validate_minimal_graph_errors [of it g]) (simp add: Let_def split_beta)

lemma minimal_valid_iff:
  assumes it: "is_iteration it"
  shows "(\<exists>r. validate_minimal_graph it g = Some r \<and> valid r) \<longleftrightarrow> minimal_ok g"
proof -
  let ?tasks = "filter (\<lambda>n. node_type n = NT_NORMAL) (nodes g)"
  let ?cs = "entry_candidates it (advance_in_degree (collect_edges g)) ?tasks"
  let ?out = "build_adj (advance_edges g)"
  have refs: "validate_transition_references g (nodes_by_id g) = [] \<longleftrightarrow> (\<forall>t\<in>set (transitions g). joins_nodes g t)"
    by (rule transition_references_Nil_iff)
  have nodes: "concat (map minimal_node_errors (nodes g)) = [] \<and> concat (map minimal_assignee_errors (nodes g)) = [] \<and>
      minimal_terminal_outgoing g = [] \<longleftrightarrow> (\<forall>n\<in>set (nodes g). minimal_node_ok g n)"
  proof -
    have "minimal_node_ok g n \<longleftrightarrow>
        (minimal_node_errors n = [] \<and> minimal_assignee_errors n = []) \<and>
        (node_type n = NT_TERMINAL \<longrightarrow> (\<forall>t\<in>set (transitions g). source_node_id t \<noteq> node_id n))" for n
      unfolding minimal_node_rules_Nil_iff minimal_node_ok_def by (cases "node_type n") simp_all
    then show ?thesis
      unfolding concat_map_eq_Nil minimal_terminal_outgoing_Nil_iff by (simp add: ball_conj_distrib) 
  qed
  have tasks: "(\<forall>i\<in>task_ids g. P i) \<longleftrightarrow> (\<forall>n\<in>set ?tasks. P (node_id n))" for P
    by (auto simp: task_ids_def)
  have returns: "acyclic (advance_rel g) \<Longrightarrow>
      concat (map (minimal_return_errors ?out) (edges_with (\<lambda>e. e = Return) g)) = [] \<longleftrightarrow>
      (\<forall>t\<in>set (transitions g). transition_effect t = Return \<longrightarrow>
         (target_node_id t, source_node_id t) \<in> (advance_rel g)\<^sup>+)"
    unfolding concat_map_eq_Nil set_edges_with
    by (auto simp: minimal_return_Nil_iff)
  obtain cycle where eq: "validate_minimal_graph it g =
      (let (entry, entry_errors) = minimal_entry ?cs
        in Some (result_of_errors
            (validate_transition_references g (nodes_by_id g) @
             concat (map minimal_node_errors (nodes g)) @
             concat (map minimal_assignee_errors (nodes g)) @
             edge_errors (collect_edges g) @ cycle @ entry_errors @
             (case entry of
                None \<Rightarrow> []
              | Some e \<Rightarrow>
                  concat (map (\<lambda>t. push_if (node_id t \<notin> advance_reachable e ?out)
                            (gve ''v2_unreachable_task'' [MStr (node_key t)])) ?tasks)) @
             concat (map (minimal_return_errors ?out) (edges_with (\<lambda>e. e = Return) g)) @
             minimal_terminal_outgoing g)))"
    and cycle: "cycle = [] \<longleftrightarrow> acyclic (advance_rel g)"
    by (rule validate_minimal_graph_errors [of it g]) (simp add: Let_def)
  show ?thesis
  proof (cases "\<exists>e. ?cs = [e]")
    case False
    then have "snd (minimal_entry ?cs) \<noteq> []" using minimal_entry_Some_iff(1) [of ?cs] by simp
    then have "\<not> (\<exists>r. validate_minimal_graph it g = Some r \<and> valid r)"
      unfolding eq by (simp add: split_beta)
    moreover have "\<not> minimal_ok g"
      using False unfolding entry_candidates_single [OF it] minimal_ok_def by blast
    ultimately show ?thesis by blast
  next
    case True
    then obtain e where e: "?cs = [e]" ..
    then have S: "{i \<in> task_ids g. i \<notin> Range (advance_rel g)} = {e}"
      unfolding entry_candidates_single [OF it] .
    have "(\<exists>r. validate_minimal_graph it g = Some r \<and> valid r) \<longleftrightarrow>
        (\<forall>t\<in>set (transitions g). joins_nodes g t) \<and> (\<forall>n\<in>set (nodes g). minimal_node_ok g n) \<and>
        (\<forall>t\<in>set (transitions g). transition_effect t \<noteq> Terminate) \<and> acyclic (advance_rel g) \<and>
        (\<forall>i\<in>task_ids g. (e, i) \<in> (advance_rel g)\<^sup>*) \<and>
        (\<forall>t\<in>set (transitions g). transition_effect t = Return \<longrightarrow>
           (target_node_id t, source_node_id t) \<in> (advance_rel g)\<^sup>+)"
      unfolding eq e minimal_entry_Some_iff(2) tasks
      using refs nodes cycle returns collect_edges_facts(4) [of g]
      by (simp add: concat_map_eq_Nil push_if_eq_Nil advance_reachable_iff) blast
    also have "\<dots> \<longleftrightarrow> minimal_ok g"
      unfolding minimal_ok_def S joins_nodes_def by blast
    finally show ?thesis .
  qed
qed

end
