(* ===== verification/Minimal_Properties.thy ===== *)
theory Minimal_Properties
  imports Minimal_Spec Legacy_Properties
begin

text \<open>The properties of the Minimal validator and of its cycle test.\<close>

section \<open>Concrete graphs\<close>

definition branch_graph :: workflow_graph where
  "branch_graph =
     \<lparr>nodes = [plain_node 1 ''triage'' 0 NT_NORMAL creator None,
               plain_node 2 ''fix'' 1 NT_NORMAL
                 (Some \<lparr>ref_type = InstanceInputPrincipal, fixed_principal_id = None,
                        assignee_input_key = Some ''owner''\<rparr>) None,
               plain_node 3 ''done'' 2 NT_TERMINAL None None],
      transitions = [plain_transition 11 ''accept'' 1 2 Advance,
                     plain_transition 12 ''reject'' 1 3 Advance,
                     plain_transition 13 ''finish'' 2 3 Advance,
                     plain_transition 14 ''reopen'' 2 1 Return],
      context_schema = None\<rparr>"

definition lone_task_graph :: workflow_graph where
  "lone_task_graph =
     \<lparr>nodes = [plain_node 1 ''only'' 0 NT_NORMAL creator None], transitions = [], context_schema = None\<rparr>"

lemma branch_graph_accepted: "validate_minimal_graph remdups branch_graph = Some (result_of_errors [])"
  by code_simp

section \<open>Properties\<close>

text \<open>
  Kahn's test is exact and never panics: on an adjacency list with distinct keys
  \<open>find_advance_cycle\<close> returns a value, and returns no cycle exactly when the relation is acyclic.
\<close>
theorem kahn_cycle_test_exact:
  assumes "distinct (map fst m)"
  shows "\<exists>c. find_advance_cycle m = Some c \<and> (c = None \<longleftrightarrow> acyclic (adj_rel m))"
  using find_advance_cycle_total [OF assms] by (cases "find_advance_cycle m") auto

theorem kahn_cycle_test_exact_witness:
  "\<exists>c. find_advance_cycle [(1, [2, 3]), (2, [3]), (3, [1 :: uuid])] = Some (Some c) \<and>
     \<not> acyclic (adj_rel [(1, [2, 3]), (2, [3]), (3, [1 :: uuid])])"
proof -
  have "find_advance_cycle [(1, [2, 3]), (2, [3]), (3, [1])] = Some (Some (1, 1))"
    by code_simp
  then show ?thesis
    using kahn_cycle_test_exact [of "[(1, [2, 3]), (2, [3]), (3, [1 :: uuid])]"] by simp
qed

text \<open>
  The Minimal validator always returns a result: neither the missing-key lookup nor the
  underflowing decrement of its cycle test can happen, on any graph.
\<close>
theorem minimal_validator_never_panics: "\<exists>r. validate_minimal_graph it g = Some r"
  using minimal_never_panics [of it g] by blast

text \<open>
  C2. The Minimal validator is sound and complete for \<open>minimal_ok\<close>, on every graph and for every
  iteration order of the hash set of task ids.
\<close>
theorem minimal_validator_correct:
  assumes "is_iteration it"
  shows "(\<exists>r. validate_minimal_graph it g = Some r \<and> valid r) \<longleftrightarrow> minimal_ok g"
  by (rule minimal_valid_iff [OF assms])

theorem minimal_validator_correct_witness: "is_iteration remdups \<and> minimal_ok branch_graph"
  using minimal_validator_correct [OF is_iteration_remdups, of branch_graph]
    branch_graph_accepted is_iteration_remdups by auto

text \<open>
  The Minimal validator accepts a graph from which no TERMINAL node can be reached: it asks neither
  for a TERMINAL node nor for a way out of a TASK, although its contract says that a workflow ends by
  an ADVANCE into a TERMINAL node.
\<close>
theorem minimal_accepts_dead_end:
  "(\<exists>r. validate_minimal_graph remdups lone_task_graph = Some r \<and> valid r) \<and>
   \<not> (\<exists>n\<in>set (nodes lone_task_graph). node_type n = NT_TERMINAL)"
proof -
  have "validate_minimal_graph remdups lone_task_graph = Some (result_of_errors [])"
    by code_simp
  then show ?thesis by (simp add: lone_task_graph_def plain_node_def)
qed

end
