(* ===== verification/Visit_Activation_Validator.thy ===== *)
theory Visit_Activation_Validator
  imports Minimal_Spec
begin

text \<open>
  The VISIT_ACTIVATION_V1 (model 3) graph validator, \<open>graph/visit_activation_validator.rs\<close>, its
  specification \<open>visit_ok\<close> and the proof that it accepts exactly the graphs of the specification.
\<close>

section \<open>Node rules\<close>

datatype v1_node_kind = V1Task | V1Terminal

definition v1_node_kind :: "node_definition \<Rightarrow> (graph_validation_error, v1_node_kind) res" where
  "v1_node_kind n =
     (case node_type n of
        NT_TASK \<Rightarrow> Inr V1Task
      | NT_TERMINAL \<Rightarrow> Inr V1Terminal
      | other \<Rightarrow> Inl (gve ''v1_node_kind_forbidden'' [MStr (node_key n), MStr (node_type_to_string other)]))"

definition v1_owner_errors :: "string \<Rightarrow> assignee_ref \<Rightarrow> graph_validation_error list" where
  "v1_owner_errors key a =
     (case ref_type a of
        WorkflowCreator \<Rightarrow> []
      | DomainOwner \<Rightarrow> []
      | FixedPrincipal \<Rightarrow>
          push_if (fixed_principal_id a = None) (gve ''v1_fixed_principal_missing'' [MStr key])
      | InstanceInputPrincipal \<Rightarrow> [gve ''v1_owner_ref_forbidden'' [MStr key]])"

text \<open>One round of the node loop; a TASK without an owner skips the check of its primary.\<close>

definition v1_node_step ::
  "node_definition list \<times> graph_validation_error list \<Rightarrow> node_definition \<Rightarrow>
     node_definition list \<times> graph_validation_error list" where
  "v1_node_step st n = (case st of (tasks, es) \<Rightarrow>
     (case v1_node_kind n of
        Inl e \<Rightarrow> (tasks, es @ [e])
      | Inr kind \<Rightarrow>
          (case kind of
             V1Task \<Rightarrow>
               (tasks @ [n],
                es @ (case assignee_ref n of
                   None \<Rightarrow> [gve ''v1_task_owner_required'' [MStr (node_key n)]]
                 | Some a \<Rightarrow>
                     v1_owner_errors (node_key n) a @
                     push_if (primary_advance_transition_id n = None)
                       (gve ''v1_primary_advance_required'' [MStr (node_key n)])))
           | V1Terminal \<Rightarrow>
               (tasks,
                es @ push_if (assignee_ref n \<noteq> None) (gve ''v1_terminal_owner_forbidden'' [MStr (node_key n)]) @
                push_if (primary_advance_transition_id n \<noteq> None)
                  (gve ''v1_terminal_primary_advance_forbidden'' [MStr (node_key n)])))))"

section \<open>Edges\<close>

record v1_edge_tables =
  v1_advance_out :: "uuid adj"
  v1_returns :: "(uuid \<times> uuid) list"
  v1_terminates :: "(uuid \<times> uuid) list"
  v1_edge_errors :: "graph_validation_error list"

definition v1_second_advance :: "node_map \<Rightarrow> uuid adj \<Rightarrow> uuid \<Rightarrow> graph_validation_error list" where
  "v1_second_advance nbi out source =
     (case nbi source of
        None \<Rightarrow> []
      | Some node \<Rightarrow>
          if node_type node \<noteq> NT_TERMINAL then
            let already = length (adj_next out source)
            in push_if (1 \<le> already) (gve ''v1_multiple_advance_forbidden'' [MStr (node_key node)])
          else [])"

definition v1_add_edge :: "node_map \<Rightarrow> transition_definition \<Rightarrow> v1_edge_tables \<Rightarrow> v1_edge_tables" where
  "v1_add_edge nbi t et =
     (let source = source_node_id t; target = target_node_id t
      in case transition_effect t of
           Advance \<Rightarrow>
             et\<lparr>v1_edge_errors := v1_edge_errors et @ v1_second_advance nbi (v1_advance_out et) source,
                v1_advance_out := adj_push source target (v1_advance_out et)\<rparr>
         | Return \<Rightarrow> et\<lparr>v1_returns := v1_returns et @ [(source, target)]\<rparr>
         | Terminate \<Rightarrow> et\<lparr>v1_terminates := v1_terminates et @ [(source, target)]\<rparr>)"

definition v1_empty_out :: "workflow_graph \<Rightarrow> uuid adj" where
  "v1_empty_out g = fold (\<lambda>n. AList.update (node_id n) []) (nodes g) []"

definition v1_collect_edges :: "workflow_graph \<Rightarrow> v1_edge_tables" where
  "v1_collect_edges g =
     fold (v1_add_edge (nodes_by_id g)) (transitions g)
       \<lparr>v1_advance_out = v1_empty_out g, v1_returns = [], v1_terminates = [], v1_edge_errors = []\<rparr>"

definition v1_primary_invalid :: "workflow_graph \<Rightarrow> graph_validation_error list" where
  "v1_primary_invalid g =
     concat (map (\<lambda>n.
       case primary_advance_transition_id n of
         None \<Rightarrow> []
       | Some primary_id \<Rightarrow>
           let matching = list_ex (\<lambda>t. transition_id t = primary_id \<and> transition_effect t = Advance) (transitions g)
           in push_if (\<not> matching) (gve ''v1_primary_advance_invalid'' [MStr (node_key n)])) (nodes g))"

section \<open>The primary walk\<close>

text \<open>
  Where the walk goes from a node: nowhere (\<open>break\<close>) when the primary is missing, is not an edge of
  the node, dangles, or leads to a TERMINAL node.
\<close>

definition primary_next :: "workflow_graph \<Rightarrow> uuid \<Rightarrow> uuid option" where
  "primary_next g current =
     (case Option.bind (nodes_by_id g current) primary_advance_transition_id of
        None \<Rightarrow> None
      | Some primary_id \<Rightarrow>
          (case find (\<lambda>t. source_node_id t = current \<and> transition_id t = primary_id) (transitions g) of
             None \<Rightarrow> None
           | Some t \<Rightarrow>
               (case nodes_by_id g (target_node_id t) of
                  None \<Rightarrow> None
                | Some m \<Rightarrow> if node_type m = NT_TERMINAL then None else Some (target_node_id t))))"

lemma primary_next_node: "primary_next g u = Some v \<Longrightarrow> v \<in> node_id ` set (nodes g)"
  using nodes_by_id_None [of g v] by (auto simp: primary_next_def split: option.splits if_splits)

text \<open>Whether the walk revisits a node.\<close>

function v1_walk :: "workflow_graph \<Rightarrow> uuid set \<Rightarrow> uuid \<Rightarrow> bool" where
  "v1_walk g seen current =
     (if current \<in> seen then True
      else (case primary_next g current of
              None \<Rightarrow> False
            | Some next \<Rightarrow> v1_walk g (insert current seen) next))"
  by pat_completeness auto
termination
proof (relation "measure (\<lambda>(g, seen, cur). card (insert cur (node_id ` set (nodes g)) - seen))")
  fix g seen cur nxt
  assume "cur \<notin> seen" and "primary_next g cur = Some nxt"
  then have "insert nxt (node_id ` set (nodes g)) - insert cur seen \<subset> insert cur (node_id ` set (nodes g)) - seen"
    using primary_next_node by auto
  then have "card (insert nxt (node_id ` set (nodes g)) - insert cur seen)
      < card (insert cur (node_id ` set (nodes g)) - seen)"
    by (intro psubset_card_mono) auto
  then show "((g, insert cur seen, nxt), (g, seen, cur))
      \<in> measure (\<lambda>(g, seen, cur). card (insert cur (node_id ` set (nodes g)) - seen))"
    by simp
qed simp

declare v1_walk.simps [simp del]

definition v1_path_errors :: "workflow_graph \<Rightarrow> node_definition list \<Rightarrow> graph_validation_error list" where
  "v1_path_errors g tasks =
     concat (map (\<lambda>t. push_if (v1_walk g {} (node_id t)) (gve ''v1_primary_path_cycle'' [MStr (node_key t)])) tasks)"

section \<open>Entry, reachability, RETURN, TERMINATE\<close>

definition v1_in_degree :: "workflow_graph \<Rightarrow> uuid degrees" where
  "v1_in_degree g =
     fold (\<lambda>t d. if transition_effect t = Advance then deg_incr (target_node_id t) d else d) (transitions g)
       (fold (\<lambda>n. AList.update (node_id n) 0) (nodes g) [])"

definition v1_entry :: "uuid list \<Rightarrow> uuid option \<times> graph_validation_error list" where
  "v1_entry candidates =
     (case candidates of
        [] \<Rightarrow> (None, [gve ''v1_entry_task_required'' []])
      | [single] \<Rightarrow> (Some single, [])
      | many \<Rightarrow> (None, [gve ''v1_multiple_entry_tasks'' (MInt (int (length many)) # map MId many)]))"

definition reachable_from :: "uuid \<Rightarrow> uuid adj \<Rightarrow> uuid set" where
  "reachable_from start out = bfs out start"

definition v1_return_errors :: "node_map \<Rightarrow> uuid \<times> uuid \<Rightarrow> graph_validation_error list" where
  "v1_return_errors nbi e = (case e of (source, target) \<Rightarrow>
     (case nbi target of
        None \<Rightarrow> []
      | Some target_node \<Rightarrow>
          if node_type target_node \<noteq> NT_TASK
          then [gve ''v1_return_target_not_task'' [MStr (node_key target_node)]]
          else (case nbi source of
                  None \<Rightarrow> []
                | Some source_node \<Rightarrow>
                    push_if (order_index target_node \<ge> order_index source_node)
                      (gve ''v1_return_target_not_earlier''
                        [MStr (node_key source_node), MStr (node_key target_node)]))))"

definition v1_terminate_errors :: "workflow_graph \<Rightarrow> uuid \<times> uuid \<Rightarrow> graph_validation_error list" where
  "v1_terminate_errors g e = (case e of (source, target) \<Rightarrow>
     (case nodes_by_id g target of
        None \<Rightarrow> []
      | Some target_node \<Rightarrow>
          push_if (node_type target_node \<noteq> NT_TERMINAL) (gve ''v1_terminate_target_not_terminal'' [MId source]) @
          (case nodes_by_id g source of
             None \<Rightarrow> []
           | Some source_node \<Rightarrow>
               (case primary_advance_transition_id source_node of
                  None \<Rightarrow> []
                | Some primary_id \<Rightarrow>
                    let is_primary = list_ex (\<lambda>t. transition_id t = primary_id \<and> source_node_id t = source \<and>
                          target_node_id t = target \<and> transition_effect t = Terminate) (transitions g)
                    in push_if is_primary (gve ''v1_terminate_primary_forbidden'' [MStr (node_key source_node)])))))"

definition v1_terminal_outgoing :: "workflow_graph \<Rightarrow> graph_validation_error list" where
  "v1_terminal_outgoing g =
     concat (map (\<lambda>n.
       if node_type n = NT_TERMINAL then
         push_if (list_ex (\<lambda>t. source_node_id t = node_id n) (transitions g))
           (gve ''v1_terminal_outgoing_forbidden'' [MStr (node_key n)])
       else []) (nodes g))"

section \<open>The validator\<close>

definition validate_visit_activation_graph :: "(uuid list \<Rightarrow> uuid list) \<Rightarrow> workflow_graph \<Rightarrow> validation_result" where
  "validate_visit_activation_graph it g =
     (let (tasks, node_errors) = fold (\<lambda>n st. v1_node_step st n) (nodes g) ([], []);
          et = v1_collect_edges g;
          (entry, entry_errors) = v1_entry (entry_candidates it (v1_in_degree g) tasks);
          combined_out = adj_push_all (v1_advance_out et) (v1_terminates et)
      in result_of_errors
           (validate_transition_references g (nodes_by_id g) @
            node_errors @
            v1_edge_errors et @
            v1_primary_invalid g @
            v1_path_errors g tasks @
            entry_errors @
            (case entry of
               None \<Rightarrow> []
             | Some e \<Rightarrow>
                 (let reachable = reachable_from e combined_out
                  in concat (map (\<lambda>n. push_if (node_id n \<notin> reachable)
                       (gve ''v1_unreachable_node'' [MStr (node_key n)])) (nodes g)))) @
            concat (map (v1_return_errors (nodes_by_id g)) (v1_returns et)) @
            concat (map (v1_terminate_errors g) (v1_terminates et)) @
            v1_terminal_outgoing g))"

section \<open>Specification\<close>

definition v1_node_ok :: "workflow_graph \<Rightarrow> node_definition \<Rightarrow> bool" where
  "v1_node_ok g n \<longleftrightarrow>
     node_type n = NT_TASK \<and>
       (\<exists>a. assignee_ref n = Some a \<and>
          (ref_type a \<in> {WorkflowCreator, DomainOwner} \<or> ref_type a = FixedPrincipal \<and> fixed_principal_id a \<noteq> None)) \<and>
       (\<exists>t\<in>set (transitions g). primary_advance_transition_id n = Some (transition_id t) \<and> transition_effect t = Advance) \<or>
     node_type n = NT_TERMINAL \<and> assignee_ref n = None \<and> primary_advance_transition_id n = None \<and>
       (\<forall>t\<in>set (transitions g). source_node_id t \<noteq> node_id n)"

definition v1_task_ids :: "workflow_graph \<Rightarrow> uuid set" where
  "v1_task_ids g = {node_id n |n. n \<in> set (nodes g) \<and> node_type n = NT_TASK}"

definition forward_rel :: "workflow_graph \<Rightarrow> (uuid \<times> uuid) set" where
  "forward_rel g = set (edges_with (\<lambda>e. e = Advance \<or> e = Terminate) g)"

definition visit_ok :: "workflow_graph \<Rightarrow> bool" where
  "visit_ok g \<longleftrightarrow>
     (\<forall>n\<in>set (nodes g). v1_node_ok g n) \<and>
     (\<forall>t\<in>set (transitions g). joins_nodes g t) \<and>
     distinct (map fst (advance_edges g)) \<and>
     acyclic (succ_rel (primary_next g)) \<and>
     (\<exists>entry. {i \<in> v1_task_ids g. i \<notin> Range (advance_rel g)} = {entry} \<and>
        (\<forall>n\<in>set (nodes g). (entry, node_id n) \<in> (forward_rel g)\<^sup>*)) \<and>
     (\<forall>t\<in>set (transitions g). transition_effect t = Return \<longrightarrow>
        (\<exists>s\<in>set (nodes g). \<exists>m\<in>set (nodes g). node_id s = source_node_id t \<and> node_id m = target_node_id t \<and>
           node_type m = NT_TASK \<and> order_index m < order_index s)) \<and>
     (\<forall>t\<in>set (transitions g). transition_effect t = Terminate \<longrightarrow>
        (\<exists>m\<in>set (nodes g). node_id m = target_node_id t \<and> node_type m = NT_TERMINAL))"

section \<open>The loops\<close>

definition v1_node_errors :: "node_definition \<Rightarrow> graph_validation_error list" where
  "v1_node_errors n = snd (v1_node_step ([], []) n)"

lemma v1_fold_nodes:
  "fold (\<lambda>n st. v1_node_step st n) ns (tasks, es) =
     (tasks @ filter (\<lambda>n. node_type n = NT_TASK) ns, es @ concat (map v1_node_errors ns))"
proof -
  have "v1_node_step (tasks, es) n =
      (tasks @ (if node_type n = NT_TASK then [n] else []), es @ v1_node_errors n)" for tasks es and n :: node_definition
    by (cases "node_type n") (simp_all add: v1_node_step_def v1_node_errors_def v1_node_kind_def)
  then show ?thesis by (induction ns arbitrary: tasks es) simp_all
qed

lemma v1_add_edge_fold:
  "v1_advance_out (fold (v1_add_edge nbi) ts et) =
     adj_push_all (v1_advance_out et) (map edge (filter (\<lambda>t. transition_effect t = Advance) ts))"
  "v1_returns (fold (v1_add_edge nbi) ts et) = v1_returns et @ map edge (filter (\<lambda>t. transition_effect t = Return) ts)"
  "v1_terminates (fold (v1_add_edge nbi) ts et) =
     v1_terminates et @ map edge (filter (\<lambda>t. transition_effect t = Terminate) ts)"
  by (induction ts arbitrary: et) (auto simp: v1_add_edge_def edge_def Let_def split: transition_effect.splits)

lemma adj_next_empty_out: "adj_next (v1_empty_out g) u = []"
proof -
  have "\<forall>u. adj_next m u = [] \<Longrightarrow> adj_next (fold (\<lambda>n. AList.update (node_id n) []) ns m) u = []" for ns m
    by (induction ns arbitrary: m) (auto simp: adj_next_def update_conv')
  from this [of "[]" "nodes g"] show ?thesis by (simp add: v1_empty_out_def) (simp add: adj_next_def)
qed

lemma v1_collect_edges_facts:
  "adj_next (v1_advance_out (v1_collect_edges g)) u = adj_next (build_adj (advance_edges g)) u"
  "v1_returns (v1_collect_edges g) = edges_with (\<lambda>e. e = Return) g"
  "v1_terminates (v1_collect_edges g) = edges_with (\<lambda>e. e = Terminate) g"
  by (simp_all add: v1_collect_edges_def v1_add_edge_fold edges_with_def advance_edges_def
      adj_next_push_all adj_next_build adj_next_empty_out)

text \<open>A second ADVANCE out of a non-terminal node is found, whatever the order of the transitions.\<close>

lemma v1_edge_errors_fold:
  assumes "\<forall>t\<in>set ts. transition_effect t = Advance \<longrightarrow>
      (\<exists>n. nbi (source_node_id t) = Some n \<and> node_type n \<noteq> NT_TERMINAL)"
  shows "v1_edge_errors (fold (v1_add_edge nbi) ts et) = [] \<longleftrightarrow>
    v1_edge_errors et = [] \<and>
    distinct (map fst (map edge (filter (\<lambda>t. transition_effect t = Advance) ts))) \<and>
    (\<forall>t\<in>set ts. transition_effect t = Advance \<longrightarrow> adj_next (v1_advance_out et) (source_node_id t) = [])"
  using assms
proof (induction ts arbitrary: et)
  case (Cons t ts)
  from Cons.prems have ts: "\<forall>t\<in>set ts. transition_effect t = Advance \<longrightarrow>
      (\<exists>n. nbi (source_node_id t) = Some n \<and> node_type n \<noteq> NT_TERMINAL)" by simp
  show ?case
  proof (cases "transition_effect t = Advance")
    case True
    from Cons.prems True obtain n where "nbi (source_node_id t) = Some n" "node_type n \<noteq> NT_TERMINAL" by auto
    then have s: "v1_second_advance nbi out (source_node_id t) = [] \<longleftrightarrow> adj_next out (source_node_id t) = []" for out
      by (cases "adj_next out (source_node_id t)") (simp_all add: v1_second_advance_def error_simps)
    have "v1_edge_errors (fold (v1_add_edge nbi) ts (v1_add_edge nbi t et)) = [] \<longleftrightarrow>
        v1_edge_errors et = [] \<and> adj_next (v1_advance_out et) (source_node_id t) = [] \<and>
        distinct (map fst (map edge (filter (\<lambda>t. transition_effect t = Advance) ts))) \<and>
        (\<forall>t'\<in>set ts. transition_effect t' = Advance \<longrightarrow>
           adj_next (adj_push (source_node_id t) (target_node_id t) (v1_advance_out et)) (source_node_id t') = [])"
      unfolding Cons.IH [OF ts] by (simp add: v1_add_edge_def True Let_def s) 
    also have "\<dots> \<longleftrightarrow> v1_edge_errors et = [] \<and>
        distinct (map fst (map edge (filter (\<lambda>t. transition_effect t = Advance) (t # ts)))) \<and>
        (\<forall>t\<in>set (t # ts). transition_effect t = Advance \<longrightarrow> adj_next (v1_advance_out et) (source_node_id t) = [])"
    proof -
      have pushed: "(\<forall>t'\<in>set ts. transition_effect t' = Advance \<longrightarrow>
            adj_next (adj_push (source_node_id t) (target_node_id t) (v1_advance_out et)) (source_node_id t') = []) \<longleftrightarrow>
          (\<forall>t'\<in>set ts. transition_effect t' = Advance \<longrightarrow> source_node_id t' \<noteq> source_node_id t) \<and>
          (\<forall>t'\<in>set ts. transition_effect t' = Advance \<longrightarrow> adj_next (v1_advance_out et) (source_node_id t') = [])"
        by (auto simp: adj_next_push)
      have dist: "distinct (map fst (map edge (filter (\<lambda>t. transition_effect t = Advance) (t # ts)))) \<longleftrightarrow>
          (\<forall>t'\<in>set ts. transition_effect t' = Advance \<longrightarrow> source_node_id t' \<noteq> source_node_id t) \<and>
          distinct (map fst (map edge (filter (\<lambda>t. transition_effect t = Advance) ts)))"
        using True by (auto simp: edge_def image_iff)
      show ?thesis unfolding pushed dist by (simp add: True conj_ac)
    qed
    finally show ?thesis by simp
  next
    case False
    then have "v1_edge_errors (v1_add_edge nbi t et) = v1_edge_errors et"
        "v1_advance_out (v1_add_edge nbi t et) = v1_advance_out et"
      by (simp_all add: v1_add_edge_def Let_def split: transition_effect.splits)
    then show ?thesis using False by (simp add: Cons.IH [OF ts])
  qed
qed simp

lemma v1_in_degree_eq: "degree_or_zero (v1_in_degree g) i = degree_or_zero (advance_in_degree (collect_edges g)) i"
proof -
  have "fold (\<lambda>t d. if transition_effect t = Advance then deg_incr (target_node_id t) d else d) ts d =
      fold deg_incr (map target_node_id (filter (\<lambda>t. transition_effect t = Advance) ts)) d"
    for ts :: "transition_definition list" and d
    by (induction ts arbitrary: d) simp_all
  then show ?thesis unfolding v1_in_degree_def collect_edges_def add_edge_fold by simp
qed

lemma v1_entry_Some_iff:
  "snd (v1_entry cs) = [] \<longleftrightarrow> (\<exists>e. cs = [e])" "v1_entry [e] = (Some e, [])"
  by (simp_all add: v1_entry_def split: list.splits)

end
