(* ===== verification/Visit_Properties.thy ===== *)
theory Visit_Properties
  imports Visit_Activation_Validator Minimal_Properties
begin

text \<open>
  The VISIT_ACTIVATION_V1 validator implements \<open>visit_ok\<close>; what acceptance means for the primary path,
  and where it falls short of the documented contract.
\<close>

section \<open>Rule by rule\<close>

lemma v1_walk_iff:
  assumes "ends (primary_next g) u \<Longrightarrow> \<forall>v\<in>seen. ends (primary_next g) v"
    and "\<forall>v\<in>seen. (v, u) \<in> (succ_rel (primary_next g))\<^sup>+"
  shows "\<not> v1_walk g seen u \<longleftrightarrow> ends (primary_next g) u"
  using assms
proof (induction g seen u rule: v1_walk.induct)
  case (1 g seen u)
  show ?case
  proof (cases "u \<in> seen")
    case True
    then have "(u, u) \<in> (succ_rel (primary_next g))\<^sup>+" using "1.prems"(2) by (rule bspec [rotated])
    then have "\<not> ends (primary_next g) u" using ends_no_cycle [of "primary_next g" u] by fast
    then show ?thesis using True by (simp add: v1_walk.simps [of g seen u])
  next
    case False
    show ?thesis
    proof (cases "primary_next g u")
      case None
      then show ?thesis using False ends_here [of "primary_next g" u]
        by (simp add: v1_walk.simps [of g seen u])
    next
      case (Some v)
      have iff: "ends (primary_next g) u \<longleftrightarrow> ends (primary_next g) v"
        using ends_next [of "primary_next g" u v, OF Some] Some by (auto elim: ends_cases)
      have uv: "(u, v) \<in> succ_rel (primary_next g)" using Some by (simp add: succ_rel_def)
      have p1: "ends (primary_next g) v \<Longrightarrow> \<forall>w\<in>insert u seen. ends (primary_next g) w"
        using "1.prems"(1) iff by simp
      have p2: "\<forall>w\<in>insert u seen. (w, v) \<in> (succ_rel (primary_next g))\<^sup>+"
        using "1.prems"(2) uv by (auto intro: trancl_into_trancl)
      from "1.IH" [OF False Some p1 p2] iff show ?thesis
        using False Some by (simp add: v1_walk.simps [of g seen u])
    qed
  qed
qed

lemma v1_path_errors_Nil_iff:
  "v1_path_errors g tasks = [] \<longleftrightarrow> (\<forall>t\<in>set tasks. ends (primary_next g) (node_id t))"
  unfolding v1_path_errors_def concat_map_eq_Nil push_if_eq_Nil using v1_walk_iff [of g _ "{}"] by simp

lemma v1_node_rules_Nil_iff:
  "v1_node_errors n = [] \<and>
     (\<forall>p. primary_advance_transition_id n = Some p \<longrightarrow>
        (\<exists>t\<in>set (transitions g). transition_id t = p \<and> transition_effect t = Advance)) \<and>
     (node_type n = NT_TERMINAL \<longrightarrow> (\<forall>t\<in>set (transitions g). source_node_id t \<noteq> node_id n)) \<longleftrightarrow>
   v1_node_ok g n"
proof (cases "assignee_ref n")
  case None
  then show ?thesis
    by (cases "node_type n")
       (auto simp: v1_node_errors_def v1_node_step_def v1_node_kind_def error_simps v1_node_ok_def)
next
  case (Some a)
  have o: "v1_owner_errors k a = [] \<longleftrightarrow>
      ref_type a \<in> {WorkflowCreator, DomainOwner} \<or> ref_type a = FixedPrincipal \<and> fixed_principal_id a \<noteq> None" for k
    by (cases "ref_type a") (simp_all add: v1_owner_errors_def error_simps)
  show ?thesis
  proof (cases "node_type n = NT_TASK")
    case True
    then have "v1_node_errors n = [] \<longleftrightarrow>
        v1_owner_errors (node_key n) a = [] \<and> primary_advance_transition_id n \<noteq> None"
      by (simp add: v1_node_errors_def v1_node_step_def v1_node_kind_def error_simps Some)
    then show ?thesis using True Some unfolding o v1_node_ok_def by auto
  next
    case False
    then show ?thesis using Some
      by (cases "node_type n")
         (auto simp: v1_node_errors_def v1_node_step_def v1_node_kind_def error_simps v1_node_ok_def)
  qed
qed

lemma v1_primary_invalid_Nil_iff:
  "v1_primary_invalid g = [] \<longleftrightarrow>
     (\<forall>n\<in>set (nodes g). \<forall>p. primary_advance_transition_id n = Some p \<longrightarrow>
        (\<exists>t\<in>set (transitions g). transition_id t = p \<and> transition_effect t = Advance))"
  unfolding v1_primary_invalid_def concat_map_eq_Nil
  by (intro ball_cong refl) (auto simp: push_if_eq_Nil list_ex_iff split: option.split)

lemma v1_terminal_outgoing_Nil_iff:
  "v1_terminal_outgoing g = [] \<longleftrightarrow>
     (\<forall>n\<in>set (nodes g). node_type n = NT_TERMINAL \<longrightarrow>
        (\<forall>t\<in>set (transitions g). source_node_id t \<noteq> node_id n))"
  unfolding v1_terminal_outgoing_def concat_map_eq_Nil
  by (simp add: push_if_eq_Nil list_ex_iff)

lemma v1_nodes_Nil_iff:
  "concat (map v1_node_errors (nodes g)) = [] \<and> v1_primary_invalid g = [] \<and> v1_terminal_outgoing g = [] \<longleftrightarrow>
     (\<forall>n\<in>set (nodes g). v1_node_ok g n)"
  unfolding v1_node_rules_Nil_iff [symmetric] concat_map_eq_Nil v1_primary_invalid_Nil_iff
    v1_terminal_outgoing_Nil_iff by (simp add: ball_conj_distrib)

lemma v1_return_errors_Nil_iff:
  assumes "distinct_ids g" and "joins_nodes g t"
  shows "v1_return_errors (nodes_by_id g) (source_node_id t, target_node_id t) = [] \<longleftrightarrow>
    (\<exists>s\<in>set (nodes g). \<exists>m\<in>set (nodes g). node_id s = source_node_id t \<and> node_id m = target_node_id t \<and>
       node_type m = NT_TASK \<and> order_index m < order_index s)"
proof -
  obtain s m where *: "s \<in> set (nodes g)" "m \<in> set (nodes g)"
    "source_node_id t = node_id s" "target_node_id t = node_id m"
    "nodes_by_id g (node_id s) = Some s" "nodes_by_id g (node_id m) = Some m"
    using joins_nodesE [OF assms(2,1)] by metis
  have "(\<exists>s\<in>set (nodes g). \<exists>m\<in>set (nodes g). node_id s = source_node_id t \<and> node_id m = target_node_id t \<and>
       node_type m = NT_TASK \<and> order_index m < order_index s) \<longleftrightarrow>
      node_type m = NT_TASK \<and> order_index m < order_index s"
    unfolding *(3,4) using same_node_id [OF assms(1)] *(1,2) by metis
  then show ?thesis by (simp add: v1_return_errors_def * error_simps not_le)
qed

lemma v1_terminate_errors_Nil_iff:
  assumes "distinct_ids g" and "joins_nodes g t" and "\<forall>n\<in>set (nodes g). v1_node_ok g n"
  shows "v1_terminate_errors g (source_node_id t, target_node_id t) = [] \<longleftrightarrow>
    (\<exists>m\<in>set (nodes g). node_id m = target_node_id t \<and> node_type m = NT_TERMINAL)"
proof -
  obtain s m where *: "s \<in> set (nodes g)" "m \<in> set (nodes g)"
    "source_node_id t = node_id s" "target_node_id t = node_id m"
    "nodes_by_id g (node_id s) = Some s" "nodes_by_id g (node_id m) = Some m"
    using joins_nodesE [OF assms(2,1)] by metis
  have target: "(\<exists>x\<in>set (nodes g). node_id x = target_node_id t \<and> node_type x = NT_TERMINAL) \<longleftrightarrow>
      node_type m = NT_TERMINAL"
    unfolding *(4) using same_node_id [OF assms(1)] *(2) by metis
  have prim: "\<not> (transition_id x = p \<and> transition_effect x = Terminate)"
    if "primary_advance_transition_id s = Some p" "x \<in> set (transitions g)" for p x
  proof -
    from assms(3) *(1) that(1) obtain y where y: "y \<in> set (transitions g)" "p = transition_id y" "transition_effect y = Advance"
      by (auto simp: v1_node_ok_def)
    have "transitions_by_id g p = Some y" using transitions_by_id_Some [OF assms(1)] y by auto
    then show ?thesis using transitions_by_id_Some [OF assms(1), of p x] that(2) y by auto
  qed
  have "v1_terminate_errors g (node_id s, node_id m) = [] \<longleftrightarrow> node_type m = NT_TERMINAL"
    using prim by (auto simp: v1_terminate_errors_def * error_simps list_ex_iff split: option.splits)
  then show ?thesis using target by (simp add: *(3,4))
qed

lemma v1_edge_errors_Nil_iff:
  assumes "distinct_ids g" and joins: "\<forall>t\<in>set (transitions g). joins_nodes g t"
    and ok: "\<forall>n\<in>set (nodes g). v1_node_ok g n"
  shows "v1_edge_errors (v1_collect_edges g) = [] \<longleftrightarrow> distinct (map fst (advance_edges g))"
proof -
  have "\<exists>n. nodes_by_id g (source_node_id t) = Some n \<and> node_type n \<noteq> NT_TERMINAL"
    if t: "t \<in> set (transitions g)" for t
  proof -
    obtain s where s: "s \<in> set (nodes g)" "source_node_id t = node_id s"
        "nodes_by_id g (source_node_id t) = Some s"
      using joins_nodesE [OF bspec [OF joins t] assms(1)] by metis
    with ok t have "node_type s \<noteq> NT_TERMINAL" by (auto simp: v1_node_ok_def)
    with s show ?thesis by blast
  qed
  then show ?thesis
    unfolding v1_collect_edges_def by (subst v1_edge_errors_fold)
      (auto simp: adj_next_empty_out advance_edges_def edges_with_def)
qed

lemma reachable_combined:
  "x \<in> reachable_from e (adj_push_all (v1_advance_out (v1_collect_edges g)) (v1_terminates (v1_collect_edges g)))
     \<longleftrightarrow> (e, x) \<in> (forward_rel g)\<^sup>*"
proof -
  have "adj_rel (v1_advance_out (v1_collect_edges g)) = set (advance_edges g)"
    by (simp add: adj_rel_def v1_collect_edges_facts(1)) (simp add: adj_rel_def [symmetric] adj_rel_build)
  then show ?thesis
    unfolding reachable_from_def bfs_search.search_iff adj_rel_push_all v1_collect_edges_facts(3)
    by (simp add: forward_rel_def advance_edges_def set_edges_with Collect_disj_eq [symmetric] conj_disj_distribL
        ex_disj_distrib)
qed

lemma finite_primary_next: "finite (succ_rel (primary_next g))"
proof (rule finite_subset)
  show "succ_rel (primary_next g) \<subseteq> node_id ` set (nodes g) \<times> node_id ` set (nodes g)"
  proof clarify
    fix u v assume "(u, v) \<in> succ_rel (primary_next g)"
    then have p: "primary_next g u = Some v" by (simp add: succ_rel_def)
    then have "nodes_by_id g u \<noteq> None" by (cases "nodes_by_id g u") (simp_all add: primary_next_def)
    then show "u \<in> node_id ` set (nodes g) \<and> v \<in> node_id ` set (nodes g)"
      using primary_next_node [OF p] by (simp add: nodes_by_id_None)
  qed
qed simp

text \<open>Only TASK nodes have a primary, so the walks from the tasks decide acyclicity.\<close>

lemma tasks_end_iff:
  assumes ok: "\<forall>n\<in>set (nodes g). v1_node_ok g n"
  shows "(\<forall>t\<in>set (filter (\<lambda>n. node_type n = NT_TASK) (nodes g)). ends (primary_next g) (node_id t)) \<longleftrightarrow>
    acyclic (succ_rel (primary_next g))"
proof
  assume all: "\<forall>t\<in>set (filter (\<lambda>n. node_type n = NT_TASK) (nodes g)). ends (primary_next g) (node_id t)"
  have "\<forall>u\<in>dom (primary_next g). ends (primary_next g) u"
  proof
    fix u assume "u \<in> dom (primary_next g)"
    then obtain n p where n: "nodes_by_id g u = Some n" "primary_advance_transition_id n = Some p"
      by (auto simp: primary_next_def bind_eq_Some_conv split: option.splits)
    from nodes_by_id_SomeD [OF n(1)] have "n \<in> set (nodes g)" "node_id n = u" by auto
    with ok n(2) have "node_type n = NT_TASK" by (auto simp: v1_node_ok_def)
    with all \<open>n \<in> set (nodes g)\<close> \<open>node_id n = u\<close> show "ends (primary_next g) u" by auto
  qed
  then show "acyclic (succ_rel (primary_next g))" by (rule acyclic_if_ends)
qed (simp add: ends_if_acyclic [OF finite_primary_next])

section \<open>The validator\<close>

abbreviation v1_tasks :: "workflow_graph \<Rightarrow> node_definition list" where
  "v1_tasks g \<equiv> filter (\<lambda>n. node_type n = NT_TASK) (nodes g)"

abbreviation v1_candidates :: "(uuid list \<Rightarrow> uuid list) \<Rightarrow> workflow_graph \<Rightarrow> uuid list" where
  "v1_candidates it g \<equiv> entry_candidates it (v1_in_degree g) (v1_tasks g)"

definition v1_reach_errors :: "workflow_graph \<Rightarrow> uuid option \<Rightarrow> graph_validation_error list" where
  "v1_reach_errors g entry =
     (case entry of
        None \<Rightarrow> []
      | Some e \<Rightarrow>
          concat (map (\<lambda>n. push_if (node_id n \<notin>
              reachable_from e (adj_push_all (v1_advance_out (v1_collect_edges g)) (v1_terminates (v1_collect_edges g))))
            (gve ''v1_unreachable_node'' [MStr (node_key n)])) (nodes g)))"

definition v1_edges_ok :: "workflow_graph \<Rightarrow> bool" where
  "v1_edges_ok g \<longleftrightarrow>
     distinct (map fst (advance_edges g)) \<and> acyclic (succ_rel (primary_next g)) \<and>
     (\<forall>t\<in>set (transitions g). transition_effect t = Return \<longrightarrow>
        (\<exists>s\<in>set (nodes g). \<exists>m\<in>set (nodes g). node_id s = source_node_id t \<and> node_id m = target_node_id t \<and>
           node_type m = NT_TASK \<and> order_index m < order_index s)) \<and>
     (\<forall>t\<in>set (transitions g). transition_effect t = Terminate \<longrightarrow>
        (\<exists>m\<in>set (nodes g). node_id m = target_node_id t \<and> node_type m = NT_TERMINAL))"

definition v1_entry_ok :: "workflow_graph \<Rightarrow> bool" where
  "v1_entry_ok g \<longleftrightarrow>
     (\<exists>e. {i \<in> v1_task_ids g. i \<notin> Range (advance_rel g)} = {e} \<and>
        (\<forall>n\<in>set (nodes g). (e, node_id n) \<in> (forward_rel g)\<^sup>*))"

lemma v1_edges_Nil_iff:
  assumes ids: "distinct_ids g"
    and b: "\<forall>n\<in>set (nodes g). v1_node_ok g n" and j: "\<forall>t\<in>set (transitions g). joins_nodes g t"
  shows "v1_edge_errors (v1_collect_edges g) = [] \<and> v1_path_errors g (v1_tasks g) = [] \<and>
      concat (map (v1_return_errors (nodes_by_id g)) (v1_returns (v1_collect_edges g))) = [] \<and>
      concat (map (v1_terminate_errors g) (v1_terminates (v1_collect_edges g))) = [] \<longleftrightarrow> v1_edges_ok g"
proof -
  have ret: "concat (map (v1_return_errors (nodes_by_id g)) (v1_returns (v1_collect_edges g))) = [] \<longleftrightarrow>
      (\<forall>t\<in>set (transitions g). transition_effect t = Return \<longrightarrow>
        v1_return_errors (nodes_by_id g) (source_node_id t, target_node_id t) = [])"
    unfolding concat_map_eq_Nil v1_collect_edges_facts set_edges_with by auto
  have trm: "concat (map (v1_terminate_errors g) (v1_terminates (v1_collect_edges g))) = [] \<longleftrightarrow>
      (\<forall>t\<in>set (transitions g). transition_effect t = Terminate \<longrightarrow>
        v1_terminate_errors g (source_node_id t, target_node_id t) = [])"
    unfolding concat_map_eq_Nil v1_collect_edges_facts set_edges_with by auto
  show ?thesis
    unfolding v1_edges_ok_def v1_edge_errors_Nil_iff [OF ids j b] v1_path_errors_Nil_iff tasks_end_iff [OF b]
      ret trm
    using j by (simp add: v1_return_errors_Nil_iff [OF ids] v1_terminate_errors_Nil_iff [OF ids _ b])
qed

lemma v1_entry_Nil_iff:
  assumes it: "is_iteration it"
  shows "snd (v1_entry (v1_candidates it g)) = [] \<and> v1_reach_errors g (fst (v1_entry (v1_candidates it g))) = []
    \<longleftrightarrow> v1_entry_ok g"
proof -
  have "v1_task_ids g = node_id ` set (v1_tasks g)" by (auto simp: v1_task_ids_def)
  then have entry: "v1_candidates it g = [e] \<longleftrightarrow> {i \<in> v1_task_ids g. i \<notin> Range (advance_rel g)} = {e}" for e
    using entry_candidates_iff [OF it, of "v1_in_degree g" g "v1_tasks g"]
    by (simp add: v1_in_degree_eq collect_edges_facts(2))
  have reach: "v1_reach_errors g (Some e) = [] \<longleftrightarrow> (\<forall>n\<in>set (nodes g). (e, node_id n) \<in> (forward_rel g)\<^sup>*)" for e
    by (simp add: v1_reach_errors_def concat_map_eq_Nil push_if_eq_Nil reachable_combined)
  show ?thesis
  proof (cases "\<exists>e. v1_candidates it g = [e]")
    case True
    then obtain e where e: "v1_candidates it g = [e]" ..
    have S: "{i \<in> v1_task_ids g. i \<notin> Range (advance_rel g)} = {e}" using e entry by blast
    show ?thesis unfolding e v1_entry_ok_def S v1_entry_Some_iff(2) fst_conv snd_conv reach by simp
  next
    case False
    then have "snd (v1_entry (v1_candidates it g)) \<noteq> []" using v1_entry_Some_iff(1) by simp
    moreover have "\<nexists>e. {i \<in> v1_task_ids g. i \<notin> Range (advance_rel g)} = {e}"
      using False entry by simp
    ultimately show ?thesis unfolding v1_entry_ok_def by blast
  qed
qed

lemma visit_valid_iff:
  assumes ids: "distinct_ids g" and it: "is_iteration it"
  shows "valid (validate_visit_activation_graph it g) \<longleftrightarrow> visit_ok g"
proof -
  let ?et = "v1_collect_edges g"
  have "valid (validate_visit_activation_graph it g) \<longleftrightarrow>
      (concat (map v1_node_errors (nodes g)) = [] \<and> v1_primary_invalid g = [] \<and> v1_terminal_outgoing g = []) \<and>
      validate_transition_references g (nodes_by_id g) = [] \<and>
      (v1_edge_errors ?et = [] \<and> v1_path_errors g (v1_tasks g) = [] \<and>
       concat (map (v1_return_errors (nodes_by_id g)) (v1_returns ?et)) = [] \<and>
       concat (map (v1_terminate_errors g) (v1_terminates ?et)) = []) \<and>
      (snd (v1_entry (v1_candidates it g)) = [] \<and> v1_reach_errors g (fst (v1_entry (v1_candidates it g))) = [])"
    by (simp only: validate_visit_activation_graph_def v1_fold_nodes Let_def split_beta fst_conv snd_conv
        append_Nil result_of_errors_simps append_is_Nil_conv v1_reach_errors_def conj_ac)
  also have "\<dots> \<longleftrightarrow> ((\<forall>n\<in>set (nodes g). v1_node_ok g n) \<and> (\<forall>t\<in>set (transitions g). joins_nodes g t)) \<and>
      v1_edges_ok g \<and> v1_entry_ok g"
    unfolding v1_nodes_Nil_iff transition_references_Nil_iff v1_entry_Nil_iff [OF it]
    by (subst conj_assoc [symmetric], rule conj_cong [OF refl])
       (use v1_edges_Nil_iff [OF ids] in simp)
  also have "\<dots> \<longleftrightarrow> visit_ok g"
    unfolding visit_ok_def v1_edges_ok_def v1_entry_ok_def by (simp only: conj_ac)
  finally show ?thesis .
qed

section \<open>The primary path\<close>

text \<open>Every primary is an edge of its own node: what the validator does not check.\<close>

definition own_primaries :: "workflow_graph \<Rightarrow> bool" where
  "own_primaries g \<longleftrightarrow>
     (\<forall>n\<in>set (nodes g). \<forall>t\<in>set (transitions g).
        primary_advance_transition_id n = Some (transition_id t) \<longrightarrow> source_node_id t = node_id n)"

lemma primary_step_of_task:
  assumes ids: "distinct_ids g" and ok: "visit_ok g" and own: "own_primaries g"
    and n: "n \<in> set (nodes g)" "node_type n = NT_TASK"
  obtains m where "m \<in> set (nodes g)" "(node_id n, node_id m) \<in> advance_rel g"
    "primary_next g (node_id n) = (if node_type m = NT_TERMINAL then None else Some (node_id m))"
proof -
  from ok n have "v1_node_ok g n" by (simp add: visit_ok_def)
  with n obtain t where t: "t \<in> set (transitions g)" "primary_advance_transition_id n = Some (transition_id t)"
      "transition_effect t = Advance"
    by (auto simp: v1_node_ok_def)
  have src: "source_node_id t = node_id n" using own n(1) t by (simp add: own_primaries_def)
  from ok t(1) have "joins_nodes g t" by (simp add: visit_ok_def)
  then obtain m where m: "m \<in> set (nodes g)" "target_node_id t = node_id m" "nodes_by_id g (node_id m) = Some m"
    using joins_nodesE [OF _ ids] by metis
  have "find (\<lambda>x. source_node_id x = node_id n \<and> transition_id x = transition_id t) (transitions g) = Some t"
  proof -
    have "\<exists>x\<in>set (transitions g). source_node_id x = node_id n \<and> transition_id x = transition_id t"
      using t(1) src by blast
    then obtain y where y: "find (\<lambda>x. source_node_id x = node_id n \<and> transition_id x = transition_id t) (transitions g) = Some y"
      by (cases "find (\<lambda>x. source_node_id x = node_id n \<and> transition_id x = transition_id t) (transitions g)")
         (auto simp: find_None_iff)
    then have "y \<in> set (transitions g)" "transition_id y = transition_id t"
      by (auto simp: find_Some_iff)
    then have "y = t"
      using transitions_by_id_Some [OF ids, of "transition_id t" y]
        transitions_by_id_Some [OF ids, of "transition_id t" t] t(1) by simp
    with y show ?thesis by simp
  qed
  then have "primary_next g (node_id n) = (if node_type m = NT_TERMINAL then None else Some (node_id m))"
    using t(2) m(2,3) by (simp add: primary_next_def nodes_by_id_of [OF ids n(1)])
  moreover have "(node_id n, node_id m) \<in> advance_rel g"
    unfolding advance_rel_def advance_edges_def set_edges_with using t src m(2)
    by (intro CollectI exI [of _ t]) simp
  ultimately show thesis using that m(1) by blast
qed

lemma primary_path_reaches_terminal:
  assumes ids: "distinct_ids g" and ok: "visit_ok g" and own: "own_primaries g"
    and e: "ends (primary_next g) u" and n: "n \<in> set (nodes g)" "node_type n = NT_TASK" "node_id n = u"
  shows "\<exists>m\<in>set (nodes g). node_type m = NT_TERMINAL \<and> (u, node_id m) \<in> (advance_rel g)\<^sup>+"
  using e n
proof (induction arbitrary: n rule: ends.induct)
  case (ends_here u)
  obtain m where "m \<in> set (nodes g)" "(node_id n, node_id m) \<in> advance_rel g"
    "primary_next g (node_id n) = (if node_type m = NT_TERMINAL then None else Some (node_id m))"
    using primary_step_of_task [OF ids ok own ends_here.prems(1,2)] .
  then show ?case using ends_here by (auto split: if_splits)
next
  case (ends_next u v)
  obtain m where m: "m \<in> set (nodes g)" "(node_id n, node_id m) \<in> advance_rel g"
    "primary_next g (node_id n) = (if node_type m = NT_TERMINAL then None else Some (node_id m))"
    using primary_step_of_task [OF ids ok own ends_next.prems(1,2)] .
  with ends_next have "node_type m \<noteq> NT_TERMINAL" "node_id m = v" by (auto split: if_splits)
  moreover have "v1_node_ok g m" using ok m(1) by (simp add: visit_ok_def)
  ultimately have "node_type m = NT_TASK" by (auto simp: v1_node_ok_def)
  from ends_next.IH [OF m(1) this \<open>node_id m = v\<close>] m(2) ends_next.prems(3) \<open>node_id m = v\<close>
  show ?case by (auto intro: trancl_into_trancl2)
qed

section \<open>Concrete graphs\<close>

definition visit_graph :: workflow_graph where
  "visit_graph =
     \<lparr>nodes = [plain_node 1 ''build'' 0 NT_TASK creator (Some 11),
               plain_node 2 ''check'' 1 NT_TASK creator (Some 12),
               plain_node 3 ''done'' 2 NT_TERMINAL None None],
      transitions = [plain_transition 11 ''built'' 1 2 Advance,
                     plain_transition 12 ''passed'' 2 3 Advance,
                     plain_transition 13 ''failed'' 2 1 Return,
                     plain_transition 14 ''abort'' 1 3 Terminate],
      context_schema = None\<rparr>"

definition stuck_graph :: workflow_graph where
  "stuck_graph =
     \<lparr>nodes = [plain_node 1 ''build'' 0 NT_TASK creator (Some 11),
               plain_node 2 ''check'' 1 NT_TASK creator (Some 11),
               plain_node 3 ''done'' 2 NT_TERMINAL None None],
      transitions = [plain_transition 11 ''built'' 1 2 Advance,
                     plain_transition 14 ''abort'' 1 3 Terminate],
      context_schema = None\<rparr>"

lemma visit_graph_facts: "distinct_ids visit_graph" "own_primaries visit_graph"
  by (simp_all add: distinct_ids_def own_primaries_def visit_graph_def plain_node_def plain_transition_def)

lemma visit_graph_accepted: "valid (validate_visit_activation_graph remdups visit_graph)"
  by code_simp

section \<open>Properties\<close>



text \<open>
  In an accepted VISIT_ACTIVATION_V1 graph whose primaries are edges of their own nodes, the ADVANCE
  path from every TASK ends at a TERMINAL node.
\<close>
theorem visit_primary_path_ends:
  assumes "distinct_ids g" and "is_iteration it" and "valid (validate_visit_activation_graph it g)"
    and "own_primaries g" and "n \<in> set (nodes g)" and "node_type n = NT_TASK"
  shows "\<exists>m\<in>set (nodes g). node_type m = NT_TERMINAL \<and> (node_id n, node_id m) \<in> (advance_rel g)\<^sup>+"
proof -
  have ok: "visit_ok g" using visit_valid_iff [OF assms(1,2)] assms(3) by blast
  then have "ends (primary_next g) (node_id n)"
    by (simp add: visit_ok_def ends_if_acyclic [OF finite_primary_next])
  from primary_path_reaches_terminal [OF assms(1) ok assms(4) this assms(5,6) refl] show ?thesis .
qed

theorem visit_primary_path_ends_witness:
  "\<exists>m\<in>set (nodes visit_graph). node_type m = NT_TERMINAL \<and>
     (node_id (hd (nodes visit_graph)), node_id m) \<in> (advance_rel visit_graph)\<^sup>+"
  by (rule visit_primary_path_ends
      [OF visit_graph_facts(1) is_iteration_remdups visit_graph_accepted visit_graph_facts(2)])
     (simp_all add: visit_graph_def plain_node_def)

text \<open>
  The VISIT_ACTIVATION_V1 validator accepts a graph with a TASK that has no outgoing transition at
  all.  The contract gives every TASK exactly one primary ADVANCE of its own; the validator only checks
  that the declared id is that of some ADVANCE transition, so a TASK may name another node's edge.
\<close>
theorem visit_accepts_stuck_task:
  "valid (validate_visit_activation_graph remdups stuck_graph) \<and>
   (\<exists>n\<in>set (nodes stuck_graph). node_type n = NT_TASK \<and>
      filter (\<lambda>t. source_node_id t = node_id n) (transitions stuck_graph) = [])"
proof
  show "valid (validate_visit_activation_graph remdups stuck_graph)" by code_simp
  show "\<exists>n\<in>set (nodes stuck_graph). node_type n = NT_TASK \<and>
      filter (\<lambda>t. source_node_id t = node_id n) (transitions stuck_graph) = []"
    by (simp add: stuck_graph_def plain_node_def plain_transition_def)
qed

end
