(* ===== verification/Transition_Errors.thy ===== *)
theory Transition_Errors
  imports Model
begin

text \<open>
  The errors of the transition command: \<open>ExecuteWorkflowTransitionError\<close> with its status code and
  stable label (\<open>domain/workflow_instance/errors.rs\<close>), the admission errors it can carry
  (\<open>auth/admission.rs\<close>), and the two functions of \<open>transition_validation.rs\<close> that decide which
  errors are persisted in a receipt and with which body.
\<close>

section \<open>Admission errors\<close>

datatype endpoint = Token | AuthRead | CoreRead

datatype rejection_reason =
    PrincipalNotActive string
  | AgentMissing
  | AgentDisabled
  | LegacyInput
  | CanonicalBindingMismatch

text \<open>The denied status and the texts of an error are kept; nothing of them reaches the label.\<close>

datatype admission_error =
    Adm_Config string
  | Adm_Timeout
  | Adm_CommitOutcomeUnknown nat
  | Adm_Unavailable
  | Adm_Denied endpoint nat string
  | Adm_Rejected uuid rejection_reason
  | Adm_MalformedResponse endpoint string

fun sanitized_code :: "admission_error \<Rightarrow> string" where
  "sanitized_code (Adm_Config _) = ''admission_configuration''"
| "sanitized_code Adm_Timeout = ''admission_timeout''"
| "sanitized_code (Adm_CommitOutcomeUnknown _) = ''admission_commit_outcome_unknown''"
| "sanitized_code Adm_Unavailable = ''admission_unavailable''"
| "sanitized_code (Adm_Denied _ _ _) = ''admission_denied''"
| "sanitized_code (Adm_Rejected _ AgentDisabled) = ''admission_target_disabled''"
| "sanitized_code (Adm_Rejected _ (PrincipalNotActive status)) =
     (if status = ''disabled'' then ''admission_target_disabled'' else ''admission_rejected'')"
| "sanitized_code (Adm_Rejected _ LegacyInput) = ''admission_legacy_input''"
| "sanitized_code (Adm_Rejected _ AgentMissing) = ''admission_rejected''"
| "sanitized_code (Adm_Rejected _ CanonicalBindingMismatch) = ''admission_rejected''"
| "sanitized_code (Adm_MalformedResponse _ _) = ''admission_malformed_response''"

fun sanitized_status :: "admission_error \<Rightarrow> int" where
  "sanitized_status (Adm_Config _) = 503"
| "sanitized_status Adm_Unavailable = 503"
| "sanitized_status (Adm_MalformedResponse _ _) = 503"
| "sanitized_status (Adm_CommitOutcomeUnknown _) = 503"
| "sanitized_status Adm_Timeout = 422"
| "sanitized_status (Adm_Denied _ _ _) = 422"
| "sanitized_status (Adm_Rejected _ _) = 422"

section \<open>Transition errors\<close>

datatype transition_error =
    T_PrincipalNotFound
  | T_PrincipalDisabled
  | T_InstanceNotFound
  | T_CurrentVisitNotFound
  | T_PrincipalNotAssignee
  | T_AssistanceOpen
  | T_SourceNodeTerminal
  | T_DefinitionVersionRevoked
  | T_DefinitionVersionDraft
  | T_DefinitionVersionDeprecated
  | T_WorkflowStateVersionConflict (expected: int) (actual: int)
  | T_TransitionNotApplicable string
  | T_SubmissionRequired
  | T_SubmissionValidationFailed string
  | T_InvalidInput string
  | T_ContextValidationFailed string
  | T_SizeLimitExceeded string
  | T_InvalidReturnReferences string
  | T_ReturnPolicyExhausted (limit: int)
  | T_AssigneeResolutionFailed string
  | T_AdmissionFailed admission_error
  | T_InternalConsistency string
  | T_IdempotencyConflict (original_command_id: uuid) (original_request_hash: string)
  | T_CommandStillProcessing
  | T_StorageError string

fun transition_error_code :: "transition_error \<Rightarrow> int" where
  "transition_error_code T_PrincipalNotFound = 404"
| "transition_error_code T_PrincipalDisabled = 403"
| "transition_error_code T_InstanceNotFound = 404"
| "transition_error_code T_CurrentVisitNotFound = 404"
| "transition_error_code T_PrincipalNotAssignee = 403"
| "transition_error_code T_AssistanceOpen = 409"
| "transition_error_code T_SourceNodeTerminal = 409"
| "transition_error_code T_DefinitionVersionRevoked = 409"
| "transition_error_code T_DefinitionVersionDraft = 500"
| "transition_error_code T_DefinitionVersionDeprecated = 200"
| "transition_error_code (T_WorkflowStateVersionConflict _ _) = 409"
| "transition_error_code (T_TransitionNotApplicable _) = 409"
| "transition_error_code (T_InvalidInput _) = 422"
| "transition_error_code (T_ContextValidationFailed _) = 422"
| "transition_error_code T_SubmissionRequired = 422"
| "transition_error_code (T_SubmissionValidationFailed _) = 422"
| "transition_error_code (T_SizeLimitExceeded _) = 413"
| "transition_error_code (T_InvalidReturnReferences _) = 422"
| "transition_error_code (T_ReturnPolicyExhausted _) = 409"
| "transition_error_code (T_AssigneeResolutionFailed _) = 422"
| "transition_error_code (T_AdmissionFailed e) = sanitized_status e"
| "transition_error_code (T_InternalConsistency _) = 500"
| "transition_error_code (T_IdempotencyConflict _ _) = 409"
| "transition_error_code T_CommandStillProcessing = 425"
| "transition_error_code (T_StorageError _) = 500"

fun transition_error_label :: "transition_error \<Rightarrow> string" where
  "transition_error_label T_PrincipalNotFound = ''principal_not_found''"
| "transition_error_label T_PrincipalDisabled = ''principal_disabled''"
| "transition_error_label T_InstanceNotFound = ''instance_not_found''"
| "transition_error_label T_CurrentVisitNotFound = ''current_visit_not_found''"
| "transition_error_label T_PrincipalNotAssignee = ''principal_not_assignee''"
| "transition_error_label T_AssistanceOpen = ''assistance_open''"
| "transition_error_label T_SourceNodeTerminal = ''source_node_terminal''"
| "transition_error_label T_DefinitionVersionRevoked = ''definition_version_revoked''"
| "transition_error_label T_DefinitionVersionDraft = ''definition_version_draft''"
| "transition_error_label T_DefinitionVersionDeprecated = ''definition_version_deprecated''"
| "transition_error_label (T_WorkflowStateVersionConflict _ _) = ''workflow_state_version_conflict''"
| "transition_error_label (T_TransitionNotApplicable _) = ''transition_not_applicable''"
| "transition_error_label (T_InvalidInput _) = ''invalid_input''"
| "transition_error_label (T_ContextValidationFailed _) = ''context_validation_failed''"
| "transition_error_label T_SubmissionRequired = ''submission_required''"
| "transition_error_label (T_SubmissionValidationFailed _) = ''submission_validation_failed''"
| "transition_error_label (T_SizeLimitExceeded _) = ''size_limit_exceeded''"
| "transition_error_label (T_InvalidReturnReferences _) = ''invalid_return_references''"
| "transition_error_label (T_ReturnPolicyExhausted _) = ''return_policy_exhausted''"
| "transition_error_label (T_AssigneeResolutionFailed _) = ''assignee_resolution_failed''"
| "transition_error_label (T_AdmissionFailed e) = sanitized_code e"
| "transition_error_label (T_InternalConsistency _) = ''internal_consistency_error''"
| "transition_error_label (T_IdempotencyConflict _ _) = ''idempotency_conflict''"
| "transition_error_label T_CommandStillProcessing = ''command_still_processing''"
| "transition_error_label (T_StorageError _) = ''storage_error''"

section \<open>Failure receipts\<close>

fun is_deterministic_error :: "transition_error \<Rightarrow> bool" where
  "is_deterministic_error T_PrincipalNotFound = True"
| "is_deterministic_error T_PrincipalDisabled = True"
| "is_deterministic_error T_InstanceNotFound = True"
| "is_deterministic_error T_CurrentVisitNotFound = True"
| "is_deterministic_error T_PrincipalNotAssignee = True"
| "is_deterministic_error T_AssistanceOpen = True"
| "is_deterministic_error T_SourceNodeTerminal = True"
| "is_deterministic_error T_DefinitionVersionRevoked = True"
| "is_deterministic_error T_DefinitionVersionDraft = True"
| "is_deterministic_error (T_WorkflowStateVersionConflict _ _) = True"
| "is_deterministic_error (T_TransitionNotApplicable _) = True"
| "is_deterministic_error T_SubmissionRequired = True"
| "is_deterministic_error (T_SubmissionValidationFailed _) = True"
| "is_deterministic_error (T_InvalidInput _) = True"
| "is_deterministic_error (T_ContextValidationFailed _) = True"
| "is_deterministic_error (T_SizeLimitExceeded _) = True"
| "is_deterministic_error (T_InvalidReturnReferences _) = True"
| "is_deterministic_error (T_ReturnPolicyExhausted _) = True"
| "is_deterministic_error (T_AssigneeResolutionFailed _) = True"
| "is_deterministic_error _ = False"

text \<open>A JSON number from an \<open>i32\<close>: non-negative and negative values have their own representation.\<close>

definition json_int :: "int \<Rightarrow> json" where
  "json_int i = JNumber (if 0 \<le> i then PosInt (word_of_int i) else NegInt (word_of_int i))"

text \<open>\<open>json!({..})\<close> builds a B-tree map: the members are in key order.\<close>

fun error_response_body :: "transition_error \<Rightarrow> json" where
  "error_response_body (T_WorkflowStateVersionConflict e a) =
     JObject [(''actual'', json_int a), (''error'', JString ''workflow_state_version_conflict''),
              (''expected'', json_int e)]"
| "error_response_body (T_InvalidInput d) =
     JObject [(''detail'', JString d), (''error'', JString (transition_error_label (T_InvalidInput d)))]"
| "error_response_body (T_ContextValidationFailed d) =
     JObject [(''detail'', JString d), (''error'', JString (transition_error_label (T_ContextValidationFailed d)))]"
| "error_response_body (T_SubmissionValidationFailed d) =
     JObject [(''detail'', JString d), (''error'', JString ''submission_validation_failed'')]"
| "error_response_body (T_TransitionNotApplicable d) =
     JObject [(''detail'', JString d), (''error'', JString ''transition_not_applicable'')]"
| "error_response_body (T_ReturnPolicyExhausted l) =
     JObject [(''error'', JString ''return_policy_exhausted''), (''limit'', json_int l)]"
| "error_response_body (T_SizeLimitExceeded d) =
     JObject [(''detail'', JString d), (''error'', JString (transition_error_label (T_SizeLimitExceeded d)))]"
| "error_response_body (T_InvalidReturnReferences d) =
     JObject [(''detail'', JString d), (''error'', JString (transition_error_label (T_InvalidReturnReferences d)))]"
| "error_response_body (T_AssigneeResolutionFailed d) =
     JObject [(''detail'', JString d), (''error'', JString (transition_error_label (T_AssigneeResolutionFailed d)))]"
| "error_response_body e = JObject [(''error'', JString (transition_error_label e))]"

lemma error_body_label: "jget (error_response_body e) ''error'' = Some (JString (transition_error_label e))"
  by (cases e) simp_all

lemma deterministic_code:
  "is_deterministic_error e \<Longrightarrow> transition_error_code e \<in> {403, 404, 409, 413, 422, 500}"
  by (cases e) simp_all

lemma deterministic_label_inj:
  assumes "is_deterministic_error e" "is_deterministic_error f"
    and "transition_error_label e = transition_error_label f"
  shows "transition_error_code e = transition_error_code f"
  using assms by (cases e; cases f) simp_all

section \<open>Properties\<close>

text \<open>
  A persisted failure can be told from a success: every deterministic error has a status other
  than 200, and that status is a client error except for a version still in DRAFT.  (Replay decides
  between success and failure by the stored status alone.)
\<close>
theorem deterministic_failure_status:
  assumes "is_deterministic_error e"
  shows "transition_error_code e \<noteq> 200 \<and>
    (400 \<le> transition_error_code e \<and> transition_error_code e < 500 \<longleftrightarrow> e \<noteq> T_DefinitionVersionDraft)"
  using assms by (cases e) simp_all

theorem deterministic_failure_status_witness:
  "transition_error_code (T_ReturnPolicyExhausted 3) \<noteq> 200"
  using deterministic_failure_status [of "T_ReturnPolicyExhausted 3"] by simp

text \<open>
  The body of a failure receipt names the error: its \<open>error\<close> member is the stable label of the
  error, and two deterministic errors with the same \<open>error\<close> member have the same status code.
\<close>
theorem failure_body_determines_status:
  assumes "is_deterministic_error e" and "is_deterministic_error f"
    and "jget (error_response_body e) ''error'' = jget (error_response_body f) ''error''"
  shows "jget (error_response_body e) ''error'' = Some (JString (transition_error_label f)) \<and>
    transition_error_code e = transition_error_code f"
  using assms deterministic_label_inj [OF assms(1,2)] by (simp add: error_body_label)

theorem failure_body_determines_status_witness:
  "jget (error_response_body (T_InvalidInput ''a'')) ''error'' = Some (JString ''invalid_input'')"
  using failure_body_determines_status [of "T_InvalidInput ''a''" "T_InvalidInput ''b''"] by simp

end
