(* ===== verification/Instance_Store.thy ===== *)
theory Instance_Store
  imports Transition_Errors
begin

text \<open>
  The runtime tables as the transition code reads and writes them: the row types of
  \<open>row_types.rs\<close> and \<open>transition_rows.rs\<close>, a store that holds each table as the list of its rows in
  insertion order, and the insert statements of \<open>transition_helpers.rs\<close> and \<open>activation_facts.rs\<close>.
  An insert that breaks a key of the table (primary key, unique index, or the two CHECKs on event
  versions of \<open>migrations/0004\<close>) fails with a storage error and leaves no trace, as PostgreSQL does.
  Foreign keys and triggers of the schema are not part of the store.
\<close>

section \<open>Rows\<close>

lemma distinct_map_eqD: "distinct (map f xs) \<Longrightarrow> a \<in> set xs \<Longrightarrow> b \<in> set xs \<Longrightarrow> f a = f b \<Longrightarrow> a = b"
  by (simp add: distinct_map inj_on_def)

text \<open>Enum columns are read as text; \<open>node_type\<close> falls back to NORMAL when it does not parse.\<close>

definition node_type_enum :: "string \<Rightarrow> node_type" where
  "node_type_enum s =
     (case enum_from_str ''NodeType'' node_type_variants node_type_to_string s of
        Inl _ \<Rightarrow> NT_NORMAL | Inr t \<Rightarrow> t)"

definition assignee_ref_type_enum :: "string option \<Rightarrow> assignee_ref_type option" where
  "assignee_ref_type_enum s =
     Option.bind s (\<lambda>v.
       case enum_from_str ''AssigneeRefType'' assignee_ref_type_variants assignee_ref_type_to_string v of
         Inl _ \<Rightarrow> None | Inr t \<Rightarrow> Some t)"

record transition_row =
  tr_id :: uuid
  tr_key :: string
  tr_version :: uuid
  tr_source :: uuid
  tr_target :: uuid
  tr_effect :: string
  tr_schema :: "json option"

record target_node_row =
  tn_id :: uuid
  tn_type :: string
  tn_ref_type :: "string option"
  tn_fixed_principal :: "uuid option"
  tn_input_key :: "string option"
  tn_order :: int

record current_visit_row =
  cv_visit :: uuid
  cv_node :: uuid
  cv_assignee :: "uuid option"
  cv_type :: string
  cv_primary :: "uuid option"
  cv_order :: int

record source_node_row =
  sn_id :: uuid
  sn_type :: string
  sn_primary :: "uuid option"
  sn_order :: int

text \<open>
  The three columns of a cancellation or an archival (time, principal, reason) are written together;
  \<open>current_node_visit_id\<close> is NULL on a dangling instance.
\<close>

record lifecycle_mark =
  lm_at :: int
  lm_by :: uuid
  lm_reason :: string

record instance_row =
  wi_id :: uuid
  wi_domain :: uuid
  wi_created_by :: uuid
  wi_version :: uuid
  wi_context :: uuid
  wi_current_visit :: "uuid option"
  wi_state_version :: int
  wi_cancelled :: bool
  wi_cancellation :: "lifecycle_mark option"
  wi_archival :: "lifecycle_mark option"
  wi_class :: workflow_execution_class

abbreviation wi_visit :: "instance_row \<Rightarrow> uuid" where
  "wi_visit w \<equiv> the (wi_current_visit w)"

abbreviation wi_archived :: "instance_row \<Rightarrow> bool" where
  "wi_archived w \<equiv> wi_archival w \<noteq> None"

record visit_row =
  nv_id :: uuid
  nv_instance :: uuid
  nv_node :: uuid
  nv_number :: int
  nv_assignee :: "uuid option"
  nv_entered_by :: "uuid option"

record submission_row =
  sb_id :: uuid
  sb_instance :: uuid
  sb_visit :: uuid
  sb_context :: uuid
  sb_author :: uuid
  sb_transition :: uuid
  sb_payload :: json
  sb_digest :: string

record event_row =
  ev_id :: uuid
  ev_instance :: uuid
  ev_sequence :: int
  ev_command :: uuid
  ev_type :: string
  ev_effect :: "string option"
  ev_source_visit :: "uuid option"
  ev_target_visit :: "uuid option"
  ev_context :: "uuid option"
  ev_submission :: "uuid option"
  ev_data :: json
  ev_digest :: string
  ev_actor :: uuid
  ev_from :: "uuid option"
  ev_to :: "uuid option"
  ev_old :: int
  ev_new :: int

record command_receipt =
  rc_command :: uuid
  rc_principal :: uuid
  rc_key :: string
  rc_type :: string
  rc_hash :: string
  rc_status :: string
  rc_response_status :: "int option"
  rc_response_body :: "json option"
  rc_response_digest :: "string option"

record attempt_audit =
  au_id :: uuid
  au_command :: uuid
  au_principal :: uuid
  au_key :: string
  au_type :: string
  au_reason :: "string option"
  au_hash :: string
  au_details :: "json option"

record activation_row =
  ac_id :: uuid
  ac_instance :: uuid
  ac_visit :: uuid
  ac_kind :: activation_kind
  ac_owner :: uuid
  ac_at :: int
  ac_next :: "int option"
  ac_command :: uuid

record closure_row =
  cl_activation :: uuid
  cl_at :: int
  cl_reason :: string
  cl_command :: uuid
  cl_event :: "uuid option"

record principal_row =
  pr_id :: uuid
  pr_type :: string
  pr_enabled :: bool

record role_binding_row =
  rb_domain :: uuid
  rb_principal :: uuid
  rb_role :: string
  rb_enabled :: bool

text \<open>
  The definition tables are read only at run time; the remaining tables hold context revisions,
  assistance cases, the outbox, the forum bindings, and the managed instances with their kind.
\<close>

record version_row =
  vr_id :: uuid
  vr_status :: string
  vr_semantic :: int
  vr_context_schema :: "json option"

record node_row =
  nr_id :: uuid
  nr_version :: uuid
  nr_key :: string
  nr_type :: string
  nr_ref_type :: "string option"
  nr_fixed_principal :: "uuid option"
  nr_input_key :: "string option"
  nr_primary :: "uuid option"
  nr_order :: int
  nr_metadata :: "json option"

record context_row =
  cx_id :: uuid
  cx_instance :: uuid
  cx_number :: int
  cx_previous :: "uuid option"
  cx_payload :: json
  cx_digest :: string
  cx_author :: uuid

text \<open>The columns of an escalation or a resolution, and those of a void, are NULL or set together.\<close>

record case_action =
  ca_by :: uuid
  ca_payload :: json
  ca_digest :: string
  ca_command :: uuid
  ca_at :: int

record case_void =
  cd_by :: uuid
  cd_reason :: string
  cd_command :: uuid
  cd_at :: int

record assistance_row =
  as_id :: uuid
  as_instance :: uuid
  as_visit :: uuid
  as_status :: string
  as_requester :: uuid
  as_payload :: json
  as_digest :: string
  as_command :: uuid
  as_escalation :: "case_action option"
  as_resolution :: "case_action option"
  as_void :: "case_void option"
  as_created :: int

record outbox_row =
  ob_id :: uuid
  ob_instance :: uuid
  ob_kind :: string
  ob_key :: string
  ob_payload :: json
  ob_attempts :: int
  ob_next_at :: int
  ob_error :: "string option"
  ob_delivered :: "int option"
  ob_dead :: "int option"
  ob_created :: int

record forum_binding_row =
  fb_instance :: uuid
  fb_thread :: "string option"
  fb_state :: string
  fb_created :: int

record successor_row =
  su_source :: uuid
  su_successor :: uuid
  su_agent :: string

record global_role_row =
  gr_principal :: uuid
  gr_role :: string
  gr_enabled :: bool

record eligibility_row =
  el_id :: uuid
  el_activation :: uuid
  el_previous :: int
  el_new :: int
  el_cause :: string
  el_command :: uuid
  el_created :: int

text \<open>
  The owner-obligation tables of \<open>migrations/0031\<close>, with the columns the modelled statements read or
  write: approvals of a policy, intents, managed instances, operation effects and dependency origins.
\<close>

record approval_row =
  ap_source_version :: uuid
  ap_digest :: string
  ap_actor :: uuid
  ap_domain :: uuid
  ap_intake_version :: uuid
  ap_review_version :: uuid
  ap_intake_transition :: uuid
  ap_review_transition :: uuid

record intent_row =
  in_id :: uuid
  in_kind :: string
  in_case :: uuid
  in_source :: uuid
  in_source_visit :: uuid
  in_request_event :: uuid
  in_request_context :: uuid
  in_source_version :: uuid
  in_request_digest :: string
  in_policy_digest :: string
  in_policy_version :: uuid
  in_selected_version :: "uuid option"
  in_selected_transition :: "uuid option"
  in_binding :: "uuid option"
  in_terminal_event :: "uuid option"
  in_managed :: "uuid option"
  in_state :: string
  in_outcome :: "string option"
  in_stop_code :: "string option"
  in_command :: "uuid option"
  in_replacement :: "uuid option"
  in_origin_event :: "uuid option"
  in_visit :: "uuid option"
  in_attempt :: "string option"

record managed_row =
  mi_id :: uuid
  mi_kind :: string
  mi_case :: uuid
  mi_policy_version :: uuid
  mi_binding :: uuid

record effect_row =
  fx_id :: uuid
  fx_case :: uuid
  fx_managed :: uuid
  fx_command :: "uuid option"
  fx_state :: string

record origin_row =
  or_created :: uuid
  or_parent :: uuid

record child_binding_row =
  gb_id :: uuid
  gb_case :: uuid
  gb_source :: uuid
  gb_visit :: uuid
  gb_event :: uuid
  gb_context :: uuid
  gb_version :: uuid
  gb_digest :: string
  gb_terminal_event :: "uuid option"

record store =
  versions :: "version_row list"
  node_rows :: "node_row list"
  transition_rows :: "transition_row list"
  domains :: "(uuid \<times> bool) list"
  principals :: "principal_row list"
  role_bindings :: "role_binding_row list"
  successors :: "successor_row list"
  instances :: "instance_row list"
  visits :: "visit_row list"
  submissions :: "submission_row list"
  events :: "event_row list"
  receipts :: "command_receipt list"
  audits :: "attempt_audit list"
  activations :: "activation_row list"
  closures :: "closure_row list"
  contexts :: "context_row list"
  assistances :: "assistance_row list"
  outbox :: "outbox_row list"
  forum_bindings :: "forum_binding_row list"
  global_roles :: "global_role_row list"
  eligibilities :: "eligibility_row list"
  approvals :: "approval_row list"
  intents :: "intent_row list"
  managed_instances :: "managed_row list"
  effects :: "effect_row list"
  origins :: "origin_row list"
  child_bindings :: "child_binding_row list"

definition empty_store :: store where
  "empty_store =
     \<lparr>versions = [], node_rows = [], transition_rows = [], domains = [], principals = [],
      role_bindings = [], successors = [], instances = [], visits = [], submissions = [], events = [],
      receipts = [], audits = [], activations = [], closures = [], contexts = [], assistances = [],
      outbox = [], forum_bindings = [], global_roles = [], eligibilities = [], approvals = [], intents = [],
      managed_instances = [], effects = [], origins = [], child_bindings = []\<rparr>"

definition is_managed :: "uuid \<Rightarrow> store \<Rightarrow> bool" where
  "is_managed inst s \<longleftrightarrow> inst \<in> mi_id ` set (managed_instances s)"

section \<open>Inserts\<close>

definition unique_violation :: "string \<Rightarrow> transition_error" where
  "unique_violation what = T_StorageError (what @ '': duplicate key value violates unique constraint'')"

definition insert_submission ::
  "(json \<Rightarrow> (string, string) res) \<Rightarrow> uuid \<Rightarrow> uuid \<Rightarrow> uuid \<Rightarrow> uuid \<Rightarrow> uuid \<Rightarrow> uuid \<Rightarrow> json \<Rightarrow> store \<Rightarrow>
     (transition_error, store) res" where
  "insert_submission dig sid inst source_visit ctx author transition payload s =
     (case dig payload of
        Inl e \<Rightarrow> Inl (T_StorageError e)
      | Inr payload_digest \<Rightarrow>
          if sid \<in> sb_id ` set (submissions s) \<or> source_visit \<in> sb_visit ` set (submissions s)
          then Inl (unique_violation ''submission insert failed'')
          else Inr (s\<lparr>submissions := submissions s @
            [\<lparr>sb_id = sid, sb_instance = inst, sb_visit = source_visit, sb_context = ctx,
              sb_author = author, sb_transition = transition, sb_payload = payload,
              sb_digest = payload_digest\<rparr>]\<rparr>))"

definition insert_node_visit ::
  "uuid \<Rightarrow> uuid \<Rightarrow> uuid \<Rightarrow> int \<Rightarrow> uuid option \<Rightarrow> uuid \<Rightarrow> store \<Rightarrow> (transition_error, store) res" where
  "insert_node_visit vid inst node number assignee transition s =
     (if vid \<in> nv_id ` set (visits s) \<or>
         (inst, node, number) \<in> (\<lambda>v. (nv_instance v, nv_node v, nv_number v)) ` set (visits s)
      then Inl (unique_violation ''node visit insert failed'')
      else Inr (s\<lparr>visits := visits s @
        [\<lparr>nv_id = vid, nv_instance = inst, nv_node = node, nv_number = number,
          nv_assignee = assignee, nv_entered_by = Some transition\<rparr>]\<rparr>))"

text \<open>\<open>SELECT COALESCE(MAX(visit_number), 0) + 1 .. WHERE workflow_instance_id = .. AND node_id = ..\<close>.\<close>

definition next_visit_number :: "uuid \<Rightarrow> uuid \<Rightarrow> store \<Rightarrow> int" where
  "next_visit_number inst node s =
     fold (\<lambda>v m. max (nv_number v) m) (filter (\<lambda>v. nv_instance v = inst \<and> nv_node v = node) (visits s)) 0 + 1"

text \<open>
  The optimistic update of the instance projection: it must hit exactly the row with the old state
  version and the old current visit.
\<close>

definition update_instance ::
  "uuid \<Rightarrow> uuid \<Rightarrow> int \<Rightarrow> int \<Rightarrow> uuid \<Rightarrow> store \<Rightarrow> (transition_error, store) res" where
  "update_instance inst new_visit new_version old_version old_visit s =
     (let hit = (\<lambda>w. wi_id w = inst \<and> wi_state_version w = old_version \<and> wi_current_visit w = Some old_visit) in
      if length (filter hit (instances s)) \<noteq> 1
      then Inl (T_InternalConsistency ''instance update affected unexpected number of rows'')
      else Inr (s\<lparr>instances := map (\<lambda>w. if hit w
             then w\<lparr>wi_current_visit := Some new_visit, wi_state_version := new_version\<rparr> else w) (instances s)\<rparr>))"

text \<open>
  \<open>insert_event\<close>: the event data names the ids as text (\<open>show_uuid\<close> is \<open>Uuid::to_string\<close>), and names
  both context revisions only when the transition changed the context.
\<close>

definition transition_event_data ::
  "(uuid \<Rightarrow> string) \<Rightarrow> transition_row \<Rightarrow> uuid \<Rightarrow> uuid \<Rightarrow> uuid \<Rightarrow> uuid \<Rightarrow> uuid \<Rightarrow> string option \<Rightarrow> uuid option \<Rightarrow> json" where
  "transition_event_data show_uuid t source_node target_node source_visit target_visit ctx payload_digest new_ctx =
     JObject (
       [(''context_revision_id'', JString (show_uuid ctx))] @
       (case new_ctx of None \<Rightarrow> [] | Some n \<Rightarrow> [(''newContextRevisionId'', JString (show_uuid n))]) @
       (case new_ctx of None \<Rightarrow> [] | Some n \<Rightarrow> [(''previousContextRevisionId'', JString (show_uuid ctx))]) @
       [(''source_node_id'', JString (show_uuid source_node)),
        (''source_node_visit_id'', JString (show_uuid source_visit)),
        (''submission_payload_digest'', (case payload_digest of None \<Rightarrow> JNull | Some d \<Rightarrow> JString d)),
        (''target_node_id'', JString (show_uuid target_node)),
        (''target_node_visit_id'', JString (show_uuid target_visit)),
        (''transition_definition_id'', JString (show_uuid (tr_id t))),
        (''transition_effect'', JString (tr_effect t)),
        (''transition_key'', JString (tr_key t))])"

definition append_event :: "event_row \<Rightarrow> store \<Rightarrow> (transition_error, store) res" where
  "append_event e s =
     (if ev_id e \<in> ev_id ` set (events s) \<or> ev_command e \<in> ev_command ` set (events s) \<or>
         (ev_instance e, ev_sequence e) \<in> (\<lambda>x. (ev_instance x, ev_sequence x)) ` set (events s) \<or>
         ev_new e \<noteq> ev_old e + 1 \<or> ev_sequence e \<noteq> ev_new e
      then Inl (unique_violation ''event insert failed'')
      else Inr (s\<lparr>events := events s @ [e]\<rparr>))"

definition insert_event ::
  "(uuid \<Rightarrow> string) \<Rightarrow> (json \<Rightarrow> (string, string) res) \<Rightarrow> uuid \<Rightarrow> uuid \<Rightarrow> int \<Rightarrow> uuid \<Rightarrow> string \<Rightarrow> uuid \<Rightarrow> uuid \<Rightarrow>
     uuid \<Rightarrow> uuid option \<Rightarrow> uuid \<Rightarrow> uuid \<Rightarrow> uuid \<Rightarrow> int \<Rightarrow> int \<Rightarrow> transition_row \<Rightarrow> string option \<Rightarrow> uuid option \<Rightarrow>
     store \<Rightarrow> (transition_error, store) res" where
  "insert_event show_uuid dig event_id inst event_sequence command_id effect source_visit target_visit
      ctx submission_id actor source_node target_node old_version new_version t payload_digest new_ctx s =
     (let data = transition_event_data show_uuid t source_node target_node source_visit target_visit ctx
                   payload_digest new_ctx
      in case dig data of
           Inl e \<Rightarrow> Inl (T_StorageError e)
         | Inr d \<Rightarrow>
             append_event
               \<lparr>ev_id = event_id, ev_instance = inst, ev_sequence = event_sequence, ev_command = command_id,
                ev_type = ''WORKFLOW_TRANSITION_COMMITTED'', ev_effect = Some effect,
                ev_source_visit = Some source_visit, ev_target_visit = Some target_visit, ev_context = Some ctx,
                ev_submission = submission_id, ev_data = data, ev_digest = d, ev_actor = actor,
                ev_from = Some source_node, ev_to = Some target_node, ev_old = old_version, ev_new = new_version\<rparr> s)"

section \<open>Activations\<close>

definition insert_activation ::
  "int \<Rightarrow> uuid \<Rightarrow> uuid \<Rightarrow> uuid \<Rightarrow> activation_kind \<Rightarrow> uuid \<Rightarrow> uuid \<Rightarrow> store \<Rightarrow> (transition_error, store) res" where
  "insert_activation now aid inst visit kind owner command s =
     (if aid \<in> ac_id ` set (activations s) \<or> visit \<in> ac_visit ` set (activations s)
      then Inl (unique_violation ''activation insert failed'')
      else Inr (s\<lparr>activations := activations s @
        [\<lparr>ac_id = aid, ac_instance = inst, ac_visit = visit, ac_kind = kind, ac_owner = owner,
          ac_at = now, ac_next = (if kind = DispatchIntent then Some now else None),
          ac_command = command\<rparr>]\<rparr>))"

definition active :: "store \<Rightarrow> activation_row \<Rightarrow> bool" where
  "active s a \<longleftrightarrow> ac_id a \<notin> cl_activation ` set (closures s)"

text \<open>\<open>CURRENT_ACTIVE_ACTIVATION_SELECTION\<close>.\<close>

definition current_active :: "uuid \<Rightarrow> uuid \<Rightarrow> store \<Rightarrow> activation_row list" where
  "current_active inst visit s =
     filter (\<lambda>a. ac_instance a = inst \<and> ac_visit a = visit \<and> active s a) (activations s)"

definition validate_current_activation :: "uuid \<Rightarrow> uuid \<Rightarrow> store \<Rightarrow> bool" where
  "validate_current_activation inst visit s \<longleftrightarrow> length (current_active inst visit s) = 1"

definition close_activation_by_visit ::
  "int \<Rightarrow> uuid \<Rightarrow> uuid \<Rightarrow> string \<Rightarrow> uuid \<Rightarrow> uuid option \<Rightarrow> store \<Rightarrow> bool \<times> store" where
  "close_activation_by_visit now inst visit reason command event s =
     (let acts = current_active inst visit s
      in (length acts = 1,
          s\<lparr>closures := closures s @
            map (\<lambda>a. \<lparr>cl_activation = ac_id a, cl_at = now, cl_reason = reason, cl_command = command,
                       cl_event = event\<rparr>) acts\<rparr>))"

definition close_activation_by_visit_required ::
  "int \<Rightarrow> uuid \<Rightarrow> uuid \<Rightarrow> string \<Rightarrow> uuid \<Rightarrow> uuid option \<Rightarrow> store \<Rightarrow> bool \<times> store" where
  "close_activation_by_visit_required now inst visit reason command event s =
     (if \<not> validate_current_activation inst visit s then (False, s)
      else close_activation_by_visit now inst visit reason command event s)"

definition visit_has_active_activation :: "uuid \<Rightarrow> store \<Rightarrow> bool" where
  "visit_has_active_activation visit s = list_ex (\<lambda>a. ac_visit a = visit \<and> active s a) (activations s)"

definition find_principal :: "uuid \<Rightarrow> store \<Rightarrow> principal_row option" where
  "find_principal p s = find (\<lambda>r. pr_id r = p) (principals s)"

text \<open>The owner of new-model work is an enabled HUMAN or AGENT; the error is the rejection reason.\<close>

definition validate_owner_is_human_or_agent :: "uuid \<Rightarrow> store \<Rightarrow> (string, unit) res" where
  "validate_owner_is_human_or_agent owner s =
     (case find_principal owner s of
        None \<Rightarrow> Inl ''owner principal row missing for resolved VISIT_ACTIVATION_V1 owner''
      | Some r \<Rightarrow>
          let type_ok = (pr_type r = principal_type_to_string PT_HUMAN \<or>
                         pr_type r = principal_type_to_string PT_AGENT)
          in if \<not> type_ok \<or> \<not> pr_enabled r
             then Inl (''VISIT_ACTIVATION_V1 owner must be an enabled HUMAN or AGENT principal (type='' @
                    pr_type r @ '', enabled='' @ (if pr_enabled r then ''true'' else ''false'') @ '')'')
             else Inr ())"

section \<open>The invariant of the runtime tables\<close>

text \<open>
  What the keys of the schema and the writers keep together: unique ids, one activation per visit, at
  most one closure per activation, closures of known activations, and event sequences that are the
  state versions they commit.
\<close>

definition store_wf :: "store \<Rightarrow> bool" where
  "store_wf s \<longleftrightarrow>
     distinct (map wi_id (instances s)) \<and>
     distinct (map nv_id (visits s)) \<and>
     distinct (map (\<lambda>v. (nv_instance v, nv_node v, nv_number v)) (visits s)) \<and>
     distinct (map sb_id (submissions s)) \<and> distinct (map sb_visit (submissions s)) \<and>
     distinct (map ev_id (events s)) \<and> distinct (map ev_command (events s)) \<and>
     distinct (map (\<lambda>e. (ev_instance e, ev_sequence e)) (events s)) \<and>
     (\<forall>e\<in>set (events s). ev_new e = ev_old e + 1 \<and> ev_sequence e = ev_new e) \<and>
     distinct (map rc_command (receipts s)) \<and>
     distinct (map (\<lambda>r. (rc_principal r, rc_key r)) (receipts s)) \<and>
     distinct (map ac_id (activations s)) \<and> distinct (map ac_visit (activations s)) \<and>
     (\<forall>a\<in>set (activations s). ac_next a = (if ac_kind a = DispatchIntent then Some (ac_at a) else None)) \<and>
     distinct (map cl_activation (closures s)) \<and>
     (\<forall>c\<in>set (closures s). cl_activation c \<in> ac_id ` set (activations s))"

lemma insert_submission_wf:
  "insert_submission dig sid i v c p t payload s = Inr s' \<Longrightarrow> store_wf s \<Longrightarrow> store_wf s'"
  by (auto simp: insert_submission_def store_wf_def split: sum.splits if_splits)

lemma insert_node_visit_wf:
  "insert_node_visit vid i n k a t s = Inr s' \<Longrightarrow> store_wf s \<Longrightarrow> store_wf s'"
  by (auto simp: insert_node_visit_def store_wf_def split: if_splits)

lemma append_event_wf: "append_event e s = Inr s' \<Longrightarrow> store_wf s \<Longrightarrow> store_wf s'"
  by (auto simp: append_event_def store_wf_def split: if_splits)

lemma insert_event_wf:
  "insert_event sh dig ei i sq c ef sv tv ctx sid act sn tn ov nv t pd nc s = Inr s' \<Longrightarrow> store_wf s \<Longrightarrow> store_wf s'"
  by (auto simp: insert_event_def Let_def split: sum.splits dest: append_event_wf)

lemma insert_activation_wf:
  "insert_activation now aid i v k ow c s = Inr s' \<Longrightarrow> store_wf s \<Longrightarrow> store_wf s'"
  by (auto simp: insert_activation_def store_wf_def split: if_splits)

lemma update_instance_wf:
  "update_instance i nv nver over ov s = Inr s' \<Longrightarrow> store_wf s \<Longrightarrow> store_wf s'"
proof -
  assume u: "update_instance i nv nver over ov s = Inr s'" and wf: "store_wf s"
  let ?f = "\<lambda>w. if wi_id w = i \<and> wi_state_version w = over \<and> wi_current_visit w = Some ov
             then w\<lparr>wi_current_visit := Some nv, wi_state_version := nver\<rparr> else w"
  have "map wi_id (map ?f ws) = map wi_id ws" for ws :: "instance_row list" by simp
  moreover have "s' = s\<lparr>instances := map ?f (instances s)\<rparr>"
    using u by (simp add: update_instance_def Let_def split: if_splits)
  ultimately show "store_wf s'" using wf by (simp add: store_wf_def del: map_map)
qed

lemma close_activation_wf:
  assumes "store_wf s"
  shows "store_wf (snd (close_activation_by_visit now i v r c e s))"
proof -
  let ?acts = "current_active i v s"
  have sub: "set ?acts \<subseteq> set (activations s)" by (auto simp: current_active_def)
  have "distinct (map ac_id ?acts)"
    using assms by (simp add: current_active_def store_wf_def distinct_map_filter)
  moreover have "ac_id ` set ?acts \<inter> cl_activation ` set (closures s) = {}"
    by (auto simp: current_active_def active_def)
  ultimately show ?thesis using assms sub
    by (auto simp: close_activation_by_visit_def Let_def store_wf_def comp_def)
qed

lemma close_required_wf:
  "store_wf s \<Longrightarrow> store_wf (snd (close_activation_by_visit_required now i v r c e s))"
  using close_activation_wf by (simp add: close_activation_by_visit_required_def)

text \<open>One activation per visit makes the selection of an active activation at most one row.\<close>

lemma current_active_le_one: "store_wf s \<Longrightarrow> length (current_active i v s) \<le> 1"
proof -
  assume "store_wf s"
  then have "distinct (map ac_visit (current_active i v s))"
    by (simp add: current_active_def store_wf_def distinct_map_filter)
  moreover have "set (map ac_visit (current_active i v s)) \<subseteq> {v}" by (auto simp: current_active_def)
  ultimately have "length (map ac_visit (current_active i v s)) \<le> card {v}"
    by (metis card_mono distinct_card finite.emptyI finite_insert)
  then show ?thesis by simp
qed

lemma next_visit_number_fresh:
  "v \<in> set (visits s) \<Longrightarrow> nv_instance v = i \<Longrightarrow> nv_node v = n \<Longrightarrow> nv_number v < next_visit_number i n s"
proof -
  have mono: "m \<le> fold (\<lambda>v m. max (nv_number v) m) vs m" for vs :: "visit_row list" and m
    by (induction vs arbitrary: m) (auto intro: order_trans [OF max.cobounded2])
  have bound: "v \<in> set vs \<Longrightarrow> nv_number v \<le> fold (\<lambda>v m. max (nv_number v) m) vs m"
    for vs :: "visit_row list" and v m
  proof (induction vs arbitrary: m)
    case (Cons w vs)
    then show ?case using mono [of "max (nv_number w) m" vs] by auto
  qed simp
  assume "v \<in> set (visits s)" "nv_instance v = i" "nv_node v = n"
  then have "v \<in> set (filter (\<lambda>v. nv_instance v = i \<and> nv_node v = n) (visits s))" by simp
  from bound [OF this, of 0] show ?thesis by (simp add: next_visit_number_def)
qed

end
