(* ===== verification/Transition_Rules.thy ===== *)
theory Transition_Rules
  imports Instance_Store
begin

text \<open>
  The checks of a transition before its first write: the side-effect-free selection rules of
  \<open>transition_checks.rs\<close>, and of \<open>transition_validation.rs\<close> the reads of the definition tables, the
  resolution of the target's assignee, and the checks of the submission.
  A check that returns \<open>Result<(), ..>\<close> is a value of type \<open>(transition_error, unit) res\<close>.
  The JSON serializer's length, the JSON-schema library, the UUID parser and printer are parameters.
\<close>

section \<open>Reads\<close>

text \<open>The current visit is decoded as a plain UUID, so a dangling instance is a storage error.\<close>

definition read_instance :: "uuid \<Rightarrow> store \<Rightarrow> (transition_error, instance_row) res" where
  "read_instance inst s =
     (case find (\<lambda>w. wi_id w = inst) (instances s) of
        None \<Rightarrow> Inl T_InstanceNotFound
      | Some w \<Rightarrow>
          if wi_current_visit w = None
          then Inl (T_StorageError ''unexpected null; try decoding as an `Option`'') else Inr w)"

definition validate_principal_enabled :: "uuid \<Rightarrow> store \<Rightarrow> transition_error option" where
  "validate_principal_enabled p s =
     (case find_principal p s of
        None \<Rightarrow> Some T_PrincipalNotFound
      | Some r \<Rightarrow> if \<not> pr_enabled r then Some T_PrincipalDisabled else None)"

definition find_version :: "uuid \<Rightarrow> store \<Rightarrow> version_row option" where
  "find_version v s = find (\<lambda>r. vr_id r = v) (versions s)"

definition read_definition_version_status ::
  "uuid \<Rightarrow> store \<Rightarrow> (transition_error, definition_version_status) res" where
  "read_definition_version_status v s =
     (case find_version v s of
        None \<Rightarrow> Inl (T_InternalConsistency ''definition version not found for instance'')
      | Some r \<Rightarrow>
          if vr_status r = ''REVOKED'' then Inl T_DefinitionVersionRevoked
          else if vr_status r = ''DRAFT'' then Inl T_DefinitionVersionDraft
          else Inr (case enum_from_str ''DefinitionVersionStatus'' version_status_variants
                           version_status_to_string (vr_status r) of
                      Inl _ \<Rightarrow> VS_PUBLISHED | Inr st \<Rightarrow> st))"

definition read_semantic_model_version :: "uuid \<Rightarrow> store \<Rightarrow> (transition_error, int) res" where
  "read_semantic_model_version v s =
     (case find_version v s of
        None \<Rightarrow> Inl (T_InternalConsistency ''definition version not found for instance'')
      | Some r \<Rightarrow> Inr (vr_semantic r))"

definition find_node :: "uuid \<Rightarrow> store \<Rightarrow> node_row option" where
  "find_node n s = find (\<lambda>r. nr_id r = n) (node_rows s)"

definition find_node_of :: "uuid \<Rightarrow> uuid \<Rightarrow> store \<Rightarrow> node_row option" where
  "find_node_of n v s = find (\<lambda>r. nr_id r = n \<and> nr_version r = v) (node_rows s)"

definition read_current_visit :: "uuid \<Rightarrow> uuid \<Rightarrow> store \<Rightarrow> (transition_error, current_visit_row) res" where
  "read_current_visit inst visit s =
     (case find (\<lambda>v. nv_id v = visit \<and> nv_instance v = inst) (visits s) of
        None \<Rightarrow> Inl T_CurrentVisitNotFound
      | Some v \<Rightarrow>
          (case find_node (nv_node v) s of
             None \<Rightarrow> Inl T_CurrentVisitNotFound
           | Some n \<Rightarrow> Inr \<lparr>cv_visit = nv_id v, cv_node = nv_node v, cv_assignee = nv_assignee v,
                            cv_type = nr_type n, cv_primary = nr_primary n, cv_order = nr_order n\<rparr>))"

definition read_source_node :: "uuid \<Rightarrow> uuid \<Rightarrow> store \<Rightarrow> (transition_error, source_node_row) res" where
  "read_source_node n v s =
     (case find_node_of n v s of
        None \<Rightarrow> Inl (T_InternalConsistency ''source node not found in instance definition version'')
      | Some r \<Rightarrow> Inr \<lparr>sn_id = nr_id r, sn_type = nr_type r, sn_primary = nr_primary r, sn_order = nr_order r\<rparr>)"

definition read_transition :: "uuid \<Rightarrow> uuid \<Rightarrow> store \<Rightarrow> (transition_error, transition_row) res" where
  "read_transition t v s =
     (case find (\<lambda>r. tr_id r = t \<and> tr_version r = v) (transition_rows s) of
        None \<Rightarrow> Inl (T_TransitionNotApplicable ''transition definition not found for this version'')
      | Some r \<Rightarrow> Inr r)"

definition read_target_node :: "uuid \<Rightarrow> uuid \<Rightarrow> store \<Rightarrow> (transition_error, target_node_row) res" where
  "read_target_node n v s =
     (case find_node_of n v s of
        None \<Rightarrow> Inl (T_InternalConsistency ''target node not found in definition version'')
      | Some r \<Rightarrow> Inr \<lparr>tn_id = nr_id r, tn_type = nr_type r, tn_ref_type = nr_ref_type r,
                       tn_fixed_principal = nr_fixed_principal r, tn_input_key = nr_input_key r,
                       tn_order = nr_order r\<rparr>)"

section \<open>Selection rules\<close>

definition validate_source_and_effect ::
  "transition_row \<Rightarrow> current_visit_row \<Rightarrow> source_node_row \<Rightarrow> bool \<Rightarrow> (transition_error, unit) res" where
  "validate_source_and_effect t visit source is_minimal =
     (if tr_source t \<noteq> cv_node visit
      then Inl (T_TransitionNotApplicable ''transition source node does not match current visit node'')
      else if tr_effect t = ''ADVANCE'' then
        (if \<not> is_minimal then
           (case sn_primary source of
              None \<Rightarrow> Inl (T_InternalConsistency ''source node has no primary advance transition'')
            | Some primary_id \<Rightarrow>
                if tr_id t \<noteq> primary_id
                then Inl (T_TransitionNotApplicable ''ADVANCE must use the primary advance transition'')
                else Inr ())
         else Inr ())
      else if tr_effect t = ''RETURN'' then
        (if \<not> is_minimal \<and> sn_primary source = Some (tr_id t)
         then Inl (T_TransitionNotApplicable ''RETURN transition must not be the primary advance'')
         else Inr ())
      else if tr_effect t = ''TERMINATE'' then
        (if is_minimal
         then Inl (T_TransitionNotApplicable ''TERMINATE is forbidden in Minimal (V2) semantics'')
         else if sn_primary source = Some (tr_id t)
         then Inl (T_TransitionNotApplicable ''TERMINATE transition must not be the primary advance'')
         else Inr ())
      else Inl (T_TransitionNotApplicable (''unknown transition effect: '' @ tr_effect t)))"

definition validate_target ::
  "string \<Rightarrow> target_node_row \<Rightarrow> source_node_row \<Rightarrow> bool \<Rightarrow> (transition_error, unit) res" where
  "validate_target effect target source is_minimal =
     (if effect = ''ADVANCE'' then Inr ()
      else if effect = ''RETURN'' then
        (if node_type_enum (tn_type target) = NT_TERMINAL
         then Inl (T_TransitionNotApplicable ''RETURN target must not be a TERMINAL node'')
         else if \<not> is_minimal \<and> tn_order target \<ge> sn_order source
         then Inl (T_TransitionNotApplicable ''RETURN target must have lower order_index than source'')
         else Inr ())
      else if effect = ''TERMINATE'' then
        (if node_type_enum (tn_type target) \<noteq> NT_TERMINAL
         then Inl (T_TransitionNotApplicable ''TERMINATE target must be a TERMINAL node'')
         else Inr ())
      else Inl (T_TransitionNotApplicable (''unknown transition effect: '' @ effect)))"

text \<open>
  \<open>event_data->>'transition_definition_id' = $2\<close>: the text of the member, NULL when it is missing.
  (Only a string member can equal the text of a UUID.)
\<close>

definition returns_on_edge :: "(uuid \<Rightarrow> string) \<Rightarrow> uuid \<Rightarrow> uuid \<Rightarrow> store \<Rightarrow> int" where
  "returns_on_edge show_uuid inst t s =
     int (length (filter (\<lambda>e. ev_instance e = inst \<and> ev_effect e = Some ''RETURN'' \<and>
                              jget (ev_data e) ''transition_definition_id'' = Some (JString (show_uuid t)))
                    (events s)))"

definition return_budget ::
  "(uuid \<Rightarrow> string) \<Rightarrow> uuid \<Rightarrow> uuid \<Rightarrow> string \<Rightarrow> int \<Rightarrow> store \<Rightarrow> (transition_error, int \<times> int) res" where
  "return_budget show_uuid inst t effect max_returns_per_edge s =
     (let max_returns = (if is_managed inst s then 3 else max_returns_per_edge);
          prior = (if effect = ''RETURN'' then returns_on_edge show_uuid inst t s else 0)
      in if effect = ''RETURN'' \<and> prior \<ge> max_returns
         then Inl (T_ReturnPolicyExhausted max_returns)
         else Inr (prior, max_returns))"

definition validate_activation_node_types ::
  "source_node_row \<Rightarrow> target_node_row \<Rightarrow> bool \<Rightarrow> (transition_error, unit) res" where
  "validate_activation_node_types source target is_visit_activation =
     (if is_visit_activation then
        (if node_type_enum (sn_type source) \<noteq> NT_TASK
         then Inl (T_InternalConsistency ''VISIT_ACTIVATION_V1 source node is not a TASK'')
         else if node_type_enum (tn_type target) \<notin> {NT_TASK, NT_TERMINAL}
         then Inl (T_InternalConsistency ''VISIT_ACTIVATION_V1 target node is neither TASK nor TERMINAL'')
         else if assignee_ref_type_enum (tn_ref_type target) = Some InstanceInputPrincipal
         then Inl (T_AssigneeResolutionFailed
                (''VISIT_ACTIVATION_V1 target uses INSTANCE_INPUT_PRINCIPAL, which is not'' @
                 ''                  in the new-model owner reference set''))
         else Inr ())
      else Inr ())"

definition validate_not_cancelled :: "bool \<Rightarrow> (transition_error, unit) res" where
  "validate_not_cancelled cancelled = (if cancelled then Inl T_SourceNodeTerminal else Inr ())"

definition validate_nonterminal_source :: "node_type \<Rightarrow> (transition_error, unit) res" where
  "validate_nonterminal_source t = (if t = NT_TERMINAL then Inl T_SourceNodeTerminal else Inr ())"

definition validate_assignee :: "bool \<Rightarrow> (transition_error, unit) res" where
  "validate_assignee effective_assignee =
     (if \<not> effective_assignee then Inl T_PrincipalNotAssignee else Inr ())"

text \<open>Steps 9 to 11 of the transition: what the transition selects in its definition version.\<close>

definition select_transition ::
  "uuid \<Rightarrow> uuid \<Rightarrow> current_visit_row \<Rightarrow> bool \<Rightarrow> store \<Rightarrow>
     (transition_error, source_node_row \<times> transition_row \<times> target_node_row) res" where
  "select_transition t v visit is_minimal s =
     andThen (read_source_node (cv_node visit) v s) (\<lambda>source.
     andThen (read_transition t v s) (\<lambda>tr.
     andThen (validate_source_and_effect tr visit source is_minimal) (\<lambda>_.
     andThen (read_target_node (tr_target tr) v s) (\<lambda>target.
     andThen (validate_target (tr_effect tr) target source is_minimal) (\<lambda>_.
       Inr (source, tr, target))))))"

section \<open>The target's assignee\<close>

definition quoted :: "string \<Rightarrow> string" where
  "quoted t = CHR 0x27 # t @ [CHR 0x27]"

text \<open>The libraries the checks call: the UUID printer and parser, the JSON digest, the length of the
  serialized JSON, and the JSON-schema compiler with its validator.\<close>

record library =
  show_uuid :: "uuid \<Rightarrow> string"
  parse_uuid :: "string \<Rightarrow> uuid option"
  json_digest :: "json \<Rightarrow> (string, string) res"
  json_length :: "json \<Rightarrow> (string, nat) res"
  schema_validator :: "json \<Rightarrow> (string, json \<Rightarrow> (string, unit) res) res"

definition verify_principal_enabled_for_transition ::
  "uuid \<Rightarrow> bool \<Rightarrow> store \<Rightarrow> (transition_error, uuid) res" where
  "verify_principal_enabled_for_transition candidate historical_return s =
     (if historical_return then Inr candidate
      else (case find_principal candidate s of
              None \<Rightarrow> Inl (T_AssigneeResolutionFailed ''resolved principal not found'')
            | Some r \<Rightarrow> if \<not> pr_enabled r
                        then Inl (T_AssigneeResolutionFailed ''resolved principal is disabled'')
                        else Inr candidate))"

definition domain_owner_binding :: "uuid \<Rightarrow> store \<Rightarrow> role_binding_row option" where
  "domain_owner_binding d s =
     find (\<lambda>b. rb_domain b = d \<and> rb_role b = ''DOMAIN_OWNER'' \<and> rb_enabled b) (role_bindings s)"

definition input_principal ::
  "library \<Rightarrow> target_node_row \<Rightarrow> json option \<Rightarrow> (transition_error, uuid) res" where
  "input_principal lib target context_payload =
     andThen (ok_or (T_AssigneeResolutionFailed
                ''INSTANCE_INPUT_PRINCIPAL node has no assignee_input_key configured'') (tn_input_key target))
       (\<lambda>input_key. andThen (ok_or (T_AssigneeResolutionFailed
                ''INSTANCE_INPUT_PRINCIPAL resolution requires the instance context payload'') context_payload)
       (\<lambda>payload. andThen (ok_or (T_AssigneeResolutionFailed
                (''instance input is missing required assignee key '' @ quoted input_key)) (jget payload input_key))
       (\<lambda>raw. andThen (ok_or (T_AssigneeResolutionFailed
                (''instance input '' @ quoted input_key @ '' must be a string UUID (stable principal identifier); '' @
                 ''display name / email / legacy id resolution is forbidden'')) (as_str raw))
       (\<lambda>t. ok_or (T_AssigneeResolutionFailed
                (''instance input '' @ quoted input_key @ '' is not a valid UUID: '' @ quoted t)) (parse_uuid lib t)))))"

definition resolve_assignee ::
  "library \<Rightarrow> target_node_row \<Rightarrow> instance_row \<Rightarrow> uuid \<Rightarrow> json option \<Rightarrow> bool \<Rightarrow> store \<Rightarrow>
     (transition_error, uuid option) res" where
  "resolve_assignee lib target inst domain context_payload historical_return s =
     (if node_type_enum (tn_type target) = NT_TERMINAL then Inr None
      else case assignee_ref_type_enum (tn_ref_type target) of
        Some WorkflowCreator \<Rightarrow> Inr (Some (wi_created_by inst))
      | Some DomainOwner \<Rightarrow>
          andThen (ok_or (T_AssigneeResolutionFailed ''no enabled DOMAIN_OWNER found for domain'')
                     (domain_owner_binding domain s))
            (\<lambda>b. andThen (verify_principal_enabled_for_transition (rb_principal b) historical_return s)
                   (\<lambda>u. Inr (Some u)))
      | Some FixedPrincipal \<Rightarrow>
          andThen (ok_or (T_AssigneeResolutionFailed ''FIXED_PRINCIPAL node has no principal_id configured'')
                     (tn_fixed_principal target))
            (\<lambda>f. andThen (verify_principal_enabled_for_transition f historical_return s) (\<lambda>u. Inr (Some u)))
      | Some InstanceInputPrincipal \<Rightarrow>
          andThen (input_principal lib target context_payload)
            (\<lambda>c. andThen (verify_principal_enabled_for_transition c historical_return s) (\<lambda>u. Inr (Some u)))
      | None \<Rightarrow> Inl (T_AssigneeResolutionFailed ''non-terminal node has no valid assignee reference''))"

section \<open>The submission\<close>

definition validate_submission_size :: "library \<Rightarrow> json \<Rightarrow> (transition_error, unit) res" where
  "validate_submission_size lib payload =
     (case json_length lib payload of
        Inl e \<Rightarrow> Inl (T_SizeLimitExceeded (''submission serialization failed: '' @ e))
      | Inr n \<Rightarrow> if n > 1048576 then Inl (T_SizeLimitExceeded ''submission payload exceeds 1 MiB'')
                 else Inr ())"

definition validate_submission_schema ::
  "library \<Rightarrow> json option \<Rightarrow> json \<Rightarrow> (transition_error, unit) res" where
  "validate_submission_schema lib schema payload =
     (case schema of
        None \<Rightarrow> Inr ()
      | Some schema_value \<Rightarrow>
          (case schema_validator lib schema_value of
             Inl e \<Rightarrow> Inl (T_SubmissionValidationFailed (''submission schema compilation failed: '' @ e))
           | Inr validator \<Rightarrow>
               (case validator payload of
                  Inl e \<Rightarrow> Inl (T_SubmissionValidationFailed
                             (''submission payload failed schema validation: '' @ e))
                | Inr _ \<Rightarrow> Inr ())))"

definition root_cause_errors :: "library \<Rightarrow> json \<Rightarrow> string list" where
  "root_cause_errors lib payload =
     (case Option.bind (jget payload ''rootCauseNodeVisitId'') as_str of
        Some t \<Rightarrow> push_if (parse_uuid lib t = None) (''rootCauseNodeVisitId is not a valid UUID: '' @ quoted t)
      | None \<Rightarrow> [''rootCauseNodeVisitId is required and must be a valid UUID''])"

definition related_entry_errors :: "library \<Rightarrow> json \<Rightarrow> string list" where
  "related_entry_errors lib entry =
     (case as_str entry of
        Some t \<Rightarrow> push_if (parse_uuid lib t = None)
                    (''relatedSubmissionIds entry is not a valid UUID: '' @ quoted t)
      | None \<Rightarrow> [''relatedSubmissionIds entries must be strings''])"

definition related_errors :: "library \<Rightarrow> json \<Rightarrow> string list" where
  "related_errors lib payload =
     (case jget payload ''relatedSubmissionIds'' of
        None \<Rightarrow> []
      | Some v \<Rightarrow>
          (case as_array v of
             Some vs \<Rightarrow> concat (map (related_entry_errors lib) vs)
           | None \<Rightarrow> [''relatedSubmissionIds must be an array of UUID strings when present'']))"

definition collect_return_contract_errors :: "library \<Rightarrow> json \<Rightarrow> string list" where
  "collect_return_contract_errors lib payload =
     root_cause_errors lib payload @
     push_if (jget payload ''reasonCode'' = None) ''reasonCode is required for RETURN submissions'' @
     push_if (jget payload ''reason'' = None) ''reason is required for RETURN submissions'' @
     related_errors lib payload"

text \<open>\<open>Vec::join("; ")\<close>.\<close>

fun join_semi :: "string list \<Rightarrow> string" where
  "join_semi [] = []"
| "join_semi [p] = p"
| "join_semi (p # ps) = p @ ''; '' @ join_semi ps"

text \<open>
  The references of a RETURN.  \<open>None\<close> is a panic of one of the \<open>expect\<close>s that rely on
  \<open>collect_return_contract_errors\<close>.
\<close>

fun check_related :: "library \<Rightarrow> uuid \<Rightarrow> store \<Rightarrow> json list \<Rightarrow> (transition_error, unit) res option" where
  "check_related lib inst s [] = Some (Inr ())"
| "check_related lib inst s (entry # rest) =
     (case Option.bind (as_str entry) (parse_uuid lib) of
        None \<Rightarrow> None
      | Some sid \<Rightarrow>
          if list_ex (\<lambda>b. sb_id b = sid \<and> sb_instance b = inst) (submissions s)
          then check_related lib inst s rest
          else Some (Inl (T_InvalidReturnReferences (''relatedSubmissionId '' @ show_uuid lib sid @
                 '' does not exist or belongs to a different instance''))))"

definition validate_return_references ::
  "library \<Rightarrow> json \<Rightarrow> uuid \<Rightarrow> store \<Rightarrow> (transition_error, unit) res option" where
  "validate_return_references lib payload inst s =
     (let contract_errors = collect_return_contract_errors lib payload
      in if contract_errors \<noteq> []
         then Some (Inl (T_InvalidReturnReferences
                (''RETURN submissions require: rootCauseNodeVisitId (valid UUID), reasonCode, reason, '' @
                 ''relatedSubmissionIds (optional array of UUIDs); '' @ join_semi contract_errors)))
         else case Option.bind (Option.bind (jget payload ''rootCauseNodeVisitId'') as_str) (parse_uuid lib) of
           None \<Rightarrow> None
         | Some root_cause \<Rightarrow>
             if \<not> list_ex (\<lambda>v. nv_id v = root_cause \<and> nv_instance v = inst) (visits s)
             then Some (Inl (T_InvalidReturnReferences
                    ''rootCauseNodeVisitId does not exist or belongs to a different instance''))
             else case Option.bind (jget payload ''relatedSubmissionIds'') as_array of
               None \<Rightarrow> Some (Inr ())
             | Some related \<Rightarrow> check_related lib inst s related)"

section \<open>The RETURN contract\<close>

definition uuid_text :: "library \<Rightarrow> json \<Rightarrow> uuid option" where
  "uuid_text lib j = Option.bind (as_str j) (parse_uuid lib)"

text \<open>What a RETURN payload must say, and of what it may speak.\<close>

definition return_contract :: "library \<Rightarrow> json \<Rightarrow> bool" where
  "return_contract lib payload \<longleftrightarrow>
     Option.bind (jget payload ''rootCauseNodeVisitId'') (uuid_text lib) \<noteq> None \<and>
     jget payload ''reasonCode'' \<noteq> None \<and> jget payload ''reason'' \<noteq> None \<and>
     (case jget payload ''relatedSubmissionIds'' of
        None \<Rightarrow> True
      | Some v \<Rightarrow> (case as_array v of None \<Rightarrow> False
                   | Some vs \<Rightarrow> list_all (\<lambda>e. uuid_text lib e \<noteq> None) vs))"

definition return_references_exist :: "library \<Rightarrow> json \<Rightarrow> uuid \<Rightarrow> store \<Rightarrow> bool" where
  "return_references_exist lib payload inst s \<longleftrightarrow>
     (\<exists>v\<in>set (visits s). nv_instance v = inst \<and>
        Option.bind (jget payload ''rootCauseNodeVisitId'') (uuid_text lib) = Some (nv_id v)) \<and>
     (case Option.bind (jget payload ''relatedSubmissionIds'') as_array of
        None \<Rightarrow> True
      | Some vs \<Rightarrow> list_all (\<lambda>e. \<exists>b\<in>set (submissions s). sb_instance b = inst \<and>
                                    uuid_text lib e = Some (sb_id b)) vs)"

lemma root_cause_errors_Nil:
  "root_cause_errors lib p = [] \<longleftrightarrow> Option.bind (jget p ''rootCauseNodeVisitId'') (uuid_text lib) \<noteq> None"
  by (cases "jget p ''rootCauseNodeVisitId''")
     (auto simp: root_cause_errors_def uuid_text_def error_simps split: option.splits)

lemma related_entry_errors_Nil: "related_entry_errors lib e = [] \<longleftrightarrow> uuid_text lib e \<noteq> None"
  by (cases "as_str e") (auto simp: related_entry_errors_def uuid_text_def error_simps)

lemma related_errors_Nil:
  "related_errors lib p = [] \<longleftrightarrow>
     (case jget p ''relatedSubmissionIds'' of
        None \<Rightarrow> True
      | Some v \<Rightarrow> (case as_array v of None \<Rightarrow> False
                   | Some vs \<Rightarrow> list_all (\<lambda>e. uuid_text lib e \<noteq> None) vs))"
  by (simp add: related_errors_def related_entry_errors_Nil list_all_iff del: as_array_Some
        split: option.split)

lemma contract_errors_Nil: "collect_return_contract_errors lib p = [] \<longleftrightarrow> return_contract lib p"
  by (simp add: collect_return_contract_errors_def return_contract_def root_cause_errors_Nil
        related_errors_Nil error_simps)

lemma check_related_total:
  "list_all (\<lambda>e. uuid_text lib e \<noteq> None) vs \<Longrightarrow>
     check_related lib inst s vs \<noteq> None \<and>
     (check_related lib inst s vs = Some (Inr ()) \<longleftrightarrow>
        list_all (\<lambda>e. \<exists>b\<in>set (submissions s). sb_instance b = inst \<and> uuid_text lib e = Some (sb_id b)) vs)"
proof (induction vs)
  case (Cons e vs)
  then obtain u where u: "uuid_text lib e = Some u" by auto
  have "list_ex (\<lambda>b. sb_id b = u \<and> sb_instance b = inst) (submissions s) \<longleftrightarrow>
      (\<exists>b\<in>set (submissions s). sb_instance b = inst \<and> uuid_text lib e = Some (sb_id b))"
    by (auto simp: list_ex_iff u)
  with Cons u show ?case by (simp add: uuid_text_def)
qed simp

lemma references_total:
  assumes "return_contract lib p"
  shows "validate_return_references lib p inst s \<noteq> None \<and>
    (validate_return_references lib p inst s = Some (Inr ()) \<longleftrightarrow> return_references_exist lib p inst s)"
proof -
  from assms obtain r where r: "Option.bind (jget p ''rootCauseNodeVisitId'') (uuid_text lib) = Some r"
    by (auto simp: return_contract_def)
  then have r': "Option.bind (Option.bind (jget p ''rootCauseNodeVisitId'') as_str) (parse_uuid lib) = Some r"
    by (simp add: uuid_text_def [abs_def])
  have v: "list_ex (\<lambda>v. nv_id v = r \<and> nv_instance v = inst) (visits s) \<longleftrightarrow>
      (\<exists>v\<in>set (visits s). nv_instance v = inst \<and> r = nv_id v)"
    by (auto simp: list_ex_iff)
  show ?thesis
  proof (cases "Option.bind (jget p ''relatedSubmissionIds'') as_array")
    case None
    then show ?thesis using assms r r'
      by (simp add: validate_return_references_def contract_errors_Nil return_references_exist_def v)
  next
    case (Some vs)
    then have "list_all (\<lambda>e. uuid_text lib e \<noteq> None) vs"
      using assms by (auto simp: return_contract_def bind_eq_Some_conv)
    from check_related_total [OF this, of inst s] show ?thesis using Some assms r r'
      by (simp add: validate_return_references_def contract_errors_Nil return_references_exist_def v)
  qed
qed

end
