(* ===== verification/Graph_Write.thy ===== *)
theory Graph_Write
  imports Transition_Rules
begin

text \<open>
  The writer of a DRAFT graph (\<open>graph_write.rs\<close>): under the lock of a DRAFT version the old rows of
  the version are deleted, the rows of the graph are inserted, and the context schema is patched.
  An insert fails on a primary key or on a unique key of the version (node key, order index,
  transition key); then nothing of the transaction remains.  The canonicalisation of graphs with
  owner obligations, which may rewrite the nodes before they are stored, is not modelled: the nodes
  here are the canonical ones.
\<close>

datatype definition_error =
    DE_DefinitionVersionNotFound
  | DE_VersionNotDraft
  | DE_StorageError string

definition node_row_of :: "uuid \<Rightarrow> node_definition \<Rightarrow> node_row" where
  "node_row_of v n =
     \<lparr>nr_id = node_id n, nr_version = v, nr_key = node_key n, nr_type = node_type_to_string (node_type n),
      nr_ref_type = map_option (\<lambda>a. assignee_ref_type_to_string (ref_type a)) (assignee_ref n),
      nr_fixed_principal = Option.bind (assignee_ref n) fixed_principal_id,
      nr_input_key = Option.bind (assignee_ref n) assignee_input_key,
      nr_primary = primary_advance_transition_id n, nr_order = order_index n,
      nr_metadata = node_metadata n\<rparr>"

definition transition_row_of :: "uuid \<Rightarrow> transition_definition \<Rightarrow> transition_row" where
  "transition_row_of v t =
     \<lparr>tr_id = transition_id t, tr_key = transition_key t, tr_version = v, tr_source = source_node_id t,
      tr_target = target_node_id t, tr_effect = transition_effect_to_string (transition_effect t),
      tr_schema = submission_schema t\<rparr>"

definition insert_node_row :: "node_row \<Rightarrow> node_row list \<Rightarrow> (definition_error, node_row list) res" where
  "insert_node_row r rs =
     (if nr_id r \<in> nr_id ` set rs \<or>
         (nr_version r, nr_key r) \<in> (\<lambda>x. (nr_version x, nr_key x)) ` set rs \<or>
         (nr_version r, nr_order r) \<in> (\<lambda>x. (nr_version x, nr_order x)) ` set rs
      then Inl (DE_StorageError ''duplicate key value violates unique constraint'')
      else Inr (rs @ [r]))"

definition insert_transition_row ::
  "transition_row \<Rightarrow> transition_row list \<Rightarrow> (definition_error, transition_row list) res" where
  "insert_transition_row r rs =
     (if tr_id r \<in> tr_id ` set rs \<or> (tr_version r, tr_key r) \<in> (\<lambda>x. (tr_version x, tr_key x)) ` set rs
      then Inl (DE_StorageError ''duplicate key value violates unique constraint'')
      else Inr (rs @ [r]))"

fun insert_all :: "('r \<Rightarrow> 'r list \<Rightarrow> ('e, 'r list) res) \<Rightarrow> 'r list \<Rightarrow> 'r list \<Rightarrow> ('e, 'r list) res" where
  "insert_all ins [] rs = Inr rs"
| "insert_all ins (x # xs) rs = andThen (ins x rs) (insert_all ins xs)"

text \<open>\<open>None\<close> keeps the schema, JSON \<open>null\<close> clears the column, any other value replaces it.\<close>

definition patch_context_schema :: "uuid \<Rightarrow> json option \<Rightarrow> version_row list \<Rightarrow> version_row list" where
  "patch_context_schema v schema rs =
     (case schema of
        None \<Rightarrow> rs
      | Some j \<Rightarrow> map (\<lambda>r. if vr_id r = v
                          then r\<lparr>vr_context_schema := (if j = JNull then None else Some j)\<rparr> else r) rs)"

definition replace_draft_graph ::
  "uuid \<Rightarrow> json option \<Rightarrow> node_definition list \<Rightarrow> transition_definition list \<Rightarrow> store \<Rightarrow>
     (definition_error, store) res" where
  "replace_draft_graph v schema ns ts s =
     (case find_version v s of
        None \<Rightarrow> Inl DE_DefinitionVersionNotFound
      | Some r \<Rightarrow>
          if vr_status r \<noteq> ''DRAFT'' then Inl DE_VersionNotDraft
          else andThen (insert_all insert_node_row (map (node_row_of v) ns)
                          (filter (\<lambda>x. nr_version x \<noteq> v) (node_rows s)))
                 (\<lambda>nrs. andThen (insert_all insert_transition_row (map (transition_row_of v) ts)
                                   (filter (\<lambda>x. tr_version x \<noteq> v) (transition_rows s)))
                 (\<lambda>trs. Inr (s\<lparr>node_rows := nrs, transition_rows := trs,
                               versions := patch_context_schema v schema (versions s)\<rparr>))))"

section \<open>What the tables hold\<close>

text \<open>A version's rows are those of a graph, with the primary keys of the tables.\<close>

definition holds_graph :: "uuid \<Rightarrow> workflow_graph \<Rightarrow> store \<Rightarrow> bool" where
  "holds_graph v g s \<longleftrightarrow>
     filter (\<lambda>x. nr_version x = v) (node_rows s) = map (node_row_of v) (nodes g) \<and>
     filter (\<lambda>x. tr_version x = v) (transition_rows s) = map (transition_row_of v) (transitions g) \<and>
     distinct (map nr_id (node_rows s)) \<and> distinct (map tr_id (transition_rows s))"

lemma row_of_simps [simp]:
  "nr_id (node_row_of v n) = node_id n" "nr_version (node_row_of v n) = v"
  "tr_id (transition_row_of v t) = transition_id t" "tr_version (transition_row_of v t) = v"
  by (simp_all add: node_row_of_def transition_row_of_def)

lemma insert_all_appends:
  assumes "\<And>x rs rs'. ins x rs = Inr rs' \<Longrightarrow> rs' = rs @ [x]"
  shows "insert_all ins xs rs = Inr rs' \<Longrightarrow> rs' = rs @ xs"
proof (induction xs arbitrary: rs)
  case (Cons x xs)
  then obtain rs1 where "ins x rs = Inr rs1" "insert_all ins xs rs1 = Inr rs'"
    by (auto simp: result_simps)
  with Cons.IH [of rs1] assms [of x rs rs1] show ?case by simp
qed simp

lemma insert_all_distinct:
  assumes "\<And>x rs rs'. ins x rs = Inr rs' \<Longrightarrow> rs' = rs @ [x] \<and> f x \<notin> f ` set rs"
  shows "insert_all ins xs rs = Inr rs' \<Longrightarrow> distinct (map f rs) \<Longrightarrow> distinct (map f rs')"
proof (induction xs arbitrary: rs)
  case (Cons x xs)
  then obtain rs1 where "ins x rs = Inr rs1" "insert_all ins xs rs1 = Inr rs'"
    by (auto simp: result_simps)
  with Cons.IH [of rs1] Cons.prems(2) assms [of x rs rs1] show ?case by auto
qed simp

lemma insert_node_row_Inr:
  "insert_node_row x rs = Inr rs' \<Longrightarrow> rs' = rs @ [x] \<and> nr_id x \<notin> nr_id ` set rs"
  by (simp add: insert_node_row_def split: if_splits)

lemma insert_transition_row_Inr:
  "insert_transition_row x rs = Inr rs' \<Longrightarrow> rs' = rs @ [x] \<and> tr_id x \<notin> tr_id ` set rs"
  by (simp add: insert_transition_row_def split: if_splits)

lemma rows_appended:
  "insert_all insert_node_row ns nrs = Inr nrs' \<Longrightarrow> nrs' = nrs @ ns"
  "insert_all insert_transition_row ts trs = Inr trs' \<Longrightarrow> trs' = trs @ ts"
  by (rule insert_all_appends, drule insert_node_row_Inr, simp_all)
     (rule insert_all_appends, drule insert_transition_row_Inr, simp_all)

lemma node_rows_distinct:
  "insert_all insert_node_row xs rs = Inr rs' \<Longrightarrow> distinct (map nr_id rs) \<Longrightarrow> distinct (map nr_id rs')"
  by (erule (1) insert_all_distinct [rotated]) (rule insert_node_row_Inr)

lemma transition_rows_distinct:
  "insert_all insert_transition_row xs rs = Inr rs' \<Longrightarrow> distinct (map tr_id rs) \<Longrightarrow> distinct (map tr_id rs')"
  by (erule (1) insert_all_distinct [rotated]) (rule insert_transition_row_Inr)

lemma filter_none: "\<forall>x\<in>set xs. \<not> P x \<Longrightarrow> filter P xs = []"
  by (simp add: filter_empty_conv)

lemma replace_draft_graph_holds:
  assumes "replace_draft_graph v schema ns ts s = Inr s'"
    and "distinct (map nr_id (node_rows s))" and "distinct (map tr_id (transition_rows s))"
  shows "holds_graph v \<lparr>nodes = ns, transitions = ts, context_schema = c\<rparr> s'"
proof -
  let ?nr = "filter (\<lambda>x. nr_version x \<noteq> v) (node_rows s)"
  let ?tr = "filter (\<lambda>x. tr_version x \<noteq> v) (transition_rows s)"
  obtain nrs trs where n: "insert_all insert_node_row (map (node_row_of v) ns) ?nr = Inr nrs"
    and t: "insert_all insert_transition_row (map (transition_row_of v) ts) ?tr = Inr trs"
    and s': "node_rows s' = nrs" "transition_rows s' = trs"
    using assms(1) by (auto simp: replace_draft_graph_def result_simps split: option.splits if_splits)
  have nrs: "nrs = ?nr @ map (node_row_of v) ns" and trs: "trs = ?tr @ map (transition_row_of v) ts"
    using rows_appended(1) [OF n] rows_appended(2) [OF t] by simp_all
  have "filter (\<lambda>x. nr_version x = v) nrs = map (node_row_of v) ns"
    by (simp add: nrs filter_none filter_map o_def)
  moreover have "filter (\<lambda>x. tr_version x = v) trs = map (transition_row_of v) ts"
    by (simp add: trs filter_none filter_map o_def)
  moreover have "distinct (map nr_id nrs)"
    by (rule node_rows_distinct [OF n distinct_map_filter [OF assms(2)]])
  moreover have "distinct (map tr_id trs)"
    by (rule transition_rows_distinct [OF t distinct_map_filter [OF assms(3)]])
  ultimately show ?thesis by (simp add: holds_graph_def s')
qed

lemma replace_draft_graph_frame:
  assumes "replace_draft_graph v schema ns ts s = Inr s'"
  shows "filter (\<lambda>x. nr_version x \<noteq> v) (node_rows s') = filter (\<lambda>x. nr_version x \<noteq> v) (node_rows s)"
    and "filter (\<lambda>x. tr_version x \<noteq> v) (transition_rows s') = filter (\<lambda>x. tr_version x \<noteq> v) (transition_rows s)"
proof -
  obtain nrs trs where n: "insert_all insert_node_row (map (node_row_of v) ns)
        (filter (\<lambda>x. nr_version x \<noteq> v) (node_rows s)) = Inr nrs"
    and t: "insert_all insert_transition_row (map (transition_row_of v) ts)
        (filter (\<lambda>x. tr_version x \<noteq> v) (transition_rows s)) = Inr trs"
    and s': "node_rows s' = nrs" "transition_rows s' = trs"
    using assms by (auto simp: replace_draft_graph_def result_simps split: option.splits if_splits)
  show "filter (\<lambda>x. nr_version x \<noteq> v) (node_rows s') = filter (\<lambda>x. nr_version x \<noteq> v) (node_rows s)"
    unfolding s' rows_appended(1) [OF n] by (simp add: filter_map o_def)
  show "filter (\<lambda>x. tr_version x \<noteq> v) (transition_rows s') = filter (\<lambda>x. tr_version x \<noteq> v) (transition_rows s)"
    unfolding s' rows_appended(2) [OF t] by (simp add: filter_map o_def)
qed

lemma find_unique:
  "x \<in> set xs \<Longrightarrow> P x \<Longrightarrow> (\<And>y. y \<in> set xs \<Longrightarrow> P y \<Longrightarrow> y = x) \<Longrightarrow> find P xs = Some x"
proof (induction xs)
  case (Cons a xs)
  show ?case
  proof (cases "P a")
    case True
    then have "a = x" by (intro Cons.prems(3)) simp_all
    with True show ?thesis by simp
  next
    case False
    then have "x \<in> set xs" using Cons.prems(1,2) by auto
    then have "find P xs = Some x" using Cons.prems(2,3) by (intro Cons.IH) simp_all
    with False show ?thesis by simp
  qed
qed simp

lemma holds_graph_node:
  assumes "holds_graph v g s" and "n \<in> set (nodes g)"
  shows "find_node_of (node_id n) v s = Some (node_row_of v n)"
    and "find_node (node_id n) s = Some (node_row_of v n)"
proof -
  have "node_row_of v n \<in> set (filter (\<lambda>x. nr_version x = v) (node_rows s))"
    using assms by (simp add: holds_graph_def)
  then have m: "node_row_of v n \<in> set (node_rows s)" by simp
  have u: "r = node_row_of v n" if "r \<in> set (node_rows s)" "nr_id r = node_id n" for r
    using assms(1) distinct_map_eqD [of nr_id, OF _ that(1) m] that(2) by (simp add: holds_graph_def)
  show "find_node_of (node_id n) v s = Some (node_row_of v n)"
    unfolding find_node_of_def by (rule find_unique [OF m]) (use u in auto)
  show "find_node (node_id n) s = Some (node_row_of v n)"
    unfolding find_node_def by (rule find_unique [OF m]) (use u in auto)
qed

lemma holds_graph_transition:
  assumes "holds_graph v g s" and "t \<in> set (transitions g)"
  shows "read_transition (transition_id t) v s = Inr (transition_row_of v t)"
proof -
  have "transition_row_of v t \<in> set (filter (\<lambda>x. tr_version x = v) (transition_rows s))"
    using assms by (simp add: holds_graph_def)
  then have m: "transition_row_of v t \<in> set (transition_rows s)" by simp
  have "r = transition_row_of v t" if "r \<in> set (transition_rows s)" "tr_id r = transition_id t" for r
    using assms(1) distinct_map_eqD [of tr_id, OF _ that(1) m] that(2) by (simp add: holds_graph_def)
  then have "find (\<lambda>r. tr_id r = transition_id t \<and> tr_version r = v) (transition_rows s) = Some (transition_row_of v t)"
    by (intro find_unique [OF m]) auto
  then show ?thesis by (simp add: read_transition_def)
qed

end
