(* ===== verification/Runtime_Selection.thy ===== *)
theory Runtime_Selection
  imports Graph_Write Visit_Properties
begin

text \<open>
  The runtime's selection rules agree with the validators: on a version whose rows are an accepted
  graph, the transition of a visit passes steps 9 to 11 exactly as the validator's contract says.
\<close>

abbreviation source_row :: "node_definition \<Rightarrow> source_node_row" where
  "source_row n \<equiv> \<lparr>sn_id = node_id n, sn_type = node_type_to_string (node_type n),
     sn_primary = primary_advance_transition_id n, sn_order = order_index n\<rparr>"

abbreviation target_row :: "node_definition \<Rightarrow> target_node_row" where
  "target_row n \<equiv> \<lparr>tn_id = node_id n, tn_type = node_type_to_string (node_type n),
     tn_ref_type = map_option (\<lambda>a. assignee_ref_type_to_string (ref_type a)) (assignee_ref n),
     tn_fixed_principal = Option.bind (assignee_ref n) fixed_principal_id,
     tn_input_key = Option.bind (assignee_ref n) assignee_input_key, tn_order = order_index n\<rparr>"

lemma node_type_enum_text [simp]: "node_type_enum (node_type_to_string t) = t"
  by (simp add: node_type_enum_def node_type_codec.parse_display)

lemma assignee_ref_type_enum_text [simp]:
  "assignee_ref_type_enum (Some (assignee_ref_type_to_string t)) = Some t"
  "assignee_ref_type_enum None = None"
  by (simp_all add: assignee_ref_type_enum_def assignee_ref_type_codec.parse_display)

lemma select_on_graph:
  assumes h: "holds_graph v g s" and t: "t \<in> set (transitions g)"
    and n: "n \<in> set (nodes g)" "cv_node visit = node_id n"
    and m: "m \<in> set (nodes g)" "node_id m = target_node_id t"
  shows "is_ok (select_transition (transition_id t) v visit mini s) \<longleftrightarrow>
     is_ok (validate_source_and_effect (transition_row_of v t) visit (source_row n) mini) \<and>
     is_ok (validate_target (transition_effect_to_string (transition_effect t)) (target_row m) (source_row n) mini)"
proof -
  have "read_source_node (node_id n) v s = Inr (source_row n)"
    using holds_graph_node(1) [OF h n(1)] by (simp add: read_source_node_def node_row_of_def)
  moreover have "read_target_node (target_node_id t) v s = Inr (target_row m)"
    using holds_graph_node(1) [OF h m(1)] m(2) by (simp add: read_target_node_def node_row_of_def)
  moreover have "tr_target (transition_row_of v t) = target_node_id t"
    "tr_effect (transition_row_of v t) = transition_effect_to_string (transition_effect t)"
    by (simp_all add: transition_row_of_def)
  moreover note holds_graph_transition [OF h t]
  ultimately show ?thesis using n(2)
    by (auto simp: select_transition_def is_ok_iff result_simps)
qed

text \<open>The checks on rows of a graph, in the terms of the graph.\<close>

lemma validate_source_rows:
  assumes "source_node_id t = node_id n" "cv_node visit = node_id n"
  shows "is_ok (validate_source_and_effect (transition_row_of v t) visit (source_row n) mini) \<longleftrightarrow>
    (case transition_effect t of
       Advance \<Rightarrow> mini \<or> primary_advance_transition_id n = Some (transition_id t)
     | Return \<Rightarrow> mini \<or> primary_advance_transition_id n \<noteq> Some (transition_id t)
     | Terminate \<Rightarrow> \<not> mini \<and> primary_advance_transition_id n \<noteq> Some (transition_id t))"
  using assms
  by (cases "transition_effect t")
     (auto simp: validate_source_and_effect_def transition_row_of_def split: option.splits)

lemma validate_target_rows:
  "is_ok (validate_target (transition_effect_to_string e) (target_row m) (source_row n) mini) \<longleftrightarrow>
    (case e of
       Advance \<Rightarrow> True
     | Return \<Rightarrow> node_type m \<noteq> NT_TERMINAL \<and> (mini \<or> order_index m < order_index n)
     | Terminate \<Rightarrow> node_type m = NT_TERMINAL)"
  by (cases e) (auto simp: validate_target_def)

lemma same_id_node:
  fixes a b :: node_definition
  shows "distinct_ids g \<Longrightarrow> a \<in> set (nodes g) \<Longrightarrow> b \<in> set (nodes g) \<Longrightarrow> node_id a = node_id b \<Longrightarrow> a = b"
  using distinct_map_eqD [of node_id "nodes g" a b] by (simp add: distinct_ids_def)

lemma same_id_transition:
  fixes a b :: transition_definition
  shows "distinct_ids g \<Longrightarrow> a \<in> set (transitions g) \<Longrightarrow> b \<in> set (transitions g) \<Longrightarrow>
     transition_id a = transition_id b \<Longrightarrow> a = b"
  using distinct_map_eqD [of transition_id "transitions g" a b] by (simp add: distinct_ids_def)

lemma legacy_selection:
  assumes ids: "distinct_ids g" and ok: "legacy_ok g" and h: "holds_graph v g s"
    and t: "t \<in> set (transitions g)" and n: "n \<in> set (nodes g)" "source_node_id t = node_id n"
    and cv: "cv_node visit = node_id n"
  shows "is_ok (select_transition (transition_id t) v visit False s) \<longleftrightarrow>
    (transition_effect t = Advance \<longrightarrow> primary_advance_transition_id n = Some (transition_id t))"
proof -
  have "joins_nodes g t" using legacy_okD(4) [OF ok] t by blast
  then obtain m where m: "m \<in> set (nodes g)" "node_id m = target_node_id t"
    by (auto simp: joins_nodes_def)
  have nt: "\<not> is_terminal n"
    using ok t n by (auto simp: legacy_ok_def)
  obtain p q where p: "primary_of g n p q" using legacy_okD(6) [OF ok n(1) nt] by blast
  have prim: "primary_advance_transition_id n = Some (transition_id t) \<Longrightarrow> transition_effect t = Advance"
  proof -
    assume a: "primary_advance_transition_id n = Some (transition_id t)"
    have "p \<in> set (transitions g)" "transition_id p = transition_id t" "transition_effect p = Advance"
      using p a by (simp_all add: primary_of_def)
    then show ?thesis using same_id_transition [OF ids _ t] by metis
  qed
  have earlier: "transition_effect t = Return \<Longrightarrow> node_type m \<noteq> NT_TERMINAL \<and> order_index m < order_index n"
  proof -
    assume "transition_effect t = Return"
    then have "goes_back g t" using ok t by (auto simp: legacy_ok_def)
    then obtain a b where "a \<in> set (nodes g)" "b \<in> set (nodes g)" "node_id a = source_node_id t"
      "node_id b = target_node_id t" "\<not> is_terminal b" "order_index b < order_index a"
      by (auto simp: goes_back_def)
    moreover from this have "a = n" "b = m"
      using n m by (auto intro!: same_id_node [OF ids])
    ultimately show ?thesis by (simp add: is_terminal_def)
  qed
  have term_t: "transition_effect t = Terminate \<Longrightarrow> node_type m = NT_TERMINAL"
  proof -
    assume "transition_effect t = Terminate"
    then obtain b where "b \<in> set (nodes g)" "node_id b = target_node_id t" "is_terminal b"
      using ok t by (auto simp: legacy_ok_def)
    moreover from this have "b = m" using m by (auto intro!: same_id_node [OF ids])
    ultimately show ?thesis by (simp add: is_terminal_def)
  qed
  show ?thesis
    unfolding select_on_graph [OF h t n(1) cv m] validate_source_rows [OF n(2) cv] validate_target_rows
    using prim earlier term_t by (cases "transition_effect t") auto
qed

lemma visit_selection:
  assumes ids: "distinct_ids g" and ok: "visit_ok g" and h: "holds_graph v g s"
    and t: "t \<in> set (transitions g)" and n: "n \<in> set (nodes g)" "source_node_id t = node_id n"
    and cv: "cv_node visit = node_id n"
  shows "is_ok (select_transition (transition_id t) v visit False s) \<longleftrightarrow>
    (transition_effect t = Advance \<longrightarrow> primary_advance_transition_id n = Some (transition_id t))"
proof -
  have "joins_nodes g t" using ok t by (auto simp: visit_ok_def)
  then obtain m where m: "m \<in> set (nodes g)" "node_id m = target_node_id t"
    by (auto simp: joins_nodes_def)
  have "v1_node_ok g n" using ok n(1) by (simp add: visit_ok_def)
  then obtain p where p: "p \<in> set (transitions g)" "primary_advance_transition_id n = Some (transition_id p)"
      "transition_effect p = Advance"
    using t n(2) by (auto simp: v1_node_ok_def)
  have prim: "primary_advance_transition_id n = Some (transition_id t) \<Longrightarrow> transition_effect t = Advance"
  proof -
    assume a: "primary_advance_transition_id n = Some (transition_id t)"
    then have "transition_id p = transition_id t" using p(2) by simp
    then show ?thesis using same_id_transition [OF ids p(1) t] p(3) by simp
  qed
  have earlier: "transition_effect t = Return \<Longrightarrow> node_type m \<noteq> NT_TERMINAL \<and> order_index m < order_index n"
  proof -
    assume "transition_effect t = Return"
    then obtain a b where "a \<in> set (nodes g)" "b \<in> set (nodes g)" "node_id a = source_node_id t"
      "node_id b = target_node_id t" "node_type b = NT_TASK" "order_index b < order_index a"
      using ok t unfolding visit_ok_def by blast
    moreover from this have "a = n" "b = m"
      using n m by (auto intro!: same_id_node [OF ids])
    ultimately show ?thesis by simp
  qed
  have term_t: "transition_effect t = Terminate \<Longrightarrow> node_type m = NT_TERMINAL"
  proof -
    assume "transition_effect t = Terminate"
    then obtain b where "b \<in> set (nodes g)" "node_id b = target_node_id t" "node_type b = NT_TERMINAL"
      using ok t unfolding visit_ok_def by blast
    moreover from this have "b = m" using m by (auto intro!: same_id_node [OF ids])
    ultimately show ?thesis by simp
  qed
  show ?thesis
    unfolding select_on_graph [OF h t n(1) cv m] validate_source_rows [OF n(2) cv] validate_target_rows
    using prim earlier term_t by (cases "transition_effect t") auto
qed

lemma minimal_selection:
  assumes ids: "distinct_ids g" and ok: "minimal_ok g" and h: "holds_graph v g s"
    and t: "t \<in> set (transitions g)" and cv: "cv_node visit = source_node_id t"
  shows "is_ok (select_transition (transition_id t) v visit True s)"
proof -
  have tt: "transition_effect t \<noteq> Terminate" "source_node_id t \<in> node_id ` set (nodes g)"
      "target_node_id t \<in> node_id ` set (nodes g)"
    using ok t by (simp_all add: minimal_ok_def)
  then obtain n m where n: "n \<in> set (nodes g)" "source_node_id t = node_id n"
      and m: "m \<in> set (nodes g)" "node_id m = target_node_id t"
    by (metis imageE)
  have cv': "cv_node visit = node_id n" using cv n by simp
  have earlier: "node_type m \<noteq> NT_TERMINAL" if "transition_effect t = Return"
  proof
    assume "node_type m = NT_TERMINAL"
    moreover have "minimal_node_ok g m" using ok m(1) by (simp add: minimal_ok_def)
    ultimately have none: "\<forall>t\<in>set (transitions g). source_node_id t \<noteq> node_id m"
      by (simp add: minimal_node_ok_def)
    have "(target_node_id t, source_node_id t) \<in> (advance_rel g)\<^sup>+"
      using ok t that by (simp add: minimal_ok_def)
    then obtain z where "(node_id m, z) \<in> advance_rel g"
      unfolding m(2) [symmetric] by (meson tranclD)
    then show False using none by (auto simp: advance_rel_def advance_edges_def set_edges_with)
  qed
  show ?thesis
    unfolding select_on_graph [OF h t n(1) cv' m] validate_source_rows [OF n(2) cv'] validate_target_rows
    using earlier tt(1) by (cases "transition_effect t") auto
qed

end
