(* ===== verification/Runtime_Properties.thy ===== *)
theory Runtime_Properties
  imports Runtime_Selection
begin

text \<open>
  Properties of the checks of a transition: agreement with the three validators, the RETURN contract,
  and the resolution of the target's assignee.
\<close>

section \<open>Concrete stores\<close>

definition published_store :: "uuid \<Rightarrow> int \<Rightarrow> workflow_graph \<Rightarrow> store" where
  "published_store v model g = empty_store
     \<lparr>versions := [\<lparr>vr_id = v, vr_status = ''PUBLISHED'', vr_semantic = model, vr_context_schema = context_schema g\<rparr>],
      node_rows := map (node_row_of v) (nodes g),
      transition_rows := map (transition_row_of v) (transitions g)\<rparr>"

lemma published_store_holds: "distinct_ids g \<Longrightarrow> holds_graph v g (published_store v model g)"
  by (simp add: holds_graph_def published_store_def distinct_ids_def o_def filter_id_conv)

text \<open>A printer and a parser of UUIDs for the examples: the number in unary.\<close>

definition unary_library :: library where
  "unary_library =
     \<lparr>show_uuid = (\<lambda>u. replicate (unat u) CHR ''i''), parse_uuid = (\<lambda>t. Some (of_nat (length t))),
      json_digest = (\<lambda>j. Inr ''digest''), json_length = (\<lambda>j. Inr 100),
      schema_validator = (\<lambda>j. Inr (\<lambda>p. Inr ()))\<rparr>"

lemma unary_library_simps [simp]:
  "parse_uuid unary_library (show_uuid unary_library u) = Some u"
  "json_digest unary_library j = Inr ''digest''"
  by (simp_all add: unary_library_def)

definition visit_at :: "uuid \<Rightarrow> current_visit_row" where
  "visit_at n = \<lparr>cv_visit = 50, cv_node = n, cv_assignee = None, cv_type = ''NORMAL'', cv_primary = None, cv_order = 0\<rparr>"

section \<open>Selection agrees with the validators\<close>

text \<open>
  C38. On a version that holds a graph the Legacy validator accepted, a transition out of the current
  node passes the runtime's source, effect and target checks exactly when it is not an ADVANCE or is
  the primary ADVANCE of the node: no published RETURN or TERMINATE is ever refused by them, and an
  ADVANCE other than the primary always is.
\<close>
theorem legacy_runtime_agrees:
  assumes "distinct_ids g" and "is_iteration it" and "validate_graph it g = Some r" and "valid r"
    and "holds_graph v g s" and "t \<in> set (transitions g)" and "n \<in> set (nodes g)"
    and "source_node_id t = node_id n" and "cv_node visit = node_id n"
  shows "is_ok (select_transition (transition_id t) v visit False s) \<longleftrightarrow>
    (transition_effect t = Advance \<longrightarrow> primary_advance_transition_id n = Some (transition_id t))"
  by (rule legacy_selection [OF assms(1) legacy_valid_imp_ok [OF assms(1-4)] assms(5-9)])

theorem legacy_runtime_agrees_witness:
  "is_ok (select_transition 14 7 (visit_at 3) False (published_store 7 1 review_graph))"
proof -
  have t: "plain_transition 14 ''rework'' 3 2 Return \<in> set (transitions review_graph)"
    and n: "plain_node 3 ''review'' 2 NT_NORMAL creator (Some 13) \<in> set (nodes review_graph)"
    by (simp_all add: review_graph_def)
  show ?thesis
    using legacy_runtime_agrees [OF distinct_ids_examples(1) is_iteration_remdups review_graph_accepted _
        published_store_holds [OF distinct_ids_examples(1)] t n, of "visit_at 3" 7 1]
    by (simp add: plain_transition_def plain_node_def visit_at_def)
qed

text \<open>
  On a version that holds a graph the Minimal validator accepted, every transition out of the
  current node passes the runtime's source, effect and target checks.
\<close>
theorem minimal_runtime_agrees:
  assumes "distinct_ids g" and "is_iteration it" and "validate_minimal_graph it g = Some r" and "valid r"
    and "holds_graph v g s" and "t \<in> set (transitions g)" and "cv_node visit = source_node_id t"
  shows "is_ok (select_transition (transition_id t) v visit True s)"
proof -
  have "minimal_ok g" using minimal_valid_iff [OF assms(2)] assms(3,4) by blast
  then show ?thesis by (rule minimal_selection [OF assms(1) _ assms(5-7)])
qed

lemma branch_graph_ids: "distinct_ids branch_graph"
  by (simp add: distinct_ids_def branch_graph_def plain_node_def plain_transition_def)

theorem minimal_runtime_agrees_witness:
  "is_ok (select_transition 12 7 (visit_at 1) True (published_store 7 2 branch_graph))"
proof -
  have t: "plain_transition 12 ''reject'' 1 3 Advance \<in> set (transitions branch_graph)"
    by (simp add: branch_graph_def)
  show ?thesis
    using minimal_runtime_agrees [OF branch_graph_ids is_iteration_remdups branch_graph_accepted _
        published_store_holds [OF branch_graph_ids] t, of "visit_at 1" 7 2]
    by (simp add: plain_transition_def visit_at_def)
qed

text \<open>
  C39. On a version that holds a graph the VISIT_ACTIVATION_V1 validator accepted, the runtime's checks
  refuse exactly the ADVANCE transitions that are not the primary of the current node, although the
  runtime applies the Legacy rules to this model.
\<close>
theorem visit_runtime_agrees:
  assumes "distinct_ids g" and "is_iteration it" and "valid (validate_visit_activation_graph it g)"
    and "holds_graph v g s" and "t \<in> set (transitions g)" and "n \<in> set (nodes g)"
    and "source_node_id t = node_id n" and "cv_node visit = node_id n"
  shows "is_ok (select_transition (transition_id t) v visit False s) \<longleftrightarrow>
    (transition_effect t = Advance \<longrightarrow> primary_advance_transition_id n = Some (transition_id t))"
  by (rule visit_selection [OF assms(1) iffD1 [OF visit_valid_iff [OF assms(1,2)] assms(3)] assms(4-8)])

theorem visit_runtime_agrees_witness:
  "is_ok (select_transition 13 7 (visit_at 2) False (published_store 7 3 visit_graph))"
proof -
  have t: "plain_transition 13 ''failed'' 2 1 Return \<in> set (transitions visit_graph)"
    and n: "plain_node 2 ''check'' 1 NT_TASK creator (Some 12) \<in> set (nodes visit_graph)"
    by (simp_all add: visit_graph_def)
  show ?thesis
    using visit_runtime_agrees [OF visit_graph_facts(1) is_iteration_remdups visit_graph_accepted
        published_store_holds [OF visit_graph_facts(1)] t n, of "visit_at 2" 7 3]
    by (simp add: plain_transition_def plain_node_def visit_at_def)
qed

section \<open>Writing a graph\<close>

text \<open>
  Replacing the graph of a DRAFT version is atomic and exact: when it succeeds the rows of the
  version are those of the new graph, every other version keeps its rows, and the primary keys of both
  tables stay unique.
\<close>
theorem draft_graph_written:
  assumes "replace_draft_graph v schema ns ts s = Inr s'"
    and "distinct (map nr_id (node_rows s))" and "distinct (map tr_id (transition_rows s))"
  shows "holds_graph v \<lparr>nodes = ns, transitions = ts, context_schema = c\<rparr> s' \<and>
    filter (\<lambda>x. nr_version x \<noteq> v) (node_rows s') = filter (\<lambda>x. nr_version x \<noteq> v) (node_rows s) \<and>
    filter (\<lambda>x. tr_version x \<noteq> v) (transition_rows s') = filter (\<lambda>x. tr_version x \<noteq> v) (transition_rows s)"
  using replace_draft_graph_holds [OF assms] replace_draft_graph_frame [OF assms(1)] by simp

definition draft_store :: store where
  "draft_store = empty_store
     \<lparr>versions := [\<lparr>vr_id = 7, vr_status = ''DRAFT'', vr_semantic = 1, vr_context_schema = None\<rparr>]\<rparr>"

theorem draft_graph_written_witness:
  "\<exists>s. replace_draft_graph 7 None (nodes review_graph) (transitions review_graph) draft_store = Inr s \<and>
       holds_graph 7 \<lparr>nodes = nodes review_graph, transitions = transitions review_graph, context_schema = None\<rparr> s"
proof -
  have "is_ok (replace_draft_graph 7 None (nodes review_graph) (transitions review_graph) draft_store)"
    by code_simp
  then obtain s where "replace_draft_graph 7 None (nodes review_graph) (transitions review_graph) draft_store = Inr s"
    by (auto simp: is_ok_iff)
  with draft_graph_written [OF this, of None] show ?thesis
    by (simp add: draft_store_def empty_store_def)
qed

section \<open>The RETURN contract\<close>

text \<open>
  The references of a RETURN submission are checked completely: the check never panics, it succeeds
  exactly when the payload satisfies the RETURN contract and every visit and submission it names
  belongs to the instance, and a payload that breaks the contract is refused with all its errors.
\<close>
theorem return_references_exact:
  "validate_return_references lib p inst s \<noteq> None \<and>
   (validate_return_references lib p inst s = Some (Inr ()) \<longleftrightarrow>
      return_contract lib p \<and> return_references_exist lib p inst s)"
proof (cases "return_contract lib p")
  case True
  then show ?thesis using references_total [OF True, of inst s] by simp
next
  case False
  then show ?thesis by (simp add: validate_return_references_def contract_errors_Nil)
qed

text \<open>
  The number of contract errors of one payload is not bounded by the number of contract fields:
  every bad entry of \<open>relatedSubmissionIds\<close> adds its own.
\<close>
theorem return_contract_errors_unbounded:
  "length (collect_return_contract_errors lib
     (JObject [(''relatedSubmissionIds'', JArray (replicate n JNull))])) = n + 3"
proof -
  have "concat (map (related_entry_errors lib) (replicate n JNull)) =
      replicate n ''relatedSubmissionIds entries must be strings''"
    by (induction n) (simp_all add: related_entry_errors_def)
  then show ?thesis
    by (simp add: collect_return_contract_errors_def root_cause_errors_def related_errors_def)
qed

section \<open>Assignees\<close>

text \<open>
  A transition other than a RETURN assigns its target to the creator of the instance or to an
  existing enabled principal, and leaves a TERMINAL target unassigned.
\<close>
theorem resolved_assignee_enabled:
  assumes "resolve_assignee lib target inst d ctx False s = Inr a"
  shows "(node_type_enum (tn_type target) = NT_TERMINAL \<longleftrightarrow> a = None) \<and>
    (a = None \<or> a = Some (wi_created_by inst) \<or> (\<exists>r\<in>set (principals s). a = Some (pr_id r) \<and> pr_enabled r))"
proof -
  have v: "verify_principal_enabled_for_transition c False s = Inr u \<Longrightarrow>
      \<exists>r\<in>set (principals s). u = pr_id r \<and> pr_enabled r" for c u
    by (auto simp: verify_principal_enabled_for_transition_def find_principal_def find_Some_iff
        split: option.splits if_splits)
  show ?thesis
  proof (cases "node_type_enum (tn_type target) = NT_TERMINAL")
    case True
    then show ?thesis using assms by (simp add: resolve_assignee_def)
  next
    case False
    then obtain u where "a = Some u" "u = wi_created_by inst \<or> (\<exists>c. verify_principal_enabled_for_transition c False s = Inr u)"
      using assms
      by (auto simp: resolve_assignee_def result_simps split: option.splits assignee_ref_type.splits)
    then show ?thesis using False v by auto
  qed
qed

definition owner_store :: store where
  "owner_store = empty_store
     \<lparr>principals := [\<lparr>pr_id = 5, pr_type = ''HUMAN'', pr_enabled = True\<rparr>],
      role_bindings := [\<lparr>rb_domain = 9, rb_principal = 5, rb_role = ''DOMAIN_OWNER'', rb_enabled = True\<rparr>]\<rparr>"

definition owner_target :: target_node_row where
  "owner_target = \<lparr>tn_id = 2, tn_type = ''NORMAL'', tn_ref_type = Some ''DOMAIN_OWNER'',
     tn_fixed_principal = None, tn_input_key = None, tn_order = 1\<rparr>"

definition some_instance :: instance_row where
  "some_instance = \<lparr>wi_id = 40, wi_domain = 9, wi_created_by = 1, wi_version = 7, wi_context = 60, wi_current_visit = Some 50,
     wi_state_version = 1, wi_cancelled = False, wi_cancellation = None,
      wi_archival = None, wi_class = Business\<rparr>"

theorem resolved_assignee_enabled_witness:
  "\<exists>r\<in>set (principals owner_store). pr_id r = 5 \<and> pr_enabled r"
proof -
  have "resolve_assignee unary_library owner_target some_instance 9 None False owner_store = Inr (Some 5)"
    by code_simp
  from resolved_assignee_enabled [OF this] show ?thesis by (auto simp: some_instance_def)
qed

end
