(* ===== verification/Transition_Receipts.thy ===== *)
theory Transition_Receipts
  imports Runtime_Properties
begin

text \<open>
  Idempotency of the transition command: the receipt functions of \<open>transition_receipt.rs\<close> and the
  replay of \<open>transition_helpers.rs\<close>.  The locale \<open>receipt_log\<close> states what a command needs of its
  receipts (a key is claimed once, a completed receipt never changes), and is interpreted on the
  receipt table of the store.
\<close>

section \<open>The interface\<close>

text \<open>
  \<open>claim\<close> fails when the key is taken; \<open>entry\<close> gives the command and request hash of a key with the
  response once there is one; \<open>finish\<close> stores the response of a command.
\<close>

locale receipt_log =
  fixes claim :: "'c \<Rightarrow> 'k \<Rightarrow> 'h \<Rightarrow> 's \<Rightarrow> 's option"
    and entry :: "'k \<Rightarrow> 's \<Rightarrow> ('c \<times> 'h \<times> 'r option) option"
    and finish :: "'c \<Rightarrow> 'r \<Rightarrow> 's \<Rightarrow> 's"
    and wf :: "'s \<Rightarrow> bool"
  assumes claim_taken: "entry k s = Some e \<Longrightarrow> claim c k h s = None"
    and entry_claim: "claim c k h s = Some s' \<Longrightarrow> entry k' s' = (if k' = k then Some (c, h, None) else entry k' s)"
    and entry_finish: "wf s \<Longrightarrow> entry k (finish c r s) =
      (case entry k s of
         Some (c', h, None) \<Rightarrow> Some (c', h, if c' = c then Some r else None)
       | x \<Rightarrow> x)"
    and wf_claim: "wf s \<Longrightarrow> claim c k h s = Some s' \<Longrightarrow> wf s'"
    and wf_finish: "wf s \<Longrightarrow> wf (finish c r s)"
    and one_key: "wf s \<Longrightarrow> entry k s = Some (c, x) \<Longrightarrow> entry k' s = Some (c, y) \<Longrightarrow> k' = k"
begin

lemma response_kept: "wf s \<Longrightarrow> entry k s = Some (c, h, Some r) \<Longrightarrow> entry k (finish c' r' s) = Some (c, h, Some r)"
  by (simp add: entry_finish)

lemma claimed_once: "claim c k h s = Some s' \<Longrightarrow> claim c' k h' s' = None"
  by (rule claim_taken) (simp add: entry_claim)

lemma answered: "wf s \<Longrightarrow> claim c k h s = Some s' \<Longrightarrow> entry k (finish c r s') = Some (c, h, Some r)"
  by (simp add: entry_finish wf_claim entry_claim)

lemma finish_other:
  "wf s \<Longrightarrow> entry k s = Some (c, x) \<Longrightarrow> k' \<noteq> k \<Longrightarrow> entry k' (finish c r s) = entry k' s"
  using one_key [of s k c x k'] by (auto simp: entry_finish split: option.splits prod.splits)

end

section \<open>Receipts of the transition command\<close>

definition find_receipt :: "uuid \<Rightarrow> string \<Rightarrow> store \<Rightarrow> command_receipt option" where
  "find_receipt p key s = find (\<lambda>r. rc_principal r = p \<and> rc_key r = key) (receipts s)"

text \<open>\<open>INSERT .. ON CONFLICT (principal_id, idempotency_key) DO NOTHING RETURNING command_id\<close>.\<close>

definition try_insert_receipt ::
  "string \<Rightarrow> uuid \<Rightarrow> uuid \<Rightarrow> string \<Rightarrow> string \<Rightarrow> store \<Rightarrow> (transition_error, uuid option \<times> store) res" where
  "try_insert_receipt command_type cid p key hash s =
     (if find_receipt p key s \<noteq> None then Inr (None, s)
      else if cid \<in> rc_command ` set (receipts s) then Inl (unique_violation ''receipt insert failed'')
      else Inr (Some cid, s\<lparr>receipts := receipts s @
        [\<lparr>rc_command = cid, rc_principal = p, rc_key = key, rc_type = command_type, rc_hash = hash,
          rc_status = receipt_status_to_string Processing, rc_response_status = None,
          rc_response_body = None, rc_response_digest = None\<rparr>]\<rparr>))"

definition try_insert_transition_receipt ::
  "uuid \<Rightarrow> uuid \<Rightarrow> string \<Rightarrow> string \<Rightarrow> store \<Rightarrow> (transition_error, uuid option \<times> store) res" where
  "try_insert_transition_receipt = try_insert_receipt ''EXECUTE_WORKFLOW_TRANSITION''"

datatype replay_result =
    CompletedMatch uuid int json
  | CompletedConflict uuid string
  | StillProcessing

definition replay_transition_receipt ::
  "uuid \<Rightarrow> string \<Rightarrow> string \<Rightarrow> store \<Rightarrow> (transition_error, replay_result) res" where
  "replay_transition_receipt p key new_hash s =
     (case find_receipt p key s of
        None \<Rightarrow> Inl (T_StorageError ''idempotency key vanished between INSERT and SELECT'')
      | Some r \<Rightarrow>
          if rc_status r = ''COMPLETED'' then
            (if rc_hash r = new_hash
             then Inr (CompletedMatch (rc_command r)
                    (case rc_response_status r of None \<Rightarrow> 0 | Some i \<Rightarrow> i)
                    (case rc_response_body r of None \<Rightarrow> JNull | Some b \<Rightarrow> b))
             else Inr (CompletedConflict (rc_command r) (rc_hash r)))
          else if rc_status r = ''PROCESSING'' then Inr StillProcessing
          else Inl (T_StorageError (''unknown receipt status: '' @ rc_status r)))"

definition write_transition_attempt_audit ::
  "uuid \<Rightarrow> uuid \<Rightarrow> uuid \<Rightarrow> string \<Rightarrow> string \<Rightarrow> string option \<Rightarrow> string \<Rightarrow> json option \<Rightarrow> store \<Rightarrow>
     (transition_error, store) res" where
  "write_transition_attempt_audit aid cid p key attempt_type reason hash details s =
     (if aid \<in> au_id ` set (audits s) then Inl (unique_violation ''audit insert failed'')
      else Inr (s\<lparr>audits := audits s @
        [\<lparr>au_id = aid, au_command = cid, au_principal = p, au_key = key, au_type = attempt_type,
          au_reason = reason, au_hash = hash, au_details = details\<rparr>]\<rparr>))"

text \<open>The completion updates only a PROCESSING receipt, and does not check that there was one.\<close>

definition complete_transition_receipt ::
  "uuid \<Rightarrow> int \<Rightarrow> json \<Rightarrow> string \<Rightarrow> store \<Rightarrow> store" where
  "complete_transition_receipt cid status body dig s =
     s\<lparr>receipts := map (\<lambda>r. if rc_command r = cid \<and> rc_status r = ''PROCESSING''
         then r\<lparr>rc_status := ''COMPLETED'', rc_response_status := Some status,
                rc_response_body := Some body, rc_response_digest := Some dig\<rparr>
         else r) (receipts s)\<rparr>"

definition persist_deterministic_failure ::
  "library \<Rightarrow> uuid \<Rightarrow> transition_error \<Rightarrow> store \<Rightarrow> (transition_error, store) res" where
  "persist_deterministic_failure lib cid err s =
     (let body = error_response_body err
      in case json_digest lib body of
           Inl e \<Rightarrow> Inl (T_StorageError e)
         | Inr d \<Rightarrow> Inr (complete_transition_receipt cid (transition_error_code err) body d s))"

section \<open>Outcomes\<close>

record transition_result =
  r_instance :: uuid
  r_state_version :: int
  r_context :: uuid
  r_source_visit :: uuid
  r_current_visit :: uuid
  r_submission :: "uuid option"
  r_sequence :: int
  r_case :: "uuid option"

datatype transition_outcome =
    Executed transition_result
  | Replayed transition_result
  | ReplayedFailure int json

text \<open>\<open>x as i32\<close> on an \<open>i64\<close> keeps the low 32 bits.\<close>

definition as_i32 :: "int \<Rightarrow> int" where
  "as_i32 i = sint (word_of_int i :: 32 word)"

definition opt_json :: "('a \<Rightarrow> json) \<Rightarrow> 'a option \<Rightarrow> json" where
  "opt_json f x = (case x of None \<Rightarrow> JNull | Some a \<Rightarrow> f a)"

text \<open>The response body that a committed transition stores in its receipt (step 18).\<close>

definition transition_response_body :: "library \<Rightarrow> transition_result \<Rightarrow> json" where
  "transition_response_body lib r =
     JObject
       [(''currentContextRevisionId'', JString (show_uuid lib (r_context r))),
        (''currentNodeVisitId'', JString (show_uuid lib (r_current_visit r))),
        (''eventSequence'', json_int (r_sequence r)),
        (''returnPolicyEscalation'', opt_json (\<lambda>c. JObject
            [(''assistanceCaseId'', JString (show_uuid lib c)),
             (''reason'', JString ''RETURN_POLICY_EXHAUSTED'')]) (r_case r)),
        (''sourceNodeVisitId'', JString (show_uuid lib (r_source_visit r))),
        (''submissionId'', opt_json (\<lambda>i. JString (show_uuid lib i)) (r_submission r)),
        (''workflowInstanceId'', JString (show_uuid lib (r_instance r))),
        (''workflowStateVersion'', json_int (r_state_version r))]"

definition uuid_member :: "library \<Rightarrow> json \<Rightarrow> string \<Rightarrow> uuid option" where
  "uuid_member lib body k = Option.bind (as_str (jindex body k)) (parse_uuid lib)"

definition required_member :: "library \<Rightarrow> json \<Rightarrow> string \<Rightarrow> (transition_error, uuid) res" where
  "required_member lib body k = ok_or (T_StorageError (''missing '' @ k)) (uuid_member lib body k)"

definition i32_member :: "json \<Rightarrow> string \<Rightarrow> int" where
  "i32_member body k = as_i32 (case as_i64 (jindex body k) of None \<Rightarrow> 1 | Some i \<Rightarrow> i)"

definition parse_replayed_response :: "library \<Rightarrow> json \<Rightarrow> (transition_error, transition_result) res" where
  "parse_replayed_response lib body =
     andThen (required_member lib body ''workflowInstanceId'') (\<lambda>wf_id.
     andThen (required_member lib body ''currentContextRevisionId'') (\<lambda>ctx.
     andThen (required_member lib body ''sourceNodeVisitId'') (\<lambda>sv.
     andThen (required_member lib body ''currentNodeVisitId'') (\<lambda>tv.
       Inr \<lparr>r_instance = wf_id, r_state_version = i32_member body ''workflowStateVersion'', r_context = ctx,
            r_source_visit = sv, r_current_visit = tv,
            r_submission = uuid_member lib body ''submissionId'',
            r_sequence = i32_member body ''eventSequence'',
            r_case = uuid_member lib (jindex body ''returnPolicyEscalation'') ''assistanceCaseId''\<rparr>))))"

text \<open>The outcome comes with the store, because a conflict leaves an audit even though it is an error.\<close>

definition handle_receipt_replay ::
  "library \<Rightarrow> uuid \<Rightarrow> string \<Rightarrow> string \<Rightarrow> uuid \<Rightarrow> store \<Rightarrow> (transition_error, transition_outcome) res \<times> store" where
  "handle_receipt_replay lib p key hash aid s =
     (case replay_transition_receipt p key hash s of
        Inl e \<Rightarrow> (Inl e, s)
      | Inr (CompletedMatch cid status body) \<Rightarrow>
          if status \<noteq> 200 then (Inr (ReplayedFailure status body), s)
          else (andThen (parse_replayed_response lib body) (\<lambda>r. Inr (Replayed r)), s)
      | Inr (CompletedConflict cid orig_hash) \<Rightarrow>
          (case write_transition_attempt_audit aid cid p key ''IDEMPOTENCY_CONFLICT'' (Some ''request hash mismatch'')
                  hash (Some (JObject [(''conflictType'', JString ''IDEMPOTENCY_KEY_MISMATCH''),
                     (''newRequestHash'', JString hash), (''originalRequestHash'', JString orig_hash)])) s of
             Inl e \<Rightarrow> (Inl e, s)
           | Inr s' \<Rightarrow> (Inl (T_IdempotencyConflict cid orig_hash), s'))
      | Inr StillProcessing \<Rightarrow> (Inl T_CommandStillProcessing, s))"

end
