(* ===== verification/Receipt_Properties.thy ===== *)
theory Receipt_Properties
  imports Transition_Receipts
begin

text \<open>
  The receipt table satisfies the interface of \<open>Transition_Receipts\<close>, and the properties that follow:
  a finished command replays its answer for ever, another request under the same key is a conflict, and
  the stored body of a success parses back to the result that was returned.
\<close>

section \<open>The receipt table as a receipt log\<close>

definition receipts_wf :: "store \<Rightarrow> bool" where
  "receipts_wf s \<longleftrightarrow>
     distinct (map rc_command (receipts s)) \<and>
     distinct (map (\<lambda>r. (rc_principal r, rc_key r)) (receipts s)) \<and>
     (\<forall>r\<in>set (receipts s).
        rc_status r = ''PROCESSING'' \<and> rc_response_status r = None \<and> rc_response_body r = None \<and>
          rc_response_digest r = None \<or>
        rc_status r = ''COMPLETED'' \<and> rc_response_status r \<noteq> None \<and> rc_response_body r \<noteq> None \<and>
          rc_response_digest r \<noteq> None)"

definition response_of :: "command_receipt \<Rightarrow> (int \<times> json \<times> string) option" where
  "response_of r =
     (case (rc_response_status r, rc_response_body r, rc_response_digest r) of
        (Some i, Some b, Some d) \<Rightarrow> Some (i, b, d) | _ \<Rightarrow> None)"

definition claim_receipt :: "uuid \<Rightarrow> uuid \<times> string \<Rightarrow> string \<Rightarrow> store \<Rightarrow> store option" where
  "claim_receipt c k h s =
     (case try_insert_transition_receipt c (fst k) (snd k) h s of
        Inr (Some c', s') \<Rightarrow> Some s' | _ \<Rightarrow> None)"

definition receipt_entry ::
  "uuid \<times> string \<Rightarrow> store \<Rightarrow> (uuid \<times> string \<times> (int \<times> json \<times> string) option) option" where
  "receipt_entry k s = map_option (\<lambda>r. (rc_command r, rc_hash r, response_of r)) (find_receipt (fst k) (snd k) s)"

definition finish_receipt :: "uuid \<Rightarrow> int \<times> json \<times> string \<Rightarrow> store \<Rightarrow> store" where
  "finish_receipt c r s = complete_transition_receipt c (fst r) (fst (snd r)) (snd (snd r)) s"

lemma find_map_same: "(\<And>x. P (f x) = P x) \<Longrightarrow> find P (map f xs) = map_option f (find P xs)"
  by (induction xs) auto

lemma find_append: "find P (xs @ ys) = (case find P xs of None \<Rightarrow> find P ys | Some x \<Rightarrow> Some x)"
  by (induction xs) auto

lemma claim_receipt_Some:
  "claim_receipt c k h s = Some s' \<longleftrightarrow>
     find_receipt (fst k) (snd k) s = None \<and> c \<notin> rc_command ` set (receipts s) \<and>
     s' = s\<lparr>receipts := receipts s @
        [\<lparr>rc_command = c, rc_principal = fst k, rc_key = snd k, rc_type = ''EXECUTE_WORKFLOW_TRANSITION'',
          rc_hash = h, rc_status = ''PROCESSING'', rc_response_status = None, rc_response_body = None,
          rc_response_digest = None\<rparr>]\<rparr>"
  by (auto simp: claim_receipt_def try_insert_transition_receipt_def try_insert_receipt_def
      split: option.splits)

lemma receipts_wf_member:
  "receipts_wf s \<Longrightarrow> find_receipt p k s = Some r \<Longrightarrow>
     r \<in> set (receipts s) \<and> rc_principal r = p \<and> rc_key r = k \<and>
     (rc_status r = ''PROCESSING'' \<longleftrightarrow> response_of r = None)"
  by (auto simp: find_receipt_def find_Some_iff receipts_wf_def response_of_def nth_mem
      dest!: bspec [OF _ nth_mem])

lemma receipt_entry_claim:
  "claim_receipt c k h s = Some s' \<Longrightarrow>
     receipt_entry k' s' = (if k' = k then Some (c, h, None) else receipt_entry k' s)"
  by (cases k; cases k')
     (auto simp: claim_receipt_Some receipt_entry_def find_receipt_def find_append response_of_def
       split: option.splits)

lemma receipt_entry_finish:
  assumes wf: "receipts_wf s"
  shows "receipt_entry k (finish_receipt c r s) =
      (case receipt_entry k s of
         Some (c', h, None) \<Rightarrow> Some (c', h, if c' = c then Some r else None)
       | x \<Rightarrow> x)"
proof -
  let ?f = "\<lambda>x. if rc_command x = c \<and> rc_status x = ''PROCESSING''
         then x\<lparr>rc_status := ''COMPLETED'', rc_response_status := Some (fst r),
                rc_response_body := Some (fst (snd r)), rc_response_digest := Some (snd (snd r))\<rparr>
         else x"
  have "find_receipt (fst k) (snd k) (finish_receipt c r s) = map_option ?f (find_receipt (fst k) (snd k) s)"
    unfolding find_receipt_def finish_receipt_def complete_transition_receipt_def
    by (simp add: find_map_same)
  then show ?thesis
    by (auto simp: receipt_entry_def response_of_def [of "?f _"] dest: receipts_wf_member [OF wf]
        split: option.splits)
       (auto simp: response_of_def)
qed

lemma receipts_wf_claim: "receipts_wf s \<Longrightarrow> claim_receipt c k h s = Some s' \<Longrightarrow> receipts_wf s'"
  by (cases k) (auto simp: claim_receipt_Some receipts_wf_def find_receipt_def find_None_iff)

lemma receipts_wf_finish:
  assumes "receipts_wf s" shows "receipts_wf (finish_receipt c r s)"
proof -
  let ?f = "\<lambda>x. if rc_command x = c \<and> rc_status x = ''PROCESSING''
         then x\<lparr>rc_status := ''COMPLETED'', rc_response_status := Some (fst r),
                rc_response_body := Some (fst (snd r)), rc_response_digest := Some (snd (snd r))\<rparr>
         else x"
  have "receipts (finish_receipt c r s) = map ?f (receipts s)"
    by (simp add: finish_receipt_def complete_transition_receipt_def)
  moreover have "map rc_command (map ?f rs) = map rc_command rs"
    "map (\<lambda>r. (rc_principal r, rc_key r)) (map ?f rs) = map (\<lambda>r. (rc_principal r, rc_key r)) rs"
    for rs :: "command_receipt list"
    by simp_all
  ultimately show ?thesis using assms by (simp add: receipts_wf_def del: map_map) auto
qed

interpretation transition_receipts: receipt_log claim_receipt receipt_entry finish_receipt receipts_wf
proof
  fix k k' :: "uuid \<times> string" and s s' :: store and e c h r x y
  show "receipt_entry k s = Some e \<Longrightarrow> claim_receipt c k h s = None"
    by (cases "claim_receipt c k h s") (auto simp: claim_receipt_Some receipt_entry_def)
  show "claim_receipt c k h s = Some s' \<Longrightarrow>
      receipt_entry k' s' = (if k' = k then Some (c, h, None) else receipt_entry k' s)"
    by (rule receipt_entry_claim)
  show "receipts_wf s \<Longrightarrow> receipt_entry k (finish_receipt c r s) =
      (case receipt_entry k s of
         Some (c', h, None) \<Rightarrow> Some (c', h, if c' = c then Some r else None)
       | x \<Rightarrow> x)"
    by (rule receipt_entry_finish)
  show "receipts_wf s \<Longrightarrow> claim_receipt c k h s = Some s' \<Longrightarrow> receipts_wf s'"
    by (rule receipts_wf_claim)
  show "receipts_wf s \<Longrightarrow> receipts_wf (finish_receipt c r s)"
    by (rule receipts_wf_finish)
  show "k' = k" if wf: "receipts_wf s" and e1: "receipt_entry k s = Some (c, x)" and e2: "receipt_entry k' s = Some (c, y)"
  proof -
    obtain a b where a: "find_receipt (fst k) (snd k) s = Some a" "rc_command a = c"
      and b: "find_receipt (fst k') (snd k') s = Some b" "rc_command b = c"
      using e1 e2 by (auto simp: receipt_entry_def)
    from receipts_wf_member [OF wf a(1)] receipts_wf_member [OF wf b(1)]
    have "a \<in> set (receipts s)" "b \<in> set (receipts s)"
      "fst k = rc_principal a" "snd k = rc_key a" "fst k' = rc_principal b" "snd k' = rc_key b" by simp_all
    moreover from this have "a = b"
      using distinct_map_eqD [of rc_command "receipts s" a b] wf a(2) b(2) by (simp add: receipts_wf_def)
    ultimately show ?thesis by (simp add: prod_eq_iff)
  qed
qed

section \<open>Round trip of the stored response\<close>

definition uuid_text_ok :: "library \<Rightarrow> bool" where
  "uuid_text_ok lib \<longleftrightarrow> (\<forall>u. parse_uuid lib (show_uuid lib u) = Some u)"

definition is_i32 :: "int \<Rightarrow> bool" where
  "is_i32 i \<longleftrightarrow> - (2 ^ 31) \<le> i \<and> i < 2 ^ 31"

lemma as_i32_id: "is_i32 i \<Longrightarrow> as_i32 i = i"
  by (simp add: as_i32_def is_i32_def sint_sbintrunc' signed_take_bit_int_eq_self)

lemma json_int_as_i64: "is_i32 i \<Longrightarrow> as_i64 (json_int i) = Some i"
proof (cases "0 \<le> i")
  case True
  assume "is_i32 i"
  then have i: "i < 2 ^ 31" by (simp add: is_i32_def)
  then have "uint (word_of_int i :: 64 word) = i" using True by (simp add: uint_word_of_int)
  moreover from this have "unat (word_of_int i :: 64 word) < 2 ^ 63" using i by (simp add: unat_eq_nat_uint)
  ultimately show ?thesis using True by (simp add: json_int_def)
next
  case False
  assume "is_i32 i"
  then show ?thesis using False by (simp add: json_int_def is_i32_def sint_sbintrunc' signed_take_bit_int_eq_self)
qed

definition result_in_range :: "transition_result \<Rightarrow> bool" where
  "result_in_range r \<longleftrightarrow> is_i32 (r_state_version r) \<and> is_i32 (r_sequence r)"

lemma parse_response_body:
  assumes "uuid_text_ok lib" and "result_in_range r"
  shows "parse_replayed_response lib (transition_response_body lib r) = Inr r"
proof -
  have p: "parse_uuid lib (show_uuid lib u) = Some u" for u
    using assms(1) by (simp add: uuid_text_ok_def)
  have v: "i32_member (transition_response_body lib r) ''workflowStateVersion'' = r_state_version r"
    "i32_member (transition_response_body lib r) ''eventSequence'' = r_sequence r"
    using assms(2)
    by (simp_all add: i32_member_def jindex_def transition_response_body_def json_int_as_i64 as_i32_id
        result_in_range_def)
  have u: "uuid_member lib (transition_response_body lib r) ''workflowInstanceId'' = Some (r_instance r)"
    "uuid_member lib (transition_response_body lib r) ''currentContextRevisionId'' = Some (r_context r)"
    "uuid_member lib (transition_response_body lib r) ''sourceNodeVisitId'' = Some (r_source_visit r)"
    "uuid_member lib (transition_response_body lib r) ''currentNodeVisitId'' = Some (r_current_visit r)"
    by (simp_all add: uuid_member_def jindex_def transition_response_body_def p)
  have o: "uuid_member lib (transition_response_body lib r) ''submissionId'' = r_submission r"
    by (cases "r_submission r") (simp_all add: uuid_member_def jindex_def transition_response_body_def opt_json_def p)
  have c: "uuid_member lib (jindex (transition_response_body lib r) ''returnPolicyEscalation'') ''assistanceCaseId'' = r_case r"
    by (cases "r_case r") (simp_all add: uuid_member_def jindex_def transition_response_body_def opt_json_def p)
  show ?thesis by (simp add: parse_replayed_response_def required_member_def u v o c)
qed

lemma unary_library_ok: "uuid_text_ok unary_library"
  by (simp add: uuid_text_ok_def)

section \<open>Properties\<close>


lemma receipts_wf_empty: "receipts_wf empty_store"
  by (simp add: receipts_wf_def empty_store_def)


text \<open>
  A request under the key of a completed command but with another request hash is refused as a
  conflict that names the original command, and its only effect is one audit row.
\<close>
theorem conflicting_request_is_audited:
  assumes "receipts_wf s" and "receipt_entry (p, key) s = Some (c, h, Some x)" and "h' \<noteq> h"
    and "aid \<notin> au_id ` set (audits s)"
  shows "\<exists>a. handle_receipt_replay lib p key h' aid s =
    (Inl (T_IdempotencyConflict c h), s\<lparr>audits := audits s @ [a]\<rparr>) \<and> au_command a = c \<and> au_hash a = h'"
proof -
  obtain r where r: "find_receipt p key s = Some r" "rc_command r = c" "rc_hash r = h" "response_of r = Some x"
    using assms(2) by (auto simp: receipt_entry_def)
  then have "rc_status r = ''COMPLETED''"
    using assms(1) receipts_wf_member [OF assms(1) r(1)] by (auto simp: receipts_wf_def)
  then show ?thesis using r assms(3,4)
    by (auto simp: handle_receipt_replay_def replay_transition_receipt_def write_transition_attempt_audit_def)
qed

definition answered_store :: store where
  "answered_store = empty_store\<lparr>receipts :=
     [\<lparr>rc_command = 2, rc_principal = 1, rc_key = ''key'', rc_type = ''EXECUTE_WORKFLOW_TRANSITION'',
       rc_hash = ''hash'', rc_status = ''COMPLETED'', rc_response_status = Some 409,
       rc_response_body = Some JNull, rc_response_digest = Some ''d''\<rparr>]\<rparr>"

theorem conflicting_request_is_audited_witness:
  "\<exists>a. snd (handle_receipt_replay unary_library 1 ''key'' ''other'' 8 answered_store) =
     answered_store\<lparr>audits := [a]\<rparr>"
proof -
  have "receipts_wf answered_store"
    "receipt_entry (1, ''key'') answered_store = Some (2, ''hash'', Some (409, JNull, ''d''))"
    "8 \<notin> au_id ` set (audits answered_store)"
    by (simp_all add: receipts_wf_def receipt_entry_def find_receipt_def response_of_def answered_store_def
        empty_store_def)
  from conflicting_request_is_audited [OF this(1,2) _ this(3), of "''other''" unary_library]
  show ?thesis by (auto simp: answered_store_def empty_store_def)
qed

text \<open>
  The receipt of a success keeps the whole result: parsing the stored response body gives back the
  result the command returned, provided the UUID parser inverts the printer and both versions fit in
  32 bits.
\<close>
theorem response_body_round_trip:
  assumes "uuid_text_ok lib" and "result_in_range r"
  shows "parse_replayed_response lib (transition_response_body lib r) = Inr r"
  by (rule parse_response_body [OF assms])

theorem response_body_round_trip_witness:
  "parse_replayed_response unary_library (transition_response_body unary_library
     \<lparr>r_instance = 1, r_state_version = 4, r_context = 2, r_source_visit = 3, r_current_visit = 5,
      r_submission = None, r_sequence = 4, r_case = Some 6\<rparr>) =
   Inr \<lparr>r_instance = 1, r_state_version = 4, r_context = 2, r_source_visit = 3, r_current_visit = 5,
      r_submission = None, r_sequence = 4, r_case = Some 6\<rparr>"
  by (rule response_body_round_trip [OF unary_library_ok]) (simp add: result_in_range_def is_i32_def)

text \<open>
  C26. A persisted deterministic failure replays as that failure: after its receipt is completed, the same
  request gets the stored status and body of the error and never a success.
\<close>
theorem persisted_failure_replays:
  assumes "receipts_wf s" and "claim_receipt c (p, key) h s = Some s1" and "is_deterministic_error e"
    and "persist_deterministic_failure lib c e s1 = Inr s2"
  shows "handle_receipt_replay lib p key h aid s2 =
    (Inr (ReplayedFailure (transition_error_code e) (error_response_body e)), s2)"
proof -
  obtain d where s2: "s2 = finish_receipt c (transition_error_code e, error_response_body e, d) s1"
    using assms(4) by (auto simp: persist_deterministic_failure_def Let_def finish_receipt_def split: sum.splits)
  have wf2: "receipts_wf s2" using assms(1,2) receipts_wf_claim receipts_wf_finish s2 by metis
  have "receipt_entry (p, key) s2 = Some (c, h, Some (transition_error_code e, error_response_body e, d))"
    unfolding s2 by (rule transition_receipts.answered [OF assms(1,2)])
  then obtain r where r: "find_receipt p key s2 = Some r" "rc_hash r = h"
      "response_of r = Some (transition_error_code e, error_response_body e, d)"
    by (auto simp: receipt_entry_def)
  then have "rc_status r = ''COMPLETED''"
    using wf2 receipts_wf_member [OF wf2 r(1)] by (auto simp: receipts_wf_def)
  moreover have "transition_error_code e \<noteq> 200" using assms(3) by (cases e) simp_all
  ultimately show ?thesis using r
    by (auto simp: handle_receipt_replay_def replay_transition_receipt_def response_of_def split: option.splits)
qed

theorem persisted_failure_replays_witness:
  "\<exists>s. handle_receipt_replay unary_library 1 ''key'' ''hash'' 8 s =
     (Inr (ReplayedFailure 409 (error_response_body T_AssistanceOpen)), s)"
proof -
  obtain s1 where s1: "claim_receipt 2 (1, ''key'') ''hash'' empty_store = Some s1"
    by (simp add: claim_receipt_Some empty_store_def find_receipt_def)
  obtain s2 where "persist_deterministic_failure unary_library 2 T_AssistanceOpen s1 = Inr s2"
    by (simp add: persist_deterministic_failure_def)
  from persisted_failure_replays [OF receipts_wf_empty s1 _ this, of 8] show ?thesis by auto
qed

end
