(* ===== verification/Outbox.thy ===== *)
theory Outbox
  imports Instance_Store Text_Format "HOL-Library.Product_Lexorder"
begin

text \<open>
  The durable outbox (\<open>outbox.rs\<close>) and the worker that drains it (\<open>forum_sync.rs\<close>): rows are queued
  inside the business transaction, once per kind and event key; a worker claims one due row, tries to
  deliver it, and settles the attempt.  Times are seconds; a database error is a text.
\<close>

section \<open>Queueing\<close>

text \<open>\<open>INSERT .. ON CONFLICT (outbox_kind, event_key) DO NOTHING\<close>.\<close>

definition insert_outbox ::
  "int \<Rightarrow> uuid \<Rightarrow> uuid \<Rightarrow> string \<Rightarrow> string \<Rightarrow> json \<Rightarrow> store \<Rightarrow> (string, store) res" where
  "insert_outbox now oid inst kind key payload s =
     (if (kind, key) \<in> (\<lambda>r. (ob_kind r, ob_key r)) ` set (outbox s) then Inr s
      else if oid \<in> ob_id ` set (outbox s) then Inl ''duplicate key value violates unique constraint''
      else Inr (s\<lparr>outbox := outbox s @
        [\<lparr>ob_id = oid, ob_instance = inst, ob_kind = kind, ob_key = key, ob_payload = payload,
          ob_attempts = 0, ob_next_at = now, ob_error = None, ob_delivered = None, ob_dead = None,
          ob_created = now\<rparr>]\<rparr>))"

definition queue_forum_binding :: "int \<Rightarrow> uuid \<Rightarrow> store \<Rightarrow> store" where
  "queue_forum_binding now inst s =
     (if inst \<in> fb_instance ` set (forum_bindings s) then s
      else s\<lparr>forum_bindings := forum_bindings s @
        [\<lparr>fb_instance = inst, fb_thread = None, fb_state = ''PENDING'', fb_created = now\<rparr>]\<rparr>)"

text \<open>The execution class of the instance; \<open>fetch_one\<close> fails without the row.\<close>

definition class_of_instance :: "uuid \<Rightarrow> store \<Rightarrow> (string, workflow_execution_class) res" where
  "class_of_instance inst s =
     (case find (\<lambda>w. wi_id w = inst) (instances s) of
        None \<Rightarrow> Inl ''no rows returned by a query that expected to return at least one row''
      | Some w \<Rightarrow> Inr (wi_class w))"

definition queue_forum_event ::
  "int \<Rightarrow> uuid \<Rightarrow> uuid \<Rightarrow> string \<Rightarrow> json \<Rightarrow> store \<Rightarrow> (string, store) res" where
  "queue_forum_event now oid inst key payload s =
     andThen (class_of_instance inst s) (\<lambda>c.
       if c \<noteq> Business then Inr s
       else insert_outbox now oid inst ''FORUM_EVENT'' key payload (queue_forum_binding now inst s))"

definition queue_execution_kick ::
  "(uuid \<Rightarrow> string) \<Rightarrow> int \<Rightarrow> uuid \<Rightarrow> uuid \<Rightarrow> uuid \<Rightarrow> uuid \<Rightarrow> store \<Rightarrow> (string, store) res" where
  "queue_execution_kick show now oid inst visit activation s =
     insert_outbox now oid inst ''EXECUTION_KICK'' (''kick:'' @ show activation)
       (JObject [(''dispatchIntentId'', JString (show activation)), (''nodeVisitId'', JString (show visit)),
                 (''workflowInstanceId'', JString (show inst))]) s"

definition queue_owner_assistance_wake ::
  "(uuid \<Rightarrow> string) \<Rightarrow> int \<Rightarrow> uuid \<Rightarrow> uuid \<Rightarrow> uuid \<Rightarrow> uuid \<Rightarrow> uuid \<Rightarrow> string \<Rightarrow> store \<Rightarrow> (string, store) res" where
  "queue_owner_assistance_wake show now oid inst visit case_id owner reason s =
     andThen (class_of_instance inst s) (\<lambda>c.
       if c \<noteq> Business then Inr s
       else insert_outbox now oid inst ''OWNER_ASSISTANCE_WAKE'' (''owner-assistance:'' @ show case_id)
         (JObject [(''assistanceCaseId'', JString (show case_id)), (''nodeVisitId'', JString (show visit)),
                   (''ownerPrincipalId'', JString (show owner)), (''reason'', JString reason),
                   (''workflowInstanceId'', JString (show inst))]) s)"

section \<open>Due rows\<close>

definition execution_kick_max_attempts :: int where
  "execution_kick_max_attempts = 12"

definition due :: "int \<Rightarrow> string \<Rightarrow> outbox_row \<Rightarrow> bool" where
  "due now kind r \<longleftrightarrow> ob_kind r = kind \<and> ob_delivered r = None \<and> ob_dead r = None \<and> ob_next_at r \<le> now"

definition row_order :: "outbox_row \<Rightarrow> int \<times> uuid" where
  "row_order r = (ob_created r, ob_id r)"

text \<open>A FORUM_EVENT is held back by an earlier undelivered one of its instance.\<close>

definition held_back :: "outbox_row list \<Rightarrow> outbox_row \<Rightarrow> bool" where
  "held_back rs r \<longleftrightarrow>
     ob_kind r = ''FORUM_EVENT'' \<and>
     list_ex (\<lambda>e. ob_instance e = ob_instance r \<and> ob_kind e = ''FORUM_EVENT'' \<and> ob_delivered e = None \<and>
                  row_order e < row_order r) rs"

definition next_pending_batch :: "int \<Rightarrow> string \<Rightarrow> nat \<Rightarrow> store \<Rightarrow> outbox_row list" where
  "next_pending_batch now kind n s =
     take n (sort_key row_order (filter (\<lambda>r. due now kind r \<and> \<not> held_back (outbox s) r) (outbox s)))"

text \<open>\<open>SKIP LOCKED\<close>: a row in \<open>locked\<close> is held by another worker.\<close>

definition claim_row :: "int \<Rightarrow> uuid set \<Rightarrow> uuid \<Rightarrow> string \<Rightarrow> store \<Rightarrow> outbox_row option" where
  "claim_row now locked oid kind s =
     find (\<lambda>r. ob_id r = oid \<and> due now kind r \<and> oid \<notin> locked) (outbox s)"

section \<open>Settling\<close>

definition update_undelivered :: "uuid \<Rightarrow> (outbox_row \<Rightarrow> outbox_row) \<Rightarrow> store \<Rightarrow> store" where
  "update_undelivered oid f s =
     s\<lparr>outbox := map (\<lambda>r. if ob_id r = oid \<and> ob_delivered r = None then f r else r) (outbox s)\<rparr>"

definition mark_delivered :: "int \<Rightarrow> uuid \<Rightarrow> store \<Rightarrow> store" where
  "mark_delivered now oid = update_undelivered oid (\<lambda>r. r\<lparr>ob_delivered := Some now, ob_error := None\<rparr>)"

text \<open>\<open>LEAST(POWER(2, attempt_count + 1), 600)\<close> seconds.\<close>

definition backoff :: "int \<Rightarrow> int" where
  "backoff attempts = min (2 ^ nat (attempts + 1)) 600"

text \<open>\<open>error.chars().map(|c| if c.is_control() { ' ' } else { c }).take(500)\<close>.\<close>

definition sanitized_error :: "string \<Rightarrow> string" where
  "sanitized_error e = concat (take 500 (map (\<lambda>ch. if is_control ch then '' '' else ch) (utf8_chars e)))"

definition mark_attempt_failed :: "int \<Rightarrow> uuid \<Rightarrow> string \<Rightarrow> int option \<Rightarrow> store \<Rightarrow> store" where
  "mark_attempt_failed now oid e cap =
     update_undelivered oid (\<lambda>r. r\<lparr>
       ob_attempts := ob_attempts r + 1,
       ob_next_at := now + backoff (ob_attempts r),
       ob_error := Some (sanitized_error e),
       ob_dead := (case cap of
          Some c \<Rightarrow> if ob_attempts r + 1 \<ge> c then Some now else ob_dead r
        | None \<Rightarrow> ob_dead r)\<rparr>)"

definition mark_dead_lettered :: "int \<Rightarrow> uuid \<Rightarrow> string \<Rightarrow> store \<Rightarrow> store" where
  "mark_dead_lettered now oid e =
     update_undelivered oid (\<lambda>r. r\<lparr>ob_attempts := ob_attempts r + 1, ob_dead := Some now,
       ob_error := Some (sanitized_error e)\<rparr>)"

section \<open>Forum bindings\<close>

definition get_binding :: "uuid \<Rightarrow> store \<Rightarrow> forum_binding_row option" where
  "get_binding inst s = find (\<lambda>b. fb_instance b = inst) (forum_bindings s)"

definition bind_thread :: "uuid \<Rightarrow> string \<Rightarrow> store \<Rightarrow> store" where
  "bind_thread inst thread s =
     s\<lparr>forum_bindings := map (\<lambda>b. if fb_instance b = inst \<and> fb_state b = ''PENDING''
         then b\<lparr>fb_thread := Some thread, fb_state := ''BOUND''\<rparr> else b) (forum_bindings s)\<rparr>"

definition pending_bindings :: "nat \<Rightarrow> store \<Rightarrow> uuid list" where
  "pending_bindings n s =
     take n (map fb_instance (sort_key (\<lambda>b. (fb_created b, fb_instance b))
       (filter (\<lambda>b. fb_state b = ''PENDING'') (forum_bindings s))))"

end
