(* ===== verification/Forum_Sync.thy ===== *)
theory Forum_Sync
  imports Outbox
begin

text \<open>
  The worker that drains the outbox (\<open>forum_sync.rs\<close>).  A worker pass polls a batch per channel,
  prepares each row, claims it, sends it, and settles the attempt in the claim's transaction.  The
  answers of the remote services, of the clock and of the other workers' locks are parameters
  (\<open>channel_answers\<close>), one record per row, so a pass is a function of them.
\<close>

section \<open>The forum client\<close>

datatype forum_error = Transport string | Conflict | Status "16 word" string

definition forum_error_to_string :: "forum_error \<Rightarrow> string" where
  "forum_error_to_string e =
     (case e of
        Transport d \<Rightarrow> ''forum transport failure: '' @ d
      | Conflict \<Rightarrow> ''forum conflict (409)''
      | Status st d \<Rightarrow> ''forum http '' @ show_nat (unat st) @ '': '' @ d)"

definition is_success :: "16 word \<Rightarrow> bool" where
  "is_success st \<longleftrightarrow> 200 \<le> st \<and> st < 300"

text \<open>
  One call: the bearer token may fail; then the request fails in transport, or there is a status and a
  body that may not be JSON.
\<close>

type_synonym http_response = "(string, 16 word \<times> (string, json) res) res"
type_synonym forum_call = "(forum_error, string) res \<times> http_response"

definition find_thread :: "(uuid \<Rightarrow> string) \<Rightarrow> uuid \<Rightarrow> forum_call \<Rightarrow> (forum_error, string option) res" where
  "find_thread show inst call =
     andThen (fst call) (\<lambda>_.
       case snd call of
         Inl e \<Rightarrow> Inl (Transport e)
       | Inr (st, body) \<Rightarrow>
           if \<not> is_success st then Inl (Status st ''thread lookup failed'')
           else case body of
             Inl e \<Rightarrow> Inl (Transport (''malformed thread list: '' @ e))
           | Inr b \<Rightarrow>
               let items = (case as_array (jindex b ''items'') of None \<Rightarrow> [] | Some xs \<Rightarrow> xs);
                   ours = (\<lambda>i. as_str (jindex i ''contextType'') = Some ''workflow_instance'' \<and>
                               as_str (jindex i ''contextId'') = Some (show inst))
               in Inr (case List.map_filter (\<lambda>i. if ours i then as_str (jindex i ''id'') else None) items of
                         [] \<Rightarrow> None
                       | t # _ \<Rightarrow> Some t))"

definition create_thread :: "forum_call \<Rightarrow> (forum_error, string) res" where
  "create_thread call =
     andThen (fst call) (\<lambda>_.
       case snd call of
         Inl e \<Rightarrow> Inl (Transport e)
       | Inr (st, body) \<Rightarrow>
           if st = 409 then Inl Conflict
           else if \<not> is_success st then Inl (Status st ''thread create failed'')
           else case body of
             Inl e \<Rightarrow> Inl (Transport (''malformed thread create: '' @ e))
           | Inr b \<Rightarrow> ok_or (Transport ''thread create response has no thread.id'')
                        (as_str (jindex (jindex b ''thread'') ''id'')))"

definition post_message :: "forum_call \<Rightarrow> (forum_error, unit) res" where
  "post_message call =
     andThen (fst call) (\<lambda>_.
       case snd call of
         Inl e \<Rightarrow> Inl (Transport e)
       | Inr (st, _) \<Rightarrow> if is_success st then Inr () else Inl (Status st ''message post failed''))"

section \<open>Configuration and answers\<close>

text \<open>
  What the channels need of \<open>OutboxReconcilerConfig\<close>: which are configured, and the retained error of
  the wake channel.
\<close>

record reconciler_config =
  cf_forum :: bool
  cf_kick :: bool
  cf_wake :: "(string, bool) res"

definition wake_channel_active :: "reconciler_config \<Rightarrow> bool" where
  "wake_channel_active c = (case cf_wake c of Inl _ \<Rightarrow> True | Inr b \<Rightarrow> b)"

definition any_channel_enabled :: "reconciler_config \<Rightarrow> bool" where
  "any_channel_enabled c \<longleftrightarrow> cf_forum c \<or> cf_kick c \<or> wake_channel_active c"

definition enabled_channel_names :: "reconciler_config \<Rightarrow> string list" where
  "enabled_channel_names c =
     (if cf_kick c then [''EXECUTION_KICK''] else []) @
     (if cf_forum c then [''FORUM_EVENT''] else []) @
     (if wake_channel_active c then [''OWNER_ASSISTANCE_WAKE''] else [])"

datatype kick_answer = Kick_Timeout nat | Kick_Transport string | Kick_Status "16 word"

record channel_answers =
  an_now :: int
  an_locked :: "uuid set"
  an_lookup :: forum_call
  an_create :: forum_call
  an_relookup :: forum_call
  an_post :: forum_call
  an_kick :: kick_answer
  an_bearer :: "(string, unit) res"
  an_wake :: "(string, 16 word) res"

section \<open>Deliveries\<close>

definition em_dash :: string where
  "em_dash = [CHR 0xE2, CHR 0x80, CHR 0x94]"

datatype channel_failure = Permanent string | Retryable string

definition deliver_forum_event :: "channel_answers \<Rightarrow> (string, unit) res" where
  "deliver_forum_event a =
     (case post_message (an_post a) of Inl e \<Rightarrow> Inl (forum_error_to_string e) | Inr u \<Rightarrow> Inr u)"

definition deliver_kick :: "reconciler_config \<Rightarrow> channel_answers \<Rightarrow> (channel_failure, unit) res" where
  "deliver_kick c a =
     (if \<not> cf_kick c
      then Inl (Permanent ''kick endpoint not configured (WORKFLOW_EXECUTION_KICK_URL/TOKEN)'')
      else case an_kick a of
        Kick_Timeout ms \<Rightarrow> Inl (Retryable (''kick request timed out after '' @ show_nat ms @ ''ms '' @ em_dash @
            '' delivery result UNKNOWN; replay is safe by contract (a kick only triggers one coalesced poll)''))
      | Kick_Transport e \<Rightarrow> Inl (Retryable (''kick transport failure: '' @ e))
      | Kick_Status st \<Rightarrow>
          let code = show_nat (unat st) in
          if is_success st then Inr ()
          else if st = 401 \<or> st = 403 then Inl (Retryable (''kick endpoint '' @ code @
            '': authentication/authorization failure '' @ em_dash @
            '' verify WORKFLOW_EXECUTION_KICK_TOKEN and its workflow.execute scope''))
          else if st = 408 \<or> st = 409 \<or> st = 429 then Inl (Retryable (''kick endpoint '' @ code))
          else if 500 \<le> st \<and> st < 600 then Inl (Retryable (''kick endpoint 5xx: '' @ code))
          else Inl (Permanent (''kick endpoint '' @ code @ '': permanent rejection '' @ em_dash @
            '' the receiver deterministically rejected the payload'')))"

definition deliver_owner_assistance_wake ::
  "reconciler_config \<Rightarrow> channel_answers \<Rightarrow> (string, unit) res" where
  "deliver_owner_assistance_wake c a =
     (case cf_wake c of
        Inl e \<Rightarrow> Inl e
      | Inr False \<Rightarrow> Inl ''owner assistance wake configuration is incomplete or invalid''
      | Inr True \<Rightarrow>
          andThen (an_bearer a) (\<lambda>_.
            case an_wake a of
              Inl _ \<Rightarrow> Inl ''owner assistance wake request failed''
            | Inr st \<Rightarrow>
                if is_success st then Inr ()
                else Inl (''owner assistance wake endpoint returned '' @ show_nat (unat st))))"

definition map_err :: "('e \<Rightarrow> 'f) \<Rightarrow> ('e, 'a) res \<Rightarrow> ('f, 'a) res" where
  "map_err f r = (case r of Inl e \<Rightarrow> Inl (f e) | Inr a \<Rightarrow> Inr a)"

text \<open>The delivery of one claimed row by its kind.\<close>

definition send_row ::
  "reconciler_config \<Rightarrow> channel_answers \<Rightarrow> string \<Rightarrow> string option \<Rightarrow> (channel_failure, unit) res" where
  "send_row c a kind thread =
     (if kind = ''FORUM_EVENT'' then
        (case thread of
           Some _ \<Rightarrow> map_err Retryable (deliver_forum_event a)
         | None \<Rightarrow> Inl (Retryable ''forum thread was not resolved before the claim''))
      else if kind = ''EXECUTION_KICK'' then deliver_kick c a
      else if kind = ''OWNER_ASSISTANCE_WAKE'' then map_err Retryable (deliver_owner_assistance_wake c a)
      else Inl (Retryable (''unknown outbox kind '' @ kind)))"

text \<open>
  \<open>deliver_claimed\<close>: claim, send, settle, in one transaction.  Only kicks have a retry cap.  The result
  is whether this worker delivered the row.
\<close>

definition retry_cap :: "string \<Rightarrow> int option" where
  "retry_cap kind = (if kind = ''EXECUTION_KICK'' then Some execution_kick_max_attempts else None)"

definition settle :: "int \<Rightarrow> string \<Rightarrow> uuid \<Rightarrow> (channel_failure, unit) res \<Rightarrow> store \<Rightarrow> store" where
  "settle now kind oid result s =
     (case result of
        Inr _ \<Rightarrow> mark_delivered now oid s
      | Inl (Permanent m) \<Rightarrow> mark_dead_lettered now oid m s
      | Inl (Retryable m) \<Rightarrow> mark_attempt_failed now oid m (retry_cap kind) s)"

definition deliver_claimed ::
  "reconciler_config \<Rightarrow> channel_answers \<Rightarrow> string \<Rightarrow> uuid \<Rightarrow> string option \<Rightarrow> store \<Rightarrow> bool \<times> store" where
  "deliver_claimed c a kind oid thread s =
     (case claim_row (an_now a) (an_locked a) oid kind s of
        None \<Rightarrow> (False, s)
      | Some row \<Rightarrow>
          let result = send_row c a kind thread
          in (is_ok result, settle (an_now a) kind (ob_id row) result s))"

section \<open>One pass\<close>

definition bind_found :: "uuid \<Rightarrow> store \<Rightarrow> string \<Rightarrow> (string, unit) res \<times> store" where
  "bind_found inst s thread = (Inr (), bind_thread inst thread s)"

definition ensure_thread ::
  "(uuid \<Rightarrow> string) \<Rightarrow> channel_answers \<Rightarrow> uuid \<Rightarrow> store \<Rightarrow> (string, unit) res \<times> store" where
  "ensure_thread show a inst s =
     (case get_binding inst s of
        None \<Rightarrow> (Inl ''forum event has no binding row'', s)
      | Some row \<Rightarrow>
          if fb_state row = ''BOUND'' then (Inr (), s)
          else case find_thread show inst (an_lookup a) of
            Inl e \<Rightarrow> (Inl (forum_error_to_string e), s)
          | Inr (Some thread) \<Rightarrow> bind_found inst s thread
          | Inr None \<Rightarrow>
              (case create_thread (an_create a) of
                 Inr thread \<Rightarrow> bind_found inst s thread
               | Inl Conflict \<Rightarrow>
                   (case find_thread show inst (an_relookup a) of
                      Inl e \<Rightarrow> (Inl (forum_error_to_string e), s)
                    | Inr None \<Rightarrow> (Inl ''409 without a resolvable thread'', s)
                    | Inr (Some thread) \<Rightarrow> bind_found inst s thread)
               | Inl other \<Rightarrow> (Inl (forum_error_to_string other), s)))"

definition settle_attempt_failure :: "int \<Rightarrow> uuid \<Rightarrow> string \<Rightarrow> int option \<Rightarrow> store \<Rightarrow> store" where
  "settle_attempt_failure = mark_attempt_failed"

definition binding_pending :: string where
  "binding_pending = ''binding still pending '' @ em_dash @ '' forum thread unavailable''"

text \<open>The thread of a forum event, resolved before the claim.\<close>

definition resolved_thread ::
  "(uuid \<Rightarrow> string) \<Rightarrow> channel_answers \<Rightarrow> uuid \<Rightarrow> store \<Rightarrow> (string, string) res \<times> store" where
  "resolved_thread show a inst s =
     (case ensure_thread show a inst s of
        (Inl e, s') \<Rightarrow> (Inl (''thread ensure failed: '' @ e), s')
      | (Inr _, s') \<Rightarrow>
          (case get_binding inst s' of
             Some b \<Rightarrow>
               if fb_state b = ''BOUND'' then (ok_or ''BOUND binding has no thread id'' (fb_thread b), s')
               else (Inl binding_pending, s')
           | None \<Rightarrow> (Inl binding_pending, s')))"

text \<open>
  \<open>prepare\<close> is the governance review of a wake with a phase (\<open>governance_child::prepare_delivery\<close>): it
  may settle rows in a transaction of its own and says whether to deliver.
\<close>

type_synonym preparation = "uuid \<Rightarrow> json \<Rightarrow> store \<Rightarrow> (string, bool) res \<times> store"

definition drain_candidate ::
  "(uuid \<Rightarrow> string) \<Rightarrow> preparation \<Rightarrow> reconciler_config \<Rightarrow> channel_answers \<Rightarrow> string \<Rightarrow> outbox_row \<Rightarrow> store \<Rightarrow>
     bool \<times> store" where
  "drain_candidate show prep c a kind row s =
     (if kind = ''FORUM_EVENT'' then
        (case resolved_thread show a (ob_instance row) s of
           (Inl m, s') \<Rightarrow> (False, settle_attempt_failure (an_now a) (ob_id row) m None s')
         | (Inr thread, s') \<Rightarrow> deliver_claimed c a kind (ob_id row) (Some thread) s')
      else if kind = ''OWNER_ASSISTANCE_WAKE'' \<and> jget (ob_payload row) ''phase'' \<noteq> None then
        (case prep (ob_id row) (ob_payload row) s of
           (Inr True, s') \<Rightarrow> deliver_claimed c a kind (ob_id row) None s'
         | (Inr False, s') \<Rightarrow> (False, s')
         | (Inl m, s') \<Rightarrow> (False, settle_attempt_failure (an_now a) (ob_id row) m None s'))
      else deliver_claimed c a kind (ob_id row) None s)"

fun drain_rows ::
  "(uuid \<Rightarrow> string) \<Rightarrow> preparation \<Rightarrow> reconciler_config \<Rightarrow> (uuid \<Rightarrow> channel_answers) \<Rightarrow> string \<Rightarrow>
     outbox_row list \<Rightarrow> store \<Rightarrow> nat \<times> store" where
  "drain_rows show prep c ans kind [] s = (0, s)"
| "drain_rows show prep c ans kind (row # rows) s =
     (case drain_candidate show prep c (ans (ob_id row)) kind row s of
        (done_, s') \<Rightarrow> (case drain_rows show prep c ans kind rows s' of
          (n, s'') \<Rightarrow> ((if done_ then 1 else 0) + n, s'')))"

definition drain_channel ::
  "(uuid \<Rightarrow> string) \<Rightarrow> preparation \<Rightarrow> reconciler_config \<Rightarrow> (uuid \<Rightarrow> channel_answers) \<Rightarrow> int \<Rightarrow> string \<Rightarrow> store \<Rightarrow>
     nat \<times> store" where
  "drain_channel show prep c ans now kind s =
     drain_rows show prep c ans kind (next_pending_batch now kind 20 s) s"

fun ensure_bindings :: "(uuid \<Rightarrow> string) \<Rightarrow> (uuid \<Rightarrow> channel_answers) \<Rightarrow> uuid list \<Rightarrow> store \<Rightarrow> store" where
  "ensure_bindings show ans [] s = s"
| "ensure_bindings show ans (i # ids) s = ensure_bindings show ans ids (snd (ensure_thread show (ans i) i s))"

definition channel_active :: "reconciler_config \<Rightarrow> string \<Rightarrow> bool" where
  "channel_active c kind =
     (if kind = ''EXECUTION_KICK'' then cf_kick c
      else if kind = ''FORUM_EVENT'' then cf_forum c
      else wake_channel_active c)"

fun drain_kinds ::
  "(uuid \<Rightarrow> string) \<Rightarrow> preparation \<Rightarrow> reconciler_config \<Rightarrow> (uuid \<Rightarrow> channel_answers) \<Rightarrow> int \<Rightarrow> string list \<Rightarrow>
     store \<Rightarrow> nat \<times> store" where
  "drain_kinds show prep c ans now [] s = (0, s)"
| "drain_kinds show prep c ans now (k # ks) s =
     (case (if channel_active c k then drain_channel show prep c ans now k s else (0, s)) of
        (n, s') \<Rightarrow> (case drain_kinds show prep c ans now ks s' of (m, s'') \<Rightarrow> (n + m, s'')))"

definition run_once ::
  "(uuid \<Rightarrow> string) \<Rightarrow> preparation \<Rightarrow> reconciler_config \<Rightarrow> (uuid \<Rightarrow> channel_answers) \<Rightarrow> (uuid \<Rightarrow> channel_answers) \<Rightarrow>
     int \<Rightarrow> store \<Rightarrow> nat \<times> store" where
  "run_once show prep c ensure_ans ans now s =
     drain_kinds show prep c ans now [''EXECUTION_KICK'', ''FORUM_EVENT'', ''OWNER_ASSISTANCE_WAKE'']
       (if cf_forum c then ensure_bindings show ensure_ans (pending_bindings 20 s) s else s)"

end
