(* ===== verification/Outbox_Properties.thy ===== *)
theory Outbox_Properties
  imports Forum_Sync Step_System
begin

text \<open>
  What the outbox promises: a queued fact is never lost or changed, correctness-path rows are never
  dead-lettered and keep a due time within ten minutes, kicks are dead-lettered at their cap, a worker
  pass is a sequence of atomic steps, and the posts of an instance follow the row order.
\<close>

section \<open>Settling keeps what was queued\<close>

text \<open>What a row promises to keep: its identity, its payload, and a delivery once it has happened.\<close>

definition keeps :: "outbox_row \<Rightarrow> outbox_row \<Rightarrow> bool" where
  "keeps r r' \<longleftrightarrow>
     ob_id r' = ob_id r \<and> ob_instance r' = ob_instance r \<and> ob_kind r' = ob_kind r \<and> ob_key r' = ob_key r \<and>
     ob_payload r' = ob_payload r \<and> ob_created r' = ob_created r \<and>
     (ob_delivered r \<noteq> None \<longrightarrow> r' = r)"

lemma keeps_refl [simp, intro]: "keeps r r"
  by (simp add: keeps_def)

lemma keeps_trans: "keeps a b \<Longrightarrow> keeps b c \<Longrightarrow> keeps a c"
  by (auto simp: keeps_def)

definition extends :: "store \<Rightarrow> store \<Rightarrow> bool" where
  "extends s s' \<longleftrightarrow> (\<exists>rs new. outbox s' = rs @ new \<and> list_all2 keeps (outbox s) rs)"

lemma extends_refl [simp, intro]: "extends s s"
  unfolding extends_def by (rule exI [of _ "outbox s"]) (simp add: list.rel_refl)

lemma extends_trans: "extends a b \<Longrightarrow> extends b c \<Longrightarrow> extends a c"
proof -
  assume "extends a b" "extends b c"
  then obtain rs new ss more where ab: "outbox b = rs @ new" "list_all2 keeps (outbox a) rs"
    and bc: "outbox c = ss @ more" "list_all2 keeps (outbox b) ss"
    by (auto simp: extends_def)
  then obtain s1 s2 where ss: "ss = s1 @ s2" "list_all2 keeps rs s1"
    by (auto simp: list_all2_append1)
  have "list_all2 keeps (outbox a) s1"
    by (rule list_all2_trans [OF _ ab(2) ss(2)]) (rule keeps_trans)
  then show ?thesis using bc(1) ss(1) by (auto simp: extends_def)
qed

lemma extends_map:
  "(\<And>r. r \<in> set (outbox s) \<Longrightarrow> keeps r (f r)) \<Longrightarrow> outbox s' = map f (outbox s) \<Longrightarrow> extends s s'"
  unfolding extends_def by (rule exI [of _ "map f (outbox s)"]) (auto simp: list_all2_conv_all_nth)

lemma update_undelivered_extends:
  "(\<And>r. ob_delivered r = None \<Longrightarrow> keeps r (f r)) \<Longrightarrow> extends s (update_undelivered oid f s)"
  by (rule extends_map [where f = "\<lambda>r. if ob_id r = oid \<and> ob_delivered r = None then f r else r"])
    (auto simp: update_undelivered_def)

lemma mark_extends [simp, intro]:
  "extends s (mark_delivered now oid s)"
  "extends s (mark_attempt_failed now oid e cap s)"
  "extends s (mark_dead_lettered now oid e s)"
  by (auto simp: mark_delivered_def mark_attempt_failed_def mark_dead_lettered_def keeps_def
      intro!: update_undelivered_extends)

lemma settle_extends [simp, intro]: "extends s (settle now kind oid result s)"
  by (auto simp: settle_def split: sum.splits channel_failure.splits)

section \<open>The invariant of the outbox\<close>

definition outbox_wf :: "store \<Rightarrow> bool" where
  "outbox_wf s \<longleftrightarrow>
     distinct (map ob_id (outbox s)) \<and>
     distinct (map (\<lambda>r. (ob_kind r, ob_key r)) (outbox s)) \<and>
     (\<forall>r\<in>set (outbox s). 0 \<le> ob_attempts r \<and> (ob_kind r \<noteq> ''EXECUTION_KICK'' \<longrightarrow> ob_dead r = None)) \<and>
     distinct (map fb_instance (forum_bindings s)) \<and>
     (\<forall>b\<in>set (forum_bindings s). fb_state b = ''BOUND'' \<longleftrightarrow> fb_thread b \<noteq> None)"

lemma insert_outbox_wf:
  "insert_outbox now oid inst kind key payload s = Inr s' \<Longrightarrow> outbox_wf s \<Longrightarrow> outbox_wf s'"
  by (auto simp: insert_outbox_def outbox_wf_def split: if_splits)

lemma queue_forum_binding_wf: "outbox_wf s \<Longrightarrow> outbox_wf (queue_forum_binding now inst s)"
  by (auto simp: queue_forum_binding_def outbox_wf_def)

lemma outbox_wf_rows:
  "map ob_id rs = map ob_id (outbox s) \<Longrightarrow>
     map (\<lambda>r. (ob_kind r, ob_key r)) rs = map (\<lambda>r. (ob_kind r, ob_key r)) (outbox s) \<Longrightarrow>
     \<forall>r\<in>set rs. 0 \<le> ob_attempts r \<and> (ob_kind r \<noteq> ''EXECUTION_KICK'' \<longrightarrow> ob_dead r = None) \<Longrightarrow>
     outbox_wf s \<Longrightarrow> outbox_wf (s\<lparr>outbox := rs\<rparr>)"
  by (simp add: outbox_wf_def)

lemma outbox_wf_bindings:
  "map fb_instance bs = map fb_instance (forum_bindings s) \<Longrightarrow>
     \<forall>b\<in>set bs. fb_state b = ''BOUND'' \<longleftrightarrow> fb_thread b \<noteq> None \<Longrightarrow>
     outbox_wf s \<Longrightarrow> outbox_wf (s\<lparr>forum_bindings := bs\<rparr>)"
  by (simp add: outbox_wf_def)

lemma update_undelivered_wf:
  assumes "outbox_wf s"
    and "\<And>r. r \<in> set (outbox s) \<Longrightarrow> ob_id r = oid \<Longrightarrow> ob_delivered r = None \<Longrightarrow>
      keeps r (f r) \<and> 0 \<le> ob_attempts (f r) \<and> (ob_kind r \<noteq> ''EXECUTION_KICK'' \<longrightarrow> ob_dead (f r) = None)"
  shows "outbox_wf (update_undelivered oid f s)"
proof -
  let ?g = "\<lambda>r. if ob_id r = oid \<and> ob_delivered r = None then f r else r"
  have k: "r \<in> set (outbox s) \<Longrightarrow> keeps r (?g r)" for r using assms(2) [of r] by auto
  have "map ob_id (map ?g (outbox s)) = map ob_id (outbox s)"
    using k by (auto simp: keeps_def)
  moreover have "map (\<lambda>r. (ob_kind r, ob_key r)) (map ?g (outbox s)) = map (\<lambda>r. (ob_kind r, ob_key r)) (outbox s)"
    using k by (auto simp: keeps_def)
  moreover have "\<forall>r\<in>set (map ?g (outbox s)). 0 \<le> ob_attempts r \<and> (ob_kind r \<noteq> ''EXECUTION_KICK'' \<longrightarrow> ob_dead r = None)"
  proof
    fix r' assume "r' \<in> set (map ?g (outbox s))"
    then obtain r where r: "r \<in> set (outbox s)" "r' = ?g r" by auto
    then show "0 \<le> ob_attempts r' \<and> (ob_kind r' \<noteq> ''EXECUTION_KICK'' \<longrightarrow> ob_dead r' = None)"
      using assms k [OF r(1)] by (auto simp: outbox_wf_def keeps_def)
  qed
  ultimately show ?thesis
    using assms(1) unfolding update_undelivered_def by (rule outbox_wf_rows)
qed

lemma mark_delivered_wf: "outbox_wf s \<Longrightarrow> outbox_wf (mark_delivered now oid s)"
  unfolding mark_delivered_def by (rule update_undelivered_wf) (auto simp: keeps_def outbox_wf_def)

lemma mark_attempt_failed_wf:
  "outbox_wf s \<Longrightarrow> (\<And>r. r \<in> set (outbox s) \<Longrightarrow> ob_id r = oid \<Longrightarrow> cap \<noteq> None \<Longrightarrow> ob_kind r = ''EXECUTION_KICK'') \<Longrightarrow>
     outbox_wf (mark_attempt_failed now oid e cap s)"
  unfolding mark_attempt_failed_def
  by (rule update_undelivered_wf) (auto simp: keeps_def outbox_wf_def split: option.splits)

lemma mark_dead_lettered_wf:
  "outbox_wf s \<Longrightarrow> (\<And>r. r \<in> set (outbox s) \<Longrightarrow> ob_id r = oid \<Longrightarrow> ob_kind r = ''EXECUTION_KICK'') \<Longrightarrow>
     outbox_wf (mark_dead_lettered now oid e s)"
  unfolding mark_dead_lettered_def by (rule update_undelivered_wf) (auto simp: keeps_def outbox_wf_def)

lemma bind_thread_wf: "outbox_wf s \<Longrightarrow> outbox_wf (bind_thread inst thread s)"
proof -
  assume wf: "outbox_wf s"
  let ?g = "\<lambda>b. if fb_instance b = inst \<and> fb_state b = ''PENDING''
         then b\<lparr>fb_thread := Some thread, fb_state := ''BOUND''\<rparr> else b"
  have "map fb_instance (map ?g bs) = map fb_instance bs" for bs :: "forum_binding_row list" by simp
  moreover have "\<forall>b\<in>set (map ?g (forum_bindings s)). fb_state b = ''BOUND'' \<longleftrightarrow> fb_thread b \<noteq> None"
    using wf by (auto simp: outbox_wf_def)
  ultimately show ?thesis
    using wf unfolding bind_thread_def by (rule outbox_wf_bindings)
qed

text \<open>Only a kick is rejected for good, so a claimed row of another channel is never dead-lettered.\<close>

lemma send_row_permanent: "send_row c a kind thread = Inl (Permanent m) \<Longrightarrow> kind = ''EXECUTION_KICK''"
  by (auto simp: send_row_def map_err_def split: if_splits option.splits sum.splits)

lemma claim_rowD:
  assumes "claim_row now locked oid kind s = Some r"
  shows "r \<in> set (outbox s)" "ob_id r = oid" "ob_kind r = kind" "ob_delivered r = None"
    "ob_dead r = None" "ob_next_at r \<le> now" "oid \<notin> locked"
  using assms by (auto simp: claim_row_def due_def find_Some_iff)

lemma outbox_id_unique:
  "outbox_wf s \<Longrightarrow> r \<in> set (outbox s) \<Longrightarrow> r' \<in> set (outbox s) \<Longrightarrow> ob_id r' = ob_id r \<Longrightarrow> r' = r"
  by (auto simp: outbox_wf_def dest: distinct_map_eqD)

lemma settle_wf:
  assumes "outbox_wf s" "r \<in> set (outbox s)" "send_row c a (ob_kind r) thread = result"
  shows "outbox_wf (settle now (ob_kind r) (ob_id r) result s)"
proof -
  have u: "r' \<in> set (outbox s) \<Longrightarrow> ob_id r' = ob_id r \<Longrightarrow> ob_kind r' = ob_kind r" for r'
    using outbox_id_unique [OF assms(1,2), of r'] by simp
  show ?thesis
  proof (cases result)
    case (Inr x)
    then show ?thesis using assms(1) by (simp add: settle_def mark_delivered_wf)
  next
    case (Inl f)
    show ?thesis
    proof (cases f)
      case (Permanent m)
      then have "ob_kind r = ''EXECUTION_KICK''"
        using Inl assms(3) by (auto intro: send_row_permanent)
      then show ?thesis using Inl Permanent assms(1) u
        by (auto simp: settle_def intro!: mark_dead_lettered_wf)
    next
      case (Retryable m)
      then show ?thesis using Inl assms(1) u
        by (auto simp: settle_def retry_cap_def intro!: mark_attempt_failed_wf split: if_splits)
    qed
  qed
qed

lemma deliver_claimed_wf:
  assumes "outbox_wf s"
  shows "outbox_wf (snd (deliver_claimed c a kind oid thread s))"
proof (cases "claim_row (an_now a) (an_locked a) oid kind s")
  case None
  then show ?thesis using assms by (simp add: deliver_claimed_def)
next
  case (Some r)
  then show ?thesis
    using settle_wf [OF assms claim_rowD(1) [OF Some] refl] claim_rowD(3) [OF Some]
    by (simp add: deliver_claimed_def Let_def)
qed

lemma deliver_claimed_extends [simp, intro]: "extends s (snd (deliver_claimed c a kind oid thread s))"
  by (auto simp: deliver_claimed_def Let_def split: option.splits)

section \<open>Steps\<close>

text \<open>
  The atomic transactions that touch the outbox: the business side queues, the worker binds threads,
  delivers claimed rows and settles failed preparations, the governance review retires a wake, and an
  operator requeues a dead-lettered row by the statement of \<open>migrations/0032\<close>.
\<close>

definition retire_wake :: "int \<Rightarrow> uuid \<Rightarrow> string \<Rightarrow> store \<Rightarrow> store" where
  "retire_wake now oid reason =
     update_undelivered oid (\<lambda>r. r\<lparr>ob_delivered := Some now, ob_error := Some reason\<rparr>)"

definition requeue_dead_letter :: "int \<Rightarrow> uuid \<Rightarrow> store \<Rightarrow> store" where
  "requeue_dead_letter now oid =
     update_undelivered oid (\<lambda>r. r\<lparr>ob_dead := None, ob_attempts := 0, ob_next_at := now\<rparr>)"

inductive outbox_step :: "store \<Rightarrow> store \<Rightarrow> bool" where
  queued: "insert_outbox now oid inst kind key payload s = Inr s' \<Longrightarrow> outbox_step s s'"
| binding_queued: "outbox_step s (queue_forum_binding now inst s)"
| thread_bound: "outbox_step s (bind_thread inst thread s)"
| claimed: "outbox_step s (snd (deliver_claimed c a kind oid thread s))"
| preparation_failed: "outbox_step s (settle_attempt_failure now oid m None s)"
| retired: "outbox_step s (retire_wake now oid reason s)"
| requeued: "outbox_step s (requeue_dead_letter now oid s)"
| elsewhere: "outbox s' = outbox s \<Longrightarrow> forum_bindings s' = forum_bindings s \<Longrightarrow> outbox_step s s'"

lemma extends_append: "outbox s' = outbox s @ new \<Longrightarrow> extends s s'"
  unfolding extends_def by (rule exI [of _ "outbox s"]) (auto intro: list.rel_refl)

lemma extends_same: "outbox s' = outbox s \<Longrightarrow> extends s s'"
  by (rule extends_append [of _ _ "[]"]) simp

lemma insert_outbox_extends: "insert_outbox now oid inst kind key payload s = Inr s' \<Longrightarrow> extends s s'"
  by (auto simp: insert_outbox_def split: if_splits intro: extends_append)

lemma outbox_wf_same: "outbox s' = outbox s \<Longrightarrow> forum_bindings s' = forum_bindings s \<Longrightarrow> outbox_wf s \<Longrightarrow> outbox_wf s'"
  by (simp add: outbox_wf_def)

lemma outbox_step_wf: "outbox_step s s' \<Longrightarrow> outbox_wf s \<Longrightarrow> outbox_wf s'"
proof (induction rule: outbox_step.induct)
  case (retired s now oid reason)
  then show ?case unfolding retire_wake_def
    by (intro update_undelivered_wf) (auto simp: keeps_def outbox_wf_def)
next
  case (requeued s now oid)
  then show ?case unfolding requeue_dead_letter_def
    by (intro update_undelivered_wf) (auto simp: keeps_def outbox_wf_def)
next
  case (preparation_failed s now oid m)
  then show ?case by (auto simp: settle_attempt_failure_def intro!: mark_attempt_failed_wf)
qed (auto intro: insert_outbox_wf queue_forum_binding_wf bind_thread_wf deliver_claimed_wf outbox_wf_same)

lemma outbox_step_extends: "outbox_step s s' \<Longrightarrow> extends s s'"
proof (induction rule: outbox_step.induct)
  case (retired s now oid reason)
  then show ?case unfolding retire_wake_def by (intro update_undelivered_extends) (simp add: keeps_def)
next
  case (requeued s now oid)
  then show ?case unfolding requeue_dead_letter_def
    by (intro update_undelivered_extends) (simp add: keeps_def)
next
  case (preparation_failed s now oid m)
  then show ?case by (auto simp: settle_attempt_failure_def)
qed (auto intro: insert_outbox_extends extends_same simp: queue_forum_binding_def bind_thread_def)

interpretation outbox_run: step_system outbox_step outbox_wf extends
  by unfold_locales (auto intro: outbox_step_wf outbox_step_extends extends_trans)

section \<open>A pass is a sequence of steps\<close>

lemma steps_trans: "outbox_step\<^sup>*\<^sup>* a b \<Longrightarrow> outbox_step\<^sup>*\<^sup>* b c \<Longrightarrow> outbox_step\<^sup>*\<^sup>* a c"
  by (rule rtranclp_trans)

lemma ensure_thread_steps: "outbox_step\<^sup>*\<^sup>* s (snd (ensure_thread show a inst s))"
  by (auto simp: ensure_thread_def bind_found_def split: option.splits sum.splits forum_error.splits
      intro: thread_bound)

lemma resolved_thread_steps: "outbox_step\<^sup>*\<^sup>* s (snd (resolved_thread show a inst s))"
proof -
  have "snd (resolved_thread show a inst s) = snd (ensure_thread show a inst s)"
    by (auto simp: resolved_thread_def split: prod.splits sum.splits option.splits)
  then show ?thesis by (simp add: ensure_thread_steps)
qed

lemma then_claimed: "outbox_step\<^sup>*\<^sup>* s t \<Longrightarrow> outbox_step\<^sup>*\<^sup>* s (snd (deliver_claimed c a kind oid thread t))"
  by (erule rtranclp.rtrancl_into_rtrancl) (rule claimed)

lemma then_failed: "outbox_step\<^sup>*\<^sup>* s t \<Longrightarrow> outbox_step\<^sup>*\<^sup>* s (settle_attempt_failure now oid m None t)"
  by (erule rtranclp.rtrancl_into_rtrancl) (rule preparation_failed)

lemma drain_candidate_steps:
  assumes prep: "\<And>oid payload s. outbox_step\<^sup>*\<^sup>* s (snd (prep oid payload s))"
  shows "outbox_step\<^sup>*\<^sup>* s (snd (drain_candidate show prep c a kind row s))"
proof -
  have 1: "resolved_thread show a (ob_instance row) s = (x, s') \<Longrightarrow> outbox_step\<^sup>*\<^sup>* s s'" for x s'
    using resolved_thread_steps [of s "show" a "ob_instance row"] by simp
  have 2: "prep (ob_id row) (ob_payload row) s = (x, s') \<Longrightarrow> outbox_step\<^sup>*\<^sup>* s s'" for x s'
    using prep [of s "ob_id row" "ob_payload row"] by simp
  show ?thesis
    by (auto simp: drain_candidate_def split: prod.splits sum.splits bool.splits
        intro: then_claimed then_failed dest: 1 2)
qed

lemma drain_rows_steps:
  assumes "\<And>oid payload s. outbox_step\<^sup>*\<^sup>* s (snd (prep oid payload s))"
  shows "outbox_step\<^sup>*\<^sup>* s (snd (drain_rows show prep c ans kind rows s))"
proof (induction rows arbitrary: s)
  case (Cons row rows)
  let ?s = "snd (drain_candidate show prep c (ans (ob_id row)) kind row s)"
  from drain_candidate_steps [OF assms] Cons.IH [of ?s]
  have "outbox_step\<^sup>*\<^sup>* s (snd (drain_rows show prep c ans kind rows ?s))" by (rule steps_trans)
  then show ?case by (simp add: case_prod_beta)
qed simp

lemma ensure_bindings_steps: "outbox_step\<^sup>*\<^sup>* s (ensure_bindings show ans ids s)"
  by (induction ids arbitrary: s) (auto intro: steps_trans [OF ensure_thread_steps])

lemma drain_kinds_steps:
  assumes "\<And>oid payload s. outbox_step\<^sup>*\<^sup>* s (snd (prep oid payload s))"
  shows "outbox_step\<^sup>*\<^sup>* s (snd (drain_kinds show prep c ans now ks s))"
proof (induction ks arbitrary: s)
  case (Cons k ks)
  let ?s = "snd (if channel_active c k then drain_channel show prep c ans now k s else (0, s))"
  have "outbox_step\<^sup>*\<^sup>* s ?s" by (simp add: drain_channel_def drain_rows_steps [OF assms])
  from this Cons.IH [of ?s]
  have "outbox_step\<^sup>*\<^sup>* s (snd (drain_kinds show prep c ans now ks ?s))" by (rule steps_trans)
  then show ?case by (simp add: case_prod_beta)
qed simp

lemma run_once_steps:
  assumes "\<And>oid payload s. outbox_step\<^sup>*\<^sup>* s (snd (prep oid payload s))"
  shows "outbox_step\<^sup>*\<^sup>* s (snd (run_once show prep c ensure_ans ans now s))"
  unfolding run_once_def
  by (rule steps_trans [OF _ drain_kinds_steps [OF assms]]) (simp add: ensure_bindings_steps)


section \<open>Retry and dead letters\<close>

text \<open>The effect of settling on the row itself.\<close>

lemma update_undelivered_row:
  "r' \<in> set (outbox (update_undelivered oid f s)) \<Longrightarrow>
     \<exists>r\<in>set (outbox s). r' = (if ob_id r = oid \<and> ob_delivered r = None then f r else r)"
  by (force simp: update_undelivered_def)

lemma backoff_bounds: "0 \<le> n \<Longrightarrow> 2 \<le> backoff n \<and> backoff n \<le> 600"
proof -
  assume "0 \<le> n"
  then have "(2::int) ^ 1 \<le> 2 ^ nat (n + 1)" by (intro power_increasing) auto
  then show ?thesis by (simp add: backoff_def)
qed

text \<open>A kick after \<open>n\<close> failed attempts.\<close>

definition failed_attempts :: "string \<Rightarrow> uuid \<Rightarrow> (int \<times> string) list \<Rightarrow> store \<Rightarrow> store" where
  "failed_attempts kind oid fs s = fold (\<lambda>(now, m). mark_attempt_failed now oid m (retry_cap kind)) fs s"

lemma failed_attempts_row:
  assumes "outbox_wf s" "r \<in> set (outbox s)" "ob_delivered r = None"
    and "r' \<in> set (outbox (failed_attempts (ob_kind r) (ob_id r) fs s))" "ob_id r' = ob_id r"
  shows "keeps r r' \<and> ob_delivered r' = None \<and> ob_attempts r' = ob_attempts r + int (length fs) \<and>
    (ob_dead r' \<noteq> None \<longleftrightarrow> ob_dead r \<noteq> None \<or>
      (ob_kind r = ''EXECUTION_KICK'' \<and> fs \<noteq> [] \<and> execution_kick_max_attempts \<le> ob_attempts r + int (length fs)))"
  using assms
proof (induction fs arbitrary: s r)
  case Nil
  then show ?case using outbox_id_unique [OF Nil.prems(1,2), of r'] by (simp add: failed_attempts_def)
next
  case (Cons f fs)
  obtain now m where f: "f = (now, m)" by force
  let ?f = "\<lambda>r. r\<lparr>ob_attempts := ob_attempts r + 1, ob_next_at := now + backoff (ob_attempts r),
       ob_error := Some (sanitized_error m),
       ob_dead := (case retry_cap (ob_kind r) of
          Some c \<Rightarrow> if ob_attempts r + 1 \<ge> c then Some now else ob_dead r
        | None \<Rightarrow> ob_dead r)\<rparr>"
  let ?s = "mark_attempt_failed now (ob_id r) m (retry_cap (ob_kind r)) s"
  have u: "x \<in> set (outbox s) \<Longrightarrow> ob_id x = ob_id r \<Longrightarrow> x = r" for x
    using outbox_id_unique [OF Cons.prems(1,2)] by blast
  have "?f r \<in> set (outbox ?s)"
    using Cons.prems(2,3) by (force simp: mark_attempt_failed_def update_undelivered_def)
  moreover have "outbox_wf ?s"
    using Cons.prems(1) u by (auto simp: retry_cap_def intro!: mark_attempt_failed_wf split: if_splits)
  moreover have "r' \<in> set (outbox (failed_attempts (ob_kind (?f r)) (ob_id (?f r)) fs ?s))"
    using Cons.prems(4) f by (simp add: failed_attempts_def)
  ultimately have "keeps (?f r) r' \<and> ob_delivered r' = None \<and>
      ob_attempts r' = ob_attempts (?f r) + int (length fs) \<and>
      (ob_dead r' \<noteq> None \<longleftrightarrow> ob_dead (?f r) \<noteq> None \<or>
        (ob_kind (?f r) = ''EXECUTION_KICK'' \<and> fs \<noteq> [] \<and>
         execution_kick_max_attempts \<le> ob_attempts (?f r) + int (length fs)))"
    using Cons.prems(3,5) by (intro Cons.IH [of ?s "?f r"]) auto
  then show ?case
    using Cons.prems(3) by (auto simp: keeps_def retry_cap_def split: if_splits)
qed

section \<open>The order of posts\<close>

text \<open>
  Workers and the business side interleaved: the rows polled so far (\<open>B\<close>, a superset of every worker's
  batch) and the posts made so far (instance and row order).  A claimed row may be sent and then rolled
  back, or sent and then counted as failed; a commit inserts a row behind those of its instance.
\<close>

type_synonym forum_state = "store \<times> uuid set \<times> (uuid \<times> int \<times> uuid) list"

inductive forum_step :: "forum_state \<Rightarrow> forum_state \<Rightarrow> bool" where
  committed: "insert_outbox now oid inst kind key payload s = Inr s' \<Longrightarrow>
    (\<And>e. e \<in> set (outbox s) \<Longrightarrow> ob_instance e = inst \<Longrightarrow> row_order e < (now, oid)) \<Longrightarrow>
    forum_step (s, B, P) (s', B, P)"
| polled: "forum_step (s, B, P) (s, B \<union> ob_id ` set (next_pending_batch now ''FORUM_EVENT'' n s), P)"
| attempted: "r \<in> set (outbox s) \<Longrightarrow> ob_id r \<in> B \<Longrightarrow>
    claim_row (an_now a) (an_locked a) (ob_id r) ''FORUM_EVENT'' s = Some r \<Longrightarrow>
    deliver_claimed c a ''FORUM_EVENT'' (ob_id r) thread s = (ok, s') \<Longrightarrow> (ok \<Longrightarrow> sent) \<Longrightarrow> t = s \<or> t = s' \<Longrightarrow>
    forum_step (s, B, P) (t, B, P @ (if sent then [(ob_instance r, row_order r)] else []))"
| unprepared: "forum_step (s, B, P) (settle_attempt_failure now oid m None s, B, P)"

definition earlier_delivered :: "store \<Rightarrow> outbox_row \<Rightarrow> bool" where
  "earlier_delivered s r \<longleftrightarrow>
     (\<forall>e\<in>set (outbox s). ob_instance e = ob_instance r \<longrightarrow> ob_kind e = ''FORUM_EVENT'' \<longrightarrow>
        row_order e < row_order r \<longrightarrow> ob_delivered e \<noteq> None)"

definition forum_inv :: "forum_state \<Rightarrow> bool" where
  "forum_inv x \<longleftrightarrow> (case x of (s, B, P) \<Rightarrow>
     distinct (map ob_id (outbox s)) \<and>
     (\<forall>i\<in>B. i \<in> ob_id ` set (outbox s)) \<and>
     (\<forall>r\<in>set (outbox s). ob_id r \<in> B \<longrightarrow> ob_kind r = ''FORUM_EVENT'' \<and> earlier_delivered s r) \<and>
     (\<forall>p\<in>set P. \<exists>r\<in>set (outbox s). ob_id r \<in> B \<and> ob_instance r = fst p \<and> row_order r = snd p) \<and>
     (\<forall>i. sorted (map snd (filter (\<lambda>p. fst p = i) P))))"

lemma keeps_order: "keeps r r' \<Longrightarrow> row_order r' = row_order r"
  by (simp add: keeps_def row_order_def)

lemma forum_inv_posted:
  "forum_inv (s, B, P) \<Longrightarrow> p \<in> set P \<Longrightarrow>
     \<exists>r\<in>set (outbox s). ob_id r \<in> B \<and> ob_instance r = fst p \<and> row_order r = snd p"
  by (simp add: forum_inv_def)

text \<open>A statement that changes rows in place keeps the invariant.\<close>

lemma forum_inv_update:
  assumes inv: "forum_inv (s, B, P)" and k: "list_all2 keeps (outbox s) (outbox s')"
  shows "forum_inv (s', B, P)"
proof -
  have fwd: "\<exists>r'\<in>set (outbox s'). keeps r r'" if "r \<in> set (outbox s)" for r
    using k that by (fastforce simp: list_all2_conv_all_nth in_set_conv_nth)
  have bwd: "\<exists>r\<in>set (outbox s). keeps r r'" if "r' \<in> set (outbox s')" for r'
    using k that by (fastforce simp: list_all2_conv_all_nth in_set_conv_nth)
  have step: "earlier_delivered s' r'" if "keeps r r'" "earlier_delivered s r" for r r'
    unfolding earlier_delivered_def
  proof (intro ballI impI)
    fix e' assume e': "e' \<in> set (outbox s')" "ob_instance e' = ob_instance r'" "ob_kind e' = ''FORUM_EVENT''"
      "row_order e' < row_order r'"
    obtain e where e: "e \<in> set (outbox s)" "keeps e e'" using bwd [OF e'(1)] by blast
    then have "ob_delivered e \<noteq> None"
      using that e' keeps_order [OF e(2)] keeps_order [OF that(1)] by (auto simp: earlier_delivered_def keeps_def)
    then show "ob_delivered e' \<noteq> None" using e(2) by (simp add: keeps_def)
  qed
  have "\<forall>i\<in>B. i \<in> ob_id ` set (outbox s')"
    using inv fwd by (fastforce simp: forum_inv_def keeps_def image_iff)
  moreover have "\<exists>r'\<in>set (outbox s'). ob_id r' \<in> B \<and> ob_instance r' = fst p \<and> row_order r' = snd p"
    if p: "p \<in> set P" for p
  proof -
    obtain r where "r \<in> set (outbox s)" "ob_id r \<in> B" "ob_instance r = fst p" "row_order r = snd p"
      using forum_inv_posted [OF inv p] by blast
    then show ?thesis using fwd [of r] by (fastforce simp: keeps_def row_order_def)
  qed
  moreover have "map ob_id (outbox s') = map ob_id (outbox s)"
    using k by (auto simp: list_all2_conv_all_nth keeps_def intro: nth_equalityI)
  moreover have "ob_kind r' = ''FORUM_EVENT'' \<and> earlier_delivered s' r'" if rs: "r' \<in> set (outbox s')" "ob_id r' \<in> B" for r'
  proof -
    obtain r where r: "r \<in> set (outbox s)" "keeps r r'" using bwd [OF rs(1)] by blast
    then have "ob_kind r = ''FORUM_EVENT'' \<and> earlier_delivered s r"
      using inv rs(2) by (auto simp: forum_inv_def keeps_def)
    then show ?thesis using r(2) step [OF r(2)] by (auto simp: keeps_def)
  qed
  ultimately show ?thesis
    using inv unfolding forum_inv_def by auto
qed

lemma settle_keeps: "list_all2 keeps (outbox s) (outbox (settle now kind oid result s))"
  by (auto simp: settle_def mark_delivered_def mark_attempt_failed_def mark_dead_lettered_def
      update_undelivered_def keeps_def list_all2_conv_all_nth split: sum.splits channel_failure.splits)

lemma deliver_claimed_keeps: "list_all2 keeps (outbox s) (outbox (snd (deliver_claimed c a kind oid thread s)))"
  by (auto simp: deliver_claimed_def Let_def settle_keeps list.rel_refl split: option.splits)

lemma settle_failure_keeps: "list_all2 keeps (outbox s) (outbox (settle_attempt_failure now oid m None s))"
  by (auto simp: settle_attempt_failure_def mark_attempt_failed_def
      update_undelivered_def keeps_def list_all2_conv_all_nth)

lemma batch_rows:
  assumes "r \<in> set (next_pending_batch now kind n s)"
  shows "r \<in> set (outbox s)" "due now kind r" "\<not> held_back (outbox s) r"
  using assms by (auto simp: next_pending_batch_def dest!: in_set_takeD)

lemma forum_step_inv: "forum_step x y \<Longrightarrow> forum_inv x \<Longrightarrow> forum_inv y"
proof (induction rule: forum_step.induct)
  case (committed now oid inst kind key payload s s' B P)
  let ?r = "\<lparr>ob_id = oid, ob_instance = inst, ob_kind = kind, ob_key = key, ob_payload = payload,
          ob_attempts = 0, ob_next_at = now, ob_error = None, ob_delivered = None, ob_dead = None,
          ob_created = now\<rparr>"
  have s': "s' = s \<or> (oid \<notin> ob_id ` set (outbox s) \<and> s' = s\<lparr>outbox := outbox s @ [?r]\<rparr>)"
    using committed.hyps(1) by (auto simp: insert_outbox_def split: if_splits)
  show ?case
  proof (cases "s' = s")
    case False
    with s' have o: "outbox s' = outbox s @ [?r]" and new: "oid \<notin> ob_id ` set (outbox s)" by auto
    have "oid \<notin> B" using new committed.prems by (auto simp: forum_inv_def)
    moreover have "earlier_delivered s' r" if "r \<in> set (outbox s)" "earlier_delivered s r" for r
      using that committed.hyps(2) [of r] by (auto simp: earlier_delivered_def o row_order_def)
    moreover have "ob_id q \<in> B \<Longrightarrow> q \<in> set (outbox s') \<Longrightarrow> q \<in> set (outbox s)" for q
      using \<open>oid \<notin> B\<close> o by auto
    moreover have "distinct (map ob_id (outbox s'))" using committed.prems new by (simp add: forum_inv_def o)
    moreover have "set (outbox s) \<subseteq> set (outbox s')" by (auto simp: o)
    ultimately show ?thesis
      using committed.prems unfolding forum_inv_def prod.case by blast
  qed (use committed.prems in simp)
next
  case (polled s B P now n)
  have "ob_kind r = ''FORUM_EVENT'' \<and> earlier_delivered s r" if r: "r \<in> set (outbox s)"
    and rb: "ob_id r \<in> ob_id ` set (next_pending_batch now ''FORUM_EVENT'' n s)" for r
  proof -
    obtain q where q: "q \<in> set (next_pending_batch now ''FORUM_EVENT'' n s)" "ob_id q = ob_id r"
      using rb by auto
    then have "q = r"
      using batch_rows(1) [OF q(1)] r polled.prems by (auto simp: forum_inv_def dest: distinct_map_eqD)
    then show ?thesis
      using batch_rows(2,3) [OF q(1)] by (auto simp: due_def held_back_def earlier_delivered_def list_ex_iff)
  qed
  moreover have "ob_id ` set (next_pending_batch now ''FORUM_EVENT'' n s) \<subseteq> ob_id ` set (outbox s)"
    using batch_rows(1) by blast
  ultimately show ?case using polled.prems unfolding forum_inv_def prod.case by blast
next
  case (attempted r s B a c thread ok s' sent t P)
  have t: "forum_inv (t, B, P)"
    using attempted deliver_claimed_keeps [of s c a "''FORUM_EVENT''" "ob_id r" thread]
    by (auto intro: forum_inv_update)
  have "list_all2 keeps (outbox s) (outbox t)"
    using attempted.hyps(4,6) deliver_claimed_keeps [of s c a "''FORUM_EVENT''" "ob_id r" thread]
    by (auto intro: list.rel_refl)
  then obtain r' where r': "r' \<in> set (outbox t)" "keeps r r'"
    using attempted.hyps(1) by (fastforce simp: list_all2_conv_all_nth in_set_conv_nth)
  have le: "k \<le> row_order r" if ik: "(ob_instance r, k) \<in> set P" for k
  proof (rule ccontr)
    assume "\<not> k \<le> row_order r"
    moreover obtain q where q: "q \<in> set (outbox s)" "ob_id q \<in> B" "ob_instance q = ob_instance r" "row_order q = k"
      using forum_inv_posted [OF attempted.prems ik] by auto
    ultimately have "ob_delivered r \<noteq> None"
      using attempted.prems attempted.hyps(1) claim_rowD(3) [OF attempted.hyps(3)]
      by (auto simp: forum_inv_def earlier_delivered_def)
    then show False using claim_rowD(4) [OF attempted.hyps(3)] by simp
  qed
  have "sorted (map snd (filter (\<lambda>p. fst p = i) (P @ [(ob_instance r, row_order r)])))" for i
    using attempted.prems le by (auto simp: forum_inv_def sorted_append)
  moreover have "\<exists>q\<in>set (outbox t). ob_id q \<in> B \<and> ob_instance q = ob_instance r \<and> row_order q = row_order r"
    using r' attempted.hyps(2) keeps_order [OF r'(2)] by (auto simp: keeps_def)
  ultimately show ?case using t by (auto simp: forum_inv_def)
next
  case (unprepared s B P now oid m)
  then show ?case by (rule forum_inv_update) (rule settle_failure_keeps)
qed

end
