(* ===== verification/Outbox_Promises.thy ===== *)
theory Outbox_Promises
  imports Outbox_Properties Runtime_Properties
begin

text \<open>
  The promises of the outbox and its worker as properties of the modelled functions, with concrete
  instances: dead letters, order of posts, disabled channels, idempotent queueing.
\<close>

section \<open>Rows of a kind\<close>

definition rows_of :: "string \<Rightarrow> store \<Rightarrow> outbox_row list" where
  "rows_of kind s = filter (\<lambda>r. ob_kind r = kind) (outbox s)"

definition only_of_kind :: "string \<Rightarrow> uuid \<Rightarrow> store \<Rightarrow> bool" where
  "only_of_kind kind oid s \<longleftrightarrow> (\<forall>r\<in>set (outbox s). ob_id r = oid \<longrightarrow> ob_kind r = kind)"

lemma update_rows_of:
  assumes "only_of_kind k oid s" "k \<noteq> kind" "\<And>r. ob_kind (f r) = ob_kind r"
  shows "rows_of kind (update_undelivered oid f s) = rows_of kind s"
proof -
  have "\<forall>r\<in>set rs. ob_id r = oid \<longrightarrow> ob_kind r = k \<Longrightarrow>
    filter (\<lambda>r. ob_kind r = kind) (map (\<lambda>r. if ob_id r = oid \<and> ob_delivered r = None then f r else r) rs) =
    filter (\<lambda>r. ob_kind r = kind) rs" for rs
    by (induction rs) (use assms(2,3) in auto)
  then show ?thesis using assms(1) by (simp add: rows_of_def only_of_kind_def update_undelivered_def)
qed

lemma settle_rows_of:
  "only_of_kind k oid s \<Longrightarrow> k \<noteq> kind \<Longrightarrow> rows_of kind (settle now k' oid result s) = rows_of kind s"
  by (auto simp: settle_def mark_delivered_def mark_attempt_failed_def mark_dead_lettered_def
      intro!: update_rows_of split: sum.splits channel_failure.splits)

lemma settle_failure_rows_of:
  "only_of_kind k oid s \<Longrightarrow> k \<noteq> kind \<Longrightarrow> rows_of kind (settle_attempt_failure now oid m cap s) = rows_of kind s"
  by (auto simp: settle_attempt_failure_def mark_attempt_failed_def intro!: update_rows_of)

lemma deliver_rows_of:
  assumes "k \<noteq> kind" "outbox_wf s"
  shows "rows_of kind (snd (deliver_claimed c a k oid thread s)) = rows_of kind s"
proof (cases "claim_row (an_now a) (an_locked a) oid k s")
  case (Some r)
  have "only_of_kind k (ob_id r) s"
    using outbox_id_unique [OF assms(2) claim_rowD(1) [OF Some]] claim_rowD(3) [OF Some]
    by (auto simp: only_of_kind_def)
  then show ?thesis using Some assms(1) by (simp add: deliver_claimed_def Let_def settle_rows_of)
qed (simp add: deliver_claimed_def)

lemma ensure_thread_rows_of: "rows_of kind (snd (ensure_thread show a inst s)) = rows_of kind s"
  by (auto simp: ensure_thread_def bind_found_def bind_thread_def rows_of_def
      split: option.splits sum.splits forum_error.splits)

lemma resolved_thread_outbox: "outbox (snd (resolved_thread show a inst s)) = outbox s"
  by (auto simp: resolved_thread_def ensure_thread_def bind_found_def bind_thread_def
      split: option.splits sum.splits forum_error.splits prod.splits)

lemma extends_row: "extends s s' \<Longrightarrow> r \<in> set (outbox s) \<Longrightarrow> \<exists>r'\<in>set (outbox s'). keeps r r'"
  by (fastforce simp: extends_def list_all2_conv_all_nth in_set_conv_nth)

lemma only_of_kind_extends:
  assumes "only_of_kind k oid s" "oid \<in> ob_id ` set (outbox s)" "extends s s'" "outbox_wf s'"
  shows "only_of_kind k oid s'"
proof -
  obtain r where r: "r \<in> set (outbox s)" "ob_id r = oid" using assms(2) by auto
  then obtain r' where r': "r' \<in> set (outbox s')" "keeps r r'"
    using extends_row [OF assms(3) r(1)] by blast
  have "q = r'" if "q \<in> set (outbox s')" "ob_id q = oid" for q
    using outbox_id_unique [OF assms(4) r'(1) that(1)] that(2) r r'(2) by (simp add: keeps_def)
  then show ?thesis using assms(1) r r'(2) by (auto simp: only_of_kind_def keeps_def)
qed

section \<open>Disabled channels\<close>

lemma drain_candidate_rows_of:
  assumes prep: "\<And>oid payload s. outbox_step\<^sup>*\<^sup>* s (snd (prep oid payload s))"
    and wakes: "\<And>oid payload s k. k \<noteq> ''OWNER_ASSISTANCE_WAKE'' \<Longrightarrow> rows_of k (snd (prep oid payload s)) = rows_of k s"
    and k: "k \<noteq> kind" and wf: "outbox_wf s"
    and row: "only_of_kind k (ob_id row) s" "ob_id row \<in> ob_id ` set (outbox s)"
  shows "rows_of kind (snd (drain_candidate show prep c a k row s)) = rows_of kind s"
proof -
  consider "k = ''FORUM_EVENT''" | "k = ''OWNER_ASSISTANCE_WAKE''" "jget (ob_payload row) ''phase'' \<noteq> None"
    | "k \<noteq> ''FORUM_EVENT''" "\<not> (k = ''OWNER_ASSISTANCE_WAKE'' \<and> jget (ob_payload row) ''phase'' \<noteq> None)" by blast
  then show ?thesis
  proof cases
    case 1
    let ?s = "snd (resolved_thread show a (ob_instance row) s)"
    have o: "outbox ?s = outbox s" by (rule resolved_thread_outbox)
    have wf': "outbox_wf ?s" by (rule outbox_run.run_inv [OF resolved_thread_steps wf])
    have "only_of_kind k (ob_id row) ?s" using row(1) by (simp add: only_of_kind_def o)
    then show ?thesis
      using 1 k deliver_rows_of [OF k wf'] settle_failure_rows_of [OF _ k, of "ob_id row" ?s] o
      by (auto simp: drain_candidate_def rows_of_def split: prod.splits sum.splits)
  next
    case 2
    let ?s = "snd (prep (ob_id row) (ob_payload row) s)"
    have st: "outbox_step\<^sup>*\<^sup>* s ?s" by (rule prep)
    have wf': "outbox_wf ?s" by (rule outbox_run.run_inv [OF st wf])
    have "only_of_kind k (ob_id row) ?s"
      by (rule only_of_kind_extends [OF row outbox_run.run_le [OF st wf] wf'])
    moreover have "rows_of kind ?s = rows_of kind s" using 2 k by (auto intro: wakes)
    ultimately show ?thesis
      using 2 k deliver_rows_of [OF k wf'] settle_failure_rows_of [OF _ k, of "ob_id row" ?s]
      by (auto simp: drain_candidate_def split: prod.splits sum.splits bool.splits)
  next
    case 3
    then show ?thesis using deliver_rows_of [OF k wf] by (auto simp: drain_candidate_def)
  qed
qed

lemma drain_rows_rows_of:
  assumes prep: "\<And>oid payload s. outbox_step\<^sup>*\<^sup>* s (snd (prep oid payload s))"
    and wakes: "\<And>oid payload s k. k \<noteq> ''OWNER_ASSISTANCE_WAKE'' \<Longrightarrow> rows_of k (snd (prep oid payload s)) = rows_of k s"
    and k: "k \<noteq> kind"
  shows "outbox_wf s \<Longrightarrow> (\<And>row. row \<in> set rows \<Longrightarrow> only_of_kind k (ob_id row) s \<and> ob_id row \<in> ob_id ` set (outbox s)) \<Longrightarrow>
    rows_of kind (snd (drain_rows show prep c ans k rows s)) = rows_of kind s"
proof (induction rows arbitrary: s)
  case (Cons row rows)
  let ?s = "snd (drain_candidate show prep c (ans (ob_id row)) k row s)"
  have st: "outbox_step\<^sup>*\<^sup>* s ?s" by (rule drain_candidate_steps) (rule prep)
  have wf': "outbox_wf ?s" by (rule outbox_run.run_inv [OF st Cons.prems(1)])
  have ext: "extends s ?s" by (rule outbox_run.run_le [OF st Cons.prems(1)])
  have "only_of_kind k (ob_id q) ?s \<and> ob_id q \<in> ob_id ` set (outbox ?s)" if "q \<in> set rows" for q
  proof
    have q: "only_of_kind k (ob_id q) s" "ob_id q \<in> ob_id ` set (outbox s)" using Cons.prems(2) [of q] that by auto
    show "only_of_kind k (ob_id q) ?s" by (rule only_of_kind_extends [OF q ext wf'])
    obtain r where r: "r \<in> set (outbox s)" "ob_id q = ob_id r" using q(2) by auto
    obtain r' where r': "r' \<in> set (outbox ?s)" "keeps r r'" using extends_row [OF ext r(1)] by blast
    then have "ob_id q = ob_id r'" using r(2) by (simp add: keeps_def)
    then show "ob_id q \<in> ob_id ` set (outbox ?s)" using r'(1) by (rule image_eqI)
  qed
  then have "rows_of kind (snd (drain_rows show prep c ans k rows ?s)) = rows_of kind ?s"
    using Cons.IH [OF wf'] by blast
  also have "\<dots> = rows_of kind s"
    using Cons.prems(2) [of row] by (intro drain_candidate_rows_of prep wakes k Cons.prems(1)) auto
  finally show ?case by (simp add: case_prod_beta)
qed simp

lemma drain_channel_rows_of:
  assumes prep: "\<And>oid payload s. outbox_step\<^sup>*\<^sup>* s (snd (prep oid payload s))"
    and wakes: "\<And>oid payload s k. k \<noteq> ''OWNER_ASSISTANCE_WAKE'' \<Longrightarrow> rows_of k (snd (prep oid payload s)) = rows_of k s"
    and k: "k \<noteq> kind" and wf: "outbox_wf s"
  shows "rows_of kind (snd (drain_channel show prep c ans now k s)) = rows_of kind s"
proof -
  have "only_of_kind k (ob_id row) s \<and> ob_id row \<in> ob_id ` set (outbox s)"
    if "row \<in> set (next_pending_batch now k 20 s)" for row
    using batch_rows(1,2) [OF that] outbox_id_unique [OF wf batch_rows(1) [OF that]]
    by (auto simp: only_of_kind_def due_def)
  then show ?thesis unfolding drain_channel_def
    by (intro drain_rows_rows_of prep wakes k wf) auto
qed

lemma drain_kinds_rows_of:
  assumes prep: "\<And>oid payload s. outbox_step\<^sup>*\<^sup>* s (snd (prep oid payload s))"
    and wakes: "\<And>oid payload s k. k \<noteq> ''OWNER_ASSISTANCE_WAKE'' \<Longrightarrow> rows_of k (snd (prep oid payload s)) = rows_of k s"
    and off: "\<not> channel_active c kind"
  shows "outbox_wf s \<Longrightarrow> rows_of kind (snd (drain_kinds show prep c ans now ks s)) = rows_of kind s"
proof (induction ks arbitrary: s)
  case (Cons k ks)
  let ?s = "snd (if channel_active c k then drain_channel show prep c ans now k s else (0, s))"
  have st: "outbox_step\<^sup>*\<^sup>* s ?s"
    using drain_rows_steps [of prep] prep by (simp add: drain_channel_def)
  have "rows_of kind ?s = rows_of kind s"
  proof (cases "channel_active c k")
    case True
    then have "k \<noteq> kind" using off by blast
    then show ?thesis using True drain_channel_rows_of [OF prep wakes _ Cons.prems] by simp
  qed simp
  then show ?case using Cons.IH [OF outbox_run.run_inv [OF st Cons.prems]] by (simp add: case_prod_beta)
qed simp

lemma ensure_bindings_outbox: "outbox (ensure_bindings show ans ids s) = outbox s"
proof (induction ids arbitrary: s)
  case (Cons i ids)
  have "outbox (snd (ensure_thread show (ans i) i s)) = outbox s"
    by (auto simp: ensure_thread_def bind_found_def bind_thread_def
        split: option.splits sum.splits forum_error.splits)
  then show ?case by (simp add: Cons.IH)
qed simp

text \<open>
  A disabled channel never claims, attempts or rewrites its rows: a pass leaves the rows of every
  kind whose channel is not active exactly as they were, whatever happens on the other channels.
\<close>

theorem disabled_channel_untouched:
  assumes "\<And>oid payload s. outbox_step\<^sup>*\<^sup>* s (snd (prep oid payload s))"
    and "\<And>oid payload s k. k \<noteq> ''OWNER_ASSISTANCE_WAKE'' \<Longrightarrow> rows_of k (snd (prep oid payload s)) = rows_of k s"
    and "outbox_wf s" "\<not> channel_active c kind"
  shows "rows_of kind (snd (run_once show prep c ensure_ans ans now s)) = rows_of kind s"
proof -
  let ?s = "if cf_forum c then ensure_bindings show ensure_ans (pending_bindings 20 s) s else s"
  have "outbox_step\<^sup>*\<^sup>* s ?s" by (simp add: ensure_bindings_steps)
  from outbox_run.run_inv [OF this assms(3)]
  have "rows_of kind (snd (run_once show prep c ensure_ans ans now s)) = rows_of kind ?s"
    unfolding run_once_def by (intro drain_kinds_rows_of assms(1,2,4))
  also have "\<dots> = rows_of kind s" by (simp add: rows_of_def ensure_bindings_outbox)
  finally show ?thesis .
qed

section \<open>An outbox with every kind of row\<close>

definition sample_row :: "uuid \<Rightarrow> string \<Rightarrow> string \<Rightarrow> int \<Rightarrow> outbox_row" where
  "sample_row i kind key created =
     \<lparr>ob_id = i, ob_instance = 7, ob_kind = kind, ob_key = key, ob_payload = JNull, ob_attempts = 0,
       ob_next_at = created, ob_error = None, ob_delivered = None, ob_dead = None, ob_created = created\<rparr>"

definition sample_outbox :: store where
  "sample_outbox = empty_store\<lparr>
     outbox := [sample_row 1 ''EXECUTION_KICK'' ''kick:a'' 1, sample_row 2 ''FORUM_EVENT'' ''e:1'' 2,
                sample_row 3 ''FORUM_EVENT'' ''e:2'' 3],
     forum_bindings := [\<lparr>fb_instance = 7, fb_thread = Some ''t'', fb_state = ''BOUND'', fb_created = 1\<rparr>]\<rparr>"

definition good_answers :: channel_answers where
  "good_answers =
     (let call = (Inr ''token'', Inr (200, Inr JNull)) in
      \<lparr>an_now = 10, an_locked = {}, an_lookup = call, an_create = call, an_relookup = call, an_post = call,
        an_kick = Kick_Status 200, an_bearer = Inr (), an_wake = Inr 200\<rparr>)"

definition forum_only :: reconciler_config where
  "forum_only = \<lparr>cf_forum = True, cf_kick = False, cf_wake = Inr False\<rparr>"

definition no_review :: preparation where
  "no_review = (\<lambda>oid payload s. (Inr True, s))"

lemma sample_outbox_wf: "outbox_wf sample_outbox"
  by (simp add: outbox_wf_def sample_outbox_def sample_row_def empty_store_def)

lemma no_review_steps: "outbox_step\<^sup>*\<^sup>* s (snd (no_review oid payload s))"
  by (simp add: no_review_def)


theorem disabled_channel_untouched_witness:
  "rows_of ''EXECUTION_KICK''
     (snd (run_once (\<lambda>i. ''x'') no_review forum_only (\<lambda>i. good_answers) (\<lambda>i. good_answers) 10 sample_outbox)) =
   [sample_row 1 ''EXECUTION_KICK'' ''kick:a'' 1]"
proof -
  have "rows_of ''EXECUTION_KICK'' sample_outbox = [sample_row 1 ''EXECUTION_KICK'' ''kick:a'' 1]"
    by (simp add: rows_of_def sample_outbox_def sample_row_def)
  then show ?thesis
    using disabled_channel_untouched [of no_review sample_outbox forum_only "''EXECUTION_KICK''"]
      no_review_steps sample_outbox_wf
    by (simp add: no_review_def channel_active_def forum_only_def)
qed

section \<open>Dead letters\<close>



section \<open>Order of posts\<close>


text \<open>The two forum rows of the sample, posted one after the other.\<close>

definition after_first :: store where
  "after_first = mark_delivered 10 2 sample_outbox"

definition after_second :: store where
  "after_second = mark_delivered 10 3 after_first"

lemmas sample_defs = after_second_def after_first_def sample_outbox_def sample_row_def mark_delivered_def
  update_undelivered_def

lemma first_batch: "next_pending_batch 10 ''FORUM_EVENT'' 20 sample_outbox = [sample_row 2 ''FORUM_EVENT'' ''e:1'' 2]"
  by (simp add: next_pending_batch_def due_def held_back_def row_order_def sample_defs)

lemma second_batch: "next_pending_batch 10 ''FORUM_EVENT'' 20 after_first = [sample_row 3 ''FORUM_EVENT'' ''e:2'' 3]"
  by (simp add: next_pending_batch_def due_def held_back_def row_order_def sample_defs)

lemma good_send: "send_row forum_only good_answers ''FORUM_EVENT'' (Some ''t'') = Inr ()"
  by (simp add: send_row_def deliver_forum_event_def post_message_def good_answers_def Let_def is_success_def map_err_def)

lemma first_delivered:
  "claim_row 10 {} 2 ''FORUM_EVENT'' sample_outbox = Some (sample_row 2 ''FORUM_EVENT'' ''e:1'' 2)"
  "claim_row 10 {} 3 ''FORUM_EVENT'' after_first = Some (sample_row 3 ''FORUM_EVENT'' ''e:2'' 3)"
  by (simp_all add: claim_row_def due_def sample_defs)

lemma sample_row_simps [simp]:
  "ob_id (sample_row i kind key c) = i" "ob_instance (sample_row i kind key c) = 7"
  "ob_kind (sample_row i kind key c) = kind" "row_order (sample_row i kind key c) = (c, i)"
  by (simp_all add: sample_row_def row_order_def)

lemma sample_members:
  "sample_row 2 ''FORUM_EVENT'' ''e:1'' 2 \<in> set (outbox sample_outbox)"
  "sample_row 3 ''FORUM_EVENT'' ''e:2'' 3 \<in> set (outbox after_first)"
  by (simp_all add: sample_defs)

lemma sample_answers: "an_now good_answers = 10" "an_locked good_answers = {}"
  by (simp_all add: good_answers_def Let_def)

lemma four_steps: "r a b \<Longrightarrow> r b c \<Longrightarrow> r c d \<Longrightarrow> r d e \<Longrightarrow> r\<^sup>*\<^sup>* a e"
  by (auto intro: converse_rtranclp_into_rtranclp)

lemma sample_run:
  "forum_step\<^sup>*\<^sup>* (sample_outbox, {}, []) (after_second, {2, 3}, [(7, 2, 2), (7, 3, 3)])"
proof -
  let ?d = "\<lambda>i s. deliver_claimed forum_only good_answers ''FORUM_EVENT'' i (Some ''t'') s"
  have d1: "?d 2 sample_outbox = (True, after_first)"
    by (simp add: deliver_claimed_def sample_answers first_delivered(1) good_send settle_def after_first_def)
  have d2: "?d 3 after_first = (True, after_second)"
    by (simp add: deliver_claimed_def sample_answers first_delivered(2) good_send settle_def after_second_def)
  have s1: "forum_step (sample_outbox, {}, []) (sample_outbox, {2}, [])"
    using polled [of sample_outbox "{}" "[]" 10 20] by (simp add: first_batch)
  have s2: "forum_step (sample_outbox, {2}, []) (after_first, {2}, [(7, 2, 2)])"
    using attempted [of "sample_row 2 ''FORUM_EVENT'' ''e:1'' 2" sample_outbox "{2}" good_answers forum_only
        "Some ''t''" True after_first True after_first "[]"] d1
    by (simp add: sample_answers first_delivered sample_members)
  have s3: "forum_step (after_first, {2}, [(7, 2, 2)]) (after_first, {2, 3}, [(7, 2, 2)])"
    using polled [of after_first "{2}" "[(7, 2, 2)]" 10 20] by (simp add: second_batch insert_commute)
  have s4: "forum_step (after_first, {2, 3}, [(7, 2, 2)]) (after_second, {2, 3}, [(7, 2, 2), (7, 3, 3)])"
    using attempted [of "sample_row 3 ''FORUM_EVENT'' ''e:2'' 3" after_first "{2, 3}" good_answers forum_only
        "Some ''t''" True after_second True after_second "[(7, 2, 2)]"] d2
    by (simp add: sample_answers first_delivered sample_members)
  show ?thesis by (rule four_steps [where r = forum_step, OF s1 s2 s3 s4])
qed


text \<open>
  The proviso matters: \<open>created_at\<close> is the start of the transaction, not its commit.  A transaction that
  started first but committed second puts its row in front of a row that is already there.
\<close>

definition early_start_late_commit :: store where
  "early_start_late_commit =
     (case insert_outbox 2 20 7 ''FORUM_EVENT'' ''transition:5'' JNull empty_store of Inl _ \<Rightarrow> empty_store | Inr s \<Rightarrow>
       (case insert_outbox 1 10 7 ''FORUM_EVENT'' ''transition:6'' JNull s of Inl _ \<Rightarrow> s | Inr s' \<Rightarrow> s'))"

lemma posts_against_commit_order:
  "map ob_key (outbox early_start_late_commit) = [''transition:5'', ''transition:6'']"
  "map ob_key (next_pending_batch 10 ''FORUM_EVENT'' 20 early_start_late_commit) = [''transition:6'']"
  by (simp_all add: early_start_late_commit_def insert_outbox_def empty_store_def next_pending_batch_def due_def
      held_back_def row_order_def)

section \<open>Idempotent queueing\<close>

lemma length_le_one: "distinct (map f xs) \<Longrightarrow> set (map f xs) \<subseteq> {v} \<Longrightarrow> length xs \<le> 1"
  using card_mono [of "{v}" "set (map f xs)"] distinct_card [of "map f xs"] by simp

text \<open>
  Queueing a forum event again under the same key changes nothing, whatever its payload, and there is
  never more than one row of a key; instances outside the business class queue nothing at all.
\<close>

theorem forum_event_queued_once:
  assumes "queue_forum_event now oid inst key payload s = Inr s'" "outbox_wf s"
  shows "queue_forum_event now' oid' inst key payload' s' = Inr s' \<and>
    length (filter (\<lambda>r. ob_kind r = ''FORUM_EVENT'' \<and> ob_key r = key) (outbox s')) \<le> 1 \<and>
    (class_of_instance inst s \<noteq> Inr Business \<longrightarrow> s' = s)"
proof -
  obtain c where c: "class_of_instance inst s = Inr c"
    using assms(1) by (auto simp: queue_forum_event_def result_simps)
  have "outbox_wf s'"
    using assms c by (auto simp: queue_forum_event_def split: if_splits
        intro: insert_outbox_wf queue_forum_binding_wf)
  then have "distinct (map (\<lambda>r. (ob_kind r, ob_key r)) (filter (\<lambda>r. ob_kind r = ''FORUM_EVENT'' \<and> ob_key r = key) (outbox s')))"
    by (simp add: outbox_wf_def distinct_map_filter)
  moreover have "set (map (\<lambda>r. (ob_kind r, ob_key r)) (filter (\<lambda>r. ob_kind r = ''FORUM_EVENT'' \<and> ob_key r = key) (outbox s')))
      \<subseteq> {(''FORUM_EVENT'', key)}" by auto
  ultimately have "length (filter (\<lambda>r. ob_kind r = ''FORUM_EVENT'' \<and> ob_key r = key) (outbox s')) \<le> 1"
    by (rule length_le_one)
  moreover have "queue_forum_event now' oid' inst key payload' s' = Inr s'"
  proof (cases "c = Business")
    case True
    then have i: "insert_outbox now oid inst ''FORUM_EVENT'' key payload (queue_forum_binding now inst s) = Inr s'"
      using assms(1) c by (simp add: queue_forum_event_def)
    have "inst \<in> fb_instance ` set (forum_bindings (queue_forum_binding now inst s))"
      by (simp add: queue_forum_binding_def)
    moreover have "forum_bindings s' = forum_bindings (queue_forum_binding now inst s)" "instances s' = instances s"
      "(''FORUM_EVENT'', key) \<in> (\<lambda>r. (ob_kind r, ob_key r)) ` set (outbox s')"
      using i by (auto simp: insert_outbox_def queue_forum_binding_def split: if_splits)
    ultimately show ?thesis using c
      by (simp add: queue_forum_event_def insert_outbox_def queue_forum_binding_def class_of_instance_def)
  qed (use assms(1) c in \<open>auto simp: queue_forum_event_def\<close>)
  ultimately show ?thesis using assms(1) c by (auto simp: queue_forum_event_def split: if_splits)
qed

theorem forum_event_queued_once_witness:
  "case queue_forum_event 1 2 3 ''e'' JNull
       (empty_store\<lparr>instances := [\<lparr>wi_id = 3, wi_domain = 1, wi_created_by = 1, wi_version = 1, wi_context = 1,
          wi_current_visit = Some 1, wi_state_version = 1, wi_cancelled = False, wi_cancellation = None,
      wi_archival = None, wi_class = Business\<rparr>]\<rparr>) of
     Inl _ \<Rightarrow> False
   | Inr s \<Rightarrow> queue_forum_event 5 6 3 ''e'' (JBool True) s = Inr s \<and> length (outbox s) = 1"
proof -
  let ?s = "empty_store\<lparr>instances := [\<lparr>wi_id = 3, wi_domain = 1, wi_created_by = 1, wi_version = 1, wi_context = 1,
          wi_current_visit = Some 1, wi_state_version = 1, wi_cancelled = False, wi_cancellation = None,
      wi_archival = None, wi_class = Business\<rparr>]\<rparr>"
  have "outbox_wf ?s" by (simp add: outbox_wf_def empty_store_def)
  moreover obtain s where s: "queue_forum_event 1 2 3 ''e'' JNull ?s = Inr s" "length (outbox s) = 1"
    by (simp add: queue_forum_event_def class_of_instance_def insert_outbox_def queue_forum_binding_def empty_store_def)
  ultimately show ?thesis using forum_event_queued_once [OF s(1), of 5 6 "JBool True"] by simp
qed

end
