(* ===== verification/Acceptance_Binding.thy ===== *)
theory Acceptance_Binding
  imports Model Text_Format
begin

text \<open>
  The acceptance binding of \<open>definition/acceptance_binding.rs\<close>: a reserved annotation of a submission
  schema, allowed only at the root of a TASK's primary ADVANCE, by which a submission must report a PASS
  for every criterion of the instance's context.  Each check is followed by what it decides.
\<close>

section \<open>Texts\<close>

definition dquoted :: "string \<Rightarrow> string" where
  "dquoted s = CHR 0x22 # s @ [CHR 0x22]"

definition annotation_key :: string where
  "annotation_key = ''x-workflow-acceptance-binding-v1''"

definition context_catalog_pointer :: string where
  "context_catalog_pointer = ''/acceptanceCriteria''"

definition submission_report_pointer :: string where
  "submission_report_pointer = ''/acceptanceReport''"

definition pass_verdict :: string where
  "pass_verdict = ''PASS''"

definition max_catalog_items :: nat where
  "max_catalog_items = 128"

definition max_description_bytes :: nat where
  "max_description_bytes = 4096"

definition max_catalog_id_bytes :: nat where
  "max_catalog_id_bytes = 64"

section \<open>The annotation\<close>

fun contains_annotation_at_any_depth :: "json \<Rightarrow> bool" where
  "contains_annotation_at_any_depth (JObject kvs) =
     (annotation_key \<in> fst ` set kvs \<or> list_ex (\<lambda>kv. contains_annotation_at_any_depth (snd kv)) kvs)"
| "contains_annotation_at_any_depth (JArray vs) = list_ex contains_annotation_at_any_depth vs"
| "contains_annotation_at_any_depth _ = False"

text \<open>The literal pointer a member must be.\<close>

definition annotation_member :: "(string \<times> json) list \<Rightarrow> string \<Rightarrow> string \<Rightarrow> (string, unit) res" where
  "annotation_member kvs member lit =
     guard_r (map_of kvs member = Some (JString lit))
       (annotation_key @ ''.'' @ member @ '' must be the literal string '' @ dquoted lit)"

definition validate_annotation_value :: "json \<Rightarrow> (string, unit) res" where
  "validate_annotation_value v =
     (case as_object v of
        None \<Rightarrow> Inl (annotation_key @
          '' must be an object with exactly the members contextCatalogPointer and submissionReportPointer'')
      | Some kvs \<Rightarrow>
          if length kvs \<noteq> 2
          then Inl (annotation_key @ '' must contain exactly contextCatalogPointer and '' @
                 ''submissionReportPointer; found '' @ show_nat (length kvs) @ '' member(s)'')
          else andThen (annotation_member kvs ''contextCatalogPointer'' context_catalog_pointer) (\<lambda>_.
                 annotation_member kvs ''submissionReportPointer'' submission_report_pointer))"

text \<open>Occurrences strictly below the root level.\<close>

definition nested_member :: "string \<times> json \<Rightarrow> bool" where
  "nested_member kv =
     (if fst kv = annotation_key
      then (case snd kv of
              JObject inner \<Rightarrow> list_ex (\<lambda>kv. contains_annotation_at_any_depth (snd kv)) inner
            | v \<Rightarrow> contains_annotation_at_any_depth v)
      else contains_annotation_at_any_depth (snd kv))"

definition nested_occurrence :: "json \<Rightarrow> bool" where
  "nested_occurrence schema =
     (case as_object schema of
        None \<Rightarrow> contains_annotation_at_any_depth schema
      | Some kvs \<Rightarrow> list_ex nested_member kvs)"

text \<open>\<open>Ok(Some(..))\<close> is \<open>Inr True\<close>: a well-formed annotation at the root and nowhere else.\<close>

definition inspect_submission_schema :: "json \<Rightarrow> (string, bool) res" where
  "inspect_submission_schema schema =
     (let root_present = (case as_object schema of None \<Rightarrow> False | Some kvs \<Rightarrow> annotation_key \<in> fst ` set kvs)
      in andThen (if root_present then validate_annotation_value (jindex schema annotation_key) else Inr ()) (\<lambda>_.
         if nested_occurrence schema
         then Inl (annotation_key @ '' is reserved and may appear only at the root of a '' @
                ''transition submission schema; nested occurrence found'')
         else Inr root_present))"

section \<open>The catalog of the context\<close>

definition is_valid_catalog_id :: "string \<Rightarrow> bool" where
  "is_valid_catalog_id i =
     (case i of
        [] \<Rightarrow> False
      | c # cs \<Rightarrow> length i \<le> max_catalog_id_bytes \<and> is_ascii_alnum c \<and>
          list_all (\<lambda>c. is_ascii_alnum c \<or> c = CHR ''_'' \<or> c = CHR ''-'') cs)"

definition str_member :: "(string \<times> json) list \<Rightarrow> string \<Rightarrow> string option" where
  "str_member kvs k = Option.bind (map_of kvs k) as_str"

definition catalog_entry_text :: "nat \<Rightarrow> string \<Rightarrow> string" where
  "catalog_entry_text i t = ''acceptanceCriteria entry '' @ show_nat i @ t"

definition catalog_entry :: "nat \<Rightarrow> string list \<Rightarrow> json \<Rightarrow> (string, string) res" where
  "catalog_entry i seen item =
     (case as_object item of
        None \<Rightarrow> Inl (catalog_entry_text i '' must be an object with exactly id and description'')
      | Some kvs \<Rightarrow>
          if length kvs \<noteq> 2 then Inl (catalog_entry_text i ('' must contain exactly id and description; found '' @
                 show_nat (length kvs) @ '' member(s)''))
          else case str_member kvs ''id'' of
            None \<Rightarrow> Inl (catalog_entry_text i '' must carry a string id'')
          | Some cid \<Rightarrow>
              if \<not> is_valid_catalog_id cid then Inl (catalog_entry_text i '' id must match [A-Za-z0-9][A-Za-z0-9_-]{0,63}'')
              else if cid \<in> set seen then Inl (''acceptanceCriteria contains duplicate id '' @ CHR 0x27 # cid @ [CHR 0x27])
              else case str_member kvs ''description'' of
                None \<Rightarrow> Inl (catalog_entry_text i '' must carry a string description'')
              | Some d \<Rightarrow>
                  if trim d = [] then Inl (catalog_entry_text i '' description must be a nonblank string'')
                  else if length d > max_description_bytes
                  then Inl (catalog_entry_text i ('' description exceeds '' @ show_nat max_description_bytes @ '' UTF-8 bytes''))
                  else Inr cid)"

fun catalog_loop :: "nat \<Rightarrow> string list \<Rightarrow> json list \<Rightarrow> (string, string list) res" where
  "catalog_loop i ids [] = Inr ids"
| "catalog_loop i ids (item # items) =
     andThen (catalog_entry i ids item) (\<lambda>cid. catalog_loop (i + 1) (ids @ [cid]) items)"

definition validate_catalog :: "json \<Rightarrow> (string, string list) res" where
  "validate_catalog catalog =
     (case as_array catalog of
        None \<Rightarrow> Inl ''acceptanceCriteria catalog must be a JSON array''
      | Some items \<Rightarrow>
          if items = [] then Inl (''acceptanceCriteria catalog must contain 1-'' @ show_nat max_catalog_items @ '' entries'')
          else if length items > max_catalog_items
          then Inl (''acceptanceCriteria catalog exceeds '' @ show_nat max_catalog_items @ '' entries'')
          else catalog_loop 0 [] items)"

section \<open>The report of a submission\<close>

definition report_entry_text :: "nat \<Rightarrow> string \<Rightarrow> string" where
  "report_entry_text i t = ''acceptanceReport results entry '' @ show_nat i @ t"

definition report_entry :: "nat \<Rightarrow> string list \<Rightarrow> json \<Rightarrow> (string, string) res" where
  "report_entry i seen entry =
     (case as_object entry of
        None \<Rightarrow> Inl (report_entry_text i '' must be an object'')
      | Some kvs \<Rightarrow>
          (case str_member kvs ''id'' of
             None \<Rightarrow> Inl (report_entry_text i '' must carry a string id'')
           | Some rid \<Rightarrow>
               if map_of kvs ''verdict'' \<noteq> Some (JString pass_verdict)
               then Inl (report_entry_text i ('' verdict must be the literal string '' @ dquoted pass_verdict))
               else if rid \<in> set seen
               then Inl (''acceptanceReport contains duplicate result id '' @ CHR 0x27 # rid @ [CHR 0x27])
               else Inr rid))"

fun report_loop :: "nat \<Rightarrow> string list \<Rightarrow> json list \<Rightarrow> (string, string list) res" where
  "report_loop i seen [] = Inr seen"
| "report_loop i seen (entry # entries) =
     andThen (report_entry i seen entry) (\<lambda>rid. report_loop (i + 1) (seen @ [rid]) entries)"

definition report_coverage :: "string list \<Rightarrow> string list \<Rightarrow> (string, unit) res" where
  "report_coverage seen catalog_ids =
     (if length seen \<noteq> length catalog_ids \<or> list_ex (\<lambda>i. i \<notin> set seen) catalog_ids then
        (let missing = length (filter (\<lambda>i. i \<notin> set seen) catalog_ids);
             unknown = length (filter (\<lambda>i. i \<notin> set catalog_ids) seen)
         in if missing > 0
            then Inl (''acceptanceReport results are missing '' @ show_nat missing @ '' required catalog id(s)'')
            else Inl (''acceptanceReport results contain '' @ show_nat unknown @
                   '' id(s) that are not in the instance'' @ CHR 0x27 # ''s catalog''))
      else Inr ())"

definition validate_acceptance_report ::
  "(uuid \<Rightarrow> string) \<Rightarrow> json \<Rightarrow> uuid \<Rightarrow> string list \<Rightarrow> (string, unit) res" where
  "validate_acceptance_report show payload ctx catalog_ids =
     andThen (ok_or (''submission is missing the acceptanceReport object at '' @ dquoted submission_report_pointer)
       (jget payload ''acceptanceReport'')) (\<lambda>report.
     case as_object report of
       None \<Rightarrow> Inl ''acceptanceReport must be an object''
     | Some kvs \<Rightarrow>
         (case map_of kvs ''contextRevisionId'' of
            None \<Rightarrow> Inl ''acceptanceReport.contextRevisionId is required''
          | Some v \<Rightarrow>
              if v \<noteq> JString (show ctx)
              then Inl (''acceptanceReport.contextRevisionId does not match the current '' @
                     ''Context revision of this instance'')
              else case Option.bind (map_of kvs ''results'') as_array of
                None \<Rightarrow> Inl ''acceptanceReport.results must be an array''
              | Some results \<Rightarrow> andThen (report_loop 0 [] results) (\<lambda>seen. report_coverage seen catalog_ids)))"

section \<open>Placement\<close>

text \<open>Whether, and why, a well-formed annotation is misplaced.\<close>

definition placement_violation ::
  "semantic_model_version \<Rightarrow> workflow_graph \<Rightarrow> transition_definition \<Rightarrow> string option" where
  "placement_violation model g t =
     (if model \<noteq> VisitActivation
      then Some (''the acceptance binding opt-in is allowed only on a model3 '' @
             ''(VISIT_ACTIVATION) definition version'')
      else if transition_effect t \<noteq> Advance
      then Some ''the acceptance binding opt-in is allowed only on ADVANCE transitions''
      else case find (\<lambda>n. node_id n = source_node_id t) (nodes g) of
        None \<Rightarrow> None
      | Some source \<Rightarrow>
          if node_type source \<noteq> NT_TASK
          then Some ''the acceptance binding opt-in source node kind must be TASK''
          else if primary_advance_transition_id source \<noteq> Some (transition_id t)
          then Some (''the acceptance binding opt-in is allowed only on the source TASK'' @ CHR 0x27 #
                 ''s primary ADVANCE transition'')
          else None)"

definition transition_placement ::
  "semantic_model_version \<Rightarrow> workflow_graph \<Rightarrow> transition_definition \<Rightarrow> graph_validation_error list" where
  "transition_placement model g t =
     (case submission_schema t of
        None \<Rightarrow> []
      | Some schema \<Rightarrow>
          (case inspect_submission_schema schema of
             Inl detail \<Rightarrow> [gve ''ACCEPTANCE_BINDING_MALFORMED'' [MStr (transition_key t), MStr detail]]
           | Inr False \<Rightarrow> []
           | Inr True \<Rightarrow>
               (case placement_violation model g t of
                  None \<Rightarrow> []
                | Some reason \<Rightarrow> [gve ''ACCEPTANCE_BINDING_MISPLACED'' [MStr (transition_key t), MStr reason]])))"

definition validate_graph_annotation_placement ::
  "semantic_model_version \<Rightarrow> workflow_graph \<Rightarrow> graph_validation_error list" where
  "validate_graph_annotation_placement model g =
     (case context_schema g of
        None \<Rightarrow> []
      | Some cs \<Rightarrow> push_if (contains_annotation_at_any_depth cs) (gve ''ACCEPTANCE_BINDING_MISPLACED'' [])) @
     concat (map (transition_placement model g) (transitions g))"

end
