(* ===== verification/Acceptance_Properties.thy ===== *)
theory Acceptance_Properties
  imports Acceptance_Binding Visit_Properties "HOL-Library.Multiset"
begin

text \<open>
  What the acceptance binding decides: the annotation is recognised exactly at the root, a catalog and a
  report are accepted exactly when they match item by item, and a published graph carries the annotation
  only on primary ADVANCE transitions of TASK nodes.
\<close>

section \<open>Occurrences of the annotation\<close>

fun occurrences :: "json \<Rightarrow> nat" where
  "occurrences (JObject kvs) =
     sum_list (map (\<lambda>kv. (if fst kv = annotation_key then 1 else 0) + occurrences (snd kv)) kvs)"
| "occurrences (JArray vs) = sum_list (map occurrences vs)"
| "occurrences _ = 0"

lemma sum_list_pos: "0 < sum_list (map f xs) \<longleftrightarrow> (\<exists>x\<in>set xs. 0 < f x)" for f :: "'a \<Rightarrow> nat"
  by (induction xs) auto

lemma contains_iff: "contains_annotation_at_any_depth v \<longleftrightarrow> 0 < occurrences v"
proof (induction v rule: occurrences.induct)
  case (1 kvs)
  then have "list_ex (\<lambda>kv. contains_annotation_at_any_depth (snd kv)) kvs \<longleftrightarrow> (\<exists>kv\<in>set kvs. 0 < occurrences (snd kv))"
    by (auto simp: list_ex_iff)
  then show ?case by (force simp: sum_list_pos simp del: sum_list_eq_0_iff)
next
  case (2 vs)
  then show ?case by (simp add: sum_list_pos list_ex_iff)
qed simp_all

text \<open>The one annotation value that is accepted.\<close>

definition binding_annotation :: json where
  "binding_annotation =
     JObject [(''contextCatalogPointer'', JString ''/acceptanceCriteria''),
              (''submissionReportPointer'', JString ''/acceptanceReport'')]"

lemma occurrences_binding: "occurrences binding_annotation = 0"
  by (simp add: binding_annotation_def annotation_key_def)

lemma two_members:
  assumes "json_wf (JObject kvs)" "length kvs = 2"
    and "map_of kvs a = Some x" "map_of kvs b = Some y" "a < b"
  shows "kvs = [(a, x), (b, y)]"
proof -
  obtain p q where kvs: "kvs = [p, q]" using assms(2) by (auto simp: length_Suc_conv numeral_2_eq_2)
  then show ?thesis using assms by (cases p; cases q) (auto split: if_splits)
qed

lemma validate_annotation_value_iff:
  "json_wf v \<Longrightarrow> validate_annotation_value v = Inr u \<longleftrightarrow> v = binding_annotation"
  using two_members [of _ "''contextCatalogPointer''" _ "''submissionReportPointer''"]
  by (auto simp: validate_annotation_value_def annotation_member_def result_simps binding_annotation_def
      context_catalog_pointer_def submission_report_pointer_def split: option.splits)

lemma nested_member_other: "fst kv \<noteq> annotation_key \<Longrightarrow> nested_member kv \<longleftrightarrow> 0 < occurrences (snd kv)"
  by (simp add: nested_member_def contains_iff)

lemma nested_member_binding: "\<not> nested_member (annotation_key, binding_annotation)"
  by (simp add: nested_member_def binding_annotation_def)

lemma occurrences_others:
  "annotation_key \<notin> fst ` set kvs \<Longrightarrow>
     sum_list (map (\<lambda>kv. (if fst kv = annotation_key then 1 else 0) + occurrences (snd kv)) kvs) = 0 \<longleftrightarrow>
     \<not> list_ex nested_member kvs"
  by (induction kvs) (auto simp: nested_member_other)

lemma inspect_object:
  assumes "json_wf (JObject kvs)"
  shows "inspect_submission_schema (JObject kvs) = Inr b \<longleftrightarrow>
    (if b then occurrences (JObject kvs) = 1 \<and> map_of kvs annotation_key = Some binding_annotation
     else occurrences (JObject kvs) = 0)"
proof (cases "map_of kvs annotation_key")
  case None
  then have k: "annotation_key \<notin> fst ` set kvs" by (simp add: map_of_eq_None_iff)
  show ?thesis
    using occurrences_others [OF k] k None
    by (auto simp: inspect_submission_schema_def nested_occurrence_def)
next
  case (Some v)
  then obtain xs ys where kvs: "kvs = xs @ (annotation_key, v) # ys"
    by (meson map_of_SomeD split_list)
  have wf: "json_wf v" using assms by (simp add: kvs)
  have k: "annotation_key \<notin> fst ` set xs" "annotation_key \<notin> fst ` set ys" using assms by (auto simp: kvs)
  have pos: "occurrences (JObject kvs) = 0 \<longleftrightarrow> False" by (simp add: kvs)
  have one: "occurrences (JObject kvs) = 1 \<longleftrightarrow> occurrences v = 0 \<and> \<not> list_ex nested_member xs \<and> \<not> list_ex nested_member ys"
    using occurrences_others [OF k(1)] occurrences_others [OF k(2)] by (auto simp: kvs simp del: sum_list_eq_0_iff)
  have i: "inspect_submission_schema (JObject kvs) =
      andThen (validate_annotation_value v) (\<lambda>_. if list_ex nested_member kvs
         then Inl (annotation_key @ '' is reserved and may appear only at the root of a '' @
                ''transition submission schema; nested occurrence found'') else Inr True)"
    using Some by (auto simp: inspect_submission_schema_def nested_occurrence_def jindex_def map_of_eq_None_iff
        dest: map_of_SomeD intro: rev_image_eqI)
  show ?thesis
  proof (cases "v = binding_annotation")
    case True
    then have "validate_annotation_value v = Inr ()" using validate_annotation_value_iff [OF wf] by blast
    then show ?thesis unfolding i pos one
      using True Some by (auto simp: occurrences_binding kvs nested_member_binding)
  next
    case False
    then show ?thesis unfolding i pos
      using Some validate_annotation_value_iff [OF wf] by (auto simp: result_simps)
  qed
qed

lemma inspect_iff:
  assumes "json_wf schema"
  shows "inspect_submission_schema schema = Inr b \<longleftrightarrow>
    (if b then occurrences schema = 1 \<and> jget schema annotation_key = Some binding_annotation
     else occurrences schema = 0)"
proof (cases schema)
  case (JObject kvs)
  then show ?thesis using inspect_object [of kvs b] assms by simp
qed (auto simp: inspect_submission_schema_def nested_occurrence_def contains_iff simp del: sum_list_eq_0_iff)

text \<open>
   Inspecting a submission schema finds the annotation exactly when it occurs once, at the root, with
  the two literal pointers; finds none exactly when it occurs nowhere; and refuses every other schema.
\<close>

theorem annotation_at_root_only:
  assumes "json_wf schema"
  shows "inspect_submission_schema schema = Inr b \<longleftrightarrow>
    (if b then occurrences schema = 1 \<and> jget schema annotation_key = Some binding_annotation
     else occurrences schema = 0)"
  using assms by (rule inspect_iff)

theorem annotation_at_root_only_witness:
  "inspect_submission_schema (JObject [(''type'', JString ''object''), (annotation_key, binding_annotation)]) = Inr True"
proof -
  have "json_wf (JObject [(''type'', JString ''object''), (annotation_key, binding_annotation)])"
    by (simp add: annotation_key_def binding_annotation_def)
  from annotation_at_root_only [OF this, of True] show ?thesis
    by (simp add: annotation_key_def binding_annotation_def)
qed

section \<open>Catalogs and reports\<close>

definition criterion :: "json \<Rightarrow> string \<Rightarrow> bool" where
  "criterion e i \<longleftrightarrow>
     (\<exists>kvs d. e = JObject kvs \<and> length kvs = 2 \<and> map_of kvs ''id'' = Some (JString i) \<and>
        map_of kvs ''description'' = Some (JString d) \<and> is_valid_catalog_id i \<and> trim d \<noteq> [] \<and> length d \<le> 4096)"

definition passes :: "json \<Rightarrow> string \<Rightarrow> bool" where
  "passes e i \<longleftrightarrow> jget e ''id'' = Some (JString i) \<and> jget e ''verdict'' = Some (JString ''PASS'')"

lemma catalog_entry_iff: "catalog_entry k seen e = Inr i \<longleftrightarrow> criterion e i \<and> i \<notin> set seen"
  by (auto simp: catalog_entry_def criterion_def str_member_def max_description_bytes_def bind_eq_Some_conv
      split: option.splits if_splits)

lemma report_entry_iff: "report_entry k seen e = Inr i \<longleftrightarrow> passes e i \<and> i \<notin> set seen"
  by (cases e) (auto simp: report_entry_def passes_def str_member_def pass_verdict_def bind_eq_Some_conv
      split: option.splits if_splits)

text \<open>
  Both loops check entry by entry, with the ids seen so far: they share one contract.
\<close>

locale entry_loop =
  fixes entry :: "nat \<Rightarrow> string list \<Rightarrow> json \<Rightarrow> (string, string) res"
    and loop :: "nat \<Rightarrow> string list \<Rightarrow> json list \<Rightarrow> (string, string list) res"
    and ok :: "json \<Rightarrow> string \<Rightarrow> bool"
  assumes entry_iff: "entry k seen e = Inr i \<longleftrightarrow> ok e i \<and> i \<notin> set seen"
    and loop_Nil: "loop k seen [] = Inr seen"
    and loop_Cons: "loop k seen (e # es) = andThen (entry k seen e) (\<lambda>i. loop (k + 1) (seen @ [i]) es)"
begin

lemma loop_iff:
  "distinct seen \<Longrightarrow> loop k seen es = Inr ids \<longleftrightarrow>
     (\<exists>new. ids = seen @ new \<and> list_all2 ok es new \<and> distinct ids)"
proof (induction es arbitrary: k seen)
  case Nil
  then show ?case by (auto simp: loop_Nil)
next
  case (Cons e es)
  show ?case
  proof
    assume "loop k seen (e # es) = Inr ids"
    then obtain i where i: "ok e i" "i \<notin> set seen" "loop (k + 1) (seen @ [i]) es = Inr ids"
      by (auto simp: result_simps entry_iff loop_Cons)
    then obtain new where "ids = (seen @ [i]) @ new" "list_all2 ok es new" "distinct ids"
      using Cons.IH [of "seen @ [i]" "k + 1"] Cons.prems by auto
    then show "\<exists>new. ids = seen @ new \<and> list_all2 ok (e # es) new \<and> distinct ids"
      using i(1) by (intro exI [of _ "i # new"]) simp
  next
    assume "\<exists>new. ids = seen @ new \<and> list_all2 ok (e # es) new \<and> distinct ids"
    then obtain i new where n: "ids = seen @ i # new" "ok e i" "list_all2 ok es new" "distinct ids"
      by (auto simp: list_all2_Cons1)
    then have "loop (k + 1) (seen @ [i]) es = Inr ids"
      using Cons.IH [of "seen @ [i]" "k + 1"] Cons.prems by auto
    moreover have "entry k seen e = Inr i" using n by (simp add: entry_iff)
    ultimately show "loop k seen (e # es) = Inr ids" by (simp add: loop_Cons)
  qed
qed

end

interpretation catalog_items: entry_loop catalog_entry catalog_loop criterion
  by unfold_locales (simp_all add: catalog_entry_iff)

interpretation report_items: entry_loop report_entry report_loop passes
  by unfold_locales (simp_all add: report_entry_iff)

lemma catalog_iff:
  "validate_catalog c = Inr ids \<longleftrightarrow>
     (\<exists>items. c = JArray items \<and> 1 \<le> length items \<and> length items \<le> 128 \<and> list_all2 criterion items ids \<and> distinct ids)"
  by (auto simp: validate_catalog_def catalog_items.loop_iff max_catalog_items_def Suc_le_eq split: option.splits)

lemma report_coverage_iff:
  assumes "distinct seen" "distinct ids"
  shows "report_coverage seen ids = Inr () \<longleftrightarrow> mset seen = mset ids"
proof -
  have "length seen = length ids \<and> set ids \<subseteq> set seen \<longleftrightarrow> set seen = set ids"
    using assms by (metis card_subset_eq distinct_card finite_set order_refl)
  moreover have "set seen = set ids \<longleftrightarrow> mset seen = mset ids"
    using assms by (simp add: set_eq_iff_mset_eq_distinct)
  ultimately show ?thesis
    by (auto simp: report_coverage_def Let_def list_ex_iff)
qed

text \<open>
  C32.  Against a valid catalog a submission is accepted exactly when its report names the current context
  revision and its results are, in some order, one literal PASS for every criterion of the catalog: no
  criterion is missing, repeated or unknown.
\<close>

theorem acceptance_report_exact:
  assumes "validate_catalog catalog = Inr ids"
  shows "validate_acceptance_report show payload ctx ids = Inr () \<longleftrightarrow>
    jpointer payload [''acceptanceReport'', ''contextRevisionId''] = Some (JString (show ctx)) \<and>
    (\<exists>results rids. jpointer payload [''acceptanceReport'', ''results''] = Some (JArray results) \<and>
       list_all2 passes results rids \<and> mset rids = mset ids)"
proof -
  have d: "distinct ids" using assms by (auto simp: catalog_iff)
  have loop: "andThen (report_loop 0 [] results) (\<lambda>seen. report_coverage seen ids) = Inr () \<longleftrightarrow>
      (\<exists>rids. list_all2 passes results rids \<and> mset rids = mset ids)" for results
  proof -
    have "mset rids = mset ids \<Longrightarrow> distinct rids" for rids
      using d mset_eq_imp_distinct_iff by blast
    then show ?thesis
      using report_coverage_iff [OF _ d] by (auto simp: result_simps report_items.loop_iff)
  qed
  show ?thesis
  proof (cases "jget payload ''acceptanceReport''")
    case None
    then show ?thesis by (simp add: validate_acceptance_report_def)
  next
    case (Some report)
    then show ?thesis
      by (cases report)
        (auto simp: validate_acceptance_report_def loop bind_eq_Some_conv split: option.splits)
  qed
qed

definition sample_catalog :: json where
  "sample_catalog =
     JArray [JObject [(''description'', JString ''builds''), (''id'', JString ''a'')],
             JObject [(''description'', JString ''runs''), (''id'', JString ''b'')]]"

definition sample_report :: json where
  "sample_report =
     JObject [(''acceptanceReport'', JObject [(''contextRevisionId'', JString ''ctx''),
       (''results'', JArray [JObject [(''id'', JString ''b''), (''verdict'', JString ''PASS'')],
                             JObject [(''id'', JString ''a''), (''verdict'', JString ''PASS'')]])])]"

lemma sample_catalog_valid: "validate_catalog sample_catalog = Inr [''a'', ''b'']"
  by (simp add: validate_catalog_def sample_catalog_def max_catalog_items_def catalog_entry_def str_member_def
      is_valid_catalog_id_def max_catalog_id_bytes_def ascii_class_defs max_description_bytes_def trim_def
      is_whitespace_def continuation_def)

theorem acceptance_report_exact_witness:
  "validate_acceptance_report (\<lambda>u. ''ctx'') sample_report 5 [''a'', ''b''] = Inr ()"
proof -
  have "list_all2 passes [JObject [(''id'', JString ''b''), (''verdict'', JString ''PASS'')],
      JObject [(''id'', JString ''a''), (''verdict'', JString ''PASS'')]] [''b'', ''a'']"
    by (simp add: passes_def)
  then have "\<exists>rids. list_all2 passes [JObject [(''id'', JString ''b''), (''verdict'', JString ''PASS'')],
      JObject [(''id'', JString ''a''), (''verdict'', JString ''PASS'')]] rids \<and> mset rids = mset [''a'', ''b'']"
    by (intro exI [of _ "[''b'', ''a'']"]) (simp add: add_mset_commute)
  then show ?thesis
    using acceptance_report_exact [OF sample_catalog_valid, of "\<lambda>u. ''ctx''" sample_report 5]
    by (simp add: sample_report_def)
qed

section \<open>Placement in a graph\<close>

lemma find_id_iff:
  "distinct (map f xs) \<Longrightarrow> find (\<lambda>x. f x = i) xs = Some x \<longleftrightarrow> x \<in> set xs \<and> f x = i"
  by (induction xs) (auto simp: image_iff)

definition on_primary_advance :: "workflow_graph \<Rightarrow> transition_definition \<Rightarrow> bool" where
  "on_primary_advance g t \<longleftrightarrow> transition_effect t = Advance \<and>
     (\<exists>n\<in>set (nodes g). node_id n = source_node_id t \<and> node_type n = NT_TASK \<and>
        primary_advance_transition_id n = Some (transition_id t))"

lemma placement_violation_None:
  assumes "distinct (map node_id (nodes g))" "source_node_id t \<in> node_id ` set (nodes g)"
  shows "placement_violation model g t = None \<longleftrightarrow> model = VisitActivation \<and> on_primary_advance g t"
proof -
  obtain n where n: "n \<in> set (nodes g)" "node_id n = source_node_id t" using assms(2) by auto
  then have "find (\<lambda>n. node_id n = source_node_id t) (nodes g) = Some n"
    using find_id_iff [OF assms(1)] by simp
  moreover have "(\<exists>m\<in>set (nodes g). node_id m = source_node_id t \<and> P m) \<longleftrightarrow> P n" for P
    using n assms(1) by (metis distinct_map inj_onD)
  ultimately show ?thesis
    by (simp add: placement_violation_def on_primary_advance_def)
qed

text \<open>
  A graph with known, uniquely numbered nodes passes the placement check exactly when its context
  schema never mentions the annotation and every submission schema that mentions it does so once, at the
  root, on the primary ADVANCE of a TASK of a VISIT_ACTIVATION version.
\<close>

theorem annotation_placement_exact:
  assumes "distinct (map node_id (nodes g))"
    and "\<And>t. t \<in> set (transitions g) \<Longrightarrow> source_node_id t \<in> node_id ` set (nodes g)"
    and "\<And>t s. t \<in> set (transitions g) \<Longrightarrow> submission_schema t = Some s \<Longrightarrow> json_wf s"
  shows "validate_graph_annotation_placement model g = [] \<longleftrightarrow>
    (case context_schema g of None \<Rightarrow> True | Some c \<Rightarrow> occurrences c = 0) \<and>
    (\<forall>t\<in>set (transitions g). \<forall>s. submission_schema t = Some s \<longrightarrow> 0 < occurrences s \<longrightarrow>
       occurrences s = 1 \<and> jget s annotation_key = Some binding_annotation \<and>
       model = VisitActivation \<and> on_primary_advance g t)"
proof -
  let ?fine = "\<lambda>t. \<forall>s. submission_schema t = Some s \<longrightarrow> 0 < occurrences s \<longrightarrow>
         occurrences s = 1 \<and> jget s annotation_key = Some binding_annotation \<and>
         model = VisitActivation \<and> on_primary_advance g t"
  have tp: "transition_placement model g t = [] \<longleftrightarrow> ?fine t" if t: "t \<in> set (transitions g)" for t
  proof (cases "submission_schema t")
    case (Some s)
    note wf = assms(3) [OF t Some]
    have i: "inspect_submission_schema s = Inr b \<longleftrightarrow>
      (if b then occurrences s = 1 \<and> jget s annotation_key = Some binding_annotation else occurrences s = 0)" for b
      by (rule inspect_iff [OF wf])
    note pv = placement_violation_None [OF assms(1) assms(2) [OF t], of model]
    consider e where "inspect_submission_schema s = Inl e" | "inspect_submission_schema s = Inr False"
      | "inspect_submission_schema s = Inr True" by (metis sumE)
    then show ?thesis
    proof cases
      case 1
      then have "0 < occurrences s" "\<not> (occurrences s = 1 \<and> jget s annotation_key = Some binding_annotation)"
        using i [of True] i [of False] by auto
      then show ?thesis using Some 1 by (auto simp: transition_placement_def)
    next
      case 2
      then have "occurrences s = 0" using i [of False] by simp
      then show ?thesis using Some 2 by (simp add: transition_placement_def)
    next
      case 3
      then have "occurrences s = 1" "jget s annotation_key = Some binding_annotation" using i [of True] by auto
      then show ?thesis using Some 3 pv
        by (cases "placement_violation model g t") (auto simp: transition_placement_def)
    qed
  qed (simp add: transition_placement_def)
  have all: "(\<forall>t\<in>set (transitions g). transition_placement model g t = []) \<longleftrightarrow> (\<forall>t\<in>set (transitions g). ?fine t)"
    by (intro ball_cong refl tp)
  have "validate_graph_annotation_placement model g = [] \<longleftrightarrow>
    (case context_schema g of None \<Rightarrow> True | Some c \<Rightarrow> occurrences c = 0) \<and>
    (\<forall>t\<in>set (transitions g). transition_placement model g t = [])"
    by (simp add: validate_graph_annotation_placement_def error_simps contains_iff split: option.splits)
  then show ?thesis by (simp only: all)
qed

definition annotate :: "uuid \<Rightarrow> workflow_graph \<Rightarrow> workflow_graph" where
  "annotate i g = g\<lparr>transitions := map (\<lambda>t. if transition_id t = i
     then t\<lparr>submission_schema := Some (JObject [(annotation_key, binding_annotation)])\<rparr> else t) (transitions g)\<rparr>"

theorem annotation_placement_exact_witness:
  "validate_graph_annotation_placement VisitActivation (annotate 12 visit_graph) = [] \<and>
   validate_graph_annotation_placement VisitActivation (annotate 14 visit_graph) \<noteq> []"
proof -
  let ?a = "JObject [(annotation_key, binding_annotation)]"
  have a1: "occurrences ?a = 1" by (simp add: occurrences_binding)
  have a2: "json_wf ?a" by (simp add: binding_annotation_def)
  have nodes: "nodes (annotate i visit_graph) = nodes visit_graph"
    "context_schema (annotate i visit_graph) = None" for i
    by (simp_all add: annotate_def visit_graph_def)
  have s: "set (transitions (annotate i visit_graph)) =
      (\<lambda>t. if transition_id t = i then t\<lparr>submission_schema := Some ?a\<rparr> else t) ` set (transitions visit_graph)" for i
    by (simp add: annotate_def)
  have none: "\<forall>t\<in>set (transitions visit_graph). submission_schema t = None"
    and sources: "\<forall>t\<in>set (transitions visit_graph). source_node_id t \<in> node_id ` set (nodes visit_graph)"
    by (simp_all add: visit_graph_def plain_node_def plain_transition_def)
  have schema: "x = ?a" if "t \<in> set (transitions (annotate i visit_graph))" "submission_schema t = Some x" for t x i
    using that none by (auto simp: s split: if_splits)
  have "validate_graph_annotation_placement VisitActivation (annotate i visit_graph) = [] \<longleftrightarrow>
    (case context_schema (annotate i visit_graph) of None \<Rightarrow> True | Some c \<Rightarrow> occurrences c = 0) \<and>
    (\<forall>t\<in>set (transitions (annotate i visit_graph)). \<forall>s. submission_schema t = Some s \<longrightarrow> 0 < occurrences s \<longrightarrow>
       occurrences s = 1 \<and> jget s annotation_key = Some binding_annotation \<and>
       VisitActivation = VisitActivation \<and> on_primary_advance (annotate i visit_graph) t)" for i
  proof (rule annotation_placement_exact)
    show "distinct (map node_id (nodes (annotate i visit_graph)))"
      unfolding nodes by (simp add: visit_graph_def plain_node_def)
    show "source_node_id t \<in> node_id ` set (nodes (annotate i visit_graph))"
      if "t \<in> set (transitions (annotate i visit_graph))" for t
      using that sources by (auto simp: nodes s split: if_splits)
    show "json_wf x" if "t \<in> set (transitions (annotate i visit_graph))" "submission_schema t = Some x" for t x
      using schema [OF that] a2 by simp
  qed
  then show ?thesis
    unfolding nodes s on_primary_advance_def
    using a1 by (simp add: visit_graph_def plain_node_def plain_transition_def)
qed

end
