(* ===== verification/Admission.thy ===== *)
theory Admission
  imports Transition_Rules Text_Format
begin

text \<open>
  Who may hold work: identity successors (\<open>identity_successor.rs\<close>), the admission gate of
  assignment-producing commands (\<open>admission_gate.rs\<close>), and the write-path gates
  (\<open>write_path_enabled.rs\<close>).  The agent directory is a remote service: its client is a parameter that
  maps the requested principals to the agents it observed, or fails.
\<close>

section \<open>Identity successors\<close>

definition find_successor :: "uuid \<Rightarrow> store \<Rightarrow> successor_row option" where
  "find_successor p s = find (\<lambda>r. su_source r = p) (successors s)"

text \<open>At most one edge is followed.\<close>

definition resolve_current_principal :: "uuid \<Rightarrow> store \<Rightarrow> uuid option" where
  "resolve_current_principal p s =
     (if find_principal p s = None then None
      else Some (case find_successor p s of None \<Rightarrow> p | Some r \<Rightarrow> su_successor r))"

definition actor_is_effective_current_assignee :: "uuid option \<Rightarrow> uuid \<Rightarrow> store \<Rightarrow> bool" where
  "actor_is_effective_current_assignee stored actor s =
     (case stored of
        None \<Rightarrow> False
      | Some p \<Rightarrow> resolve_current_principal p s = Some actor)"

section \<open>Admission\<close>

record validated_target =
  vt_original :: uuid
  vt_canonical :: uuid
  vt_evidence :: string

type_synonym validated_targets = "(uuid \<times> validated_target) list"

definition responsibility :: "validated_targets \<Rightarrow> uuid \<Rightarrow> (admission_error, uuid) res" where
  "responsibility vs original = ok_or Adm_Unavailable (map_option vt_canonical (map_of vs original))"

record local_target =
  lt_canonical :: uuid
  lt_expected_agent :: "string option"
  lt_native_human :: bool

text \<open>The recorded agent of the edge from \<open>original\<close> to \<open>canonical\<close>.\<close>

definition recorded_agent :: "uuid \<Rightarrow> uuid \<Rightarrow> store \<Rightarrow> string option" where
  "recorded_agent original canonical s =
     map_option su_agent (find (\<lambda>r. su_source r = original \<and> su_successor r = canonical) (successors s))"

definition expected_agent :: "uuid \<Rightarrow> uuid \<Rightarrow> bool \<Rightarrow> store \<Rightarrow> (admission_error, string option) res" where
  "expected_agent original canonical historical s =
     (if canonical \<noteq> original then
        (if \<not> historical \<or> resolve_current_principal canonical s \<noteq> Some canonical
         then Inl (Adm_Rejected original LegacyInput)
         else andThen (ok_or Adm_Unavailable (recorded_agent original canonical s)) (\<lambda>a. Inr (Some a)))
      else Inr None)"

definition resolve_local_target :: "uuid \<Rightarrow> bool \<Rightarrow> store \<Rightarrow> (admission_error, local_target) res" where
  "resolve_local_target original historical s =
     (let canonical = (case resolve_current_principal original s of None \<Rightarrow> original | Some c \<Rightarrow> c)
      in andThen (expected_agent original canonical historical s) (\<lambda>agent.
         let row = find_principal canonical s;
             kind = map_option pr_type row
         in if agent \<noteq> None \<and> kind \<noteq> Some ''AGENT''
            then Inl (Adm_Rejected canonical CanonicalBindingMismatch)
            else if map_option pr_enabled row = Some False
            then Inl (Adm_Rejected canonical (PrincipalNotActive ''disabled''))
            else Inr \<lparr>lt_canonical = canonical, lt_expected_agent = agent,
                      lt_native_human = (kind = Some ''HUMAN'' \<and> canonical = original)\<rparr>))"

definition resolve_historical_target ::
  "uuid \<Rightarrow> uuid \<Rightarrow> uuid \<Rightarrow> store \<Rightarrow> (admission_error, local_target) res" where
  "resolve_historical_target inst node original s =
     resolve_local_target original
       (list_ex (\<lambda>v. nv_instance v = inst \<and> nv_node v = node \<and> nv_assignee v = Some original) (visits s)) s"

text \<open>
  The gate: the directory client when it is configured, the budget left before the commit, and the budget
  left when the commit deadline is armed.
\<close>

record admission_gate =
  gate_client :: "(uuid list \<Rightarrow> (admission_error, uuid \<rightharpoonup> string) res) option"
  gate_remaining_ms :: nat
  gate_commit_ms :: nat

definition check_commit_budget :: "admission_gate \<Rightarrow> (admission_error, unit) res" where
  "check_commit_budget gate =
     (case gate_client gate of
        None \<Rightarrow> Inr ()
      | Some _ \<Rightarrow> if gate_remaining_ms gate = 0 then Inl Adm_Timeout else Inr ())"

text \<open>The distinct principals in the order of a B-tree set.\<close>

definition btree_set :: "uuid list \<Rightarrow> uuid list" where
  "btree_set ps = sort (remdups ps)"

definition evidence ::
  "(uuid \<Rightarrow> string) \<Rightarrow> (uuid \<rightharpoonup> string) \<Rightarrow> uuid list \<Rightarrow> uuid \<times> uuid \<times> string option \<Rightarrow> (admission_error, string) res" where
  "evidence show obs humans t =
     (case t of (original, canonical, agent) \<Rightarrow>
       (case obs canonical of
          Some a \<Rightarrow>
            (if agent \<noteq> None \<and> agent \<noteq> Some a then Inl (Adm_Rejected canonical CanonicalBindingMismatch)
             else Inr (''auth-directory:/api/v1/directory/principals/'' @ show canonical @
                    ''/agent;agent-directory:/v1/directory/agents/'' @ a @
                    (if agent \<noteq> None then '';workflow_identity_successor_lines:'' @ show original else '''')))
        | None \<Rightarrow>
            (if canonical \<in> set humans then Inr (''workflow:principals/'' @ show canonical @ '':HUMAN'')
             else Inl Adm_Unavailable)))"

fun validated ::
  "(uuid \<Rightarrow> string) \<Rightarrow> (uuid \<rightharpoonup> string) \<Rightarrow> uuid list \<Rightarrow> (uuid \<times> uuid \<times> string option) list \<Rightarrow>
     (admission_error, validated_targets) res" where
  "validated show obs humans [] = Inr []"
| "validated show obs humans (t # ts) =
     andThen (evidence show obs humans t) (\<lambda>e.
     andThen (validated show obs humans ts) (\<lambda>vs.
       Inr ((fst t, \<lparr>vt_original = fst t, vt_canonical = fst (snd t), vt_evidence = e\<rparr>) # vs)))"

definition observe ::
  "(uuid \<Rightarrow> string) \<Rightarrow> admission_gate \<Rightarrow> (uuid \<times> uuid \<times> string option) list \<Rightarrow> uuid list \<Rightarrow>
     (admission_error, validated_targets) res" where
  "observe show gate targets humans =
     (let agents = filter (\<lambda>q. q \<notin> set humans) (btree_set (map (\<lambda>t. fst (snd t)) targets))
      in andThen (if agents = [] then Inr (\<lambda>_. None)
                  else case gate_client gate of None \<Rightarrow> Inl Adm_Unavailable | Some client \<Rightarrow> client agents)
           (\<lambda>obs. validated show obs humans targets))"

fun resolve_targets :: "uuid list \<Rightarrow> bool \<Rightarrow> store \<Rightarrow> (admission_error, (uuid \<times> local_target) list) res" where
  "resolve_targets [] historical s = Inr []"
| "resolve_targets (p # ps) historical s =
     andThen (resolve_local_target p historical s) (\<lambda>t.
     andThen (resolve_targets ps historical s) (\<lambda>ts. Inr ((p, t) # ts)))"

definition observe_local ::
  "(uuid \<Rightarrow> string) \<Rightarrow> admission_gate \<Rightarrow> (uuid \<times> local_target) list \<Rightarrow> (admission_error, validated_targets) res" where
  "observe_local show gate ts =
     observe show gate (map (\<lambda>(p, t). (p, lt_canonical t, lt_expected_agent t)) ts)
       (map (\<lambda>(p, t). lt_canonical t) (filter (\<lambda>(p, t). lt_native_human t) ts))"

definition validate_on_tx ::
  "(uuid \<Rightarrow> string) \<Rightarrow> admission_gate \<Rightarrow> uuid list \<Rightarrow> bool \<Rightarrow> store \<Rightarrow> (admission_error, validated_targets) res" where
  "validate_on_tx show gate ps historical s =
     andThen (resolve_targets (btree_set ps) historical s) (observe_local show gate)"

definition admit_on_tx ::
  "(uuid \<Rightarrow> string) \<Rightarrow> admission_gate \<Rightarrow> uuid list \<Rightarrow> store \<Rightarrow> (admission_error, validated_targets) res" where
  "admit_on_tx show gate ps s = validate_on_tx show gate ps False s"

definition admit_historical_target ::
  "(uuid \<Rightarrow> string) \<Rightarrow> admission_gate \<Rightarrow> uuid \<Rightarrow> uuid \<Rightarrow> uuid \<Rightarrow> store \<Rightarrow> (admission_error, validated_targets) res" where
  "admit_historical_target show gate inst node original s =
     andThen (resolve_historical_target inst node original s) (\<lambda>t. observe_local show gate [(original, t)])"

section \<open>Write-path gates\<close>

definition principal_enabled :: "uuid \<Rightarrow> store \<Rightarrow> bool option" where
  "principal_enabled p s = map_option pr_enabled (find_principal p s)"

text \<open>A member put into a sorted object (\<open>jsonb ||\<close>).\<close>

fun put_member :: "string \<Rightarrow> json \<Rightarrow> (string \<times> json) list \<Rightarrow> (string \<times> json) list" where
  "put_member k v [] = [(k, v)]"
| "put_member k v ((k', v') # kvs) =
     (if k = k' then (k, v) # kvs else if k < k' then (k, v) # (k', v') # kvs else (k', v') # put_member k v kvs)"

definition row_not_found :: string where
  "row_not_found = ''no rows returned by a query that expected to return at least one row''"

text \<open>The denial is audited with the facts of the PROCESSING receipt of the command.\<close>

definition audit_denial ::
  "(uuid \<Rightarrow> string) \<Rightarrow> uuid \<Rightarrow> uuid \<Rightarrow> string \<Rightarrow> (string \<times> json) list \<Rightarrow> store \<Rightarrow> (string, store) res" where
  "audit_denial show aid cid reason details s =
     (case filter (\<lambda>r. rc_command r = cid \<and> rc_status r = ''PROCESSING'') (receipts s) of
        [r] \<Rightarrow>
          if aid \<in> au_id ` set (audits s) then Inl ''duplicate key value violates unique constraint''
          else Inr (s\<lparr>audits := audits s @
            [\<lparr>au_id = aid, au_command = cid, au_principal = rc_principal r, au_key = rc_key r,
              au_type = ''PERMISSION_DENIED'', au_reason = Some reason, au_hash = rc_hash r,
              au_details = Some (JObject (put_member ''commandType'' (JString (rc_type r))
                (put_member ''actorPrincipalId'' (JString (show (rc_principal r))) details)))\<rparr>]\<rparr>)
      | _ \<Rightarrow> Inl row_not_found)"

definition verify_denial_receipt ::
  "(json \<Rightarrow> (string, string) res) \<Rightarrow> uuid \<Rightarrow> int \<Rightarrow> json \<Rightarrow> store \<Rightarrow> (string, unit) res" where
  "verify_denial_receipt dig cid status body s =
     andThen (dig body) (\<lambda>d.
       guard_r (list_ex (\<lambda>r. rc_command r = cid \<and> rc_status r = ''COMPLETED'' \<and>
           rc_response_status r = Some status \<and> rc_response_body r = Some body \<and>
           rc_response_digest r = Some d) (receipts s)) row_not_found)"

section \<open>Identity literals\<close>

text \<open>\<open>SELECT .. ORDER BY assignee_input_key\<close> with \<open>dedup\<close>; a NULL key fails to decode.\<close>

definition required_input_principal_keys :: "uuid \<Rightarrow> store \<Rightarrow> (string, string list) res" where
  "required_input_principal_keys v s =
     (let rows = filter (\<lambda>n. nr_version n = v \<and> nr_ref_type n = Some ''INSTANCE_INPUT_PRINCIPAL'') (node_rows s)
      in if list_ex (\<lambda>n. nr_input_key n = None) rows then Inl ''unexpected null''
         else Inr (remdups_adj (sort (map (\<lambda>n. the (nr_input_key n)) rows))))"

fun extract_required_input_principal_ids ::
  "(string \<Rightarrow> uuid option) \<Rightarrow> string list \<Rightarrow> json \<Rightarrow> (string, uuid list) res" where
  "extract_required_input_principal_ids parse [] payload = Inr []"
| "extract_required_input_principal_ids parse (key # keys) payload =
     (case jget payload key of
        None \<Rightarrow> extract_required_input_principal_ids parse keys payload
      | Some raw \<Rightarrow>
          andThen (ok_or (''instance input '' @ quoted key @
            '' must be a string UUID (stable principal identifier); display name / email / legacy id '' @
            ''resolution is forbidden'') (as_str raw)) (\<lambda>t.
          andThen (ok_or (''instance input '' @ quoted key @ '' is not a valid UUID: '' @ quoted t) (parse t)) (\<lambda>u.
          andThen (extract_required_input_principal_ids parse keys payload) (\<lambda>us. Inr (u # us)))))"

text \<open>Literals and errors collected so far; the errors keep their code and the values of the message.\<close>

type_synonym literal_state = "uuid list \<times> graph_validation_error list"

definition inspect_identity_literal ::
  "(string \<Rightarrow> uuid option) \<Rightarrow> string \<Rightarrow> string \<Rightarrow> json option \<Rightarrow> literal_state \<Rightarrow> literal_state" where
  "inspect_identity_literal parse key position v st =
     (case v of
        None \<Rightarrow> st
      | Some j \<Rightarrow>
          (case as_str j of
             None \<Rightarrow> (fst st, snd st @ [gve ''INSTANCE_INPUT_LITERAL_NOT_STRING'' [MStr key, MStr position]])
           | Some raw \<Rightarrow>
               (case parse raw of
                  Some u \<Rightarrow> (fst st @ [u], snd st)
                | None \<Rightarrow> (fst st, snd st @
                    [gve ''INSTANCE_INPUT_LITERAL_NOT_UUID'' [MStr key, MStr position, MStr raw]]))))"

fun inspect_items ::
  "(string \<Rightarrow> uuid option) \<Rightarrow> string \<Rightarrow> string \<Rightarrow> nat \<Rightarrow> json list \<Rightarrow> literal_state \<Rightarrow> literal_state" where
  "inspect_items parse key keyword i [] st = st"
| "inspect_items parse key keyword i (v # vs) st =
     inspect_items parse key keyword (i + 1) vs
       (inspect_identity_literal parse key (keyword @ ''['' @ show_nat i @ '']'') (Some v) st)"

definition collect_schema_identity_literals ::
  "(string \<Rightarrow> uuid option) \<Rightarrow> json option \<Rightarrow> string \<Rightarrow> literal_state \<Rightarrow> literal_state" where
  "collect_schema_identity_literals parse schema key st =
     (case Option.bind schema (\<lambda>sc. Option.bind (jget sc ''properties'') (\<lambda>ps. jget ps key)) of
        None \<Rightarrow> st
      | Some property \<Rightarrow>
          let array = (\<lambda>keyword st. case Option.bind (jget property keyword) as_array of
                         None \<Rightarrow> st | Some vs \<Rightarrow> inspect_items parse key keyword 0 vs st)
          in array ''examples'' (array ''enum''
               (inspect_identity_literal parse key ''default'' (jget property ''default'') st)))"

definition node_identity_literals ::
  "(string \<Rightarrow> uuid option) \<Rightarrow> json option \<Rightarrow> node_definition \<Rightarrow> literal_state \<Rightarrow> literal_state" where
  "node_identity_literals parse schema n st =
     (case assignee_ref n of
        None \<Rightarrow> st
      | Some r \<Rightarrow>
          (case ref_type r of
             FixedPrincipal \<Rightarrow> (case fixed_principal_id r of None \<Rightarrow> st | Some p \<Rightarrow> (fst st @ [p], snd st))
           | InstanceInputPrincipal \<Rightarrow>
               (case assignee_input_key r of
                  None \<Rightarrow> st
                | Some key \<Rightarrow> collect_schema_identity_literals parse schema key st)
           | _ \<Rightarrow> st))"

definition collect_definition_publish_identity_literals ::
  "(string \<Rightarrow> uuid option) \<Rightarrow> node_definition list \<Rightarrow> json option \<Rightarrow> (graph_validation_error list, uuid list) res" where
  "collect_definition_publish_identity_literals parse ns schema =
     (case fold (node_identity_literals parse schema) ns ([], []) of
        (literals, es) \<Rightarrow> if es = [] then Inr (btree_set literals) else Inl es)"

end
