(* ===== verification/Assistance_Cases.thy ===== *)
theory Assistance_Cases
  imports Admission Outbox Transition_Receipts
begin

text \<open>
  What the assistance commands and the policy escalation share (\<open>domain/workflow_instance/assistance.rs\<close>
  and the head of \<open>assistance_transaction.rs\<close>): the error type with its codes, labels and bodies, the
  open cases of a visit, the insert of a case with its unique index, and the joins to the current node.
\<close>

section \<open>Assistance errors\<close>

datatype assistance_error =
    A_PrincipalNotFound
  | A_PrincipalDisabled
  | A_InstanceNotFound
  | A_CurrentVisitNotFound
  | A_CurrentNodeVisitMismatch
  | A_PrincipalNotAssignee
  | A_SourceNodeTerminal
  | A_InstanceCancelled
  | A_InstanceArchived
  | A_WorkflowStateVersionConflict int int
  | A_DomainOwnerMissing
  | A_NotDomainOwner
  | A_AssistanceAlreadyOpen
  | A_AssistanceCaseNotFoundOrNotVisible
  | A_AssistanceStatusConflict
  | A_GovernedOperationRequired
  | A_GlobalCoordinatorRequired
  | A_InvalidPayload string
  | A_SizeLimitExceeded
  | A_InvalidPagination string
  | A_IdempotencyConflict
  | A_CommandStillProcessing
  | A_InternalConsistency string
  | A_StorageError string

fun assistance_status_code :: "assistance_error \<Rightarrow> int" where
  "assistance_status_code A_PrincipalNotFound = 404"
| "assistance_status_code A_InstanceNotFound = 404"
| "assistance_status_code A_CurrentVisitNotFound = 404"
| "assistance_status_code A_PrincipalDisabled = 403"
| "assistance_status_code A_PrincipalNotAssignee = 403"
| "assistance_status_code A_NotDomainOwner = 403"
| "assistance_status_code A_GlobalCoordinatorRequired = 403"
| "assistance_status_code A_CurrentNodeVisitMismatch = 409"
| "assistance_status_code A_SourceNodeTerminal = 409"
| "assistance_status_code A_InstanceCancelled = 409"
| "assistance_status_code A_InstanceArchived = 409"
| "assistance_status_code (A_WorkflowStateVersionConflict _ _) = 409"
| "assistance_status_code A_DomainOwnerMissing = 409"
| "assistance_status_code A_AssistanceAlreadyOpen = 409"
| "assistance_status_code A_AssistanceStatusConflict = 409"
| "assistance_status_code A_GovernedOperationRequired = 409"
| "assistance_status_code A_IdempotencyConflict = 409"
| "assistance_status_code A_AssistanceCaseNotFoundOrNotVisible = 404"
| "assistance_status_code (A_InvalidPayload _) = 422"
| "assistance_status_code (A_InvalidPagination _) = 422"
| "assistance_status_code A_SizeLimitExceeded = 413"
| "assistance_status_code A_CommandStillProcessing = 425"
| "assistance_status_code (A_InternalConsistency _) = 500"
| "assistance_status_code (A_StorageError _) = 503"

fun assistance_code :: "assistance_error \<Rightarrow> string" where
  "assistance_code A_PrincipalNotFound = ''principal_not_found''"
| "assistance_code A_PrincipalDisabled = ''principal_disabled''"
| "assistance_code A_InstanceNotFound = ''instance_not_found''"
| "assistance_code A_CurrentVisitNotFound = ''current_visit_not_found''"
| "assistance_code A_CurrentNodeVisitMismatch = ''current_node_visit_mismatch''"
| "assistance_code A_PrincipalNotAssignee = ''principal_not_assignee''"
| "assistance_code A_SourceNodeTerminal = ''source_node_terminal''"
| "assistance_code A_InstanceCancelled = ''instance_cancelled''"
| "assistance_code A_InstanceArchived = ''instance_archived''"
| "assistance_code (A_WorkflowStateVersionConflict _ _) = ''workflow_state_version_conflict''"
| "assistance_code A_DomainOwnerMissing = ''domain_owner_missing''"
| "assistance_code A_NotDomainOwner = ''not_domain_owner''"
| "assistance_code A_AssistanceAlreadyOpen = ''assistance_already_open''"
| "assistance_code A_AssistanceCaseNotFoundOrNotVisible = ''assistance_case_not_found_or_not_visible''"
| "assistance_code A_AssistanceStatusConflict = ''assistance_status_conflict''"
| "assistance_code A_GovernedOperationRequired = ''governed_operation_required''"
| "assistance_code A_GlobalCoordinatorRequired = ''global_coordinator_required''"
| "assistance_code (A_InvalidPayload _) = ''invalid_assistance_payload''"
| "assistance_code A_SizeLimitExceeded = ''size_limit_exceeded''"
| "assistance_code (A_InvalidPagination _) = ''invalid_pagination''"
| "assistance_code A_IdempotencyConflict = ''idempotency_conflict''"
| "assistance_code A_CommandStillProcessing = ''command_still_processing''"
| "assistance_code (A_InternalConsistency _) = ''internal_consistency_error''"
| "assistance_code (A_StorageError _) = ''service_unavailable''"

definition assistance_error_to_string :: "assistance_error \<Rightarrow> string" where
  "assistance_error_to_string e =
     assistance_code e @
     (case e of
        A_WorkflowStateVersionConflict ex ac \<Rightarrow> '': expected='' @ show_int ex @ '', actual='' @ show_int ac
      | A_InvalidPayload d \<Rightarrow> '': '' @ d
      | A_InvalidPagination d \<Rightarrow> '': '' @ d
      | A_InternalConsistency d \<Rightarrow> '': '' @ d
      | A_StorageError d \<Rightarrow> '': '' @ d
      | _ \<Rightarrow> '''')"

section \<open>Open cases\<close>

definition is_open :: "assistance_row \<Rightarrow> bool" where
  "is_open a \<longleftrightarrow> as_status a = ''OWNER_PENDING'' \<or> as_status a = ''HUMAN_REQUIRED''"

definition has_open_assistance :: "uuid \<Rightarrow> store \<Rightarrow> bool" where
  "has_open_assistance visit s = list_ex (\<lambda>a. as_visit a = visit \<and> is_open a) (assistances s)"

definition lib_error :: "(string, 'a) res \<Rightarrow> (assistance_error, 'a) res" where
  "lib_error r = (case r of Inl e \<Rightarrow> Inl (A_InternalConsistency e) | Inr x \<Rightarrow> Inr x)"

definition sql_error :: "(string, 'a) res \<Rightarrow> (assistance_error, 'a) res" where
  "sql_error r = (case r of Inl e \<Rightarrow> Inl (A_StorageError e) | Inr x \<Rightarrow> Inr x)"

definition assistance_error_body :: "assistance_error \<Rightarrow> json" where
  "assistance_error_body e =
     (case e of
        A_WorkflowStateVersionConflict ex ac \<Rightarrow>
          JObject [(''actual'', json_int ac), (''error'', JString (assistance_code e)), (''expected'', json_int ex)]
      | A_InvalidPayload d \<Rightarrow> JObject [(''detail'', JString d), (''error'', JString (assistance_code e))]
      | A_InvalidPagination d \<Rightarrow> JObject [(''detail'', JString d), (''error'', JString (assistance_code e))]
      | A_InternalConsistency d \<Rightarrow> JObject [(''detail'', JString d), (''error'', JString (assistance_code e))]
      | _ \<Rightarrow> JObject [(''error'', JString (assistance_code e))])"

text \<open>The current visit's node row, by the two left joins.\<close>

definition visit_node :: "uuid \<Rightarrow> store \<Rightarrow> uuid option" where
  "visit_node v s = map_option nv_node (find (\<lambda>r. nv_id r = v) (visits s))"

definition visit_node_type :: "uuid \<Rightarrow> store \<Rightarrow> string option" where
  "visit_node_type v s = Option.bind (visit_node v s) (\<lambda>n. map_option nr_type (find_node n s))"

definition insert_case :: "assistance_row \<Rightarrow> store \<Rightarrow> (assistance_error, store) res" where
  "insert_case a s =
     (if as_id a \<in> as_id ` set (assistances s)
      then Inl (A_StorageError ''duplicate key value violates unique constraint'')
      else if is_open a \<and> has_open_assistance (as_visit a) s then Inl A_AssistanceAlreadyOpen
      else Inr (s\<lparr>assistances := assistances s @ [a]\<rparr>))"

end
