(* ===== verification/Owner_Intents.thy ===== *)
theory Owner_Intents
  imports Assistance_Cases
begin

text \<open>
  The responsibility intents of the owner obligations (\<open>owner_obligation/intents.rs\<close>): INTAKE and REVIEW
  intents are produced inside the command that causes them, a STOP intent is the facts of an
  obligation that cannot go on.  A conflicting insert does nothing, as \<open>ON CONFLICT DO NOTHING\<close> does on
  the keys of \<open>migrations/0031\<close>.  \<open>fence\<close> only takes a row lock and has no definition.
\<close>

section \<open>The table\<close>

definition settled :: "string \<Rightarrow> bool" where
  "settled st \<longleftrightarrow> st = ''STOPPED'' \<or> st = ''RETIRED'' \<or> st = ''COMPLETED''"

definition obligation_kind :: "string \<Rightarrow> bool" where
  "obligation_kind k \<longleftrightarrow> k = ''INTAKE'' \<or> k = ''REVIEW''"

text \<open>NULLs are distinct in a unique index.\<close>

definition same_value :: "'a option \<Rightarrow> 'a option \<Rightarrow> bool" where
  "same_value x y \<longleftrightarrow> x \<noteq> None \<and> x = y"

definition intent_conflict :: "intent_row \<Rightarrow> intent_row \<Rightarrow> bool" where
  "intent_conflict i j \<longleftrightarrow>
     in_id i = in_id j \<or>
     (in_kind i = ''INTAKE'' \<and> in_kind j = ''INTAKE'' \<and> in_case i = in_case j) \<or>
     (in_kind i = ''REVIEW'' \<and> in_kind j = ''REVIEW'' \<and> same_value (in_binding i) (in_binding j) \<and>
      same_value (in_terminal_event i) (in_terminal_event j)) \<or>
     (in_kind i = ''STOP'' \<and> in_kind j = ''STOP'' \<and> same_value (in_managed i) (in_managed j) \<and>
      same_value (in_stop_code i) (in_stop_code j) \<and>
      (same_value (in_replacement i) (in_replacement j) \<or>
       same_value (in_visit i) (in_visit j) \<and> same_value (in_attempt i) (in_attempt j) \<or>
       same_value (in_origin_event i) (in_origin_event j)))"

text \<open>The number of rows inserted, and the store.\<close>

definition insert_intent :: "intent_row \<Rightarrow> store \<Rightarrow> nat \<times> store" where
  "insert_intent i s =
     (if list_ex (intent_conflict i) (intents s) then (0, s) else (1, s\<lparr>intents := intents s @ [i]\<rparr>))"

definition insert_intents :: "intent_row list \<Rightarrow> store \<Rightarrow> nat \<times> store" where
  "insert_intents is s =
     fold (\<lambda>i (n, s). let (k, s') = insert_intent i s in (n + k, s')) is (0, s)"

definition update_intents :: "(intent_row \<Rightarrow> bool) \<Rightarrow> (intent_row \<Rightarrow> intent_row) \<Rightarrow> store \<Rightarrow> store" where
  "update_intents P f s = s\<lparr>intents := map (\<lambda>i. if P i then f i else i) (intents s)\<rparr>"

section \<open>Stops\<close>

definition stop_intent ::
  "uuid \<Rightarrow> uuid option \<Rightarrow> string \<Rightarrow> uuid option \<Rightarrow> uuid option \<Rightarrow> uuid option \<Rightarrow> string option \<Rightarrow> intent_row \<Rightarrow> intent_row" where
  "stop_intent fresh visit label command replacement event attempt i =
     i\<lparr>in_id := fresh, in_kind := ''STOP'', in_selected_version := None, in_selected_transition := None,
       in_terminal_event := None, in_state := ''STOPPED'', in_outcome := Some label, in_stop_code := Some label,
       in_command := command, in_replacement := replacement, in_origin_event := event, in_visit := visit,
       in_attempt := attempt\<rparr>"

definition stopped_intent ::
  "uuid option \<Rightarrow> string \<Rightarrow> uuid option \<Rightarrow> uuid option \<Rightarrow> uuid option \<Rightarrow> string option \<Rightarrow> intent_row \<Rightarrow> intent_row" where
  "stopped_intent visit label command replacement event attempt i =
     i\<lparr>in_state := ''STOPPED'', in_outcome := Some label, in_stop_code := Some label, in_command := command,
       in_replacement := replacement, in_origin_event := event, in_attempt := attempt, in_visit := visit\<rparr>"

definition write_stop ::
  "uuid \<Rightarrow> uuid \<Rightarrow> uuid option \<Rightarrow> string \<Rightarrow> uuid option \<Rightarrow> uuid option \<Rightarrow> uuid option \<Rightarrow> string option \<Rightarrow> store \<Rightarrow> store" where
  "write_stop fresh managed visit label command replacement event attempt s =
     (let live = (\<lambda>i. in_managed i = Some managed \<and> \<not> settled (in_state i));
          rows = map (stop_intent fresh visit label command replacement event attempt)
                   (filter (\<lambda>i. live i \<and> obligation_kind (in_kind i)) (intents s))
      in update_intents live (stopped_intent visit label command replacement event attempt)
           (snd (insert_intents rows s)))"

definition current_visit_of :: "uuid \<Rightarrow> store \<Rightarrow> uuid option" where
  "current_visit_of inst s = Option.bind (find (\<lambda>w. wi_id w = inst) (instances s)) wi_current_visit"

definition stop_managed ::
  "uuid \<Rightarrow> uuid \<Rightarrow> string \<Rightarrow> uuid option \<Rightarrow> uuid option \<Rightarrow> uuid option \<Rightarrow> string option \<Rightarrow> store \<Rightarrow> store" where
  "stop_managed fresh managed label command replacement event attempt s =
     write_stop fresh managed (current_visit_of managed s) label command replacement event attempt s"

text \<open>A replaced domain owner stops every live obligation of the domain.\<close>

definition source_in_domain :: "uuid \<Rightarrow> intent_row \<Rightarrow> store \<Rightarrow> bool" where
  "source_in_domain d i s \<longleftrightarrow> list_ex (\<lambda>w. wi_id w = in_source i \<and> wi_domain w = d) (instances s)"

definition owner_changed :: "(uuid \<Rightarrow> uuid) \<Rightarrow> uuid \<Rightarrow> uuid \<Rightarrow> store \<Rightarrow> store" where
  "owner_changed fresh domain command s =
     (let label = ''OWNER_CHANGED_UNSUPPORTED'';
          ids = sort (List.map_filter in_managed
                  (filter (\<lambda>i. source_in_domain domain i s \<and> obligation_kind (in_kind i) \<and> \<not> settled (in_state i)) (intents s)));
          s1 = fold (\<lambda>m. stop_managed (fresh m) m label (Some command) (Some command) None None) ids s
      in update_intents (\<lambda>i. source_in_domain domain i s1 \<and> \<not> settled (in_state i))
           (\<lambda>i. i\<lparr>in_state := ''STOPPED'', in_outcome := Some label, in_stop_code := Some label,
                  in_command := Some command, in_replacement := Some command\<rparr>) s1)"

section \<open>Producers\<close>

definition parent_of :: "uuid \<Rightarrow> store \<Rightarrow> uuid option" where
  "parent_of inst s = map_option or_parent (find (\<lambda>r. or_created r = inst) (origins s))"

text \<open>The INTAKE intents of a case: the join of the case, its instance, the approval and the request event.\<close>

definition intake_intents :: "uuid \<Rightarrow> uuid \<Rightarrow> store \<Rightarrow> (assistance_error, intent_row list) res" where
  "intake_intents fresh case_id s =
     (let rows = [(c, w, a, e).
            c \<leftarrow> filter (\<lambda>c. as_id c = case_id) (assistances s),
            w \<leftarrow> filter (\<lambda>w. wi_id w = as_instance c) (instances s),
            a \<leftarrow> filter (\<lambda>a. ap_source_version a = wi_version w) (approvals s),
            e \<leftarrow> filter (\<lambda>e. ev_command e = as_command c \<and> ev_type e = ''ASSISTANCE_REQUESTED'' \<and>
                             ev_instance e = wi_id w) (events s)]
      in if list_ex (\<lambda>(c, w, a, e). ev_context e = None) rows
         then Inl (A_StorageError ''null value violates not-null constraint'')
         else Inr (map (\<lambda>(c, w, a, e).
            \<lparr>in_id = fresh, in_kind = ''INTAKE'', in_case = as_id c, in_source = wi_id w,
             in_source_visit = as_visit c, in_request_event = ev_id e, in_request_context = the (ev_context e),
             in_source_version = wi_version w, in_request_digest = as_digest c, in_policy_digest = ap_digest a,
             in_policy_version = ap_source_version a, in_selected_version = Some (ap_intake_version a),
             in_selected_transition = Some (ap_intake_transition a), in_binding = None, in_terminal_event = None,
             in_managed = None, in_state = ''PENDING'', in_outcome = None, in_stop_code = None, in_command = None,
             in_replacement = None, in_origin_event = None, in_visit = None, in_attempt = None\<rparr>) rows))"

definition request_intent ::
  "uuid \<Rightarrow> uuid \<Rightarrow> uuid \<Rightarrow> store \<Rightarrow> (assistance_error, bool \<times> store) res" where
  "request_intent fresh case_id command s =
     (case find (\<lambda>c. as_id c = case_id) (assistances s) of
        None \<Rightarrow> Inl (A_StorageError row_not_found)
      | Some c \<Rightarrow>
          let source = as_instance c in
          case parent_of source s of
            Some parent \<Rightarrow>
              let event = map_option ev_id (find (\<lambda>e. ev_command e = command \<and> ev_instance e = source) (events s))
              in Inr (True, write_stop fresh parent (Some (as_visit c)) ''NESTED_ASSISTANCE_UNSUPPORTED''
                              (Some command) None event None s)
          | None \<Rightarrow>
              if is_managed source s
              then Inr (True, stop_managed fresh source ''NESTED_ASSISTANCE_UNSUPPORTED'' (Some command) None None None s)
              else andThen (intake_intents fresh case_id s) (\<lambda>rows.
                let (n, s') = insert_intents rows s in Inr (0 < n, s')))"

definition review_intents :: "uuid \<Rightarrow> uuid \<Rightarrow> uuid \<Rightarrow> store \<Rightarrow> intent_row list" where
  "review_intents fresh binding event s =
     [\<lparr>in_id = fresh, in_kind = ''REVIEW'', in_case = gb_case b, in_source = gb_source b,
       in_source_visit = gb_visit b, in_request_event = gb_event b, in_request_context = gb_context b,
       in_source_version = gb_version b, in_request_digest = gb_digest b, in_policy_digest = ap_digest a,
       in_policy_version = ap_source_version a, in_selected_version = Some (ap_review_version a),
       in_selected_transition = Some (ap_review_transition a), in_binding = Some (gb_id b),
       in_terminal_event = Some event, in_managed = None, in_state = ''PENDING'', in_outcome = None,
       in_stop_code = None, in_command = None, in_replacement = None, in_origin_event = None, in_visit = None,
       in_attempt = None\<rparr>.
      b \<leftarrow> filter (\<lambda>b. gb_id b = binding \<and> gb_terminal_event b = Some event) (child_bindings s),
      m \<leftarrow> filter (\<lambda>m. mi_binding m = gb_id b \<and> mi_kind m = ''INTAKE'') (managed_instances s),
      a \<leftarrow> filter (\<lambda>a. ap_source_version a = mi_policy_version m) (approvals s)]"

definition terminal_intent :: "uuid \<Rightarrow> uuid \<Rightarrow> uuid \<Rightarrow> store \<Rightarrow> bool \<times> store" where
  "terminal_intent fresh binding event s =
     (let (n, s') = insert_intents (review_intents fresh binding event s) s
      in if 0 < n then (True, s')
         else (list_ex (\<lambda>m. mi_binding m = binding) (managed_instances s'), s'))"

text \<open>An escalation of managed work, or of work created for it, stops the obligation.\<close>

definition escalation_stop ::
  "uuid \<Rightarrow> uuid \<Rightarrow> uuid \<Rightarrow> uuid \<Rightarrow> json \<Rightarrow> store \<Rightarrow> bool \<times> store" where
  "escalation_stop fresh inst visit command facts s =
     (let parent = parent_of inst s in
      if parent = None \<and> \<not> is_managed inst s then (False, s)
      else
        let target = (case parent of None \<Rightarrow> inst | Some p \<Rightarrow> p);
            reason = (case as_str (jindex facts ''reason'') of None \<Rightarrow> [] | Some r \<Rightarrow> r);
            label = (if parent \<noteq> None then ''NESTED_ASSISTANCE_UNSUPPORTED''
                    else if reason = ''RETURN_POLICY_EXHAUSTED'' then ''RETURN_LIMIT_REACHED''
                    else ''ATTEMPT_LIMIT_REACHED'');
            event = (case rev (sort_key ev_sequence
                       (filter (\<lambda>e. ev_command e = command \<and> ev_instance e = inst) (events s))) of
                       [] \<Rightarrow> None | e # _ \<Rightarrow> Some (ev_id e))
        in (True, write_stop fresh target (Some visit) label (Some command) None event
                    (as_str (jindex facts ''lastAttemptId'')) s))"

section \<open>Ends\<close>

definition complete_intents :: "uuid \<Rightarrow> uuid \<Rightarrow> store \<Rightarrow> store" where
  "complete_intents inst event =
     update_intents (\<lambda>i. in_managed i = Some inst \<and> obligation_kind (in_kind i) \<and> in_state i = ''MATERIALIZED'')
       (\<lambda>i. i\<lparr>in_state := ''COMPLETED'', in_outcome := Some ''TERMINAL'', in_origin_event := Some event\<rparr>)"

text \<open>The REVIEW intent whose own effect runs the command survives the retirement.\<close>

definition own_effect :: "uuid \<Rightarrow> intent_row \<Rightarrow> store \<Rightarrow> bool" where
  "own_effect command i s \<longleftrightarrow>
     list_ex (\<lambda>x. in_managed i = Some (fx_managed x) \<and> fx_command x = Some command \<and>
                  (fx_state x = ''STARTED'' \<or> fx_state x = ''SUCCEEDED'')) (effects s)"

definition retire_intents :: "uuid \<Rightarrow> uuid \<Rightarrow> string \<Rightarrow> store \<Rightarrow> store" where
  "retire_intents source command reason s =
     update_intents (\<lambda>i. in_source i = source \<and> obligation_kind (in_kind i) \<and> \<not> settled (in_state i) \<and>
                         \<not> (in_kind i = ''REVIEW'' \<and> own_effect command i s))
       (\<lambda>i. i\<lparr>in_state := ''RETIRED'', in_outcome := Some reason, in_command := Some command\<rparr>) s"

section \<open>Guards\<close>

definition has_intake :: "uuid \<Rightarrow> store \<Rightarrow> bool" where
  "has_intake case_id s \<longleftrightarrow> list_ex (\<lambda>i. in_case i = case_id \<and> in_kind i = ''INTAKE'') (intents s)"

definition require_effect_for_command :: "uuid \<Rightarrow> uuid option \<Rightarrow> store \<Rightarrow> (assistance_error, unit) res" where
  "require_effect_for_command case_id command s =
     (let claimed = list_ex (\<lambda>x. fx_case x = case_id \<and> same_value (fx_command x) command \<and> fx_state x = ''STARTED'' \<and>
                      list_ex (\<lambda>m. mi_id m = fx_managed x \<and> mi_kind m = ''REVIEW'') (managed_instances s)) (effects s)
      in guard_r (\<not> (has_intake case_id s \<and> \<not> claimed)) A_GovernedOperationRequired)"

definition require_effect :: "uuid \<Rightarrow> uuid \<Rightarrow> store \<Rightarrow> (assistance_error, unit) res" where
  "require_effect case_id command = require_effect_for_command case_id (Some command)"

definition require_auto_bind :: "uuid \<Rightarrow> uuid \<Rightarrow> store \<Rightarrow> (assistance_error, unit) res" where
  "require_auto_bind case_id command s =
     (let claimed = list_ex (\<lambda>i. in_case i = case_id \<and> in_kind i = ''INTAKE'' \<and> in_state i = ''PENDING'' \<and>
                      in_command i = Some command \<and>
                      list_ex (\<lambda>r. rc_command r = command \<and> rc_type r = ''AUTO_CREATE_AND_BIND_OWNER_INTAKE'' \<and>
                                   rc_status r = ''PROCESSING'') (receipts s)) (intents s)
      in guard_r (\<not> (has_intake case_id s \<and> \<not> claimed)) A_GovernedOperationRequired)"

definition enabled_agent :: "uuid \<Rightarrow> store \<Rightarrow> bool" where
  "enabled_agent p s \<longleftrightarrow> list_ex (\<lambda>r. pr_id r = p \<and> pr_enabled r \<and> pr_type r = ''AGENT'') (principals s)"

definition policy_actor_authorized :: "uuid \<Rightarrow> uuid \<Rightarrow> uuid \<Rightarrow> uuid \<Rightarrow> store \<Rightarrow> bool" where
  "policy_actor_authorized command domain target actor s \<longleftrightarrow>
     list_ex (\<lambda>i. in_state i = ''PENDING'' \<and> in_selected_version i = Some target \<and> in_command i = Some command \<and>
       list_ex (\<lambda>p. ap_source_version p = in_policy_version i \<and> ap_actor p = actor \<and> ap_domain p = domain) (approvals s) \<and>
       list_ex (\<lambda>r. rc_command r = command \<and> rc_status r = ''PROCESSING'' \<and> rc_principal r = actor \<and>
         (in_kind i = ''INTAKE'' \<and> rc_type r = ''AUTO_CREATE_AND_BIND_OWNER_INTAKE'' \<or>
          in_kind i = ''REVIEW'' \<and> rc_type r = ''AUTO_CREATE_OWNER_REVIEW'')) (receipts s)) (intents s) \<and>
     enabled_agent actor s"

definition cleanup_authorized :: "uuid \<Rightarrow> uuid \<Rightarrow> store \<Rightarrow> bool" where
  "cleanup_authorized inst actor s \<longleftrightarrow>
     list_ex (\<lambda>m. mi_id m = inst \<and>
       list_ex (\<lambda>p. ap_source_version p = mi_policy_version m \<and> ap_actor p = actor) (approvals s) \<and>
       list_ex (\<lambda>i. in_managed i = Some inst \<and> in_kind i = mi_kind m \<and> in_state i = ''RETIRED'') (intents s))
       (managed_instances s) \<and>
     enabled_agent actor s"

end
