(* ===== verification/Escalation.thy ===== *)
theory Escalation
  imports Owner_Intents
begin

text \<open>
  The policy escalation of \<open>execution_escalation.rs\<close>: it opens one OWNER_PENDING assistance case for the
  current visit inside the transaction of its caller, under a receipt of its own, bumps the state
  version and queues the wake of the domain owner; and the system ingress that calls it under a receipt.
  Work under an owner obligation stops its obligation instead of waking the owner.
\<close>

section \<open>Escalation\<close>

text \<open>The enabled owner of an enabled domain who is an enabled principal.\<close>

definition current_domain_owner :: "uuid \<Rightarrow> store \<Rightarrow> uuid option" where
  "current_domain_owner d s =
     map_option rb_principal
       (find (\<lambda>b. rb_domain b = d \<and> rb_role b = ''DOMAIN_OWNER'' \<and> rb_enabled b \<and>
                  (d, True) \<in> set (domains s) \<and> principal_enabled (rb_principal b) s = Some True)
          (role_bindings s))"

text \<open>
  The fresh ids of one escalation (receipt, case, event, wake row, and the intents of a stop and of a
  request), the clock and the hash of a text.
\<close>

record escalation_env =
  ee_receipt :: uuid
  ee_case :: uuid
  ee_event :: uuid
  ee_wake :: uuid
  ee_now :: int
  ee_hex :: "string \<Rightarrow> string"
  ee_stop :: uuid
  ee_intent :: uuid

record escalation_outcome =
  eo_case :: uuid
  eo_owner :: uuid
  eo_escalated :: bool
  eo_version :: int
  eo_sequence :: int
  eo_receipt :: uuid

definition escalation_guards :: "uuid \<Rightarrow> uuid \<Rightarrow> store \<Rightarrow> (assistance_error, instance_row \<times> uuid) res" where
  "escalation_guards inst visit s =
     (case find (\<lambda>w. wi_id w = inst) (instances s) of
        None \<Rightarrow> Inl A_AssistanceCaseNotFoundOrNotVisible
      | Some w \<Rightarrow>
          if wi_current_visit w = None then Inl A_CurrentVisitNotFound
          else if wi_current_visit w \<noteq> Some visit then Inl A_CurrentNodeVisitMismatch
          else if wi_cancelled w then Inl A_InstanceCancelled
          else if wi_archived w then Inl A_InstanceArchived
          else if visit_node_type (wi_visit w) s = Some ''TERMINAL'' then Inl A_SourceNodeTerminal
          else andThen (ok_or A_DomainOwnerMissing (current_domain_owner (wi_domain w) s)) (\<lambda>owner. Inr (w, owner)))"

text \<open>The synthetic receipt of the request: inserted as PROCESSING, then completed.\<close>

definition mint_request_receipt ::
  "escalation_env \<Rightarrow> uuid \<Rightarrow> string \<Rightarrow> json \<Rightarrow> string \<Rightarrow> store \<Rightarrow> (assistance_error, store) res" where
  "mint_request_receipt env actor key body dig s =
     (if ee_receipt env \<in> rc_command ` set (receipts s) \<or> find_receipt actor key s \<noteq> None
      then Inl (A_StorageError ''duplicate key value violates unique constraint'')
      else Inr (s\<lparr>receipts := receipts s @
        [\<lparr>rc_command = ee_receipt env, rc_principal = actor, rc_key = key,
          rc_type = ''REQUEST_WORKFLOW_ASSISTANCE'', rc_hash = ee_hex env key, rc_status = ''COMPLETED'',
          rc_response_status = Some 200, rc_response_body = Some body, rc_response_digest = Some dig\<rparr>]\<rparr>))"

text \<open>\<open>UPDATE .. SET workflow_state_version .. WHERE .. AND workflow_state_version = old\<close>.\<close>

definition bump_version :: "uuid \<Rightarrow> int \<Rightarrow> int \<Rightarrow> store \<Rightarrow> (assistance_error, store) res" where
  "bump_version inst new old s =
     (let hit = (\<lambda>w. wi_id w = inst \<and> wi_state_version w = old) in
      if length (filter hit (instances s)) \<noteq> 1
      then Inl (A_InternalConsistency ''policy escalation state-version update affected unexpected row count'')
      else Inr (s\<lparr>instances := map (\<lambda>w. if hit w then w\<lparr>wi_state_version := new\<rparr> else w) (instances s)\<rparr>))"

definition assistance_event_data :: "string \<Rightarrow> string \<Rightarrow> json" where
  "assistance_event_data case_text digest_text =
     JObject [(''assistanceCaseId'', JString case_text), (''newStatus'', JString ''OWNER_PENDING''),
              (''payloadDigest'', JString digest_text), (''previousStatus'', JNull)]"

definition wake_reason :: "json \<Rightarrow> string" where
  "wake_reason supporting =
     (case Option.bind (jget supporting ''reason'') as_str of
        None \<Rightarrow> ''OWNER_ATTENTION_REQUIRED'' | Some r \<Rightarrow> r)"

definition notify_owner ::
  "library \<Rightarrow> escalation_env \<Rightarrow> uuid \<Rightarrow> uuid \<Rightarrow> uuid \<Rightarrow> string \<Rightarrow> bool \<Rightarrow> store \<Rightarrow> (assistance_error, store) res" where
  "notify_owner lib env inst visit owner reason managed_stop s =
     (if managed_stop then Inr s
      else andThen (request_intent (ee_intent env) (ee_case env) (ee_receipt env) s) (\<lambda>(handled, s1).
        if handled then Inr s1
        else sql_error (queue_owner_assistance_wake (show_uuid lib) (ee_now env) (ee_wake env) inst visit
               (ee_case env) owner reason s1)))"

text \<open>The writes of an escalation, once there is no open case.\<close>

definition open_case ::
  "library \<Rightarrow> escalation_env \<Rightarrow> instance_row \<Rightarrow> uuid \<Rightarrow> uuid \<Rightarrow> uuid \<Rightarrow> uuid \<Rightarrow> json \<Rightarrow> json \<Rightarrow> string \<Rightarrow> bool \<Rightarrow> store \<Rightarrow>
     (assistance_error, escalation_outcome \<times> store) res" where
  "open_case lib env w visit owner actor command request supporting payload_digest managed_stop s =
     (let inst = wi_id w; body = JObject [(''source'', JString ''execution_policy'')];
          version = wi_state_version w; new_version = as_i32 (version + 1);
          data = assistance_event_data (show_uuid lib (ee_case env)) payload_digest in
      andThen (lib_error (json_digest lib body)) (\<lambda>dig.
      andThen (mint_request_receipt env actor (''policy-req:'' @ show_uuid lib command) body dig s) (\<lambda>s1.
      andThen (insert_case \<lparr>as_id = ee_case env, as_instance = inst, as_visit = visit, as_status = ''OWNER_PENDING'',
          as_requester = actor, as_payload = request, as_digest = payload_digest, as_command = ee_receipt env,
          as_escalation = None, as_resolution = None, as_void = None, as_created = ee_now env\<rparr> s1) (\<lambda>s2.
      andThen (bump_version inst new_version version s2) (\<lambda>s3.
      andThen (lib_error (json_digest lib data)) (\<lambda>data_digest.
      andThen (case append_event
            \<lparr>ev_id = ee_event env, ev_instance = inst, ev_sequence = new_version, ev_command = ee_receipt env,
             ev_type = ''ASSISTANCE_REQUESTED'', ev_effect = None, ev_source_visit = Some visit, ev_target_visit = Some visit,
             ev_context = Some (wi_context w), ev_submission = None, ev_data = data, ev_digest = data_digest,
             ev_actor = actor, ev_from = visit_node visit s, ev_to = visit_node visit s,
             ev_old = version, ev_new = new_version\<rparr> s3 of
          Inl _ \<Rightarrow> Inl (A_StorageError ''event insert failed'') | Inr s4 \<Rightarrow> Inr s4) (\<lambda>s4.
      andThen (notify_owner lib env inst visit owner (wake_reason supporting) managed_stop s4) (\<lambda>s5.
        Inr (\<lparr>eo_case = ee_case env, eo_owner = owner, eo_escalated = True, eo_version = new_version,
              eo_sequence = new_version, eo_receipt = command\<rparr>, s5)))))))))"

definition open_owner_pending_visit ::
  "library \<Rightarrow> escalation_env \<Rightarrow> uuid \<Rightarrow> uuid \<Rightarrow> uuid \<Rightarrow> uuid \<Rightarrow> string \<Rightarrow> json \<Rightarrow> store \<Rightarrow>
     (assistance_error, escalation_outcome \<times> store) res" where
  "open_owner_pending_visit lib env inst visit actor command msg supporting s =
     (if trim msg \<noteq> msg \<or> msg = [] \<or> length (utf8_chars msg) > 2000
      then Inl (A_InvalidPayload ''escalation message must be trimmed and contain 1-2000 characters'')
      else
        let request = JObject [(''message'', JString msg), (''supportingPayload'', supporting)] in
        andThen (lib_error (json_digest lib request)) (\<lambda>payload_digest.
        andThen (escalation_guards inst visit s) (\<lambda>(w, owner).
        let (managed_stop, s1) = escalation_stop (ee_stop env) inst visit command supporting s in
          case find (\<lambda>a. as_visit a = visit \<and> is_open a) (assistances s1) of
            Some a \<Rightarrow> Inr (\<lparr>eo_case = as_id a, eo_owner = owner, eo_escalated = False,
                             eo_version = wi_state_version w, eo_sequence = wi_state_version w,
                             eo_receipt = command\<rparr>, s1)
          | None \<Rightarrow> open_case lib env w visit owner actor command request supporting payload_digest managed_stop s1)))"

section \<open>The system ingress\<close>

record system_escalation_command =
  sc_principal :: uuid
  sc_key :: string
  sc_hash :: string
  sc_instance :: uuid
  sc_visit :: uuid
  sc_reason :: string
  sc_attempts :: "int option"
  sc_last_attempt :: "string option"
  sc_intent :: "uuid option"

record system_escalation_outcome =
  so_case :: uuid
  so_owner :: "uuid option"
  so_escalated :: bool
  so_version :: int
  so_sequence :: int

datatype ingress_receipt = Owned uuid | Replay int json | Ingress_Conflict | Ingress_Processing

definition acquire_receipt ::
  "uuid \<Rightarrow> uuid \<Rightarrow> string \<Rightarrow> string \<Rightarrow> store \<Rightarrow> (assistance_error, ingress_receipt \<times> store) res" where
  "acquire_receipt proposed p key hash s =
     (case try_insert_receipt ''SYSTEM_EXECUTION_ESCALATION'' proposed p key hash s of
        Inl _ \<Rightarrow> Inl (A_StorageError ''duplicate key value violates unique constraint'')
      | Inr (Some cid, s') \<Rightarrow> Inr (Owned cid, s')
      | Inr (None, s') \<Rightarrow>
          (case find_receipt p key s' of
             None \<Rightarrow> Inl (A_InternalConsistency ''receipt disappeared during acquire'')
           | Some r \<Rightarrow>
               if rc_hash r \<noteq> hash then Inr (Ingress_Conflict, s')
               else if rc_status r = ''PROCESSING'' then Inr (Ingress_Processing, s')
               else andThen (ok_or (A_InternalConsistency ''completed receipt has no status'') (rc_response_status r))
                      (\<lambda>st. Inr (Replay st (case rc_response_body r of None \<Rightarrow> JNull | Some b \<Rightarrow> b), s'))))"

definition complete_ingress_receipt ::
  "library \<Rightarrow> uuid \<Rightarrow> int \<Rightarrow> json \<Rightarrow> store \<Rightarrow> (assistance_error, store) res" where
  "complete_ingress_receipt lib cid status body s =
     andThen (lib_error (json_digest lib body)) (\<lambda>d. Inr (complete_transition_receipt cid status body d s))"

definition outcome_body :: "library \<Rightarrow> system_escalation_outcome \<Rightarrow> json" where
  "outcome_body lib o' =
     JObject [(''assistanceCaseId'', JString (show_uuid lib (so_case o'))), (''escalated'', JBool (so_escalated o')),
              (''eventSequence'', json_int (so_sequence o')),
              (''ownerPrincipalId'', opt_json (\<lambda>u. JString (show_uuid lib u)) (so_owner o')),
              (''workflowStateVersion'', json_int (so_version o'))]"

definition i32_field :: "json \<Rightarrow> string \<Rightarrow> int option" where
  "i32_field body k =
     Option.bind (Option.bind (jget body k) as_i64) (\<lambda>i. if - (2 ^ 31) \<le> i \<and> i < 2 ^ 31 then Some i else None)"

text \<open>The derived \<open>Deserialize\<close>: a missing or null owner is \<open>None\<close>.\<close>

definition owner_field :: "library \<Rightarrow> json \<Rightarrow> uuid option option" where
  "owner_field lib body =
     (case jget body ''ownerPrincipalId'' of
        None \<Rightarrow> Some None
      | Some JNull \<Rightarrow> Some None
      | Some (JString t) \<Rightarrow> map_option Some (parse_uuid lib t)
      | Some _ \<Rightarrow> None)"

definition parse_outcome :: "library \<Rightarrow> json \<Rightarrow> system_escalation_outcome option" where
  "parse_outcome lib body =
     Option.bind (Option.bind (Option.bind (jget body ''assistanceCaseId'') as_str) (parse_uuid lib)) (\<lambda>c.
     Option.bind (owner_field lib body) (\<lambda>ow.
     Option.bind (Option.bind (jget body ''escalated'') as_bool) (\<lambda>e.
     Option.bind (i32_field body ''workflowStateVersion'') (\<lambda>v.
     Option.bind (i32_field body ''eventSequence'') (\<lambda>q.
       Some \<lparr>so_case = c, so_owner = ow, so_escalated = e, so_version = v, so_sequence = q\<rparr>)))))"

text \<open>The owner of a case for a replay of an old receipt.\<close>

definition owner_of_case :: "uuid \<Rightarrow> store \<Rightarrow> uuid option" where
  "owner_of_case c s =
     Option.bind (find (\<lambda>a. as_id a = c) (assistances s)) (\<lambda>a.
     Option.bind (find (\<lambda>w. wi_id w = as_instance a) (instances s)) (\<lambda>w. current_domain_owner (wi_domain w) s))"

definition opt_int :: "int option \<Rightarrow> json" where
  "opt_int = opt_json json_int"

definition escalate_and_project ::
  "library \<Rightarrow> escalation_env \<Rightarrow> uuid \<Rightarrow> uuid \<Rightarrow> system_escalation_command \<Rightarrow> store \<Rightarrow>
     (assistance_error, system_escalation_outcome \<times> store) res" where
  "escalate_and_project lib env forum_row command_id cmd s =
     (let msg = ''Execution policy assistance ('' @ sc_reason cmd @ '') on the current node visit '' @
                [CHR 0xE2, CHR 0x80, CHR 0x94] @ '' Domain Owner attention required'';
          supporting = JObject
            [(''attemptCount'', opt_int (sc_attempts cmd)),
             (''dispatchIntentId'', opt_json (\<lambda>u. JString (show_uuid lib u)) (sc_intent cmd)),
             (''lastAttemptId'', opt_json JString (sc_last_attempt cmd)),
             (''reason'', JString (sc_reason cmd)), (''source'', JString ''execution_policy'')]
      in andThen (open_owner_pending_visit lib env (sc_instance cmd) (sc_visit cmd) (sc_principal cmd) command_id
                    msg supporting s) (\<lambda>(oc, s1).
         andThen (sql_error (queue_forum_event (ee_now env) forum_row (sc_instance cmd)
             (''assistance_requested:'' @ show_uuid lib (eo_case oc))
             (JObject [(''assistanceCaseId'', JString (show_uuid lib (eo_case oc))),
                       (''attemptCount'', opt_int (sc_attempts cmd)),
                       (''eventType'', JString ''owner_attention_requested''),
                       (''nodeVisitId'', JString (show_uuid lib (sc_visit cmd))),
                       (''ownerPrincipalId'', JString (show_uuid lib (eo_owner oc))),
                       (''reason'', JString (sc_reason cmd)),
                       (''workflowInstanceId'', JString (show_uuid lib (sc_instance cmd)))]) s1)) (\<lambda>s2.
         Inr (\<lparr>so_case = eo_case oc, so_owner = Some (eo_owner oc), so_escalated = eo_escalated oc,
               so_version = eo_version oc, so_sequence = eo_sequence oc\<rparr>, s2))))"

text \<open>The owned command: a disabled caller is denied on the record.\<close>

definition deny_disabled ::
  "library \<Rightarrow> uuid \<Rightarrow> uuid \<Rightarrow> system_escalation_command \<Rightarrow> store \<Rightarrow> (assistance_error, store) res" where
  "deny_disabled lib aid cid cmd s =
     (let body = assistance_error_body A_PrincipalDisabled in
      andThen (sql_error (audit_denial (show_uuid lib) aid cid (assistance_code A_PrincipalDisabled)
          [(''checkObject'', JString ''actor''), (''checkedPrincipalId'', JString (show_uuid lib (sc_principal cmd))),
           (''workflowInstanceId'', JString (show_uuid lib (sc_instance cmd)))] s)) (\<lambda>s1.
      andThen (complete_ingress_receipt lib cid 403 body s1) (\<lambda>s2.
      andThen (sql_error (verify_denial_receipt (json_digest lib) cid 403 body s2)) (\<lambda>_. Inr s2))))"

text \<open>The two consistency errors of a replay carry further text (the code, the parser's message), left out here.\<close>

definition replay_ingress ::
  "library \<Rightarrow> int \<Rightarrow> json \<Rightarrow> store \<Rightarrow> (assistance_error, system_escalation_outcome) res" where
  "replay_ingress lib status body s =
     (if status \<noteq> 200 then
        Inl (if status = 403 \<and> jindex body ''error'' = JString ''principal_disabled'' then A_PrincipalDisabled
             else A_InternalConsistency (''unknown replayed assistance failure: status='' @ show_int status))
      else case parse_outcome lib body of
        None \<Rightarrow> Inl (A_InternalConsistency ''escalation replay body mismatch'')
      | Some oc \<Rightarrow> Inr (if so_owner oc = None then oc\<lparr>so_owner := owner_of_case (so_case oc) s\<rparr> else oc))"

text \<open>An error before the commit rolls the transaction back: the store is the one it started from.\<close>

definition system_execution_escalation ::
  "library \<Rightarrow> escalation_env \<Rightarrow> uuid \<Rightarrow> uuid \<Rightarrow> uuid \<Rightarrow> system_escalation_command \<Rightarrow> store \<Rightarrow>
     (assistance_error, system_escalation_outcome) res \<times> store" where
  "system_execution_escalation lib env proposed aid forum_row cmd s =
     (if sc_reason cmd \<noteq> ''ATTEMPTS_EXHAUSTED'' \<and> sc_reason cmd \<noteq> ''STALE_LOOP_EXHAUSTED''
      then (Inl (A_InvalidPayload ''reason must be ATTEMPTS_EXHAUSTED or STALE_LOOP_EXHAUSTED''), s)
      else case acquire_receipt proposed (sc_principal cmd) (sc_key cmd) (sc_hash cmd) s of
        Inl e \<Rightarrow> (Inl e, s)
      | Inr (Owned cid, s1) \<Rightarrow>
          (if principal_enabled (sc_principal cmd) s1 \<noteq> Some True then
             (case deny_disabled lib aid cid cmd s1 of
                Inl e \<Rightarrow> (Inl e, s) | Inr s2 \<Rightarrow> (Inl A_PrincipalDisabled, s2))
           else
             (case andThen (escalate_and_project lib env forum_row cid cmd s1) (\<lambda>(oc, s2).
                     andThen (complete_ingress_receipt lib cid 200 (outcome_body lib oc) s2) (\<lambda>s3. Inr (oc, s3))) of
                Inl e \<Rightarrow> (Inl e, s) | Inr (oc, s3) \<Rightarrow> (Inr oc, s3)))
      | Inr (Replay status body, s1) \<Rightarrow> (replay_ingress lib status body s1, s1)
      | Inr (Ingress_Conflict, s1) \<Rightarrow> (Inl A_IdempotencyConflict, s1)
      | Inr (Ingress_Processing, s1) \<Rightarrow> (Inl A_CommandStillProcessing, s1))"

end
