(* ===== verification/Execute_Transition.thy ===== *)
theory Execute_Transition
  imports Escalation Acceptance_Binding
begin

text \<open>
  The transition command, \<open>execute_workflow_transition_atomically\<close> of \<open>transition_transaction.rs\<close>: the
  receipt, the checks (all before the first write), the writes, the escalation at the RETURN limit and
  the commit.  A check that fails ends the command in one of three ways (\<open>stop\<close>).  The owner-obligation
  guards and the governance hooks act on tables outside the store and are parameters; so are the fresh
  ids, the clock and the answer to COMMIT.  State versions are \<open>i32\<close> and wrap as in a release build.
\<close>

section \<open>The command and its environment\<close>

record transition_command =
  tc_principal :: uuid
  tc_key :: string
  tc_instance :: uuid
  tc_expected :: int
  tc_transition :: uuid
  tc_payload :: "json option"

record owner_error =
  oe_status :: nat
  oe_code :: string

text \<open>With a deadline a COMMIT may be cut off while the server still completes it, or not.\<close>

datatype commit_answer = Commit_Ok | Commit_Error string | Commit_Deadline bool

record transition_env =
  te_lib :: library
  te_now :: int
  te_max_returns :: int
  te_gate :: admission_gate
  te_command :: uuid
  te_visit :: uuid
  te_event :: uuid
  te_submission :: uuid
  te_audit :: uuid
  te_activation :: uuid
  te_context :: uuid
  te_denial :: uuid
  te_kick_row :: uuid
  te_forum_row :: uuid
  te_done_row :: uuid
  te_policy_row :: uuid
  te_escalation :: escalation_env
  te_node_gate :: "json option \<Rightarrow> (string, bool) res"
  te_before :: "uuid \<Rightarrow> uuid \<Rightarrow> uuid \<Rightarrow> string \<Rightarrow> json option \<Rightarrow> json option \<Rightarrow> store \<Rightarrow> (owner_error, unit) res"
  te_selected :: "uuid \<Rightarrow> uuid \<Rightarrow> json option \<Rightarrow> store \<Rightarrow> (assistance_error, unit) res"
  te_terminal :: "uuid \<Rightarrow> uuid \<Rightarrow> store \<Rightarrow> (assistance_error, store) res"
  te_commit :: commit_answer

text \<open>
  \<open>Persist\<close>: the error is stored in the receipt and committed (\<open>deterministic_failure!\<close>); \<open>Abort\<close>: the
  transaction is rolled back; \<open>Deny\<close>: the audited denial of a disabled Minimal creator.
\<close>

datatype stop = Persist transition_error | Abort transition_error | Deny uuid transition_error

definition check :: "(transition_error, 'a) res \<Rightarrow> (stop, 'a) res" where
  "check r =
     (case r of
        Inr x \<Rightarrow> Inr x
      | Inl e \<Rightarrow> if is_deterministic_error e then Inl (Persist e) else Inl (Abort e))"

section \<open>Locking and authorization\<close>

definition locked_instance ::
  "transition_command \<Rightarrow> store \<Rightarrow> (stop, instance_row \<times> current_visit_row) res" where
  "locked_instance cmd s =
     andThen (check (read_instance (tc_instance cmd) s)) (\<lambda>w.
     andThen (guard_r (tc_expected cmd = wi_state_version w)
        (Persist (T_WorkflowStateVersionConflict (tc_expected cmd) (wi_state_version w)))) (\<lambda>_.
     andThen (check (validate_not_cancelled (wi_cancelled w))) (\<lambda>_.
     andThen (check (read_current_visit (tc_instance cmd) (wi_visit w) s)) (\<lambda>v.
     andThen (check (validate_nonterminal_source (node_type_enum (cv_type v)))) (\<lambda>_. Inr (w, v))))))"

definition authorized :: "transition_command \<Rightarrow> current_visit_row \<Rightarrow> store \<Rightarrow> (stop, unit) res" where
  "authorized cmd v s =
     (case validate_principal_enabled (tc_principal cmd) s of
        Some e \<Rightarrow> Inl (Persist e)
      | None \<Rightarrow>
          andThen (check (validate_assignee
            (actor_is_effective_current_assignee (cv_assignee v) (tc_principal cmd) s))) (\<lambda>_.
          guard_r (\<not> has_open_assistance (cv_visit v) s) (Persist T_AssistanceOpen)))"

section \<open>Selection\<close>

record selection =
  sl_model :: int
  sl_source :: source_node_row
  sl_transition :: transition_row
  sl_target :: target_node_row
  sl_prior :: int
  sl_max :: int

definition selected ::
  "transition_env \<Rightarrow> transition_command \<Rightarrow> instance_row \<Rightarrow> current_visit_row \<Rightarrow> store \<Rightarrow> (stop, selection) res" where
  "selected env cmd w v s =
     andThen (check (read_definition_version_status (wi_version w) s)) (\<lambda>_.
     andThen (check (read_semantic_model_version (wi_version w) s)) (\<lambda>model.
     andThen (check (select_transition (tc_transition cmd) (wi_version w) v (model = 2) s)) (\<lambda>(source, tr, target).
     andThen (check (return_budget (show_uuid (te_lib env)) (tc_instance cmd) (tr_id tr) (tr_effect tr)
                (te_max_returns env) s)) (\<lambda>(prior, maximum).
     case validate_activation_node_types source target (model = 3) of
       Inl e \<Rightarrow> Inl (Persist e)
     | Inr _ \<Rightarrow> Inr \<lparr>sl_model = model, sl_source = source, sl_transition = tr, sl_target = target,
                    sl_prior = prior, sl_max = maximum\<rparr>))))"

section \<open>A late change of the context\<close>

definition owner_storage :: "(string, 'a) res \<Rightarrow> (owner_error, 'a) res" where
  "owner_storage r =
     (case r of Inl _ \<Rightarrow> Inl \<lparr>oe_status = 503, oe_code = ''service_unavailable''\<rparr> | Inr x \<Rightarrow> Inr x)"

definition find_context :: "uuid \<Rightarrow> uuid \<Rightarrow> store \<Rightarrow> context_row option" where
  "find_context c inst s = find (\<lambda>r. cx_id r = c \<and> cx_instance r = inst) (contexts s)"

definition without_member :: "string \<Rightarrow> json \<Rightarrow> json" where
  "without_member k v =
     (case v of JObject kvs \<Rightarrow> JObject (filter (\<lambda>kv. fst kv \<noteq> k) kvs) | x \<Rightarrow> x)"

text \<open>Only an INTAKE of a managed instance may change its context, into a gated TASK.\<close>

definition context_change_scope :: "transition_env \<Rightarrow> uuid \<Rightarrow> uuid \<Rightarrow> uuid \<Rightarrow> store \<Rightarrow> (owner_error, bool) res" where
  "context_change_scope env inst v target s =
     (let row = find_node_of target v s;
          scope = (list_ex (\<lambda>m. mi_id m = inst \<and> mi_kind m = ''INTAKE'') (managed_instances s) \<and> map_option nr_type row = Some ''TASK'')
      in if \<not> scope then Inr False
         else owner_storage (te_node_gate env (Option.bind row nr_metadata)))"

definition prerequisite_only_change ::
  "transition_env \<Rightarrow> json \<Rightarrow> json \<Rightarrow> string \<Rightarrow> json option \<Rightarrow> (owner_error, json option) res" where
  "prerequisite_only_change env old proposed stored_digest schema =
     (let dig = json_digest (te_lib env);
          unavailable = \<lparr>oe_status = 503, oe_code = ''authoritative_reference_unavailable''\<rparr> in
      andThen (owner_storage (dig old)) (\<lambda>d.
      andThen (guard_r (d = stored_digest) unavailable) (\<lambda>_.
      andThen (guard_r (is_object old) unavailable) (\<lambda>_.
      andThen (owner_storage (dig (without_member ''workflowPrerequisite'' old))) (\<lambda>a.
      andThen (owner_storage (dig (without_member ''workflowPrerequisite'' proposed))) (\<lambda>b.
      andThen (guard_r (a = b) \<lparr>oe_status = 422, oe_code = ''owner_context_non_prerequisite_changed''\<rparr>) (\<lambda>_.
      andThen (case schema of
          None \<Rightarrow> Inr ()
        | Some sc \<Rightarrow> andThen (owner_storage (schema_validator (te_lib env) sc)) (\<lambda>validator.
            guard_r (is_ok (validator proposed)) \<lparr>oe_status = 422, oe_code = ''owner_context_schema_invalid''\<rparr>)) (\<lambda>_.
      andThen (owner_storage (dig proposed)) (\<lambda>p.
        Inr (if p = stored_digest then None else Some proposed))))))))))"

definition validate_context_change ::
  "transition_env \<Rightarrow> uuid \<Rightarrow> uuid \<Rightarrow> uuid \<Rightarrow> uuid \<Rightarrow> string \<Rightarrow> json option \<Rightarrow> store \<Rightarrow> (owner_error, json option) res" where
  "validate_context_change env inst v ctx target effect proposal s =
     (let invalid = \<lparr>oe_status = 422, oe_code = ''invalid_input''\<rparr> in
      case proposal of
        None \<Rightarrow> Inr None
      | Some proposed \<Rightarrow>
          if \<not> is_object proposed \<or> effect \<notin> {''ADVANCE'', ''RETURN''} then Inl invalid
          else andThen (context_change_scope env inst v target s) (\<lambda>ok.
          if \<not> ok then Inl invalid
          else case (find_context ctx inst s, find_version v s) of
            (Some c, Some r) \<Rightarrow> prerequisite_only_change env (cx_payload c) proposed (cx_digest c) (vr_context_schema r)
          | _ \<Rightarrow> Inl \<lparr>oe_status = 503, oe_code = ''authoritative_reference_unavailable''\<rparr>))"

text \<open>Step 11: the context change, then the owner guards.\<close>

definition context_change ::
  "transition_env \<Rightarrow> transition_command \<Rightarrow> instance_row \<Rightarrow> selection \<Rightarrow> json option \<Rightarrow> store \<Rightarrow> (stop, json option) res" where
  "context_change env cmd w sl proposal s =
     (case validate_context_change env (tc_instance cmd) (wi_version w) (wi_context w)
             (tr_target (sl_transition sl)) (tr_effect (sl_transition sl)) proposal s of
        Inr x \<Rightarrow> Inr x
      | Inl e \<Rightarrow>
          if oe_status e \<ge> 500 then Inl (Abort (T_StorageError (oe_code e)))
          else if oe_code e = ''invalid_input'' then Inl (Persist (T_InvalidInput (oe_code e)))
          else Inl (Persist (T_ContextValidationFailed (oe_code e))))"

definition owner_guards ::
  "transition_env \<Rightarrow> transition_command \<Rightarrow> selection \<Rightarrow> json option \<Rightarrow> store \<Rightarrow> (stop, unit) res" where
  "owner_guards env cmd sl proposal s =
     (if \<not> is_managed (tc_instance cmd) s then Inr ()
      else case te_before env (tc_principal cmd) (tc_instance cmd) (tr_target (sl_transition sl))
             (tr_effect (sl_transition sl)) proposal (tc_payload cmd) s of
        Inr _ \<Rightarrow> Inr ()
      | Inl e \<Rightarrow>
          if oe_status e \<ge> 500 then Inl (Abort (T_StorageError (oe_code e)))
          else if starts_with (oe_code e) ''owner_node_gate_'' then Inl (Persist (T_ContextValidationFailed (oe_code e)))
          else Inl (Persist (T_SubmissionValidationFailed (oe_code e))))"

section \<open>The submission\<close>

text \<open>Step 12.  The reference check never panics (\<open>references_total\<close>).\<close>

definition checked_submission ::
  "transition_env \<Rightarrow> transition_command \<Rightarrow> selection \<Rightarrow> store \<Rightarrow> (stop, uuid option) res" where
  "checked_submission env cmd sl s =
     (case tc_payload cmd of
        None \<Rightarrow> if tr_schema (sl_transition sl) \<noteq> None then Inl (Persist T_SubmissionRequired) else Inr None
      | Some payload \<Rightarrow>
          andThen (check (validate_submission_size (te_lib env) payload)) (\<lambda>_.
          andThen (check (validate_submission_schema (te_lib env) (tr_schema (sl_transition sl)) payload)) (\<lambda>_.
          andThen (if tr_effect (sl_transition sl) = ''RETURN''
                   then (case validate_return_references (te_lib env) payload (tc_instance cmd) s of
                           None \<Rightarrow> Inl (Abort (T_InternalConsistency ''panic''))
                         | Some r \<Rightarrow> check r)
                   else Inr ()) (\<lambda>_.
          Inr (Some (te_submission env))))))"

definition invalid_submission :: "string \<Rightarrow> stop" where
  "invalid_submission t = Persist (T_SubmissionValidationFailed t)"

definition accepted_report ::
  "transition_env \<Rightarrow> transition_command \<Rightarrow> instance_row \<Rightarrow> json \<Rightarrow> (stop, unit) res" where
  "accepted_report env cmd w context_payload =
     (case jget context_payload ''acceptanceCriteria'' of
        None \<Rightarrow> Inl (invalid_submission (''the instance'' @ CHR 0x27 #
          ''s formal Context has no acceptanceCriteria catalog at '' @ dquoted ''/acceptanceCriteria''))
      | Some catalog \<Rightarrow>
          (case validate_catalog catalog of
             Inl _ \<Rightarrow> Inl (invalid_submission (''the instance'' @ CHR 0x27 #
               ''s formal Context acceptanceCriteria catalog is missing, empty, or malformed''))
           | Inr ids \<Rightarrow>
               (case tc_payload cmd of
                  None \<Rightarrow> Inl (invalid_submission ''acceptance binding requires the submission payload'')
                | Some payload \<Rightarrow>
                    (case validate_acceptance_report (show_uuid (te_lib env)) payload (wi_context w) ids of
                       Inl detail \<Rightarrow> Inl (invalid_submission (''acceptance report validation failed: '' @ detail))
                     | Inr _ \<Rightarrow> Inr ()))))"

definition acceptance_binding ::
  "transition_env \<Rightarrow> transition_command \<Rightarrow> instance_row \<Rightarrow> selection \<Rightarrow> json option \<Rightarrow> (stop, unit) res" where
  "acceptance_binding env cmd w sl context_payload =
     (case tr_schema (sl_transition sl) of
        None \<Rightarrow> Inr ()
      | Some schema \<Rightarrow>
          (case inspect_submission_schema schema of
             Inl detail \<Rightarrow> Inl (invalid_submission (''acceptance binding annotation invalid: '' @ detail))
           | Inr False \<Rightarrow> Inr ()
           | Inr True \<Rightarrow>
               if tr_effect (sl_transition sl) \<noteq> ''ADVANCE'' \<or> sl_model sl \<noteq> 3
               then Inl (invalid_submission ''acceptance binding annotation is not allowed on this transition'')
               else case context_payload of
                 None \<Rightarrow> Inl (Abort (T_InternalConsistency
                   ''acceptance binding: current context revision payload is missing''))
               | Some c \<Rightarrow> accepted_report env cmd w c))"

definition governance_selection ::
  "transition_env \<Rightarrow> transition_command \<Rightarrow> store \<Rightarrow> (stop, unit) res" where
  "governance_selection env cmd s =
     (case te_selected env (tc_instance cmd) (tc_transition cmd) (tc_payload cmd) s of
        Inr _ \<Rightarrow> Inr ()
      | Inl (A_InvalidPayload detail) \<Rightarrow> Inl (invalid_submission detail)
      | Inl e \<Rightarrow> Inl (Abort (T_StorageError (assistance_error_to_string e))))"

section \<open>The responsible principal\<close>

definition admission :: "(admission_error, 'a) res \<Rightarrow> (stop, 'a) res" where
  "admission r = (case r of Inl e \<Rightarrow> Inl (Abort (T_AdmissionFailed e)) | Inr x \<Rightarrow> Inr x)"

definition admitted ::
  "uuid option \<Rightarrow> (uuid \<Rightarrow> (admission_error, validated_targets) res) \<Rightarrow> (stop, uuid option) res" where
  "admitted target admit =
     (case target of
        None \<Rightarrow> Inr None
      | Some original \<Rightarrow>
          andThen (admission (admit original)) (\<lambda>v. andThen (admission (responsibility v original)) (\<lambda>p. Inr (Some p))))"

text \<open>Step 13 up to the admission of a RETURN's prior holder.\<close>

definition resolved_target ::
  "transition_env \<Rightarrow> transition_command \<Rightarrow> instance_row \<Rightarrow> selection \<Rightarrow> json option \<Rightarrow> store \<Rightarrow>
     (stop, uuid option) res" where
  "resolved_target env cmd w sl context_payload s =
     (let target = sl_target sl; return = (tr_effect (sl_transition sl) = ''RETURN'') in
      andThen (guard_r (\<not> (sl_model sl = 2 \<and> assignee_ref_type_enum (tn_ref_type target) = Some DomainOwner))
        (Persist (T_AssigneeResolutionFailed ''Minimal (V2) target uses forbidden DOMAIN_OWNER assignee''))) (\<lambda>_.
      andThen (check (resolve_assignee (te_lib env) target w (wi_domain w) context_payload return s)) (\<lambda>candidate.
        if return
        then admitted candidate (\<lambda>p. admit_historical_target (show_uuid (te_lib env)) (te_gate env)
               (tc_instance cmd) (tn_id target) p s)
        else Inr candidate)))"

text \<open>The checks of the resolved principal by model; then the admission of a new responsibility.\<close>

definition enabled_by_model ::
  "selection \<Rightarrow> uuid option \<Rightarrow> store \<Rightarrow> (stop, unit) res" where
  "enabled_by_model sl candidate s =
     (case candidate of
        None \<Rightarrow> Inr ()
      | Some p \<Rightarrow>
          if sl_model sl = 1 then andThen (check (verify_principal_enabled_for_transition p False s)) (\<lambda>_. Inr ())
          else if sl_model sl = 2 \<and> assignee_ref_type_enum (tn_ref_type (sl_target sl)) = Some WorkflowCreator then
            (case principal_enabled p s of
               Some True \<Rightarrow> Inr ()
             | Some False \<Rightarrow> Inl (Deny p (T_AssigneeResolutionFailed ''resolved principal is disabled''))
             | None \<Rightarrow> Inl (Deny p (T_AssigneeResolutionFailed ''resolved principal not found'')))
          else if sl_model sl = 3 \<and> tr_effect (sl_transition sl) \<noteq> ''RETURN'' then
            (case validate_owner_is_human_or_agent p s of
               Inl reason \<Rightarrow> Inl (Persist (T_AssigneeResolutionFailed reason))
             | Inr _ \<Rightarrow> Inr ())
          else Inr ())"

definition responsible ::
  "transition_env \<Rightarrow> selection \<Rightarrow> uuid option \<Rightarrow> store \<Rightarrow> (stop, uuid option) res" where
  "responsible env sl candidate s =
     (if tr_effect (sl_transition sl) \<noteq> ''RETURN''
      then admitted candidate (\<lambda>p. admit_on_tx (show_uuid (te_lib env)) (te_gate env) [p] s)
      else (case candidate of
              Some p \<Rightarrow>
                if sl_model sl = 3 then
                  (case validate_owner_is_human_or_agent p s of
                     Inl reason \<Rightarrow> Inl (Abort (T_AssigneeResolutionFailed reason))
                   | Inr _ \<Rightarrow> Inr candidate)
                else Inr candidate
            | None \<Rightarrow> Inr None))"

section \<open>All checks\<close>

record transition_plan = selection +
  pl_instance :: instance_row
  pl_context :: "json option"
  pl_submission :: "uuid option"
  pl_assignee :: "uuid option"

definition checked_transition ::
  "transition_env \<Rightarrow> transition_command \<Rightarrow> json option \<Rightarrow> store \<Rightarrow> (stop, transition_plan) res" where
  "checked_transition env cmd proposal s =
     andThen (locked_instance cmd s) (\<lambda>(w, v).
     andThen (authorized cmd v s) (\<lambda>_.
     andThen (selected env cmd w v s) (\<lambda>sl.
     andThen (context_change env cmd w sl proposal s) (\<lambda>changed.
     andThen (owner_guards env cmd sl proposal s) (\<lambda>_.
     andThen (checked_submission env cmd sl s) (\<lambda>sub.
       let context_payload = map_option cx_payload (find_context (wi_context w) (tc_instance cmd) s) in
     andThen (acceptance_binding env cmd w sl context_payload) (\<lambda>_.
     andThen (governance_selection env cmd s) (\<lambda>_.
     andThen (resolved_target env cmd w sl context_payload s) (\<lambda>candidate.
     andThen (enabled_by_model sl candidate s) (\<lambda>_.
     andThen (responsible env sl candidate s) (\<lambda>assignee.
       Inr \<lparr>sl_model = sl_model sl, sl_source = sl_source sl, sl_transition = sl_transition sl,
            sl_target = sl_target sl, sl_prior = sl_prior sl, sl_max = sl_max sl,
            pl_instance = w, pl_context = changed, pl_submission = sub, pl_assignee = assignee\<rparr>)))))))))))"

section \<open>The writes\<close>

definition sql :: "(string, 'a) res \<Rightarrow> (transition_error, 'a) res" where
  "sql r = (case r of Inl e \<Rightarrow> Inl (T_StorageError e) | Inr x \<Rightarrow> Inr x)"

definition assist :: "(assistance_error, 'a) res \<Rightarrow> (transition_error, 'a) res" where
  "assist r = (case r of Inl e \<Rightarrow> Inl (T_StorageError (assistance_error_to_string e)) | Inr x \<Rightarrow> Inr x)"

text \<open>
  \<open>transition_context::append\<close>.  Without the previous revision nothing is inserted and the update of the
  instance breaks its foreign key.
\<close>

definition append_context ::
  "transition_env \<Rightarrow> uuid \<Rightarrow> uuid \<Rightarrow> uuid \<Rightarrow> json \<Rightarrow> store \<Rightarrow> (owner_error, uuid \<times> store) res" where
  "append_context env inst previous actor payload s =
     (let unavailable = \<lparr>oe_status = 503, oe_code = ''authoritative_reference_unavailable''\<rparr>;
          hit = (\<lambda>w. wi_id w = inst \<and> wi_context w = previous) in
      andThen (owner_storage (json_digest (te_lib env) payload)) (\<lambda>d.
        case find_context previous inst s of
          None \<Rightarrow> owner_storage (Inl ''foreign key violation'')
        | Some c \<Rightarrow>
            if te_context env \<in> cx_id ` set (contexts s) \<or>
               (inst, cx_number c + 1) \<in> (\<lambda>r. (cx_instance r, cx_number r)) ` set (contexts s)
            then owner_storage (Inl ''duplicate key value violates unique constraint'')
            else if length (filter hit (instances s)) \<noteq> 1 then Inl unavailable
            else Inr (te_context env, s\<lparr>
              contexts := contexts s @ [\<lparr>cx_id = te_context env, cx_instance = inst, cx_number = cx_number c + 1,
                cx_previous = Some previous, cx_payload = payload, cx_digest = d, cx_author = actor\<rparr>],
              instances := map (\<lambda>w. if hit w then w\<lparr>wi_context := te_context env\<rparr> else w) (instances s)\<rparr>)))"

definition effective_context ::
  "transition_env \<Rightarrow> transition_command \<Rightarrow> transition_plan \<Rightarrow> store \<Rightarrow> (transition_error, uuid \<times> store) res" where
  "effective_context env cmd pl s =
     (case pl_context pl of
        None \<Rightarrow> Inr (wi_context (pl_instance pl), s)
      | Some payload \<Rightarrow>
          (case append_context env (tc_instance cmd) (wi_context (pl_instance pl)) (tc_principal cmd) payload s of
             Inl e \<Rightarrow> Inl (T_StorageError (oe_code e))
           | Inr x \<Rightarrow> Inr x))"

definition written_submission ::
  "transition_env \<Rightarrow> transition_command \<Rightarrow> transition_plan \<Rightarrow> store \<Rightarrow> (transition_error, store) res" where
  "written_submission env cmd pl s =
     (case tc_payload cmd of
        None \<Rightarrow> Inr s
      | Some payload \<Rightarrow> insert_submission (json_digest (te_lib env)) (te_submission env) (tc_instance cmd)
          (wi_visit (pl_instance pl)) (wi_context (pl_instance pl)) (tc_principal cmd)
          (tr_id (sl_transition pl)) payload s)"

text \<open>The activation of the target visit; a dispatch intent queues its kick.\<close>

definition activated_target ::
  "transition_env \<Rightarrow> transition_command \<Rightarrow> transition_plan \<Rightarrow> store \<Rightarrow> (transition_error, store) res" where
  "activated_target env cmd pl s =
     (case pl_assignee pl of
        None \<Rightarrow> Inr s
      | Some owner \<Rightarrow>
          if sl_model pl \<noteq> 3 then Inr s
          else case find_principal owner s of
            None \<Rightarrow> Inl (T_StorageError row_not_found)
          | Some p \<Rightarrow>
              let kind = (if pr_type p = ''AGENT'' then DispatchIntent else HumanWorkItem) in
              andThen (insert_activation (te_now env) (te_activation env) (tc_instance cmd) (te_visit env) kind owner
                  (te_command env) s) (\<lambda>s1.
              if kind = DispatchIntent
              then sql (queue_execution_kick (show_uuid (te_lib env)) (te_now env) (te_kick_row env) (tc_instance cmd)
                     (te_visit env) (te_activation env) s1)
              else Inr s1))"

definition payload_digest ::
  "transition_env \<Rightarrow> transition_command \<Rightarrow> (transition_error, string option) res" where
  "payload_digest env cmd =
     (case tc_payload cmd of
        None \<Rightarrow> Inr None
      | Some payload \<Rightarrow> andThen (sql (json_digest (te_lib env) payload)) (\<lambda>d. Inr (Some d)))"

text \<open>Steps 16 and 17: the projection and its event.\<close>

definition written_event ::
  "transition_env \<Rightarrow> transition_command \<Rightarrow> transition_plan \<Rightarrow> uuid \<Rightarrow> store \<Rightarrow> (transition_error, store) res" where
  "written_event env cmd pl ctx s =
     (let w = pl_instance pl; old = wi_state_version w; new = as_i32 (old + 1) in
      andThen (update_instance (tc_instance cmd) (te_visit env) new old (wi_visit w) s) (\<lambda>s1.
      andThen (payload_digest env cmd) (\<lambda>d.
      insert_event (show_uuid (te_lib env)) (json_digest (te_lib env)) (te_event env) (tc_instance cmd) new
        (te_command env) (tr_effect (sl_transition pl)) (wi_visit w) (te_visit env) (wi_context w)
        (pl_submission pl) (tc_principal cmd) (sn_id (sl_source pl)) (tn_id (sl_target pl)) old new
        (sl_transition pl) d (if ctx \<noteq> wi_context w then Some ctx else None) s1)))"

definition uuid_json :: "transition_env \<Rightarrow> uuid \<Rightarrow> json" where
  "uuid_json env u = JString (show_uuid (te_lib env) u)"

definition committed_payload :: "transition_env \<Rightarrow> transition_command \<Rightarrow> transition_plan \<Rightarrow> json" where
  "committed_payload env cmd pl =
     JObject
       [(''effect'', JString (tr_effect (sl_transition pl))),
        (''eventType'', JString ''transition_committed''),
        (''returnCountPerEdge'', (if tr_effect (sl_transition pl) = ''RETURN'' then json_int (sl_prior pl + 1) else JNull)),
        (''sourceNodeId'', uuid_json env (sn_id (sl_source pl))),
        (''sourceNodeVisitId'', uuid_json env (wi_visit (pl_instance pl))),
        (''targetNodeId'', uuid_json env (tn_id (sl_target pl))),
        (''targetNodeVisitId'', uuid_json env (te_visit env)),
        (''transitionDefinitionId'', uuid_json env (tr_id (sl_transition pl))),
        (''transitionKey'', JString (tr_key (sl_transition pl))),
        (''workflowInstanceId'', uuid_json env (tc_instance cmd))]"

text \<open>Step 17b: the forum rows, and the hooks and the row of a completed workflow.\<close>

definition queued_facts ::
  "transition_env \<Rightarrow> transition_command \<Rightarrow> transition_plan \<Rightarrow> store \<Rightarrow> (transition_error, store) res" where
  "queued_facts env cmd pl s =
     andThen (sql (queue_forum_event (te_now env) (te_forum_row env) (tc_instance cmd)
        (''transition_committed:'' @ show_uuid (te_lib env) (te_event env)) (committed_payload env cmd pl) s)) (\<lambda>s1.
     if node_type_enum (tn_type (sl_target pl)) = NT_TERMINAL then
       andThen (assist (te_terminal env (tc_instance cmd) (te_event env)
          (complete_intents (tc_instance cmd) (te_event env) s1))) (\<lambda>s2.
       sql (queue_forum_event (te_now env) (te_done_row env) (tc_instance cmd)
         (''workflow_completed:'' @ show_uuid (te_lib env) (tc_instance cmd))
         (JObject [(''eventType'', JString ''workflow_completed''),
                   (''finalNodeVisitId'', uuid_json env (te_visit env)),
                   (''workflowInstanceId'', uuid_json env (tc_instance cmd))]) s2))
     else Inr s1)"

text \<open>The RETURN that reaches the limit asks the domain owner for attention.\<close>

definition limit_message :: "transition_plan \<Rightarrow> string" where
  "limit_message pl =
     ''RETURN policy limit reached: transition '' @ tr_key (sl_transition pl) @ '' recorded return '' @
     show_int (sl_prior pl + 1) @ '' of '' @ show_int (sl_max pl) @ '' '' @ [CHR 0xE2, CHR 0x80, CHR 0x94] @
     '' Domain Owner attention required''"

definition policy_escalation ::
  "transition_env \<Rightarrow> transition_command \<Rightarrow> transition_plan \<Rightarrow> store \<Rightarrow>
     (transition_error, escalation_outcome option \<times> store) res" where
  "policy_escalation env cmd pl s =
     (if tr_effect (sl_transition pl) = ''RETURN'' \<and> sl_prior pl + 1 = sl_max pl then
        andThen (assist (open_owner_pending_visit (te_lib env) (te_escalation env) (tc_instance cmd) (te_visit env)
            (tc_principal cmd) (te_command env) (limit_message pl)
            (JObject [(''nodeVisitId'', uuid_json env (te_visit env)),
                      (''reason'', JString ''RETURN_POLICY_EXHAUSTED''),
                      (''source'', JString ''return_policy''),
                      (''transitionDefinitionId'', uuid_json env (tr_id (sl_transition pl)))]) s)) (\<lambda>(oc, s1).
        andThen (sql (queue_forum_event (te_now env) (te_policy_row env) (tc_instance cmd)
            (''return_policy_reached:'' @ show_uuid (te_lib env) (tc_instance cmd) @ '':'' @
               show_uuid (te_lib env) (tr_id (sl_transition pl)))
            (JObject [(''assistanceCaseId'', uuid_json env (eo_case oc)),
                      (''assistanceStatus'', JString ''OWNER_PENDING''),
                      (''eventType'', JString ''return_policy_reached''),
                      (''nodeVisitId'', uuid_json env (te_visit env)),
                      (''reason'', JString ''RETURN_POLICY_EXHAUSTED''),
                      (''transitionDefinitionId'', uuid_json env (tr_id (sl_transition pl))),
                      (''workflowInstanceId'', uuid_json env (tc_instance cmd))]) s1)) (\<lambda>s2.
        Inr (Some oc, s2)))
      else Inr (None, s))"

text \<open>The close of the source activation is the first write; on drift it writes nothing.\<close>

definition closed_source ::
  "transition_env \<Rightarrow> transition_command \<Rightarrow> transition_plan \<Rightarrow> store \<Rightarrow> (stop, store) res" where
  "closed_source env cmd pl s =
     (if sl_model pl = 3 then
        (case close_activation_by_visit_required (te_now env) (tc_instance cmd) (wi_visit (pl_instance pl))
                ''TRANSITIONED'' (te_command env) (Some (te_event env)) s of
           (True, s') \<Rightarrow> Inr s'
         | (False, _) \<Rightarrow> Inl (Persist (T_InternalConsistency
             ''VISIT_ACTIVATION_V1 source visit has no active activation to close'')))
      else Inr s)"

definition written_facts ::
  "transition_env \<Rightarrow> transition_command \<Rightarrow> transition_plan \<Rightarrow> store \<Rightarrow>
     (transition_error, transition_result \<times> store) res" where
  "written_facts env cmd pl s =
     (let number = next_visit_number (tc_instance cmd) (tn_id (sl_target pl)) s;
          new = as_i32 (wi_state_version (pl_instance pl) + 1) in
      andThen (effective_context env cmd pl s) (\<lambda>(ctx, s1).
      andThen (written_submission env cmd pl s1) (\<lambda>s2.
      andThen (insert_node_visit (te_visit env) (tc_instance cmd) (tn_id (sl_target pl)) number (pl_assignee pl)
          (tr_id (sl_transition pl)) s2) (\<lambda>s3.
      andThen (activated_target env cmd pl s3) (\<lambda>s4.
      andThen (written_event env cmd pl ctx s4) (\<lambda>s5.
      andThen (queued_facts env cmd pl s5) (\<lambda>s6.
      andThen (policy_escalation env cmd pl s6) (\<lambda>(escalation, s7).
        Inr (\<lparr>r_instance = tc_instance cmd,
              r_state_version = (case escalation of None \<Rightarrow> new | Some e \<Rightarrow> eo_version e),
              r_context = ctx, r_source_visit = wi_visit (pl_instance pl), r_current_visit = te_visit env,
              r_submission = pl_submission pl,
              r_sequence = (case escalation of None \<Rightarrow> new | Some e \<Rightarrow> eo_sequence e),
              r_case = map_option eo_case escalation\<rparr>, s7)))))))))"

definition completed ::
  "transition_env \<Rightarrow> transition_result \<Rightarrow> store \<Rightarrow> (transition_error, store) res" where
  "completed env result s =
     (let body = transition_response_body (te_lib env) result in
      andThen (sql (json_digest (te_lib env) body)) (\<lambda>d.
        Inr (complete_transition_receipt (te_command env) 200 body d s)))"

section \<open>The whole command\<close>

text \<open>
  How a stopped command ends: \<open>s0\<close> is the store before the transaction, \<open>s1\<close> the one with the claimed
  receipt.  A failure to store the failure rolls back.
\<close>

definition denied ::
  "transition_env \<Rightarrow> transition_command \<Rightarrow> uuid \<Rightarrow> transition_error \<Rightarrow> store \<Rightarrow> (transition_error, store) res" where
  "denied env cmd p err s =
     (let body = error_response_body err;
          domain = (case find (\<lambda>w. wi_id w = tc_instance cmd) (instances s) of None \<Rightarrow> 0 | Some w \<Rightarrow> wi_domain w) in
      andThen (sql (audit_denial (show_uuid (te_lib env)) (te_denial env) (te_command env) ''assignee_resolution_failed''
          [(''checkObject'', JString ''target''), (''checkedPrincipalId'', uuid_json env p),
           (''domainId'', uuid_json env domain), (''workflowInstanceId'', uuid_json env (tc_instance cmd))] s)) (\<lambda>s1.
      andThen (sql (json_digest (te_lib env) body)) (\<lambda>d.
        let s2 = complete_transition_receipt (te_command env) 422 body d s1 in
      andThen (sql (verify_denial_receipt (json_digest (te_lib env)) (te_command env) 422 body s2)) (\<lambda>_. Inr s2))))"

definition stopped ::
  "transition_env \<Rightarrow> transition_command \<Rightarrow> stop \<Rightarrow> store \<Rightarrow> store \<Rightarrow> (transition_error, transition_outcome) res \<times> store" where
  "stopped env cmd st s0 s1 =
     (case st of
        Abort e \<Rightarrow> (Inl e, s0)
      | Persist e \<Rightarrow>
          (case persist_deterministic_failure (te_lib env) (te_command env) e s1 of
             Inl e' \<Rightarrow> (Inl e', s0) | Inr s2 \<Rightarrow> (Inl e, s2))
      | Deny p e \<Rightarrow>
          (case denied env cmd p e s1 of Inl e' \<Rightarrow> (Inl e', s0) | Inr s2 \<Rightarrow> (Inl e, s2)))"

text \<open>Step 19.  Without a deadline the COMMIT is awaited.\<close>

definition committed ::
  "transition_env \<Rightarrow> transition_result \<Rightarrow> store \<Rightarrow> store \<Rightarrow> (transition_error, transition_outcome) res \<times> store" where
  "committed env result s0 s =
     (case check_commit_budget (te_gate env) of
        Inl e \<Rightarrow> (Inl (T_AdmissionFailed e), s0)
      | Inr _ \<Rightarrow>
          (case te_commit env of
             Commit_Error m \<Rightarrow> (Inl (T_StorageError m), s0)
           | Commit_Deadline landed \<Rightarrow>
               if gate_client (te_gate env) \<noteq> None \<and> gate_commit_ms (te_gate env) > 0
               then (Inl (T_AdmissionFailed (Adm_CommitOutcomeUnknown (gate_commit_ms (te_gate env)))),
                     if landed then s else s0)
               else (Inr (Executed result), s)
           | Commit_Ok \<Rightarrow> (Inr (Executed result), s)))"

definition executed ::
  "transition_env \<Rightarrow> transition_command \<Rightarrow> json option \<Rightarrow> store \<Rightarrow> store \<Rightarrow>
     (transition_error, transition_outcome) res \<times> store" where
  "executed env cmd proposal s0 s1 =
     (case checked_transition env cmd proposal s1 of
        Inl st \<Rightarrow> stopped env cmd st s0 s1
      | Inr pl \<Rightarrow>
          (case closed_source env cmd pl s1 of
             Inl st \<Rightarrow> stopped env cmd st s0 s1
           | Inr s2 \<Rightarrow>
               (case andThen (written_facts env cmd pl s2) (\<lambda>(result, s3).
                       andThen (completed env result s3) (\<lambda>s4. Inr (result, s4))) of
                  Inl e \<Rightarrow> (Inl e, s0)
                | Inr (result, s4) \<Rightarrow> committed env result s0 s4)))"

definition execute_workflow_transition ::
  "transition_env \<Rightarrow> transition_command \<Rightarrow> string \<Rightarrow> json option \<Rightarrow> store \<Rightarrow>
     (transition_error, transition_outcome) res \<times> store" where
  "execute_workflow_transition env cmd hash proposal s =
     (case try_insert_transition_receipt (te_command env) (tc_principal cmd) (tc_key cmd) hash s of
        Inl e \<Rightarrow> (Inl e, s)
      | Inr (Some _, s1) \<Rightarrow> executed env cmd proposal s s1
      | Inr (None, s1) \<Rightarrow>
          (case handle_receipt_replay (te_lib env) (tc_principal cmd) (tc_key cmd) hash (te_audit env) s1 of
             (Inr (Executed _), s2) \<Rightarrow> (Inl (T_InternalConsistency ''unexpected replay state''), s2)
           | r \<Rightarrow> r))"

end
