(* ===== verification/Table_Growth.thy ===== *)
theory Table_Growth
  imports Main
begin

text \<open>
  How a table may change: rows keep their place, each related to its successor by \<open>R\<close> (what the row
  promises to keep), and new rows are appended.  Shared by the tables whose rows have a life of their own.
\<close>

definition grows_by :: "('a \<Rightarrow> 'a \<Rightarrow> bool) \<Rightarrow> 'a list \<Rightarrow> 'a list \<Rightarrow> bool" where
  "grows_by R xs ys \<longleftrightarrow> (\<exists>zs new. ys = zs @ new \<and> list_all2 R xs zs)"

lemma grows_by_refl: "(\<And>x. R x x) \<Longrightarrow> grows_by R xs xs"
  unfolding grows_by_def by (rule exI [of _ xs]) (simp add: list.rel_refl)

lemma grows_by_append: "(\<And>x. R x x) \<Longrightarrow> grows_by R xs (xs @ new)"
  unfolding grows_by_def by (rule exI [of _ xs]) (simp add: list.rel_refl)

lemma grows_by_map: "(\<And>x. x \<in> set xs \<Longrightarrow> R x (f x)) \<Longrightarrow> grows_by R xs (map f xs)"
  unfolding grows_by_def by (rule exI [of _ "map f xs"]) (simp add: list_all2_conv_all_nth)

lemma grows_by_trans:
  assumes t: "\<And>x y z. R x y \<Longrightarrow> R y z \<Longrightarrow> R x z" and ab: "grows_by R as bs" and bc: "grows_by R bs cs"
  shows "grows_by R as cs"
proof -
  from ab bc obtain zs new ys more where "bs = zs @ new" "list_all2 R as zs" "cs = ys @ more" "list_all2 R bs ys"
    by (auto simp: grows_by_def)
  then obtain y1 y2 where y: "ys = y1 @ y2" "list_all2 R zs y1" by (auto simp: list_all2_append1)
  have "list_all2 R as y1"
    by (rule list_all2_trans [OF _ \<open>list_all2 R as zs\<close> y(2)]) (rule t)
  with y \<open>cs = ys @ more\<close> show ?thesis by (auto simp: grows_by_def)
qed

lemma grows_by_member: "grows_by R xs ys \<Longrightarrow> x \<in> set xs \<Longrightarrow> \<exists>y\<in>set ys. R x y"
  by (auto simp: grows_by_def list_all2_conv_all_nth in_set_conv_nth) (metis UnI1 nth_mem)

text \<open>A pairwise condition survives updates that do not touch it, and inserts that check it.\<close>

lemma sorted_wrt_update:
  "sorted_wrt P xs \<Longrightarrow> (\<And>x y. x \<in> set xs \<Longrightarrow> y \<in> set xs \<Longrightarrow> P x y \<Longrightarrow> P (f x) (f y)) \<Longrightarrow> sorted_wrt P (map f xs)"
  by (simp add: sorted_wrt_map) (rule sorted_wrt_mono_rel)

end
