(* ===== verification/Intent_Properties.thy ===== *)
theory Intent_Properties
  imports Owner_Intents Table_Growth Step_System
begin

text \<open>
  What the intents promise, whatever the sequence of producers, stops and ends: a settled intent is
  never changed again, the identity of a responsibility is never reset, a case has one INTAKE intent, and
  STOP rows are evidence that is never rewritten.  These are the conditions the trigger
  \<open>owner_fact_immutable\<close> of \<open>migrations/0031\<close> enforces, so it never fires on these statements.
\<close>

section \<open>What a row keeps\<close>

definition keeps_intent :: "intent_row \<Rightarrow> intent_row \<Rightarrow> bool" where
  "keeps_intent i j \<longleftrightarrow>
     in_id j = in_id i \<and> in_kind j = in_kind i \<and> in_case j = in_case i \<and> in_source j = in_source i \<and>
     in_source_visit j = in_source_visit i \<and> in_request_event j = in_request_event i \<and>
     in_request_context j = in_request_context i \<and> in_source_version j = in_source_version i \<and>
     in_request_digest j = in_request_digest i \<and> in_policy_digest j = in_policy_digest i \<and>
     in_policy_version j = in_policy_version i \<and> in_selected_version j = in_selected_version i \<and>
     in_selected_transition j = in_selected_transition i \<and> in_terminal_event j = in_terminal_event i \<and>
     in_binding j = in_binding i \<and> in_managed j = in_managed i \<and>
     (in_state j = in_state i \<or> settled (in_state j)) \<and>
     (settled (in_state i) \<longrightarrow> j = i)"

lemma keeps_intent_refl: "keeps_intent i i"
  by (simp add: keeps_intent_def)

lemma keeps_intent_trans: "keeps_intent a b \<Longrightarrow> keeps_intent b c \<Longrightarrow> keeps_intent a c"
  by (auto simp: keeps_intent_def)

definition intents_le :: "store \<Rightarrow> store \<Rightarrow> bool" where
  "intents_le s s' \<longleftrightarrow> grows_by keeps_intent (intents s) (intents s')"

lemma intents_le_refl [simp]: "intents_le s s"
  by (simp add: intents_le_def grows_by_refl keeps_intent_refl)

lemma intents_le_trans: "intents_le a b \<Longrightarrow> intents_le b c \<Longrightarrow> intents_le a c"
  unfolding intents_le_def by (rule grows_by_trans) (rule keeps_intent_trans)

section \<open>The invariant\<close>

definition intents_wf :: "store \<Rightarrow> bool" where
  "intents_wf s \<longleftrightarrow>
     sorted_wrt (\<lambda>i j. \<not> intent_conflict i j) (intents s) \<and>
     (\<forall>i\<in>set (intents s). in_kind i = ''STOP'' \<longrightarrow> settled (in_state i))"

definition promise :: "store \<Rightarrow> store \<Rightarrow> bool" where
  "promise s s' \<longleftrightarrow> (intents_wf s \<longrightarrow> intents_wf s') \<and> intents_le s s'"

lemma promise_refl [simp]: "promise s s"
  by (simp add: promise_def)

lemma promise_trans: "promise a b \<Longrightarrow> promise b c \<Longrightarrow> promise a c"
  by (auto simp: promise_def intro: intents_le_trans)

lemma same_value_sym: "same_value x y \<Longrightarrow> same_value y x"
  by (auto simp: same_value_def)

lemma intent_conflict_sym: "intent_conflict i j \<Longrightarrow> intent_conflict j i"
  unfolding intent_conflict_def by (elim disjE conjE) (simp_all add: same_value_sym)

lemma insert_intent_promise:
  assumes "in_kind i = ''STOP'' \<longrightarrow> settled (in_state i)"
  shows "promise s (snd (insert_intent i s))"
proof (cases "list_ex (intent_conflict i) (intents s)")
  case False
  then have "\<forall>j\<in>set (intents s). \<not> intent_conflict j i"
    by (metis intent_conflict_sym list_ex_iff)
  with False assms show ?thesis
    by (simp add: insert_intent_def promise_def intents_wf_def intents_le_def sorted_wrt_append
        keeps_intent_refl grows_by_append)
qed (simp add: insert_intent_def)

lemma insert_intents_fold:
  "snd (fold (\<lambda>i (n, s). let (k, s') = insert_intent i s in (n + k, s')) is (n, s)) =
     fold (\<lambda>i s. snd (insert_intent i s)) is s"
  by (induction "is" arbitrary: n s) (auto simp: Let_def split: prod.split)

lemma snd_insert_intents: "snd (insert_intents is s) = fold (\<lambda>i s. snd (insert_intent i s)) is s"
  unfolding insert_intents_def by (rule insert_intents_fold)

lemma fold_promise: "(\<And>x s. x \<in> set xs \<Longrightarrow> promise s (f x s)) \<Longrightarrow> promise s (fold f xs s)"
  by (induction xs arbitrary: s) (auto intro: promise_trans)

lemma insert_intents_promise:
  "\<forall>i\<in>set is. in_kind i = ''STOP'' \<longrightarrow> settled (in_state i) \<Longrightarrow> promise s (snd (insert_intents is s))"
  unfolding snd_insert_intents by (rule fold_promise) (simp add: insert_intent_promise)

text \<open>An update of live rows that settles them or leaves their state, and keeps their identity.\<close>

lemma update_intents_promise:
  assumes live: "\<And>i. P i \<Longrightarrow> \<not> settled (in_state i)"
    and keep: "\<And>i. P i \<Longrightarrow> keeps_intent i (f i)"
  shows "promise s (update_intents P f s)"
proof -
  let ?f = "\<lambda>i. if P i then f i else i"
  have k: "keeps_intent i (?f i)" for i using keep by (simp add: keeps_intent_refl)
  have stop: "in_kind i = ''STOP'' \<Longrightarrow> ?f i = i" if "intents_wf s" "i \<in> set (intents s)" for i
    using that live by (auto simp: intents_wf_def)
  have "sorted_wrt (\<lambda>i j. \<not> intent_conflict i j) (map ?f (intents s))" if wf: "intents_wf s"
  proof (rule sorted_wrt_update)
    show "sorted_wrt (\<lambda>i j. \<not> intent_conflict i j) (intents s)" using wf by (simp add: intents_wf_def)
  next
    fix x y assume x: "x \<in> set (intents s)" and y: "y \<in> set (intents s)" and n: "\<not> intent_conflict x y"
    show "\<not> intent_conflict (?f x) (?f y)"
    proof
      assume c: "intent_conflict (?f x) (?f y)"
      have "in_kind x \<noteq> ''STOP'' \<or> in_kind y \<noteq> ''STOP''"
        using stop [OF wf x] stop [OF wf y] c n by auto
      then show False using c n k [of x] k [of y] unfolding intent_conflict_def keeps_intent_def by metis
    qed
  qed
  moreover have "\<forall>i\<in>set (map ?f (intents s)). in_kind i = ''STOP'' \<longrightarrow> settled (in_state i)" if wf: "intents_wf s"
  proof (intro ballI impI)
    fix j assume "j \<in> set (map ?f (intents s))" and kind: "in_kind j = ''STOP''"
    then obtain i where i: "i \<in> set (intents s)" "j = ?f i" by auto
    with kind k [of i] have "in_kind i = ''STOP''" by (simp add: keeps_intent_def)
    with i stop [OF wf] wf show "settled (in_state j)" by (auto simp: intents_wf_def)
  qed
  moreover have "intents_le s (update_intents P f s)"
    using k by (simp add: intents_le_def update_intents_def grows_by_map)
  ultimately show ?thesis by (auto simp: promise_def intents_wf_def update_intents_def)
qed

section \<open>The operations\<close>

lemma settled_simps [simp]: "settled ''STOPPED''" "settled ''RETIRED''" "settled ''COMPLETED''"
    "\<not> settled ''PENDING''" "\<not> settled ''MATERIALIZED''"
  by (simp_all add: settled_def)

lemma write_stop_promise: "promise s (write_stop fresh managed visit label command replacement event attempt s)"
  unfolding write_stop_def Let_def
  by (rule promise_trans [OF insert_intents_promise update_intents_promise])
     (auto simp: stop_intent_def stopped_intent_def keeps_intent_def)

lemma stop_managed_promise: "promise s (stop_managed fresh managed label command replacement event attempt s)"
  unfolding stop_managed_def by (rule write_stop_promise)

lemma owner_changed_promise: "promise s (owner_changed fresh domain command s)"
  unfolding owner_changed_def Let_def
  by (rule promise_trans [OF fold_promise update_intents_promise])
     (auto simp: keeps_intent_def intro: stop_managed_promise)

lemma intake_intents_pending: "intake_intents fresh c s = Inr rows \<Longrightarrow> i \<in> set rows \<Longrightarrow> in_kind i = ''INTAKE''"
  by (auto simp: intake_intents_def Let_def split: if_splits)

lemma request_intent_promise:
  assumes "request_intent fresh c command s = Inr (handled, s')"
  shows "promise s s'"
proof -
  have ins: "promise s (snd (insert_intents rows s))" if "intake_intents fresh c s = Inr rows" for rows
    using intake_intents_pending [OF that] by (intro insert_intents_promise) auto
  show ?thesis
  proof (cases "find (\<lambda>c'. as_id c' = c) (assistances s)")
    case (Some a)
    show ?thesis
    proof (cases "parent_of (as_instance a) s")
      case None
      show ?thesis
      proof (cases "is_managed (as_instance a) s")
        case False
        with Some None assms show ?thesis
        proof (cases "intake_intents fresh c s")
          case (Inr rows)
          with Some None False assms ins [OF Inr] show ?thesis
            by (cases "insert_intents rows s") (simp add: request_intent_def)
        qed (simp add: request_intent_def)
      qed (use Some None assms in \<open>auto simp: request_intent_def intro: stop_managed_promise\<close>)
    qed (use Some assms in \<open>auto simp: request_intent_def intro: write_stop_promise\<close>)
  qed (use assms in \<open>simp add: request_intent_def\<close>)
qed

lemma terminal_intent_promise: "promise s (snd (terminal_intent fresh b e s))"
proof -
  have "promise s (snd (insert_intents (review_intents fresh b e s) s))"
    by (rule insert_intents_promise) (auto simp: review_intents_def)
  then show ?thesis
    by (cases "insert_intents (review_intents fresh b e s) s") (simp add: terminal_intent_def)
qed

lemma escalation_stop_promise: "promise s (snd (escalation_stop fresh inst visit command facts s))"
  by (simp add: escalation_stop_def Let_def write_stop_promise)

lemma complete_intents_promise: "promise s (complete_intents inst event s)"
  unfolding complete_intents_def by (rule update_intents_promise) (auto simp: keeps_intent_def)

lemma retire_intents_promise: "promise s (retire_intents source command reason s)"
  unfolding retire_intents_def by (rule update_intents_promise) (auto simp: keeps_intent_def)

section \<open>Runs\<close>

inductive intent_step :: "store \<Rightarrow> store \<Rightarrow> bool" where
  request: "request_intent fresh c command s = Inr (handled, s') \<Longrightarrow> intent_step s s'"
| review: "intent_step s (snd (terminal_intent fresh b e s))"
| stop: "intent_step s (stop_managed fresh managed label command replacement event attempt s)"
| owner: "intent_step s (owner_changed fresh_of domain command' s)"
| escalation: "intent_step s (snd (escalation_stop fresh inst visit command' facts s))"
| complete: "intent_step s (complete_intents inst e s)"
| retire: "intent_step s (retire_intents source command' reason s)"

lemma intent_step_promise: "intent_step s s' \<Longrightarrow> promise s s'"
  by (induction rule: intent_step.induct)
     (simp_all add: request_intent_promise terminal_intent_promise stop_managed_promise owner_changed_promise
        escalation_stop_promise complete_intents_promise retire_intents_promise)

interpretation intent_run: step_system intent_step intents_wf intents_le
  by unfold_locales (use intent_step_promise in \<open>auto simp: promise_def intro: intents_le_trans\<close>)

section \<open>What a stop leaves behind\<close>

lemma update_intents_none_left:
  assumes "\<And>i. P i \<Longrightarrow> \<not> P (f i)" and "i \<in> set (intents (update_intents P f s))"
  shows "\<not> P i"
  using assms by (auto simp: update_intents_def split: if_splits)

lemma write_stop_settles:
  assumes "i \<in> set (intents (write_stop fresh managed visit label command replacement event attempt s))"
    and "in_managed i = Some managed"
  shows "settled (in_state i)"
  using update_intents_none_left [OF _ assms(1) [unfolded write_stop_def Let_def]] assms(2)
  by (simp add: stopped_intent_def)

lemma source_in_domain_intents [simp]:
  "source_in_domain d i (update_intents P f s) = source_in_domain d i s"
  "source_in_domain d (i\<lparr>in_state := a, in_outcome := b, in_stop_code := c, in_command := x, in_replacement := y\<rparr>) s =
     source_in_domain d i s"
  by (simp_all add: source_in_domain_def update_intents_def)

lemma owner_changed_settles:
  assumes "i \<in> set (intents (owner_changed fresh domain command s))"
    and "source_in_domain domain i (owner_changed fresh domain command s)"
  shows "settled (in_state i)"
  using update_intents_none_left [OF _ assms(1) [unfolded owner_changed_def Let_def]] assms(2)
  by (simp add: owner_changed_def Let_def)

definition sample_intent :: intent_row where
  "sample_intent =
     \<lparr>in_id = 1, in_kind = ''INTAKE'', in_case = 2, in_source = 3, in_source_visit = 4, in_request_event = 5,
      in_request_context = 6, in_source_version = 7, in_request_digest = ''d'', in_policy_digest = ''p'',
      in_policy_version = 7, in_selected_version = Some 8, in_selected_transition = Some 9, in_binding = Some 10,
      in_terminal_event = None, in_managed = Some 11, in_state = ''MATERIALIZED'', in_outcome = None,
      in_stop_code = None, in_command = None, in_replacement = None, in_origin_event = None, in_visit = None,
      in_attempt = None\<rparr>"

definition sample_intents :: store where
  "sample_intents = empty_store\<lparr>intents := [sample_intent]\<rparr>"

section \<open>Properties\<close>

text \<open>
  C35. A settled responsibility is final: under every sequence of producers, stops, completions and
  retirements the intents keep their keys (one INTAKE per case, one REVIEW per terminal event), every
  intent keeps its identity, and one that is STOPPED, RETIRED or COMPLETED is never changed again.
\<close>
theorem settled_intent_is_final:
  assumes "intent_step\<^sup>*\<^sup>* s s'" and "intents_wf s" and "n < length (intents s)"
  shows "intents_wf s' \<and> n < length (intents s') \<and> keeps_intent (intents s ! n) (intents s' ! n) \<and>
    (settled (in_state (intents s ! n)) \<longrightarrow> intents s' ! n = intents s ! n)"
proof -
  have "intents_wf s'" by (rule intent_run.run_inv [OF assms(1,2)])
  moreover have "grows_by keeps_intent (intents s) (intents s')"
    using intent_run.run_le [OF assms(1,2)] by (simp add: intents_le_def)
  then obtain zs new where "intents s' = zs @ new" "list_all2 keeps_intent (intents s) zs"
    by (auto simp: grows_by_def)
  then have "n < length (intents s')" "keeps_intent (intents s ! n) (intents s' ! n)"
    using assms(3) by (auto simp: list_all2_conv_all_nth nth_append)
  ultimately show ?thesis by (simp add: keeps_intent_def)
qed

theorem settled_intent_is_final_witness:
  "intents_wf (retire_intents 3 12 ''SOURCE_CANCELLED'' (complete_intents 11 13 sample_intents)) \<and>
   in_state (intents (complete_intents 11 13 sample_intents) ! 0) = ''COMPLETED'' \<and>
   intents (retire_intents 3 12 ''SOURCE_CANCELLED'' (complete_intents 11 13 sample_intents)) ! 0 =
     intents (complete_intents 11 13 sample_intents) ! 0"
proof -
  let ?s = "complete_intents 11 13 sample_intents"
  have "intent_step\<^sup>*\<^sup>* ?s (retire_intents 3 12 ''SOURCE_CANCELLED'' ?s)"
    by (intro r_into_rtranclp intent_step.retire)
  moreover have "intents_wf ?s" "0 < length (intents ?s)" "in_state (intents ?s ! 0) = ''COMPLETED''"
    by (simp_all add: intents_wf_def complete_intents_def update_intents_def sample_intents_def sample_intent_def
        obligation_kind_def)
  moreover have "settled (in_state (intents ?s ! 0))" using calculation(4) by (simp only: settled_simps)
  ultimately show ?thesis using settled_intent_is_final [of ?s "retire_intents 3 12 ''SOURCE_CANCELLED'' ?s" 0] by blast
qed

text \<open>
  A stop leaves nothing running: after \<open>stop\<close> no intent of the managed instance is live, and after
  a replaced owner no intent of the domain is, whatever was live before.
\<close>
theorem stop_leaves_nothing_live:
  "(\<forall>i\<in>set (intents (stop_managed fresh managed label command replacement event attempt s)).
      in_managed i = Some managed \<longrightarrow> settled (in_state i)) \<and>
   (\<forall>i\<in>set (intents (owner_changed fresh_of domain command' s)).
      source_in_domain domain i (owner_changed fresh_of domain command' s) \<longrightarrow> settled (in_state i))"
  unfolding stop_managed_def using write_stop_settles owner_changed_settles by (intro conjI ballI impI) metis+

theorem stop_leaves_nothing_live_witness:
  "map (\<lambda>i. (in_kind i, in_state i)) (intents (stop_managed 20 11 ''X'' (Some 21) None None None sample_intents)) =
     [(''INTAKE'', ''STOPPED''), (''STOP'', ''STOPPED'')] \<and>
   list_all (\<lambda>i. settled (in_state i)) (intents (stop_managed 20 11 ''X'' (Some 21) None None None sample_intents))"
proof -
  let ?s = "stop_managed 20 11 ''X'' (Some 21) None None None sample_intents"
  have rows: "map (\<lambda>i. (in_kind i, in_state i)) (intents ?s) = [(''INTAKE'', ''STOPPED''), (''STOP'', ''STOPPED'')]"
    and "map in_managed (intents ?s) = [Some 11, Some 11]"
    by code_simp+
  then have "\<forall>i\<in>set (intents ?s). in_managed i = Some 11" by (auto simp: map_eq_Cons_conv)
  with rows stop_leaves_nothing_live [of 20 11 "''X''" "Some 21" None None None sample_intents "\<lambda>x. x" 0 0]
  show ?thesis by (simp add: list_all_iff)
qed

end
