(* ===== verification/Transition_Facts.thy ===== *)
theory Transition_Facts
  imports Execute_Transition Receipt_Properties Intent_Properties
begin

text \<open>
  What one transition command does to each table: an inversion lemma per write of \<open>Execute_Transition\<close>,
  their composition, and the ways a command can end.
\<close>

section \<open>One lemma per write\<close>

lemmas step_simps = andThen_eq_Inr sql_def assist_def lib_error_def sql_error_def owner_storage_def Let_def

lemma sql_Inr [result_simps]: "sql r = Inr x \<longleftrightarrow> r = Inr x"
  by (simp add: sql_def split: sum.split)

lemma assist_Inr [result_simps]: "assist r = Inr x \<longleftrightarrow> r = Inr x"
  by (simp add: assist_def split: sum.split)

lemma lib_error_Inr [result_simps]: "lib_error r = Inr x \<longleftrightarrow> r = Inr x"
  by (simp add: lib_error_def split: sum.split)

lemma sql_error_Inr [result_simps]: "sql_error r = Inr x \<longleftrightarrow> r = Inr x"
  by (simp add: sql_error_def split: sum.split)

lemma owner_storage_Inr [result_simps]: "owner_storage r = Inr x \<longleftrightarrow> r = Inr x"
  by (simp add: owner_storage_def split: sum.split)

lemma admission_Inr [result_simps]: "admission r = Inr x \<longleftrightarrow> r = Inr x"
  by (simp add: admission_def split: sum.split)

lemma check_Inr [result_simps]: "check r = Inr x \<longleftrightarrow> r = Inr x"
  by (simp add: check_def split: sum.split)

lemma insert_outbox_frame: "insert_outbox now oid i k key p s = Inr s' \<Longrightarrow> \<exists>ob. s' = s\<lparr>outbox := ob\<rparr>"
  by (auto simp: insert_outbox_def split: if_splits intro: exI [of _ "outbox s"])

lemma queue_forum_event_frame:
  "queue_forum_event now oid i key p s = Inr s' \<Longrightarrow> \<exists>ob fb. s' = s\<lparr>outbox := ob, forum_bindings := fb\<rparr>"
proof -
  assume q: "queue_forum_event now oid i key p s = Inr s'"
  have b: "\<exists>fb. queue_forum_binding now i s = s\<lparr>forum_bindings := fb\<rparr>"
    by (auto simp: queue_forum_binding_def intro: exI [of _ "forum_bindings s"])
  have "s' = s \<or> insert_outbox now oid i ''FORUM_EVENT'' key p (queue_forum_binding now i s) = Inr s'"
    using q by (auto simp: queue_forum_event_def result_simps split: if_splits)
  then show ?thesis
  proof
    assume "s' = s"
    then show ?thesis by (intro exI [of _ "outbox s"] exI [of _ "forum_bindings s"]) simp
  next
    assume "insert_outbox now oid i ''FORUM_EVENT'' key p (queue_forum_binding now i s) = Inr s'"
    then obtain ob where "s' = (queue_forum_binding now i s)\<lparr>outbox := ob\<rparr>" by (auto dest: insert_outbox_frame)
    moreover obtain fb where "queue_forum_binding now i s = s\<lparr>forum_bindings := fb\<rparr>" using b ..
    ultimately show ?thesis by (intro exI [of _ ob] exI [of _ fb]) simp
  qed
qed

lemma queue_kick_frame: "queue_execution_kick sh now oid i v a s = Inr s' \<Longrightarrow> \<exists>ob. s' = s\<lparr>outbox := ob\<rparr>"
  unfolding queue_execution_kick_def by (rule insert_outbox_frame)

lemma queue_wake_frame:
  "queue_owner_assistance_wake sh now oid i v c ow r s = Inr s' \<Longrightarrow> \<exists>ob. s' = s\<lparr>outbox := ob\<rparr>"
  by (auto simp: queue_owner_assistance_wake_def result_simps split: if_splits
      intro: insert_outbox_frame exI [of _ "outbox s"])

lemma effective_context_frame:
  assumes "effective_context env cmd pl s = Inr (ctx, s')"
  shows "\<exists>cs. s' = s\<lparr>contexts := contexts s @ cs,
    instances := map (\<lambda>w. if wi_id w = tc_instance cmd \<and> wi_context w = wi_context (pl_instance pl)
                         then w\<lparr>wi_context := ctx\<rparr> else w) (instances s)\<rparr>"
proof (cases "pl_context pl")
  case None
  have "map (\<lambda>w. if wi_id w = tc_instance cmd \<and> wi_context w = wi_context (pl_instance pl)
      then w\<lparr>wi_context := wi_context (pl_instance pl)\<rparr> else w) (instances s) = instances s"
    by (rule map_idI) auto
  with None assms show ?thesis by (auto simp: effective_context_def intro: exI [of _ "[]"])
next
  case (Some payload)
  with assms have "append_context env (tc_instance cmd) (wi_context (pl_instance pl)) (tc_principal cmd) payload s
      = Inr (ctx, s')"
    by (simp add: effective_context_def split: sum.splits)
  then show ?thesis
    by (auto simp: append_context_def Let_def result_simps split: option.splits if_splits)
qed

lemma written_submission_frame:
  "written_submission env cmd pl s = Inr s' \<Longrightarrow> \<exists>ss. s' = s\<lparr>submissions := submissions s @ ss\<rparr>"
  by (auto simp: written_submission_def insert_submission_def split: option.splits sum.splits if_splits
      intro: exI [of _ "[]"])

definition new_visit :: "transition_env \<Rightarrow> transition_command \<Rightarrow> transition_plan \<Rightarrow> int \<Rightarrow> visit_row" where
  "new_visit env cmd pl number =
     \<lparr>nv_id = te_visit env, nv_instance = tc_instance cmd, nv_node = tn_id (sl_target pl), nv_number = number,
      nv_assignee = pl_assignee pl, nv_entered_by = Some (tr_id (sl_transition pl))\<rparr>"

lemma insert_visit_frame:
  "insert_node_visit (te_visit env) (tc_instance cmd) (tn_id (sl_target pl)) number (pl_assignee pl)
     (tr_id (sl_transition pl)) s = Inr s' \<Longrightarrow>
   s' = s\<lparr>visits := visits s @ [new_visit env cmd pl number]\<rparr>"
  by (auto simp: insert_node_visit_def new_visit_def split: if_splits)

definition new_activations :: "transition_env \<Rightarrow> transition_command \<Rightarrow> transition_plan \<Rightarrow> store \<Rightarrow> activation_row list" where
  "new_activations env cmd pl s =
     (case pl_assignee pl of
        None \<Rightarrow> []
      | Some owner \<Rightarrow>
          if sl_model pl \<noteq> 3 then []
          else (let kind = (if map_option pr_type (find_principal owner s) = Some ''AGENT''
                            then DispatchIntent else HumanWorkItem) in
            [\<lparr>ac_id = te_activation env, ac_instance = tc_instance cmd, ac_visit = te_visit env, ac_kind = kind,
              ac_owner = owner, ac_at = te_now env,
              ac_next = (if kind = DispatchIntent then Some (te_now env) else None),
              ac_command = te_command env\<rparr>]))"

lemma new_activations_cong: "principals s' = principals s \<Longrightarrow> new_activations env cmd pl s' = new_activations env cmd pl s"
  by (simp add: new_activations_def find_principal_def split: option.split)

lemma insert_activation_frame:
  "insert_activation now aid i v k ow c s = Inr s' \<Longrightarrow>
     s' = s\<lparr>activations := activations s @ [\<lparr>ac_id = aid, ac_instance = i, ac_visit = v, ac_kind = k, ac_owner = ow,
       ac_at = now, ac_next = (if k = DispatchIntent then Some now else None), ac_command = c\<rparr>]\<rparr>"
  by (simp add: insert_activation_def split: if_splits)

lemma activated_target_frame:
  assumes a: "activated_target env cmd pl s = Inr s'"
  shows "\<exists>ob. s' = s\<lparr>activations := activations s @ new_activations env cmd pl s, outbox := ob\<rparr>"
proof (cases "pl_assignee pl = None \<or> sl_model pl \<noteq> 3")
  case True
  with a have "s' = s" by (cases "pl_assignee pl") (simp_all add: activated_target_def)
  moreover from True have "new_activations env cmd pl s = []" by (cases "pl_assignee pl") (simp_all add: new_activations_def)
  ultimately show ?thesis by (intro exI [of _ "outbox s"]) simp
next
  case False
  then obtain owner where o: "pl_assignee pl = Some owner" and m: "sl_model pl = 3" by auto
  with a obtain p where p: "find_principal owner s = Some p"
    by (auto simp: activated_target_def split: option.splits)
  define kind where "kind = (if pr_type p = ''AGENT'' then DispatchIntent else HumanWorkItem)"
  from a o m p obtain s1 where s1: "insert_activation (te_now env) (te_activation env) (tc_instance cmd) (te_visit env)
        kind owner (te_command env) s = Inr s1"
    and k: "(if kind = DispatchIntent
       then sql (queue_execution_kick (show_uuid (te_lib env)) (te_now env) (te_kick_row env) (tc_instance cmd)
              (te_visit env) (te_activation env) s1) else Inr s1) = Inr s'"
    by (auto simp: activated_target_def Let_def kind_def andThen_eq_Inr)
  from k have "\<exists>ob. s' = s1\<lparr>outbox := ob\<rparr>"
    by (auto simp: sql_Inr split: if_splits dest: queue_kick_frame intro: exI [of _ "outbox s1"])
  moreover have "new_activations env cmd pl s = [\<lparr>ac_id = te_activation env, ac_instance = tc_instance cmd,
      ac_visit = te_visit env, ac_kind = kind, ac_owner = owner, ac_at = te_now env,
      ac_next = (if kind = DispatchIntent then Some (te_now env) else None), ac_command = te_command env\<rparr>]"
    by (simp add: new_activations_def o m p kind_def)
  ultimately show ?thesis using insert_activation_frame [OF s1] by auto
qed

definition new_event :: "transition_env \<Rightarrow> transition_command \<Rightarrow> transition_plan \<Rightarrow> event_row \<Rightarrow> bool" where
  "new_event env cmd pl e \<longleftrightarrow>
     ev_id e = te_event env \<and> ev_instance e = tc_instance cmd \<and> ev_command e = te_command env \<and>
     ev_type e = ''WORKFLOW_TRANSITION_COMMITTED'' \<and> ev_effect e = Some (tr_effect (sl_transition pl)) \<and>
     ev_source_visit e = Some (wi_visit (pl_instance pl)) \<and> ev_target_visit e = Some (te_visit env) \<and>
     ev_context e = Some (wi_context (pl_instance pl)) \<and> ev_submission e = pl_submission pl \<and>
     ev_actor e = tc_principal cmd \<and> ev_from e = Some (sn_id (sl_source pl)) \<and>
     ev_to e = Some (tn_id (sl_target pl)) \<and>
     ev_old e = wi_state_version (pl_instance pl) \<and> ev_new e = ev_old e + 1 \<and> ev_sequence e = ev_new e \<and>
     jget (ev_data e) ''transition_definition_id'' = Some (JString (show_uuid (te_lib env) (tr_id (sl_transition pl))))"

lemma event_data_transition:
  "jget (transition_event_data sh t sn tn sv tv c pd nc) ''transition_definition_id'' = Some (JString (sh (tr_id t)))"
  by (cases nc) (simp_all add: transition_event_data_def)

lemma update_instance_frame:
  "update_instance i nv nver over ov s = Inr s' \<Longrightarrow>
     length (filter (\<lambda>w. wi_id w = i \<and> wi_state_version w = over \<and> wi_current_visit w = Some ov) (instances s)) = 1 \<and>
     s' = s\<lparr>instances := map (\<lambda>w. if wi_id w = i \<and> wi_state_version w = over \<and> wi_current_visit w = Some ov
            then w\<lparr>wi_current_visit := Some nv, wi_state_version := nver\<rparr> else w) (instances s)\<rparr>"
  by (simp add: update_instance_def Let_def split: if_splits)

lemma append_event_frame:
  "append_event e s = Inr s' \<Longrightarrow> ev_new e = ev_old e + 1 \<and> ev_sequence e = ev_new e \<and> s' = s\<lparr>events := events s @ [e]\<rparr>"
  by (simp add: append_event_def split: if_splits)

lemma written_event_frame:
  assumes "written_event env cmd pl ctx s = Inr s'"
  shows "as_i32 (wi_state_version (pl_instance pl) + 1) = wi_state_version (pl_instance pl) + 1 \<and>
    length (filter (\<lambda>w. wi_id w = tc_instance cmd \<and> wi_state_version w = wi_state_version (pl_instance pl) \<and>
                        wi_current_visit w = Some (wi_visit (pl_instance pl))) (instances s)) = 1 \<and>
    (\<exists>e. new_event env cmd pl e \<and>
      s' = s\<lparr>instances := map (\<lambda>w. if wi_id w = tc_instance cmd \<and>
                wi_state_version w = wi_state_version (pl_instance pl) \<and> wi_current_visit w = Some (wi_visit (pl_instance pl))
              then w\<lparr>wi_current_visit := Some (te_visit env), wi_state_version := wi_state_version (pl_instance pl) + 1\<rparr>
              else w) (instances s),
             events := events s @ [e]\<rparr>)"
proof -
  let ?old = "wi_state_version (pl_instance pl)"
  let ?new = "as_i32 (?old + 1)"
  from assms obtain s1 d where s1: "update_instance (tc_instance cmd) (te_visit env) ?new ?old
        (wi_visit (pl_instance pl)) s = Inr s1"
    and ev: "insert_event (show_uuid (te_lib env)) (json_digest (te_lib env)) (te_event env) (tc_instance cmd) ?new
        (te_command env) (tr_effect (sl_transition pl)) (wi_visit (pl_instance pl)) (te_visit env)
        (wi_context (pl_instance pl)) (pl_submission pl) (tc_principal cmd) (sn_id (sl_source pl))
        (tn_id (sl_target pl)) ?old ?new (sl_transition pl) d
        (if ctx \<noteq> wi_context (pl_instance pl) then Some ctx else None) s1 = Inr s'"
    by (simp add: written_event_def Let_def andThen_eq_Inr) blast
  from ev obtain data dg e where e: "e =
               \<lparr>ev_id = te_event env, ev_instance = tc_instance cmd, ev_sequence = ?new, ev_command = te_command env,
                ev_type = ''WORKFLOW_TRANSITION_COMMITTED'', ev_effect = Some (tr_effect (sl_transition pl)),
                ev_source_visit = Some (wi_visit (pl_instance pl)), ev_target_visit = Some (te_visit env),
                ev_context = Some (wi_context (pl_instance pl)),
                ev_submission = pl_submission pl, ev_data = data, ev_digest = dg, ev_actor = tc_principal cmd,
                ev_from = Some (sn_id (sl_source pl)), ev_to = Some (tn_id (sl_target pl)),
                ev_old = ?old, ev_new = ?new\<rparr>"
    and app: "append_event e s1 = Inr s'"
    and data: "jget data ''transition_definition_id'' = Some (JString (show_uuid (te_lib env) (tr_id (sl_transition pl))))"
    by (auto simp: insert_event_def Let_def event_data_transition split: sum.splits)
  from append_event_frame [OF app] have n: "?new = ?old + 1" and s': "s' = s1\<lparr>events := events s1 @ [e]\<rparr>"
    by (simp_all add: e)
  moreover from n data have "new_event env cmd pl e" by (simp add: new_event_def e)
  ultimately show ?thesis using update_instance_frame [OF s1] by auto
qed

section \<open>The escalation\<close>

lemma update_intents_frame: "\<exists>is. update_intents P f s = s\<lparr>intents := is\<rparr>"
  by (auto simp: update_intents_def)

lemma insert_intents_frame: "\<exists>is. snd (insert_intents rows s) = s\<lparr>intents := is\<rparr>"
proof -
  have step: "\<exists>is. snd (insert_intent i s) = s\<lparr>intents := is\<rparr>" for i s
    by (auto simp: insert_intent_def intro: exI [of _ "intents s"])
  have "\<exists>is. fold (\<lambda>i s. snd (insert_intent i s)) rows s = s\<lparr>intents := is\<rparr>"
  proof (induction rows arbitrary: s)
    case Nil
    show ?case by (intro exI [of _ "intents s"]) simp
  next
    case (Cons i rows)
    obtain js where "snd (insert_intent i s) = s\<lparr>intents := js\<rparr>" using step by blast
    with Cons [of "s\<lparr>intents := js\<rparr>"] show ?case by auto
  qed
  then show ?thesis by (simp add: snd_insert_intents)
qed

lemma write_stop_frame: "\<exists>is. write_stop fresh m v lb c rp e a s = s\<lparr>intents := is\<rparr>"
proof -
  have "\<exists>is. update_intents P f (snd (insert_intents rows s)) = s\<lparr>intents := is\<rparr>" for P f rows
  proof -
    obtain js where "snd (insert_intents rows s) = s\<lparr>intents := js\<rparr>" using insert_intents_frame by blast
    then show ?thesis using update_intents_frame [of P f "s\<lparr>intents := js\<rparr>"] by auto
  qed
  then show ?thesis by (simp add: write_stop_def Let_def)
qed

lemma escalation_stop_frame: "\<exists>is. snd (escalation_stop fresh i v c facts s) = s\<lparr>intents := is\<rparr>"
  using write_stop_frame by (auto simp: escalation_stop_def Let_def intro: exI [of _ "intents s"])

lemma request_intent_frame:
  assumes "request_intent fresh c command s = Inr (handled, s')"
  shows "\<exists>is. s' = s\<lparr>intents := is\<rparr>"
proof (cases "intake_intents fresh c s")
  case (Inl e)
  then show ?thesis using assms
    by (auto simp: request_intent_def Let_def stop_managed_def write_stop_frame split: option.splits if_splits)
next
  case (Inr rows)
  obtain js where "snd (insert_intents rows s) = s\<lparr>intents := js\<rparr>" using insert_intents_frame by blast
  then show ?thesis using assms Inr
    by (cases "insert_intents rows s")
       (auto simp: request_intent_def Let_def stop_managed_def write_stop_frame split: option.splits if_splits)
qed

lemma notify_owner_frame:
  assumes "notify_owner lib env i v ow r m s = Inr s'"
  shows "\<exists>is ob. s' = s\<lparr>intents := is, outbox := ob\<rparr>"
proof -
  have "s' = s \<or> (\<exists>handled s1. request_intent (ee_intent env) (ee_case env) (ee_receipt env) s = Inr (handled, s1) \<and>
      (s' = s1 \<or> (\<exists>ob. s' = s1\<lparr>outbox := ob\<rparr>)))"
  proof (cases m)
    case True
    then show ?thesis using assms by (simp add: notify_owner_def)
  next
    case False
    then obtain handled s1 where r: "request_intent (ee_intent env) (ee_case env) (ee_receipt env) s = Inr (handled, s1)"
      and t: "(if handled then Inr s1
        else sql_error (queue_owner_assistance_wake (show_uuid lib) (ee_now env) (ee_wake env) i v
               (ee_case env) ow r s1)) = Inr s'"
      using assms by (auto simp: notify_owner_def andThen_eq_Inr)
    then show ?thesis by (auto simp: sql_error_Inr split: if_splits dest: queue_wake_frame)
  qed
  then show ?thesis
  proof (elim disjE exE conjE)
    assume "s' = s"
    then show ?thesis by (intro exI [of _ "intents s"] exI [of _ "outbox s"]) simp
  next
    fix handled s1 assume r: "request_intent (ee_intent env) (ee_case env) (ee_receipt env) s = Inr (handled, s1)" and eq: "s' = s1"
    obtain js where "s1 = s\<lparr>intents := js\<rparr>" using request_intent_frame [OF r] by blast
    then show ?thesis using eq by (intro exI [of _ js] exI [of _ "outbox s"]) simp
  next
    fix handled s1 ob assume r: "request_intent (ee_intent env) (ee_case env) (ee_receipt env) s = Inr (handled, s1)"
      and "s' = s1\<lparr>outbox := ob\<rparr>"
    with request_intent_frame [OF r] show ?thesis by auto
  qed
qed

lemma escalation_guardsD:
  "escalation_guards i v s = Inr (w, owner) \<Longrightarrow>
     find (\<lambda>w. wi_id w = i) (instances s) = Some w \<and> wi_current_visit w = Some v \<and> wi_id w = i \<and> \<not> wi_cancelled w \<and>
     \<not> wi_archived w \<and> current_domain_owner (wi_domain w) s = Some owner"
  by (auto simp: escalation_guards_def result_simps find_Some_iff split: option.splits if_splits)

definition assistance_event :: "escalation_env \<Rightarrow> instance_row \<Rightarrow> event_row \<Rightarrow> bool" where
  "assistance_event env w e \<longleftrightarrow>
     ev_id e = ee_event env \<and> ev_instance e = wi_id w \<and> ev_command e = ee_receipt env \<and>
     ev_type e = ''ASSISTANCE_REQUESTED'' \<and> ev_effect e = None \<and> ev_source_visit e = Some (wi_visit w) \<and>
     ev_target_visit e = Some (wi_visit w) \<and> ev_old e = wi_state_version w \<and> ev_new e = ev_old e + 1 \<and>
     ev_sequence e = ev_new e"

definition request_receipt :: "escalation_env \<Rightarrow> uuid \<Rightarrow> string \<Rightarrow> command_receipt \<Rightarrow> bool" where
  "request_receipt env actor key r \<longleftrightarrow>
     rc_command r = ee_receipt env \<and> rc_principal r = actor \<and> rc_key r = key \<and>
     rc_type r = ''REQUEST_WORKFLOW_ASSISTANCE'' \<and> rc_status r = ''COMPLETED'' \<and>
     rc_response_status r = Some 200 \<and> rc_response_body r \<noteq> None \<and> rc_response_digest r \<noteq> None"

definition pending_case :: "escalation_env \<Rightarrow> instance_row \<Rightarrow> uuid \<Rightarrow> assistance_row \<Rightarrow> bool" where
  "pending_case env w actor a \<longleftrightarrow>
     as_id a = ee_case env \<and> as_instance a = wi_id w \<and> as_visit a = wi_visit w \<and>
     as_status a = ''OWNER_PENDING'' \<and> as_requester a = actor \<and> as_command a = ee_receipt env"

text \<open>The writes of \<open>open_case\<close>: receipt, case, version and event, then the outbox.\<close>

definition case_opened ::
  "library \<Rightarrow> escalation_env \<Rightarrow> instance_row \<Rightarrow> uuid \<Rightarrow> uuid \<Rightarrow> store \<Rightarrow> store \<Rightarrow> bool" where
  "case_opened lib env w actor command s s' \<longleftrightarrow>
     (\<exists>r a e is ob.
        request_receipt env actor (''policy-req:'' @ show_uuid lib command) r \<and>
        find_receipt actor (''policy-req:'' @ show_uuid lib command) s = None \<and>
        ee_receipt env \<notin> rc_command ` set (receipts s) \<and>
        pending_case env w actor a \<and> \<not> has_open_assistance (wi_visit w) s \<and> ee_case env \<notin> as_id ` set (assistances s) \<and>
        assistance_event env w e \<and> append_event e s = Inr (s\<lparr>events := events s @ [e]\<rparr>) \<and>
        as_i32 (wi_state_version w + 1) = wi_state_version w + 1 \<and>
        length (filter (\<lambda>x. wi_id x = wi_id w \<and> wi_state_version x = wi_state_version w) (instances s)) = 1 \<and>
        s' = s\<lparr>receipts := receipts s @ [r], assistances := assistances s @ [a],
               instances := map (\<lambda>x. if wi_id x = wi_id w \<and> wi_state_version x = wi_state_version w
                  then x\<lparr>wi_state_version := wi_state_version w + 1\<rparr> else x) (instances s),
               events := events s @ [e], intents := is, outbox := ob\<rparr>)"

lemma relabelled_Inr: "(case r of Inl _ \<Rightarrow> Inl e | Inr x \<Rightarrow> Inr x) = Inr y \<longleftrightarrow> r = Inr y"
  by (cases r) simp_all

lemma open_case_frame:
  assumes "open_case lib env w (wi_visit w) owner actor command request supporting dg ms s = Inr (oc, s')"
  shows "case_opened lib env w actor command s s' \<and>
    oc = \<lparr>eo_case = ee_case env, eo_owner = owner, eo_escalated = True, eo_version = wi_state_version w + 1,
          eo_sequence = wi_state_version w + 1, eo_receipt = command\<rparr>"
proof -
  let ?key = "''policy-req:'' @ show_uuid lib command"
  let ?new = "as_i32 (wi_state_version w + 1)"
  let ?a = "\<lparr>as_id = ee_case env, as_instance = wi_id w, as_visit = wi_visit w, as_status = ''OWNER_PENDING'',
          as_requester = actor, as_payload = request, as_digest = dg, as_command = ee_receipt env,
          as_escalation = None, as_resolution = None, as_void = None, as_created = ee_now env\<rparr>"
  from assms obtain d s1 s2 s3 s4 e where
    m: "mint_request_receipt env actor ?key (JObject [(''source'', JString ''execution_policy'')]) d s = Inr s1"
    and c: "insert_case ?a s1 = Inr s2"
    and b: "bump_version (wi_id w) ?new (wi_state_version w) s2 = Inr s3"
    and ev: "append_event e s3 = Inr s4"
    and e: "ev_id e = ee_event env \<and> ev_instance e = wi_id w \<and> ev_command e = ee_receipt env \<and>
       ev_type e = ''ASSISTANCE_REQUESTED'' \<and> ev_effect e = None \<and> ev_source_visit e = Some (wi_visit w) \<and>
       ev_target_visit e = Some (wi_visit w) \<and> ev_old e = wi_state_version w \<and> ev_new e = ?new \<and> ev_sequence e = ?new"
    and n: "notify_owner lib env (wi_id w) (wi_visit w) owner (wake_reason supporting) ms s4 = Inr s'"
    and oc: "oc = \<lparr>eo_case = ee_case env, eo_owner = owner, eo_escalated = True, eo_version = ?new,
          eo_sequence = ?new, eo_receipt = command\<rparr>"
    unfolding open_case_def Let_def andThen_eq_Inr relabelled_Inr
    by (elim exE conjE) (rule that, assumption+, simp_all)
  obtain r where s1: "s1 = s\<lparr>receipts := receipts s @ [r]\<rparr>" and r: "request_receipt env actor ?key r"
    and fresh: "find_receipt actor ?key s = None" "ee_receipt env \<notin> rc_command ` set (receipts s)"
    using m by (auto simp: mint_request_receipt_def request_receipt_def split: if_splits)
  have s2: "s2 = s1\<lparr>assistances := assistances s1 @ [?a]\<rparr>" and open1: "\<not> has_open_assistance (wi_visit w) s1"
    and case1: "ee_case env \<notin> as_id ` set (assistances s1)"
    using c by (auto simp: insert_case_def is_open_def split: if_splits)
  have s3: "s3 = s2\<lparr>instances := map (\<lambda>x. if wi_id x = wi_id w \<and> wi_state_version x = wi_state_version w
      then x\<lparr>wi_state_version := ?new\<rparr> else x) (instances s2)\<rparr>"
    and one: "length (filter (\<lambda>x. wi_id x = wi_id w \<and> wi_state_version x = wi_state_version w) (instances s2)) = 1"
    using b by (simp_all add: bump_version_def Let_def split: if_splits)
  have new: "?new = wi_state_version w + 1" and s4: "s4 = s3\<lparr>events := events s3 @ [e]\<rparr>"
    using append_event_frame [OF ev] e by simp_all
  obtain "is" ob where "s' = s4\<lparr>intents := is, outbox := ob\<rparr>" using notify_owner_frame [OF n] by blast
  then have s': "s' = s\<lparr>receipts := receipts s @ [r], assistances := assistances s @ [?a],
      instances := map (\<lambda>x. if wi_id x = wi_id w \<and> wi_state_version x = wi_state_version w
                  then x\<lparr>wi_state_version := wi_state_version w + 1\<rparr> else x) (instances s),
      events := events s @ [e], intents := is, outbox := ob\<rparr>"
    using new by (simp add: s4 s3 s2 s1)
  have a: "pending_case env w actor ?a" by (simp add: pending_case_def)
  have e': "assistance_event env w e" using e new by (simp add: assistance_event_def)
  have free: "\<not> has_open_assistance (wi_visit w) s" "ee_case env \<notin> as_id ` set (assistances s)"
    "append_event e s = Inr (s\<lparr>events := events s @ [e]\<rparr>)"
    using open1 case1 ev by (auto simp: has_open_assistance_def append_event_def s1 s2 s3 split: if_splits)
  have hit: "length (filter (\<lambda>x. wi_id x = wi_id w \<and> wi_state_version x = wi_state_version w) (instances s)) = 1"
    using one by (simp add: s2 s1)
  have "case_opened lib env w actor command s s'"
    unfolding case_opened_def
    by (rule exI [of _ r], rule exI [of _ ?a], rule exI [of _ e], rule exI [of _ "is"], rule exI [of _ ob])
       (intro conjI; fact r fresh a free e' new hit s')
  then show ?thesis using oc new by simp
qed

lemma append_event_intents: "append_event e (s\<lparr>intents := js\<rparr>) = map_sum id (\<lambda>t. t\<lparr>intents := js\<rparr>) (append_event e s)"
  unfolding append_event_def if_distrib [of "map_sum _ _"] map_sum.simps by (rule if_cong) simp_all

lemma case_opened_intents: "case_opened lib env w actor command (s\<lparr>intents := js\<rparr>) s' \<Longrightarrow> case_opened lib env w actor command s s'"
proof -
  have ev: "append_event e s = Inr (s\<lparr>events := events s @ [e]\<rparr>)"
    if "append_event e (s\<lparr>intents := js\<rparr>) = Inr (s\<lparr>intents := js, events := events s @ [e]\<rparr>)" for e
  proof (cases "append_event e s")
    case (Inr t)
    then show ?thesis using append_event_frame [OF Inr] by simp
  qed (use that in \<open>simp add: append_event_intents\<close>)
  have look: "find_receipt a k (s\<lparr>intents := js\<rparr>) = find_receipt a k s"
    "has_open_assistance v (s\<lparr>intents := js\<rparr>) = has_open_assistance v s" for a k v
    by (simp_all add: find_receipt_def has_open_assistance_def)
  assume "case_opened lib env w actor command (s\<lparr>intents := js\<rparr>) s'"
  then show ?thesis
    unfolding case_opened_def look store.simps
    by (elim exE conjE, intro exI conjI) (assumption | rule ev | simp)+
qed

lemma escalation_frame:
  assumes "open_owner_pending_visit lib env inst visit actor command msg supporting s = Inr (oc, s')"
  shows "\<exists>w. find (\<lambda>w. wi_id w = inst) (instances s) = Some w \<and> wi_id w = inst \<and> wi_visit w = visit \<and>
    \<not> wi_cancelled w \<and> \<not> wi_archived w \<and> current_domain_owner (wi_domain w) s = Some (eo_owner oc) \<and>
    eo_sequence oc = eo_version oc \<and>
    (if eo_escalated oc
     then eo_version oc = wi_state_version w + 1 \<and> eo_case oc = ee_case env \<and> case_opened lib env w actor command s s'
     else eo_version oc = wi_state_version w \<and> (\<exists>is. s' = s\<lparr>intents := is\<rparr>) \<and>
          (\<exists>a. find (\<lambda>a. as_visit a = visit \<and> is_open a) (assistances s) = Some a \<and> eo_case oc = as_id a))"
proof -
  obtain ms s1 where stop: "escalation_stop (ee_stop env) inst visit command supporting s = (ms, s1)" by fastforce
  obtain js where s1: "s1 = s\<lparr>intents := js\<rparr>"
    using escalation_stop_frame [of "ee_stop env" inst visit command supporting s] stop by auto
  from assms stop obtain pd w owner where g: "escalation_guards inst visit s = Inr (w, owner)"
    and rest: "(case find (\<lambda>a. as_visit a = visit \<and> is_open a) (assistances s1) of
            Some a \<Rightarrow> Inr (\<lparr>eo_case = as_id a, eo_owner = owner, eo_escalated = False,
                             eo_version = wi_state_version w, eo_sequence = wi_state_version w,
                             eo_receipt = command\<rparr>, s1)
          | None \<Rightarrow> open_case lib env w visit owner actor command
               (JObject [(''message'', JString msg), (''supportingPayload'', supporting)]) supporting pd ms s1) = Inr (oc, s')"
    by (auto simp: open_owner_pending_visit_def Let_def andThen_eq_Inr split: if_splits prod.splits)
  note gd = escalation_guardsD [OF g]
  show ?thesis
  proof (cases "find (\<lambda>a. as_visit a = visit \<and> is_open a) (assistances s1)")
    case None
    with rest gd have "open_case lib env w (wi_visit w) owner actor command
               (JObject [(''message'', JString msg), (''supportingPayload'', supporting)]) supporting pd ms s1 = Inr (oc, s')"
      by simp
    from open_case_frame [OF this] gd show ?thesis
      unfolding s1 by (auto dest: case_opened_intents)
  next
    case (Some a)
    with rest have "oc = \<lparr>eo_case = as_id a, eo_owner = owner, eo_escalated = False,
                             eo_version = wi_state_version w, eo_sequence = wi_state_version w,
                             eo_receipt = command\<rparr>" and "s' = s1" by auto
    with Some gd show ?thesis by (auto simp: s1)
  qed
qed

section \<open>All writes\<close>

text \<open>
  The governance hook of a completed workflow records the proof on its child binding, may produce a
  REVIEW intent and may queue outbox rows; it writes nothing else of the store.
\<close>

definition terminal_hook_frame :: "transition_env \<Rightarrow> bool" where
  "terminal_hook_frame env \<longleftrightarrow>
     (\<forall>i ev s s'. te_terminal env i ev s = Inr s' \<longrightarrow>
        s'\<lparr>outbox := outbox s, intents := intents s, child_bindings := child_bindings s\<rparr> = s \<and> promise s s')"

lemma terminal_hookD:
  assumes "terminal_hook_frame env" and "te_terminal env i ev s = Inr s'"
  shows "\<exists>ob is gb. s' = s\<lparr>outbox := ob, intents := is, child_bindings := gb\<rparr>"
proof -
  have "s = s'\<lparr>outbox := outbox s, intents := intents s, child_bindings := child_bindings s\<rparr>"
    using assms by (simp add: terminal_hook_frame_def)
  then have "s' = s\<lparr>outbox := outbox s', intents := intents s', child_bindings := child_bindings s'\<rparr>"
    by (cases s, cases s') simp
  then show ?thesis by blast
qed

lemma queued_facts_frame:
  assumes "terminal_hook_frame env" and "queued_facts env cmd pl s = Inr s'"
  shows "\<exists>ob fb is gb. s' = s\<lparr>outbox := ob, forum_bindings := fb, intents := is, child_bindings := gb\<rparr>"
proof -
  from assms(2) obtain s1 key p oid where q1: "queue_forum_event (te_now env) oid (tc_instance cmd) key p s = Inr s1"
    and rest: "s' = s1 \<or> (\<exists>s2 key p oid. te_terminal env (tc_instance cmd) (te_event env)
          (complete_intents (tc_instance cmd) (te_event env) s1) = Inr s2 \<and>
        queue_forum_event (te_now env) oid (tc_instance cmd) key p s2 = Inr s')"
    unfolding queued_facts_def andThen_eq_Inr sql_Inr assist_Inr
    by (elim exE conjE) (simp add: andThen_eq_Inr sql_Inr assist_Inr split: if_splits, blast+)
  obtain ob fb where s1: "s1 = s\<lparr>outbox := ob, forum_bindings := fb\<rparr>"
    using queue_forum_event_frame [OF q1] by blast
  from rest show ?thesis
  proof (elim disjE exE conjE)
    assume "s' = s1"
    with s1 show ?thesis
      by (intro exI [of _ ob] exI [of _ fb] exI [of _ "intents s"] exI [of _ "child_bindings s"]) simp
  next
    fix s2 key p oid
    assume t: "te_terminal env (tc_instance cmd) (te_event env)
        (complete_intents (tc_instance cmd) (te_event env) s1) = Inr s2"
      and q: "queue_forum_event (te_now env) oid (tc_instance cmd) key p s2 = Inr s'"
    obtain js where c: "complete_intents (tc_instance cmd) (te_event env) s1 = s1\<lparr>intents := js\<rparr>"
      using update_intents_frame unfolding complete_intents_def by blast
    from terminal_hookD [OF assms(1) t] obtain ob2 is2 gb2 where
      s2: "s2 = s1\<lparr>outbox := ob2, intents := is2, child_bindings := gb2\<rparr>" by (auto simp: c)
    from queue_forum_event_frame [OF q] obtain ob3 fb3 where "s' = s2\<lparr>outbox := ob3, forum_bindings := fb3\<rparr>" by blast
    then have "s' = s\<lparr>outbox := ob3, forum_bindings := fb3, intents := is2, child_bindings := gb2\<rparr>" by (simp add: s2 s1)
    then show ?thesis by blast
  qed
qed

definition limit_reached :: "transition_plan \<Rightarrow> bool" where
  "limit_reached pl \<longleftrightarrow> tr_effect (sl_transition pl) = ''RETURN'' \<and> sl_prior pl + 1 = sl_max pl"

lemma policy_escalation_frame:
  assumes "policy_escalation env cmd pl s = Inr (oc, s')"
  shows "(\<not> limit_reached pl \<and> oc = None \<and> s' = s) \<or>
    (limit_reached pl \<and> (\<exists>x msg supporting s1 ob fb.
       open_owner_pending_visit (te_lib env) (te_escalation env) (tc_instance cmd) (te_visit env) (tc_principal cmd)
         (te_command env) msg supporting s = Inr (x, s1) \<and> oc = Some x \<and>
       s' = s1\<lparr>outbox := ob, forum_bindings := fb\<rparr>))"
proof (cases "limit_reached pl")
  case False
  then have "policy_escalation env cmd pl s = Inr (None, s)"
    by (auto simp: policy_escalation_def limit_reached_def)
  with False assms show ?thesis by simp
next
  case True
  with assms obtain x msg supporting s1 now oid i key p where o1:
    "open_owner_pending_visit (te_lib env) (te_escalation env) (tc_instance cmd) (te_visit env) (tc_principal cmd)
         (te_command env) msg supporting s = Inr (x, s1)"
    and q: "queue_forum_event now oid i key p s1 = Inr s'" and oc: "oc = Some x"
    unfolding policy_escalation_def limit_reached_def
    by (auto simp: andThen_eq_Inr sql_Inr assist_Inr split: prod.splits)
  from queue_forum_event_frame [OF q] obtain ob fb where "s' = s1\<lparr>outbox := ob, forum_bindings := fb\<rparr>" by blast
  with o1 oc True show ?thesis by blast
qed

text \<open>The rows that the escalation at the limit adds: a receipt, a case and an event, or none.\<close>

definition escalation_rows ::
  "transition_env \<Rightarrow> transition_command \<Rightarrow> transition_plan \<Rightarrow> transition_result \<Rightarrow> store \<Rightarrow>
     command_receipt list \<Rightarrow> assistance_row list \<Rightarrow> event_row list \<Rightarrow> bool" where
  "escalation_rows env cmd pl res s rs cases es \<longleftrightarrow>
     (r_case res \<noteq> None \<longleftrightarrow> limit_reached pl) \<and>
     (rs = [] \<and> cases = [] \<and> es = [] \<and>
        (limit_reached pl \<longrightarrow> (\<exists>a\<in>set (assistances s). as_visit a = te_visit env \<and> is_open a)) \<or>
      limit_reached pl \<and> (\<exists>r a e w. rs = [r] \<and> cases = [a] \<and> es = [e] \<and>
        request_receipt (te_escalation env) (tc_principal cmd) (''policy-req:'' @ show_uuid (te_lib env) (te_command env)) r \<and>
        find_receipt (tc_principal cmd) (rc_key r) s = None \<and> rc_command r \<notin> rc_command ` set (receipts s) \<and>
        pending_case (te_escalation env) w (tc_principal cmd) a \<and> assistance_event (te_escalation env) w e \<and>
        wi_id w = tc_instance cmd \<and> wi_visit w = te_visit env \<and>
        wi_state_version w = wi_state_version (pl_instance pl) + 1 \<and> r_case res = Some (as_id a)))"

definition plan_found :: "transition_command \<Rightarrow> transition_plan \<Rightarrow> store \<Rightarrow> bool" where
  "plan_found cmd pl s \<longleftrightarrow>
     distinct (map wi_id (instances s)) \<and> pl_instance pl \<in> set (instances s) \<and> wi_id (pl_instance pl) = tc_instance cmd \<and> wi_current_visit (pl_instance pl) \<noteq> None"

lemma plan_found_only:
  "plan_found cmd pl s \<Longrightarrow> w \<in> set (instances s) \<Longrightarrow> wi_id w = tc_instance cmd \<Longrightarrow> w = pl_instance pl"
  by (metis distinct_map_eqD plan_found_def)

lemma as_i32_range: "is_i32 (as_i32 i)"
proof -
  have "- (2 ^ 31) \<le> sint (x :: 32 word) \<and> sint x < 2 ^ 31" for x
    using sint_greater_eq [of x] sint_less [of x] by simp
  then show ?thesis by (simp add: as_i32_def is_i32_def)
qed

definition moved :: "transition_result \<Rightarrow> instance_row \<Rightarrow> instance_row" where
  "moved res w = w\<lparr>wi_current_visit := Some (r_current_visit res), wi_state_version := r_state_version res,
                   wi_context := r_context res\<rparr>"

lemma escalated_versions:
  assumes found: "plan_found cmd pl s"
    and i: "instances s1 = map (\<lambda>w. if wi_id w = tc_instance cmd then (pl_instance pl)\<lparr>wi_context := c, wi_current_visit := Some (te_visit env),
              wi_state_version := wi_state_version (pl_instance pl) + 1\<rparr> else w) (instances s)"
    and w: "find (\<lambda>w. wi_id w = tc_instance cmd) (instances s1) = Some w"
  shows "w = (pl_instance pl)\<lparr>wi_context := c, wi_current_visit := Some (te_visit env),
              wi_state_version := wi_state_version (pl_instance pl) + 1\<rparr>"
  using w found by (auto simp: i find_Some_iff plan_found_def split: if_splits)

text \<open>The common part of the result, and the store before the escalation.\<close>

definition written_store ::
  "transition_env \<Rightarrow> transition_command \<Rightarrow> transition_plan \<Rightarrow> uuid \<Rightarrow> context_row list \<Rightarrow> submission_row list \<Rightarrow>
     event_row \<Rightarrow> outbox_row list \<Rightarrow> forum_binding_row list \<Rightarrow> intent_row list \<Rightarrow> child_binding_row list \<Rightarrow>
     store \<Rightarrow> store" where
  "written_store env cmd pl c cs ss e ob fb is gb s =
     s\<lparr>contexts := contexts s @ cs, submissions := submissions s @ ss,
       visits := visits s @ [new_visit env cmd pl (next_visit_number (tc_instance cmd) (tn_id (sl_target pl)) s)],
       activations := activations s @ new_activations env cmd pl s,
       instances := map (\<lambda>w. if wi_id w = tc_instance cmd then (pl_instance pl)\<lparr>wi_context := c, wi_current_visit := Some (te_visit env),
              wi_state_version := wi_state_version (pl_instance pl) + 1\<rparr> else w) (instances s),
       events := events s @ [e], outbox := ob, forum_bindings := fb, intents := is, child_bindings := gb\<rparr>"

lemma map_update_found:
  assumes "plan_found cmd pl s" and "Q (pl_instance pl)"
  shows "map (\<lambda>w. if wi_id w = tc_instance cmd \<and> Q w then g w else w) (instances s) =
    map (\<lambda>w. if wi_id w = tc_instance cmd then g (pl_instance pl) else w) (instances s)"
  using plan_found_only [OF assms(1)] assms(2) by (auto intro!: map_cong)

lemma written_facts_split:
  assumes frame: "terminal_hook_frame env" and found: "plan_found cmd pl s"
    and wr: "written_facts env cmd pl s = Inr (res, s')"
  shows "\<exists>c cs ss e ob fb is gb oc. new_event env cmd pl e \<and>
    as_i32 (wi_state_version (pl_instance pl) + 1) = wi_state_version (pl_instance pl) + 1 \<and>
    policy_escalation env cmd pl (written_store env cmd pl c cs ss e ob fb is gb s) = Inr (oc, s') \<and>
    res = \<lparr>r_instance = tc_instance cmd,
           r_state_version = (case oc of None \<Rightarrow> wi_state_version (pl_instance pl) + 1 | Some e \<Rightarrow> eo_version e),
           r_context = c, r_source_visit = wi_visit (pl_instance pl), r_current_visit = te_visit env,
           r_submission = pl_submission pl,
           r_sequence = (case oc of None \<Rightarrow> wi_state_version (pl_instance pl) + 1 | Some e \<Rightarrow> eo_sequence e),
           r_case = map_option eo_case oc\<rparr>"
proof -
  let ?i = "tc_instance cmd"
  let ?n = "next_visit_number ?i (tn_id (sl_target pl)) s"
  from wr obtain c s1 s2 s3 s4 s5 s6 oc where
    c1: "effective_context env cmd pl s = Inr (c, s1)" and c2: "written_submission env cmd pl s1 = Inr s2"
    and c3: "insert_node_visit (te_visit env) ?i (tn_id (sl_target pl)) ?n (pl_assignee pl) (tr_id (sl_transition pl)) s2 = Inr s3"
    and c4: "activated_target env cmd pl s3 = Inr s4" and c5: "written_event env cmd pl c s4 = Inr s5"
    and c6: "queued_facts env cmd pl s5 = Inr s6" and c7: "policy_escalation env cmd pl s6 = Inr (oc, s')"
    and res: "res = \<lparr>r_instance = tc_instance cmd,
           r_state_version = (case oc of None \<Rightarrow> as_i32 (wi_state_version (pl_instance pl) + 1) | Some e \<Rightarrow> eo_version e),
           r_context = c, r_source_visit = wi_visit (pl_instance pl), r_current_visit = te_visit env,
           r_submission = pl_submission pl,
           r_sequence = (case oc of None \<Rightarrow> as_i32 (wi_state_version (pl_instance pl) + 1) | Some e \<Rightarrow> eo_sequence e),
           r_case = map_option eo_case oc\<rparr>"
    unfolding written_facts_def Let_def andThen_eq_Inr by (auto simp: andThen_eq_Inr split: prod.splits)
  obtain cs where s1: "s1 = s\<lparr>contexts := contexts s @ cs, instances := map (\<lambda>w. if wi_id w = ?i then
      (pl_instance pl)\<lparr>wi_context := c\<rparr> else w) (instances s)\<rparr>"
    using effective_context_frame [OF c1]
      map_update_found [OF found, of "\<lambda>w. wi_context w = wi_context (pl_instance pl)" "\<lambda>w. w\<lparr>wi_context := c\<rparr>"]
    by auto
  obtain ss where s2: "s2 = s1\<lparr>submissions := submissions s1 @ ss\<rparr>" using written_submission_frame [OF c2] ..
  note s3 = insert_visit_frame [OF c3]
  obtain ob where s4: "s4 = s3\<lparr>activations := activations s3 @ new_activations env cmd pl s3, outbox := ob\<rparr>"
    using activated_target_frame [OF c4] ..
  from written_event_frame [OF c5] obtain e where new: "new_event env cmd pl e"
    and i32: "as_i32 (wi_state_version (pl_instance pl) + 1) = wi_state_version (pl_instance pl) + 1"
    and s5: "s5 = s4\<lparr>instances := map (\<lambda>w. if wi_id w = ?i \<and>
                wi_state_version w = wi_state_version (pl_instance pl) \<and> wi_current_visit w = Some (wi_visit (pl_instance pl))
              then w\<lparr>wi_current_visit := Some (te_visit env), wi_state_version := wi_state_version (pl_instance pl) + 1\<rparr>
              else w) (instances s4), events := events s4 @ [e]\<rparr>" by blast
  obtain ob' fb "is" gb where s6: "s6 = s5\<lparr>outbox := ob', forum_bindings := fb, intents := is, child_bindings := gb\<rparr>"
    using queued_facts_frame [OF frame c6] by blast
  obtain v0 where id: "wi_id (pl_instance pl) = ?i" "wi_current_visit (pl_instance pl) = Some v0"
    using found by (auto simp: plan_found_def)
  have acts: "new_activations env cmd pl s3 = new_activations env cmd pl s"
    by (rule new_activations_cong) (simp add: s3 s2 s1)
  have s6': "s6 = written_store env cmd pl c cs ss e ob' fb is gb s"
    unfolding s6 s5 s4 acts written_store_def by (simp add: s3 s2 s1 id cong: if_cong)
  show ?thesis
    by (intro exI conjI) (rule new, rule i32, rule c7 [unfolded s6'], rule res [unfolded i32])
qed

definition final_store ::
  "transition_env \<Rightarrow> transition_command \<Rightarrow> transition_plan \<Rightarrow> transition_result \<Rightarrow> context_row list \<Rightarrow>
     submission_row list \<Rightarrow> event_row list \<Rightarrow> command_receipt list \<Rightarrow> assistance_row list \<Rightarrow> outbox_row list \<Rightarrow>
     forum_binding_row list \<Rightarrow> intent_row list \<Rightarrow> child_binding_row list \<Rightarrow> store \<Rightarrow> store" where
  "final_store env cmd pl res cs ss es rs cases ob fb is gb s =
     s\<lparr>contexts := contexts s @ cs, submissions := submissions s @ ss,
       visits := visits s @ [new_visit env cmd pl (next_visit_number (tc_instance cmd) (tn_id (sl_target pl)) s)],
       activations := activations s @ new_activations env cmd pl s,
       instances := map (\<lambda>w. if wi_id w = tc_instance cmd then moved res (pl_instance pl) else w) (instances s),
       events := events s @ es, receipts := receipts s @ rs, assistances := assistances s @ cases,
       outbox := ob, forum_bindings := fb, intents := is, child_bindings := gb\<rparr>"

definition result_of ::
  "transition_env \<Rightarrow> transition_command \<Rightarrow> transition_plan \<Rightarrow> int \<Rightarrow> transition_result \<Rightarrow> bool" where
  "result_of env cmd pl extra res \<longleftrightarrow>
     r_instance res = tc_instance cmd \<and> r_source_visit res = wi_visit (pl_instance pl) \<and>
     r_current_visit res = te_visit env \<and> r_submission res = pl_submission pl \<and>
     r_state_version res = wi_state_version (pl_instance pl) + 1 + extra \<and> r_sequence res = r_state_version res \<and>
     is_i32 (r_state_version res)"

lemma written_facts_frame:
  assumes frame: "terminal_hook_frame env" and found: "plan_found cmd pl s"
    and wr: "written_facts env cmd pl s = Inr (res, s')"
  shows "\<exists>cs ss e es rs cases ob fb is gb. new_event env cmd pl e \<and> escalation_rows env cmd pl res s rs cases es \<and>
    result_of env cmd pl (int (length es)) res \<and> s' = final_store env cmd pl res cs ss (e # es) rs cases ob fb is gb s"
proof -
  let ?v = "wi_state_version (pl_instance pl)"
  from written_facts_split [OF frame found wr] obtain c cs ss e ob fb "is" gb oc where new: "new_event env cmd pl e"
    and i32: "as_i32 (?v + 1) = ?v + 1"
    and pol: "policy_escalation env cmd pl (written_store env cmd pl c cs ss e ob fb is gb s) = Inr (oc, s')"
    and res: "res = \<lparr>r_instance = tc_instance cmd,
           r_state_version = (case oc of None \<Rightarrow> ?v + 1 | Some e \<Rightarrow> eo_version e),
           r_context = c, r_source_visit = wi_visit (pl_instance pl), r_current_visit = te_visit env,
           r_submission = pl_submission pl, r_sequence = (case oc of None \<Rightarrow> ?v + 1 | Some e \<Rightarrow> eo_sequence e),
           r_case = map_option eo_case oc\<rparr>" by blast
  let ?t = "written_store env cmd pl c cs ss e ob fb is gb s"
  have range: "is_i32 (?v + 1)" using as_i32_range [of "?v + 1"] i32 by simp
  consider (none) "\<not> limit_reached pl" "oc = None" "s' = ?t"
    | (some) x msg supporting s1 ob' fb' where "limit_reached pl" "oc = Some x"
      "open_owner_pending_visit (te_lib env) (te_escalation env) (tc_instance cmd) (te_visit env) (tc_principal cmd)
         (te_command env) msg supporting ?t = Inr (x, s1)" "s' = s1\<lparr>outbox := ob', forum_bindings := fb'\<rparr>"
    using policy_escalation_frame [OF pol] by blast
  then show ?thesis
  proof cases
    case none
    then have "escalation_rows env cmd pl res s [] [] []" "result_of env cmd pl (int (length [])) res"
      using range by (simp_all add: escalation_rows_def result_of_def res)
    moreover have "s' = final_store env cmd pl res cs ss (e # []) [] [] ob fb is gb s"
      using none by (simp add: final_store_def written_store_def moved_def res cong: if_cong)
    ultimately show ?thesis using new by blast
  next
    case some
    from escalation_frame [OF some(3)] obtain w where w: "find (\<lambda>w. wi_id w = tc_instance cmd) (instances ?t) = Some w"
      and sq: "eo_sequence x = eo_version x"
      and alt: "if eo_escalated x
        then eo_version x = wi_state_version w + 1 \<and> eo_case x = ee_case (te_escalation env) \<and>
          case_opened (te_lib env) (te_escalation env) w (tc_principal cmd) (te_command env) ?t s1
        else eo_version x = wi_state_version w \<and> (\<exists>js. s1 = ?t\<lparr>intents := js\<rparr>) \<and>
          (\<exists>a. find (\<lambda>a. as_visit a = te_visit env \<and> is_open a) (assistances ?t) = Some a \<and> eo_case x = as_id a)"
      by blast
    have we: "w = (pl_instance pl)\<lparr>wi_context := c, wi_current_visit := Some (te_visit env), wi_state_version := ?v + 1\<rparr>"
      by (rule escalated_versions [where c = c, OF found _ w]) (simp add: written_store_def)
    show ?thesis
    proof (cases "eo_escalated x")
      case False
      with alt obtain js a where s1: "s1 = ?t\<lparr>intents := js\<rparr>" and v: "eo_version x = ?v + 1"
        and hit: "find (\<lambda>a. as_visit a = te_visit env \<and> is_open a) (assistances ?t) = Some a"
        using we by auto
      from hit have case_row: "\<exists>a\<in>set (assistances s). as_visit a = te_visit env \<and> is_open a"
        by (auto simp: written_store_def find_Some_iff)
      have "escalation_rows env cmd pl res s [] [] []" "result_of env cmd pl (int (length [])) res"
        using range some(1,2) v sq case_row by (auto simp: escalation_rows_def result_of_def res)
      moreover have "s' = final_store env cmd pl res cs ss (e # []) [] [] ob' fb' js gb s"
        using some(2,4) v by (simp add: s1 final_store_def written_store_def moved_def res cong: if_cong)
      ultimately show ?thesis using new by blast
    next
      case True
      with alt obtain r a e2 js ob2 where
        rr: "request_receipt (te_escalation env) (tc_principal cmd) (''policy-req:'' @ show_uuid (te_lib env) (te_command env)) r"
        and fr: "find_receipt (tc_principal cmd) (''policy-req:'' @ show_uuid (te_lib env) (te_command env)) ?t = None"
          "ee_receipt (te_escalation env) \<notin> rc_command ` set (receipts ?t)"
        and pc: "pending_case (te_escalation env) w (tc_principal cmd) a" and ae: "assistance_event (te_escalation env) w e2"
        and i2: "as_i32 (wi_state_version w + 1) = wi_state_version w + 1"
        and s1: "s1 = ?t\<lparr>receipts := receipts ?t @ [r], assistances := assistances ?t @ [a],
               instances := map (\<lambda>x. if wi_id x = wi_id w \<and> wi_state_version x = wi_state_version w
                  then x\<lparr>wi_state_version := wi_state_version w + 1\<rparr> else x) (instances ?t),
               events := events ?t @ [e2], intents := js, outbox := ob2\<rparr>"
        and v: "eo_version x = wi_state_version w + 1" and cx: "eo_case x = ee_case (te_escalation env)"
        unfolding case_opened_def by (simp only: if_True) (elim conjE exE, rule that; assumption)
      have id: "wi_id (pl_instance pl) = tc_instance cmd" using found by (simp add: plan_found_def)
      have fr': "find_receipt (tc_principal cmd) (rc_key r) s = None" "rc_command r \<notin> rc_command ` set (receipts s)"
        using fr rr by (simp_all add: request_receipt_def written_store_def find_receipt_def)
      have wv: "wi_id w = tc_instance cmd" "wi_visit w = te_visit env" "wi_state_version w = ?v + 1"
        using we id by simp_all
      have rc: "r_case res = Some (as_id a)" using pc cx some(2) by (simp add: res pending_case_def)
      have "\<exists>r' a' e' w. [r] = [r'] \<and> [a] = [a'] \<and> [e2] = [e'] \<and>
        request_receipt (te_escalation env) (tc_principal cmd) (''policy-req:'' @ show_uuid (te_lib env) (te_command env)) r' \<and>
        find_receipt (tc_principal cmd) (rc_key r') s = None \<and> rc_command r' \<notin> rc_command ` set (receipts s) \<and>
        pending_case (te_escalation env) w (tc_principal cmd) a' \<and> assistance_event (te_escalation env) w e' \<and>
        wi_id w = tc_instance cmd \<and> wi_visit w = te_visit env \<and>
        wi_state_version w = ?v + 1 \<and> r_case res = Some (as_id a')"
        by (rule exI [of _ r], rule exI [of _ a], rule exI [of _ e2], rule exI [of _ w])
           (intro conjI; fact refl rr fr' pc ae wv rc)
      then have "escalation_rows env cmd pl res s [r] [a] [e2]"
        unfolding escalation_rows_def using some(1) rc by (intro conjI disjI2) simp_all
      moreover have "result_of env cmd pl (int (length [e2])) res"
        using v sq some(2) we as_i32_range [of "wi_state_version w + 1"] i2 by (simp add: result_of_def res)
      moreover have "s' = final_store env cmd pl res cs ss (e # [e2]) [r] [a] ob' fb' js gb s"
        using some(2,4) v we id
        by (simp add: s1 final_store_def written_store_def moved_def res comp_def if_distrib cong: if_cong)
      ultimately show ?thesis using new by blast
    qed
  qed
qed

end
