(* ===== verification/Transition_Ends.thy ===== *)
theory Transition_Ends
  imports Transition_Facts
begin

text \<open>
  The ways a transition command ends: its key is taken, it is rolled back, its failure is stored, or its
  writes are committed (possibly with a lost answer).
\<close>

section \<open>Stops\<close>

text \<open>A stored failure never has the status of a success.\<close>

definition sound_stop :: "stop \<Rightarrow> bool" where
  "sound_stop st =
     (case st of
        Persist e \<Rightarrow> transition_error_code e \<noteq> 200
      | Abort _ \<Rightarrow> True
      | Deny _ e \<Rightarrow> transition_error_code e = 422)"

definition stops_soundly :: "(stop, 'a) res \<Rightarrow> bool" where
  "stops_soundly r \<longleftrightarrow> (case r of Inl st \<Rightarrow> sound_stop st | Inr _ \<Rightarrow> True)"

named_theorems stops \<open>checks whose stored failures are failures\<close>

lemma deterministic_not_200: "is_deterministic_error e \<Longrightarrow> transition_error_code e \<noteq> 200"
  by (cases e) simp_all

lemma stops_Inr [stops]: "stops_soundly (Inr x)"
  by (simp add: stops_soundly_def)

lemma stops_Inl [stops]: "sound_stop st \<Longrightarrow> stops_soundly (Inl st)"
  by (simp add: stops_soundly_def)

lemma sound_stops [stops]:
  "sound_stop (Abort e)" "transition_error_code e \<noteq> 200 \<Longrightarrow> sound_stop (Persist e)"
  "transition_error_code e = 422 \<Longrightarrow> sound_stop (Deny p e)"
  by (simp_all add: sound_stop_def)

lemma stops_andThen [stops]:
  "stops_soundly x \<Longrightarrow> (\<And>a. x = Inr a \<Longrightarrow> stops_soundly (f a)) \<Longrightarrow> stops_soundly (andThen x f)"
  by (cases x) (simp_all add: stops_soundly_def)

lemma stops_check [stops]: "stops_soundly (check r)"
  by (simp add: check_def stops_soundly_def sound_stop_def deterministic_not_200 split: sum.split)

lemma stops_guard [stops]: "sound_stop st \<Longrightarrow> stops_soundly (guard_r b st)"
  by (simp add: guard_r_def stops_soundly_def)

lemma stops_admission [stops]: "stops_soundly (admission r)"
  by (simp add: admission_def stops_soundly_def sound_stop_def split: sum.split)

lemma locked_stops [stops]: "stops_soundly (locked_instance cmd s)"
  by (simp add: locked_instance_def stops split: prod.split)

lemma principal_error_status: "validate_principal_enabled p s = Some e \<Longrightarrow> transition_error_code e \<noteq> 200"
  by (auto simp: validate_principal_enabled_def split: option.splits if_splits)

lemma authorized_stops [stops]: "stops_soundly (authorized cmd v s)"
  by (auto simp: authorized_def stops principal_error_status split: option.split)

lemma node_types_status: "validate_activation_node_types a b c = Inl e \<Longrightarrow> transition_error_code e \<noteq> 200"
  by (auto simp: validate_activation_node_types_def split: if_splits)

lemma selected_stops [stops]: "stops_soundly (selected env cmd w v s)"
  unfolding selected_def
  by (intro stops; simp split: prod.split sum.split add: stops node_types_status)

lemma context_change_stops [stops]: "stops_soundly (context_change env cmd w sl proposal s)"
  by (auto simp: context_change_def stops split: sum.split)

lemma owner_guards_stops [stops]: "stops_soundly (owner_guards env cmd sl proposal s)"
  by (auto simp: owner_guards_def stops split: sum.split)

lemma checked_submission_stops [stops]: "stops_soundly (checked_submission env cmd sl s)"
  by (auto simp: checked_submission_def stops split: option.split intro!: stops)

lemma invalid_submission_sound [stops]: "sound_stop (invalid_submission t)"
  by (simp add: invalid_submission_def stops)

lemma acceptance_stops [stops]: "stops_soundly (acceptance_binding env cmd w sl c)"
  by (auto simp: acceptance_binding_def accepted_report_def Let_def stops
      split: option.split sum.split bool.split)

lemma governance_stops [stops]: "stops_soundly (governance_selection env cmd s)"
  by (auto simp: governance_selection_def stops split: sum.split assistance_error.split)

lemma admitted_stops [stops]: "stops_soundly (admitted t f)"
  by (auto simp: admitted_def stops split: option.split)

lemma resolved_stops [stops]: "stops_soundly (resolved_target env cmd w sl c s)"
  by (auto simp: resolved_target_def Let_def stops intro!: stops)

lemma enabled_stops [stops]: "stops_soundly (enabled_by_model sl c s)"
  by (auto simp: enabled_by_model_def stops split: option.split sum.split bool.split)

lemma responsible_stops [stops]: "stops_soundly (responsible env sl c s)"
  by (auto simp: responsible_def stops split: option.split sum.split)

lemma checked_stops: "stops_soundly (checked_transition env cmd proposal s)"
  unfolding checked_transition_def Let_def
  by (auto simp: stops split: prod.split intro!: stops)

lemma closed_source_stops: "closed_source env cmd pl s = Inl st \<Longrightarrow> sound_stop st"
  by (auto simp: closed_source_def sound_stop_def split: if_splits prod.splits bool.splits)

section \<open>The ends of a command\<close>

definition claimed_receipt :: "transition_env \<Rightarrow> transition_command \<Rightarrow> string \<Rightarrow> command_receipt" where
  "claimed_receipt env cmd hash =
     \<lparr>rc_command = te_command env, rc_principal = tc_principal cmd, rc_key = tc_key cmd,
      rc_type = ''EXECUTE_WORKFLOW_TRANSITION'', rc_hash = hash, rc_status = ''PROCESSING'',
      rc_response_status = None, rc_response_body = None, rc_response_digest = None\<rparr>"

definition claimed :: "transition_env \<Rightarrow> transition_command \<Rightarrow> string \<Rightarrow> store \<Rightarrow> store" where
  "claimed env cmd hash s = s\<lparr>receipts := receipts s @ [claimed_receipt env cmd hash]\<rparr>"

definition answered_receipt ::
  "transition_env \<Rightarrow> transition_command \<Rightarrow> string \<Rightarrow> int \<Rightarrow> json \<Rightarrow> string \<Rightarrow> command_receipt" where
  "answered_receipt env cmd hash status body d =
     (claimed_receipt env cmd hash)\<lparr>rc_status := ''COMPLETED'', rc_response_status := Some status,
        rc_response_body := Some body, rc_response_digest := Some d\<rparr>"

definition fresh_command :: "transition_env \<Rightarrow> transition_command \<Rightarrow> store \<Rightarrow> bool" where
  "fresh_command env cmd s \<longleftrightarrow>
     find_receipt (tc_principal cmd) (tc_key cmd) s = None \<and> te_command env \<notin> rc_command ` set (receipts s)"

lemma complete_claimed:
  assumes "te_command env \<notin> rc_command ` set (receipts s)" and "te_command env \<notin> rc_command ` set rs"
    and "receipts s' = receipts (claimed env cmd hash s) @ rs"
  shows "complete_transition_receipt (te_command env) status body d s' =
    s'\<lparr>receipts := receipts s @ answered_receipt env cmd hash status body d # rs\<rparr>"
proof -
  let ?f = "\<lambda>r. if rc_command r = te_command env \<and> rc_status r = ''PROCESSING''
         then r\<lparr>rc_status := ''COMPLETED'', rc_response_status := Some status,
                rc_response_body := Some body, rc_response_digest := Some d\<rparr>
         else r"
  have other: "map ?f xs = xs" if x: "te_command env \<notin> rc_command ` set xs" for xs
  proof (rule map_idI)
    fix r assume "r \<in> set xs"
    with x have "rc_command r \<noteq> te_command env" by (metis imageI)
    then show "?f r = r" by simp
  qed
  have "map ?f (receipts s) = receipts s" "map ?f rs = rs"
    by (rule other, rule assms(1), rule other, rule assms(2))
  then show ?thesis
    using assms(3) by (simp add: complete_transition_receipt_def claimed_def claimed_receipt_def answered_receipt_def)
qed

text \<open>A stored failure: the answered receipt and at most one audit row.\<close>

definition failure_stored ::
  "transition_env \<Rightarrow> transition_command \<Rightarrow> string \<Rightarrow> transition_error \<Rightarrow> store \<Rightarrow> store \<Rightarrow> bool" where
  "failure_stored env cmd hash e s s' \<longleftrightarrow>
     transition_error_code e \<noteq> 200 \<and>
     (\<exists>d au. length au \<le> 1 \<and> s' = s\<lparr>audits := audits s @ au,
        receipts := receipts s @ [answered_receipt env cmd hash (transition_error_code e) (error_response_body e) d]\<rparr>)"

lemma denied_frame:
  assumes fresh: "te_command env \<notin> rc_command ` set (receipts s)" and e: "transition_error_code e = 422"
    and d: "denied env cmd p e (claimed env cmd hash s) = Inr s'"
  shows "failure_stored env cmd hash e s s'"
proof -
  let ?s1 = "claimed env cmd hash s"
  from d obtain s1 dig details where a: "audit_denial (show_uuid (te_lib env)) (te_denial env) (te_command env)
        ''assignee_resolution_failed'' details ?s1 = Inr s1"
    and s': "s' = complete_transition_receipt (te_command env) 422 (error_response_body e) dig s1"
    by (auto simp: denied_def Let_def andThen_eq_Inr sql_Inr)
  from a obtain au where s1: "s1 = ?s1\<lparr>audits := audits ?s1 @ [au]\<rparr>"
    by (auto simp: audit_denial_def split: list.splits if_splits)
  have "s' = s1\<lparr>receipts := receipts s @ answered_receipt env cmd hash 422 (error_response_body e) dig # []\<rparr>"
    unfolding s' by (rule complete_claimed [OF fresh]) (simp_all add: s1)
  then show ?thesis
    using e by (auto simp: failure_stored_def s1 claimed_def intro!: exI [of _ dig] exI [of _ "[au]"])
qed

lemma stopped_frame:
  assumes fresh: "te_command env \<notin> rc_command ` set (receipts s)" and sound: "sound_stop st"
    and st: "stopped env cmd st s (claimed env cmd hash s) = (r, s')"
  shows "\<exists>e. r = Inl e \<and> (s' = s \<or> failure_stored env cmd hash e s s')"
proof (cases st)
  case (Persist e)
  show ?thesis
  proof (cases "persist_deterministic_failure (te_lib env) (te_command env) e (claimed env cmd hash s)")
    case (Inl e')
    with Persist st show ?thesis by (auto simp: stopped_def)
  next
    case (Inr s2)
    then obtain d where s2: "s2 = complete_transition_receipt (te_command env) (transition_error_code e)
        (error_response_body e) d (claimed env cmd hash s)"
      by (auto simp: persist_deterministic_failure_def Let_def split: sum.splits)
    have "s2 = (claimed env cmd hash s)\<lparr>receipts := receipts s @
        answered_receipt env cmd hash (transition_error_code e) (error_response_body e) d # []\<rparr>"
      unfolding s2 by (rule complete_claimed [OF fresh]) simp_all
    then have "s2 = s\<lparr>audits := audits s @ [], receipts := receipts s @
        [answered_receipt env cmd hash (transition_error_code e) (error_response_body e) d]\<rparr>"
      by (simp add: claimed_def)
    moreover have "transition_error_code e \<noteq> 200" using sound Persist by (simp add: sound_stop_def)
    ultimately have "failure_stored env cmd hash e s s2"
      unfolding failure_stored_def by (intro conjI exI [of _ d] exI [of _ "[]"]) simp_all
    with Inr Persist st show ?thesis by (auto simp: stopped_def)
  qed
next
  case (Abort e)
  with st show ?thesis by (auto simp: stopped_def)
next
  case (Deny p e)
  show ?thesis
  proof (cases "denied env cmd p e (claimed env cmd hash s)")
    case (Inl e')
    with Deny st show ?thesis by (auto simp: stopped_def)
  next
    case (Inr s2)
    with denied_frame [OF fresh _ Inr] Deny st sound show ?thesis by (auto simp: stopped_def sound_stop_def)
  qed
qed

text \<open>The store of a command that reaches COMMIT.\<close>

definition reaches_commit ::
  "transition_env \<Rightarrow> transition_command \<Rightarrow> string \<Rightarrow> json option \<Rightarrow> transition_plan \<Rightarrow> transition_result \<Rightarrow> store \<Rightarrow>
     store \<Rightarrow> bool" where
  "reaches_commit env cmd hash proposal pl res s s' \<longleftrightarrow>
     checked_transition env cmd proposal (claimed env cmd hash s) = Inr pl \<and>
     (\<exists>s2 s3 d. closed_source env cmd pl (claimed env cmd hash s) = Inr s2 \<and>
        written_facts env cmd pl s2 = Inr (res, s3) \<and>
        s' = complete_transition_receipt (te_command env) 200 (transition_response_body (te_lib env) res) d s3)"

definition outcome_unknown :: "transition_env \<Rightarrow> transition_error \<Rightarrow> bool" where
  "outcome_unknown env e \<longleftrightarrow>
     te_commit env = Commit_Deadline True \<and> e = T_AdmissionFailed (Adm_CommitOutcomeUnknown (gate_commit_ms (te_gate env)))"

lemma committed_frame:
  assumes "committed env res s s4 = (r, s')"
  shows "r = Inr (Executed res) \<and> s' = s4 \<or> (\<exists>e. r = Inl e \<and> (s' = s \<or> outcome_unknown env e \<and> s' = s4))"
proof (cases "check_commit_budget (te_gate env)")
  case (Inl e)
  with assms show ?thesis by (auto simp: committed_def)
next
  case (Inr u)
  show ?thesis
  proof (cases "te_commit env")
    case (Commit_Deadline landed)
    with Inr assms show ?thesis
      by (cases landed; cases "gate_client (te_gate env) \<noteq> None \<and> gate_commit_ms (te_gate env) > 0")
         (auto simp: committed_def outcome_unknown_def)
  qed (use Inr assms in \<open>auto simp: committed_def\<close>)
qed

lemma claim_transition:
  "try_insert_transition_receipt (te_command env) (tc_principal cmd) (tc_key cmd) hash s =
     (if find_receipt (tc_principal cmd) (tc_key cmd) s \<noteq> None then Inr (None, s)
      else if te_command env \<in> rc_command ` set (receipts s) then Inl (unique_violation ''receipt insert failed'')
      else Inr (Some (te_command env), claimed env cmd hash s))"
  by (simp add: try_insert_transition_receipt_def try_insert_receipt_def claimed_def claimed_receipt_def)

lemma executed_frame:
  assumes fresh: "fresh_command env cmd s"
    and ex: "executed env cmd proposal s (claimed env cmd hash s) = (r, s')"
  shows "(\<exists>e. r = Inl e \<and> (s' = s \<or> failure_stored env cmd hash e s s')) \<or>
    (\<exists>pl res. reaches_commit env cmd hash proposal pl res s s' \<and>
       (r = Inr (Executed res) \<or> (\<exists>e. r = Inl e \<and> outcome_unknown env e)))"
proof -
  let ?s1 = "claimed env cmd hash s"
  have f: "te_command env \<notin> rc_command ` set (receipts s)" using fresh by (simp add: fresh_command_def)
  consider (stop) st where "stopped env cmd st s ?s1 = (r, s')" "sound_stop st"
    | (error) e where "r = Inl e" "s' = s"
    | (written) pl s2 res s3 d where "checked_transition env cmd proposal ?s1 = Inr pl"
        "closed_source env cmd pl ?s1 = Inr s2" "written_facts env cmd pl s2 = Inr (res, s3)"
        "committed env res s
           (complete_transition_receipt (te_command env) 200 (transition_response_body (te_lib env) res) d s3) = (r, s')"
  proof (cases "checked_transition env cmd proposal ?s1")
    case (Inl st)
    with checked_stops [of env cmd proposal ?s1] have "sound_stop st" by (simp add: stops_soundly_def)
    with Inl ex that(1) show ?thesis by (simp add: executed_def)
  next
    case (Inr pl)
    note pl = this
    show ?thesis
    proof (cases "closed_source env cmd pl ?s1")
      case (Inl st)
      with closed_source_stops pl ex that(1) show ?thesis by (simp add: executed_def)
    next
      case (Inr s2)
      with pl ex have e2: "(case andThen (written_facts env cmd pl s2) (\<lambda>(result, s3).
                       andThen (completed env result s3) (\<lambda>s4. Inr (result, s4))) of
                  Inl e \<Rightarrow> (Inl e, s)
                | Inr (result, s4) \<Rightarrow> committed env result s s4) = (r, s')"
        by (simp add: executed_def)
      show ?thesis
      proof (cases "andThen (written_facts env cmd pl s2) (\<lambda>(result, s3).
                       andThen (completed env result s3) (\<lambda>s4. Inr (result, s4)))")
        case (Inl e)
        with e2 that(2) show ?thesis by auto
      next
        case (Inr y)
        then obtain res s3 s4 where "written_facts env cmd pl s2 = Inr (res, s3)" and c: "completed env res s3 = Inr s4"
          and y: "y = (res, s4)" by (auto simp: andThen_eq_Inr)
        moreover from c obtain d where
          "s4 = complete_transition_receipt (te_command env) 200 (transition_response_body (te_lib env) res) d s3"
          by (auto simp: completed_def Let_def andThen_eq_Inr)
        ultimately show ?thesis using that(3) pl \<open>closed_source env cmd pl ?s1 = Inr s2\<close> e2 Inr by auto
      qed
    qed
  qed
  then show ?thesis
  proof cases
    case stop
    with stopped_frame [OF f stop(2,1)] show ?thesis by blast
  next
    case error
    then show ?thesis by blast
  next
    case written
    then have "reaches_commit env cmd hash proposal pl res s
        (complete_transition_receipt (te_command env) 200 (transition_response_body (te_lib env) res) d s3)"
      unfolding reaches_commit_def by blast
    with committed_frame [OF written(4)] show ?thesis by blast
  qed
qed

text \<open>Every end of a command.\<close>

lemma execute_ends:
  assumes ex: "execute_workflow_transition env cmd hash proposal s = (r, s')"
  obtains (taken) rc where "find_receipt (tc_principal cmd) (tc_key cmd) s = Some rc"
      "\<And>res. r \<noteq> Inr (Executed res)"
      "s' = snd (handle_receipt_replay (te_lib env) (tc_principal cmd) (tc_key cmd) hash (te_audit env) s)"
    | (rolled_back) e where "r = Inl e" "s' = s"
    | (failed) e where "fresh_command env cmd s" "r = Inl e" "failure_stored env cmd hash e s s'"
    | (commits) pl res where "fresh_command env cmd s" "reaches_commit env cmd hash proposal pl res s s'"
      "r = Inr (Executed res) \<or> (\<exists>e. r = Inl e \<and> outcome_unknown env e)"
proof (cases "find_receipt (tc_principal cmd) (tc_key cmd) s")
  case (Some rc)
  let ?h = "handle_receipt_replay (te_lib env) (tc_principal cmd) (tc_key cmd) hash (te_audit env) s"
  obtain r0 s0 where h: "?h = (r0, s0)" by fastforce
  from Some ex have "(case ?h of (Inr (Executed _), s2) \<Rightarrow>
      (Inl (T_InternalConsistency ''unexpected replay state''), s2) | r \<Rightarrow> r) = (r, s')"
    by (simp add: execute_workflow_transition_def claim_transition)
  with h have "s' = s0" "\<And>res. r \<noteq> Inr (Executed res)"
    by (auto split: sum.splits transition_outcome.splits)
  with taken [OF Some] h show ?thesis by simp
next
  case None
  show ?thesis
  proof (cases "te_command env \<in> rc_command ` set (receipts s)")
    case True
    with None ex rolled_back show ?thesis by (auto simp: execute_workflow_transition_def claim_transition)
  next
    case False
    with None have f: "fresh_command env cmd s" by (simp add: fresh_command_def)
    from None False ex have "executed env cmd proposal s (claimed env cmd hash s) = (r, s')"
      by (simp add: execute_workflow_transition_def claim_transition)
    from executed_frame [OF f this] f rolled_back failed commits show ?thesis by blast
  qed
qed

end
