(* ===== verification/Transition_Invariant.thy ===== *)
theory Transition_Invariant
  imports Transition_Ends Step_System
begin

text \<open>
  What the checks of a transition establish, what a committed transition leaves, and the invariant of
  every run of transition commands: the keys of the runtime tables and the RETURN budget of each edge.
\<close>

section \<open>The plan of a checked transition\<close>

lemma claimed_simps [simp]:
  "instances (claimed env cmd hash s) = instances s" "visits (claimed env cmd hash s) = visits s"
  "events (claimed env cmd hash s) = events s" "activations (claimed env cmd hash s) = activations s"
  "closures (claimed env cmd hash s) = closures s" "principals (claimed env cmd hash s) = principals s"
  "assistances (claimed env cmd hash s) = assistances s" "versions (claimed env cmd hash s) = versions s"
  "node_rows (claimed env cmd hash s) = node_rows s" "transition_rows (claimed env cmd hash s) = transition_rows s"
  "successors (claimed env cmd hash s) = successors s" "domains (claimed env cmd hash s) = domains s"
  "role_bindings (claimed env cmd hash s) = role_bindings s" "contexts (claimed env cmd hash s) = contexts s"
  "managed_instances (claimed env cmd hash s) = managed_instances s"
  "submissions (claimed env cmd hash s) = submissions s" "audits (claimed env cmd hash s) = audits s"
  "receipts (claimed env cmd hash s) = receipts s @ [claimed_receipt env cmd hash]"
  by (simp_all add: claimed_def)

definition edge_limit :: "int \<Rightarrow> uuid \<Rightarrow> store \<Rightarrow> int" where
  "edge_limit maximum i s = (if is_managed i s then 3 else maximum)"

text \<open>The caller and the instance that the checks accept.\<close>

definition accepted_caller :: "transition_command \<Rightarrow> instance_row \<Rightarrow> current_visit_row \<Rightarrow> store \<Rightarrow> bool" where
  "accepted_caller cmd w v s \<longleftrightarrow>
     find (\<lambda>w. wi_id w = tc_instance cmd) (instances s) = Some w \<and>
     wi_state_version w = tc_expected cmd \<and> \<not> wi_cancelled w \<and> wi_current_visit w \<noteq> None \<and>
     read_current_visit (tc_instance cmd) (wi_visit w) s = Inr v \<and> node_type_enum (cv_type v) \<noteq> NT_TERMINAL \<and>
     principal_enabled (tc_principal cmd) s = Some True \<and>
     actor_is_effective_current_assignee (cv_assignee v) (tc_principal cmd) s \<and>
     \<not> has_open_assistance (cv_visit v) s"

text \<open>The transition of the instance's version that the checks select.\<close>

definition accepted_edge ::
  "transition_env \<Rightarrow> transition_command \<Rightarrow> transition_plan \<Rightarrow> current_visit_row \<Rightarrow> store \<Rightarrow> bool" where
  "accepted_edge env cmd pl v s \<longleftrightarrow>
     is_ok (read_definition_version_status (wi_version (pl_instance pl)) s) \<and>
     read_semantic_model_version (wi_version (pl_instance pl)) s = Inr (sl_model pl) \<and>
     read_transition (tc_transition cmd) (wi_version (pl_instance pl)) s = Inr (sl_transition pl) \<and>
     tr_source (sl_transition pl) = cv_node v \<and>
     read_target_node (tr_target (sl_transition pl)) (wi_version (pl_instance pl)) s = Inr (sl_target pl) \<and>
     sl_max pl = edge_limit (te_max_returns env) (tc_instance cmd) s \<and>
     (tr_effect (sl_transition pl) = ''RETURN'' \<longrightarrow>
        sl_prior pl = returns_on_edge (show_uuid (te_lib env)) (tc_instance cmd) (tr_id (sl_transition pl)) s \<and>
        sl_prior pl < sl_max pl)"

lemma locked_instanceD:
  "locked_instance cmd s = Inr (w, v) \<Longrightarrow>
     find (\<lambda>w. wi_id w = tc_instance cmd) (instances s) = Some w \<and> wi_state_version w = tc_expected cmd \<and>
     \<not> wi_cancelled w \<and> wi_current_visit w \<noteq> None \<and> read_current_visit (tc_instance cmd) (wi_visit w) s = Inr v \<and>
     node_type_enum (cv_type v) \<noteq> NT_TERMINAL"
  by (auto simp: locked_instance_def andThen_eq_Inr check_Inr guard_r_eq_Inr read_instance_def
      validate_not_cancelled_def validate_nonterminal_source_def split: option.splits if_splits)

lemma authorizedD:
  "authorized cmd v s = Inr u \<Longrightarrow>
     principal_enabled (tc_principal cmd) s = Some True \<and>
     actor_is_effective_current_assignee (cv_assignee v) (tc_principal cmd) s \<and> \<not> has_open_assistance (cv_visit v) s"
  by (auto simp: authorized_def andThen_eq_Inr check_Inr guard_r_eq_Inr validate_assignee_def
      validate_principal_enabled_def principal_enabled_def split: option.splits if_splits)

lemma source_and_effectD: "validate_source_and_effect t v src m = Inr u \<Longrightarrow> tr_source t = cv_node v"
  by (simp add: validate_source_and_effect_def split: if_splits)

lemma select_transitionD:
  "select_transition t version v m s = Inr (src, tr, target) \<Longrightarrow>
     read_transition t version s = Inr tr \<and> tr_source tr = cv_node v \<and>
     read_target_node (tr_target tr) version s = Inr target"
  by (auto simp: select_transition_def andThen_eq_Inr dest!: source_and_effectD)

lemma return_budgetD:
  "return_budget sh i t effect m s = Inr (prior, maximum) \<Longrightarrow>
     maximum = edge_limit m i s \<and> (effect = ''RETURN'' \<longrightarrow> prior = returns_on_edge sh i t s \<and> prior < maximum)"
  by (auto simp: return_budget_def Let_def edge_limit_def split: if_splits)

lemma selectedD:
  assumes "selected env cmd w v s = Inr sl"
  shows "is_ok (read_definition_version_status (wi_version w) s) \<and>
    read_semantic_model_version (wi_version w) s = Inr (sl_model sl) \<and>
    read_transition (tc_transition cmd) (wi_version w) s = Inr (sl_transition sl) \<and>
    tr_source (sl_transition sl) = cv_node v \<and>
    read_target_node (tr_target (sl_transition sl)) (wi_version w) s = Inr (sl_target sl) \<and>
    sl_max sl = edge_limit (te_max_returns env) (tc_instance cmd) s \<and>
    (tr_effect (sl_transition sl) = ''RETURN'' \<longrightarrow>
        sl_prior sl = returns_on_edge (show_uuid (te_lib env)) (tc_instance cmd) (tr_id (sl_transition sl)) s \<and>
        sl_prior sl < sl_max sl) \<and>
    validate_activation_node_types (sl_source sl) (sl_target sl) (sl_model sl = 3) = Inr ()"
proof -
  from assms obtain st model src tr target prior maximum where
    1: "read_definition_version_status (wi_version w) s = Inr st"
      "read_semantic_model_version (wi_version w) s = Inr model"
    and 2: "select_transition (tc_transition cmd) (wi_version w) v (model = 2) s = Inr (src, tr, target)"
    and 3: "return_budget (show_uuid (te_lib env)) (tc_instance cmd) (tr_id tr) (tr_effect tr) (te_max_returns env) s
       = Inr (prior, maximum)"
    and 4: "(case validate_activation_node_types src target (model = 3) of
       Inl e \<Rightarrow> Inl (Persist e)
     | Inr _ \<Rightarrow> Inr \<lparr>sl_model = model, sl_source = src, sl_transition = tr, sl_target = target,
                    sl_prior = prior, sl_max = maximum\<rparr>) = Inr sl"
    unfolding selected_def by (auto simp: andThen_eq_Inr check_Inr)
  from 4 have ok: "validate_activation_node_types src target (model = 3) = Inr ()"
    and sl: "sl = \<lparr>sl_model = model, sl_source = src, sl_transition = tr, sl_target = target,
                    sl_prior = prior, sl_max = maximum\<rparr>" by (simp_all split: sum.splits)
  show ?thesis using 1 ok select_transitionD [OF 2] return_budgetD [OF 3] by (auto simp: sl)
qed

lemma checked_plan:
  assumes "checked_transition env cmd proposal s = Inr pl"
  shows "\<exists>v c. accepted_caller cmd (pl_instance pl) v s \<and> accepted_edge env cmd pl v s \<and>
    validate_activation_node_types (sl_source pl) (sl_target pl) (sl_model pl = 3) = Inr () \<and>
    resolved_target env cmd (pl_instance pl) (selection.truncate pl)
      (map_option cx_payload (find_context (wi_context (pl_instance pl)) (tc_instance cmd) s)) s = Inr c \<and>
    enabled_by_model (selection.truncate pl) c s = Inr () \<and>
    responsible env (selection.truncate pl) c s = Inr (pl_assignee pl)"
proof -
  from assms obtain w v sl changed sub c assignee where l: "locked_instance cmd s = Inr (w, v)"
    and a: "authorized cmd v s = Inr ()" and sel: "selected env cmd w v s = Inr sl"
    and t: "resolved_target env cmd w sl (map_option cx_payload (find_context (wi_context w) (tc_instance cmd) s)) s = Inr c"
    and e: "enabled_by_model sl c s = Inr ()" and r: "responsible env sl c s = Inr assignee"
    and pl: "pl = \<lparr>sl_model = sl_model sl, sl_source = sl_source sl, sl_transition = sl_transition sl,
            sl_target = sl_target sl, sl_prior = sl_prior sl, sl_max = sl_max sl,
            pl_instance = w, pl_context = changed, pl_submission = sub, pl_assignee = assignee\<rparr>"
    unfolding checked_transition_def Let_def andThen_eq_Inr by (auto simp: andThen_eq_Inr)
  have "selection.truncate pl = sl" by (simp add: pl selection.truncate_def)
  moreover have "accepted_caller cmd w v s"
    using locked_instanceD [OF l] authorizedD [OF a] by (simp add: accepted_caller_def)
  moreover have "accepted_edge env cmd pl v s" using selectedD [OF sel] by (auto simp: accepted_edge_def pl)
  ultimately show ?thesis using t e r selectedD [OF sel] by (auto simp: pl)
qed

lemma accepted_caller_claimed [simp]: "accepted_caller cmd w v (claimed env cmd' hash s) = accepted_caller cmd w v s"
  by (simp add: accepted_caller_def read_current_visit_def find_node_def principal_enabled_def find_principal_def
      actor_is_effective_current_assignee_def resolve_current_principal_def find_successor_def
      has_open_assistance_def cong: option.case_cong)

lemma accepted_edge_claimed [simp]: "accepted_edge env cmd pl v (claimed env' cmd' hash s) = accepted_edge env cmd pl v s"
  by (simp add: accepted_edge_def read_definition_version_status_def read_semantic_model_version_def find_version_def
      read_transition_def read_target_node_def find_node_of_def edge_limit_def is_managed_def returns_on_edge_def)

section \<open>Committed transitions\<close>

lemma closed_source_frame:
  assumes "closed_source env cmd pl s = Inr s'"
  shows "\<exists>cs. s' = s\<lparr>closures := closures s @ cs\<rparr> \<and>
    cl_activation ` set cs = (if sl_model pl = 3 then ac_id ` set (current_active (tc_instance cmd) (wi_visit (pl_instance pl)) s) else {}) \<and>
    (sl_model pl = 3 \<longrightarrow> length (current_active (tc_instance cmd) (wi_visit (pl_instance pl)) s) = 1)"
proof (cases "sl_model pl = 3")
  case False
  with assms show ?thesis by (auto simp: closed_source_def intro!: exI [of _ "[]"])
next
  case True
  with assms have "close_activation_by_visit_required (te_now env) (tc_instance cmd) (wi_visit (pl_instance pl))
                ''TRANSITIONED'' (te_command env) (Some (te_event env)) s = (True, s')"
    by (auto simp: closed_source_def split: prod.splits bool.splits)
  then have one: "length (current_active (tc_instance cmd) (wi_visit (pl_instance pl)) s) = 1"
    and s': "s' = s\<lparr>closures := closures s @ map (\<lambda>a. \<lparr>cl_activation = ac_id a, cl_at = te_now env,
        cl_reason = ''TRANSITIONED'', cl_command = te_command env, cl_event = Some (te_event env)\<rparr>)
      (current_active (tc_instance cmd) (wi_visit (pl_instance pl)) s)\<rparr>"
    by (auto simp: close_activation_by_visit_required_def validate_current_activation_def
        close_activation_by_visit_def Let_def split: if_splits)
  show ?thesis
    by (rule exI, rule conjI, rule s') (simp add: True one image_image)
qed

lemma find_instance:
  "store_wf s \<Longrightarrow> find (\<lambda>w. wi_id w = i) (instances s) = Some w \<longleftrightarrow> w \<in> set (instances s) \<and> wi_id w = i"
proof
  assume "find (\<lambda>w. wi_id w = i) (instances s) = Some w"
  then show "w \<in> set (instances s) \<and> wi_id w = i" by (auto simp: find_Some_iff)
next
  assume wf: "store_wf s" and w: "w \<in> set (instances s) \<and> wi_id w = i"
  then obtain x where x: "find (\<lambda>w. wi_id w = i) (instances s) = Some x"
    by (cases "find (\<lambda>w. wi_id w = i) (instances s)") (auto simp: find_None_iff)
  then have "x \<in> set (instances s)" "wi_id x = i" by (auto simp: find_Some_iff)
  then have "x = w" using wf w distinct_map_eqD [of wi_id "instances s" x w] by (simp add: store_wf_def)
  with x show "find (\<lambda>w. wi_id w = i) (instances s) = Some w" by simp
qed

text \<open>Everything a transition that reaches COMMIT has written.\<close>

definition transition_writes ::
  "transition_env \<Rightarrow> transition_command \<Rightarrow> string \<Rightarrow> transition_plan \<Rightarrow> transition_result \<Rightarrow> event_row \<Rightarrow> event_row list \<Rightarrow>
     store \<Rightarrow> store \<Rightarrow> bool" where
  "transition_writes env cmd hash pl res e es s s' \<longleftrightarrow>
     new_event env cmd pl e \<and> result_of env cmd pl (int (length es)) res \<and>
     (\<exists>cs ss rs cases cl ob fb is gb d.
        escalation_rows env cmd pl res (claimed env cmd hash s) rs cases es \<and>
        cl_activation ` set cl = (if sl_model pl = 3 then ac_id ` set (current_active (tc_instance cmd) (wi_visit (pl_instance pl)) s) else {}) \<and>
        s' = (final_store env cmd pl res cs ss (e # es) rs cases ob fb is gb s)\<lparr>closures := closures s @ cl,
          receipts := receipts s @ answered_receipt env cmd hash 200 (transition_response_body (te_lib env) res) d # rs\<rparr>)"

lemma reaches_commit_writes:
  assumes wf: "store_wf s" and fresh: "fresh_command env cmd s" and frame: "terminal_hook_frame env"
    and reach: "reaches_commit env cmd hash proposal pl res s s'"
  shows "\<exists>e es. transition_writes env cmd hash pl res e es s s'"
proof -
  let ?s1 = "claimed env cmd hash s"
  from reach obtain s2 s3 d where plan: "checked_transition env cmd proposal ?s1 = Inr pl"
    and cl: "closed_source env cmd pl ?s1 = Inr s2" and wr: "written_facts env cmd pl s2 = Inr (res, s3)"
    and s': "s' = complete_transition_receipt (te_command env) 200 (transition_response_body (te_lib env) res) d s3"
    by (auto simp: reaches_commit_def)
  from checked_plan [OF plan] obtain v where "accepted_caller cmd (pl_instance pl) v s" by auto
  then have inst: "pl_instance pl \<in> set (instances s) \<and> wi_id (pl_instance pl) = tc_instance cmd \<and> wi_current_visit (pl_instance pl) \<noteq> None"
    using find_instance [OF wf] by (auto simp: accepted_caller_def)
  from closed_source_frame [OF cl] obtain cs where s2: "s2 = ?s1\<lparr>closures := closures ?s1 @ cs\<rparr>"
    and acts: "cl_activation ` set cs = (if sl_model pl = 3 then ac_id ` set (current_active (tc_instance cmd) (wi_visit (pl_instance pl)) s) else {})"
    by (auto simp: current_active_def active_def)
  have found: "plan_found cmd pl s2" using inst wf by (simp add: plan_found_def s2 store_wf_def)
  from written_facts_frame [OF frame found wr] obtain cx ss e es rs cases ob fb "is" gb where
    new: "new_event env cmd pl e" and esc: "escalation_rows env cmd pl res s2 rs cases es"
    and res: "result_of env cmd pl (int (length es)) res"
    and s3: "s3 = final_store env cmd pl res cx ss (e # es) rs cases ob fb is gb s2" by blast
  have esc': "escalation_rows env cmd pl res ?s1 rs cases es"
    using esc by (simp add: escalation_rows_def s2 find_receipt_def)
  then have "te_command env \<notin> rc_command ` set rs"
    by (auto simp: escalation_rows_def claimed_receipt_def)
  moreover have "te_command env \<notin> rc_command ` set (receipts s)" using fresh by (simp add: fresh_command_def)
  moreover have "receipts s3 = receipts ?s1 @ rs" by (simp add: s3 s2 final_store_def)
  ultimately have c: "s' = s3\<lparr>receipts := receipts s @
      answered_receipt env cmd hash 200 (transition_response_body (te_lib env) res) d # rs\<rparr>"
    unfolding s' by (intro complete_claimed)
  have "next_visit_number i n s2 = next_visit_number i n s" for i n by (simp add: next_visit_number_def s2)
  moreover have "new_activations env cmd pl s2 = new_activations env cmd pl s"
    by (rule new_activations_cong) (simp add: s2)
  ultimately have "s' = (final_store env cmd pl res cx ss (e # es) rs cases ob fb is gb s)\<lparr>closures := closures s @ cs,
      receipts := receipts s @ answered_receipt env cmd hash 200 (transition_response_body (te_lib env) res) d # rs\<rparr>"
    by (simp add: c s3 final_store_def) (simp add: s2 claimed_def)
  with new res esc' acts show ?thesis unfolding transition_writes_def by blast
qed

section \<open>The keys of the runtime tables\<close>

named_theorems wf_step \<open>steps that keep the keys of the runtime tables\<close>

lemma store_wf_other [simp]:
  "store_wf (s\<lparr>outbox := ob\<rparr>) = store_wf s" "store_wf (s\<lparr>forum_bindings := fb\<rparr>) = store_wf s"
  "store_wf (s\<lparr>contexts := cs\<rparr>) = store_wf s" "store_wf (s\<lparr>assistances := cases\<rparr>) = store_wf s"
  "store_wf (s\<lparr>audits := au\<rparr>) = store_wf s" "store_wf (s\<lparr>intents := js\<rparr>) = store_wf s"
  "store_wf (s\<lparr>child_bindings := gb\<rparr>) = store_wf s"
  by (simp_all add: store_wf_def)

lemma store_wf_instances:
  assumes "\<And>w. wi_id (f w) = wi_id w"
  shows "store_wf (s\<lparr>instances := map f (instances s)\<rparr>) = store_wf s"
proof -
  have "map wi_id (map f ws) = map wi_id ws" for ws :: "instance_row list" using assms by simp
  then show ?thesis by (simp add: store_wf_def del: map_map)
qed

lemma store_wf_receipt:
  "store_wf s \<Longrightarrow> rc_command r \<notin> rc_command ` set (receipts s) \<Longrightarrow>
     find_receipt (rc_principal r) (rc_key r) s = None \<Longrightarrow> store_wf (s\<lparr>receipts := receipts s @ [r]\<rparr>)"
  by (auto simp: store_wf_def find_receipt_def find_None_iff)

lemma store_wf_complete:
  assumes "store_wf s" shows "store_wf (complete_transition_receipt c st b d s)"
proof -
  let ?f = "\<lambda>r. if rc_command r = c \<and> rc_status r = ''PROCESSING''
         then r\<lparr>rc_status := ''COMPLETED'', rc_response_status := Some st,
                rc_response_body := Some b, rc_response_digest := Some d\<rparr>
         else r"
  have "map rc_command (map ?f rs) = map rc_command rs"
    "map (\<lambda>r. (rc_principal r, rc_key r)) (map ?f rs) = map (\<lambda>r. (rc_principal r, rc_key r)) rs" for rs :: "command_receipt list"
    by simp_all
  then show ?thesis using assms by (simp add: complete_transition_receipt_def store_wf_def del: map_map)
qed

lemma claimed_wf: "store_wf s \<Longrightarrow> fresh_command env cmd s \<Longrightarrow> store_wf (claimed env cmd hash s)"
  unfolding claimed_def by (rule store_wf_receipt) (simp_all add: fresh_command_def claimed_receipt_def)

lemma effective_context_wf [wf_step]:
  "effective_context env cmd pl s = Inr (c, s') \<Longrightarrow> store_wf s \<Longrightarrow> store_wf s'"
proof -
  let ?f = "\<lambda>w. if wi_id w = tc_instance cmd \<and> wi_context w = wi_context (pl_instance pl)
                         then w\<lparr>wi_context := c\<rparr> else w"
  assume "effective_context env cmd pl s = Inr (c, s')" and wf: "store_wf s"
  then obtain cs where "s' = (s\<lparr>contexts := contexts s @ cs\<rparr>)\<lparr>instances := map ?f (instances (s\<lparr>contexts := contexts s @ cs\<rparr>))\<rparr>"
    by (auto dest: effective_context_frame)
  then show "store_wf s'" using store_wf_instances [of ?f "s\<lparr>contexts := contexts s @ cs\<rparr>"] wf by simp
qed

lemma written_submission_wf [wf_step]: "written_submission env cmd pl s = Inr s' \<Longrightarrow> store_wf s \<Longrightarrow> store_wf s'"
  by (auto simp: written_submission_def split: option.splits dest: insert_submission_wf)

lemma activated_target_wf [wf_step]:
  assumes "activated_target env cmd pl s = Inr s'" and "store_wf s" shows "store_wf s'"
proof -
  from assms(1) consider "s' = s"
    | now a i v k ow c s1 ob where "insert_activation now a i v k ow c s = Inr s1" "s' = s1\<lparr>outbox := ob\<rparr>"
  proof -
    assume same: "s' = s \<Longrightarrow> thesis"
      and ins: "\<And>now a i v k ow c s1 ob. insert_activation now a i v k ow c s = Inr s1 \<Longrightarrow> s' = s1\<lparr>outbox := ob\<rparr> \<Longrightarrow> thesis"
    have "s' = s \<or> (\<exists>now a i v k ow c s1. insert_activation now a i v k ow c s = Inr s1 \<and>
        (s' = s1 \<or> (\<exists>sh n r i v x. queue_execution_kick sh n r i v x s1 = Inr s')))"
      using assms(1)
      by (simp add: activated_target_def Let_def andThen_eq_Inr sql_Inr split: option.splits if_splits) blast+
    then show thesis
    proof (elim disjE exE conjE)
      fix now a i v k ow c s1 assume "insert_activation now a i v k ow c s = Inr s1" "s' = s1"
      then show thesis using ins [of now a i v k ow c s1 "outbox s1"] by simp
    next
      fix now a i v k ow c s1 sh n r i' v' x
      assume i: "insert_activation now a i v k ow c s = Inr s1" and q: "queue_execution_kick sh n r i' v' x s1 = Inr s'"
      from queue_kick_frame [OF q] obtain ob where "s' = s1\<lparr>outbox := ob\<rparr>" ..
      with i show thesis by (rule ins)
    qed (rule same)
  qed
  then show ?thesis using assms(2) insert_activation_wf by cases auto
qed

lemma written_event_wf [wf_step]: "written_event env cmd pl c s = Inr s' \<Longrightarrow> store_wf s \<Longrightarrow> store_wf s'"
  by (auto simp: written_event_def Let_def andThen_eq_Inr dest: update_instance_wf insert_event_wf)

lemma queued_facts_wf [wf_step]:
  "terminal_hook_frame env \<Longrightarrow> queued_facts env cmd pl s = Inr s' \<Longrightarrow> store_wf s \<Longrightarrow> store_wf s'"
  by (drule (1) queued_facts_frame) auto

lemma case_opened_wf:
  assumes "case_opened lib env w actor command s s'" and "store_wf s"
  shows "store_wf s'"
proof -
  from assms(1) obtain r a e "is" ob where r: "request_receipt env actor (''policy-req:'' @ show_uuid lib command) r"
    and f: "find_receipt actor (''policy-req:'' @ show_uuid lib command) s = None"
      "ee_receipt env \<notin> rc_command ` set (receipts s)"
    and e: "append_event e s = Inr (s\<lparr>events := events s @ [e]\<rparr>)"
    and s': "s' = s\<lparr>receipts := receipts s @ [r], assistances := assistances s @ [a],
               instances := map (\<lambda>x. if wi_id x = wi_id w \<and> wi_state_version x = wi_state_version w
                  then x\<lparr>wi_state_version := wi_state_version w + 1\<rparr> else x) (instances s),
               events := events s @ [e], intents := is, outbox := ob\<rparr>"
    unfolding case_opened_def by blast
  let ?f = "\<lambda>x. if wi_id x = wi_id w \<and> wi_state_version x = wi_state_version w
                  then x\<lparr>wi_state_version := wi_state_version w + 1\<rparr> else x"
  let ?t = "s\<lparr>receipts := receipts s @ [r]\<rparr>"
  let ?u = "?t\<lparr>events := events ?t @ [e]\<rparr>"
  have "store_wf ?t"
    using r f by (intro store_wf_receipt [OF assms(2)]) (simp_all add: request_receipt_def)
  moreover have "append_event e ?t = Inr ?u" using e by (auto simp: append_event_def split: if_splits)
  ultimately have "store_wf ?u" using append_event_wf by blast
  then have "store_wf (?u\<lparr>instances := map ?f (instances ?u)\<rparr>)" by (subst store_wf_instances) simp_all
  then have "store_wf (?u\<lparr>instances := map ?f (instances ?u), assistances := assistances s @ [a], intents := is, outbox := ob\<rparr>)"
    by (simp only: store_wf_other)
  moreover have "s' = ?u\<lparr>instances := map ?f (instances ?u), assistances := assistances s @ [a], intents := is, outbox := ob\<rparr>"
    by (simp add: s')
  ultimately show ?thesis by (simp only:)
qed

lemma policy_escalation_wf [wf_step]:
  assumes "policy_escalation env cmd pl s = Inr (oc, s')" and "store_wf s"
  shows "store_wf s'"
  using policy_escalation_frame [OF assms(1)]
proof (elim disjE exE conjE)
  fix x msg supporting s1 ob fb
  assume o1: "open_owner_pending_visit (te_lib env) (te_escalation env) (tc_instance cmd) (te_visit env)
      (tc_principal cmd) (te_command env) msg supporting s = Inr (x, s1)"
    and s': "s' = s1\<lparr>outbox := ob, forum_bindings := fb\<rparr>"
  from escalation_frame [OF o1] have "store_wf s1"
    using case_opened_wf [OF _ assms(2)] assms(2) by (auto split: if_splits)
  then show ?thesis by (simp add: s')
qed (use assms(2) in simp)

lemma written_facts_wf:
  assumes "terminal_hook_frame env" and "written_facts env cmd pl s = Inr (res, s')" and "store_wf s"
  shows "store_wf s'"
  using assms unfolding written_facts_def Let_def andThen_eq_Inr
  by (auto simp: andThen_eq_Inr dest!: wf_step insert_node_visit_wf)

lemma closed_source_wf: "closed_source env cmd pl s = Inr s' \<Longrightarrow> store_wf s \<Longrightarrow> store_wf s'"
  using close_required_wf [of s "te_now env" "tc_instance cmd" "wi_visit (pl_instance pl)" "''TRANSITIONED''"
      "te_command env" "Some (te_event env)"]
  by (auto simp: closed_source_def split: if_splits prod.splits bool.splits)

lemma reaches_commit_wf:
  assumes "store_wf s" and "fresh_command env cmd s" and "terminal_hook_frame env"
    and "reaches_commit env cmd hash proposal pl res s s'"
  shows "store_wf s'"
  using assms(4) claimed_wf [OF assms(1,2)] written_facts_wf [OF assms(3)] closed_source_wf store_wf_complete
  unfolding reaches_commit_def by metis

section \<open>The RETURN budget\<close>

definition within_budget :: "library \<Rightarrow> int \<Rightarrow> store \<Rightarrow> bool" where
  "within_budget lib maximum s \<longleftrightarrow> (\<forall>i t. returns_on_edge (show_uuid lib) i t s \<le> edge_limit maximum i s)"

lemma show_uuid_inj: "uuid_text_ok lib \<Longrightarrow> show_uuid lib a = show_uuid lib b \<longleftrightarrow> a = b"
  by (metis option.inject uuid_text_ok_def)

lemma writes_events:
  "transition_writes env cmd hash pl res e es s s' \<Longrightarrow>
     events s' = events s @ e # es \<and> managed_instances s' = managed_instances s \<and> (\<forall>x\<in>set es. ev_effect x = None)"
  by (auto simp: transition_writes_def final_store_def escalation_rows_def assistance_event_def)

lemma writes_returns:
  assumes "uuid_text_ok (te_lib env)" and "transition_writes env cmd hash pl res e es s s'"
  shows "returns_on_edge (show_uuid (te_lib env)) i t s' = returns_on_edge (show_uuid (te_lib env)) i t s +
    (if i = tc_instance cmd \<and> tr_effect (sl_transition pl) = ''RETURN'' \<and> t = tr_id (sl_transition pl) then 1 else 0)"
proof -
  have "filter (\<lambda>x. ev_instance x = i \<and> ev_effect x = Some ''RETURN'' \<and>
      jget (ev_data x) ''transition_definition_id'' = Some (JString (show_uuid (te_lib env) t))) es = []"
    using writes_events [OF assms(2)] by (simp add: filter_empty_conv)
  then show ?thesis
    using writes_events [OF assms(2)] assms(2) show_uuid_inj [OF assms(1), of t "tr_id (sl_transition pl)"]
    by (auto simp: returns_on_edge_def transition_writes_def new_event_def show_uuid_inj [OF assms(1)])
qed

section \<open>Runs of transition commands\<close>

text \<open>
  One command of a run: the UUID printer and the limit are those of the service; ids, clock, hooks and
  the answer to COMMIT are arbitrary.
\<close>

inductive transition_step :: "library \<Rightarrow> int \<Rightarrow> store \<Rightarrow> store \<Rightarrow> bool" for lib maximum where
  command: "te_lib env = lib \<Longrightarrow> te_max_returns env = maximum \<Longrightarrow> uuid_text_ok lib \<Longrightarrow> terminal_hook_frame env \<Longrightarrow>
     execute_workflow_transition env cmd hash proposal s = (r, s') \<Longrightarrow> transition_step lib maximum s s'"

inductive_cases transition_stepE: "transition_step lib maximum s s'"

definition transition_inv :: "library \<Rightarrow> int \<Rightarrow> store \<Rightarrow> bool" where
  "transition_inv lib maximum s \<longleftrightarrow> store_wf s \<and> within_budget lib maximum s"

text \<open>History is only appended to, and definitions and identities are only read.\<close>

definition history_grows :: "store \<Rightarrow> store \<Rightarrow> bool" where
  "history_grows s s' \<longleftrightarrow>
     (\<exists>es. events s' = events s @ es) \<and> (\<exists>vs. visits s' = visits s @ vs) \<and>
     (\<exists>cs. closures s' = closures s @ cs) \<and> (\<exists>xs. submissions s' = submissions s @ xs) \<and>
     versions s' = versions s \<and> node_rows s' = node_rows s \<and> transition_rows s' = transition_rows s \<and>
     principals s' = principals s \<and> role_bindings s' = role_bindings s \<and> successors s' = successors s \<and>
     managed_instances s' = managed_instances s \<and> map wi_id (instances s') = map wi_id (instances s)"

lemma history_grows_refl: "history_grows s s"
  by (simp add: history_grows_def)

lemma history_grows_trans: "history_grows a b \<Longrightarrow> history_grows b c \<Longrightarrow> history_grows a c"
  unfolding history_grows_def by (metis append_assoc)

lemma writes_history:
  assumes "transition_writes env cmd hash pl res e es s s'"
    and "wi_id (pl_instance pl) = tc_instance cmd"
  shows "history_grows s s'"
proof -
  have "map wi_id (map (\<lambda>w. if wi_id w = tc_instance cmd then moved res (pl_instance pl) else w) ws) = map wi_id ws"
    for ws :: "instance_row list" using assms(2) by (simp add: moved_def)
  then show ?thesis
    using assms(1) by (auto simp: transition_writes_def final_store_def history_grows_def simp del: map_map)
qed

lemma failure_same:
  assumes "failure_stored env cmd hash e s s'"
  shows "\<exists>rs au. s' = s\<lparr>audits := audits s @ au, receipts := receipts s @ rs\<rparr> \<and> length au \<le> 1 \<and> length rs \<le> 1"
proof -
  from assms obtain d au where "length au \<le> 1" "s' = s\<lparr>audits := audits s @ au,
      receipts := receipts s @ [answered_receipt env cmd hash (transition_error_code e) (error_response_body e) d]\<rparr>"
    by (auto simp: failure_stored_def)
  then show ?thesis
    by (intro exI [of _ au] exI [of _ "[answered_receipt env cmd hash (transition_error_code e) (error_response_body e) d]"])
       simp
qed

lemma replay_same:
  "\<exists>au. snd (handle_receipt_replay lib p key hash aid s) = s\<lparr>audits := audits s @ au\<rparr> \<and> length au \<le> 1"
proof -
  let ?ok = "\<lambda>s'. \<exists>au. s' = s\<lparr>audits := audits s @ au\<rparr> \<and> length au \<le> 1"
  have same: "?ok s" by (intro exI [of _ "[]"]) simp
  have w: "?ok s'" if "write_transition_attempt_audit a c p' k t rn h d s = Inr s'" for a c p' k t rn h d s'
    using that by (auto simp: write_transition_attempt_audit_def split: if_splits)
  show ?thesis
  proof (cases "replay_transition_receipt p key hash s")
    case (Inl e)
    with same show ?thesis by (simp add: handle_receipt_replay_def)
  next
    case (Inr x)
    with same w show ?thesis
      by (cases x) (simp_all add: handle_receipt_replay_def split: sum.split)
  qed
qed

lemma failure_wf: "failure_stored env cmd hash e s s' \<Longrightarrow> fresh_command env cmd s \<Longrightarrow> store_wf s \<Longrightarrow> store_wf s'"
proof -
  assume "failure_stored env cmd hash e s s'" and f: "fresh_command env cmd s" and wf: "store_wf s"
  then obtain d au where s': "s' = s\<lparr>audits := audits s @ au,
        receipts := receipts s @ [answered_receipt env cmd hash (transition_error_code e) (error_response_body e) d]\<rparr>"
    by (auto simp: failure_stored_def)
  have "store_wf (s\<lparr>receipts := receipts s @
      [answered_receipt env cmd hash (transition_error_code e) (error_response_body e) d]\<rparr>)"
    using f by (intro store_wf_receipt [OF wf]) (simp_all add: fresh_command_def answered_receipt_def claimed_receipt_def)
  then show "store_wf s'" by (simp add: s' store_wf_def)
qed

lemma transition_step_facts:
  assumes "transition_step lib maximum s s'" and "transition_inv lib maximum s"
  shows "transition_inv lib maximum s' \<and> history_grows s s'"
proof -
  from assms(2) have wf: "store_wf s" and budget: "within_budget lib maximum s"
    by (simp_all add: transition_inv_def)
  from assms(1) obtain env cmd hash proposal r where env: "te_lib env = lib" "te_max_returns env = maximum"
    and u: "uuid_text_ok lib" and frame: "terminal_hook_frame env"
    and ex: "execute_workflow_transition env cmd hash proposal s = (r, s')"
    by (elim transition_stepE)
  have quiet: "transition_inv lib maximum t \<and> history_grows s t"
    if "store_wf t" "events t = events s" "managed_instances t = managed_instances s" "history_grows s t" for t
    using that budget
    by (simp add: transition_inv_def within_budget_def returns_on_edge_def edge_limit_def is_managed_def)
  from ex show ?thesis
  proof (cases rule: execute_ends)
    case taken
    with replay_same obtain au where s': "s' = s\<lparr>audits := audits s @ au\<rparr>" by metis
    show ?thesis by (rule quiet) (simp_all add: s' wf history_grows_def)
  next
    case rolled_back
    show ?thesis by (rule quiet) (simp_all add: rolled_back wf history_grows_refl)
  next
    case failed
    from failure_same [OF failed(3)] obtain au rs where s': "s' = s\<lparr>audits := audits s @ au, receipts := receipts s @ rs\<rparr>"
      by blast
    have wf': "store_wf s'" by (rule failure_wf [OF failed(3,1) wf])
    show ?thesis by (rule quiet [OF wf']) (simp_all add: s' history_grows_def)
  next
    case (commits pl res)
    from commits(2) have "checked_transition env cmd proposal (claimed env cmd hash s) = Inr pl"
      by (simp add: reaches_commit_def)
    from checked_plan [OF this] obtain v where caller: "accepted_caller cmd (pl_instance pl) v s"
      and edge: "accepted_edge env cmd pl v s" by auto
    from caller have id: "wi_id (pl_instance pl) = tc_instance cmd" by (auto simp: accepted_caller_def find_Some_iff)
    from reaches_commit_writes [OF wf commits(1) frame commits(2)] obtain e es where
      w: "transition_writes env cmd hash pl res e es s s'" by blast
    have wf': "store_wf s'" by (rule reaches_commit_wf [OF wf commits(1) frame commits(2)])
    have "within_budget lib maximum s'"
      unfolding within_budget_def
    proof (intro allI)
      fix i t
      have "edge_limit maximum i s' = edge_limit maximum i s"
        using writes_events [OF w] by (simp add: edge_limit_def is_managed_def)
      moreover have "returns_on_edge (show_uuid lib) i t s \<le> edge_limit maximum i s"
        using budget by (simp add: within_budget_def)
      ultimately show "returns_on_edge (show_uuid lib) i t s' \<le> edge_limit maximum i s'"
        using writes_returns [OF _ w, of i t] u env edge by (auto simp: accepted_edge_def)
    qed
    with wf' writes_history [OF w id] show ?thesis by (simp add: transition_inv_def)
  qed
qed

interpretation transition_run: step_system "transition_step lib maximum" "transition_inv lib maximum" history_grows
  by unfold_locales
     (use transition_step_facts in \<open>blast intro: history_grows_refl history_grows_trans\<close>)+

end
