(* ===== verification/Admission_Facts.thy ===== *)
theory Admission_Facts
  imports Admission
begin

text \<open>
  What an admission establishes of the principal it makes responsible: it is the end of its successor
  line, it is not disabled, and it is a native human of the service or an agent that the directory
  observed during the command.
\<close>

definition directory_observes :: "admission_gate \<Rightarrow> uuid \<Rightarrow> bool" where
  "directory_observes gate p \<longleftrightarrow>
     (case gate_client gate of
        None \<Rightarrow> False
      | Some client \<Rightarrow> (case client [p] of Inl _ \<Rightarrow> False | Inr obs \<Rightarrow> obs p \<noteq> None))"

definition admissible :: "admission_gate \<Rightarrow> store \<Rightarrow> uuid \<Rightarrow> bool" where
  "admissible gate s p \<longleftrightarrow>
     principal_enabled p s \<noteq> Some False \<and>
     (resolve_current_principal p s = Some p \<or> resolve_current_principal p s = None) \<and>
     (map_option pr_type (find_principal p s) = Some ''HUMAN'' \<or> directory_observes gate p)"

lemma resolve_local_targetD:
  assumes "resolve_local_target original historical s = Inr t"
  shows "principal_enabled (lt_canonical t) s \<noteq> Some False \<and>
    (resolve_current_principal (lt_canonical t) s = Some (lt_canonical t) \<or>
     resolve_current_principal (lt_canonical t) s = None) \<and>
    (lt_native_human t \<longrightarrow> map_option pr_type (find_principal (lt_canonical t) s) = Some ''HUMAN'') \<and>
    (lt_canonical t \<noteq> original \<longrightarrow> historical)"
proof -
  let ?c = "case resolve_current_principal original s of None \<Rightarrow> original | Some c \<Rightarrow> c"
  from assms obtain a where a: "expected_agent original ?c historical s = Inr a"
    and en: "map_option pr_enabled (find_principal ?c s) \<noteq> Some False"
    and t: "t = \<lparr>lt_canonical = ?c, lt_expected_agent = a,
      lt_native_human = (map_option pr_type (find_principal ?c s) = Some ''HUMAN'' \<and> ?c = original)\<rparr>"
    by (auto simp: resolve_local_target_def Let_def andThen_eq_Inr split: if_splits)
  have "?c = original \<and> (resolve_current_principal original s = Some original \<or> resolve_current_principal original s = None)
      \<or> resolve_current_principal ?c s = Some ?c \<and> historical"
    using a by (auto simp: expected_agent_def andThen_eq_Inr split: if_splits option.splits)
  then show ?thesis using en by (auto simp: t principal_enabled_def)
qed

lemma observe_one:
  assumes "observe_local show_text gate [(p, t)] = Inr vs"
  shows "responsibility vs p = Inr (lt_canonical t) \<and> (lt_native_human t \<or> directory_observes gate (lt_canonical t))"
proof (cases "lt_native_human t")
  case True
  with assms show ?thesis
    by (auto simp: observe_local_def observe_def andThen_eq_Inr responsibility_def btree_set_def split: if_splits)
next
  case False
  with assms obtain client obs where "gate_client gate = Some client" "client [lt_canonical t] = Inr obs"
    and v: "validated show_text obs [] [(p, lt_canonical t, lt_expected_agent t)] = Inr vs"
    by (auto simp: observe_local_def observe_def andThen_eq_Inr btree_set_def split: option.splits if_splits)
  moreover from v have "obs (lt_canonical t) \<noteq> None" "responsibility vs p = Inr (lt_canonical t)"
    by (auto simp: andThen_eq_Inr evidence_def responsibility_def split: option.splits)
  ultimately show ?thesis by (simp add: directory_observes_def)
qed

lemma admitted_local:
  assumes "resolve_local_target p historical s = Inr t" and "observe_local show_text gate [(p, t)] = Inr vs"
  shows "\<exists>q. responsibility vs p = Inr q \<and> admissible gate s q \<and> (q \<noteq> p \<longrightarrow> historical)"
  using resolve_local_targetD [OF assms(1)] observe_one [OF assms(2)]
  by (intro exI [of _ "lt_canonical t"]) (auto simp: admissible_def)

lemma admit_on_tx_admissible:
  assumes "admit_on_tx show_text gate [p] s = Inr vs"
  shows "responsibility vs p = Inr p \<and> admissible gate s p"
proof -
  from assms obtain t where "resolve_local_target p False s = Inr t" "observe_local show_text gate [(p, t)] = Inr vs"
    by (auto simp: admit_on_tx_def validate_on_tx_def btree_set_def andThen_eq_Inr)
  from admitted_local [OF this] show ?thesis by auto
qed

lemma admit_historical_admissible:
  assumes "admit_historical_target show_text gate inst node p s = Inr vs"
  shows "\<exists>q. responsibility vs p = Inr q \<and> admissible gate s q \<and>
    (q \<noteq> p \<longrightarrow> (\<exists>v\<in>set (visits s). nv_instance v = inst \<and> nv_node v = node \<and> nv_assignee v = Some p))"
proof -
  from assms obtain t where "resolve_local_target p (list_ex (\<lambda>v. nv_instance v = inst \<and> nv_node v = node \<and>
      nv_assignee v = Some p) (visits s)) s = Inr t" "observe_local show_text gate [(p, t)] = Inr vs"
    by (auto simp: admit_historical_target_def resolve_historical_target_def andThen_eq_Inr)
  from admitted_local [OF this] show ?thesis by (auto simp: list_ex_iff)
qed

end
