(* ===== verification/Transition_Properties.thy ===== *)
theory Transition_Properties
  imports Transition_Invariant Admission_Facts
begin

text \<open>
  The properties of the transition command: who may execute it, what it writes, what a refusal leaves,
  what a retry gets, and what holds of every run.
\<close>

section \<open>A concrete review\<close>

text \<open>
  A VISIT_ACTIVATION_V1 instance at the second of two tasks; the RETURN to the first task reaches the
  limit of one return per edge and escalates to the domain owner.
\<close>

definition task_row :: "uuid \<Rightarrow> int \<Rightarrow> uuid option \<Rightarrow> node_row" where
  "task_row n order primary =
     \<lparr>nr_id = n, nr_version = 7, nr_key = ''task'', nr_type = ''TASK'', nr_ref_type = Some ''FIXED_PRINCIPAL'',
      nr_fixed_principal = Some 5, nr_input_key = None, nr_primary = primary, nr_order = order, nr_metadata = None\<rparr>"

definition edge_row :: "uuid \<Rightarrow> string \<Rightarrow> uuid \<Rightarrow> uuid \<Rightarrow> string \<Rightarrow> transition_row" where
  "edge_row t key a b effect =
     \<lparr>tr_id = t, tr_key = key, tr_version = 7, tr_source = a, tr_target = b, tr_effect = effect, tr_schema = None\<rparr>"

definition review_instance :: instance_row where
  "review_instance =
     \<lparr>wi_id = 20, wi_domain = 40, wi_created_by = 5, wi_version = 7, wi_context = 30, wi_current_visit = Some 22,
      wi_state_version = 3, wi_cancelled = False, wi_cancellation = None,
      wi_archival = None, wi_class = Business\<rparr>"

definition review_store :: store where
  "review_store = empty_store
     \<lparr>versions := [\<lparr>vr_id = 7, vr_status = ''PUBLISHED'', vr_semantic = 3, vr_context_schema = None\<rparr>],
      node_rows := [task_row 11 0 (Some 13), task_row 12 1 None],
      transition_rows := [edge_row 13 ''go'' 11 12 ''ADVANCE'', edge_row 14 ''back'' 12 11 ''RETURN''],
      domains := [(40, True)],
      principals := [\<lparr>pr_id = 5, pr_type = ''HUMAN'', pr_enabled = True\<rparr>, \<lparr>pr_id = 6, pr_type = ''HUMAN'', pr_enabled = True\<rparr>],
      role_bindings := [\<lparr>rb_domain = 40, rb_principal = 6, rb_role = ''DOMAIN_OWNER'', rb_enabled = True\<rparr>],
      instances := [review_instance],
      visits := [\<lparr>nv_id = 21, nv_instance = 20, nv_node = 11, nv_number = 1, nv_assignee = Some 5, nv_entered_by = None\<rparr>,
                 \<lparr>nv_id = 22, nv_instance = 20, nv_node = 12, nv_number = 1, nv_assignee = Some 5, nv_entered_by = Some 13\<rparr>],
      activations := [\<lparr>ac_id = 31, ac_instance = 20, ac_visit = 22, ac_kind = HumanWorkItem, ac_owner = 5, ac_at = 0,
                       ac_next = None, ac_command = 1\<rparr>]\<rparr>"

definition review_env :: transition_env where
  "review_env =
     \<lparr>te_lib = unary_library, te_now = 100, te_max_returns = 1,
      te_gate = \<lparr>gate_client = None, gate_remaining_ms = 0, gate_commit_ms = 0\<rparr>,
      te_command = 50, te_visit = 23, te_event = 51, te_submission = 52, te_audit = 53, te_activation = 32,
      te_context = 54, te_denial = 55, te_kick_row = 60, te_forum_row = 61, te_done_row = 62, te_policy_row = 63,
      te_escalation = \<lparr>ee_receipt = 56, ee_case = 57, ee_event = 58, ee_wake = 64, ee_now = 100, ee_hex = (\<lambda>t. t),
        ee_stop = 65, ee_intent = 66\<rparr>,
      te_node_gate = (\<lambda>_. Inr False), te_before = (\<lambda>_ _ _ _ _ _ _. Inr ()), te_selected = (\<lambda>_ _ _ _. Inr ()),
      te_terminal = (\<lambda>_ _ s. Inr s), te_commit = Commit_Ok\<rparr>"

definition send_back :: transition_command where
  "send_back =
     \<lparr>tc_principal = 5, tc_key = ''key'', tc_instance = 20, tc_expected = 3, tc_transition = 14, tc_payload = None\<rparr>"

definition sent_back :: transition_result where
  "sent_back = \<lparr>r_instance = 20, r_state_version = 5, r_context = 30, r_source_visit = 22, r_current_visit = 23,
     r_submission = None, r_sequence = 5, r_case = Some 57\<rparr>"

lemma review_run: "fst (execute_workflow_transition review_env send_back ''hash'' None review_store) = Inr (Executed sent_back)"
  by code_simp

lemma review_run_pair:
  "execute_workflow_transition review_env send_back ''hash'' None review_store =
     (Inr (Executed sent_back), snd (execute_workflow_transition review_env send_back ''hash'' None review_store))"
  using review_run by (metis prod.collapse)

lemma review_store_wf: "store_wf review_store"
  by (simp add: store_wf_def review_store_def empty_store_def review_instance_def)

lemma review_receipts_wf: "receipts_wf review_store"
  by (simp add: receipts_wf_def review_store_def empty_store_def)

lemma review_frame: "terminal_hook_frame review_env"
  by (simp add: terminal_hook_frame_def review_env_def)

lemma review_library: "te_lib review_env = unary_library"
  by (simp add: review_env_def)

lemma executed_reaches:
  assumes "execute_workflow_transition env cmd hash proposal s = (Inr (Executed res), s')"
  shows "fresh_command env cmd s \<and> (\<exists>pl. reaches_commit env cmd hash proposal pl res s s')"
  using assms by (cases rule: execute_ends) auto

text \<open>A completed receipt answers the next request under its key.\<close>

lemma answered_replay:
  assumes "find_receipt (tc_principal cmd) (tc_key cmd) s = Some (answered_receipt env0 cmd0 hash status body d)"
  shows "execute_workflow_transition env cmd hash proposal s =
    (if status \<noteq> 200 then (Inr (ReplayedFailure status body), s)
     else (andThen (parse_replayed_response (te_lib env) body) (\<lambda>r. Inr (Replayed r)), s))"
proof -
  have "replay_transition_receipt (tc_principal cmd) (tc_key cmd) hash s = Inr (CompletedMatch (te_command env0) status body)"
    by (simp add: replay_transition_receipt_def assms answered_receipt_def claimed_receipt_def)
  then show ?thesis
    using assms
    by (auto simp: execute_workflow_transition_def claim_transition handle_receipt_replay_def andThen_def
        split: sum.split)
qed

lemma find_answered:
  assumes "fresh_command env cmd s"
  shows "find_receipt (tc_principal cmd) (tc_key cmd)
      (t\<lparr>receipts := receipts s @ answered_receipt env cmd hash status body d # rs\<rparr>) =
    Some (answered_receipt env cmd hash status body d)"
  using assms by (simp add: find_receipt_def fresh_command_def find_append answered_receipt_def claimed_receipt_def)

lemma target_node_id: "read_target_node n v s = Inr t \<Longrightarrow> tn_id t = n"
  by (auto simp: read_target_node_def find_node_of_def find_Some_iff split: option.splits)

text \<open>The principal the new visit is assigned to.\<close>

lemma resolve_assignee_None:
  "resolve_assignee lib t w d c h s = Inr x \<Longrightarrow> x = None \<longleftrightarrow> node_type_enum (tn_type t) = NT_TERMINAL"
  by (auto simp: resolve_assignee_def andThen_eq_Inr split: if_splits option.splits assignee_ref_type.splits)

lemma resolved_targetD:
  assumes "resolved_target env cmd w sl c s = Inr x"
  shows "(x = None \<longleftrightarrow> node_type_enum (tn_type (sl_target sl)) = NT_TERMINAL) \<and>
    (tr_effect (sl_transition sl) = ''RETURN'' \<longrightarrow> (\<forall>q. x = Some q \<longrightarrow> admissible (te_gate env) s q))"
  using assms
  by (auto simp: resolved_target_def Let_def andThen_eq_Inr check_Inr admitted_def admission_Inr
      dest!: resolve_assignee_None admit_historical_admissible split: if_splits option.splits)

lemma responsibleD:
  assumes "responsible env sl c s = Inr x" and "enabled_by_model sl c s = Inr u"
  shows "x = c \<and> (tr_effect (sl_transition sl) \<noteq> ''RETURN'' \<longrightarrow> (\<forall>q. x = Some q \<longrightarrow> admissible (te_gate env) s q)) \<and>
    (sl_model sl = 3 \<longrightarrow> (\<forall>q. x = Some q \<longrightarrow> validate_owner_is_human_or_agent q s = Inr ()))"
  using assms
  by (auto simp: responsible_def enabled_by_model_def andThen_eq_Inr admitted_def admission_Inr
      dest!: admit_on_tx_admissible split: if_splits option.splits sum.splits)

lemma admissible_claimed [simp]: "admissible gate (claimed env cmd hash s) q = admissible gate s q"
  by (simp add: admissible_def principal_enabled_def find_principal_def resolve_current_principal_def
      find_successor_def cong: option.case_cong)

lemma plan_assignee:
  assumes "checked_transition env cmd proposal (claimed env cmd hash s) = Inr pl"
  shows "(pl_assignee pl = None \<longleftrightarrow> node_type_enum (tn_type (sl_target pl)) = NT_TERMINAL) \<and>
    (\<forall>q. pl_assignee pl = Some q \<longrightarrow> admissible (te_gate env) s q \<and>
       (sl_model pl = 3 \<longrightarrow> validate_owner_is_human_or_agent q s = Inr ()))"
proof -
  have same: "validate_owner_is_human_or_agent q (claimed env cmd hash s) = validate_owner_is_human_or_agent q s" for q
    by (simp add: validate_owner_is_human_or_agent_def find_principal_def)
  have tr: "sl_target (selection.truncate pl) = sl_target pl" "sl_model (selection.truncate pl) = sl_model pl"
    "sl_transition (selection.truncate pl) = sl_transition pl"
    by (simp_all add: selection.truncate_def)
  from checked_plan [OF assms] obtain w c x where
    t: "resolved_target env cmd w (selection.truncate pl) c (claimed env cmd hash s) = Inr x"
    and e: "enabled_by_model (selection.truncate pl) x (claimed env cmd hash s) = Inr ()"
    and p: "responsible env (selection.truncate pl) x (claimed env cmd hash s) = Inr (pl_assignee pl)" by blast
  from resolved_targetD [OF t] responsibleD [OF p e] show ?thesis
    by (auto simp: tr same)
qed

section \<open>Properties\<close>

text \<open>
  C4. A transition is executed only for the effective assignee of the current visit: the caller is enabled
  and the assignee itself or its recorded successor, the state version is the expected one, the instance
  is not cancelled, the node is not TERMINAL, the visit has no open assistance case, the version of the
  definition is neither DRAFT nor REVOKED, the transition leaves the current node, and a RETURN is still
  below the limit of its edge.
\<close>
theorem executed_only_for_assignee:
  assumes "execute_workflow_transition env cmd hash proposal s = (Inr (Executed res), s')"
  shows "\<exists>w v t. accepted_caller cmd w v s \<and>
    is_ok (read_definition_version_status (wi_version w) s) \<and>
    read_transition (tc_transition cmd) (wi_version w) s = Inr t \<and> tr_source t = cv_node v \<and>
    (tr_effect t = ''RETURN'' \<longrightarrow>
       returns_on_edge (show_uuid (te_lib env)) (tc_instance cmd) (tr_id t) s <
         edge_limit (te_max_returns env) (tc_instance cmd) s)"
proof -
  from executed_reaches [OF assms] obtain pl where
    "checked_transition env cmd proposal (claimed env cmd hash s) = Inr pl"
    by (auto simp: reaches_commit_def)
  from checked_plan [OF this] obtain v where "accepted_caller cmd (pl_instance pl) v s" "accepted_edge env cmd pl v s"
    by auto
  then show ?thesis by (intro exI conjI) (auto simp: accepted_edge_def)
qed

theorem executed_only_for_assignee_witness:
  "\<exists>w v. accepted_caller send_back w v review_store"
  using executed_only_for_assignee [OF review_run_pair] by blast

text \<open>
  C29. A refused transition changes no business fact: whatever the error and whatever the hooks do, every
  table except the receipts and the audits is the one before the command, and at most one receipt and
  one audit row are added, unless the deadline cut off a COMMIT that the server completed.
\<close>
theorem refused_transition_keeps_facts:
  assumes "execute_workflow_transition env cmd hash proposal s = (Inl e, s')"
    and "te_commit env \<noteq> Commit_Deadline True"
  shows "\<exists>rs au. s' = s\<lparr>audits := audits s @ au, receipts := receipts s @ rs\<rparr> \<and> length au \<le> 1 \<and> length rs \<le> 1"
  using assms(1)
proof (cases rule: execute_ends)
  case taken
  with replay_same obtain au where "s' = s\<lparr>audits := audits s @ au\<rparr>" "length au \<le> 1" by metis
  then show ?thesis by (intro exI [of _ "[]"] exI [of _ au]) simp
next
  case rolled_back
  then show ?thesis by (intro exI [of _ "[]"]) simp
next
  case failed
  from failure_same [OF failed(3)] show ?thesis by blast
next
  case commits
  with assms(2) show ?thesis by (auto simp: outcome_unknown_def)
qed

lemma stale_run:
  "fst (execute_workflow_transition review_env (send_back\<lparr>tc_expected := 2\<rparr>) ''hash'' None review_store) =
     Inl (T_WorkflowStateVersionConflict 2 3)"
  by code_simp

theorem refused_transition_keeps_facts_witness:
  "events (snd (execute_workflow_transition review_env (send_back\<lparr>tc_expected := 2\<rparr>) ''hash'' None review_store)) = []"
proof -
  have "execute_workflow_transition review_env (send_back\<lparr>tc_expected := 2\<rparr>) ''hash'' None review_store =
     (Inl (T_WorkflowStateVersionConflict 2 3),
      snd (execute_workflow_transition review_env (send_back\<lparr>tc_expected := 2\<rparr>) ''hash'' None review_store))"
    using stale_run by (metis prod.collapse)
  from refused_transition_keeps_facts [OF this]
  obtain rs au where "snd (execute_workflow_transition review_env (send_back\<lparr>tc_expected := 2\<rparr>) ''hash'' None review_store) =
      review_store\<lparr>audits := audits review_store @ au, receipts := receipts review_store @ rs\<rparr>"
    by (auto simp: review_env_def)
  then show ?thesis by (simp add: review_store_def empty_store_def)
qed

text \<open>
  C5. A retry gets the first answer: after a first request with a free key, the same request under the
  same key and hash, with whatever ids, clock, hooks and payload, replays the result of a success, gets
  the status and body of a stored failure, and changes nothing; when the answer to COMMIT was lost the
  retry tells whether it landed; and an error that stored nothing has left the store unchanged.
\<close>
theorem retry_gets_first_answer:
  assumes "store_wf s" and "find_receipt (tc_principal cmd) (tc_key cmd) s = None"
    and "terminal_hook_frame env" and "uuid_text_ok (te_lib env)"
    and "execute_workflow_transition env cmd hash proposal s = (r, s')"
    and "te_lib env' = te_lib env" and "tc_principal cmd' = tc_principal cmd" and "tc_key cmd' = tc_key cmd"
  shows "case r of
      Inr out \<Rightarrow> (\<exists>res. out = Executed res \<and>
        execute_workflow_transition env' cmd' hash proposal' s' = (Inr (Replayed res), s'))
    | Inl e \<Rightarrow> s' = s \<or>
        execute_workflow_transition env' cmd' hash proposal' s' =
          (Inr (ReplayedFailure (transition_error_code e) (error_response_body e)), s') \<or>
        (outcome_unknown env e \<and>
         (\<exists>res. execute_workflow_transition env' cmd' hash proposal' s' = (Inr (Replayed res), s')))"
  using assms(5)
proof (cases rule: execute_ends)
  case taken
  with assms(2) show ?thesis by simp
next
  case rolled_back
  then show ?thesis by simp
next
  case (failed e)
  from failed(3) obtain d au where st: "transition_error_code e \<noteq> 200" and s': "s' = s\<lparr>audits := audits s @ au,
      receipts := receipts s @ [answered_receipt env cmd hash (transition_error_code e) (error_response_body e) d]\<rparr>"
    by (auto simp: failure_stored_def)
  have "find_receipt (tc_principal cmd') (tc_key cmd') s' =
      Some (answered_receipt env cmd hash (transition_error_code e) (error_response_body e) d)"
    unfolding s' assms(7,8) by (rule find_answered [OF failed(1)])
  from answered_replay [OF this] st failed(2) show ?thesis by simp
next
  case (commits pl res)
  from reaches_commit_writes [OF assms(1) commits(1) assms(3) commits(2)] obtain e es where
    w: "transition_writes env cmd hash pl res e es s s'" by blast
  from w obtain t d rs where s': "s' = t\<lparr>receipts := receipts s @
      answered_receipt env cmd hash 200 (transition_response_body (te_lib env) res) d # rs\<rparr>"
    by (auto simp: transition_writes_def)
  have "is_i32 (r_state_version res)" "r_sequence res = r_state_version res"
    using w unfolding transition_writes_def result_of_def by blast+
  then have range: "result_in_range res" by (simp add: result_in_range_def)
  have "find_receipt (tc_principal cmd') (tc_key cmd') s' =
      Some (answered_receipt env cmd hash 200 (transition_response_body (te_lib env) res) d)"
    unfolding s' assms(7,8) by (rule find_answered [OF commits(1)])
  from answered_replay [OF this] have "execute_workflow_transition env' cmd' hash proposal' s' = (Inr (Replayed res), s')"
    by (simp add: assms(6) parse_response_body [OF assms(4) range])
  with commits(3) show ?thesis by auto
qed

theorem retry_gets_first_answer_witness:
  "execute_workflow_transition review_env send_back ''hash'' None
     (snd (execute_workflow_transition review_env send_back ''hash'' None review_store)) =
   (Inr (Replayed sent_back), snd (execute_workflow_transition review_env send_back ''hash'' None review_store))"
proof -
  have "find_receipt (tc_principal send_back) (tc_key send_back) review_store = None"
    by (simp add: find_receipt_def review_store_def empty_store_def)
  from retry_gets_first_answer [OF review_store_wf this review_frame _ review_run_pair refl refl refl]
  show ?thesis by (simp add: review_library unary_library_ok)
qed



text \<open>
  C33. Work is never assigned past the gate: the new visit has an assignee exactly when its node is not
  TERMINAL, and the assignee is the end of its successor line, not disabled, and a human of the service
  or an agent the directory observed during the command; under VISIT_ACTIVATION_V1 it is an enabled
  human or agent.
\<close>
theorem new_assignee_is_admitted:
  assumes "store_wf s" and "terminal_hook_frame env"
    and "execute_workflow_transition env cmd hash proposal s = (Inr (Executed res), s')"
  shows "\<exists>w t target v. find (\<lambda>w. wi_id w = tc_instance cmd) (instances s) = Some w \<and>
    read_transition (tc_transition cmd) (wi_version w) s = Inr t \<and>
    read_target_node (tr_target t) (wi_version w) s = Inr target \<and>
    visits s' = visits s @ [v] \<and>
    (nv_assignee v = None \<longleftrightarrow> node_type_enum (tn_type target) = NT_TERMINAL) \<and>
    (\<forall>q. nv_assignee v = Some q \<longrightarrow> admissible (te_gate env) s q \<and>
       (read_semantic_model_version (wi_version w) s = Inr 3 \<longrightarrow> validate_owner_is_human_or_agent q s = Inr ()))"
proof -
  from executed_reaches [OF assms(3)] obtain pl where fresh: "fresh_command env cmd s"
    and reach: "reaches_commit env cmd hash proposal pl res s s'" by blast
  from reaches_commit_writes [OF assms(1) fresh assms(2) reach] obtain e es where
    w: "transition_writes env cmd hash pl res e es s s'" by blast
  from reach have plan: "checked_transition env cmd proposal (claimed env cmd hash s) = Inr pl"
    by (simp add: reaches_commit_def)
  from checked_plan [OF plan] obtain v where caller: "accepted_caller cmd (pl_instance pl) v s"
    and edge: "accepted_edge env cmd pl v s" by auto
  let ?v = "new_visit env cmd pl (next_visit_number (tc_instance cmd) (tn_id (sl_target pl)) s)"
  have "visits s' = visits s @ [?v]" using w by (auto simp: transition_writes_def final_store_def)
  then show ?thesis
    using caller edge plan_assignee [OF plan]
    by (intro exI [of _ "pl_instance pl"] exI [of _ "sl_transition pl"] exI [of _ "sl_target pl"] exI [of _ ?v])
       (simp add: accepted_caller_def accepted_edge_def new_visit_def)
qed

theorem new_assignee_is_admitted_witness:
  "\<exists>v. visits (snd (execute_workflow_transition review_env send_back ''hash'' None review_store)) =
     visits review_store @ [v] \<and> (\<forall>q. nv_assignee v = Some q \<longrightarrow> admissible (te_gate review_env) review_store q)"
  using new_assignee_is_admitted [OF review_store_wf review_frame review_run_pair] by blast

text \<open>
  C6. Every run of transition commands keeps the history: from a well-formed store within its budget, under
  any sequence of commands, no edge of any instance is ever returned over more often than its limit (three
  for a managed instance), the keys of the runtime tables stay unique, event sequences stay the versions
  they commit, and events, visits, closures and submissions are only appended.
\<close>
theorem runs_keep_history_and_budget:
  assumes "(transition_step lib maximum)\<^sup>*\<^sup>* s s'" and "store_wf s" and "within_budget lib maximum s"
  shows "returns_on_edge (show_uuid lib) i t s' \<le> (if is_managed i s then 3 else maximum) \<and>
    store_wf s' \<and> history_grows s s'"
proof -
  have inv: "transition_inv lib maximum s" using assms(2,3) by (simp add: transition_inv_def)
  from transition_run.run_inv [OF assms(1) inv] transition_run.run_le [OF assms(1) inv]
  show ?thesis
    by (auto simp: transition_inv_def within_budget_def edge_limit_def is_managed_def history_grows_def)
qed

theorem runs_keep_history_and_budget_witness:
  "returns_on_edge (show_uuid unary_library) 20 14
     (snd (execute_workflow_transition review_env send_back ''hash'' None review_store)) \<le> 1"
proof -
  have "transition_step unary_library 1 review_store
      (snd (execute_workflow_transition review_env send_back ''hash'' None review_store))"
    by (rule transition_step.command [OF review_library _ unary_library_ok review_frame review_run_pair])
       (simp add: review_env_def)
  then have run: "(transition_step unary_library 1)\<^sup>*\<^sup>* review_store
      (snd (execute_workflow_transition review_env send_back ''hash'' None review_store))" by blast
  have "within_budget unary_library 1 review_store"
    by (simp add: within_budget_def returns_on_edge_def review_store_def empty_store_def edge_limit_def)
  from runs_keep_history_and_budget [OF run review_store_wf this, of 20 14]
  show ?thesis by (simp add: is_managed_def review_store_def empty_store_def)
qed

lemma current_visit_row:
  assumes "read_current_visit i visit s = Inr v" shows "visit \<in> nv_id ` set (visits s)"
proof -
  from assms obtain r where "find (\<lambda>v. nv_id v = visit \<and> nv_instance v = i) (visits s) = Some r"
    by (auto simp: read_current_visit_def split: option.splits)
  then have "r \<in> set (visits s)" "nv_id r = visit" by (auto simp: find_Some_iff)
  then show ?thesis by blast
qed

lemma handover_active:
  assumes wf: "store_wf s" and wf': "store_wf s'"
    and acts: "activations s' = activations s @ [a]" and cl: "closures s' = closures s @ cs"
    and old: "cl_activation ` set cs \<subseteq> ac_id ` set (activations s)"
  shows "current_active (ac_instance a) (ac_visit a) s' = [a]"
proof -
  have new: "ac_visit a \<notin> ac_visit ` set (activations s)" "ac_id a \<notin> ac_id ` set (activations s)"
    using wf' by (simp_all add: store_wf_def acts)
  have "cl_activation ` set (closures s') \<subseteq> ac_id ` set (activations s)"
    using wf old by (auto simp: store_wf_def cl)
  then have "active s' a" using new(2) by (auto simp: active_def)
  moreover have "filter (\<lambda>x. ac_instance x = ac_instance a \<and> ac_visit x = ac_visit a \<and> active s' x) (activations s) = []"
    unfolding filter_empty_conv using new(1) by (metis imageI)
  ultimately show ?thesis by (simp add: current_active_def acts)
qed

text \<open>
  C30. Under VISIT_ACTIVATION_V1 a transition hands the work over: the source visit had exactly one active
  activation and has none afterwards, and the new visit has exactly one, owned by its assignee and a
  dispatch intent exactly for an agent; a TERMINAL visit gets none.
\<close>
theorem visit_activation_handover:
  assumes "store_wf s" and "terminal_hook_frame env"
    and "execute_workflow_transition env cmd hash proposal s = (Inr (Executed res), s')"
    and "find (\<lambda>w. wi_id w = tc_instance cmd) (instances s) = Some w"
    and "read_semantic_model_version (wi_version w) s = Inr 3"
  shows "\<exists>v. visits s' = visits s @ [v] \<and>
    length (current_active (tc_instance cmd) (wi_visit w) s) = 1 \<and>
    current_active (tc_instance cmd) (wi_visit w) s' = [] \<and>
    (case nv_assignee v of
       None \<Rightarrow> activations s' = activations s
     | Some q \<Rightarrow> \<exists>a. current_active (tc_instance cmd) (r_current_visit res) s' = [a] \<and> ac_owner a = q \<and>
         (ac_kind a = DispatchIntent \<longleftrightarrow> map_option pr_type (find_principal q s) = Some ''AGENT''))"
proof -
  from executed_reaches [OF assms(3)] obtain pl where fresh: "fresh_command env cmd s"
    and reach: "reaches_commit env cmd hash proposal pl res s s'" by blast
  from reaches_commit_writes [OF assms(1) fresh assms(2) reach] obtain e es where
    w: "transition_writes env cmd hash pl res e es s s'" by blast
  have wf': "store_wf s'" by (rule reaches_commit_wf [OF assms(1) fresh assms(2) reach])
  from reach obtain s2 where plan: "checked_transition env cmd proposal (claimed env cmd hash s) = Inr pl"
    and cl: "closed_source env cmd pl (claimed env cmd hash s) = Inr s2"
    by (auto simp: reaches_commit_def)
  from checked_plan [OF plan] obtain v where caller: "accepted_caller cmd (pl_instance pl) v s"
    and edge: "accepted_edge env cmd pl v s" by auto
  have pw: "pl_instance pl = w" using caller assms(4) by (simp add: accepted_caller_def)
  have m3: "sl_model pl = 3" using edge assms(5) by (simp add: accepted_edge_def pw)
  have one: "length (current_active (tc_instance cmd) (wi_visit w) s) = 1"
    using closed_source_frame [OF cl] m3 by (auto simp: pw current_active_def active_def)
  let ?v = "new_visit env cmd pl (next_visit_number (tc_instance cmd) (tn_id (sl_target pl)) s)"
  from w m3 pw obtain cs where vis: "visits s' = visits s @ [?v]"
    and acts: "activations s' = activations s @ new_activations env cmd pl s"
    and clo: "closures s' = closures s @ cs"
    and ids: "cl_activation ` set cs = ac_id ` set (current_active (tc_instance cmd) (wi_visit w) s)"
    and rv: "r_current_visit res = te_visit env"
    by (auto simp: transition_writes_def final_store_def result_of_def)
  have "wi_visit w \<in> nv_id ` set (visits s)"
    using caller by (auto simp: accepted_caller_def pw dest: current_visit_row)
  then have neq: "wi_visit w \<noteq> te_visit env"
    using wf' by (auto simp: store_wf_def vis new_visit_def)
  have newv: "\<forall>a\<in>set (new_activations env cmd pl s). ac_visit a = te_visit env"
    by (auto simp: new_activations_def Let_def split: option.splits)
  have gone: "current_active (tc_instance cmd) (wi_visit w) s' = []"
    unfolding current_active_def filter_empty_conv
  proof (intro ballI notI)
    fix x assume x: "x \<in> set (activations s')"
      "ac_instance x = tc_instance cmd \<and> ac_visit x = wi_visit w \<and> active s' x"
    then have "x \<in> set (activations s)" using neq newv by (auto simp: acts)
    moreover from x(2) have "active s x" by (simp add: active_def clo image_Un)
    ultimately have "x \<in> set (current_active (tc_instance cmd) (wi_visit w) s)"
      using x(2) by (simp add: current_active_def)
    then have "ac_id x \<in> cl_activation ` set cs" unfolding ids by (rule imageI)
    with x(2) show False by (simp add: active_def clo image_Un)
  qed
  have sub: "cl_activation ` set cs \<subseteq> ac_id ` set (activations s)"
    unfolding ids by (auto simp: current_active_def)
  have "case pl_assignee pl of
       None \<Rightarrow> activations s' = activations s
     | Some q \<Rightarrow> \<exists>a. current_active (tc_instance cmd) (r_current_visit res) s' = [a] \<and> ac_owner a = q \<and>
         (ac_kind a = DispatchIntent \<longleftrightarrow> map_option pr_type (find_principal q s) = Some ''AGENT'')"
  proof (cases "pl_assignee pl")
    case None
    then show ?thesis by (simp add: acts new_activations_def)
  next
    case (Some q)
    then obtain a where a: "new_activations env cmd pl s = [a]" "ac_instance a = tc_instance cmd"
        "ac_visit a = te_visit env" "ac_owner a = q"
        "ac_kind a = DispatchIntent \<longleftrightarrow> map_option pr_type (find_principal q s) = Some ''AGENT''"
      by (simp add: new_activations_def m3 Let_def)
    from handover_active [OF assms(1) wf' _ clo sub, of a] acts a have
      "current_active (tc_instance cmd) (te_visit env) s' = [a]" by simp
    with a Some show ?thesis by (simp add: rv)
  qed
  then show ?thesis using vis one gone by (intro exI [of _ ?v]) (simp add: new_visit_def)
qed

theorem visit_activation_handover_witness:
  "current_active 20 22 (snd (execute_workflow_transition review_env send_back ''hash'' None review_store)) = []"
proof -
  have "find (\<lambda>w. wi_id w = tc_instance send_back) (instances review_store) = Some review_instance"
    "read_semantic_model_version (wi_version review_instance) review_store = Inr 3"
    by (simp_all add: review_store_def review_instance_def send_back_def read_semantic_model_version_def find_version_def)
  from visit_activation_handover [OF review_store_wf review_frame review_run_pair this]
  show ?thesis by (auto simp: send_back_def review_instance_def)
qed



end
