(* ===== verification/Command_Receipts.thy ===== *)
theory Command_Receipts
  imports Owner_Intents
begin

text \<open>
  What the lifecycle, wake and assistance commands share: the receipt of an idempotency key (every
  transaction file has its own copy of the two functions, differing in the error type), fields of a
  stored answer, the guarded update of the instance row, and the commit.
\<close>

section \<open>Receipts\<close>

datatype acquire_result =
    Acq_Owned uuid
  | Acq_Replay uuid int json
  | Acq_Conflict uuid
  | Acq_Processing uuid

text \<open>
  \<open>storage\<close> builds the command's storage error; \<open>gone\<close> and \<open>no_status\<close> are its consistency errors.  A row is
  inserted, or the row under the key is read: a different hash is a conflict, a PROCESSING row is
  still owned by another request.
\<close>

definition acquire_by ::
  "(string \<Rightarrow> 'e) \<Rightarrow> 'e \<Rightarrow> 'e \<Rightarrow> string \<Rightarrow> uuid \<Rightarrow> uuid \<Rightarrow> string \<Rightarrow> string \<Rightarrow> store \<Rightarrow>
     ('e, acquire_result \<times> store) res" where
  "acquire_by storage gone no_status command_type proposed p key hash s =
     (case try_insert_receipt command_type proposed p key hash s of
        Inl _ \<Rightarrow> Inl (storage ''duplicate key value violates unique constraint'')
      | Inr (Some cid, s') \<Rightarrow> Inr (Acq_Owned cid, s')
      | Inr (None, s') \<Rightarrow>
          (case find_receipt p key s' of
             None \<Rightarrow> Inl gone
           | Some r \<Rightarrow>
               if rc_hash r \<noteq> hash then Inr (Acq_Conflict (rc_command r), s')
               else if rc_status r = ''PROCESSING'' then Inr (Acq_Processing (rc_command r), s')
               else andThen (ok_or no_status (rc_response_status r))
                      (\<lambda>st. Inr (Acq_Replay (rc_command r) st
                               (case rc_response_body r of None \<Rightarrow> JNull | Some b \<Rightarrow> b), s'))))"

definition open_receipt :: "uuid \<Rightarrow> command_receipt \<Rightarrow> bool" where
  "open_receipt cid r \<longleftrightarrow> rc_command r = cid \<and> rc_status r = ''PROCESSING''"

definition complete_by ::
  "(string \<Rightarrow> 'e) \<Rightarrow> 'e \<Rightarrow> library \<Rightarrow> uuid \<Rightarrow> int \<Rightarrow> json \<Rightarrow> store \<Rightarrow> ('e, store) res" where
  "complete_by no_digest miscount lib cid status body s =
     andThen (map_sum no_digest id (json_digest lib body)) (\<lambda>d.
       if length (filter (open_receipt cid) (receipts s)) \<noteq> 1
       then Inl miscount
       else Inr (complete_transition_receipt cid status body d s))"

text \<open>\<open>INSERT INTO workflow_command_attempt_audits\<close>; a lifecycle audit stores \<open>{}\<close> as its details.\<close>

definition attempt_audit_row ::
  "uuid \<Rightarrow> uuid \<Rightarrow> uuid \<Rightarrow> string \<Rightarrow> string \<Rightarrow> string option \<Rightarrow> string \<Rightarrow> json option \<Rightarrow> store \<Rightarrow> (string, store) res" where
  "attempt_audit_row aid cid p key attempt reason hash details s =
     (if aid \<in> au_id ` set (audits s) then Inl ''duplicate key value violates unique constraint''
      else Inr (s\<lparr>audits := audits s @
        [\<lparr>au_id = aid, au_command = cid, au_principal = p, au_key = key, au_type = attempt,
          au_reason = reason, au_hash = hash, au_details = details\<rparr>]\<rparr>))"

section \<open>Stored answers\<close>

text \<open>
  The members a derived \<open>Deserialize\<close> reads: those of an object, or of an array of at most as many
  elements as the struct has fields.
\<close>

definition struct_member :: "string list \<Rightarrow> json \<Rightarrow> string \<Rightarrow> json option" where
  "struct_member names body k =
     (case body of
        JObject kvs \<Rightarrow> map_of kvs k
      | JArray xs \<Rightarrow> if length xs \<le> length names then map_of (zip names xs) k else None
      | _ \<Rightarrow> None)"

definition read_i32 :: "json \<Rightarrow> int option" where
  "read_i32 v = Option.bind (as_i64 v) (\<lambda>i. if - (2 ^ 31) \<le> i \<and> i < 2 ^ 31 then Some i else None)"

definition read_uuid :: "library \<Rightarrow> json \<Rightarrow> uuid option" where
  "read_uuid lib v = Option.bind (as_str v) (parse_uuid lib)"

text \<open>\<open>#[serde(default)]\<close>: a missing member is \<open>false\<close>.\<close>

definition read_flag :: "json option \<Rightarrow> bool option" where
  "read_flag m = (case m of None \<Rightarrow> Some False | Some v \<Rightarrow> as_bool v)"

text \<open>\<open>body[k].as_i64().unwrap_or_default() as i32\<close>.\<close>

definition i32_or_zero :: "json \<Rightarrow> string \<Rightarrow> int" where
  "i32_or_zero body k = as_i32 (case as_i64 (jindex body k) of None \<Rightarrow> 0 | Some i \<Rightarrow> i)"

section \<open>Instance rows\<close>

definition find_instance_row :: "uuid \<Rightarrow> store \<Rightarrow> instance_row option" where
  "find_instance_row i s = find (\<lambda>w. wi_id w = i) (instances s)"

text \<open>The node of the current visit, by the two left joins.\<close>

definition current_node :: "instance_row \<Rightarrow> store \<Rightarrow> node_row option" where
  "current_node w s =
     Option.bind (wi_current_visit w) (\<lambda>v. Option.bind (visit_node v s) (\<lambda>n. find_node n s))"

definition current_node_type :: "instance_row \<Rightarrow> store \<Rightarrow> string option" where
  "current_node_type w s = map_option nr_type (current_node w s)"

text \<open>\<open>UPDATE .. WHERE workflow_instance_id = i AND workflow_state_version = old\<close>, with the count it must have.\<close>

definition update_at_version ::
  "'e \<Rightarrow> uuid \<Rightarrow> int \<Rightarrow> (instance_row \<Rightarrow> instance_row) \<Rightarrow> store \<Rightarrow> ('e, store) res" where
  "update_at_version err i old f s =
     (let hit = (\<lambda>w. wi_id w = i \<and> wi_state_version w = old)
      in if length (filter hit (instances s)) \<noteq> 1 then Inl err
         else Inr (s\<lparr>instances := map (\<lambda>w. if hit w then f w else w) (instances s)\<rparr>))"

text \<open>The semantic model of an instance's version (\<open>JOIN .. fetch_one\<close>).\<close>

definition instance_semantic_model :: "uuid \<Rightarrow> store \<Rightarrow> (string, int) res" where
  "instance_semantic_model i s =
     andThen (ok_or row_not_found (find_instance_row i s)) (\<lambda>w.
     andThen (ok_or row_not_found (find_version (wi_version w) s)) (\<lambda>v. Inr (vr_semantic v)))"

text \<open>The message of a failed event insert.\<close>

definition event_failure :: "transition_error \<Rightarrow> string" where
  "event_failure e = (case e of T_StorageError m \<Rightarrow> m | _ \<Rightarrow> '''')"

section \<open>Commit\<close>

text \<open>An error of COMMIT leaves the store the transaction started from.\<close>

definition finish :: "(string \<Rightarrow> 'e) \<Rightarrow> string option \<Rightarrow> ('e, 'a) res \<Rightarrow> store \<Rightarrow> store \<Rightarrow> ('e, 'a) res \<times> store" where
  "finish storage failure result s0 s =
     (case failure of None \<Rightarrow> (result, s) | Some m \<Rightarrow> (Inl (storage m), s0))"

end
