(* ===== verification/Assistance_Commands.thy ===== *)
theory Assistance_Commands
  imports Command_Receipts
begin

text \<open>
  The assistance commands (\<open>assistance_transaction.rs\<close>, \<open>write.rs\<close>, \<open>checks.rs\<close>): the assignee of a visit
  requests help, the domain owner escalates the case to a human or resolves it.  A deterministic error
  is stored in the receipt; the owner's facts live in a savepoint, which such an error rolls back alone.
\<close>

section \<open>Cases, payloads and answers\<close>

datatype case_status = OwnerPending | HumanRequired | Resolved | Voided

fun case_status_to_string :: "case_status \<Rightarrow> string" where
  "case_status_to_string OwnerPending = ''OWNER_PENDING''"
| "case_status_to_string HumanRequired = ''HUMAN_REQUIRED''"
| "case_status_to_string Resolved = ''RESOLVED''"
| "case_status_to_string Voided = ''VOIDED''"

definition parse_case_status :: "string \<Rightarrow> (assistance_error, case_status) res" where
  "parse_case_status t =
     (if t = ''OWNER_PENDING'' then Inr OwnerPending
      else if t = ''HUMAN_REQUIRED'' then Inr HumanRequired
      else if t = ''RESOLVED'' then Inr Resolved
      else if t = ''VOIDED'' then Inr Voided
      else Inl (A_InternalConsistency (''unknown assistance status: '' @ t)))"

record assistance_payload =
  py_message :: string
  py_supporting :: "json option"

definition payload_json :: "assistance_payload \<Rightarrow> json" where
  "payload_json p =
     JObject ((''message'', JString (py_message p)) #
       (case py_supporting p of None \<Rightarrow> [] | Some v \<Rightarrow> [(''supportingPayload'', v)]))"

definition validate_payload :: "library \<Rightarrow> assistance_payload \<Rightarrow> (assistance_error, json) res" where
  "validate_payload lib p =
     (let msg = py_message p in
      if trim msg \<noteq> msg \<or> msg = [] \<or> length (utf8_chars msg) > 2000
      then Inl (A_InvalidPayload ''message must be trimmed and contain 1-2000 characters'')
      else if list_ex is_control (utf8_chars msg)
      then Inl (A_InvalidPayload ''message must not contain control characters'')
      else if (case py_supporting p of None \<Rightarrow> False | Some v \<Rightarrow> \<not> is_object v)
      then Inl (A_InvalidPayload ''supportingPayload must be an object'')
      else andThen (lib_error (json_length lib (payload_json p))) (\<lambda>n.
             if n > 65536 then Inl A_SizeLimitExceeded else Inr (payload_json p)))"

record request_command =
  rq_principal :: uuid
  rq_key :: string
  rq_instance :: uuid
  rq_visit :: uuid
  rq_expected :: int
  rq_payload :: assistance_payload

text \<open>The escalate and the resolve command; which one it is, is the action.\<close>

record owner_command =
  oc_principal :: uuid
  oc_key :: string
  oc_case :: uuid
  oc_expected :: int

datatype owner_action = Escalate assistance_payload | Resolve assistance_payload

record assistance_result =
  ar_case :: uuid
  ar_instance :: uuid
  ar_visit :: uuid
  ar_status :: case_status
  ar_version :: int
  ar_sequence :: int
  ar_created :: int
  ar_replayed :: bool

text \<open>
  The fresh ids (receipt, case, event, intent, the two outbox rows), the clock, the RFC 3339 text of an
  instant and its parser (chrono), the governance check of a resolution and the answer of COMMIT.
\<close>

record assist_env =
  ae_lib :: library
  ae_now :: int
  ae_show_time :: "int \<Rightarrow> string"
  ae_parse_time :: "string \<Rightarrow> int option"
  ae_command :: uuid
  ae_case :: uuid
  ae_event :: uuid
  ae_intent :: uuid
  ae_forum_row :: uuid
  ae_wake_row :: uuid
  ae_review :: "uuid \<Rightarrow> json \<Rightarrow> store \<Rightarrow> (assistance_error, json option) res"
  ae_commit :: "string option"

definition assistance_body :: "assist_env \<Rightarrow> assistance_result \<Rightarrow> json" where
  "assistance_body env r =
     (let u = (\<lambda>i. JString (show_uuid (ae_lib env) i)) in
      JObject [(''assistanceCaseId'', u (ar_case r)), (''createdAt'', JString (ae_show_time env (ar_created r))),
               (''eventSequence'', json_int (ar_sequence r)), (''nodeVisitId'', u (ar_visit r)),
               (''status'', JString (case_status_to_string (ar_status r))),
               (''workflowInstanceId'', u (ar_instance r)), (''workflowStateVersion'', json_int (ar_version r))])"

text \<open>A unit variant is read from its name, or from an object with the name and null.\<close>

definition read_status :: "json \<Rightarrow> case_status option" where
  "read_status v =
     (case v of
        JString t \<Rightarrow> (case parse_case_status t of Inl _ \<Rightarrow> None | Inr st \<Rightarrow> Some st)
      | JObject [(t, JNull)] \<Rightarrow> (case parse_case_status t of Inl _ \<Rightarrow> None | Inr st \<Rightarrow> Some st)
      | _ \<Rightarrow> None)"

definition parse_assistance :: "assist_env \<Rightarrow> json \<Rightarrow> assistance_result option" where
  "parse_assistance env body =
     (let m = struct_member [''assistanceCaseId'', ''workflowInstanceId'', ''nodeVisitId'', ''status'',
                ''workflowStateVersion'', ''eventSequence'', ''createdAt'', ''replayed''] body in
      Option.bind (Option.bind (m ''assistanceCaseId'') (read_uuid (ae_lib env))) (\<lambda>c.
      Option.bind (Option.bind (m ''workflowInstanceId'') (read_uuid (ae_lib env))) (\<lambda>i.
      Option.bind (Option.bind (m ''nodeVisitId'') (read_uuid (ae_lib env))) (\<lambda>v.
      Option.bind (Option.bind (m ''status'') read_status) (\<lambda>st.
      Option.bind (Option.bind (m ''workflowStateVersion'') read_i32) (\<lambda>n.
      Option.bind (Option.bind (m ''eventSequence'') read_i32) (\<lambda>q.
      Option.bind (Option.bind (Option.bind (m ''createdAt'') as_str) (ae_parse_time env)) (\<lambda>t.
      Option.bind (read_flag (m ''replayed'')) (\<lambda>b.
        Some \<lparr>ar_case = c, ar_instance = i, ar_visit = v, ar_status = st, ar_version = n, ar_sequence = q,
              ar_created = t, ar_replayed = b\<rparr>)))))))))"

section \<open>Receipts\<close>

definition assist_acquire ::
  "string \<Rightarrow> uuid \<Rightarrow> uuid \<Rightarrow> string \<Rightarrow> string \<Rightarrow> store \<Rightarrow> (assistance_error, acquire_result \<times> store) res" where
  "assist_acquire = acquire_by A_StorageError (A_InternalConsistency ''receipt disappeared during acquire'')
     (A_InternalConsistency ''completed receipt has no status'')"

definition assist_complete :: "library \<Rightarrow> uuid \<Rightarrow> int \<Rightarrow> json \<Rightarrow> store \<Rightarrow> (assistance_error, store) res" where
  "assist_complete = complete_by A_InternalConsistency
     (A_InternalConsistency ''receipt completion affected unexpected row count'')"

definition replay_error :: "int \<Rightarrow> json \<Rightarrow> assistance_error" where
  "replay_error status body =
     (let label = (case as_str (jindex body ''error'') of None \<Rightarrow> [] | Some l \<Rightarrow> l) in
      if label = ''principal_disabled'' then A_PrincipalDisabled
      else if label = ''instance_not_found'' then A_InstanceNotFound
      else if label = ''current_visit_not_found'' then A_CurrentVisitNotFound
      else if label = ''current_node_visit_mismatch'' then A_CurrentNodeVisitMismatch
      else if label = ''principal_not_assignee'' then A_PrincipalNotAssignee
      else if label = ''source_node_terminal'' then A_SourceNodeTerminal
      else if label = ''instance_cancelled'' then A_InstanceCancelled
      else if label = ''instance_archived'' then A_InstanceArchived
      else if label = ''workflow_state_version_conflict''
        then A_WorkflowStateVersionConflict (i32_or_zero body ''expected'') (i32_or_zero body ''actual'')
      else if label = ''domain_owner_missing'' then A_DomainOwnerMissing
      else if label = ''not_domain_owner'' then A_NotDomainOwner
      else if label = ''assistance_already_open'' then A_AssistanceAlreadyOpen
      else if label = ''assistance_case_not_found_or_not_visible'' then A_AssistanceCaseNotFoundOrNotVisible
      else if label = ''assistance_status_conflict'' then A_AssistanceStatusConflict
      else if label = ''governed_operation_required'' then A_GovernedOperationRequired
      else if label = ''invalid_assistance_payload''
        then A_InvalidPayload (case as_str (jindex body ''detail'') of None \<Rightarrow> ''invalid payload'' | Some d \<Rightarrow> d)
      else if label = ''size_limit_exceeded'' then A_SizeLimitExceeded
      else A_InternalConsistency (''unknown replayed assistance failure: status='' @ show_int status @ '', code='' @ label))"

definition assist_replay :: "assist_env \<Rightarrow> int \<Rightarrow> json \<Rightarrow> (assistance_error, assistance_result) res" where
  "assist_replay env status body =
     (if status = 200 \<or> status = 201
      then case parse_assistance env body of
             None \<Rightarrow> Inl (A_InternalConsistency ''invalid stored result'')
           | Some r \<Rightarrow> Inr (r\<lparr>ar_replayed := True\<rparr>)
      else Inl (replay_error status body))"

text \<open>\<open>deterministic_failure\<close>: the error is the answer of the receipt.\<close>

definition assist_failure ::
  "assist_env \<Rightarrow> uuid \<Rightarrow> assistance_error \<Rightarrow> store \<Rightarrow> store \<Rightarrow> (assistance_error, 'a) res \<times> store" where
  "assist_failure env cid err s0 s =
     (case assist_complete (ae_lib env) cid (assistance_status_code err) (assistance_error_body err) s of
        Inl e \<Rightarrow> (Inl e, s0)
      | Inr s' \<Rightarrow> finish A_StorageError (ae_commit env) (Inl err) s0 s')"

section \<open>Checks\<close>

definition validate_actor_enabled :: "uuid \<Rightarrow> store \<Rightarrow> (assistance_error, unit) res" where
  "validate_actor_enabled p s =
     (case principal_enabled p s of
        None \<Rightarrow> Inl A_PrincipalNotFound
      | Some False \<Rightarrow> Inl A_PrincipalDisabled
      | Some True \<Rightarrow> Inr ())"

text \<open>The owner of an enabled domain: there must be exactly one enabled binding of an enabled principal.\<close>

definition effective_owner :: "uuid \<Rightarrow> store \<Rightarrow> (assistance_error, uuid) res" where
  "effective_owner d s =
     (if map_of (domains s) d \<noteq> Some True then Inl A_DomainOwnerMissing
      else case filter (\<lambda>b. rb_domain b = d \<and> rb_role b = ''DOMAIN_OWNER'' \<and> rb_enabled b \<and>
                            principal_enabled (rb_principal b) s = Some True) (role_bindings s) of
             [b] \<Rightarrow> Inr (rb_principal b)
           | _ \<Rightarrow> Inl A_DomainOwnerMissing)"

definition request_lifecycle :: "instance_row \<Rightarrow> store \<Rightarrow> (assistance_error, unit) res" where
  "request_lifecycle w s =
     (if wi_cancelled w then Inl A_InstanceCancelled
      else if wi_archived w then Inl A_InstanceArchived
      else if current_node_type w s = Some ''TERMINAL'' then Inl A_SourceNodeTerminal
      else Inr ())"

definition current_assignee :: "instance_row \<Rightarrow> store \<Rightarrow> uuid option" where
  "current_assignee w s =
     Option.bind (wi_current_visit w) (\<lambda>v. Option.bind (find (\<lambda>r. nv_id r = v) (visits s)) nv_assignee)"

definition request_assignee :: "instance_row \<Rightarrow> uuid \<Rightarrow> store \<Rightarrow> (assistance_error, unit) res" where
  "request_assignee w actor s = guard_r (current_assignee w s = Some actor) A_PrincipalNotAssignee"

definition request_open_case :: "bool \<Rightarrow> (assistance_error, unit) res" where
  "request_open_case open_exists = guard_r (\<not> open_exists) A_AssistanceAlreadyOpen"

definition owner_actor :: "uuid \<Rightarrow> uuid \<Rightarrow> (assistance_error, unit) res" where
  "owner_actor owner actor = guard_r (owner = actor) A_NotDomainOwner"

definition load_case :: "uuid \<Rightarrow> store \<Rightarrow> (assistance_error, assistance_row) res" where
  "load_case c s = ok_or A_AssistanceCaseNotFoundOrNotVisible (find (\<lambda>a. as_id a = c) (assistances s))"

definition owner_case :: "owner_action \<Rightarrow> uuid \<Rightarrow> uuid option \<Rightarrow> assistance_row \<Rightarrow> (assistance_error, unit) res" where
  "owner_case action inst current_visit a =
     (if as_instance a \<noteq> inst \<or> current_visit \<noteq> Some (as_visit a) then Inl A_AssistanceStatusConflict
      else guard_r (case action of
             Escalate _ \<Rightarrow> as_status a = ''OWNER_PENDING''
           | Resolve _ \<Rightarrow> as_status a = ''OWNER_PENDING'' \<or> as_status a = ''HUMAN_REQUIRED'')
             A_AssistanceStatusConflict)"

section \<open>Writes\<close>

definition case_event_data :: "library \<Rightarrow> uuid \<Rightarrow> string option \<Rightarrow> string \<Rightarrow> string \<Rightarrow> json option \<Rightarrow> json" where
  "case_event_data lib c previous new dig review =
     (let base = [(''assistanceCaseId'', JString (show_uuid lib c)), (''newStatus'', JString new),
                  (''payloadDigest'', JString dig), (''previousStatus'', opt_json JString previous)]
      in JObject (case review of None \<Rightarrow> base | Some r \<Rightarrow> put_member ''governanceChildReview'' r base))"

definition increment_instance_and_event ::
  "assist_env \<Rightarrow> instance_row \<Rightarrow> uuid \<Rightarrow> uuid \<Rightarrow> uuid \<Rightarrow> string \<Rightarrow> string option \<Rightarrow> string \<Rightarrow> string \<Rightarrow> json option \<Rightarrow>
     store \<Rightarrow> (assistance_error, int \<times> store) res" where
  "increment_instance_and_event env w cid actor c event previous new_status dig review s =
     (let old = wi_state_version w; new = as_i32 (old + 1);
          data = case_event_data (ae_lib env) c previous new_status dig review in
      andThen (update_at_version
                (A_InternalConsistency ''assistance state-version update affected unexpected row count'')
                (wi_id w) old (\<lambda>x. x\<lparr>wi_state_version := new\<rparr>) s) (\<lambda>s1.
      andThen (ok_or A_CurrentVisitNotFound (wi_current_visit w)) (\<lambda>v.
      andThen (lib_error (json_digest (ae_lib env) data)) (\<lambda>data_digest.
      andThen (map_sum (\<lambda>_. A_StorageError ''duplicate key value violates unique constraint'') id (append_event
                 \<lparr>ev_id = ae_event env, ev_instance = wi_id w, ev_sequence = new, ev_command = cid,
                  ev_type = event, ev_effect = None, ev_source_visit = Some v, ev_target_visit = Some v,
                  ev_context = Some (wi_context w), ev_submission = None, ev_data = data,
                  ev_digest = data_digest, ev_actor = actor, ev_from = visit_node v s, ev_to = visit_node v s,
                  ev_old = old, ev_new = new\<rparr> s1)) (\<lambda>s2.
        Inr (new, s2))))))"

section \<open>The request\<close>

text \<open>A check of the request either stores its error (\<open>Keep\<close>) or rolls back (\<open>Drop\<close>).\<close>

datatype assist_stop = Keep assistance_error | Drop assistance_error

definition keep :: "(assistance_error, 'a) res \<Rightarrow> (assist_stop, 'a) res" where
  "keep = map_sum Keep id"

definition drop_error :: "(assistance_error, 'a) res \<Rightarrow> (assist_stop, 'a) res" where
  "drop_error = map_sum Drop id"

definition request_checked ::
  "assist_env \<Rightarrow> request_command \<Rightarrow> store \<Rightarrow> (assist_stop, json \<times> string \<times> instance_row \<times> uuid) res" where
  "request_checked env cmd s =
     andThen (keep (validate_payload (ae_lib env) (rq_payload cmd))) (\<lambda>payload.
     andThen (drop_error (lib_error (json_digest (ae_lib env) payload))) (\<lambda>dig.
     andThen (keep (ok_or A_InstanceNotFound (find_instance_row (rq_instance cmd) s))) (\<lambda>w.
     andThen (keep (guard_r (rq_expected cmd = wi_state_version w)
                      (A_WorkflowStateVersionConflict (rq_expected cmd) (wi_state_version w)))) (\<lambda>_.
     andThen (keep (guard_r (wi_current_visit w = Some (rq_visit cmd)) A_CurrentNodeVisitMismatch)) (\<lambda>_.
     andThen (keep (request_lifecycle w s)) (\<lambda>_.
     andThen (keep (validate_actor_enabled (rq_principal cmd) s)) (\<lambda>_.
     andThen (keep (request_assignee w (rq_principal cmd) s)) (\<lambda>_.
     andThen (keep (effective_owner (wi_domain w) s)) (\<lambda>owner.
     andThen (keep (request_open_case (has_open_assistance (rq_visit cmd) s))) (\<lambda>_.
       Inr (payload, dig, w, owner)))))))))))"

definition request_written ::
  "assist_env \<Rightarrow> uuid \<Rightarrow> request_command \<Rightarrow> json \<Rightarrow> string \<Rightarrow> instance_row \<Rightarrow> uuid \<Rightarrow> store \<Rightarrow>
     (assistance_error, assistance_result \<times> store) res" where
  "request_written env cid cmd payload dig w owner s =
     (let lib = ae_lib env; inst = rq_instance cmd; visit = rq_visit cmd; c = ae_case env;
          u = (\<lambda>i. JString (show_uuid lib i)) in
      andThen (insert_case \<lparr>as_id = c, as_instance = inst, as_visit = visit, as_status = ''OWNER_PENDING'',
          as_requester = rq_principal cmd, as_payload = payload, as_digest = dig, as_command = cid,
          as_escalation = None, as_resolution = None, as_void = None, as_created = ae_now env\<rparr> s) (\<lambda>s1.
      andThen (increment_instance_and_event env w cid (rq_principal cmd) c ''ASSISTANCE_REQUESTED'' None
                 ''OWNER_PENDING'' dig None s1) (\<lambda>(version, s2).
      andThen (sql_error (queue_forum_event (ae_now env) (ae_forum_row env) inst
                 (''assistance_requested:'' @ show_uuid lib c)
                 (JObject [(''assistanceCaseId'', u c), (''eventType'', JString ''assistance_requested''),
                           (''nodeVisitId'', u visit), (''ownerPrincipalId'', u owner),
                           (''workflowInstanceId'', u inst)]) s2)) (\<lambda>s3.
      andThen (request_intent (ae_intent env) c cid s3) (\<lambda>(handled, s4).
      andThen (if handled then Inr s4
               else sql_error (queue_owner_assistance_wake (show_uuid lib) (ae_now env) (ae_wake_row env) inst visit
                      c owner ''ASSISTANCE_REQUESTED'' s4)) (\<lambda>s5.
      let result = \<lparr>ar_case = c, ar_instance = inst, ar_visit = visit, ar_status = OwnerPending,
                    ar_version = version, ar_sequence = version, ar_created = ae_now env, ar_replayed = False\<rparr> in
      andThen (assist_complete lib cid 201 (assistance_body env result) s5) (\<lambda>s6. Inr (result, s6))))))))"

definition request_assistance ::
  "assist_env \<Rightarrow> request_command \<Rightarrow> string \<Rightarrow> store \<Rightarrow> (assistance_error, assistance_result) res \<times> store" where
  "request_assistance env cmd hash s =
     (let finish_request = finish A_StorageError (ae_commit env) in
      case assist_acquire ''REQUEST_WORKFLOW_ASSISTANCE'' (ae_command env) (rq_principal cmd) (rq_key cmd) hash s of
        Inl e \<Rightarrow> (Inl e, s)
      | Inr (Acq_Replay _ status body, s1) \<Rightarrow> finish_request (assist_replay env status body) s s1
      | Inr (Acq_Conflict _, s1) \<Rightarrow> finish_request (Inl A_IdempotencyConflict) s s1
      | Inr (Acq_Processing _, s1) \<Rightarrow> finish_request (Inl A_CommandStillProcessing) s s1
      | Inr (Acq_Owned cid, s1) \<Rightarrow>
          (case request_checked env cmd s1 of
             Inl (Keep e) \<Rightarrow> assist_failure env cid e s s1
           | Inl (Drop e) \<Rightarrow> (Inl e, s)
           | Inr (payload, dig, w, owner) \<Rightarrow>
               (case request_written env cid cmd payload dig w owner s1 of
                  Inl e \<Rightarrow> (Inl e, s)
                | Inr (r, s2) \<Rightarrow> finish_request (Inr r) s s2)))"

section \<open>Escalate and resolve\<close>

definition action_payload :: "owner_action \<Rightarrow> assistance_payload" where
  "action_payload action = (case action of Escalate p \<Rightarrow> p | Resolve p \<Rightarrow> p)"

definition action_status :: "owner_action \<Rightarrow> case_status" where
  "action_status action = (case action of Escalate _ \<Rightarrow> HumanRequired | Resolve _ \<Rightarrow> Resolved)"

definition action_event :: "owner_action \<Rightarrow> string" where
  "action_event action =
     (case action of Escalate _ \<Rightarrow> ''ASSISTANCE_ESCALATED_TO_HUMAN'' | Resolve _ \<Rightarrow> ''ASSISTANCE_RESOLVED'')"

definition action_command :: "owner_action \<Rightarrow> string" where
  "action_command action =
     (case action of Escalate _ \<Rightarrow> ''ESCALATE_WORKFLOW_ASSISTANCE_TO_HUMAN''
                   | Resolve _ \<Rightarrow> ''RESOLVE_WORKFLOW_ASSISTANCE'')"

text \<open>The conditional UPDATE of the case; the count must be one.\<close>

definition update_case ::
  "owner_action \<Rightarrow> uuid \<Rightarrow> case_action \<Rightarrow> store \<Rightarrow> (assistance_error, store) res" where
  "update_case action c act s =
     (let hit = (\<lambda>a. as_id a = c \<and> (case action of Escalate _ \<Rightarrow> as_status a = ''OWNER_PENDING'' | Resolve _ \<Rightarrow> is_open a));
          set_to = (\<lambda>a. case action of
                       Escalate _ \<Rightarrow> a\<lparr>as_status := ''HUMAN_REQUIRED'', as_escalation := Some act\<rparr>
                     | Resolve _ \<Rightarrow> a\<lparr>as_status := ''RESOLVED'', as_resolution := Some act\<rparr>)
      in if length (filter hit (assistances s)) \<noteq> 1
         then Inl (A_InternalConsistency ''assistance update affected unexpected row count'')
         else Inr (s\<lparr>assistances := map (\<lambda>a. if hit a then set_to a else a) (assistances s)\<rparr>))"

definition owner_checked ::
  "assist_env \<Rightarrow> uuid \<Rightarrow> owner_command \<Rightarrow> owner_action \<Rightarrow> store \<Rightarrow>
     (assistance_error, json \<times> string \<times> instance_row \<times> assistance_row \<times> json option) res" where
  "owner_checked env cid cmd action s =
     andThen (require_effect (oc_case cmd) cid s) (\<lambda>_.
     andThen (validate_payload (ae_lib env) (action_payload action)) (\<lambda>payload.
     andThen (lib_error (json_digest (ae_lib env) payload)) (\<lambda>dig.
     andThen (load_case (oc_case cmd) s) (\<lambda>a0.
     andThen (ok_or A_InstanceNotFound (find_instance_row (as_instance a0) s)) (\<lambda>w.
     andThen (guard_r (oc_expected cmd = wi_state_version w)
                (A_WorkflowStateVersionConflict (oc_expected cmd) (wi_state_version w))) (\<lambda>_.
     andThen (validate_actor_enabled (oc_principal cmd) s) (\<lambda>_.
     andThen (effective_owner (wi_domain w) s) (\<lambda>owner.
     andThen (owner_actor owner (oc_principal cmd)) (\<lambda>_.
     andThen (load_case (oc_case cmd) s) (\<lambda>a.
     andThen (owner_case action (as_instance a0) (wi_current_visit w) a) (\<lambda>_.
     andThen (case action of Escalate _ \<Rightarrow> Inr None | Resolve _ \<Rightarrow> ae_review env (oc_case cmd) payload s) (\<lambda>review.
       Inr (payload, dig, w, a, review)))))))))))))"

definition owner_action_on_tx ::
  "assist_env \<Rightarrow> uuid \<Rightarrow> owner_command \<Rightarrow> owner_action \<Rightarrow> store \<Rightarrow> (assistance_error, assistance_result \<times> store) res" where
  "owner_action_on_tx env cid cmd action s =
     (let lib = ae_lib env; c = oc_case cmd; u = (\<lambda>i. JString (show_uuid lib i));
          target = case_status_to_string (action_status action);
          name = (case action of Escalate _ \<Rightarrow> ''assistance_escalated'' | Resolve _ \<Rightarrow> ''assistance_resolved'') in
      andThen (owner_checked env cid cmd action s) (\<lambda>(payload, dig, w, a, review).
      andThen (update_case action c \<lparr>ca_by = oc_principal cmd, ca_payload = payload, ca_digest = dig,
                 ca_command = cid, ca_at = ae_now env\<rparr> s) (\<lambda>s1.
      andThen (increment_instance_and_event env w cid (oc_principal cmd) c (action_event action)
                 (Some (as_status a)) target dig review s1) (\<lambda>(version, s2).
      andThen (sql_error (queue_forum_event (ae_now env) (ae_forum_row env) (as_instance a)
                 (name @ '':'' @ show_uuid lib c)
                 (JObject [(''assistanceCaseId'', u c), (''eventType'', JString name), (''newStatus'', JString target),
                           (''nodeVisitId'', u (as_visit a)), (''previousStatus'', JString (as_status a)),
                           (''workflowInstanceId'', u (as_instance a))]) s2)) (\<lambda>s3.
        Inr (\<lparr>ar_case = as_id a, ar_instance = as_instance a, ar_visit = as_visit a,
              ar_status = action_status action, ar_version = version, ar_sequence = version,
              ar_created = as_created a, ar_replayed = False\<rparr>, s3))))))"

definition infrastructure_error :: "assistance_error \<Rightarrow> bool" where
  "infrastructure_error e = (case e of A_StorageError _ \<Rightarrow> True | A_InternalConsistency _ \<Rightarrow> True | _ \<Rightarrow> False)"

definition owner_action_command ::
  "assist_env \<Rightarrow> owner_command \<Rightarrow> owner_action \<Rightarrow> string \<Rightarrow> store \<Rightarrow> (assistance_error, assistance_result) res \<times> store" where
  "owner_action_command env cmd action hash s =
     (let finish_owner = finish A_StorageError (ae_commit env) in
      case assist_acquire (action_command action) (ae_command env) (oc_principal cmd) (oc_key cmd) hash s of
        Inl e \<Rightarrow> (Inl e, s)
      | Inr (Acq_Replay _ status body, s1) \<Rightarrow> finish_owner (assist_replay env status body) s s1
      | Inr (Acq_Conflict _, s1) \<Rightarrow> finish_owner (Inl A_IdempotencyConflict) s s1
      | Inr (Acq_Processing _, s1) \<Rightarrow> finish_owner (Inl A_CommandStillProcessing) s s1
      | Inr (Acq_Owned cid, s1) \<Rightarrow>
          (case owner_action_on_tx env cid cmd action s1 of
             Inr (r, s2) \<Rightarrow>
               (case assist_complete (ae_lib env) cid 200 (assistance_body env r) s2 of
                  Inl e \<Rightarrow> (Inl e, s)
                | Inr s3 \<Rightarrow> finish_owner (Inr r) s s3)
           | Inl e \<Rightarrow> if infrastructure_error e then (Inl e, s) else assist_failure env cid e s s1))"

section \<open>Read-side evaluation\<close>

definition evaluate_request :: "uuid \<Rightarrow> uuid \<Rightarrow> store \<Rightarrow> (assistance_error, unit) res" where
  "evaluate_request actor inst s =
     andThen (ok_or A_InstanceNotFound (find_instance_row inst s)) (\<lambda>w.
     andThen (ok_or A_CurrentVisitNotFound (wi_current_visit w)) (\<lambda>v.
     andThen (request_lifecycle w s) (\<lambda>_.
     andThen (validate_actor_enabled actor s) (\<lambda>_.
     andThen (request_assignee w actor s) (\<lambda>_.
     andThen (effective_owner (wi_domain w) s) (\<lambda>_.
       request_open_case (has_open_assistance v s)))))))"

end
