(* ===== verification/Wake.thy ===== *)
theory Wake
  imports Command_Receipts
begin

text \<open>
  The early wake of a dispatch intent (\<open>wake_transaction.rs\<close>) with the activation facts it reads and
  writes (\<open>activation_facts.rs\<close>), and the consistency check of an instance's activations.  A wake that
  does not apply is a no-op that is committed with its answer; a failure rolls everything back.
\<close>

section \<open>Eligibility facts\<close>

record wake_activation =
  wa_id :: uuid
  wa_closed :: "int option"
  wa_next :: "int option"

text \<open>\<open>ORDER BY created_at DESC, eligibility_event_id DESC LIMIT 1\<close>.\<close>

definition later_fact :: "eligibility_row \<Rightarrow> eligibility_row \<Rightarrow> bool" where
  "later_fact e f \<longleftrightarrow> el_created e < el_created f \<or> el_created e = el_created f \<and> el_id e < el_id f"

definition latest_fact :: "eligibility_row list \<Rightarrow> eligibility_row option" where
  "latest_fact es =
     fold (\<lambda>e m. case m of None \<Rightarrow> Some e | Some x \<Rightarrow> if later_fact x e then Some e else m) es None"

definition find_dispatch_activation :: "uuid \<Rightarrow> uuid \<Rightarrow> store \<Rightarrow> wake_activation option" where
  "find_dispatch_activation inst visit s =
     map_option (\<lambda>a. \<lparr>wa_id = ac_id a,
         wa_closed = map_option cl_at (find (\<lambda>c. cl_activation c = ac_id a) (closures s)),
         wa_next = (case latest_fact (filter (\<lambda>e. el_activation e = ac_id a) (eligibilities s)) of
                      Some e \<Rightarrow> Some (el_new e) | None \<Rightarrow> ac_next a)\<rparr>)
       (find (\<lambda>a. ac_instance a = inst \<and> ac_visit a = visit \<and> ac_kind a = DispatchIntent) (activations s))"

definition insert_eligibility_event ::
  "uuid \<Rightarrow> uuid \<Rightarrow> int \<Rightarrow> int \<Rightarrow> string \<Rightarrow> uuid \<Rightarrow> store \<Rightarrow> (string, store) res" where
  "insert_eligibility_event eid a previous new cause command s =
     (if eid \<in> el_id ` set (eligibilities s) then Inl ''duplicate key value violates unique constraint''
      else Inr (s\<lparr>eligibilities := eligibilities s @
        [\<lparr>el_id = eid, el_activation = a, el_previous = previous, el_new = new, el_cause = cause,
          el_command = command, el_created = new\<rparr>]\<rparr>))"

text \<open>The check of \<open>REBUILD_PROJECTION\<close>: cardinality, then eligibility, then closures.\<close>

definition activation_consistency :: "uuid \<Rightarrow> store \<Rightarrow> (string, unit) res" where
  "activation_consistency inst s =
     (if list_ex (\<lambda>v. nv_instance v = inst \<and>
                      length (filter (\<lambda>a. ac_visit a = nv_id v) (activations s)) \<noteq> 1) (visits s)
      then Inl ''activation cardinality drift: every VISIT_ACTIVATION_V1 Visit must have exactly one activation''
      else if list_ex (\<lambda>a. ac_instance a = inst \<and> ac_kind a = DispatchIntent \<and>
                (ac_next a = None \<or>
                 list_ex (\<lambda>e. el_activation e = ac_id a \<and> el_new e \<le> el_previous e) (eligibilities s))) (activations s)
      then Inl (''dispatch intent eligibility drift: missing initial nextEligibleAt or '' @
                ''non-progressing eligibility fact'')
      else if list_ex (\<lambda>c. list_ex (\<lambda>a. ac_id a = cl_activation c \<and> ac_instance a = inst \<and>
                list_ex (\<lambda>v. nv_id v = ac_visit a \<and> nv_instance v \<noteq> inst) (visits s)) (activations s)) (closures s)
      then Inl ''activation closure drift: cross-instance activation linkage''
      else Inr ())"

section \<open>Errors, commands and answers\<close>

datatype wake_error =
    Wk_PrincipalNotFound
  | Wk_PrincipalDisabled
  | Wk_InstanceNotFound
  | Wk_DispatchIntentNotFound
  | Wk_SchedulerReadRoleRequired
  | Wk_InvalidCause string
  | Wk_IdempotencyConflict uuid string
  | Wk_CommandStillProcessing
  | Wk_InternalConsistency string
  | Wk_StorageError string

fun wake_error_to_string :: "library \<Rightarrow> wake_error \<Rightarrow> string" where
  "wake_error_to_string lib Wk_PrincipalNotFound = ''principal not found''"
| "wake_error_to_string lib Wk_PrincipalDisabled = ''principal is disabled''"
| "wake_error_to_string lib Wk_InstanceNotFound = ''workflow instance not found''"
| "wake_error_to_string lib Wk_DispatchIntentNotFound =
     ''no DISPATCH_INTENT activation for the given instance and node visit''"
| "wake_error_to_string lib Wk_SchedulerReadRoleRequired = ''caller must hold the GLOBAL_SCHEDULER_READ role''"
| "wake_error_to_string lib (Wk_InvalidCause d) = ''invalid wake cause: '' @ d"
| "wake_error_to_string lib (Wk_IdempotencyConflict c h) =
     ''idempotency key conflict: original_command_id='' @ show_uuid lib c @ '', original_request_hash='' @ h"
| "wake_error_to_string lib Wk_CommandStillProcessing = ''command is still processing''"
| "wake_error_to_string lib (Wk_InternalConsistency d) = ''internal consistency error: '' @ d"
| "wake_error_to_string lib (Wk_StorageError d) = ''storage error: '' @ d"

record wake_command =
  wc_principal :: uuid
  wc_key :: string
  wc_instance :: uuid
  wc_visit :: uuid
  wc_expected :: int
  wc_cause :: "string option"

record wake_applied =
  wp_instance :: uuid
  wp_visit :: uuid
  wp_version :: int
  wp_sequence :: int
  wp_next :: int
  wp_replayed :: bool

record wake_no_op =
  wn_instance :: uuid
  wn_visit :: uuid
  wn_reason :: string
  wn_replayed :: bool

datatype wake_outcome = Applied wake_applied | NoOp wake_no_op

text \<open>
  The fresh ids (receipt, audit, eligibility fact, event), the database clock, the RFC 3339 text of an
  instant and its parser (chrono), and the answer of COMMIT.
\<close>

record wake_env =
  we_lib :: library
  we_now :: int
  we_show_time :: "int \<Rightarrow> string"
  we_parse_time :: "string \<Rightarrow> int option"
  we_command :: uuid
  we_audit :: uuid
  we_fact :: uuid
  we_event :: uuid
  we_commit :: "string option"

definition parse_wake_applied :: "wake_env \<Rightarrow> json \<Rightarrow> wake_applied option" where
  "parse_wake_applied env body =
     (let m = struct_member [''workflowInstanceId'', ''nodeVisitId'', ''workflowStateVersion'', ''eventSequence'',
                             ''nextEligibleAt'', ''replayed''] body in
      Option.bind (Option.bind (m ''workflowInstanceId'') (read_uuid (we_lib env))) (\<lambda>i.
      Option.bind (Option.bind (m ''nodeVisitId'') (read_uuid (we_lib env))) (\<lambda>v.
      Option.bind (Option.bind (m ''workflowStateVersion'') read_i32) (\<lambda>n.
      Option.bind (Option.bind (m ''eventSequence'') read_i32) (\<lambda>q.
      Option.bind (Option.bind (Option.bind (m ''nextEligibleAt'') as_str) (we_parse_time env)) (\<lambda>t.
      Option.bind (read_flag (m ''replayed'')) (\<lambda>b.
        Some \<lparr>wp_instance = i, wp_visit = v, wp_version = n, wp_sequence = q, wp_next = t, wp_replayed = b\<rparr>)))))))"

definition parse_wake_no_op :: "wake_env \<Rightarrow> json \<Rightarrow> wake_no_op option" where
  "parse_wake_no_op env body =
     (let m = struct_member [''workflowInstanceId'', ''nodeVisitId'', ''reason'', ''replayed''] body in
      Option.bind (Option.bind (m ''workflowInstanceId'') (read_uuid (we_lib env))) (\<lambda>i.
      Option.bind (Option.bind (m ''nodeVisitId'') (read_uuid (we_lib env))) (\<lambda>v.
      Option.bind (Option.bind (m ''reason'') as_str) (\<lambda>r.
      Option.bind (read_flag (m ''replayed'')) (\<lambda>b.
        Some \<lparr>wn_instance = i, wn_visit = v, wn_reason = r, wn_replayed = b\<rparr>)))))"

section \<open>Receipts\<close>

datatype wake_acquire =
    Wake_Owned uuid
  | Wake_ReplaySuccess json
  | Wake_ReplayFailure json
  | Wake_Conflict uuid
  | Wake_Processing

definition wake_acquire ::
  "uuid \<Rightarrow> uuid \<Rightarrow> string \<Rightarrow> string \<Rightarrow> store \<Rightarrow> (wake_error, wake_acquire \<times> store) res" where
  "wake_acquire cid p key hash s =
     (case try_insert_receipt ''WAKE_DISPATCH_INTENT'' cid p key hash s of
        Inl _ \<Rightarrow> Inl (Wk_StorageError ''duplicate key value violates unique constraint'')
      | Inr (Some c, s') \<Rightarrow> Inr (Wake_Owned c, s')
      | Inr (None, s') \<Rightarrow>
          (case find_receipt p key s' of
             None \<Rightarrow> Inl (Wk_InternalConsistency ''receipt insert neither inserted nor found an existing row'')
           | Some r \<Rightarrow>
               if rc_hash r \<noteq> hash then Inr (Wake_Conflict (rc_command r), s')
               else (case (rc_response_status r, rc_response_body r) of
                       (Some st, Some body) \<Rightarrow>
                         Inr (if st = 200 then Wake_ReplaySuccess body else Wake_ReplayFailure body, s')
                     | _ \<Rightarrow> Inr (Wake_Processing, s'))))"

text \<open>The UPDATE has no condition on the receipt's status.\<close>

definition wake_complete :: "library \<Rightarrow> uuid \<Rightarrow> int \<Rightarrow> json \<Rightarrow> store \<Rightarrow> (wake_error, store) res" where
  "wake_complete lib cid status body s =
     andThen (map_sum Wk_StorageError id (json_digest lib body)) (\<lambda>d.
       Inr (s\<lparr>receipts := map (\<lambda>r. if rc_command r = cid
              then r\<lparr>rc_status := ''COMPLETED'', rc_response_status := Some status,
                     rc_response_body := Some body, rc_response_digest := Some d\<rparr>
              else r) (receipts s)\<rparr>))"

text \<open>\<open>deterministic_failure!\<close> completes the receipt and returns without a commit.\<close>

definition wake_failure :: "library \<Rightarrow> uuid \<Rightarrow> int \<Rightarrow> string \<Rightarrow> wake_error \<Rightarrow> store \<Rightarrow> wake_error" where
  "wake_failure lib cid status label err s =
     (case wake_complete lib cid status (JObject [(''error'', JString label)]) s of Inl e \<Rightarrow> e | Inr _ \<Rightarrow> err)"

section \<open>The wake\<close>

definition invalid_cause :: "string \<Rightarrow> bool" where
  "invalid_cause c \<longleftrightarrow> c = [] \<or> length c > 64 \<or> list_ex is_control (utf8_chars c)"

text \<open>Steps 2 to 5: the instance row and the activation, or the failure.\<close>

definition wake_checked ::
  "library \<Rightarrow> uuid \<Rightarrow> wake_command \<Rightarrow> store \<Rightarrow> (wake_error, instance_row \<times> wake_activation) res" where
  "wake_checked lib cid cmd s =
     andThen (case wc_cause cmd of
         Some c \<Rightarrow> guard_r (\<not> invalid_cause c) (wake_failure lib cid 422 ''invalid_cause'' (Wk_InvalidCause c) s)
       | None \<Rightarrow> Inr ()) (\<lambda>_.
     andThen (case principal_enabled (wc_principal cmd) s of
         None \<Rightarrow> Inl (wake_failure lib cid 404 ''principal_not_found'' Wk_PrincipalNotFound s)
       | Some False \<Rightarrow> Inl (wake_failure lib cid 403 ''principal_disabled'' Wk_PrincipalDisabled s)
       | Some True \<Rightarrow> Inr ()) (\<lambda>_.
     andThen (ok_or (wake_failure lib cid 404 ''instance_not_found'' Wk_InstanceNotFound s)
                (find_instance_row (wc_instance cmd) s)) (\<lambda>w.
     andThen (ok_or (wake_failure lib cid 404 ''dispatch_intent_not_found'' Wk_DispatchIntentNotFound s)
                (find_dispatch_activation (wc_instance cmd) (wc_visit cmd) s)) (\<lambda>a. Inr (w, a)))))"

definition no_op_reason :: "int \<Rightarrow> wake_command \<Rightarrow> instance_row \<Rightarrow> wake_activation \<Rightarrow> string option" where
  "no_op_reason now cmd w a =
     (if wi_cancelled w \<or> wi_archived w then Some ''INSTANCE_CLOSED''
      else if wa_closed a \<noteq> None then Some ''ACTIVATION_CLOSED''
      else if wi_current_visit w \<noteq> Some (wc_visit cmd) then Some ''VISIT_NOT_CURRENT''
      else if wc_expected cmd \<noteq> wi_state_version w then Some ''VERSION_MISMATCH''
      else case wa_next a of
        Some current \<Rightarrow> if current \<le> now then Some ''ALREADY_DUE'' else None
      | None \<Rightarrow> Some ''ACTIVATION_CLOSED'')"

definition no_op_body :: "library \<Rightarrow> wake_command \<Rightarrow> string \<Rightarrow> json" where
  "no_op_body lib cmd reason =
     JObject [(''nodeVisitId'', JString (show_uuid lib (wc_visit cmd))), (''reason'', JString reason),
              (''wakeApplied'', JBool False), (''workflowInstanceId'', JString (show_uuid lib (wc_instance cmd)))]"

definition wake_skipped ::
  "wake_env \<Rightarrow> uuid \<Rightarrow> wake_command \<Rightarrow> string \<Rightarrow> string \<Rightarrow> store \<Rightarrow> (wake_error, wake_outcome \<times> store) res" where
  "wake_skipped env cid cmd hash reason s =
     andThen (map_sum Wk_StorageError id (attempt_audit_row (we_audit env) cid (wc_principal cmd) (wc_key cmd)
                ''WAKE_NO_OP'' (Some reason) hash None s)) (\<lambda>s1.
     andThen (wake_complete (we_lib env) cid 200 (no_op_body (we_lib env) cmd reason) s1) (\<lambda>s2.
       Inr (NoOp \<lparr>wn_instance = wc_instance cmd, wn_visit = wc_visit cmd, wn_reason = reason, wn_replayed = False\<rparr>, s2)))"

definition applied_body :: "wake_env \<Rightarrow> wake_applied \<Rightarrow> json" where
  "applied_body env r =
     JObject [(''eventSequence'', json_int (wp_sequence r)), (''nextEligibleAt'', JString (we_show_time env (wp_next r))),
              (''nodeVisitId'', JString (show_uuid (we_lib env) (wp_visit r))), (''wakeApplied'', JBool True),
              (''workflowInstanceId'', JString (show_uuid (we_lib env) (wp_instance r))),
              (''workflowStateVersion'', json_int (wp_version r))]"

definition wake_event_data :: "wake_env \<Rightarrow> uuid \<Rightarrow> uuid \<Rightarrow> int \<Rightarrow> json" where
  "wake_event_data env a visit previous =
     JObject [(''activation_id'', JString (show_uuid (we_lib env) a)), (''cause_class'', JString ''WAKE''),
              (''new_next_eligible_at'', JString (we_show_time env (we_now env))),
              (''node_visit_id'', JString (show_uuid (we_lib env) visit)),
              (''previous_next_eligible_at'', JString (we_show_time env previous))]"

definition wake_written ::
  "wake_env \<Rightarrow> uuid \<Rightarrow> wake_command \<Rightarrow> instance_row \<Rightarrow> wake_activation \<Rightarrow> store \<Rightarrow> (wake_error, wake_outcome \<times> store) res" where
  "wake_written env cid cmd w a s =
     (let lib = we_lib env; now = we_now env; inst = wc_instance cmd; visit = wc_visit cmd;
          old = wi_state_version w; new = old + 1;
          result = \<lparr>wp_instance = inst, wp_visit = visit, wp_version = new, wp_sequence = new, wp_next = now,
                    wp_replayed = False\<rparr> in
      andThen (ok_or (Wk_InternalConsistency ''active DISPATCH_INTENT without a current nextEligibleAt'') (wa_next a))
        (\<lambda>previous.
      andThen (map_sum Wk_StorageError id
                (insert_eligibility_event (we_fact env) (wa_id a) previous now ''WAKE'' cid s)) (\<lambda>s1.
      andThen (guard_r (new < 2 ^ 31) (Wk_InternalConsistency ''workflow state version overflow'')) (\<lambda>_.
      andThen (update_at_version (Wk_InternalConsistency ''wake projection update affected an unexpected row count'')
                 inst old (\<lambda>x. x\<lparr>wi_state_version := new\<rparr>) s1) (\<lambda>s2.
      andThen (map_sum Wk_StorageError id (json_digest lib (wake_event_data env (wa_id a) visit previous))) (\<lambda>dig.
      andThen (map_sum (\<lambda>_. Wk_StorageError ''duplicate key value violates unique constraint'') id (append_event
                 \<lparr>ev_id = we_event env, ev_instance = inst, ev_sequence = new, ev_command = cid,
                  ev_type = ''WAKE_DISPATCH_INTENT'', ev_effect = None, ev_source_visit = Some visit,
                  ev_target_visit = None, ev_context = None, ev_submission = None,
                  ev_data = wake_event_data env (wa_id a) visit previous, ev_digest = dig,
                  ev_actor = wc_principal cmd, ev_from = None, ev_to = None, ev_old = old, ev_new = new\<rparr> s2)) (\<lambda>s3.
      andThen (wake_complete lib cid 200 (applied_body env result) s3) (\<lambda>s4. Inr (Applied result, s4)))))))))"

definition wake_replay :: "wake_env \<Rightarrow> wake_acquire \<Rightarrow> (wake_error, wake_outcome) res" where
  "wake_replay env r =
     (let bad = Wk_InternalConsistency ''invalid stored result'' in
      case r of
        Wake_ReplaySuccess body \<Rightarrow>
          andThen (ok_or bad (parse_wake_applied env body)) (\<lambda>x. Inr (Applied (x\<lparr>wp_replayed := True\<rparr>)))
      | Wake_ReplayFailure body \<Rightarrow>
          andThen (ok_or bad (parse_wake_no_op env body)) (\<lambda>x. Inr (NoOp (x\<lparr>wn_replayed := True\<rparr>)))
      | _ \<Rightarrow> Inl bad)"

definition wake_dispatch_intent ::
  "wake_env \<Rightarrow> wake_command \<Rightarrow> string \<Rightarrow> store \<Rightarrow> (wake_error, wake_outcome) res \<times> store" where
  "wake_dispatch_intent env cmd hash s =
     (let finish_wake = finish Wk_StorageError (we_commit env) in
      case wake_acquire (we_command env) (wc_principal cmd) (wc_key cmd) hash s of
        Inl e \<Rightarrow> (Inl e, s)
      | Inr (Wake_Conflict cid, s1) \<Rightarrow>
          finish_wake (Inl (Wk_IdempotencyConflict cid [])) s
            (case attempt_audit_row (we_audit env) cid (wc_principal cmd) (wc_key cmd) ''IDEMPOTENCY_CONFLICT''
                    (Some ''request hash mismatch'') hash None s1 of
               Inl _ \<Rightarrow> s1 | Inr s2 \<Rightarrow> s2)
      | Inr (Wake_Processing, s1) \<Rightarrow> finish_wake (Inl Wk_CommandStillProcessing) s s1
      | Inr (Wake_Owned cid, s1) \<Rightarrow>
          (case andThen (wake_checked (we_lib env) cid cmd s1) (\<lambda>(w, a).
                  case no_op_reason (we_now env) cmd w a of
                    Some reason \<Rightarrow> wake_skipped env cid cmd hash reason s1
                  | None \<Rightarrow> wake_written env cid cmd w a s1) of
             Inl e \<Rightarrow> (Inl e, s)
           | Inr (r, s2) \<Rightarrow> finish_wake (Inr r) s s2)
      | Inr (replay, s1) \<Rightarrow> finish_wake (wake_replay env replay) s s1)"

end
