(* ===== verification/Lifecycle.thy ===== *)
theory Lifecycle
  imports Command_Receipts
begin

text \<open>
  Cancelling and archiving an instance (\<open>cancel_transaction.rs\<close>, \<open>archive_transaction.rs\<close> and their
  \<open>identity_state.rs\<close>): one transaction each, from the receipt to the commit.  Every failure rolls the
  transaction back, except the denial of a disabled caller, which is audited and committed.
\<close>

section \<open>Errors\<close>

datatype cancel_error =
    Ca_PrincipalNotFound
  | Ca_PrincipalDisabled
  | Ca_InstanceNotFound
  | Ca_CurrentVisitNotFound
  | Ca_NotDomainOwner
  | Ca_SourceNodeTerminal
  | Ca_AlreadyCancelled
  | Ca_InstanceArchived
  | Ca_WorkflowStateVersionConflict int int
  | Ca_InvalidReason string
  | Ca_InternalConsistency string
  | Ca_IdempotencyConflict uuid string
  | Ca_CommandStillProcessing
  | Ca_StorageError string

fun cancel_error_to_string :: "library \<Rightarrow> cancel_error \<Rightarrow> string" where
  "cancel_error_to_string lib Ca_PrincipalNotFound = ''principal not found''"
| "cancel_error_to_string lib Ca_PrincipalDisabled = ''principal is disabled''"
| "cancel_error_to_string lib Ca_InstanceNotFound = ''workflow instance not found''"
| "cancel_error_to_string lib Ca_CurrentVisitNotFound = ''current node visit not found''"
| "cancel_error_to_string lib Ca_NotDomainOwner = ''caller is not a domain owner''"
| "cancel_error_to_string lib Ca_SourceNodeTerminal = ''instance source node is TERMINAL''"
| "cancel_error_to_string lib Ca_AlreadyCancelled = ''instance is already cancelled''"
| "cancel_error_to_string lib Ca_InstanceArchived = ''instance is archived''"
| "cancel_error_to_string lib (Ca_WorkflowStateVersionConflict ex ac) =
     ''workflow state version conflict: expected='' @ show_int ex @ '', actual='' @ show_int ac"
| "cancel_error_to_string lib (Ca_InvalidReason d) = ''invalid reason: '' @ d"
| "cancel_error_to_string lib (Ca_InternalConsistency d) = ''internal consistency error: '' @ d"
| "cancel_error_to_string lib (Ca_IdempotencyConflict c h) =
     ''idempotency conflict: original command_id='' @ show_uuid lib c @ '', request_hash='' @ h"
| "cancel_error_to_string lib Ca_CommandStillProcessing = ''command with this idempotency key is still processing''"
| "cancel_error_to_string lib (Ca_StorageError d) = ''storage error: '' @ d"

datatype archive_error =
    Ar_PrincipalNotFound
  | Ar_PrincipalDisabled
  | Ar_InstanceNotFound
  | Ar_NotDomainOwner
  | Ar_InstanceNotTerminal
  | Ar_AlreadyArchived
  | Ar_ActiveActivationExists
  | Ar_WorkflowStateVersionConflict int int
  | Ar_InvalidReason string
  | Ar_InternalConsistency string
  | Ar_IdempotencyConflict uuid string
  | Ar_CommandStillProcessing
  | Ar_StorageError string

fun archive_error_to_string :: "library \<Rightarrow> archive_error \<Rightarrow> string" where
  "archive_error_to_string lib Ar_PrincipalNotFound = ''principal not found''"
| "archive_error_to_string lib Ar_PrincipalDisabled = ''principal is disabled''"
| "archive_error_to_string lib Ar_InstanceNotFound = ''workflow instance not found''"
| "archive_error_to_string lib Ar_NotDomainOwner = ''caller is not a domain owner''"
| "archive_error_to_string lib Ar_InstanceNotTerminal = ''instance is not in a terminal state''"
| "archive_error_to_string lib Ar_AlreadyArchived = ''instance is already archived''"
| "archive_error_to_string lib Ar_ActiveActivationExists =
     ''instance has an active canonical activation and cannot be archived''"
| "archive_error_to_string lib (Ar_WorkflowStateVersionConflict ex ac) =
     ''workflow state version conflict: expected='' @ show_int ex @ '', actual='' @ show_int ac"
| "archive_error_to_string lib (Ar_InvalidReason d) = ''invalid reason: '' @ d"
| "archive_error_to_string lib (Ar_InternalConsistency d) = ''internal consistency error: '' @ d"
| "archive_error_to_string lib (Ar_IdempotencyConflict c h) =
     ''idempotency conflict: original command_id='' @ show_uuid lib c @ '', request_hash='' @ h"
| "archive_error_to_string lib Ar_CommandStillProcessing = ''command with this idempotency key is still processing''"
| "archive_error_to_string lib (Ar_StorageError d) = ''storage error: '' @ d"

section \<open>Commands and answers\<close>

record lifecycle_command =
  lc_principal :: uuid
  lc_key :: string
  lc_instance :: uuid
  lc_expected :: int
  lc_reason :: string

text \<open>The fresh ids of one command (receipt, event, audit, outbox row), the clock, and the answer of COMMIT.\<close>

record lifecycle_env =
  le_lib :: library
  le_now :: int
  le_command :: uuid
  le_event :: uuid
  le_audit :: uuid
  le_row :: uuid
  le_commit :: "string option"

record lifecycle_result =
  lr_instance :: uuid
  lr_version :: int
  lr_sequence :: int
  lr_replayed :: bool

definition lifecycle_body :: "library \<Rightarrow> lifecycle_result \<Rightarrow> json" where
  "lifecycle_body lib r =
     JObject [(''event_sequence'', json_int (lr_sequence r)), (''replayed'', JBool (lr_replayed r)),
              (''workflow_instance_id'', JString (show_uuid lib (lr_instance r))),
              (''workflow_state_version'', json_int (lr_version r))]"

definition parse_lifecycle :: "library \<Rightarrow> json \<Rightarrow> lifecycle_result option" where
  "parse_lifecycle lib body =
     (let m = struct_member [''workflow_instance_id'', ''workflow_state_version'', ''event_sequence'', ''replayed''] body in
      Option.bind (Option.bind (m ''workflow_instance_id'') (read_uuid lib)) (\<lambda>i.
      Option.bind (Option.bind (m ''workflow_state_version'') read_i32) (\<lambda>v.
      Option.bind (Option.bind (m ''event_sequence'') read_i32) (\<lambda>q.
      Option.bind (read_flag (m ''replayed'')) (\<lambda>b.
        Some \<lparr>lr_instance = i, lr_version = v, lr_sequence = q, lr_replayed = b\<rparr>)))))"

section \<open>The reason\<close>

definition validate_reason :: "(string \<Rightarrow> 'e) \<Rightarrow> string \<Rightarrow> ('e, unit) res" where
  "validate_reason invalid reason =
     (let trimmed = trim reason in
      if trimmed = [] then Inl (invalid ''reason must not be empty'')
      else if length trimmed > 2000 then Inl (invalid ''reason must not exceed 2000 characters'')
      else if list_ex is_control (utf8_chars trimmed) then Inl (invalid ''reason must not contain control characters'')
      else Inr ())"

text \<open>
  The untrimmed reason goes into a \<open>VARCHAR(2000)\<close> column: longer text fails, unless only spaces are cut off.
\<close>

definition varchar :: "nat \<Rightarrow> string \<Rightarrow> (string, string) res" where
  "varchar n t =
     (let cs = utf8_chars t in
      if list_all (\<lambda>c. c = '' '') (drop n cs) then Inr (concat (take n cs))
      else Inl ''value too long for type character varying(2000)'')"

section \<open>Authorization\<close>

definition governance_role :: "uuid \<Rightarrow> uuid \<Rightarrow> store \<Rightarrow> bool" where
  "governance_role d p s \<longleftrightarrow>
     list_ex (\<lambda>b. rb_domain b = d \<and> rb_principal b = p \<and> rb_role b = ''DOMAIN_OWNER'' \<and> rb_enabled b) (role_bindings s) \<or>
     list_ex (\<lambda>g. gr_principal g = p \<and> gr_role g = ''GLOBAL_WORKFLOW_COORDINATOR'' \<and> gr_enabled g \<and>
                  list_ex (\<lambda>r. pr_id r = gr_principal g \<and> pr_enabled r) (principals s)) (global_roles s)"

definition actor_enabled :: "bool option \<Rightarrow> bool" where
  "actor_enabled e \<longleftrightarrow> e = Some True"

definition cancel_authorize :: "uuid \<Rightarrow> uuid \<Rightarrow> uuid \<Rightarrow> store \<Rightarrow> (cancel_error, unit) res" where
  "cancel_authorize d actor inst s =
     guard_r (governance_role d actor s \<or> cleanup_authorized inst actor s) Ca_NotDomainOwner"

definition archive_authorize :: "uuid \<Rightarrow> uuid \<Rightarrow> store \<Rightarrow> (archive_error, unit) res" where
  "archive_authorize d actor s = guard_r (governance_role d actor s) Ar_NotDomainOwner"

section \<open>State\<close>

definition cancel_lifecycle :: "bool \<Rightarrow> string option \<Rightarrow> bool \<Rightarrow> (cancel_error, unit) res" where
  "cancel_lifecycle cancelled ntype arch =
     (if cancelled then Inl Ca_AlreadyCancelled
      else if ntype = Some ''TERMINAL'' then Inl Ca_SourceNodeTerminal
      else if arch then Inl Ca_InstanceArchived
      else Inr ())"

definition archive_lifecycle :: "bool \<Rightarrow> string option \<Rightarrow> bool \<Rightarrow> (archive_error, unit) res" where
  "archive_lifecycle cancelled ntype arch =
     (if \<not> (cancelled \<or> ntype = Some ''TERMINAL'') then Inl Ar_InstanceNotTerminal
      else if arch then Inl Ar_AlreadyArchived
      else Inr ())"

text \<open>An instance without a current visit has no open activation at all.\<close>

definition dangling_has_no_runtime_fact :: "uuid \<Rightarrow> uuid option \<Rightarrow> store \<Rightarrow> (cancel_error, unit) res" where
  "dangling_has_no_runtime_fact inst visit s =
     guard_r (\<not> (visit = None \<and> list_ex (\<lambda>a. ac_instance a = inst \<and> active s a) (activations s)))
       (Ca_InternalConsistency (''dangling instance has an open runtime fact '' @ [CHR 0xE2, CHR 0x80, CHR 0x94] @
          '' fail-closed, cancel refused''))"

definition activation_visit :: "int \<Rightarrow> uuid option \<Rightarrow> uuid option" where
  "activation_visit model visit = (if model = 3 then visit else None)"

definition activation_closable :: "bool \<Rightarrow> (cancel_error, unit) res" where
  "activation_closable closed =
     guard_r closed (Ca_InternalConsistency ''VISIT_ACTIVATION_V1 current visit has no active activation to close'')"

text \<open>Under VISIT_ACTIVATION_V1 an instance with an active activation is not archived.\<close>

definition activation_state :: "uuid \<Rightarrow> store \<Rightarrow> (archive_error, unit) res" where
  "activation_state inst s =
     andThen (map_sum Ar_StorageError id (instance_semantic_model inst s)) (\<lambda>model.
       guard_r (\<not> (model = 3 \<and> (case Option.bind (find_instance_row inst s) wi_current_visit of
                                   None \<Rightarrow> False | Some v \<Rightarrow> visit_has_active_activation v s)))
         Ar_ActiveActivationExists)"

text \<open>The read-side evaluations run the same predicates without a command.\<close>

definition evaluate_cancel :: "uuid \<Rightarrow> uuid \<Rightarrow> store \<Rightarrow> (cancel_error, unit) res" where
  "evaluate_cancel actor inst s =
     andThen (ok_or Ca_InstanceNotFound (find_instance_row inst s)) (\<lambda>w.
     andThen (cancel_authorize (wi_domain w) actor inst s) (\<lambda>_.
     andThen (guard_r (actor_enabled (principal_enabled actor s)) Ca_PrincipalDisabled) (\<lambda>_.
     andThen (cancel_lifecycle (wi_cancelled w) (current_node_type w s) (wi_archived w)) (\<lambda>_.
     andThen (dangling_has_no_runtime_fact inst (wi_current_visit w) s) (\<lambda>_.
     andThen (map_sum Ca_StorageError id (instance_semantic_model inst s)) (\<lambda>model.
       case activation_visit model (wi_current_visit w) of
         None \<Rightarrow> Inr ()
       | Some v \<Rightarrow> activation_closable (validate_current_activation inst v s)))))))"

definition evaluate_archive :: "uuid \<Rightarrow> uuid \<Rightarrow> store \<Rightarrow> (archive_error, unit) res" where
  "evaluate_archive actor inst s =
     andThen (ok_or Ar_InstanceNotFound (find_instance_row inst s)) (\<lambda>w.
     andThen (archive_authorize (wi_domain w) actor s) (\<lambda>_.
     andThen (guard_r (actor_enabled (principal_enabled actor s)) Ar_PrincipalDisabled) (\<lambda>_.
     andThen (archive_lifecycle (wi_cancelled w) (current_node_type w s) (wi_archived w)) (\<lambda>_.
       activation_state inst s))))"

section \<open>Open cases end with the instance\<close>

definition void_open_cases :: "int \<Rightarrow> uuid \<Rightarrow> uuid \<Rightarrow> uuid \<Rightarrow> string \<Rightarrow> store \<Rightarrow> store" where
  "void_open_cases now inst actor command reason s =
     (let s1 = retire_intents inst command reason s
      in s1\<lparr>assistances := map (\<lambda>a. if as_instance a = inst \<and> is_open a
              then a\<lparr>as_status := ''VOIDED'',
                     as_void := Some \<lparr>cd_by = actor, cd_reason = reason, cd_command = command, cd_at = now\<rparr>\<rparr>
              else a) (assistances s1)\<rparr>)"

section \<open>Cancel\<close>

definition cancel_acquire ::
  "uuid \<Rightarrow> uuid \<Rightarrow> string \<Rightarrow> string \<Rightarrow> store \<Rightarrow> (cancel_error, acquire_result \<times> store) res" where
  "cancel_acquire = acquire_by Ca_StorageError (Ca_InternalConsistency ''receipt disappeared'')
     (Ca_InternalConsistency ''completed receipt has no status'') ''CANCEL_WORKFLOW_INSTANCE''"

definition cancel_complete :: "library \<Rightarrow> uuid \<Rightarrow> int \<Rightarrow> json \<Rightarrow> store \<Rightarrow> (cancel_error, store) res" where
  "cancel_complete = complete_by Ca_StorageError
     (Ca_InternalConsistency ''receipt completion affected an unexpected row count'')"

text \<open>Steps 2 to 5: the reason, the locked row, the expected version (0 is no expectation) and the role.\<close>

definition cancel_accepted :: "lifecycle_command \<Rightarrow> store \<Rightarrow> (cancel_error, instance_row) res" where
  "cancel_accepted cmd s =
     andThen (validate_reason Ca_InvalidReason (lc_reason cmd)) (\<lambda>_.
     andThen (ok_or Ca_InstanceNotFound (find_instance_row (lc_instance cmd) s)) (\<lambda>w.
     andThen (guard_r (\<not> (lc_expected cmd \<noteq> 0 \<and> lc_expected cmd \<noteq> wi_state_version w))
                (Ca_WorkflowStateVersionConflict (lc_expected cmd) (wi_state_version w))) (\<lambda>_.
     andThen (cancel_authorize (wi_domain w) (lc_principal cmd) (lc_instance cmd) s) (\<lambda>_. Inr w))))"

definition denial_details :: "library \<Rightarrow> lifecycle_command \<Rightarrow> instance_row \<Rightarrow> (string \<times> json) list" where
  "denial_details lib cmd w =
     [(''checkObject'', JString ''actor''), (''checkedPrincipalId'', JString (show_uuid lib (lc_principal cmd))),
      (''domainId'', JString (show_uuid lib (wi_domain w))),
      (''workflowInstanceId'', JString (show_uuid lib (lc_instance cmd)))]"

definition disabled_body :: json where
  "disabled_body = JObject [(''error'', JString ''principal_disabled'')]"

definition cancel_denied ::
  "lifecycle_env \<Rightarrow> lifecycle_command \<Rightarrow> uuid \<Rightarrow> instance_row \<Rightarrow> store \<Rightarrow> (cancel_error, store) res" where
  "cancel_denied env cmd cid w s =
     andThen (map_sum Ca_StorageError id (audit_denial (show_uuid (le_lib env)) (le_audit env) cid
                ''principal_disabled'' (denial_details (le_lib env) cmd w) s)) (\<lambda>s1.
       map_sum (\<lambda>e. Ca_StorageError (cancel_error_to_string (le_lib env) e)) id
         (cancel_complete (le_lib env) cid 403 disabled_body s1))"

definition cancel_closed ::
  "lifecycle_env \<Rightarrow> uuid \<Rightarrow> uuid \<Rightarrow> uuid option \<Rightarrow> store \<Rightarrow> (cancel_error, store) res" where
  "cancel_closed env cid inst visit s =
     (case visit of
        None \<Rightarrow> Inr s
      | Some v \<Rightarrow>
          (let (closed, s') = close_activation_by_visit_required (le_now env) inst v ''CANCELLED'' cid
                                (Some (le_event env)) s
           in andThen (activation_closable closed) (\<lambda>_. Inr s')))"

text \<open>The row, the event, the outbox row and the receipt of a cancellation (steps 7 to 10).\<close>

definition cancel_recorded ::
  "lifecycle_env \<Rightarrow> lifecycle_command \<Rightarrow> uuid \<Rightarrow> instance_row \<Rightarrow> string \<Rightarrow> store \<Rightarrow>
     (cancel_error, lifecycle_result \<times> store) res" where
  "cancel_recorded env cmd cid w nkey s =
     (let lib = le_lib env; inst = lc_instance cmd; old = wi_state_version w; new = as_i32 (old + 1);
          data = JObject [(''cancelled_by_principal_id'', JString (show_uuid lib (lc_principal cmd))),
                          (''cancelled_from_node_key'', JString nkey), (''reason'', JString (lc_reason cmd))];
          result = \<lparr>lr_instance = inst, lr_version = new, lr_sequence = new, lr_replayed = False\<rparr> in
      andThen (map_sum Ca_StorageError id (varchar 2000 (lc_reason cmd))) (\<lambda>stored.
      andThen (update_at_version (Ca_InternalConsistency ''cancel update affected an unexpected row count'') inst old
                 (\<lambda>x. x\<lparr>wi_cancelled := True,
                        wi_cancellation := Some \<lparr>lm_at = le_now env, lm_by = lc_principal cmd, lm_reason = stored\<rparr>,
                        wi_state_version := new\<rparr>) s) (\<lambda>s1.
      andThen (map_sum Ca_StorageError id (json_digest lib data)) (\<lambda>dig.
      andThen (map_sum (\<lambda>e. Ca_StorageError (event_failure e)) id (append_event
                 \<lparr>ev_id = le_event env, ev_instance = inst, ev_sequence = new, ev_command = cid,
                  ev_type = ''WORKFLOW_INSTANCE_CANCELLED'', ev_effect = None,
                  ev_source_visit = wi_current_visit w, ev_target_visit = None, ev_context = None,
                  ev_submission = None, ev_data = data, ev_digest = dig, ev_actor = lc_principal cmd,
                  ev_from = None, ev_to = None, ev_old = old, ev_new = new\<rparr> s1)) (\<lambda>s2.
      andThen (map_sum Ca_StorageError id (queue_forum_event (le_now env) (le_row env) inst
                 (''workflow_cancelled:'' @ show_uuid lib inst)
                 (JObject [(''eventType'', JString ''workflow_cancelled''), (''reason'', JString (lc_reason cmd)),
                           (''workflowInstanceId'', JString (show_uuid lib inst))]) s2)) (\<lambda>s3.
      andThen (cancel_complete lib cid 200 (lifecycle_body lib result) s3) (\<lambda>s4. Inr (result, s4))))))))"

definition cancel_writes ::
  "lifecycle_env \<Rightarrow> lifecycle_command \<Rightarrow> uuid \<Rightarrow> instance_row \<Rightarrow> store \<Rightarrow> (cancel_error, lifecycle_result \<times> store) res" where
  "cancel_writes env cmd cid w s =
     (let inst = lc_instance cmd in
      andThen (cancel_lifecycle (wi_cancelled w) (current_node_type w s) (wi_archived w)) (\<lambda>_.
      andThen (dangling_has_no_runtime_fact inst (wi_current_visit w) s) (\<lambda>_.
      let nkey = (case current_node w s of None \<Rightarrow> [] | Some n \<Rightarrow> nr_key n);
          s1 = void_open_cases (le_now env) inst (lc_principal cmd) cid ''INSTANCE_CANCELLED'' s in
      andThen (map_sum Ca_StorageError id (instance_semantic_model inst s1)) (\<lambda>model.
      andThen (cancel_closed env cid inst (activation_visit model (wi_current_visit w)) s1) (\<lambda>s2.
        cancel_recorded env cmd cid w nkey s2)))))"

definition cancel_error_from_body :: "json \<Rightarrow> cancel_error" where
  "cancel_error_from_body body =
     (let detail = (case as_str (jindex body ''detail'') of None \<Rightarrow> ''replayed failure'' | Some d \<Rightarrow> d);
          label = (case as_str (jindex body ''error'') of None \<Rightarrow> ''internal_consistency_error'' | Some l \<Rightarrow> l) in
      if label = ''principal_disabled'' then Ca_PrincipalDisabled
      else if label = ''not_domain_owner'' then Ca_NotDomainOwner
      else if label = ''already_cancelled'' then Ca_AlreadyCancelled
      else if label = ''source_node_terminal'' then Ca_SourceNodeTerminal
      else if label = ''instance_archived'' then Ca_InstanceArchived
      else if label = ''invalid_reason'' then Ca_InvalidReason detail
      else if label = ''workflow_state_version_conflict''
        then Ca_WorkflowStateVersionConflict (i32_or_zero body ''expected'') (i32_or_zero body ''actual'')
      else Ca_InternalConsistency detail)"

definition cancel_replay :: "library \<Rightarrow> int \<Rightarrow> json \<Rightarrow> (cancel_error, lifecycle_result) res" where
  "cancel_replay lib status body =
     (if status \<noteq> 200 then Inl (cancel_error_from_body body)
      else case parse_lifecycle lib body of
        None \<Rightarrow> Inl (Ca_InternalConsistency ''invalid stored result'')
      | Some r \<Rightarrow> Inr (r\<lparr>lr_replayed := True\<rparr>))"

text \<open>A failed audit of a conflict aborts the transaction, whose COMMIT then changes nothing.\<close>

definition cancel_workflow_instance ::
  "lifecycle_env \<Rightarrow> lifecycle_command \<Rightarrow> string \<Rightarrow> store \<Rightarrow> (cancel_error, lifecycle_result) res \<times> store" where
  "cancel_workflow_instance env cmd hash s =
     (let finish_cancel = finish Ca_StorageError (le_commit env) in
      case cancel_acquire (le_command env) (lc_principal cmd) (lc_key cmd) hash s of
        Inl e \<Rightarrow> (Inl e, s)
      | Inr (Acq_Replay _ status body, s1) \<Rightarrow> finish_cancel (cancel_replay (le_lib env) status body) s s1
      | Inr (Acq_Conflict cid, s1) \<Rightarrow>
          finish_cancel (Inl (Ca_IdempotencyConflict cid [])) s
            (case attempt_audit_row (le_audit env) cid (lc_principal cmd) (lc_key cmd) ''IDEMPOTENCY_CONFLICT''
                    (Some ''request hash mismatch'') hash (Some (JObject [])) s1 of
               Inl _ \<Rightarrow> s1 | Inr s2 \<Rightarrow> s2)
      | Inr (Acq_Processing _, s1) \<Rightarrow> finish_cancel (Inl Ca_CommandStillProcessing) s s1
      | Inr (Acq_Owned cid, s1) \<Rightarrow>
          (case cancel_accepted cmd s1 of
             Inl e \<Rightarrow> (Inl e, s)
           | Inr w \<Rightarrow>
               if \<not> actor_enabled (principal_enabled (lc_principal cmd) s1) then
                 (case cancel_denied env cmd cid w s1 of
                    Inl e \<Rightarrow> (Inl e, s)
                  | Inr s2 \<Rightarrow> finish_cancel (Inl Ca_PrincipalDisabled) s s2)
               else
                 (case cancel_writes env cmd cid w s1 of
                    Inl e \<Rightarrow> (Inl e, s)
                  | Inr (r, s2) \<Rightarrow> finish_cancel (Inr r) s s2)))"

section \<open>Archive\<close>

definition archive_acquire ::
  "uuid \<Rightarrow> uuid \<Rightarrow> string \<Rightarrow> string \<Rightarrow> store \<Rightarrow> (archive_error, acquire_result \<times> store) res" where
  "archive_acquire = acquire_by Ar_StorageError (Ar_InternalConsistency ''receipt disappeared'')
     (Ar_InternalConsistency ''completed receipt has no status'') ''ARCHIVE_WORKFLOW_INSTANCE''"

definition archive_complete :: "library \<Rightarrow> uuid \<Rightarrow> int \<Rightarrow> json \<Rightarrow> store \<Rightarrow> (archive_error, store) res" where
  "archive_complete = complete_by Ar_StorageError
     (Ar_InternalConsistency ''receipt completion affected an unexpected row count'')"

definition archive_accepted :: "lifecycle_command \<Rightarrow> store \<Rightarrow> (archive_error, instance_row) res" where
  "archive_accepted cmd s =
     andThen (validate_reason Ar_InvalidReason (lc_reason cmd)) (\<lambda>_.
     andThen (ok_or Ar_InstanceNotFound (find_instance_row (lc_instance cmd) s)) (\<lambda>w.
     andThen (guard_r (\<not> (lc_expected cmd \<noteq> 0 \<and> lc_expected cmd \<noteq> wi_state_version w))
                (Ar_WorkflowStateVersionConflict (lc_expected cmd) (wi_state_version w))) (\<lambda>_.
     andThen (archive_authorize (wi_domain w) (lc_principal cmd) s) (\<lambda>_. Inr w))))"

definition archive_denied ::
  "lifecycle_env \<Rightarrow> lifecycle_command \<Rightarrow> uuid \<Rightarrow> instance_row \<Rightarrow> store \<Rightarrow> (archive_error, store) res" where
  "archive_denied env cmd cid w s =
     andThen (map_sum Ar_StorageError id (audit_denial (show_uuid (le_lib env)) (le_audit env) cid
                ''principal_disabled'' (denial_details (le_lib env) cmd w) s)) (\<lambda>s1.
       map_sum (\<lambda>e. Ar_StorageError (archive_error_to_string (le_lib env) e)) id
         (archive_complete (le_lib env) cid 403 disabled_body s1))"

definition archive_recorded ::
  "lifecycle_env \<Rightarrow> lifecycle_command \<Rightarrow> uuid \<Rightarrow> instance_row \<Rightarrow> store \<Rightarrow> (archive_error, lifecycle_result \<times> store) res" where
  "archive_recorded env cmd cid w s =
     (let lib = le_lib env; inst = lc_instance cmd; old = wi_state_version w; new = as_i32 (old + 1);
          data = JObject [(''archived_by_principal_id'', JString (show_uuid lib (lc_principal cmd))),
                          (''reason'', JString (lc_reason cmd)), (''was_cancelled'', JBool (wi_cancelled w))];
          result = \<lparr>lr_instance = inst, lr_version = new, lr_sequence = new, lr_replayed = False\<rparr> in
      andThen (map_sum Ar_StorageError id (varchar 2000 (lc_reason cmd))) (\<lambda>stored.
      andThen (update_at_version (Ar_InternalConsistency ''archive update affected an unexpected row count'') inst old
                 (\<lambda>x. x\<lparr>wi_archival := Some \<lparr>lm_at = le_now env, lm_by = lc_principal cmd, lm_reason = stored\<rparr>,
                        wi_state_version := new\<rparr>) s) (\<lambda>s1.
      andThen (map_sum Ar_StorageError id (json_digest lib data)) (\<lambda>dig.
      andThen (map_sum (\<lambda>e. Ar_StorageError (event_failure e)) id (append_event
                 \<lparr>ev_id = le_event env, ev_instance = inst, ev_sequence = new, ev_command = cid,
                  ev_type = ''WORKFLOW_INSTANCE_ARCHIVED'', ev_effect = None, ev_source_visit = None,
                  ev_target_visit = None, ev_context = None, ev_submission = None, ev_data = data, ev_digest = dig,
                  ev_actor = lc_principal cmd, ev_from = None, ev_to = None, ev_old = old, ev_new = new\<rparr> s1)) (\<lambda>s2.
      andThen (map_sum Ar_StorageError id (queue_forum_event (le_now env) (le_row env) inst
                 (''workflow_archived:'' @ show_uuid lib inst)
                 (JObject [(''eventType'', JString ''workflow_archived''),
                           (''workflowInstanceId'', JString (show_uuid lib inst))]) s2)) (\<lambda>s3.
      andThen (archive_complete lib cid 200 (lifecycle_body lib result) s3) (\<lambda>s4. Inr (result, s4))))))))"

definition archive_writes ::
  "lifecycle_env \<Rightarrow> lifecycle_command \<Rightarrow> uuid \<Rightarrow> instance_row \<Rightarrow> store \<Rightarrow> (archive_error, lifecycle_result \<times> store) res" where
  "archive_writes env cmd cid w s =
     (let inst = lc_instance cmd in
      andThen (archive_lifecycle (wi_cancelled w) (current_node_type w s) (wi_archived w)) (\<lambda>_.
      andThen (activation_state inst s) (\<lambda>_.
        archive_recorded env cmd cid w
          (void_open_cases (le_now env) inst (lc_principal cmd) cid ''INSTANCE_ARCHIVED'' s))))"

definition archive_error_from_body :: "json \<Rightarrow> archive_error" where
  "archive_error_from_body body =
     (let detail = (case as_str (jindex body ''detail'') of None \<Rightarrow> ''replayed failure'' | Some d \<Rightarrow> d);
          label = (case as_str (jindex body ''error'') of None \<Rightarrow> ''internal_consistency_error'' | Some l \<Rightarrow> l) in
      if label = ''principal_disabled'' then Ar_PrincipalDisabled
      else if label = ''not_domain_owner'' then Ar_NotDomainOwner
      else if label = ''instance_not_terminal'' then Ar_InstanceNotTerminal
      else if label = ''already_archived'' then Ar_AlreadyArchived
      else if label = ''invalid_reason'' then Ar_InvalidReason detail
      else if label = ''workflow_state_version_conflict''
        then Ar_WorkflowStateVersionConflict (i32_or_zero body ''expected'') (i32_or_zero body ''actual'')
      else Ar_InternalConsistency detail)"

definition archive_replay :: "library \<Rightarrow> int \<Rightarrow> json \<Rightarrow> (archive_error, lifecycle_result) res" where
  "archive_replay lib status body =
     (if status \<noteq> 200 then Inl (archive_error_from_body body)
      else case parse_lifecycle lib body of
        None \<Rightarrow> Inl (Ar_InternalConsistency ''invalid stored result'')
      | Some r \<Rightarrow> Inr (r\<lparr>lr_replayed := True\<rparr>))"

definition archive_workflow_instance ::
  "lifecycle_env \<Rightarrow> lifecycle_command \<Rightarrow> string \<Rightarrow> store \<Rightarrow> (archive_error, lifecycle_result) res \<times> store" where
  "archive_workflow_instance env cmd hash s =
     (let finish_archive = finish Ar_StorageError (le_commit env) in
      case archive_acquire (le_command env) (lc_principal cmd) (lc_key cmd) hash s of
        Inl e \<Rightarrow> (Inl e, s)
      | Inr (Acq_Replay _ status body, s1) \<Rightarrow> finish_archive (archive_replay (le_lib env) status body) s s1
      | Inr (Acq_Conflict cid, s1) \<Rightarrow> finish_archive (Inl (Ar_IdempotencyConflict cid [])) s s1
      | Inr (Acq_Processing _, s1) \<Rightarrow> finish_archive (Inl Ar_CommandStillProcessing) s s1
      | Inr (Acq_Owned cid, s1) \<Rightarrow>
          (case archive_accepted cmd s1 of
             Inl e \<Rightarrow> (Inl e, s)
           | Inr w \<Rightarrow>
               if \<not> actor_enabled (principal_enabled (lc_principal cmd) s1) then
                 (case archive_denied env cmd cid w s1 of
                    Inl e \<Rightarrow> (Inl e, s)
                  | Inr s2 \<Rightarrow> finish_archive (Inl Ar_PrincipalDisabled) s s2)
               else
                 (case archive_writes env cmd cid w s1 of
                    Inl e \<Rightarrow> (Inl e, s)
                  | Inr (r, s2) \<Rightarrow> finish_archive (Inr r) s s2)))"

end
