(* ===== verification/Command_Facts.thy ===== *)
theory Command_Facts
  imports Command_Receipts Transition_Invariant
begin

text \<open>
  What the shared steps of the commands do to the store: the receipt claimed and completed, the update
  of one instance row, the outbox, and the keys of the tables.
\<close>

lemma map_sum_eq_Inr [result_simps]: "map_sum f id r = Inr x \<longleftrightarrow> r = Inr x"
  by (cases r) simp_all

section \<open>Receipts\<close>

definition processing_row :: "string \<Rightarrow> uuid \<Rightarrow> uuid \<Rightarrow> string \<Rightarrow> string \<Rightarrow> command_receipt" where
  "processing_row ctype cid p key hash =
     \<lparr>rc_command = cid, rc_principal = p, rc_key = key, rc_type = ctype, rc_hash = hash,
      rc_status = ''PROCESSING'', rc_response_status = None, rc_response_body = None, rc_response_digest = None\<rparr>"

definition answered_row :: "string \<Rightarrow> uuid \<Rightarrow> uuid \<Rightarrow> string \<Rightarrow> string \<Rightarrow> int \<Rightarrow> json \<Rightarrow> string \<Rightarrow> command_receipt" where
  "answered_row ctype cid p key hash status body d =
     (processing_row ctype cid p key hash)\<lparr>rc_status := ''COMPLETED'', rc_response_status := Some status,
        rc_response_body := Some body, rc_response_digest := Some d\<rparr>"

text \<open>A completed receipt with its answer.\<close>

definition receipt_done :: "command_receipt \<Rightarrow> bool" where
  "receipt_done r \<longleftrightarrow>
     rc_status r = ''COMPLETED'' \<and> rc_response_status r \<noteq> None \<and> rc_response_body r \<noteq> None \<and> rc_response_digest r \<noteq> None"

lemma answered_row_done [simp]: "receipt_done (answered_row ctype cid p key hash status body d)"
  by (simp add: receipt_done_def answered_row_def)

definition fresh_key :: "uuid \<Rightarrow> uuid \<Rightarrow> string \<Rightarrow> store \<Rightarrow> bool" where
  "fresh_key cid p key s \<longleftrightarrow> find_receipt p key s = None \<and> cid \<notin> rc_command ` set (receipts s)"

lemma try_insert_receipt_cases:
  "try_insert_receipt ctype cid p key hash s =
     (if find_receipt p key s \<noteq> None then Inr (None, s)
      else if \<not> fresh_key cid p key s then Inl (unique_violation ''receipt insert failed'')
      else Inr (Some cid, s\<lparr>receipts := receipts s @ [processing_row ctype cid p key hash]\<rparr>))"
  by (simp add: try_insert_receipt_def fresh_key_def processing_row_def)

lemma acquire_by_owned:
  assumes "acquire_by st g n ctype cid p key hash s = Inr (Acq_Owned c, s1)"
  shows "c = cid \<and> fresh_key cid p key s \<and> s1 = s\<lparr>receipts := receipts s @ [processing_row ctype cid p key hash]\<rparr>"
  using assms
  by (auto simp: acquire_by_def try_insert_receipt_cases result_simps split: option.splits if_splits sum.splits)

lemma acquire_by_taken:
  assumes "acquire_by st g n ctype cid p key hash s = Inr (x, s1)" and "\<And>c. x \<noteq> Acq_Owned c"
  shows "s1 = s"
  using assms
  by (auto simp: acquire_by_def try_insert_receipt_cases result_simps split: option.splits if_splits sum.splits)

lemma complete_new:
  assumes "cid \<notin> rc_command ` set rs" and "rc_command r = cid" and "rc_status r = ''PROCESSING''"
    and "receipts s = rs @ [r]"
  shows "complete_transition_receipt cid status body d s =
    s\<lparr>receipts := rs @ [r\<lparr>rc_status := ''COMPLETED'', rc_response_status := Some status,
        rc_response_body := Some body, rc_response_digest := Some d\<rparr>]\<rparr>"
proof -
  have "map (\<lambda>r. if rc_command r = cid \<and> rc_status r = ''PROCESSING''
         then r\<lparr>rc_status := ''COMPLETED'', rc_response_status := Some status,
                rc_response_body := Some body, rc_response_digest := Some d\<rparr>
         else r) rs = rs"
    by (rule map_idI) (use assms(1) in force)
  with assms show ?thesis by (simp add: complete_transition_receipt_def)
qed

lemma complete_by_new:
  assumes "complete_by nd mc lib cid status body s = Inr s'" and "cid \<notin> rc_command ` set rs"
    and "receipts s = rs @ [processing_row ctype cid p key hash]"
  shows "\<exists>d. s' = s\<lparr>receipts := rs @ [answered_row ctype cid p key hash status body d]\<rparr>"
proof -
  from assms(1) obtain d where "s' = complete_transition_receipt cid status body d s"
    by (auto simp: complete_by_def result_simps split: if_splits)
  moreover have "complete_transition_receipt cid status body d s =
      s\<lparr>receipts := rs @ [answered_row ctype cid p key hash status body d]\<rparr>"
    unfolding answered_row_def by (rule complete_new [OF assms(2) _ _ assms(3)]) (simp_all add: processing_row_def)
  ultimately show ?thesis by blast
qed

lemma answered_row_wf:
  "store_wf s \<Longrightarrow> fresh_key cid p key s \<Longrightarrow>
     store_wf (s\<lparr>receipts := receipts s @ [answered_row ctype cid p key hash status body d]\<rparr>)"
  by (rule store_wf_receipt) (simp_all add: fresh_key_def answered_row_def processing_row_def)

section \<open>Audits\<close>

lemma attempt_audit_row_frame:
  "attempt_audit_row aid cid p key t r h d s = Inr s' \<Longrightarrow> \<exists>au. s' = s\<lparr>audits := audits s @ [au]\<rparr>"
  by (auto simp: attempt_audit_row_def split: if_splits)

lemma audit_denial_frame: "audit_denial sh aid cid c d s = Inr s' \<Longrightarrow> \<exists>au. s' = s\<lparr>audits := audits s @ [au]\<rparr>"
  by (auto simp: audit_denial_def split: list.splits if_splits)

text \<open>A command that ends without touching the instances: at most a receipt and audits are added.\<close>

definition only_answers :: "store \<Rightarrow> store \<Rightarrow> bool" where
  "only_answers s s' \<longleftrightarrow>
     (\<exists>rs au. s' = s\<lparr>receipts := receipts s @ rs, audits := audits s @ au\<rparr> \<and> (store_wf s \<longrightarrow> store_wf s') \<and>
        list_all receipt_done rs)"

lemma only_answers_refl: "only_answers s s"
  unfolding only_answers_def by (intro exI [of _ "[]"]) simp

lemma only_answers_audit: "only_answers s (s\<lparr>audits := audits s @ au\<rparr>)"
  unfolding only_answers_def by (intro exI [of _ "[]"] exI [of _ au]) simp

lemma only_answers_row:
  assumes "fresh_key cid p key s"
  shows "only_answers s (s\<lparr>receipts := receipts s @ [answered_row ctype cid p key hash status body d], audits := audits s @ au\<rparr>)"
  unfolding only_answers_def
  using answered_row_wf [OF _ assms, of ctype hash status body d] by (intro exI conjI) (auto simp: store_wf_other)

lemma finish_frame:
  assumes "finish st f r s0 s1 = (r', s')"
  shows "r' = r \<and> s' = s1 \<and> f = None \<or> (\<exists>m. r' = Inl (st m) \<and> s' = s0 \<and> f = Some m)"
  using assms by (auto simp: finish_def split: option.splits)

section \<open>The instance row\<close>

lemma find_instance_row: "find_instance_row i s = Some w \<Longrightarrow> w \<in> set (instances s) \<and> wi_id w = i"
  by (auto simp: find_instance_row_def find_Some_iff)

lemma update_at_version_frame:
  assumes "update_at_version err i old f s = Inr s'"
  shows "s' = s\<lparr>instances := map (\<lambda>w. if wi_id w = i \<and> wi_state_version w = old then f w else w) (instances s)\<rparr>"
  using assms by (simp add: update_at_version_def Let_def split: if_splits)

text \<open>With unique ids the row that was locked is the row that is written.\<close>

lemma update_row:
  assumes "distinct (map wi_id (instances s))" and "w \<in> set (instances s)" and "wi_id w = i"
  shows "map (\<lambda>x. if wi_id x = i \<and> wi_state_version x = wi_state_version w then f x else x) (instances s) =
    map (\<lambda>x. if wi_id x = i then f w else x) (instances s)"
proof (rule map_cong [OF refl])
  fix x assume "x \<in> set (instances s)"
  then have "x = w" if "wi_id x = i" using that assms distinct_map_eqD [of wi_id "instances s" x w] by simp
  then show "(if wi_id x = i \<and> wi_state_version x = wi_state_version w then f x else x) =
      (if wi_id x = i then f w else x)"
    by auto
qed

lemma event_versions: "append_event e s = Inr s' \<Longrightarrow> ev_old e = v \<Longrightarrow> ev_new e = as_i32 (v + 1) \<Longrightarrow> as_i32 (v + 1) = v + 1"
  by (simp add: append_event_def split: if_splits)

section \<open>Keys of the tables\<close>

lemma update_at_version_wf [wf_step]:
  assumes "update_at_version err i old f s = Inr s'" and "store_wf s" and "\<And>w. wi_id (f w) = wi_id w"
  shows "store_wf s'"
  using store_wf_instances [of "\<lambda>w. if wi_id w = i \<and> wi_state_version w = old then f w else w" s] assms(2,3)
  by (simp add: update_at_version_frame [OF assms(1)])

lemma complete_by_wf [wf_step]: "complete_by nd mc lib cid status body s = Inr s' \<Longrightarrow> store_wf s \<Longrightarrow> store_wf s'"
  by (auto simp: complete_by_def result_simps split: if_splits intro: store_wf_complete)

lemma queue_forum_event_wf [wf_step]: "queue_forum_event now oid i key p s = Inr s' \<Longrightarrow> store_wf s \<Longrightarrow> store_wf s'"
  by (drule queue_forum_event_frame) auto

lemma queue_wake_wf [wf_step]:
  "queue_owner_assistance_wake sh now oid i v c ow r s = Inr s' \<Longrightarrow> store_wf s \<Longrightarrow> store_wf s'"
  by (drule queue_wake_frame) auto

lemma processing_row_wf:
  "store_wf s \<Longrightarrow> fresh_key cid p key s \<Longrightarrow> store_wf (s\<lparr>receipts := receipts s @ [processing_row ctype cid p key hash]\<rparr>)"
  by (rule store_wf_receipt) (simp_all add: fresh_key_def processing_row_def)

end
