(* ===== verification/Lifecycle_Facts.thy ===== *)
theory Lifecycle_Facts
  imports Lifecycle Command_Facts
begin

text \<open>What a cancel and an archive write, and how each can end.\<close>

section \<open>The checks do not look at receipts\<close>

lemma receipts_update_simps [simp]:
  "find_instance_row i (s\<lparr>receipts := rs\<rparr>) = find_instance_row i s"
  "governance_role d p (s\<lparr>receipts := rs\<rparr>) = governance_role d p s"
  "cleanup_authorized i p (s\<lparr>receipts := rs\<rparr>) = cleanup_authorized i p s"
  "principal_enabled p (s\<lparr>receipts := rs\<rparr>) = principal_enabled p s"
  "current_node w (s\<lparr>receipts := rs\<rparr>) = current_node w s"
  "current_node_type w (s\<lparr>receipts := rs\<rparr>) = current_node_type w s"
  "instance_semantic_model i (s\<lparr>receipts := rs\<rparr>) = instance_semantic_model i s"
  "current_active i v (s\<lparr>receipts := rs\<rparr>) = current_active i v s"
  "visit_has_active_activation v (s\<lparr>receipts := rs\<rparr>) = visit_has_active_activation v s"
  "has_open_assistance v (s\<lparr>receipts := rs\<rparr>) = has_open_assistance v s"
  by (simp_all add: find_instance_row_def governance_role_def cleanup_authorized_def enabled_agent_def
      principal_enabled_def find_principal_def current_node_def current_node_type_def visit_node_def find_node_def
      instance_semantic_model_def find_version_def current_active_def active_def visit_has_active_activation_def
      has_open_assistance_def)

lemma cancel_accepted_receipts [simp]: "cancel_accepted cmd (s\<lparr>receipts := rs\<rparr>) = cancel_accepted cmd s"
  by (simp add: cancel_accepted_def cancel_authorize_def)

lemma archive_accepted_receipts [simp]: "archive_accepted cmd (s\<lparr>receipts := rs\<rparr>) = archive_accepted cmd s"
  by (simp add: archive_accepted_def archive_authorize_def)

lemma dangling_receipts [simp]:
  "dangling_has_no_runtime_fact i v (s\<lparr>receipts := rs\<rparr>) = dangling_has_no_runtime_fact i v s"
  by (simp add: dangling_has_no_runtime_fact_def active_def)

lemma activation_state_receipts [simp]: "activation_state i (s\<lparr>receipts := rs\<rparr>) = activation_state i s"
  by (simp add: activation_state_def cong: option.case_cong)

section \<open>Voided cases\<close>

definition voided :: "int \<Rightarrow> uuid \<Rightarrow> uuid \<Rightarrow> uuid \<Rightarrow> string \<Rightarrow> assistance_row \<Rightarrow> assistance_row" where
  "voided now inst actor command reason a =
     (if as_instance a = inst \<and> is_open a
      then a\<lparr>as_status := ''VOIDED'',
             as_void := Some \<lparr>cd_by = actor, cd_reason = reason, cd_command = command, cd_at = now\<rparr>\<rparr>
      else a)"

lemma void_open_cases_eq:
  "void_open_cases now inst actor command reason s =
     s\<lparr>intents := intents (retire_intents inst command reason s),
       assistances := map (voided now inst actor command reason) (assistances s)\<rparr>"
  by (simp add: void_open_cases_def Let_def voided_def [abs_def] retire_intents_def update_intents_def)

lemma retire_intents_receipts: "intents (retire_intents i c r (s\<lparr>receipts := rs\<rparr>)) = intents (retire_intents i c r s)"
  by (simp add: retire_intents_def update_intents_def own_effect_def)

section \<open>Cancel\<close>

definition cancelled_row :: "lifecycle_env \<Rightarrow> lifecycle_command \<Rightarrow> string \<Rightarrow> instance_row \<Rightarrow> instance_row" where
  "cancelled_row env cmd stored w =
     w\<lparr>wi_cancelled := True,
       wi_cancellation := Some \<lparr>lm_at = le_now env, lm_by = lc_principal cmd, lm_reason = stored\<rparr>,
       wi_state_version := wi_state_version w + 1\<rparr>"

definition lifecycle_event ::
  "lifecycle_env \<Rightarrow> lifecycle_command \<Rightarrow> string \<Rightarrow> uuid option \<Rightarrow> instance_row \<Rightarrow> event_row \<Rightarrow> bool" where
  "lifecycle_event env cmd etype visit w e \<longleftrightarrow>
     ev_id e = le_event env \<and> ev_instance e = lc_instance cmd \<and> ev_command e = le_command env \<and>
     ev_type e = etype \<and> ev_effect e = None \<and> ev_source_visit e = visit \<and> ev_target_visit e = None \<and>
     ev_old e = wi_state_version w \<and> ev_new e = wi_state_version w + 1 \<and> ev_sequence e = ev_new e \<and>
     is_i32 (ev_new e) \<and> ev_actor e = lc_principal cmd"

definition lifecycle_answer :: "lifecycle_command \<Rightarrow> instance_row \<Rightarrow> lifecycle_result" where
  "lifecycle_answer cmd w =
     \<lparr>lr_instance = lc_instance cmd, lr_version = wi_state_version w + 1, lr_sequence = wi_state_version w + 1,
      lr_replayed = False\<rparr>"

lemma cancel_recorded_frame:
  assumes rec: "cancel_recorded env cmd cid w nkey s = Inr (r, s')" and cid: "cid = le_command env"
    and rs: "receipts s = rs @ [processing_row ctype cid p key hash]" "cid \<notin> rc_command ` set rs"
  shows "\<exists>stored e ob fb d. varchar 2000 (lc_reason cmd) = Inr stored \<and>
    lifecycle_event env cmd ''WORKFLOW_INSTANCE_CANCELLED'' (wi_current_visit w) w e \<and>
    append_event e s = Inr (s\<lparr>events := events s @ [e]\<rparr>) \<and> r = lifecycle_answer cmd w \<and>
    s' = s\<lparr>instances := map (\<lambda>x. if wi_id x = lc_instance cmd \<and> wi_state_version x = wi_state_version w
             then cancelled_row env cmd stored (x\<lparr>wi_state_version := wi_state_version w\<rparr>) else x) (instances s),
           events := events s @ [e], outbox := ob, forum_bindings := fb,
           receipts := rs @ [answered_row ctype cid p key hash 200 (lifecycle_body (le_lib env) r) d]\<rparr>"
proof -
  let ?new = "as_i32 (wi_state_version w + 1)"
  let ?mark = "\<lambda>stored. Some \<lparr>lm_at = le_now env, lm_by = lc_principal cmd, lm_reason = stored\<rparr>"
  let ?r = "\<lparr>lr_instance = lc_instance cmd, lr_version = ?new, lr_sequence = ?new, lr_replayed = False\<rparr>"
  let ?data = "JObject [(''cancelled_by_principal_id'', JString (show_uuid (le_lib env) (lc_principal cmd))),
                          (''cancelled_from_node_key'', JString nkey), (''reason'', JString (lc_reason cmd))]"
  let ?e = "\<lambda>dig. \<lparr>ev_id = le_event env, ev_instance = lc_instance cmd, ev_sequence = ?new, ev_command = cid,
                  ev_type = ''WORKFLOW_INSTANCE_CANCELLED'', ev_effect = None,
                  ev_source_visit = wi_current_visit w, ev_target_visit = None, ev_context = None,
                  ev_submission = None, ev_data = ?data, ev_digest = dig, ev_actor = lc_principal cmd,
                  ev_from = None, ev_to = None, ev_old = wi_state_version w, ev_new = ?new\<rparr>"
  from rec obtain stored s1 dig s2 s3 s4 q key' where st: "varchar 2000 (lc_reason cmd) = Inr stored"
    and u: "update_at_version (Ca_InternalConsistency ''cancel update affected an unexpected row count'') (lc_instance cmd)
             (wi_state_version w) (\<lambda>x. x\<lparr>wi_cancelled := True, wi_cancellation := ?mark stored, wi_state_version := ?new\<rparr>) s = Inr s1"
    and ev: "append_event (?e dig) s1 = Inr s2"
    and qf: "queue_forum_event (le_now env) (le_row env) (lc_instance cmd) key' q s2 = Inr s3"
    and c: "cancel_complete (le_lib env) cid 200 (lifecycle_body (le_lib env) ?r) s3 = Inr s4"
    and fin: "(Inr (?r, s4) :: (cancel_error, lifecycle_result \<times> store) res) = Inr (r, s')"
    unfolding cancel_recorded_def Let_def andThen_eq_Inr map_sum_eq_Inr
    by (elim exE conjE) (rule that, assumption+)
  define e where "e = ?e dig"
  have e: "ev_id e = le_event env \<and> ev_instance e = lc_instance cmd \<and> ev_command e = cid \<and>
       ev_type e = ''WORKFLOW_INSTANCE_CANCELLED'' \<and> ev_effect e = None \<and> ev_source_visit e = wi_current_visit w \<and>
       ev_target_visit e = None \<and> ev_old e = wi_state_version w \<and> ev_new e = ?new \<and> ev_sequence e = ?new \<and>
       ev_actor e = lc_principal cmd" by (simp add: e_def)
  note ev = ev [folded e_def]
  from fin have r: "r = ?r" and s4: "s4 = s'" by simp_all
  note c = c [folded r, unfolded s4]
  have new: "?new = wi_state_version w + 1" using event_versions [OF ev] e by simp
  have s1: "s1 = s\<lparr>instances := map (\<lambda>x. if wi_id x = lc_instance cmd \<and> wi_state_version x = wi_state_version w
      then x\<lparr>wi_cancelled := True, wi_cancellation := ?mark stored, wi_state_version := ?new\<rparr> else x) (instances s)\<rparr>"
    by (rule update_at_version_frame [OF u])
  have s2: "s2 = s1\<lparr>events := events s1 @ [e]\<rparr>" using append_event_frame [OF ev] by simp
  obtain ob fb where s3: "s3 = s2\<lparr>outbox := ob, forum_bindings := fb\<rparr>" using queue_forum_event_frame [OF qf] by blast
  have "receipts s3 = rs @ [processing_row ctype cid p key hash]" by (simp add: s3 s2 s1 rs)
  from complete_by_new [OF c [unfolded cancel_complete_def] rs(2) this] obtain d where
    s': "s' = s3\<lparr>receipts := rs @ [answered_row ctype cid p key hash 200 (lifecycle_body (le_lib env) r) d]\<rparr>" ..
  have app: "append_event e s = Inr (s\<lparr>events := events s @ [e]\<rparr>)"
    using ev by (auto simp: s1 append_event_def split: if_splits)
  have row: "(\<lambda>x. if wi_id x = lc_instance cmd \<and> wi_state_version x = wi_state_version w
      then x\<lparr>wi_cancelled := True, wi_cancellation := ?mark stored, wi_state_version := ?new\<rparr> else x) =
    (\<lambda>x. if wi_id x = lc_instance cmd \<and> wi_state_version x = wi_state_version w
             then cancelled_row env cmd stored (x\<lparr>wi_state_version := wi_state_version w\<rparr>) else x)"
    by (auto simp: cancelled_row_def new)
  have "lifecycle_event env cmd ''WORKFLOW_INSTANCE_CANCELLED'' (wi_current_visit w) w e"
    using e new cid as_i32_range [of "wi_state_version w + 1"] by (simp add: lifecycle_event_def)
  moreover have "r = lifecycle_answer cmd w" by (simp add: r lifecycle_answer_def new)
  ultimately show ?thesis
    using st app by (intro exI conjI) (assumption+, simp add: s' s3 s2 s1 row)
qed

text \<open>What a cancellation that reaches COMMIT has written.\<close>

definition closes_active :: "int \<Rightarrow> uuid \<Rightarrow> uuid option \<Rightarrow> store \<Rightarrow> closure_row list \<Rightarrow> bool" where
  "closes_active model inst visit s cl \<longleftrightarrow>
     cl_activation ` set cl =
       (case activation_visit model visit of None \<Rightarrow> {} | Some v \<Rightarrow> ac_id ` set (current_active inst v s))"

definition cancel_effect ::
  "lifecycle_env \<Rightarrow> lifecycle_command \<Rightarrow> string \<Rightarrow> instance_row \<Rightarrow> store \<Rightarrow> lifecycle_result \<Rightarrow> store \<Rightarrow> bool" where
  "cancel_effect env cmd hash w s r s' \<longleftrightarrow>
     r = lifecycle_answer cmd w \<and>
     (\<exists>stored e model cl ob fb d.
        varchar 2000 (lc_reason cmd) = Inr stored \<and>
        lifecycle_event env cmd ''WORKFLOW_INSTANCE_CANCELLED'' (wi_current_visit w) w e \<and>
        instance_semantic_model (lc_instance cmd) s = Inr model \<and>
        closes_active model (lc_instance cmd) (wi_current_visit w) s cl \<and>
        s' = s\<lparr>intents := intents (retire_intents (lc_instance cmd) (le_command env) ''INSTANCE_CANCELLED'' s),
               assistances := map (voided (le_now env) (lc_instance cmd) (lc_principal cmd) (le_command env)
                 ''INSTANCE_CANCELLED'') (assistances s),
               closures := closures s @ cl,
               instances := map (\<lambda>x. if wi_id x = lc_instance cmd then cancelled_row env cmd stored w else x) (instances s),
               events := events s @ [e], outbox := ob, forum_bindings := fb,
               receipts := receipts s @ [answered_row ''CANCEL_WORKFLOW_INSTANCE'' (le_command env) (lc_principal cmd)
                 (lc_key cmd) hash 200 (lifecycle_body (le_lib env) r) d]\<rparr>)"

lemma cancel_closed_frame:
  assumes "cancel_closed env cid inst visit s = Inr s'"
  shows "\<exists>cl. s' = s\<lparr>closures := closures s @ cl\<rparr> \<and>
    cl_activation ` set cl = (case visit of None \<Rightarrow> {} | Some v \<Rightarrow> ac_id ` set (current_active inst v s))"
proof (cases visit)
  case None
  with assms show ?thesis by (intro exI [of _ "[]"]) (simp add: cancel_closed_def)
next
  case (Some v)
  with assms have s': "s' = s\<lparr>closures := closures s @ map (\<lambda>a. \<lparr>cl_activation = ac_id a, cl_at = le_now env,
      cl_reason = ''CANCELLED'', cl_command = cid, cl_event = Some (le_event env)\<rparr>) (current_active inst v s)\<rparr>"
    by (auto simp: cancel_closed_def close_activation_by_visit_required_def close_activation_by_visit_def Let_def
        activation_closable_def result_simps split: if_splits)
  show ?thesis by (rule exI, rule conjI, rule s') (simp add: Some image_image)
qed

lemma cancel_closed_current:
  assumes "cancel_closed env cid inst visit s = Inr s'"
  shows "case visit of None \<Rightarrow> True | Some v \<Rightarrow> validate_current_activation inst v s"
  using assms
  by (auto simp: cancel_closed_def close_activation_by_visit_required_def activation_closable_def result_simps
      split: option.splits if_splits prod.splits)

text \<open>What a cancellation asks of the activations: none is dangling, and the current one is active.\<close>

definition cancel_closable :: "uuid \<Rightarrow> instance_row \<Rightarrow> store \<Rightarrow> bool" where
  "cancel_closable inst w s \<longleftrightarrow>
     dangling_has_no_runtime_fact inst (wi_current_visit w) s = Inr () \<and>
     (\<exists>model. instance_semantic_model inst s = Inr model \<and>
        (case activation_visit model (wi_current_visit w) of None \<Rightarrow> True
         | Some v \<Rightarrow> validate_current_activation inst v s))"

lemma cancel_closed_wf [wf_step]:
  assumes "cancel_closed env cid inst visit s = Inr s'" and "store_wf s" shows "store_wf s'"
proof (cases visit)
  case None
  with assms show ?thesis by (simp add: cancel_closed_def)
next
  case (Some v)
  with assms(1) have "s' = snd (close_activation_by_visit_required (le_now env) inst v ''CANCELLED'' cid (Some (le_event env)) s)"
    by (auto simp: cancel_closed_def result_simps split: prod.splits)
  with close_required_wf [OF assms(2)] show ?thesis by simp
qed

lemma cancel_recorded_wf [wf_step]:
  assumes "cancel_recorded env cmd cid w nkey s = Inr (r, s')" and "store_wf s" shows "store_wf s'"
  using assms unfolding cancel_recorded_def Let_def andThen_eq_Inr map_sum_eq_Inr cancel_complete_def
  by (auto dest!: wf_step append_event_wf)

lemma cancel_writes_wf:
  assumes "cancel_writes env cmd cid w s = Inr (r, s')" and "store_wf s" shows "store_wf s'"
  using assms unfolding cancel_writes_def Let_def andThen_eq_Inr map_sum_eq_Inr void_open_cases_eq
  by (auto dest!: wf_step)

lemma lifecycle_row:
  assumes "store_wf s" and "w \<in> set (instances s)" and "wi_id w = i"
  shows "map (\<lambda>x. if wi_id x = i \<and> wi_state_version x = wi_state_version w
           then f (x\<lparr>wi_state_version := wi_state_version w\<rparr>) else x) (instances s) =
         map (\<lambda>x. if wi_id x = i then f w else x) (instances s)"
  using update_row [OF _ assms(2,3), of "\<lambda>x. f (x\<lparr>wi_state_version := wi_state_version w\<rparr>)"] assms(1)
  by (simp add: store_wf_def)

lemma cancel_writes_effect:
  assumes wr: "cancel_writes env cmd cid w s1 = Inr (r, s')" and cid: "cid = le_command env"
    and w: "w \<in> set (instances s)" "wi_id w = lc_instance cmd" and wf: "store_wf s"
    and fresh: "fresh_key cid (lc_principal cmd) (lc_key cmd) s"
    and s1: "s1 = s\<lparr>receipts := receipts s @ [processing_row ''CANCEL_WORKFLOW_INSTANCE'' cid (lc_principal cmd) (lc_key cmd) hash]\<rparr>"
  shows "cancel_lifecycle (wi_cancelled w) (current_node_type w s) (wi_archived w) = Inr () \<and>
    cancel_closable (lc_instance cmd) w s \<and> cancel_effect env cmd hash w s r s'"
proof -
  let ?v = "s1\<lparr>intents := intents (retire_intents (lc_instance cmd) cid ''INSTANCE_CANCELLED'' s1),
       assistances := map (voided (le_now env) (lc_instance cmd) (lc_principal cmd) cid ''INSTANCE_CANCELLED'') (assistances s1)\<rparr>"
  from wr obtain model s2 nkey where life: "cancel_lifecycle (wi_cancelled w) (current_node_type w s) (wi_archived w) = Inr ()"
    and dang: "dangling_has_no_runtime_fact (lc_instance cmd) (wi_current_visit w) s = Inr ()"
    and m: "instance_semantic_model (lc_instance cmd) ?v = Inr model"
    and cl: "cancel_closed env cid (lc_instance cmd) (activation_visit model (wi_current_visit w)) ?v = Inr s2"
    and rec: "cancel_recorded env cmd cid w nkey s2 = Inr (r, s')"
    unfolding cancel_writes_def Let_def andThen_eq_Inr map_sum_eq_Inr void_open_cases_eq
    by (auto simp: s1)
  have "case activation_visit model (wi_current_visit w) of None \<Rightarrow> True
    | Some v \<Rightarrow> validate_current_activation (lc_instance cmd) v s"
    using cancel_closed_current [OF cl]
    by (simp add: s1 validate_current_activation_def current_active_def active_def split: option.splits)
  with dang have closable: "cancel_closable (lc_instance cmd) w s"
    using m by (auto simp: cancel_closable_def s1 instance_semantic_model_def find_instance_row_def find_version_def)
  from cancel_closed_frame [OF cl] obtain cs where s2: "s2 = ?v\<lparr>closures := closures s @ cs\<rparr>"
    and cs: "cl_activation ` set cs = (case activation_visit model (wi_current_visit w) of None \<Rightarrow> {}
        | Some v \<Rightarrow> ac_id ` set (current_active (lc_instance cmd) v s))"
    by (auto simp: s1 current_active_def active_def split: option.splits)
  have rs: "receipts s2 = receipts s @ [processing_row ''CANCEL_WORKFLOW_INSTANCE'' cid (lc_principal cmd) (lc_key cmd) hash]"
    by (simp add: s2 s1)
  have new: "cid \<notin> rc_command ` set (receipts s)" using fresh by (simp add: fresh_key_def)
  from cancel_recorded_frame [OF rec cid rs new] obtain stored e ob fb d where
    st: "varchar 2000 (lc_reason cmd) = Inr stored"
    and e: "lifecycle_event env cmd ''WORKFLOW_INSTANCE_CANCELLED'' (wi_current_visit w) w e"
    and r: "r = lifecycle_answer cmd w"
    and s': "s' = s2\<lparr>instances := map (\<lambda>x. if wi_id x = lc_instance cmd \<and> wi_state_version x = wi_state_version w
             then cancelled_row env cmd stored (x\<lparr>wi_state_version := wi_state_version w\<rparr>) else x) (instances s2),
           events := events s2 @ [e], outbox := ob, forum_bindings := fb,
           receipts := receipts s @ [answered_row ''CANCEL_WORKFLOW_INSTANCE'' cid (lc_principal cmd) (lc_key cmd) hash
             200 (lifecycle_body (le_lib env) r) d]\<rparr>" by blast
  have row: "instances s2 = instances s" by (simp add: s2 s1)
  have "instance_semantic_model (lc_instance cmd) s = Inr model"
    using m by (simp add: s1 instance_semantic_model_def find_instance_row_def find_version_def)
  moreover have "closes_active model (lc_instance cmd) (wi_current_visit w) s cs" by (simp add: closes_active_def cs)
  moreover have "s' = s\<lparr>intents := intents (retire_intents (lc_instance cmd) cid ''INSTANCE_CANCELLED'' s),
               assistances := map (voided (le_now env) (lc_instance cmd) (lc_principal cmd) cid
                 ''INSTANCE_CANCELLED'') (assistances s),
               closures := closures s @ cs,
               instances := map (\<lambda>x. if wi_id x = lc_instance cmd then cancelled_row env cmd stored w else x) (instances s),
               events := events s @ [e], outbox := ob, forum_bindings := fb,
               receipts := receipts s @ [answered_row ''CANCEL_WORKFLOW_INSTANCE'' cid (lc_principal cmd)
                 (lc_key cmd) hash 200 (lifecycle_body (le_lib env) r) d]\<rparr>"
    unfolding s' row lifecycle_row [OF wf w] by (simp add: s2 s1 retire_intents_receipts)
  ultimately show ?thesis using life closable st e r unfolding cancel_effect_def cid by blast
qed

text \<open>A denial that is audited and answered.\<close>

lemma denied_answers:
  assumes a: "audit_denial sh aid cid reason details s1 = Inr s2"
    and c: "complete_by nd mc lib cid status body s2 = Inr s'" and fresh: "fresh_key cid p key s"
    and s1: "s1 = s\<lparr>receipts := receipts s @ [processing_row ctype cid p key hash]\<rparr>"
  shows "only_answers s s'"
proof -
  from audit_denial_frame [OF a] obtain au where s2: "s2 = s1\<lparr>audits := audits s1 @ [au]\<rparr>" ..
  have rs: "receipts s2 = receipts s @ [processing_row ctype cid p key hash]" by (simp add: s2 s1)
  have new: "cid \<notin> rc_command ` set (receipts s)" using fresh by (simp add: fresh_key_def)
  from complete_by_new [OF c new rs] obtain d where
    s': "s' = s2\<lparr>receipts := receipts s @ [answered_row ctype cid p key hash status body d]\<rparr>" ..
  have "s' = s\<lparr>receipts := receipts s @ [answered_row ctype cid p key hash status body d], audits := audits s @ [au]\<rparr>"
    by (simp add: s' s2 s1)
  with only_answers_row [OF fresh] show ?thesis by simp
qed

lemma cancel_denied_frame:
  assumes "cancel_denied env cmd cid w s1 = Inr s'" and fresh: "fresh_key cid p key s"
    and s1: "s1 = s\<lparr>receipts := receipts s @ [processing_row ctype cid p key hash]\<rparr>"
  shows "only_answers s s'"
proof -
  from assms(1) obtain s2 where a: "audit_denial (show_uuid (le_lib env)) (le_audit env) cid
        ''principal_disabled'' (denial_details (le_lib env) cmd w) s1 = Inr s2"
    and c: "cancel_complete (le_lib env) cid 403 disabled_body s2 = Inr s'"
    unfolding cancel_denied_def andThen_eq_Inr map_sum_eq_Inr by blast
  show ?thesis by (rule denied_answers [OF a c [unfolded cancel_complete_def] fresh s1])
qed

text \<open>A cancellation answers without touching the instances, or cancels the instance it locked.\<close>

lemma cancel_ends [consumes 2, case_names quiet cancelled]:
  assumes "cancel_workflow_instance env cmd hash s = (res, s')" and "store_wf s"
  obtains
    "only_answers s s'" "\<And>r. res = Inr r \<Longrightarrow> lr_replayed r"
  | w r where "res = Inr r" "fresh_key (le_command env) (lc_principal cmd) (lc_key cmd) s"
      "cancel_accepted cmd s = Inr w" "w \<in> set (instances s)" "wi_id w = lc_instance cmd"
      "principal_enabled (lc_principal cmd) s = Some True"
      "cancel_lifecycle (wi_cancelled w) (current_node_type w s) (wi_archived w) = Inr ()"
      "cancel_closable (lc_instance cmd) w s" "cancel_effect env cmd hash w s r s'" "store_wf s'"
proof (cases "cancel_acquire (le_command env) (lc_principal cmd) (lc_key cmd) hash s")
  case (Inl e)
  with assms(1) only_answers_refl show ?thesis by (intro that(1)) (auto simp: cancel_workflow_instance_def)
next
  case (Inr x)
  obtain acq s1 where x: "x = (acq, s1)" by (cases x)
  note acquired = Inr [unfolded x cancel_acquire_def]
  show ?thesis
  proof (cases "\<exists>c. acq = Acq_Owned c")
    case False
    then have s1: "s1 = s" using acquire_by_taken [OF acquired] by blast
    have audited: "only_answers s (case attempt_audit_row (le_audit env) c (lc_principal cmd) (lc_key cmd) ''IDEMPOTENCY_CONFLICT''
            (Some ''request hash mismatch'') hash (Some (JObject [])) s of Inl _ \<Rightarrow> s | Inr s2 \<Rightarrow> s2)" for c
      using only_answers_refl only_answers_audit by (auto split: sum.split dest!: attempt_audit_row_frame)
    show ?thesis
      using assms(1) False acquired audited only_answers_refl
      by (intro that(1))
         (auto simp: cancel_workflow_instance_def cancel_acquire_def s1 finish_def cancel_replay_def Let_def
           split: acquire_result.splits option.splits if_splits)
  next
    case True
    then obtain c where c: "acq = Acq_Owned c" ..
    from acquire_by_owned [OF acquired [unfolded c]] c have acq: "acq = Acq_Owned (le_command env)"
      and fresh: "fresh_key (le_command env) (lc_principal cmd) (lc_key cmd) s"
      and s1: "s1 = s\<lparr>receipts := receipts s @ [processing_row ''CANCEL_WORKFLOW_INSTANCE'' (le_command env) (lc_principal cmd) (lc_key cmd) hash]\<rparr>"
      by auto
    have same: "cancel_accepted cmd s1 = cancel_accepted cmd s"
        "principal_enabled (lc_principal cmd) s1 = principal_enabled (lc_principal cmd) s"
      by (simp_all add: s1)
    have body: "(case cancel_accepted cmd s of
             Inl e \<Rightarrow> (Inl e, s)
           | Inr w \<Rightarrow>
               if \<not> actor_enabled (principal_enabled (lc_principal cmd) s) then
                 (case cancel_denied env cmd (le_command env) w s1 of
                    Inl e \<Rightarrow> (Inl e, s)
                  | Inr s2 \<Rightarrow> finish Ca_StorageError (le_commit env) (Inl Ca_PrincipalDisabled) s s2)
               else
                 (case cancel_writes env cmd (le_command env) w s1 of
                    Inl e \<Rightarrow> (Inl e, s)
                  | Inr (r, s2) \<Rightarrow> finish Ca_StorageError (le_commit env) (Inr r) s s2)) = (res, s')"
      using assms(1) Inr unfolding cancel_workflow_instance_def Let_def by (simp add: x acq same cong: sum.case_cong)
    show ?thesis
    proof (cases "\<exists>w r s2. cancel_accepted cmd s = Inr w \<and> principal_enabled (lc_principal cmd) s = Some True \<and>
        cancel_writes env cmd (le_command env) w s1 = Inr (r, s2) \<and> le_commit env = None")
      case True
      then obtain w r where a: "cancel_accepted cmd s = Inr w" and p: "principal_enabled (lc_principal cmd) s = Some True"
        and wr: "cancel_writes env cmd (le_command env) w s1 = Inr (r, s')" and res: "res = Inr r"
        using body by (auto simp: actor_enabled_def finish_def)
      have w: "w \<in> set (instances s)" "wi_id w = lc_instance cmd"
        using a by (auto simp: cancel_accepted_def andThen_eq_Inr result_simps dest!: find_instance_row)
      have "store_wf s'"
        by (rule cancel_writes_wf [OF wr]) (use processing_row_wf [OF assms(2) fresh] in \<open>simp add: s1\<close>)
      with cancel_writes_effect [OF wr refl w assms(2) fresh s1] show ?thesis
        by (intro that(2) [OF res fresh a w p]) simp_all
    next
      case False
      then show ?thesis
        using body cancel_denied_frame [OF _ fresh s1] only_answers_refl
        by (intro that(1)) (auto simp: actor_enabled_def finish_def split: sum.splits if_splits option.splits)
    qed
  qed
qed

section \<open>Archive\<close>

definition archived_row :: "lifecycle_env \<Rightarrow> lifecycle_command \<Rightarrow> string \<Rightarrow> instance_row \<Rightarrow> instance_row" where
  "archived_row env cmd stored w =
     w\<lparr>wi_archival := Some \<lparr>lm_at = le_now env, lm_by = lc_principal cmd, lm_reason = stored\<rparr>,
       wi_state_version := wi_state_version w + 1\<rparr>"

definition archive_effect ::
  "lifecycle_env \<Rightarrow> lifecycle_command \<Rightarrow> string \<Rightarrow> instance_row \<Rightarrow> store \<Rightarrow> lifecycle_result \<Rightarrow> store \<Rightarrow> bool" where
  "archive_effect env cmd hash w s r s' \<longleftrightarrow>
     r = lifecycle_answer cmd w \<and>
     (\<exists>stored e ob fb d.
        varchar 2000 (lc_reason cmd) = Inr stored \<and>
        lifecycle_event env cmd ''WORKFLOW_INSTANCE_ARCHIVED'' None w e \<and>
        s' = s\<lparr>intents := intents (retire_intents (lc_instance cmd) (le_command env) ''INSTANCE_ARCHIVED'' s),
               assistances := map (voided (le_now env) (lc_instance cmd) (lc_principal cmd) (le_command env)
                 ''INSTANCE_ARCHIVED'') (assistances s),
               instances := map (\<lambda>x. if wi_id x = lc_instance cmd then archived_row env cmd stored w else x) (instances s),
               events := events s @ [e], outbox := ob, forum_bindings := fb,
               receipts := receipts s @ [answered_row ''ARCHIVE_WORKFLOW_INSTANCE'' (le_command env) (lc_principal cmd)
                 (lc_key cmd) hash 200 (lifecycle_body (le_lib env) r) d]\<rparr>)"

lemma archive_recorded_frame:
  assumes rec: "archive_recorded env cmd cid w s = Inr (r, s')" and cid: "cid = le_command env"
    and rs: "receipts s = rs @ [processing_row ctype cid p key hash]" "cid \<notin> rc_command ` set rs"
  shows "\<exists>stored e ob fb d. varchar 2000 (lc_reason cmd) = Inr stored \<and>
    lifecycle_event env cmd ''WORKFLOW_INSTANCE_ARCHIVED'' None w e \<and> r = lifecycle_answer cmd w \<and>
    s' = s\<lparr>instances := map (\<lambda>x. if wi_id x = lc_instance cmd \<and> wi_state_version x = wi_state_version w
             then archived_row env cmd stored (x\<lparr>wi_state_version := wi_state_version w\<rparr>) else x) (instances s),
           events := events s @ [e], outbox := ob, forum_bindings := fb,
           receipts := rs @ [answered_row ctype cid p key hash 200 (lifecycle_body (le_lib env) r) d]\<rparr>"
proof -
  let ?new = "as_i32 (wi_state_version w + 1)"
  let ?mark = "\<lambda>stored. Some \<lparr>lm_at = le_now env, lm_by = lc_principal cmd, lm_reason = stored\<rparr>"
  let ?r = "\<lparr>lr_instance = lc_instance cmd, lr_version = ?new, lr_sequence = ?new, lr_replayed = False\<rparr>"
  let ?data = "JObject [(''archived_by_principal_id'', JString (show_uuid (le_lib env) (lc_principal cmd))),
                          (''reason'', JString (lc_reason cmd)), (''was_cancelled'', JBool (wi_cancelled w))]"
  let ?e = "\<lambda>dig. \<lparr>ev_id = le_event env, ev_instance = lc_instance cmd, ev_sequence = ?new, ev_command = cid,
                  ev_type = ''WORKFLOW_INSTANCE_ARCHIVED'', ev_effect = None, ev_source_visit = None,
                  ev_target_visit = None, ev_context = None, ev_submission = None, ev_data = ?data, ev_digest = dig,
                  ev_actor = lc_principal cmd, ev_from = None, ev_to = None, ev_old = wi_state_version w, ev_new = ?new\<rparr>"
  from rec obtain stored s1 dig s2 s3 s4 q key' where st: "varchar 2000 (lc_reason cmd) = Inr stored"
    and u: "update_at_version (Ar_InternalConsistency ''archive update affected an unexpected row count'') (lc_instance cmd)
             (wi_state_version w) (\<lambda>x. x\<lparr>wi_archival := ?mark stored, wi_state_version := ?new\<rparr>) s = Inr s1"
    and ev: "append_event (?e dig) s1 = Inr s2"
    and qf: "queue_forum_event (le_now env) (le_row env) (lc_instance cmd) key' q s2 = Inr s3"
    and c: "archive_complete (le_lib env) cid 200 (lifecycle_body (le_lib env) ?r) s3 = Inr s4"
    and fin: "(Inr (?r, s4) :: (archive_error, lifecycle_result \<times> store) res) = Inr (r, s')"
    unfolding archive_recorded_def Let_def andThen_eq_Inr map_sum_eq_Inr
    by (elim exE conjE) (rule that, assumption+)
  define e where "e = ?e dig"
  have e: "ev_id e = le_event env \<and> ev_instance e = lc_instance cmd \<and> ev_command e = cid \<and>
       ev_type e = ''WORKFLOW_INSTANCE_ARCHIVED'' \<and> ev_effect e = None \<and> ev_source_visit e = None \<and>
       ev_target_visit e = None \<and> ev_old e = wi_state_version w \<and> ev_new e = ?new \<and> ev_sequence e = ?new \<and>
       ev_actor e = lc_principal cmd" by (simp add: e_def)
  note ev = ev [folded e_def]
  from fin have r: "r = ?r" and s4: "s4 = s'" by simp_all
  note c = c [folded r, unfolded s4]
  have new: "?new = wi_state_version w + 1" using event_versions [OF ev] e by simp
  have s1: "s1 = s\<lparr>instances := map (\<lambda>x. if wi_id x = lc_instance cmd \<and> wi_state_version x = wi_state_version w
      then x\<lparr>wi_archival := ?mark stored, wi_state_version := ?new\<rparr> else x) (instances s)\<rparr>"
    by (rule update_at_version_frame [OF u])
  have s2: "s2 = s1\<lparr>events := events s1 @ [e]\<rparr>" using append_event_frame [OF ev] by simp
  obtain ob fb where s3: "s3 = s2\<lparr>outbox := ob, forum_bindings := fb\<rparr>" using queue_forum_event_frame [OF qf] by blast
  have "receipts s3 = rs @ [processing_row ctype cid p key hash]" by (simp add: s3 s2 s1 rs)
  from complete_by_new [OF c [unfolded archive_complete_def] rs(2) this] obtain d where
    s': "s' = s3\<lparr>receipts := rs @ [answered_row ctype cid p key hash 200 (lifecycle_body (le_lib env) r) d]\<rparr>" ..
  have row: "(\<lambda>x. if wi_id x = lc_instance cmd \<and> wi_state_version x = wi_state_version w
      then x\<lparr>wi_archival := ?mark stored, wi_state_version := ?new\<rparr> else x) =
    (\<lambda>x. if wi_id x = lc_instance cmd \<and> wi_state_version x = wi_state_version w
             then archived_row env cmd stored (x\<lparr>wi_state_version := wi_state_version w\<rparr>) else x)"
    by (auto simp: archived_row_def new)
  have "lifecycle_event env cmd ''WORKFLOW_INSTANCE_ARCHIVED'' None w e"
    using e new cid as_i32_range [of "wi_state_version w + 1"] by (simp add: lifecycle_event_def)
  moreover have "r = lifecycle_answer cmd w" by (simp add: r lifecycle_answer_def new)
  ultimately show ?thesis
    using st by (intro exI conjI) (assumption+, simp add: s' s3 s2 s1 row)
qed

lemma archive_recorded_wf [wf_step]:
  assumes "archive_recorded env cmd cid w s = Inr (r, s')" and "store_wf s" shows "store_wf s'"
  using assms unfolding archive_recorded_def Let_def andThen_eq_Inr map_sum_eq_Inr archive_complete_def
  by (auto dest!: wf_step append_event_wf)

lemma archive_writes_effect:
  assumes wr: "archive_writes env cmd cid w s1 = Inr (r, s')" and cid: "cid = le_command env"
    and w: "w \<in> set (instances s)" "wi_id w = lc_instance cmd" and wf: "store_wf s"
    and fresh: "fresh_key cid (lc_principal cmd) (lc_key cmd) s"
    and s1: "s1 = s\<lparr>receipts := receipts s @ [processing_row ''ARCHIVE_WORKFLOW_INSTANCE'' cid (lc_principal cmd) (lc_key cmd) hash]\<rparr>"
  shows "archive_lifecycle (wi_cancelled w) (current_node_type w s) (wi_archived w) = Inr () \<and>
    activation_state (lc_instance cmd) s = Inr () \<and> archive_effect env cmd hash w s r s' \<and> store_wf s'"
proof -
  let ?v = "s1\<lparr>intents := intents (retire_intents (lc_instance cmd) cid ''INSTANCE_ARCHIVED'' s1),
       assistances := map (voided (le_now env) (lc_instance cmd) (lc_principal cmd) cid ''INSTANCE_ARCHIVED'') (assistances s1)\<rparr>"
  from wr have life: "archive_lifecycle (wi_cancelled w) (current_node_type w s) (wi_archived w) = Inr ()"
    and act: "activation_state (lc_instance cmd) s = Inr ()"
    and rec: "archive_recorded env cmd cid w ?v = Inr (r, s')"
    unfolding archive_writes_def Let_def andThen_eq_Inr void_open_cases_eq
    by (auto simp: s1)
  have rs: "receipts ?v = receipts s @ [processing_row ''ARCHIVE_WORKFLOW_INSTANCE'' cid (lc_principal cmd) (lc_key cmd) hash]"
    by (simp add: s1)
  have new: "cid \<notin> rc_command ` set (receipts s)" using fresh by (simp add: fresh_key_def)
  from archive_recorded_frame [OF rec cid rs new] obtain stored e ob fb d where
    st: "varchar 2000 (lc_reason cmd) = Inr stored"
    and e: "lifecycle_event env cmd ''WORKFLOW_INSTANCE_ARCHIVED'' None w e"
    and r: "r = lifecycle_answer cmd w"
    and s': "s' = ?v\<lparr>instances := map (\<lambda>x. if wi_id x = lc_instance cmd \<and> wi_state_version x = wi_state_version w
             then archived_row env cmd stored (x\<lparr>wi_state_version := wi_state_version w\<rparr>) else x) (instances ?v),
           events := events ?v @ [e], outbox := ob, forum_bindings := fb,
           receipts := receipts s @ [answered_row ''ARCHIVE_WORKFLOW_INSTANCE'' cid (lc_principal cmd) (lc_key cmd) hash
             200 (lifecycle_body (le_lib env) r) d]\<rparr>" by blast
  have row: "instances ?v = instances s" by (simp add: s1)
  have "s' = s\<lparr>intents := intents (retire_intents (lc_instance cmd) cid ''INSTANCE_ARCHIVED'' s),
               assistances := map (voided (le_now env) (lc_instance cmd) (lc_principal cmd) cid
                 ''INSTANCE_ARCHIVED'') (assistances s),
               instances := map (\<lambda>x. if wi_id x = lc_instance cmd then archived_row env cmd stored w else x) (instances s),
               events := events s @ [e], outbox := ob, forum_bindings := fb,
               receipts := receipts s @ [answered_row ''ARCHIVE_WORKFLOW_INSTANCE'' cid (lc_principal cmd)
                 (lc_key cmd) hash 200 (lifecycle_body (le_lib env) r) d]\<rparr>"
    unfolding s' row lifecycle_row [OF wf w] by (simp add: s1 retire_intents_receipts)
  moreover have "store_wf s'"
    by (rule archive_recorded_wf [OF rec]) (use processing_row_wf [OF wf fresh] in \<open>simp add: s1\<close>)
  ultimately show ?thesis using life act st e r unfolding archive_effect_def cid by blast
qed

lemma archive_denied_frame:
  assumes "archive_denied env cmd cid w s1 = Inr s'" and fresh: "fresh_key cid p key s"
    and s1: "s1 = s\<lparr>receipts := receipts s @ [processing_row ctype cid p key hash]\<rparr>"
  shows "only_answers s s'"
proof -
  from assms(1) obtain s2 where a: "audit_denial (show_uuid (le_lib env)) (le_audit env) cid
        ''principal_disabled'' (denial_details (le_lib env) cmd w) s1 = Inr s2"
    and c: "archive_complete (le_lib env) cid 403 disabled_body s2 = Inr s'"
    unfolding archive_denied_def andThen_eq_Inr map_sum_eq_Inr by blast
  show ?thesis by (rule denied_answers [OF a c [unfolded archive_complete_def] fresh s1])
qed

text \<open>An archival answers without touching the instances, or archives the instance it locked.\<close>

lemma archive_ends [consumes 2, case_names quiet archived]:
  assumes "archive_workflow_instance env cmd hash s = (res, s')" and "store_wf s"
  obtains
    "only_answers s s'" "\<And>r. res = Inr r \<Longrightarrow> lr_replayed r"
  | w r where "res = Inr r" "fresh_key (le_command env) (lc_principal cmd) (lc_key cmd) s"
      "archive_accepted cmd s = Inr w" "w \<in> set (instances s)" "wi_id w = lc_instance cmd"
      "principal_enabled (lc_principal cmd) s = Some True"
      "archive_lifecycle (wi_cancelled w) (current_node_type w s) (wi_archived w) = Inr ()"
      "activation_state (lc_instance cmd) s = Inr ()"
      "archive_effect env cmd hash w s r s'" "store_wf s'"
proof (cases "archive_acquire (le_command env) (lc_principal cmd) (lc_key cmd) hash s")
  case (Inl e)
  with assms(1) only_answers_refl show ?thesis by (intro that(1)) (auto simp: archive_workflow_instance_def)
next
  case (Inr x)
  obtain acq s1 where x: "x = (acq, s1)" by (cases x)
  note acquired = Inr [unfolded x archive_acquire_def]
  show ?thesis
  proof (cases "\<exists>c. acq = Acq_Owned c")
    case False
    then have s1: "s1 = s" using acquire_by_taken [OF acquired] by blast
    show ?thesis
      using assms(1) False acquired only_answers_refl
      by (intro that(1))
         (auto simp: archive_workflow_instance_def archive_acquire_def s1 finish_def archive_replay_def Let_def
           split: acquire_result.splits option.splits if_splits)
  next
    case True
    then obtain c where c: "acq = Acq_Owned c" ..
    from acquire_by_owned [OF acquired [unfolded c]] c have acq: "acq = Acq_Owned (le_command env)"
      and fresh: "fresh_key (le_command env) (lc_principal cmd) (lc_key cmd) s"
      and s1: "s1 = s\<lparr>receipts := receipts s @ [processing_row ''ARCHIVE_WORKFLOW_INSTANCE'' (le_command env) (lc_principal cmd) (lc_key cmd) hash]\<rparr>"
      by auto
    have same: "archive_accepted cmd s1 = archive_accepted cmd s"
        "principal_enabled (lc_principal cmd) s1 = principal_enabled (lc_principal cmd) s"
      by (simp_all add: s1)
    have body: "(case archive_accepted cmd s of
             Inl e \<Rightarrow> (Inl e, s)
           | Inr w \<Rightarrow>
               if \<not> actor_enabled (principal_enabled (lc_principal cmd) s) then
                 (case archive_denied env cmd (le_command env) w s1 of
                    Inl e \<Rightarrow> (Inl e, s)
                  | Inr s2 \<Rightarrow> finish Ar_StorageError (le_commit env) (Inl Ar_PrincipalDisabled) s s2)
               else
                 (case archive_writes env cmd (le_command env) w s1 of
                    Inl e \<Rightarrow> (Inl e, s)
                  | Inr (r, s2) \<Rightarrow> finish Ar_StorageError (le_commit env) (Inr r) s s2)) = (res, s')"
      using assms(1) Inr unfolding archive_workflow_instance_def Let_def by (simp add: x acq same cong: sum.case_cong)
    show ?thesis
    proof (cases "\<exists>w r s2. archive_accepted cmd s = Inr w \<and> principal_enabled (lc_principal cmd) s = Some True \<and>
        archive_writes env cmd (le_command env) w s1 = Inr (r, s2) \<and> le_commit env = None")
      case True
      then obtain w r where a: "archive_accepted cmd s = Inr w" and p: "principal_enabled (lc_principal cmd) s = Some True"
        and wr: "archive_writes env cmd (le_command env) w s1 = Inr (r, s')" and res: "res = Inr r"
        using body by (auto simp: actor_enabled_def finish_def)
      have w: "w \<in> set (instances s)" "wi_id w = lc_instance cmd"
        using a by (auto simp: archive_accepted_def andThen_eq_Inr result_simps dest!: find_instance_row)
      from archive_writes_effect [OF wr refl w assms(2) fresh s1] show ?thesis
        by (intro that(2) [OF res fresh a w p]) simp_all
    next
      case False
      then show ?thesis
        using body archive_denied_frame [OF _ fresh s1] only_answers_refl
        by (intro that(1)) (auto simp: actor_enabled_def finish_def split: sum.splits if_splits option.splits)
    qed
  qed
qed

end
