(* ===== verification/Wake_Facts.thy ===== *)
theory Wake_Facts
  imports Wake Lifecycle_Facts
begin

text \<open>How a wake can end: an answer that leaves the instances alone, or one eligibility fact that moves
  the next eligible instant of the current dispatch intent to now.\<close>

section \<open>Receipts\<close>

lemma wake_acquire_owned:
  assumes "wake_acquire cid p key hash s = Inr (Wake_Owned c, s1)"
  shows "c = cid \<and> fresh_key cid p key s \<and>
    s1 = s\<lparr>receipts := receipts s @ [processing_row ''WAKE_DISPATCH_INTENT'' cid p key hash]\<rparr>"
  using assms
  by (auto simp: wake_acquire_def try_insert_receipt_cases split: option.splits if_splits sum.splits)

lemma wake_acquire_taken:
  assumes "wake_acquire cid p key hash s = Inr (x, s1)" and "\<And>c. x \<noteq> Wake_Owned c"
  shows "s1 = s"
  using assms
  by (auto simp: wake_acquire_def try_insert_receipt_cases split: option.splits if_splits sum.splits)

lemma wake_complete_new:
  assumes "wake_complete lib cid status body s = Inr s'" and "cid \<notin> rc_command ` set rs"
    and "receipts s = rs @ [processing_row ctype cid p key hash]"
  shows "\<exists>d. s' = s\<lparr>receipts := rs @ [answered_row ctype cid p key hash status body d]\<rparr>"
proof -
  from assms(1) obtain d where s': "s' = s\<lparr>receipts := map (\<lambda>r. if rc_command r = cid
       then r\<lparr>rc_status := ''COMPLETED'', rc_response_status := Some status,
              rc_response_body := Some body, rc_response_digest := Some d\<rparr> else r) (receipts s)\<rparr>"
    by (auto simp: wake_complete_def andThen_eq_Inr map_sum_eq_Inr)
  have "map (\<lambda>r. if rc_command r = cid
       then r\<lparr>rc_status := ''COMPLETED'', rc_response_status := Some status,
              rc_response_body := Some body, rc_response_digest := Some d\<rparr> else r) rs = rs"
    by (rule map_idI) (use assms(2) in force)
  then show ?thesis
    by (intro exI [of _ d]) (simp add: s' assms(3) answered_row_def processing_row_def)
qed

lemma wake_complete_wf:
  assumes "wake_complete lib cid status body s = Inr s'" and "store_wf s" shows "store_wf s'"
proof -
  from assms(1) obtain d where s': "s' = s\<lparr>receipts := map (\<lambda>r. if rc_command r = cid
       then r\<lparr>rc_status := ''COMPLETED'', rc_response_status := Some status,
              rc_response_body := Some body, rc_response_digest := Some d\<rparr> else r) (receipts s)\<rparr>"
    by (auto simp: wake_complete_def andThen_eq_Inr map_sum_eq_Inr)
  show ?thesis using assms(2) by (simp add: s' store_wf_def comp_def if_distrib cong: if_cong)
qed

lemma store_wf_eligibilities [simp]: "store_wf (s\<lparr>eligibilities := es\<rparr>) = store_wf s"
  by (simp add: store_wf_def)

section \<open>What is written\<close>

definition bumped :: "instance_row \<Rightarrow> instance_row" where
  "bumped w = w\<lparr>wi_state_version := wi_state_version w + 1\<rparr>"

definition wake_effect ::
  "wake_env \<Rightarrow> wake_command \<Rightarrow> string \<Rightarrow> instance_row \<Rightarrow> wake_activation \<Rightarrow> store \<Rightarrow> wake_outcome \<Rightarrow> store \<Rightarrow> bool" where
  "wake_effect env cmd hash w a s out s' \<longleftrightarrow>
     out = Applied \<lparr>wp_instance = wc_instance cmd, wp_visit = wc_visit cmd, wp_version = wi_state_version w + 1,
                    wp_sequence = wi_state_version w + 1, wp_next = we_now env, wp_replayed = False\<rparr> \<and>
     (\<exists>previous e body d.
        wa_next a = Some previous \<and>
        ev_id e = we_event env \<and> ev_instance e = wc_instance cmd \<and> ev_command e = we_command env \<and>
        ev_type e = ''WAKE_DISPATCH_INTENT'' \<and> ev_effect e = None \<and> ev_source_visit e = Some (wc_visit cmd) \<and>
        ev_target_visit e = None \<and> ev_old e = wi_state_version w \<and> ev_new e = wi_state_version w + 1 \<and>
        ev_sequence e = ev_new e \<and> ev_actor e = wc_principal cmd \<and>
        s' = s\<lparr>eligibilities := eligibilities s @
                 [\<lparr>el_id = we_fact env, el_activation = wa_id a, el_previous = previous, el_new = we_now env,
                   el_cause = ''WAKE'', el_command = we_command env, el_created = we_now env\<rparr>],
               instances := map (\<lambda>x. if wi_id x = wc_instance cmd then bumped w else x) (instances s),
               events := events s @ [e],
               receipts := receipts s @ [answered_row ''WAKE_DISPATCH_INTENT'' (we_command env) (wc_principal cmd)
                 (wc_key cmd) hash 200 body d]\<rparr>)"

lemma wake_written_effect:
  assumes wr: "wake_written env cid cmd w a s1 = Inr (out, s')" and cid: "cid = we_command env"
    and w: "w \<in> set (instances s)" "wi_id w = wc_instance cmd" and wf: "store_wf s"
    and fresh: "fresh_key cid (wc_principal cmd) (wc_key cmd) s"
    and s1: "s1 = s\<lparr>receipts := receipts s @ [processing_row ''WAKE_DISPATCH_INTENT'' cid (wc_principal cmd) (wc_key cmd) hash]\<rparr>"
  shows "wake_effect env cmd hash w a s out s' \<and> store_wf s'"
proof -
  let ?new = "wi_state_version w + 1"
  let ?r = "\<lparr>wp_instance = wc_instance cmd, wp_visit = wc_visit cmd, wp_version = ?new, wp_sequence = ?new,
             wp_next = we_now env, wp_replayed = False\<rparr>"
  let ?e = "\<lambda>previous dig. \<lparr>ev_id = we_event env, ev_instance = wc_instance cmd, ev_sequence = ?new, ev_command = cid,
                  ev_type = ''WAKE_DISPATCH_INTENT'', ev_effect = None, ev_source_visit = Some (wc_visit cmd),
                  ev_target_visit = None, ev_context = None, ev_submission = None,
                  ev_data = wake_event_data env (wa_id a) (wc_visit cmd) previous, ev_digest = dig,
                  ev_actor = wc_principal cmd, ev_from = None, ev_to = None, ev_old = wi_state_version w, ev_new = ?new\<rparr>"
  from wr obtain previous s2 s3 dig s4 s5 where p: "wa_next a = Some previous"
    and el: "insert_eligibility_event (we_fact env) (wa_id a) previous (we_now env) ''WAKE'' cid s1 = Inr s2"
    and u: "update_at_version (Wk_InternalConsistency ''wake projection update affected an unexpected row count'')
                 (wc_instance cmd) (wi_state_version w) (\<lambda>x. x\<lparr>wi_state_version := ?new\<rparr>) s2 = Inr s3"
    and ev: "append_event (?e previous dig) s3 = Inr s4"
    and c: "wake_complete (we_lib env) cid 200 (applied_body env ?r) s4 = Inr s5"
    and fin: "(Inr (Applied ?r, s5) :: (wake_error, wake_outcome \<times> store) res) = Inr (out, s')"
    unfolding wake_written_def Let_def andThen_eq_Inr map_sum_eq_Inr ok_or_eq_Inr
    by (elim exE conjE) (rule that, assumption+)
  define e where "e = ?e previous dig"
  have e: "ev_id e = we_event env" "ev_instance e = wc_instance cmd" "ev_command e = cid"
    "ev_type e = ''WAKE_DISPATCH_INTENT''" "ev_effect e = None" "ev_source_visit e = Some (wc_visit cmd)"
    "ev_target_visit e = None" "ev_old e = wi_state_version w" "ev_new e = ?new" "ev_sequence e = ev_new e"
    "ev_actor e = wc_principal cmd" by (simp_all add: e_def)
  note ev = ev [folded e_def]
  from fin have out: "out = Applied ?r" and s5: "s5 = s'" by simp_all
  note c = c [unfolded s5]
  let ?f = "\<lparr>el_id = we_fact env, el_activation = wa_id a, el_previous = previous, el_new = we_now env,
             el_cause = ''WAKE'', el_command = cid, el_created = we_now env\<rparr>"
  have s2: "s2 = s1\<lparr>eligibilities := eligibilities s1 @ [?f]\<rparr>"
    using el by (simp add: insert_eligibility_event_def split: if_splits)
  have s3: "s3 = s2\<lparr>instances := map (\<lambda>x. if wi_id x = wc_instance cmd \<and> wi_state_version x = wi_state_version w
      then x\<lparr>wi_state_version := ?new\<rparr> else x) (instances s2)\<rparr>"
    by (rule update_at_version_frame [OF u])
  have row: "map (\<lambda>x. if wi_id x = wc_instance cmd \<and> wi_state_version x = wi_state_version w
      then x\<lparr>wi_state_version := ?new\<rparr> else x) (instances s) =
    map (\<lambda>x. if wi_id x = wc_instance cmd then bumped w else x) (instances s)"
    using update_row [OF _ w, of "\<lambda>x. x\<lparr>wi_state_version := ?new\<rparr>"] wf by (simp add: store_wf_def bumped_def)
  have inst: "instances s2 = instances s" by (simp add: s2 s1)
  have s4: "s4 = s3\<lparr>events := events s3 @ [e]\<rparr>" using append_event_frame [OF ev] by simp
  have rs: "receipts s4 = receipts s @ [processing_row ''WAKE_DISPATCH_INTENT'' cid (wc_principal cmd) (wc_key cmd) hash]"
    by (simp add: s4 s3 s2 s1)
  have new: "cid \<notin> rc_command ` set (receipts s)" using fresh by (simp add: fresh_key_def)
  from wake_complete_new [OF c new rs] obtain d where s': "s' = s4\<lparr>receipts := receipts s @
      [answered_row ''WAKE_DISPATCH_INTENT'' cid (wc_principal cmd) (wc_key cmd) hash 200 (applied_body env ?r) d]\<rparr>" ..
  have final: "s' = s\<lparr>eligibilities := eligibilities s @ [?f],
               instances := map (\<lambda>x. if wi_id x = wc_instance cmd then bumped w else x) (instances s),
               events := events s @ [e],
               receipts := receipts s @ [answered_row ''WAKE_DISPATCH_INTENT'' cid (wc_principal cmd)
                 (wc_key cmd) hash 200 (applied_body env ?r) d]\<rparr>"
    unfolding s' s4 s3 inst row by (simp add: s2 s1)
  have "store_wf s2" using processing_row_wf [OF wf fresh] by (simp add: s2 s1)
  then have "store_wf s3" using update_at_version_wf [OF u] by simp
  then have "store_wf s4" by (rule append_event_wf [OF ev])
  then have "store_wf s'" by (rule wake_complete_wf [OF c])
  moreover have "wake_effect env cmd hash w a s out s'"
    unfolding wake_effect_def
    by (intro conjI exI) (rule out, rule p, (rule e [unfolded cid])+, rule final [unfolded cid])
  ultimately show ?thesis by blast
qed

lemma wake_skipped_answers:
  assumes "wake_skipped env cid cmd hash reason s1 = Inr (out, s')" and fresh: "fresh_key cid p key s"
    and s1: "s1 = s\<lparr>receipts := receipts s @ [processing_row ctype cid p key hash']\<rparr>"
  shows "only_answers s s' \<and> (\<exists>n. out = NoOp n)"
proof -
  from assms(1) obtain s2 n where a: "attempt_audit_row (we_audit env) cid (wc_principal cmd) (wc_key cmd)
                ''WAKE_NO_OP'' (Some reason) hash None s1 = Inr s2"
    and c: "wake_complete (we_lib env) cid 200 (no_op_body (we_lib env) cmd reason) s2 = Inr s'" and n: "out = NoOp n"
    unfolding wake_skipped_def by (auto simp: andThen_eq_Inr map_sum_eq_Inr)
  from attempt_audit_row_frame [OF a] obtain au where s2: "s2 = s1\<lparr>audits := audits s1 @ [au]\<rparr>" ..
  have rs: "receipts s2 = receipts s @ [processing_row ctype cid p key hash']" by (simp add: s2 s1)
  have new: "cid \<notin> rc_command ` set (receipts s)" using fresh by (simp add: fresh_key_def)
  from wake_complete_new [OF c new rs] obtain d where s': "s' = s2\<lparr>receipts := receipts s @
      [answered_row ctype cid p key hash' 200 (no_op_body (we_lib env) cmd reason) d]\<rparr>" ..
  have "s' = s\<lparr>receipts := receipts s @ [answered_row ctype cid p key hash' 200 (no_op_body (we_lib env) cmd reason) d],
               audits := audits s @ [au]\<rparr>" by (simp add: s' s2 s1)
  with only_answers_row [OF fresh] n show ?thesis by simp
qed

section \<open>The checks\<close>

lemma wake_state_receipts [simp]:
  "find_dispatch_activation i v (s\<lparr>receipts := rs\<rparr>) = find_dispatch_activation i v s"
  by (simp add: find_dispatch_activation_def)

text \<open>What a wake that is not refused has found.\<close>

definition wakeable :: "wake_command \<Rightarrow> instance_row \<Rightarrow> wake_activation \<Rightarrow> store \<Rightarrow> bool" where
  "wakeable cmd w a s \<longleftrightarrow>
     (\<forall>c. wc_cause cmd = Some c \<longrightarrow> \<not> invalid_cause c) \<and> principal_enabled (wc_principal cmd) s = Some True \<and>
     find_instance_row (wc_instance cmd) s = Some w \<and>
     find_dispatch_activation (wc_instance cmd) (wc_visit cmd) s = Some a"

lemma wake_checkedD: "wake_checked lib cid cmd s = Inr (w, a) \<Longrightarrow> wakeable cmd w a s"
  by (auto simp: wake_checked_def wakeable_def andThen_eq_Inr ok_or_eq_Inr guard_r_eq_Inr
      split: option.splits bool.splits)

lemma wakeable_receipts [simp]: "wakeable cmd w a (s\<lparr>receipts := rs\<rparr>) = wakeable cmd w a s"
  by (simp add: wakeable_def)

section \<open>Ends\<close>

lemma wake_ends [consumes 2, case_names quiet applied]:
  assumes "wake_dispatch_intent env cmd hash s = (res, s')" and "store_wf s"
  obtains
    "only_answers s s'" "\<And>r. res = Inr (Applied r) \<Longrightarrow> wp_replayed r"
  | w a out where "res = Inr out" "fresh_key (we_command env) (wc_principal cmd) (wc_key cmd) s"
      "wakeable cmd w a s" "no_op_reason (we_now env) cmd w a = None"
      "wake_effect env cmd hash w a s out s'" "store_wf s'"
proof (cases "wake_acquire (we_command env) (wc_principal cmd) (wc_key cmd) hash s")
  case (Inl e)
  with assms(1) only_answers_refl show ?thesis by (intro that(1)) (auto simp: wake_dispatch_intent_def)
next
  case (Inr x)
  obtain acq s1 where x: "x = (acq, s1)" by (cases x)
  note acquired = Inr [unfolded x]
  show ?thesis
  proof (cases "\<exists>c. acq = Wake_Owned c")
    case False
    then have s1: "s1 = s" using wake_acquire_taken [OF acquired] by blast
    have audited: "only_answers s (case attempt_audit_row (we_audit env) c (wc_principal cmd) (wc_key cmd) ''IDEMPOTENCY_CONFLICT''
            (Some ''request hash mismatch'') hash None s of Inl _ \<Rightarrow> s | Inr s2 \<Rightarrow> s2)" for c
      using only_answers_refl only_answers_audit by (auto split: sum.split dest!: attempt_audit_row_frame)
    show ?thesis
      using assms(1) False acquired audited only_answers_refl
      by (intro that(1))
         (auto simp: wake_dispatch_intent_def s1 finish_def wake_replay_def Let_def andThen_eq_Inr
           split: wake_acquire.splits option.splits if_splits)
  next
    case True
    then obtain c where c: "acq = Wake_Owned c" ..
    from wake_acquire_owned [OF acquired [unfolded c]] c have acq: "acq = Wake_Owned (we_command env)"
      and fresh: "fresh_key (we_command env) (wc_principal cmd) (wc_key cmd) s"
      and s1: "s1 = s\<lparr>receipts := receipts s @ [processing_row ''WAKE_DISPATCH_INTENT'' (we_command env) (wc_principal cmd) (wc_key cmd) hash]\<rparr>"
      by auto
    have body: "(case andThen (wake_checked (we_lib env) (we_command env) cmd s1) (\<lambda>(w, a).
                  case no_op_reason (we_now env) cmd w a of
                    Some reason \<Rightarrow> wake_skipped env (we_command env) cmd hash reason s1
                  | None \<Rightarrow> wake_written env (we_command env) cmd w a s1) of
             Inl e \<Rightarrow> (Inl e, s)
           | Inr (r, s2) \<Rightarrow> finish Wk_StorageError (we_commit env) (Inr r) s s2) = (res, s')"
      using assms(1) acquired unfolding wake_dispatch_intent_def Let_def by (simp add: acq)
    show ?thesis
    proof (cases "\<exists>w a r s2. wake_checked (we_lib env) (we_command env) cmd s1 = Inr (w, a) \<and>
        no_op_reason (we_now env) cmd w a = None \<and>
        wake_written env (we_command env) cmd w a s1 = Inr (r, s2) \<and> we_commit env = None")
      case True
      then obtain w a out where ch: "wake_checked (we_lib env) (we_command env) cmd s1 = Inr (w, a)"
        and no: "no_op_reason (we_now env) cmd w a = None"
        and wr: "wake_written env (we_command env) cmd w a s1 = Inr (out, s')" and res: "res = Inr out"
        using body by (auto simp: finish_def)
      from wake_checkedD [OF ch] have ok: "wakeable cmd w a s" by (simp add: s1)
      then have w: "w \<in> set (instances s)" "wi_id w = wc_instance cmd"
        by (auto simp: wakeable_def dest!: find_instance_row)
      from wake_written_effect [OF wr refl w assms(2) fresh s1] show ?thesis
        by (intro that(2) [OF res fresh ok no]) simp_all
    next
      case False
      have skipped: "only_answers s s2 \<and> (\<forall>r. out \<noteq> Applied r)"
        if "wake_skipped env (we_command env) cmd hash reason s1 = Inr (out, s2)" for reason out s2
        using wake_skipped_answers [OF that fresh s1] by auto
      from False show ?thesis
        using body skipped only_answers_refl
        by (intro that(1)) (auto simp: finish_def andThen_def split: sum.splits option.splits prod.splits)
    qed
  qed
qed

end
