(* ===== verification/Assistance_Facts.thy ===== *)
theory Assistance_Facts
  imports Assistance_Commands Wake_Facts
begin

text \<open>How the assistance commands can end: what a request, an escalation and a resolution write.\<close>

section \<open>The intents\<close>

lemma promise_cong: "intents a = intents a' \<Longrightarrow> intents b = intents b' \<Longrightarrow> promise a b \<longleftrightarrow> promise a' b'"
  by (simp add: promise_def intents_wf_def intents_le_def)

lemma promise_same: "intents b = intents a \<Longrightarrow> promise a b"
  using promise_cong [of a a b a] by simp

section \<open>The steps\<close>

lemma insert_case_Inr:
  assumes "insert_case a s = Inr s'"
  shows "as_id a \<notin> as_id ` set (assistances s) \<and> (is_open a \<longrightarrow> \<not> has_open_assistance (as_visit a) s) \<and>
    s' = s\<lparr>assistances := assistances s @ [a]\<rparr>"
  using assms by (auto simp: insert_case_def split: if_splits)

definition case_event ::
  "assist_env \<Rightarrow> instance_row \<Rightarrow> uuid \<Rightarrow> string \<Rightarrow> event_row \<Rightarrow> bool" where
  "case_event env w actor etype e \<longleftrightarrow>
     ev_id e = ae_event env \<and> ev_instance e = wi_id w \<and> ev_command e = ae_command env \<and> ev_type e = etype \<and>
     ev_effect e = None \<and> ev_source_visit e = wi_current_visit w \<and> ev_target_visit e = wi_current_visit w \<and>
     ev_old e = wi_state_version w \<and> ev_new e = wi_state_version w + 1 \<and> ev_sequence e = ev_new e \<and>
     is_i32 (wi_state_version w + 1) \<and> ev_actor e = actor"

lemma increment_frame:
  assumes inc: "increment_instance_and_event env w cid actor c etype previous new_status dig review s = Inr (version, s')"
    and cid: "cid = ae_command env" and w: "w \<in> set (instances s)" and d: "distinct (map wi_id (instances s))"
  shows "version = wi_state_version w + 1 \<and> wi_current_visit w \<noteq> None \<and>
    (\<exists>e. case_event env w actor etype e \<and>
       s' = s\<lparr>instances := map (\<lambda>x. if wi_id x = wi_id w then bumped w else x) (instances s), events := events s @ [e]\<rparr>)"
proof -
  let ?new = "as_i32 (wi_state_version w + 1)"
  let ?data = "case_event_data (ae_lib env) c previous new_status dig review"
  let ?e = "\<lambda>v dg. \<lparr>ev_id = ae_event env, ev_instance = wi_id w, ev_sequence = ?new, ev_command = cid,
                  ev_type = etype, ev_effect = None, ev_source_visit = Some v, ev_target_visit = Some v,
                  ev_context = Some (wi_context w), ev_submission = None, ev_data = ?data,
                  ev_digest = dg, ev_actor = actor, ev_from = visit_node v s, ev_to = visit_node v s,
                  ev_old = wi_state_version w, ev_new = ?new\<rparr>"
  from inc obtain s1 v dg s2 where
    u: "update_at_version (A_InternalConsistency ''assistance state-version update affected unexpected row count'')
                (wi_id w) (wi_state_version w) (\<lambda>x. x\<lparr>wi_state_version := ?new\<rparr>) s = Inr s1"
    and v: "wi_current_visit w = Some v" and ev: "append_event (?e v dg) s1 = Inr s2"
    and fin: "(Inr (?new, s2) :: (assistance_error, int \<times> store) res) = Inr (version, s')"
    unfolding increment_instance_and_event_def Let_def andThen_eq_Inr map_sum_eq_Inr ok_or_eq_Inr
    by (elim exE conjE) (rule that, assumption+)
  define e where "e = ?e v dg"
  have e: "case_event env w actor etype e \<longleftrightarrow> ?new = wi_state_version w + 1 \<and> is_i32 (wi_state_version w + 1)"
    "ev_old e = wi_state_version w" "ev_new e = ?new" by (auto simp: e_def case_event_def v cid)
  note ev = ev [folded e_def]
  have new: "?new = wi_state_version w + 1" using event_versions [OF ev e(2,3)] .
  have s1: "s1 = s\<lparr>instances := map (\<lambda>x. if wi_id x = wi_id w \<and> wi_state_version x = wi_state_version w
      then x\<lparr>wi_state_version := ?new\<rparr> else x) (instances s)\<rparr>"
    by (rule update_at_version_frame [OF u])
  have row: "map (\<lambda>x. if wi_id x = wi_id w \<and> wi_state_version x = wi_state_version w
      then x\<lparr>wi_state_version := ?new\<rparr> else x) (instances s) =
    map (\<lambda>x. if wi_id x = wi_id w then bumped w else x) (instances s)"
    using update_row [OF d w refl, of "\<lambda>x. x\<lparr>wi_state_version := ?new\<rparr>"] by (simp add: bumped_def new)
  have "s' = s\<lparr>instances := map (\<lambda>x. if wi_id x = wi_id w then bumped w else x) (instances s), events := events s @ [e]\<rparr>"
    using append_event_frame [OF ev] fin unfolding s1 row by simp
  then show ?thesis using e new fin v as_i32_range [of "wi_state_version w + 1"] by auto
qed

lemma increment_wf [wf_step]:
  assumes "increment_instance_and_event env w cid actor c etype previous new_status dig review s = Inr (version, s')"
    and "store_wf s"
  shows "store_wf s'"
  using assms unfolding increment_instance_and_event_def Let_def andThen_eq_Inr map_sum_eq_Inr
  by (auto dest!: wf_step append_event_wf)

lemma update_case_frame:
  assumes "update_case action c act s = Inr s'"
  shows "\<exists>f. s' = s\<lparr>assistances := map f (assistances s)\<rparr>"
  using assms by (auto simp: update_case_def Let_def split: if_splits)

section \<open>Requests\<close>

definition requested_case :: "assist_env \<Rightarrow> request_command \<Rightarrow> json \<Rightarrow> string \<Rightarrow> assistance_row" where
  "requested_case env cmd payload dig =
     \<lparr>as_id = ae_case env, as_instance = rq_instance cmd, as_visit = rq_visit cmd, as_status = ''OWNER_PENDING'',
      as_requester = rq_principal cmd, as_payload = payload, as_digest = dig, as_command = ae_command env,
      as_escalation = None, as_resolution = None, as_void = None, as_created = ae_now env\<rparr>"

definition requested_answer :: "assist_env \<Rightarrow> request_command \<Rightarrow> instance_row \<Rightarrow> assistance_result" where
  "requested_answer env cmd w =
     \<lparr>ar_case = ae_case env, ar_instance = rq_instance cmd, ar_visit = rq_visit cmd, ar_status = OwnerPending,
      ar_version = wi_state_version w + 1, ar_sequence = wi_state_version w + 1, ar_created = ae_now env,
      ar_replayed = False\<rparr>"

text \<open>Who may request help, and when.\<close>

definition requestable :: "request_command \<Rightarrow> instance_row \<Rightarrow> uuid \<Rightarrow> store \<Rightarrow> bool" where
  "requestable cmd w owner s \<longleftrightarrow>
     find_instance_row (rq_instance cmd) s = Some w \<and> wi_state_version w = rq_expected cmd \<and>
     wi_current_visit w = Some (rq_visit cmd) \<and> \<not> wi_cancelled w \<and> \<not> wi_archived w \<and>
     current_node_type w s \<noteq> Some ''TERMINAL'' \<and> principal_enabled (rq_principal cmd) s = Some True \<and>
     current_assignee w s = Some (rq_principal cmd) \<and> effective_owner (wi_domain w) s = Inr owner \<and>
     \<not> has_open_assistance (rq_visit cmd) s"

lemma keep_Inr [simp]: "keep r = Inr x \<longleftrightarrow> r = Inr x"
  by (simp add: keep_def map_sum_eq_Inr)

lemma drop_error_Inr [simp]: "drop_error r = Inr x \<longleftrightarrow> r = Inr x"
  by (simp add: drop_error_def map_sum_eq_Inr)

lemma lib_error_eq_Inr [simp]: "lib_error r = Inr x \<longleftrightarrow> r = Inr x"
  by (cases r) (simp_all add: lib_error_def)

lemma sql_error_eq_Inr [simp]: "sql_error r = Inr x \<longleftrightarrow> r = Inr x"
  by (cases r) (simp_all add: sql_error_def)

lemma request_checkedD:
  assumes "request_checked env cmd s = Inr (payload, dig, w, owner)"
  shows "requestable cmd w owner s \<and> validate_payload (ae_lib env) (rq_payload cmd) = Inr payload \<and>
    json_digest (ae_lib env) payload = Inr dig"
  using assms
  by (auto simp: request_checked_def requestable_def andThen_eq_Inr result_simps request_lifecycle_def
      validate_actor_enabled_def request_assignee_def request_open_case_def split: if_splits option.splits bool.splits)

lemma requestable_receipts [simp]: "requestable cmd w owner (s\<lparr>receipts := rs\<rparr>) = requestable cmd w owner s"
  by (simp add: requestable_def current_assignee_def effective_owner_def)

text \<open>Everything an accepted request writes.\<close>

definition request_effect ::
  "assist_env \<Rightarrow> request_command \<Rightarrow> string \<Rightarrow> instance_row \<Rightarrow> store \<Rightarrow> assistance_result \<Rightarrow> store \<Rightarrow> bool" where
  "request_effect env cmd hash w s r s' \<longleftrightarrow>
     r = requested_answer env cmd w \<and> ae_case env \<notin> as_id ` set (assistances s) \<and>
     (\<exists>payload dig e is ob fb d.
        validate_payload (ae_lib env) (rq_payload cmd) = Inr payload \<and> json_digest (ae_lib env) payload = Inr dig \<and>
        case_event env w (rq_principal cmd) ''ASSISTANCE_REQUESTED'' e \<and> promise s s' \<and>
        s' = s\<lparr>assistances := assistances s @ [requested_case env cmd payload dig],
               instances := map (\<lambda>x. if wi_id x = rq_instance cmd then bumped w else x) (instances s),
               events := events s @ [e], intents := is, outbox := ob, forum_bindings := fb,
               receipts := receipts s @ [answered_row ''REQUEST_WORKFLOW_ASSISTANCE'' (ae_command env) (rq_principal cmd)
                 (rq_key cmd) hash 201 (assistance_body env r) d]\<rparr>)"

lemma woken_or_handled:
  assumes "(if handled then Inr s4 else sql_error (queue_owner_assistance_wake sh now oid i v c ow r s4)) = Inr s5"
  shows "\<exists>ob. s5 = s4\<lparr>outbox := ob\<rparr>"
proof (cases handled)
  case True
  with assms show ?thesis by (intro exI [of _ "outbox s4"]) simp
next
  case False
  with assms queue_wake_frame show ?thesis by (metis sql_error_eq_Inr)
qed

lemma request_written_effect:
  assumes wr: "request_written env cid cmd payload dig w owner s1 = Inr (r, s')" and cid: "cid = ae_command env"
    and ok: "requestable cmd w owner s" and wf: "store_wf s"
    and p: "validate_payload (ae_lib env) (rq_payload cmd) = Inr payload" "json_digest (ae_lib env) payload = Inr dig"
    and fresh: "fresh_key cid (rq_principal cmd) (rq_key cmd) s"
    and s1: "s1 = s\<lparr>receipts := receipts s @ [processing_row ''REQUEST_WORKFLOW_ASSISTANCE'' cid (rq_principal cmd) (rq_key cmd) hash]\<rparr>"
  shows "request_effect env cmd hash w s r s' \<and> store_wf s'"
proof -
  let ?c = "requested_case env cmd payload dig"
  from ok have w: "w \<in> set (instances s)" "wi_id w = rq_instance cmd"
    by (auto simp: requestable_def dest!: find_instance_row)
  from wr obtain s2 version s3 s4 handled s5 s6 s7 fid fkey fp where
    c: "insert_case ?c s1 = Inr s2"
    and inc: "increment_instance_and_event env w cid (rq_principal cmd) (ae_case env) ''ASSISTANCE_REQUESTED'' None
                 ''OWNER_PENDING'' dig None s2 = Inr (version, s3)"
    and q: "queue_forum_event (ae_now env) fid (rq_instance cmd) fkey fp s3 = Inr s4"
    and i: "request_intent (ae_intent env) (ae_case env) cid s4 = Inr (handled, s5)"
    and o1: "(if handled then Inr s5 else sql_error (queue_owner_assistance_wake (show_uuid (ae_lib env)) (ae_now env)
               (ae_wake_row env) (rq_instance cmd) (rq_visit cmd) (ae_case env) owner ''ASSISTANCE_REQUESTED'' s5)) = Inr s6"
    and cm: "assist_complete (ae_lib env) cid 201 (assistance_body env \<lparr>ar_case = ae_case env, ar_instance = rq_instance cmd,
        ar_visit = rq_visit cmd, ar_status = OwnerPending, ar_version = version, ar_sequence = version,
        ar_created = ae_now env, ar_replayed = False\<rparr>) s6 = Inr s7"
    and fin: "r = \<lparr>ar_case = ae_case env, ar_instance = rq_instance cmd,
        ar_visit = rq_visit cmd, ar_status = OwnerPending, ar_version = version, ar_sequence = version,
        ar_created = ae_now env, ar_replayed = False\<rparr>" "s7 = s'"
    unfolding request_written_def Let_def andThen_eq_Inr sql_error_eq_Inr requested_case_def cid
    by (auto simp: andThen_eq_Inr)
  from insert_case_Inr [OF c] have new: "ae_case env \<notin> as_id ` set (assistances s)"
    and s2: "s2 = s1\<lparr>assistances := assistances s1 @ [?c]\<rparr>" by (auto simp: requested_case_def s1)
  have "w \<in> set (instances s2)" "distinct (map wi_id (instances s2))" using w wf by (simp_all add: s2 s1 store_wf_def)
  from increment_frame [OF inc cid this] obtain e where v: "version = wi_state_version w + 1"
    and e: "case_event env w (rq_principal cmd) ''ASSISTANCE_REQUESTED'' e"
    and s3: "s3 = s2\<lparr>instances := map (\<lambda>x. if wi_id x = rq_instance cmd then bumped w else x) (instances s2),
                     events := events s2 @ [e]\<rparr>" using w by auto
  obtain ob fb where s4: "s4 = s3\<lparr>outbox := ob, forum_bindings := fb\<rparr>" using queue_forum_event_frame [OF q] by blast
  obtain js where s5: "s5 = s4\<lparr>intents := js\<rparr>" using request_intent_frame [OF i] by blast
  obtain ob2 where s6: "s6 = s5\<lparr>outbox := ob2\<rparr>" using woken_or_handled [OF o1] by blast
  have r: "r = requested_answer env cmd w" by (simp add: fin requested_answer_def v)
  have rs: "receipts s6 = receipts s @ [processing_row ''REQUEST_WORKFLOW_ASSISTANCE'' cid (rq_principal cmd) (rq_key cmd) hash]"
    by (simp add: s6 s5 s4 s3 s2 s1)
  have nw: "cid \<notin> rc_command ` set (receipts s)" using fresh by (simp add: fresh_key_def)
  from complete_by_new [OF cm [unfolded assist_complete_def fin(2), folded fin(1)] nw rs] obtain d where
    s': "s' = s6\<lparr>receipts := receipts s @ [answered_row ''REQUEST_WORKFLOW_ASSISTANCE'' cid (rq_principal cmd) (rq_key cmd)
        hash 201 (assistance_body env r) d]\<rparr>" ..
  have "promise s s'"
    using request_intent_promise [OF i] promise_cong [of s s4 s' s5] by (simp add: s' s6 s5 s4 s3 s2 s1)
  moreover have "s' = s\<lparr>assistances := assistances s @ [?c],
               instances := map (\<lambda>x. if wi_id x = rq_instance cmd then bumped w else x) (instances s),
               events := events s @ [e], intents := js, outbox := ob2, forum_bindings := fb,
               receipts := receipts s @ [answered_row ''REQUEST_WORKFLOW_ASSISTANCE'' cid (rq_principal cmd)
                 (rq_key cmd) hash 201 (assistance_body env r) d]\<rparr>"
    by (simp add: s' s6 s5 s4 s3 s2 s1)
  ultimately have "request_effect env cmd hash w s r s'" using r new p e unfolding request_effect_def cid by blast
  moreover have "store_wf s2" using processing_row_wf [OF wf fresh] by (simp add: s2 s1 store_wf_other)
  then have "store_wf s3" using increment_wf [OF inc] by simp
  then have "store_wf s6" by (simp add: s6 s5 s4 store_wf_other)
  then have "store_wf s'" using complete_by_wf [OF cm [unfolded assist_complete_def fin(2)]] by simp
  ultimately show ?thesis by simp
qed

section \<open>Stored failures\<close>

lemma assist_failure_frame:
  assumes "assist_failure env cid err s0 s1 = (res, s')" and fresh: "fresh_key cid p key s0"
    and s1: "s1 = s0\<lparr>receipts := receipts s0 @ [processing_row ctype cid p key hash]\<rparr>"
  shows "only_answers s0 s' \<and> \<not> is_ok res"
proof (cases "assist_complete (ae_lib env) cid (assistance_status_code err) (assistance_error_body err) s1")
  case (Inl e)
  with assms(1) only_answers_refl show ?thesis by (auto simp: assist_failure_def is_ok_def)
next
  case (Inr s2)
  have rs: "receipts s1 = receipts s0 @ [processing_row ctype cid p key hash]" by (simp add: s1)
  have new: "cid \<notin> rc_command ` set (receipts s0)" using fresh by (simp add: fresh_key_def)
  from complete_by_new [OF Inr [unfolded assist_complete_def] new rs] obtain d where s2: "s2 = s1\<lparr>receipts := receipts s0 @
      [answered_row ctype cid p key hash (assistance_status_code err) (assistance_error_body err) d]\<rparr>" ..
  have "only_answers s0 s2" using only_answers_row [OF fresh, where au = "[]"] by (simp add: s2 s1)
  with assms(1) Inr only_answers_refl show ?thesis
    by (auto simp: assist_failure_def finish_def is_ok_def split: option.splits)
qed

lemma request_ends [consumes 2, case_names quiet requested]:
  assumes "request_assistance env cmd hash s = (res, s')" and "store_wf s"
  obtains
    "only_answers s s'" "\<And>r. res = Inr r \<Longrightarrow> ar_replayed r"
  | w owner r where "res = Inr r" "fresh_key (ae_command env) (rq_principal cmd) (rq_key cmd) s"
      "requestable cmd w owner s" "request_effect env cmd hash w s r s'" "store_wf s'"
proof (cases "assist_acquire ''REQUEST_WORKFLOW_ASSISTANCE'' (ae_command env) (rq_principal cmd) (rq_key cmd) hash s")
  case (Inl e)
  with assms(1) only_answers_refl show ?thesis by (intro that(1)) (auto simp: request_assistance_def)
next
  case (Inr x)
  obtain acq s1 where x: "x = (acq, s1)" by (cases x)
  note acquired = Inr [unfolded x assist_acquire_def]
  show ?thesis
  proof (cases "\<exists>c. acq = Acq_Owned c")
    case False
    then have s1: "s1 = s" using acquire_by_taken [OF acquired] by blast
    show ?thesis
      using assms(1) False acquired only_answers_refl
      by (intro that(1))
         (auto simp: request_assistance_def assist_acquire_def s1 finish_def assist_replay_def Let_def
           split: acquire_result.splits option.splits if_splits)
  next
    case True
    then obtain c where c: "acq = Acq_Owned c" ..
    from acquire_by_owned [OF acquired [unfolded c]] c have acq: "acq = Acq_Owned (ae_command env)"
      and fresh: "fresh_key (ae_command env) (rq_principal cmd) (rq_key cmd) s"
      and s1: "s1 = s\<lparr>receipts := receipts s @ [processing_row ''REQUEST_WORKFLOW_ASSISTANCE'' (ae_command env) (rq_principal cmd) (rq_key cmd) hash]\<rparr>"
      by auto
    have body: "(case request_checked env cmd s1 of
             Inl (Keep e) \<Rightarrow> assist_failure env (ae_command env) e s s1
           | Inl (Drop e) \<Rightarrow> (Inl e, s)
           | Inr (payload, dig, w, owner) \<Rightarrow>
               (case request_written env (ae_command env) cmd payload dig w owner s1 of
                  Inl e \<Rightarrow> (Inl e, s)
                | Inr (r, s2) \<Rightarrow> finish A_StorageError (ae_commit env) (Inr r) s s2)) = (res, s')"
      using assms(1) Inr unfolding request_assistance_def Let_def by (simp add: x acq)
    show ?thesis
    proof (cases "\<exists>payload dig w owner r s2. request_checked env cmd s1 = Inr (payload, dig, w, owner) \<and>
        request_written env (ae_command env) cmd payload dig w owner s1 = Inr (r, s2) \<and> ae_commit env = None")
      case True
      then obtain payload dig w owner r where ch: "request_checked env cmd s1 = Inr (payload, dig, w, owner)"
        and wr: "request_written env (ae_command env) cmd payload dig w owner s1 = Inr (r, s')" and res: "res = Inr r"
        using body by (auto simp: finish_def)
      from request_checkedD [OF ch] have ok: "requestable cmd w owner s"
        and p: "validate_payload (ae_lib env) (rq_payload cmd) = Inr payload" "json_digest (ae_lib env) payload = Inr dig"
        by (simp_all add: s1)
      from request_written_effect [OF wr refl ok assms(2) p fresh s1] show ?thesis
        by (intro that(2) [OF res fresh ok]) simp_all
    next
      case False
      have kept: "only_answers s s' \<and> \<not> is_ok res"
        if "request_checked env cmd s1 = Inl (Keep e)" for e
        by (rule assist_failure_frame [OF _ fresh s1]) (use body that in simp)
      from False show ?thesis
        using body kept only_answers_refl
        by (intro that(1)) (auto simp: finish_def split: sum.splits assist_stop.splits if_splits option.splits prod.splits)
    qed
  qed
qed

section \<open>Escalations and resolutions\<close>

text \<open>The change of a case by its owner, from the statuses the action allows.\<close>

definition allows :: "owner_action \<Rightarrow> assistance_row \<Rightarrow> bool" where
  "allows action a \<longleftrightarrow> (case action of Escalate _ \<Rightarrow> as_status a = ''OWNER_PENDING'' | Resolve _ \<Rightarrow> is_open a)"

definition acted :: "owner_action \<Rightarrow> case_action \<Rightarrow> assistance_row \<Rightarrow> assistance_row" where
  "acted action act a =
     (case action of Escalate _ \<Rightarrow> a\<lparr>as_status := ''HUMAN_REQUIRED'', as_escalation := Some act\<rparr>
                   | Resolve _ \<Rightarrow> a\<lparr>as_status := ''RESOLVED'', as_resolution := Some act\<rparr>)"

lemma update_case_Inr:
  assumes "update_case action c act s = Inr s'"
  shows "s' = s\<lparr>assistances := map (\<lambda>a. if as_id a = c \<and> allows action a then acted action act a else a) (assistances s)\<rparr>"
  using assms by (cases action) (auto simp: update_case_def Let_def allows_def acted_def split: if_splits)

text \<open>Which owner may act on which case.\<close>

definition actionable :: "uuid \<Rightarrow> owner_command \<Rightarrow> owner_action \<Rightarrow> instance_row \<Rightarrow> assistance_row \<Rightarrow> store \<Rightarrow> bool" where
  "actionable cid cmd action w a s \<longleftrightarrow>
     require_effect (oc_case cmd) cid s = Inr () \<and> a \<in> set (assistances s) \<and> as_id a = oc_case cmd \<and>
     find_instance_row (as_instance a) s = Some w \<and> wi_state_version w = oc_expected cmd \<and>
     wi_current_visit w = Some (as_visit a) \<and> principal_enabled (oc_principal cmd) s = Some True \<and>
     effective_owner (wi_domain w) s = Inr (oc_principal cmd) \<and> allows action a"

lemma owner_checkedD:
  assumes "owner_checked env cid cmd action s = Inr (payload, dig, w, a, review)"
  shows "actionable cid cmd action w a s \<and> validate_payload (ae_lib env) (action_payload action) = Inr payload \<and>
    json_digest (ae_lib env) payload = Inr dig"
  using assms
  by (cases action)
     (auto simp: owner_checked_def actionable_def andThen_eq_Inr result_simps load_case_def find_Some_iff
      validate_actor_enabled_def owner_actor_def owner_case_def allows_def is_open_def
      split: if_splits option.splits bool.splits)

definition action_answer :: "owner_action \<Rightarrow> instance_row \<Rightarrow> assistance_row \<Rightarrow> assistance_result" where
  "action_answer action w a =
     \<lparr>ar_case = as_id a, ar_instance = as_instance a, ar_visit = as_visit a, ar_status = action_status action,
      ar_version = wi_state_version w + 1, ar_sequence = wi_state_version w + 1, ar_created = as_created a,
      ar_replayed = False\<rparr>"

definition owner_effect ::
  "assist_env \<Rightarrow> owner_command \<Rightarrow> owner_action \<Rightarrow> string \<Rightarrow> instance_row \<Rightarrow> assistance_row \<Rightarrow> store \<Rightarrow>
     assistance_result \<Rightarrow> store \<Rightarrow> bool" where
  "owner_effect env cmd action hash w a s r s' \<longleftrightarrow>
     r = action_answer action w a \<and>
     (\<exists>payload dig e ob fb d.
        validate_payload (ae_lib env) (action_payload action) = Inr payload \<and>
        json_digest (ae_lib env) payload = Inr dig \<and> case_event env w (oc_principal cmd) (action_event action) e \<and>
        s' = s\<lparr>assistances := map (\<lambda>x. if as_id x = oc_case cmd \<and> allows action x
                 then acted action \<lparr>ca_by = oc_principal cmd, ca_payload = payload, ca_digest = dig,
                        ca_command = ae_command env, ca_at = ae_now env\<rparr> x else x) (assistances s),
               instances := map (\<lambda>x. if wi_id x = as_instance a then bumped w else x) (instances s),
               events := events s @ [e], outbox := ob, forum_bindings := fb,
               receipts := receipts s @ [answered_row (action_command action) (ae_command env) (oc_principal cmd)
                 (oc_key cmd) hash 200 (assistance_body env r) d]\<rparr>)"

lemma actionable_receipts [simp]: "actionable cid cmd action w a (s\<lparr>receipts := rs\<rparr>) = actionable cid cmd action w a s"
  by (simp add: actionable_def require_effect_def require_effect_for_command_def has_intake_def effective_owner_def)

lemma owner_action_frame:
  assumes tx: "owner_action_on_tx env cid cmd action s = Inr (r, s')" and cid: "cid = ae_command env"
    and d: "distinct (map wi_id (instances s))"
  shows "\<exists>w a payload dig e ob fb. actionable cid cmd action w a s \<and> r = action_answer action w a \<and>
    validate_payload (ae_lib env) (action_payload action) = Inr payload \<and> json_digest (ae_lib env) payload = Inr dig \<and>
    case_event env w (oc_principal cmd) (action_event action) e \<and>
    s' = s\<lparr>assistances := map (\<lambda>x. if as_id x = oc_case cmd \<and> allows action x
                 then acted action \<lparr>ca_by = oc_principal cmd, ca_payload = payload, ca_digest = dig,
                        ca_command = cid, ca_at = ae_now env\<rparr> x else x) (assistances s),
           instances := map (\<lambda>x. if wi_id x = as_instance a then bumped w else x) (instances s),
           events := events s @ [e], outbox := ob, forum_bindings := fb\<rparr>"
proof -
  from tx obtain payload dig w a review s1 version s2 s3 fid fkey fp where
    ch: "owner_checked env cid cmd action s = Inr (payload, dig, w, a, review)"
    and u: "update_case action (oc_case cmd) \<lparr>ca_by = oc_principal cmd, ca_payload = payload, ca_digest = dig,
                 ca_command = cid, ca_at = ae_now env\<rparr> s = Inr s1"
    and inc: "increment_instance_and_event env w cid (oc_principal cmd) (oc_case cmd) (action_event action)
                 (Some (as_status a)) (case_status_to_string (action_status action)) dig review s1 = Inr (version, s2)"
    and q: "queue_forum_event (ae_now env) fid (as_instance a) fkey fp s2 = Inr s3"
    and fin: "r = \<lparr>ar_case = as_id a, ar_instance = as_instance a, ar_visit = as_visit a,
              ar_status = action_status action, ar_version = version, ar_sequence = version,
              ar_created = as_created a, ar_replayed = False\<rparr>" "s3 = s'"
    unfolding owner_action_on_tx_def Let_def andThen_eq_Inr sql_error_eq_Inr
    by (auto simp: andThen_eq_Inr)
  note c = owner_checkedD [OF ch]
  then have w: "w \<in> set (instances s)" "wi_id w = as_instance a" by (auto simp: actionable_def dest!: find_instance_row)
  note s1 = update_case_Inr [OF u]
  have "w \<in> set (instances s1)" "distinct (map wi_id (instances s1))" using w d by (simp_all add: s1)
  from increment_frame [OF inc cid this] obtain e where v: "version = wi_state_version w + 1"
    and e: "case_event env w (oc_principal cmd) (action_event action) e"
    and s2: "s2 = s1\<lparr>instances := map (\<lambda>x. if wi_id x = as_instance a then bumped w else x) (instances s1),
                     events := events s1 @ [e]\<rparr>" using w by auto
  obtain ob fb where s3: "s3 = s2\<lparr>outbox := ob, forum_bindings := fb\<rparr>" using queue_forum_event_frame [OF q] by blast
  have s': "s' = s\<lparr>assistances := map (\<lambda>x. if as_id x = oc_case cmd \<and> allows action x
                 then acted action \<lparr>ca_by = oc_principal cmd, ca_payload = payload, ca_digest = dig,
                        ca_command = cid, ca_at = ae_now env\<rparr> x else x) (assistances s),
           instances := map (\<lambda>x. if wi_id x = as_instance a then bumped w else x) (instances s),
           events := events s @ [e], outbox := ob, forum_bindings := fb\<rparr>"
    unfolding fin(2) [symmetric] s3 s2 s1 by simp
  have "r = action_answer action w a" by (simp add: fin action_answer_def v)
  with c e s' show ?thesis by blast
qed

lemma owner_action_wf:
  assumes "owner_action_on_tx env cid cmd action s = Inr (r, s')" and "store_wf s"
  shows "store_wf s'"
proof -
  have u: "store_wf s2" if "update_case action c act s1 = Inr s2" "store_wf s1" for c act s1 s2
    using update_case_frame [OF that(1)] that(2) by (auto simp: store_wf_other)
  show ?thesis
    using assms unfolding owner_action_on_tx_def Let_def andThen_eq_Inr sql_error_eq_Inr
    by (auto simp: andThen_eq_Inr dest!: wf_step u)
qed

lemma owner_ends [consumes 2, case_names quiet acted]:
  assumes "owner_action_command env cmd action hash s = (res, s')" and "store_wf s"
  obtains
    "only_answers s s'" "\<And>r. res = Inr r \<Longrightarrow> ar_replayed r"
  | w a r where "res = Inr r" "fresh_key (ae_command env) (oc_principal cmd) (oc_key cmd) s"
      "actionable (ae_command env) cmd action w a s" "owner_effect env cmd action hash w a s r s'" "store_wf s'"
proof (cases "assist_acquire (action_command action) (ae_command env) (oc_principal cmd) (oc_key cmd) hash s")
  case (Inl e)
  with assms(1) only_answers_refl show ?thesis by (intro that(1)) (auto simp: owner_action_command_def)
next
  case (Inr x)
  obtain acq s1 where x: "x = (acq, s1)" by (cases x)
  note acquired = Inr [unfolded x assist_acquire_def]
  show ?thesis
  proof (cases "\<exists>c. acq = Acq_Owned c")
    case False
    then have s1: "s1 = s" using acquire_by_taken [OF acquired] by blast
    show ?thesis
      using assms(1) False acquired only_answers_refl
      by (intro that(1))
         (auto simp: owner_action_command_def assist_acquire_def s1 finish_def assist_replay_def Let_def
           split: acquire_result.splits option.splits if_splits)
  next
    case True
    let ?cid = "ae_command env"
    from True obtain c where c: "acq = Acq_Owned c" ..
    from acquire_by_owned [OF acquired [unfolded c]] c have acq: "acq = Acq_Owned ?cid"
      and fresh: "fresh_key ?cid (oc_principal cmd) (oc_key cmd) s"
      and s1: "s1 = s\<lparr>receipts := receipts s @ [processing_row (action_command action) ?cid (oc_principal cmd) (oc_key cmd) hash]\<rparr>"
      by auto
    have body: "(case owner_action_on_tx env ?cid cmd action s1 of
             Inr (r, s2) \<Rightarrow>
               (case assist_complete (ae_lib env) ?cid 200 (assistance_body env r) s2 of
                  Inl e \<Rightarrow> (Inl e, s)
                | Inr s3 \<Rightarrow> finish A_StorageError (ae_commit env) (Inr r) s s3)
           | Inl e \<Rightarrow> if infrastructure_error e then (Inl e, s) else assist_failure env ?cid e s s1) = (res, s')"
      using assms(1) Inr unfolding owner_action_command_def Let_def by (simp add: x acq)
    show ?thesis
    proof (cases "\<exists>r s2 s3. owner_action_on_tx env ?cid cmd action s1 = Inr (r, s2) \<and>
        assist_complete (ae_lib env) ?cid 200 (assistance_body env r) s2 = Inr s3 \<and> ae_commit env = None")
      case True
      then obtain r s2 where tx: "owner_action_on_tx env ?cid cmd action s1 = Inr (r, s2)"
        and cm: "assist_complete (ae_lib env) ?cid 200 (assistance_body env r) s2 = Inr s'" and res: "res = Inr r"
        using body by (auto simp: finish_def)
      have wf1: "store_wf s1" using processing_row_wf [OF assms(2) fresh] by (simp add: s1)
      then have "distinct (map wi_id (instances s1))" by (simp add: store_wf_def)
      from owner_action_frame [OF tx refl this] obtain w a payload dig e ob fb where
        ok: "actionable ?cid cmd action w a s" and r: "r = action_answer action w a"
        and p: "validate_payload (ae_lib env) (action_payload action) = Inr payload" "json_digest (ae_lib env) payload = Inr dig"
        and e: "case_event env w (oc_principal cmd) (action_event action) e"
        and s2: "s2 = s1\<lparr>assistances := map (\<lambda>x. if as_id x = oc_case cmd \<and> allows action x
                 then acted action \<lparr>ca_by = oc_principal cmd, ca_payload = payload, ca_digest = dig,
                        ca_command = ?cid, ca_at = ae_now env\<rparr> x else x) (assistances s1),
           instances := map (\<lambda>x. if wi_id x = as_instance a then bumped w else x) (instances s1),
           events := events s1 @ [e], outbox := ob, forum_bindings := fb\<rparr>" by (auto simp: s1)
      have rs: "receipts s2 = receipts s @ [processing_row (action_command action) ?cid (oc_principal cmd) (oc_key cmd) hash]"
        by (simp add: s2 s1)
      have new: "?cid \<notin> rc_command ` set (receipts s)" using fresh by (simp add: fresh_key_def)
      from complete_by_new [OF cm [unfolded assist_complete_def] new rs] obtain d where
        s': "s' = s2\<lparr>receipts := receipts s @ [answered_row (action_command action) ?cid (oc_principal cmd) (oc_key cmd)
          hash 200 (assistance_body env r) d]\<rparr>" ..
      have "owner_effect env cmd action hash w a s r s'"
        unfolding owner_effect_def by (intro conjI exI) (rule r, rule p, rule p, rule e, simp add: s' s2 s1)
      moreover have "store_wf s'"
        using complete_by_wf [OF cm [unfolded assist_complete_def]] owner_action_wf [OF tx wf1] by simp
      ultimately show ?thesis by (intro that(2) [OF res fresh ok])
    next
      case False
      have kept: "only_answers s s' \<and> \<not> is_ok res"
        if "owner_action_on_tx env ?cid cmd action s1 = Inl e" "\<not> infrastructure_error e" for e
        by (rule assist_failure_frame [OF _ fresh s1]) (use body that in simp)
      from False show ?thesis
        using body kept only_answers_refl
        by (intro that(1)) (auto simp: finish_def split: sum.splits if_splits option.splits prod.splits)
    qed
  qed
qed

end
