(* ===== verification/Case_Keys.thy ===== *)
theory Case_Keys
  imports Assistance_Facts
begin

text \<open>
  Two tables through whole commands: the keys of the assistance cases (one id, one open case per visit)
  and the promise of the responsibility intents hold after every step that held before it.
\<close>

named_theorems sound_step \<open>steps that keep the keys of the cases and the promise of the intents\<close>

section \<open>Keys\<close>

definition rivals :: "assistance_row \<Rightarrow> assistance_row \<Rightarrow> bool" where
  "rivals a b \<longleftrightarrow> as_visit a = as_visit b \<and> is_open a \<and> is_open b"

definition case_keys :: "assistance_row list \<Rightarrow> bool" where
  "case_keys as \<longleftrightarrow> distinct (map as_id as) \<and> sorted_wrt (\<lambda>a b. \<not> rivals a b) as"

lemma case_keys_append:
  assumes "case_keys (assistances s)" and "as_id a \<notin> as_id ` set (assistances s)"
    and "is_open a \<longrightarrow> \<not> has_open_assistance (as_visit a) s"
  shows "case_keys (assistances s @ [a])"
  using assms by (auto simp: case_keys_def sorted_wrt_append rivals_def has_open_assistance_def list_ex_iff)

text \<open>A change that opens no case keeps the keys.\<close>

lemma case_keys_map:
  assumes "case_keys as" and "\<And>a. as_id (f a) = as_id a \<and> as_visit (f a) = as_visit a \<and> (is_open (f a) \<longrightarrow> is_open a)"
  shows "case_keys (map f as)"
  unfolding case_keys_def
proof
  have "map as_id (map f as) = map as_id as" using assms(2) by simp
  then show "distinct (map as_id (map f as))" using assms(1) by (simp only: case_keys_def)
  show "sorted_wrt (\<lambda>a b. \<not> rivals a b) (map f as)"
    by (rule sorted_wrt_update) (use assms in \<open>auto simp: case_keys_def rivals_def\<close>)
qed

section \<open>Steps\<close>

definition sound_from :: "store \<Rightarrow> store \<Rightarrow> bool" where
  "sound_from t s \<longleftrightarrow> promise t s \<and> (case_keys (assistances t) \<longrightarrow> case_keys (assistances s))"

lemma sound_refl [simp]: "sound_from s s"
  by (simp add: sound_from_def)

lemma sound_frame:
  "sound_from t s \<Longrightarrow> intents s' = intents s \<Longrightarrow> assistances s' = assistances s \<Longrightarrow> sound_from t s'"
  by (simp add: sound_from_def promise_def intents_wf_def intents_le_def)

lemma sound_intents:
  "promise s s' \<Longrightarrow> assistances s' = assistances s \<Longrightarrow> sound_from t s \<Longrightarrow> sound_from t s'"
  by (auto simp: sound_from_def intro: promise_trans)

lemma sound_case [sound_step]: "insert_case a s = Inr s' \<Longrightarrow> sound_from t s \<Longrightarrow> sound_from t s'"
  using insert_case_Inr [of a s s'] case_keys_append [of s a] promise_cong [of t t s' s]
  by (auto simp: sound_from_def)

lemma sound_context [sound_step]: "effective_context env cmd pl s = Inr (ctx, s') \<Longrightarrow> sound_from t s \<Longrightarrow> sound_from t s'"
  by (drule effective_context_frame) (auto elim: sound_frame)

lemma sound_submission [sound_step]: "written_submission env cmd pl s = Inr s' \<Longrightarrow> sound_from t s \<Longrightarrow> sound_from t s'"
  by (drule written_submission_frame) (auto elim: sound_frame)

lemma sound_visit [sound_step]: "insert_node_visit v i n k p d s = Inr s' \<Longrightarrow> sound_from t s \<Longrightarrow> sound_from t s'"
  by (erule sound_frame; auto simp: insert_node_visit_def split: if_splits)

lemma sound_activation [sound_step]: "activated_target env cmd pl s = Inr s' \<Longrightarrow> sound_from t s \<Longrightarrow> sound_from t s'"
  by (drule activated_target_frame) (auto elim: sound_frame)

lemma sound_event [sound_step]: "written_event env cmd pl ctx s = Inr s' \<Longrightarrow> sound_from t s \<Longrightarrow> sound_from t s'"
  by (drule written_event_frame) (auto elim: sound_frame)

lemma sound_forum [sound_step]: "queue_forum_event now oid i key p s = Inr s' \<Longrightarrow> sound_from t s \<Longrightarrow> sound_from t s'"
  by (drule queue_forum_event_frame) (auto elim: sound_frame)

lemma sound_wake [sound_step]: "queue_owner_assistance_wake sh now oid i v c ow r s = Inr s' \<Longrightarrow> sound_from t s \<Longrightarrow> sound_from t s'"
  by (drule queue_wake_frame) (auto elim: sound_frame)

lemma sound_append [sound_step]: "append_event e s = Inr s' \<Longrightarrow> sound_from t s \<Longrightarrow> sound_from t s'"
  by (drule append_event_frame) (auto elim: sound_frame)

lemma sound_mint [sound_step]: "mint_request_receipt env actor key body dig s = Inr s' \<Longrightarrow> sound_from t s \<Longrightarrow> sound_from t s'"
  by (erule sound_frame; auto simp: mint_request_receipt_def split: if_splits)

lemma sound_bump [sound_step]: "bump_version i n v s = Inr s' \<Longrightarrow> sound_from t s \<Longrightarrow> sound_from t s'"
  by (erule sound_frame; auto simp: bump_version_def Let_def split: if_splits)

lemma sound_request [sound_step]: "request_intent fresh c command s = Inr (h, s') \<Longrightarrow> sound_from t s \<Longrightarrow> sound_from t s'"
  by (rule sound_intents [OF request_intent_promise]) (auto dest: request_intent_frame)

lemma sound_notify [sound_step]: "notify_owner lib env i v ow r m s = Inr s' \<Longrightarrow> sound_from t s \<Longrightarrow> sound_from t s'"
  by (auto simp: notify_owner_def andThen_eq_Inr split: if_splits dest!: sound_step)

lemma sound_stop: "sound_from t s \<Longrightarrow> sound_from t (snd (escalation_stop fresh i v c facts s))"
  using escalation_stop_frame [of fresh i v c facts s]
  by (intro sound_intents [OF escalation_stop_promise]) auto

lemma sound_open_case [sound_step]:
  "open_case lib env w visit owner actor command request supporting dg ms s = Inr (oc, s') \<Longrightarrow> sound_from t s \<Longrightarrow> sound_from t s'"
  unfolding open_case_def Let_def andThen_eq_Inr relabelled_Inr
  by (auto simp: andThen_eq_Inr relabelled_Inr dest!: sound_step)

lemma sound_escalation [sound_step]:
  assumes "open_owner_pending_visit lib env inst visit actor command msg supporting s = Inr (oc, s')"
    and "sound_from t s"
  shows "sound_from t s'"
proof -
  obtain ms s1 where stop: "escalation_stop (ee_stop env) inst visit command supporting s = (ms, s1)" by fastforce
  have s1: "sound_from t s1" using sound_stop [OF assms(2)] stop by (metis snd_conv)
  from assms(1) stop show ?thesis
    using s1 by (auto simp: open_owner_pending_visit_def Let_def andThen_eq_Inr split: if_splits option.splits dest!: sound_step)
qed

lemma sound_queued:
  assumes "terminal_hook_frame env" and "queued_facts env cmd pl s = Inr s'" and "sound_from t s"
  shows "sound_from t s'"
proof -
  have hook: "sound_from t b" if "te_terminal env i ev a = Inr b" "sound_from t a" for i ev a b
  proof (rule sound_intents [OF _ _ that(2)])
    show "promise a b" using assms(1) that(1) by (simp add: terminal_hook_frame_def)
    show "assistances b = assistances a" using terminal_hookD [OF assms(1) that(1)] by auto
  qed
  have complete: "sound_from t (complete_intents i e a)" if "sound_from t a" for i e a
    by (rule sound_intents [OF complete_intents_promise _ that])
       (simp add: complete_intents_def update_intents_def)
  show ?thesis
    using assms(2,3) unfolding queued_facts_def andThen_eq_Inr sql_Inr
    by (auto simp: andThen_eq_Inr sql_Inr assist_Inr split: if_splits dest!: sound_step hook intro: complete)
qed

lemma sound_policy [sound_step]: "policy_escalation env cmd pl s = Inr (oc, s') \<Longrightarrow> sound_from t s \<Longrightarrow> sound_from t s'"
  using policy_escalation_frame [of env cmd pl s oc s'] by (auto dest!: sound_step elim: sound_frame)

lemma sound_written:
  assumes "terminal_hook_frame env" and "written_facts env cmd pl s = Inr (res, s')" and "sound_from t s"
  shows "sound_from t s'"
  using assms(2,3) unfolding written_facts_def Let_def andThen_eq_Inr
  by (auto simp: andThen_eq_Inr dest!: sound_step sound_queued [OF assms(1)])

lemma sound_closed [sound_step]: "closed_source env cmd pl s = Inr s' \<Longrightarrow> sound_from t s \<Longrightarrow> sound_from t s'"
  by (drule closed_source_frame) (auto elim: sound_frame)

lemma reaches_commit_sound:
  assumes "terminal_hook_frame env" and "reaches_commit env cmd hash proposal pl res s s'"
  shows "sound_from s s'"
proof -
  from assms(2) obtain s2 s3 d where cl: "closed_source env cmd pl (claimed env cmd hash s) = Inr s2"
    and wr: "written_facts env cmd pl s2 = Inr (res, s3)"
    and s': "s' = complete_transition_receipt (te_command env) 200 (transition_response_body (te_lib env) res) d s3"
    by (auto simp: reaches_commit_def)
  have "sound_from s (claimed env cmd hash s)" by (rule sound_frame [OF sound_refl]) (simp_all add: claimed_def)
  from sound_written [OF assms(1) wr sound_closed [OF cl this]] show ?thesis
    by (rule sound_frame) (simp_all add: s' complete_transition_receipt_def)
qed

end
