(* ===== verification/Escalation_Ends.thy ===== *)
theory Escalation_Ends
  imports Case_Keys
begin

text \<open>How the system ingress of the policy escalation can end.\<close>

definition ingress_type :: string where
  "ingress_type = ''SYSTEM_EXECUTION_ESCALATION''"

lemma acquire_receipt_owned:
  assumes "acquire_receipt cid p key hash s = Inr (Owned c, s1)"
  shows "c = cid \<and> fresh_key cid p key s \<and> s1 = s\<lparr>receipts := receipts s @ [processing_row ingress_type cid p key hash]\<rparr>"
  using assms
  by (auto simp: acquire_receipt_def try_insert_receipt_cases result_simps ingress_type_def
      split: option.splits if_splits sum.splits)

lemma acquire_receipt_taken:
  assumes "acquire_receipt cid p key hash s = Inr (x, s1)" and "\<And>c. x \<noteq> Owned c"
  shows "s1 = s"
  using assms
  by (auto simp: acquire_receipt_def try_insert_receipt_cases result_simps split: option.splits if_splits sum.splits)

lemma escalation_current:
  assumes "open_owner_pending_visit lib env inst visit actor command msg supporting s = Inr (oc, s')"
  shows "\<exists>w. find (\<lambda>w. wi_id w = inst) (instances s) = Some w \<and> wi_current_visit w = Some visit"
  using assms by (auto simp: open_owner_pending_visit_def Let_def andThen_eq_Inr dest!: escalation_guardsD split: if_splits)

text \<open>
  The facts of an escalation: the case is new and belongs to the current visit of a running instance, or
  it was open before and at most intents and queues change.
\<close>

definition case_added :: "escalation_env \<Rightarrow> system_escalation_command \<Rightarrow> uuid \<Rightarrow> instance_row \<Rightarrow> store \<Rightarrow> store \<Rightarrow> bool" where
  "case_added env cmd cid w s s' \<longleftrightarrow>
     (\<exists>r a e is ob fb body d.
        pending_case env w (sc_principal cmd) a \<and> assistance_event env w e \<and> receipt_done r \<and>
        s' = s\<lparr>receipts := receipts s @ [answered_row ingress_type cid (sc_principal cmd) (sc_key cmd) (sc_hash cmd) 200 body d, r],
               assistances := assistances s @ [a],
               instances := map (\<lambda>x. if wi_id x = sc_instance cmd then bumped w else x) (instances s),
               events := events s @ [e], intents := is, outbox := ob, forum_bindings := fb\<rparr>)"

definition case_joined :: "system_escalation_command \<Rightarrow> uuid \<Rightarrow> store \<Rightarrow> store \<Rightarrow> bool" where
  "case_joined cmd cid s s' \<longleftrightarrow>
     (\<exists>is ob fb body d.
        s' = s\<lparr>receipts := receipts s @ [answered_row ingress_type cid (sc_principal cmd) (sc_key cmd) (sc_hash cmd) 200 body d],
               intents := is, outbox := ob, forum_bindings := fb\<rparr>)"

lemma complete_ingress_new:
  assumes "complete_ingress_receipt lib cid status body s = Inr s'" and "cid \<notin> rc_command ` set rs"
    and "cid \<notin> rc_command ` set later" and "receipts s = rs @ processing_row ctype cid p key hash # later"
  shows "\<exists>d. s' = s\<lparr>receipts := rs @ answered_row ctype cid p key hash status body d # later\<rparr>"
proof -
  from assms(1) obtain d where s': "s' = complete_transition_receipt cid status body d s"
    by (auto simp: complete_ingress_receipt_def andThen_eq_Inr)
  have same: "map (\<lambda>r. if rc_command r = cid \<and> rc_status r = ''PROCESSING''
         then r\<lparr>rc_status := ''COMPLETED'', rc_response_status := Some status,
                rc_response_body := Some body, rc_response_digest := Some d\<rparr> else r) xs = xs"
    if "cid \<notin> rc_command ` set xs" for xs by (rule map_idI) (use that in force)
  from same [OF assms(2)] same [OF assms(3)] assms(4) show ?thesis
    by (intro exI [of _ d]) (simp add: s' complete_transition_receipt_def answered_row_def processing_row_def)
qed

lemma open_owner_wf:
  assumes "open_owner_pending_visit lib env inst visit actor command msg supporting s = Inr (oc, s')" and "store_wf s"
  shows "store_wf s'"
  using escalation_frame [OF assms(1)] case_opened_wf [OF _ assms(2)] assms(2)
  by (auto simp: store_wf_other split: if_splits)

lemma deny_disabled_answers:
  assumes "deny_disabled lib aid cid cmd s1 = Inr s'" and fresh: "fresh_key cid p key s"
    and s1: "s1 = s\<lparr>receipts := receipts s @ [processing_row ctype cid p key hash]\<rparr>"
  shows "only_answers s s'"
proof -
  let ?body = "assistance_error_body A_PrincipalDisabled"
  from assms(1) obtain s2 sh reason details where a: "audit_denial sh aid cid reason details s1 = Inr s2"
    and c: "complete_ingress_receipt lib cid 403 ?body s2 = Inr s'"
    unfolding deny_disabled_def Let_def andThen_eq_Inr sql_error_eq_Inr by (auto simp: andThen_eq_Inr)
  from audit_denial_frame [OF a] obtain au where s2: "s2 = s1\<lparr>audits := audits s1 @ [au]\<rparr>" ..
  have rs: "receipts s2 = receipts s @ processing_row ctype cid p key hash # []" by (simp add: s2 s1)
  have new: "cid \<notin> rc_command ` set (receipts s)" using fresh by (simp add: fresh_key_def)
  from complete_ingress_new [OF c new _ rs] obtain d where
    s': "s' = s2\<lparr>receipts := receipts s @ [answered_row ctype cid p key hash 403 ?body d]\<rparr>" by auto
  have "s' = s\<lparr>receipts := receipts s @ [answered_row ctype cid p key hash 403 ?body d], audits := audits s @ [au]\<rparr>"
    by (simp add: s' s2 s1)
  with only_answers_row [OF fresh] show ?thesis by simp
qed

lemma escalated_effect:
  assumes es: "escalate_and_project lib env forum_row cid cmd s1 = Inr (oc, s2)"
    and cm: "complete_ingress_receipt lib cid 200 (outcome_body lib oc) s2 = Inr s'"
    and wf: "store_wf s" and fresh: "fresh_key cid (sc_principal cmd) (sc_key cmd) s"
    and s1: "s1 = s\<lparr>receipts := receipts s @ [processing_row ingress_type cid (sc_principal cmd) (sc_key cmd) (sc_hash cmd)]\<rparr>"
  shows "\<exists>w. find_instance_row (sc_instance cmd) s = Some w \<and> wi_current_visit w = Some (sc_visit cmd) \<and>
    \<not> wi_cancelled w \<and> \<not> wi_archived w \<and> (case_added env cmd cid w s s' \<or> case_joined cmd cid s s') \<and>
    sound_from s s' \<and> store_wf s'"
proof -
  let ?p = "processing_row ingress_type cid (sc_principal cmd) (sc_key cmd) (sc_hash cmd)"
  from es obtain msg supporting eo t fp where
    o1: "open_owner_pending_visit lib env (sc_instance cmd) (sc_visit cmd) (sc_principal cmd) cid msg supporting s1 = Inr (eo, t)"
    and q: "queue_forum_event (ee_now env) forum_row (sc_instance cmd) (''assistance_requested:'' @ show_uuid lib (eo_case eo)) fp t = Inr s2"
    unfolding escalate_and_project_def Let_def andThen_eq_Inr sql_error_eq_Inr by (auto simp: andThen_eq_Inr)
  obtain ob fb where s2: "s2 = t\<lparr>outbox := ob, forum_bindings := fb\<rparr>" using queue_forum_event_frame [OF q] by blast
  note fr = escalation_frame [OF o1]
  from fr obtain w where w0: "find (\<lambda>w. wi_id w = sc_instance cmd) (instances s1) = Some w" "wi_id w = sc_instance cmd"
      "\<not> wi_cancelled w" "\<not> wi_archived w"
    and alt0: "if eo_escalated eo
     then eo_version eo = wi_state_version w + 1 \<and> eo_case eo = ee_case env \<and> case_opened lib env w (sc_principal cmd) cid s1 t
     else eo_version eo = wi_state_version w \<and> (\<exists>is. t = s1\<lparr>intents := is\<rparr>) \<and>
          (\<exists>a. find (\<lambda>a. as_visit a = sc_visit cmd \<and> is_open a) (assistances s1) = Some a \<and> eo_case eo = as_id a)" by blast
  from escalation_current [OF o1] w0(1) have "wi_current_visit w = Some (sc_visit cmd)" by (metis option.inject)
  with w0 have w: "find (\<lambda>w. wi_id w = sc_instance cmd) (instances s1) = Some w" "wi_id w = sc_instance cmd"
      "wi_current_visit w = Some (sc_visit cmd)" "\<not> wi_cancelled w" "\<not> wi_archived w"
    by blast+
  from alt0 have alt: "if eo_escalated eo then case_opened lib env w (sc_principal cmd) cid s1 t else \<exists>is. t = s1\<lparr>intents := is\<rparr>"
    by presburger
  have found: "find_instance_row (sc_instance cmd) s = Some w" using w(1) by (simp add: find_instance_row_def s1)
  have wf1: "store_wf s1" using processing_row_wf [OF wf fresh] by (simp add: s1)
  have new: "cid \<notin> rc_command ` set (receipts s)" using fresh by (simp add: fresh_key_def)
  have "case_added env cmd cid w s s' \<or> case_joined cmd cid s s'"
  proof (cases "eo_escalated eo")
    case True
    with alt have "case_opened lib env w (sc_principal cmd) cid s1 t" by presburger
    then obtain r a e js ob' where dn: "rc_status r = ''COMPLETED''" "rc_response_status r = Some 200"
        "rc_response_body r \<noteq> None" "rc_response_digest r \<noteq> None"
      and r: "rc_command r = ee_receipt env" "ee_receipt env \<notin> rc_command ` set (receipts s1)"
      and a: "pending_case env w (sc_principal cmd) a" and e: "assistance_event env w e"
      and t: "t = s1\<lparr>receipts := receipts s1 @ [r], assistances := assistances s1 @ [a],
               instances := map (\<lambda>x. if wi_id x = wi_id w \<and> wi_state_version x = wi_state_version w
                  then x\<lparr>wi_state_version := wi_state_version w + 1\<rparr> else x) (instances s1),
               events := events s1 @ [e], intents := js, outbox := ob'\<rparr>"
      unfolding case_opened_def request_receipt_def by (elim exE conjE) (rule that, assumption+)
    have rd: "receipt_done r" using dn by (simp add: receipt_done_def)
    have later: "cid \<notin> rc_command ` set [r]" using r by (auto simp: s1 processing_row_def)
    have rs: "receipts s2 = receipts s @ ?p # [r]" by (simp add: s2 t s1)
    from complete_ingress_new [OF cm new later rs] obtain d where
      s': "s' = s2\<lparr>receipts := receipts s @ [answered_row ingress_type cid (sc_principal cmd) (sc_key cmd) (sc_hash cmd)
        200 (outcome_body lib oc) d, r]\<rparr>" ..
    have "w \<in> set (instances s)" using find_instance_row [OF found] by simp
    then have row: "map (\<lambda>x. if wi_id x = wi_id w \<and> wi_state_version x = wi_state_version w
                  then x\<lparr>wi_state_version := wi_state_version w + 1\<rparr> else x) (instances s) =
        map (\<lambda>x. if wi_id x = sc_instance cmd then bumped w else x) (instances s)"
      using update_row [OF _ _ refl, of s w "\<lambda>x. x\<lparr>wi_state_version := wi_state_version w + 1\<rparr>"] wf w(2)
      by (simp add: bumped_def store_wf_def)
    have inst: "instances s1 = instances s" by (simp add: s1)
    have eq: "s' = s\<lparr>receipts := receipts s @ [answered_row ingress_type cid (sc_principal cmd) (sc_key cmd) (sc_hash cmd)
          200 (outcome_body lib oc) d, r],
        assistances := assistances s @ [a],
        instances := map (\<lambda>x. if wi_id x = sc_instance cmd then bumped w else x) (instances s),
        events := events s @ [e], intents := js, outbox := ob, forum_bindings := fb\<rparr>"
      unfolding s' s2 t inst row by (simp add: s1)
    have "case_added env cmd cid w s s'"
      unfolding case_added_def by (intro exI conjI) (rule a, rule e, rule rd, rule eq)
    then show ?thesis ..
  next
    case False
    with alt obtain js where t: "t = s1\<lparr>intents := js\<rparr>" by auto
    have rs: "receipts s2 = receipts s @ ?p # []" by (simp add: s2 t s1)
    from complete_ingress_new [OF cm new _ rs] obtain d where
      s': "s' = s2\<lparr>receipts := receipts s @ [answered_row ingress_type cid (sc_principal cmd) (sc_key cmd) (sc_hash cmd)
        200 (outcome_body lib oc) d]\<rparr>" by auto
    have "s' = s\<lparr>receipts := receipts s @ [answered_row ingress_type cid (sc_principal cmd) (sc_key cmd) (sc_hash cmd)
          200 (outcome_body lib oc) d], intents := js, outbox := ob, forum_bindings := fb\<rparr>"
      by (simp add: s' s2 t s1)
    then have "case_joined cmd cid s s'" unfolding case_joined_def by blast
    then show ?thesis ..
  qed
  moreover have "sound_from s s'"
  proof -
    from cm obtain d where s': "s' = complete_transition_receipt cid 200 (outcome_body lib oc) d s2"
      by (auto simp: complete_ingress_receipt_def andThen_eq_Inr)
    have "sound_from s s1" by (rule sound_frame [OF sound_refl]) (simp_all add: s1)
    from sound_forum [OF q sound_escalation [OF o1 this]] show ?thesis
      by (rule sound_frame) (simp_all add: s' complete_transition_receipt_def)
  qed
  moreover have "store_wf s2" using open_owner_wf [OF o1 wf1] by (simp add: s2 store_wf_other)
  then have "store_wf s'" using cm store_wf_complete by (auto simp: complete_ingress_receipt_def andThen_eq_Inr)
  ultimately show ?thesis using found w by blast
qed

lemma system_ends [consumes 2, case_names quiet escalated]:
  assumes "system_execution_escalation lib env proposed aid forum_row cmd s = (res, s')" and "store_wf s"
  obtains
    "only_answers s s'"
  | w where "find_instance_row (sc_instance cmd) s = Some w" "wi_current_visit w = Some (sc_visit cmd)"
      "\<not> wi_cancelled w" "\<not> wi_archived w" "case_added env cmd proposed w s s' \<or> case_joined cmd proposed s s'"
      "sound_from s s'" "store_wf s'"
proof (cases "acquire_receipt proposed (sc_principal cmd) (sc_key cmd) (sc_hash cmd) s")
  case (Inl e)
  with assms(1) only_answers_refl show ?thesis
    by (intro that(1)) (auto simp: system_execution_escalation_def split: if_splits)
next
  case (Inr x)
  obtain acq s1 where x: "x = (acq, s1)" by (cases x)
  note acquired = Inr [unfolded x]
  show ?thesis
  proof (cases "\<exists>c. acq = Owned c")
    case False
    then have s1: "s1 = s" using acquire_receipt_taken [OF acquired] by blast
    show ?thesis
      using assms(1) False acquired only_answers_refl
      by (intro that(1)) (auto simp: system_execution_escalation_def s1 split: ingress_receipt.splits if_splits)
  next
    case True
    then obtain c where c: "acq = Owned c" ..
    from acquire_receipt_owned [OF acquired [unfolded c]] c have acq: "acq = Owned proposed"
      and fresh: "fresh_key proposed (sc_principal cmd) (sc_key cmd) s"
      and s1: "s1 = s\<lparr>receipts := receipts s @ [processing_row ingress_type proposed (sc_principal cmd) (sc_key cmd) (sc_hash cmd)]\<rparr>"
      by auto
    show ?thesis
    proof (cases "\<exists>oc s2 s3. escalate_and_project lib env forum_row proposed cmd s1 = Inr (oc, s2) \<and>
        complete_ingress_receipt lib proposed 200 (outcome_body lib oc) s2 = Inr s3 \<and> s' = s3")
      case True
      then show ?thesis using escalated_effect [OF _ _ assms(2) fresh s1] that(2) by blast
    next
      case False
      have denied: "only_answers s s2" if "deny_disabled lib aid proposed cmd s1 = Inr s2" for s2
        by (rule deny_disabled_answers [OF that fresh s1])
      from False show ?thesis
        using assms(1) acquired denied only_answers_refl
        by (intro that(1))
           (auto simp: system_execution_escalation_def acq andThen_def split: if_splits sum.splits prod.splits)
    qed
  qed
qed

end
