(* ===== verification/Command_Runs.thy ===== *)
theory Command_Runs
  imports Escalation_Ends
begin

text \<open>
  The runtime as a whole: the commands in any order and with any arguments.  The invariant ties the
  tables together (open cases belong to the current visit of a running instance, an archived instance
  was cancelled or has ended), and every step keeps what the rows promise.
\<close>

section \<open>What a row keeps\<close>

text \<open>
  An instance changes only with its version.  Once cancelled it stays where it is, and once archived it
  does not change at all.
\<close>

definition keeps_instance :: "instance_row \<Rightarrow> instance_row \<Rightarrow> bool" where
  "keeps_instance w x \<longleftrightarrow>
     wi_id x = wi_id w \<and> wi_domain x = wi_domain w \<and> wi_created_by x = wi_created_by w \<and>
     wi_version x = wi_version w \<and> wi_class x = wi_class w \<and> wi_state_version w \<le> wi_state_version x \<and>
     (wi_state_version x = wi_state_version w \<longrightarrow> x = w) \<and>
     (wi_cancelled w \<longrightarrow> wi_cancelled x \<and> wi_cancellation x = wi_cancellation w \<and>
        wi_current_visit x = wi_current_visit w \<and> wi_context x = wi_context w \<and>
        (\<not> wi_archived x \<longrightarrow> x = w)) \<and>
     (wi_archived w \<longrightarrow> x = w)"

lemma keeps_instance_refl: "keeps_instance w w"
  by (simp add: keeps_instance_def)

lemma keeps_instanceD:
  assumes "keeps_instance w x"
  shows "wi_id x = wi_id w \<and> wi_domain x = wi_domain w \<and> wi_created_by x = wi_created_by w \<and>
      wi_version x = wi_version w \<and> wi_class x = wi_class w \<and> wi_state_version w \<le> wi_state_version x"
    and "wi_state_version x = wi_state_version w \<Longrightarrow> x = w"
    and "wi_cancelled w \<Longrightarrow> wi_cancelled x \<and> wi_cancellation x = wi_cancellation w \<and>
        wi_current_visit x = wi_current_visit w \<and> wi_context x = wi_context w"
    and "wi_cancelled w \<Longrightarrow> \<not> wi_archived x \<Longrightarrow> x = w"
    and "wi_archived w \<Longrightarrow> x = w"
  using assms unfolding keeps_instance_def by blast+

lemma keeps_instance_trans:
  assumes ab: "keeps_instance a b" and bc: "keeps_instance b c" shows "keeps_instance a c"
proof -
  have fixed: "wi_id c = wi_id a \<and> wi_domain c = wi_domain a \<and> wi_created_by c = wi_created_by a \<and>
      wi_version c = wi_version a \<and> wi_class c = wi_class a \<and> wi_state_version a \<le> wi_state_version c"
    using keeps_instanceD(1) [OF ab] keeps_instanceD(1) [OF bc] by (metis order_trans)
  have same: "c = a" if v: "wi_state_version c = wi_state_version a"
  proof -
    have "wi_state_version b = wi_state_version a" "wi_state_version c = wi_state_version b"
      using keeps_instanceD(1) [OF ab] keeps_instanceD(1) [OF bc] v by linarith+
    with keeps_instanceD(2) [OF ab] keeps_instanceD(2) [OF bc] show ?thesis by blast
  qed
  have running: "c = a" if "wi_cancelled a" "\<not> wi_archived c"
  proof -
    have "\<not> wi_archived b" using keeps_instanceD(5) [OF bc] that(2) by blast
    then have "b = a" by (rule keeps_instanceD(4) [OF ab that(1)])
    with keeps_instanceD(4) [OF bc] that show ?thesis by blast
  qed
  have archived: "c = a" if "wi_archived a"
    using keeps_instanceD(5) [OF ab that] keeps_instanceD(5) [OF bc] that by blast
  have cancelled: "wi_cancelled c \<and> wi_cancellation c = wi_cancellation a \<and> wi_current_visit c = wi_current_visit a \<and>
      wi_context c = wi_context a" if c: "wi_cancelled a"
  proof -
    note b = keeps_instanceD(3) [OF ab c]
    with keeps_instanceD(3) [OF bc] have "wi_cancelled c \<and> wi_cancellation c = wi_cancellation b \<and>
      wi_current_visit c = wi_current_visit b \<and> wi_context c = wi_context b" by blast
    with b show ?thesis by presburger
  qed
  from fixed same cancelled running archived show ?thesis unfolding keeps_instance_def by blast
qed

text \<open>A case keeps its request; it moves from OWNER_PENDING on, and a settled case is never changed.\<close>

definition keeps_case :: "assistance_row \<Rightarrow> assistance_row \<Rightarrow> bool" where
  "keeps_case a b \<longleftrightarrow>
     as_id b = as_id a \<and> as_instance b = as_instance a \<and> as_visit b = as_visit a \<and> as_requester b = as_requester a \<and>
     as_payload b = as_payload a \<and> as_digest b = as_digest a \<and> as_command b = as_command a \<and> as_created b = as_created a \<and>
     (as_status b = as_status a \<or> as_status b \<in> {''HUMAN_REQUIRED'', ''RESOLVED'', ''VOIDED''}) \<and>
     (as_status a = ''HUMAN_REQUIRED'' \<longrightarrow> as_escalation b = as_escalation a) \<and>
     (\<not> is_open a \<longrightarrow> b = a)"

lemma keeps_case_refl: "keeps_case a a"
  by (simp add: keeps_case_def)

lemma keeps_case_trans:
  assumes "keeps_case a b" and "keeps_case b c" shows "keeps_case a c"
proof -
  have "as_escalation c = as_escalation a" if "as_status a = ''HUMAN_REQUIRED''"
    using assms that by (cases "is_open b") (auto simp: keeps_case_def is_open_def)
  with assms show ?thesis by (auto simp: keeps_case_def)
qed

section \<open>The invariant\<close>

text \<open>An instance is closed once it is cancelled or archived.\<close>

definition closed :: "instance_row \<Rightarrow> bool" where
  "closed w \<longleftrightarrow> wi_cancelled w \<or> wi_archived w"

definition cases_placed :: "store \<Rightarrow> bool" where
  "cases_placed s \<longleftrightarrow>
     (\<forall>a\<in>set (assistances s). is_open a \<longrightarrow>
        (\<exists>w\<in>set (instances s). wi_id w = as_instance a \<and> \<not> closed w \<and> wi_current_visit w = Some (as_visit a)))"

definition visits_known :: "store \<Rightarrow> bool" where
  "visits_known s \<longleftrightarrow>
     (\<forall>w\<in>set (instances s). \<forall>v. wi_current_visit w = Some v \<longrightarrow> v \<in> nv_id ` set (visits s))"

definition archived_ended :: "store \<Rightarrow> bool" where
  "archived_ended s \<longleftrightarrow>
     (\<forall>w\<in>set (instances s). wi_archived w \<longrightarrow> wi_cancelled w \<or> current_node_type w s = Some ''TERMINAL'')"

text \<open>Every receipt is answered, and every case has one of the statuses the code can read.\<close>

definition tables_typed :: "store \<Rightarrow> bool" where
  "tables_typed s \<longleftrightarrow>
     list_all receipt_done (receipts s) \<and> list_all (\<lambda>a. is_ok (parse_case_status (as_status a))) (assistances s)"

definition run_wf :: "store \<Rightarrow> bool" where
  "run_wf s \<longleftrightarrow>
     store_wf s \<and> intents_wf s \<and> case_keys (assistances s) \<and> cases_placed s \<and> visits_known s \<and> archived_ended s \<and>
     tables_typed s"

section \<open>The preorder\<close>

definition run_le :: "store \<Rightarrow> store \<Rightarrow> bool" where
  "run_le s s' \<longleftrightarrow>
     history_grows s s' \<and> (\<exists>rs. receipts s' = receipts s @ rs) \<and> (\<exists>es. eligibilities s' = eligibilities s @ es) \<and>
     list_all2 keeps_instance (instances s) (instances s') \<and>
     grows_by keeps_case (assistances s) (assistances s') \<and> intents_le s s'"

lemma run_le_refl: "run_le s s"
  by (simp add: run_le_def history_grows_refl list.rel_refl keeps_instance_refl grows_by_refl keeps_case_refl)

lemma run_le_trans:
  assumes "run_le a b" and "run_le b c" shows "run_le a c"
proof -
  have "list_all2 keeps_instance (instances a) (instances c)"
    by (rule list_all2_trans [of keeps_instance keeps_instance]) (use assms keeps_instance_trans in \<open>auto simp: run_le_def\<close>)
  moreover have "grows_by keeps_case (assistances a) (assistances c)"
    by (rule grows_by_trans [OF keeps_case_trans]) (use assms in \<open>auto simp: run_le_def\<close>)
  ultimately show ?thesis
    using assms history_grows_trans intents_le_trans unfolding run_le_def by (metis append_assoc)
qed

section \<open>A change of one instance row\<close>

text \<open>Looking up a visit is not disturbed by new visits.\<close>

lemma find_append_known: "x \<in> f ` set xs \<Longrightarrow> find (\<lambda>r. f r = x) (xs @ ys) = find (\<lambda>r. f r = x) xs"
  by (auto simp: find_append split: option.splits simp: find_None_iff)

lemma node_type_grown:
  assumes "visits_known s" and "w \<in> set (instances s)" and "wi_current_visit x = wi_current_visit w"
    and "visits s' = visits s @ vs" and "node_rows s' = node_rows s"
  shows "current_node_type x s' = current_node_type w s"
proof (cases "wi_current_visit w")
  case (Some v)
  with assms(1,2) have "v \<in> nv_id ` set (visits s)" by (auto simp: visits_known_def)
  with Some assms(3-5) show ?thesis
    by (simp add: current_node_type_def current_node_def visit_node_def find_append_known find_node_def)
qed (use assms(3) in \<open>simp add: current_node_type_def current_node_def\<close>)

text \<open>What a command may do to the row it locked, with the cases and visits of the store after it.\<close>

definition row_step :: "uuid \<Rightarrow> instance_row \<Rightarrow> instance_row \<Rightarrow> store \<Rightarrow> store \<Rightarrow> bool" where
  "row_step i w x s s' \<longleftrightarrow>
     w \<in> set (instances s) \<and> wi_id w = i \<and> keeps_instance w x \<and>
     instances s' = map (\<lambda>y. if wi_id y = i then x else y) (instances s) \<and>
     (\<exists>vs. visits s' = visits s @ vs) \<and> node_rows s' = node_rows s \<and>
     (\<forall>v. wi_current_visit x = Some v \<longrightarrow> v \<in> nv_id ` set (visits s')) \<and>
     (wi_archived x \<longrightarrow> wi_cancelled x \<or> current_node_type x s' = Some ''TERMINAL'')"

lemma row_step_keeps:
  assumes "row_step i w x s s'" and wf: "store_wf s"
  shows "list_all2 keeps_instance (instances s) (instances s')"
proof -
  have "keeps_instance y (if wi_id y = i then x else y)" if "y \<in> set (instances s)" for y
  proof (cases "wi_id y = i")
    case True
    then have "y = w" using that assms distinct_map_eqD [of wi_id "instances s" y w]
      by (simp add: row_step_def store_wf_def)
    with assms(1) True show ?thesis by (simp add: row_step_def)
  qed (simp add: keeps_instance_refl)
  with assms(1) show ?thesis by (auto simp: row_step_def list_all2_conv_all_nth)
qed

lemma row_step_wf:
  assumes step: "row_step i w x s s'" and wf: "run_wf s"
  shows "visits_known s' \<and> archived_ended s'"
proof -
  from step obtain vs where vs: "visits s' = visits s @ vs" and nodes: "node_rows s' = node_rows s"
    by (auto simp: row_step_def)
  have known: "visits_known s" using wf by (simp add: run_wf_def)
  have rows: "y = x \<or> y \<in> set (instances s)" if "y \<in> set (instances s')" for y
    using that step by (auto simp: row_step_def split: if_splits)
  have "wi_archived y \<Longrightarrow> wi_cancelled y \<or> current_node_type y s' = Some ''TERMINAL''"
    if y: "y \<in> set (instances s')" for y
  proof (cases "y = x")
    case False
    with rows [OF y] have y: "y \<in> set (instances s)" by simp
    have "current_node_type y s' = current_node_type y s" by (rule node_type_grown [OF known y refl vs nodes])
    moreover assume "wi_archived y"
    ultimately show ?thesis using y wf by (auto simp: run_wf_def archived_ended_def)
  qed (use step in \<open>simp add: row_step_def\<close>)
  then have "archived_ended s'" by (simp add: archived_ended_def)
  moreover have "visits_known s'"
    unfolding visits_known_def
  proof (intro ballI allI impI)
    fix y v assume y: "y \<in> set (instances s')" and v: "wi_current_visit y = Some v"
    show "v \<in> nv_id ` set (visits s')"
    proof (cases "y = x")
      case True
      with v step show ?thesis by (simp add: row_step_def)
    next
      case False
      with rows [OF y] known v show ?thesis by (auto simp: visits_known_def vs)
    qed
  qed
  ultimately show ?thesis by simp
qed

text \<open>A case stays where it is, unless it is on the changed row: then the row is still running there.\<close>

lemma cases_placed_step:
  assumes step: "row_step i w x s s'" and wf: "run_wf s"
    and cases: "\<And>b. b \<in> set (assistances s') \<Longrightarrow> is_open b \<Longrightarrow>
      (as_instance b = i \<and> wi_current_visit x = Some (as_visit b)) \<or>
      (\<exists>a\<in>set (assistances s). is_open a \<and> as_instance a = as_instance b \<and> as_visit a = as_visit b \<and> as_instance b \<noteq> i)"
    and running: "\<And>b. b \<in> set (assistances s') \<Longrightarrow> is_open b \<Longrightarrow> as_instance b = i \<Longrightarrow> \<not> closed x"
  shows "cases_placed s'"
  unfolding cases_placed_def
proof (intro ballI impI)
  fix b assume b: "b \<in> set (assistances s')" and o1: "is_open b"
  from step have w: "w \<in> set (instances s)" "wi_id w = i" "keeps_instance w x"
    and inst: "instances s' = map (\<lambda>y. if wi_id y = i then x else y) (instances s)" by (simp_all add: row_step_def)
  have hit: "x \<in> set (instances s')" using w(1,2) unfolding inst set_map by (intro image_eqI [of _ _ w]) simp_all
  have id: "wi_id x = i" using w(2,3) by (simp add: keeps_instance_def)
  from cases [OF b o1]
  show "\<exists>w\<in>set (instances s'). wi_id w = as_instance b \<and> \<not> closed w \<and> wi_current_visit w = Some (as_visit b)"
  proof (elim disjE bexE conjE)
    assume "as_instance b = i" "wi_current_visit x = Some (as_visit b)"
    with hit id running [OF b o1] show ?thesis by auto
  next
    fix a assume "a \<in> set (assistances s)" "is_open a" "as_instance a = as_instance b" "as_visit a = as_visit b"
      "as_instance b \<noteq> i"
    with wf obtain y where y: "y \<in> set (instances s)" "wi_id y = as_instance b" "\<not> closed y"
      "wi_current_visit y = Some (as_visit b)" by (auto simp: run_wf_def cases_placed_def)
    then have "y \<in> set (instances s')"
      using \<open>as_instance b \<noteq> i\<close> unfolding inst set_map by (intro image_eqI [of _ _ y]) simp_all
    with y show ?thesis by blast
  qed
qed

end
