(* ===== verification/Command_Steps.thy ===== *)
theory Command_Steps
  imports Command_Runs
begin

text \<open>Every end of every command keeps the invariant of the runtime and what the rows promise.\<close>

section \<open>Answers\<close>

lemma only_answers_step:
  assumes "only_answers s s'" and wf: "run_wf s"
  shows "run_wf s' \<and> run_le s s'"
proof -
  from assms obtain rs au where s': "s' = s\<lparr>receipts := receipts s @ rs, audits := audits s @ au\<rparr>" and w: "store_wf s'"
    and dn: "list_all receipt_done rs"
    using wf by (auto simp: only_answers_def run_wf_def)
  have "current_node_type x s' = current_node_type x s" for x
    by (simp add: s' current_node_type_def current_node_def visit_node_def find_node_def)
  with w wf have "run_wf s'"
    by (simp add: run_wf_def s' intents_wf_def cases_placed_def visits_known_def archived_ended_def
        tables_typed_def dn)
  moreover have "run_le s s'"
    using run_le_refl [of s] by (simp add: run_le_def s' history_grows_def intents_le_def grows_by_refl keeps_intent_refl)
  ultimately show ?thesis by simp
qed

section \<open>Row changes\<close>

lemma row_change_step:
  assumes wf: "run_wf s" and step: "row_step i w x s s'" and keys: "store_wf s'" and sound: "sound_from s s'"
    and typed: "tables_typed s'"
    and placed: "\<And>b. b \<in> set (assistances s') \<Longrightarrow> is_open b \<Longrightarrow>
      (as_instance b = i \<and> wi_current_visit x = Some (as_visit b)) \<or>
      (\<exists>a\<in>set (assistances s). is_open a \<and> as_instance a = as_instance b \<and> as_visit a = as_visit b \<and> as_instance b \<noteq> i)"
    and running: "\<And>b. b \<in> set (assistances s') \<Longrightarrow> is_open b \<Longrightarrow> as_instance b = i \<Longrightarrow> \<not> closed x"
    and cases: "grows_by keeps_case (assistances s) (assistances s')"
    and hist: "history_grows s s'" and rs: "\<exists>rs. receipts s' = receipts s @ rs"
    and el: "\<exists>es. eligibilities s' = eligibilities s @ es"
  shows "run_wf s' \<and> run_le s s'"
proof -
  have "cases_placed s'" by (rule cases_placed_step [OF step wf placed running])
  with row_step_wf [OF step wf] keys sound wf typed have "run_wf s'"
    by (auto simp: run_wf_def sound_from_def promise_def)
  moreover have "store_wf s" using wf by (simp add: run_wf_def)
  with row_step_keeps [OF step] cases hist rs el sound have "run_le s s'"
    by (auto simp: run_le_def sound_from_def promise_def)
  ultimately show ?thesis by simp
qed

text \<open>The open cases of the store are on the rows they are on.\<close>

lemma placedD:
  assumes "run_wf s" and "a \<in> set (assistances s)" and "is_open a" and "w \<in> set (instances s)" and "wi_id w = as_instance a"
  shows "\<not> closed w \<and> wi_current_visit w = Some (as_visit a)"
proof -
  from assms obtain y where "y \<in> set (instances s)" "wi_id y = as_instance a" "\<not> closed y" "wi_current_visit y = Some (as_visit a)"
    by (auto simp: run_wf_def cases_placed_def)
  moreover from this have "y = w"
    using assms distinct_map_eqD [of wi_id "instances s" y w] by (simp add: run_wf_def store_wf_def)
  ultimately show ?thesis by simp
qed

lemma known_visit: "run_wf s \<Longrightarrow> w \<in> set (instances s) \<Longrightarrow> wi_current_visit w = Some v \<Longrightarrow> v \<in> nv_id ` set (visits s)"
  by (auto simp: run_wf_def visits_known_def)

lemma keeps_ids: "map wi_id (map (\<lambda>y. if wi_id y = i then x else y) ws) = map wi_id ws" if "wi_id x = i"
  using that by simp

section \<open>Cancel and archive\<close>

lemma voided_cases:
  "grows_by keeps_case as (map (voided now i actor c r) as)"
  by (rule grows_by_map) (auto simp: keeps_case_def voided_def is_open_def)

lemma voided_keys: "case_keys as \<Longrightarrow> case_keys (map (voided now i actor c r) as)"
  by (erule case_keys_map) (simp add: voided_def is_open_def)

lemma voided_open: "is_open (voided now i actor c r a) \<longleftrightarrow> is_open a \<and> as_instance a \<noteq> i"
  by (auto simp: voided_def is_open_def)

lemma voided_row: "as_instance (voided now i actor c r a) = as_instance a" "as_visit (voided now i actor c r a) = as_visit a"
  by (simp_all add: voided_def)

lemma known_status:
  "is_ok (parse_case_status t) \<longleftrightarrow> t = ''OWNER_PENDING'' \<or> t = ''HUMAN_REQUIRED'' \<or> t = ''RESOLVED'' \<or> t = ''VOIDED''"
  by (simp add: parse_case_status_def)

lemma typed_cases: "run_wf s \<Longrightarrow> list_all (\<lambda>a. is_ok (parse_case_status (as_status a))) (assistances s)"
  by (simp add: run_wf_def tables_typed_def)

lemma voided_typed:
  "is_ok (parse_case_status (as_status a)) \<Longrightarrow> is_ok (parse_case_status (as_status (voided now i actor c r a)))"
  by (simp add: voided_def known_status)

text \<open>Closing an instance: the row gets a mark, its cases are voided, its intents retired.\<close>

lemma closing_step:
  assumes wf: "run_wf s" and step: "row_step i w x s s'" and keys: "store_wf s'"
    and ints: "intents s' = intents (retire_intents i c r s)"
    and cs: "assistances s' = map (voided now i actor c r) (assistances s)"
    and hist: "history_grows s s'" and rs: "\<exists>rs. receipts s' = receipts s @ rs \<and> list_all receipt_done rs"
    and el: "\<exists>es. eligibilities s' = eligibilities s @ es"
  shows "run_wf s' \<and> run_le s s'"
proof (rule row_change_step [OF wf step keys _ _ _ _ _ hist _ el])
  have "promise s s'" using retire_intents_promise ints promise_cong [of s s s' "retire_intents i c r s"] by simp
  then show "sound_from s s'" by (simp add: sound_from_def cs voided_keys)
  show "grows_by keeps_case (assistances s) (assistances s')" by (simp add: cs voided_cases)
  show "tables_typed s'" using wf rs by (auto simp: run_wf_def tables_typed_def cs list_all_iff voided_typed)
  show "\<exists>rs. receipts s' = receipts s @ rs" using rs by blast
next
  fix b assume "b \<in> set (assistances s')" and o1: "is_open b"
  then obtain a where "a \<in> set (assistances s)" "b = voided now i actor c r a" by (auto simp: cs)
  with o1 show "(as_instance b = i \<and> wi_current_visit x = Some (as_visit b)) \<or>
      (\<exists>a\<in>set (assistances s). is_open a \<and> as_instance a = as_instance b \<and> as_visit a = as_visit b \<and> as_instance b \<noteq> i)"
    by (auto simp: voided_open voided_row)
next
  fix b assume "b \<in> set (assistances s')" and b: "is_open b" "as_instance b = i"
  then obtain a where "b = voided now i actor c r a" by (auto simp: cs)
  with b show "\<not> closed x" by (simp add: voided_open voided_row)
qed

lemma cancel_step:
  assumes wf: "run_wf s" and w: "w \<in> set (instances s)" "wi_id w = lc_instance cmd"
    and life: "cancel_lifecycle (wi_cancelled w) (current_node_type w s) (wi_archived w) = Inr ()"
    and eff: "cancel_effect env cmd hash w s r s'" and keys: "store_wf s'"
  shows "run_wf s' \<and> run_le s s'"
proof -
  from life have free: "\<not> wi_cancelled w" "\<not> wi_archived w" by (auto simp: cancel_lifecycle_def split: if_splits)
  from eff obtain stored e cl ob fb d where
    s': "s' = s\<lparr>intents := intents (retire_intents (lc_instance cmd) (le_command env) ''INSTANCE_CANCELLED'' s),
               assistances := map (voided (le_now env) (lc_instance cmd) (lc_principal cmd) (le_command env)
                 ''INSTANCE_CANCELLED'') (assistances s),
               closures := closures s @ cl,
               instances := map (\<lambda>x. if wi_id x = lc_instance cmd then cancelled_row env cmd stored w else x) (instances s),
               events := events s @ [e], outbox := ob, forum_bindings := fb,
               receipts := receipts s @ [answered_row ''CANCEL_WORKFLOW_INSTANCE'' (le_command env) (lc_principal cmd)
                 (lc_key cmd) hash 200 (lifecycle_body (le_lib env) r) d]\<rparr>"
    unfolding cancel_effect_def by blast
  let ?x = "cancelled_row env cmd stored w"
  have x: "keeps_instance w ?x" "wi_current_visit ?x = wi_current_visit w" "wi_cancelled ?x" "wi_id ?x = lc_instance cmd"
    using free w by (simp_all add: keeps_instance_def cancelled_row_def)
  have "row_step (lc_instance cmd) w ?x s s'"
    unfolding row_step_def using w x known_visit [OF wf w(1)] by (simp add: s')
  then show ?thesis
  proof (rule closing_step [OF wf _ keys])
    show "history_grows s s'" using keeps_ids [OF x(4)] by (simp add: s' history_grows_def del: map_map)
    show "assistances s' = map (voided (le_now env) (lc_instance cmd) (lc_principal cmd) (le_command env) ''INSTANCE_CANCELLED'') (assistances s)"
      by (simp add: s')
  qed (simp_all add: s')
qed

lemma archive_step:
  assumes wf: "run_wf s" and w: "w \<in> set (instances s)" "wi_id w = lc_instance cmd"
    and life: "archive_lifecycle (wi_cancelled w) (current_node_type w s) (wi_archived w) = Inr ()"
    and eff: "archive_effect env cmd hash w s r s'" and keys: "store_wf s'"
  shows "run_wf s' \<and> run_le s s'"
proof -
  from life have free: "wi_cancelled w \<or> current_node_type w s = Some ''TERMINAL''" "\<not> wi_archived w"
    by (auto simp: archive_lifecycle_def split: if_splits)
  from eff obtain stored e ob fb d where
    s': "s' = s\<lparr>intents := intents (retire_intents (lc_instance cmd) (le_command env) ''INSTANCE_ARCHIVED'' s),
               assistances := map (voided (le_now env) (lc_instance cmd) (lc_principal cmd) (le_command env)
                 ''INSTANCE_ARCHIVED'') (assistances s),
               instances := map (\<lambda>x. if wi_id x = lc_instance cmd then archived_row env cmd stored w else x) (instances s),
               events := events s @ [e], outbox := ob, forum_bindings := fb,
               receipts := receipts s @ [answered_row ''ARCHIVE_WORKFLOW_INSTANCE'' (le_command env) (lc_principal cmd)
                 (lc_key cmd) hash 200 (lifecycle_body (le_lib env) r) d]\<rparr>"
    unfolding archive_effect_def by blast
  let ?x = "archived_row env cmd stored w"
  have x: "keeps_instance w ?x" "wi_current_visit ?x = wi_current_visit w" "wi_cancelled ?x = wi_cancelled w"
      "wi_id ?x = lc_instance cmd"
    using free w by (simp_all add: keeps_instance_def archived_row_def)
  have "current_node_type ?x s' = current_node_type w s"
    by (simp add: s' current_node_type_def current_node_def visit_node_def find_node_def x(2))
  then have "row_step (lc_instance cmd) w ?x s s'"
    unfolding row_step_def using w x free known_visit [OF wf w(1)] by (simp add: s')
  then show ?thesis
  proof (rule closing_step [OF wf _ keys])
    show "history_grows s s'" using keeps_ids [OF x(4)] by (simp add: s' history_grows_def del: map_map)
    show "assistances s' = map (voided (le_now env) (lc_instance cmd) (lc_principal cmd) (le_command env) ''INSTANCE_ARCHIVED'') (assistances s)"
      by (simp add: s')
  qed (simp_all add: s')
qed

section \<open>Wake\<close>

text \<open>A version bump of a running row.\<close>

lemma bumped_row:
  assumes "\<not> closed w" shows "keeps_instance w (bumped w)" "\<not> closed (bumped w)"
    "wi_current_visit (bumped w) = wi_current_visit w" "wi_id (bumped w) = wi_id w"
  using assms by (simp_all add: keeps_instance_def bumped_def closed_def)

lemma bumped_step:
  assumes "run_wf s" and "w \<in> set (instances s)" and "wi_id w = i" and "\<not> closed w"
    and "instances s' = map (\<lambda>y. if wi_id y = i then bumped w else y) (instances s)"
    and "visits s' = visits s" and "node_rows s' = node_rows s"
  shows "row_step i w (bumped w) s s'"
  using assms bumped_row [OF assms(4)] known_visit [OF assms(1,2)]
  by (auto simp: row_step_def closed_def)

text \<open>A bumped row whose cases are at most new ones on its current visit, or old ones that move on.\<close>

lemma bump_step:
  assumes wf: "run_wf s" and w: "w \<in> set (instances s)" "wi_id w = i" and running: "\<not> closed w"
    and inst: "instances s' = map (\<lambda>y. if wi_id y = i then bumped w else y) (instances s)"
    and same: "visits s' = visits s" "node_rows s' = node_rows s"
    and keys: "store_wf s'" and sound: "sound_from s s'"
    and cases: "grows_by keeps_case (assistances s) (assistances s')"
    and origin: "\<And>b. b \<in> set (assistances s') \<Longrightarrow> is_open b \<Longrightarrow>
      (as_instance b = i \<and> wi_current_visit w = Some (as_visit b)) \<or>
      (\<exists>a\<in>set (assistances s). is_open a \<and> as_instance a = as_instance b \<and> as_visit a = as_visit b)"
    and typed: "list_all (\<lambda>a. is_ok (parse_case_status (as_status a))) (assistances s')"
    and hist: "history_grows s s'" and rs: "\<exists>rs. receipts s' = receipts s @ rs \<and> list_all receipt_done rs"
    and el: "\<exists>es. eligibilities s' = eligibilities s @ es"
  shows "run_wf s' \<and> run_le s s'"
proof (rule row_change_step [OF wf bumped_step [OF wf w running inst same] keys sound _ _ _ cases hist _ el])
  show "tables_typed s'" using wf typed rs by (auto simp: run_wf_def tables_typed_def)
  show "\<exists>rs. receipts s' = receipts s @ rs" using rs by blast
next
  fix b assume b: "b \<in> set (assistances s')" and o1: "is_open b"
  show "(as_instance b = i \<and> wi_current_visit (bumped w) = Some (as_visit b)) \<or>
      (\<exists>a\<in>set (assistances s). is_open a \<and> as_instance a = as_instance b \<and> as_visit a = as_visit b \<and> as_instance b \<noteq> i)"
  proof (cases "as_instance b = i")
    case True
    with origin [OF b o1] placedD [OF wf _ _ w(1)] w(2) bumped_row [OF running] show ?thesis by auto
  qed (use origin [OF b o1] in auto)
  show "\<not> closed (bumped w)" by (rule bumped_row [OF running])
qed

lemma wake_step:
  assumes wf: "run_wf s" and ok: "wakeable cmd w a s" and no: "no_op_reason (we_now env) cmd w a = None"
    and eff: "wake_effect env cmd hash w a s out s'" and keys: "store_wf s'"
  shows "run_wf s' \<and> run_le s s'"
proof -
  have w: "w \<in> set (instances s)" "wi_id w = wc_instance cmd" using ok by (auto simp: wakeable_def dest!: find_instance_row)
  have running: "\<not> closed w" using no by (auto simp: no_op_reason_def closed_def split: if_splits)
  from eff obtain f e body d where s': "s' = s\<lparr>eligibilities := eligibilities s @ [f],
               instances := map (\<lambda>x. if wi_id x = wc_instance cmd then bumped w else x) (instances s),
               events := events s @ [e], receipts := receipts s @ [answered_row ''WAKE_DISPATCH_INTENT'' (we_command env)
                 (wc_principal cmd) (wc_key cmd) hash 200 body d]\<rparr>"
    unfolding wake_effect_def by blast
  have "wi_id (bumped w) = wc_instance cmd" using w by (simp add: bumped_def)
  then show ?thesis
  proof (intro bump_step [OF wf w running _ _ _ keys])
    show "history_grows s s'" using keeps_ids [OF \<open>wi_id (bumped w) = _\<close>] by (simp add: s' history_grows_def del: map_map)
    show "sound_from s s'" by (rule sound_frame [OF sound_refl]) (simp_all add: s')
  qed (use typed_cases [OF wf] in \<open>auto simp: s' grows_by_refl keeps_case_refl\<close>)
qed

section \<open>Assistance\<close>

lemma request_step:
  assumes wf: "run_wf s" and ok: "requestable cmd w owner s"
    and eff: "request_effect env cmd hash w s r s'" and keys: "store_wf s'"
  shows "run_wf s' \<and> run_le s s'"
proof -
  have w: "w \<in> set (instances s)" "wi_id w = rq_instance cmd" using ok by (auto simp: requestable_def dest!: find_instance_row)
  have running: "\<not> closed w" using ok by (simp add: requestable_def closed_def)
  from eff obtain payload dig e js ob fb d where new: "ae_case env \<notin> as_id ` set (assistances s)" and pr: "promise s s'"
    and s': "s' = s\<lparr>assistances := assistances s @ [requested_case env cmd payload dig],
               instances := map (\<lambda>x. if wi_id x = rq_instance cmd then bumped w else x) (instances s),
               events := events s @ [e], intents := js, outbox := ob, forum_bindings := fb,
               receipts := receipts s @ [answered_row ''REQUEST_WORKFLOW_ASSISTANCE'' (ae_command env) (rq_principal cmd)
                 (rq_key cmd) hash 201 (assistance_body env r) d]\<rparr>"
    unfolding request_effect_def by blast
  let ?c = "requested_case env cmd payload dig"
  have c: "as_id ?c = ae_case env" "as_visit ?c = rq_visit cmd" "as_instance ?c = rq_instance cmd"
    by (simp_all add: requested_case_def)
  have id: "wi_id (bumped w) = rq_instance cmd" using w by (simp add: bumped_def)
  show ?thesis
  proof (rule bump_step [OF wf w running _ _ _ keys])
    show "sound_from s s'"
      using pr case_keys_append [of s ?c] new ok by (auto simp: sound_from_def s' c requestable_def)
    show "history_grows s s'" using keeps_ids [OF id] by (simp add: s' history_grows_def del: map_map)
    show "grows_by keeps_case (assistances s) (assistances s')" by (simp add: s' grows_by_append keeps_case_refl)
    fix b assume "b \<in> set (assistances s')" and "is_open b"
    then show "(as_instance b = rq_instance cmd \<and> wi_current_visit w = Some (as_visit b)) \<or>
      (\<exists>a\<in>set (assistances s). is_open a \<and> as_instance a = as_instance b \<and> as_visit a = as_visit b)"
      using ok c by (auto simp: s' requestable_def)
  qed (use typed_cases [OF wf] in \<open>simp_all add: s' known_status requested_case_def\<close>)
qed

lemma acted_row:
  assumes "allows action a"
  shows "keeps_case a (acted action act a)" "as_instance (acted action act a) = as_instance a"
    "as_visit (acted action act a) = as_visit a" "as_id (acted action act a) = as_id a"
  using assms by (cases action; auto simp: keeps_case_def acted_def allows_def is_open_def)+

lemma allows_open: "allows action a \<Longrightarrow> is_open a"
  by (cases action) (simp_all add: allows_def is_open_def)

lemma owner_step:
  assumes wf: "run_wf s" and ok: "actionable cid cmd action w a s"
    and eff: "owner_effect env cmd action hash w a s r s'" and keys: "store_wf s'"
  shows "run_wf s' \<and> run_le s s'"
proof -
  have w: "w \<in> set (instances s)" "wi_id w = as_instance a" using ok by (auto simp: actionable_def dest!: find_instance_row)
  have a: "a \<in> set (assistances s)" "is_open a" using ok allows_open by (auto simp: actionable_def)
  have running: "\<not> closed w" using placedD [OF wf a w] by simp
  from eff obtain act e ob fb d where
    s': "s' = s\<lparr>assistances := map (\<lambda>x. if as_id x = oc_case cmd \<and> allows action x then acted action act x else x) (assistances s),
               instances := map (\<lambda>x. if wi_id x = as_instance a then bumped w else x) (instances s),
               events := events s @ [e], outbox := ob, forum_bindings := fb, receipts := receipts s @ [answered_row (action_command action) (ae_command env)
                 (oc_principal cmd) (oc_key cmd) hash 200 (assistance_body env r) d]\<rparr>"
    unfolding owner_effect_def by blast
  let ?f = "\<lambda>x. if as_id x = oc_case cmd \<and> allows action x then acted action act x else x"
  have id: "wi_id (bumped w) = as_instance a" using w by (simp add: bumped_def)
  have f: "as_id (?f x) = as_id x \<and> as_visit (?f x) = as_visit x \<and> as_instance (?f x) = as_instance x \<and>
      (is_open (?f x) \<longrightarrow> is_open x) \<and> keeps_case x (?f x)" for x
    using acted_row [of action x act] allows_open [of action x] keeps_case_refl by auto
  have typed: "is_ok (parse_case_status (as_status (acted action act x)))" for x
    by (cases action) (simp_all add: acted_def known_status)
  show ?thesis
  proof (rule bump_step [OF wf w running _ _ _ keys])
    have "promise s s'" by (rule promise_same) (simp add: s')
    moreover have "case_keys (map ?f (assistances s))" if "case_keys (assistances s)"
      by (rule case_keys_map [OF that]) (use f in blast)
    ultimately show "sound_from s s'" by (simp add: sound_from_def s')
    show "history_grows s s'" using keeps_ids [OF id] by (simp add: s' history_grows_def del: map_map)
    have "grows_by keeps_case (assistances s) (map ?f (assistances s))" by (rule grows_by_map) (use f in blast)
    then show "grows_by keeps_case (assistances s) (assistances s')" by (simp add: s')
    fix b assume "b \<in> set (assistances s')" and o1: "is_open b"
    then obtain x where "x \<in> set (assistances s)" "b = ?f x" by (auto simp: s')
    with f [of x] o1 show "(as_instance b = as_instance a \<and> wi_current_visit w = Some (as_visit b)) \<or>
      (\<exists>a\<in>set (assistances s). is_open a \<and> as_instance a = as_instance b \<and> as_visit a = as_visit b)" by metis
  next
    show "list_all (\<lambda>a. is_ok (parse_case_status (as_status a))) (assistances s')"
      using typed_cases [OF wf] typed by (auto simp: s' list_all_iff)
  qed (simp_all add: s')
qed

end
