(* ===== verification/Command_System.thy ===== *)
theory Command_System
  imports Command_Steps
begin

text \<open>
  The runtime commands as one step relation: transitions, cancellations, archivals, wakes, the assistance
  commands and the system escalation, in any order and with any arguments.
\<close>

section \<open>Escalations\<close>

lemma added_step:
  assumes wf: "run_wf s" and w: "find_instance_row (sc_instance cmd) s = Some w" "wi_current_visit w = Some (sc_visit cmd)"
    and running: "\<not> wi_cancelled w" "\<not> wi_archived w" and eff: "case_added env cmd cid w s s'"
    and sound: "sound_from s s'" and keys: "store_wf s'"
  shows "run_wf s' \<and> run_le s s'"
proof -
  have row: "w \<in> set (instances s)" "wi_id w = sc_instance cmd" using find_instance_row [OF w(1)] by simp_all
  have up: "\<not> closed w" using running by (simp add: closed_def)
  from eff obtain r a e js ob fb body d where rd: "receipt_done r" and a: "pending_case env w (sc_principal cmd) a"
    and s': "s' = s\<lparr>receipts := receipts s @ [answered_row ingress_type cid (sc_principal cmd) (sc_key cmd)
                 (sc_hash cmd) 200 body d, r], assistances := assistances s @ [a],
               instances := map (\<lambda>x. if wi_id x = sc_instance cmd then bumped w else x) (instances s),
               events := events s @ [e], intents := js, outbox := ob, forum_bindings := fb\<rparr>"
    unfolding case_added_def by blast
  have id: "wi_id (bumped w) = sc_instance cmd" using row by (simp add: bumped_def)
  show ?thesis
  proof (rule bump_step [OF wf row up _ _ _ keys sound])
    show "history_grows s s'" using keeps_ids [OF id] by (simp add: s' history_grows_def del: map_map)
    show "grows_by keeps_case (assistances s) (assistances s')" by (simp add: s' grows_by_append keeps_case_refl)
    fix b assume "b \<in> set (assistances s')" and "is_open b"
    then show "(as_instance b = sc_instance cmd \<and> wi_current_visit w = Some (as_visit b)) \<or>
      (\<exists>a\<in>set (assistances s). is_open a \<and> as_instance a = as_instance b \<and> as_visit a = as_visit b)"
      using a w(2) row by (auto simp: s' pending_case_def)
  qed (use typed_cases [OF wf] a rd in \<open>simp_all add: s' known_status pending_case_def\<close>)
qed

lemma joined_step:
  assumes wf: "run_wf s" and eff: "case_joined cmd cid s s'" and sound: "sound_from s s'" and keys: "store_wf s'"
  shows "run_wf s' \<and> run_le s s'"
proof -
  from eff obtain js ob fb body d where
    s': "s' = s\<lparr>receipts := receipts s @ [answered_row ingress_type cid (sc_principal cmd) (sc_key cmd)
                 (sc_hash cmd) 200 body d], intents := js, outbox := ob, forum_bindings := fb\<rparr>"
    unfolding case_joined_def by blast
  have "current_node_type x s' = current_node_type x s" for x
    by (simp add: s' current_node_type_def current_node_def visit_node_def find_node_def)
  then have "cases_placed s' \<and> visits_known s' \<and> archived_ended s' \<and> tables_typed s'"
    using wf by (simp add: run_wf_def s' cases_placed_def visits_known_def archived_ended_def tables_typed_def)
  with wf sound keys have "run_wf s'" by (auto simp: run_wf_def sound_from_def promise_def)
  moreover have "run_le s s'"
    using run_le_refl [of s] sound by (simp add: run_le_def s' history_grows_def sound_from_def promise_def)
  ultimately show ?thesis by simp
qed

section \<open>Transitions\<close>

lemma find_row_unique: "distinct (map f xs) \<Longrightarrow> x \<in> set xs \<Longrightarrow> find (\<lambda>y. f y = f x) xs = Some x"
  by (induction xs) (auto simp: image_iff)

lemma terminal_enum: "node_type_enum ''TERMINAL'' = NT_TERMINAL"
  by code_simp

lemma locked_node_type:
  assumes "read_current_visit i v s = Inr c" and "wi_current_visit w = Some v" and "node_type_enum (cv_type c) \<noteq> NT_TERMINAL"
    and "distinct (map nv_id (visits s))"
  shows "current_node_type w s \<noteq> Some ''TERMINAL'' \<and> cv_visit c = v"
proof -
  from assms(1) obtain r n where r: "r \<in> set (visits s)" "nv_id r = v" and n: "find_node (nv_node r) s = Some n"
    and c: "cv_type c = nr_type n" "cv_visit c = v"
  proof (cases "find (\<lambda>r. nv_id r = v \<and> nv_instance r = i) (visits s)")
    case (Some r)
    then have "r \<in> set (visits s)" "nv_id r = v" by (auto simp: find_Some_iff)
    with Some assms(1) that show thesis by (auto simp: read_current_visit_def split: option.splits)
  qed (use assms(1) in \<open>simp add: read_current_visit_def\<close>)
  have "find (\<lambda>y. nv_id y = v) (visits s) = Some r" using find_row_unique [OF assms(4) r(1)] r(2) by simp
  with n assms(2) have "current_node_type w s = Some (nr_type n)"
    by (simp add: current_node_type_def current_node_def visit_node_def)
  with assms(3) c terminal_enum show ?thesis by auto
qed

lemma committed_step:
  assumes wf: "run_wf s" and fresh: "fresh_command env cmd s" and frame: "terminal_hook_frame env"
    and reach: "reaches_commit env cmd hash proposal pl res s s'"
  shows "run_wf s' \<and> run_le s s'"
proof -
  let ?w = "pl_instance pl" and ?i = "tc_instance cmd"
  have swf: "store_wf s" using wf by (simp add: run_wf_def)
  from reach have "checked_transition env cmd proposal (claimed env cmd hash s) = Inr pl" by (simp add: reaches_commit_def)
  from checked_plan [OF this] obtain v where caller: "accepted_caller cmd ?w v s" by auto
  then have w: "?w \<in> set (instances s)" "wi_id ?w = ?i" using find_instance [OF swf] by (auto simp: accepted_caller_def)
  from caller obtain cur where cur: "wi_current_visit ?w = Some cur" by (auto simp: accepted_caller_def)
  have ntype: "current_node_type ?w s \<noteq> Some ''TERMINAL''" and cv: "cv_visit v = cur"
    using locked_node_type [of ?i cur s v ?w] caller cur swf by (auto simp: accepted_caller_def store_wf_def)
  have up: "\<not> wi_cancelled ?w" "\<not> wi_archived ?w"
    using caller wf w ntype by (auto simp: accepted_caller_def run_wf_def archived_ended_def)
  from reaches_commit_writes [OF swf fresh frame reach] obtain e es where
    writes: "transition_writes env cmd hash pl res e es s s'" by blast
  then obtain cs ss rs cases cl ob fb js gb d where res: "result_of env cmd pl (int (length es)) res"
    and esc: "escalation_rows env cmd pl res (claimed env cmd hash s) rs cases es"
    and s': "s' = (final_store env cmd pl res cs ss (e # es) rs cases ob fb js gb s)\<lparr>closures := closures s @ cl,
          receipts := receipts s @ answered_receipt env cmd hash 200 (transition_response_body (te_lib env) res) d # rs\<rparr>"
    unfolding transition_writes_def by blast
  let ?x = "moved res ?w"
  have x: "wi_current_visit ?x = Some (te_visit env)" "\<not> closed ?x" "wi_id ?x = ?i" "keeps_instance ?w ?x"
    using res up w by (simp_all add: moved_def result_of_def closed_def keeps_instance_def)
  have inst: "instances s' = map (\<lambda>y. if wi_id y = ?i then ?x else y) (instances s)" by (simp add: s' final_store_def)
  have vis: "visits s' = visits s @ [new_visit env cmd pl (next_visit_number ?i (tn_id (sl_target pl)) s)]"
    by (simp add: s' final_store_def)
  have step: "row_step ?i ?w ?x s s'"
    using w x inst vis by (auto simp: row_step_def s' final_store_def new_visit_def closed_def)
  have free: "\<not> (a \<in> set (assistances s) \<and> is_open a \<and> as_instance a = ?i)" for a
    using caller placedD [OF wf _ _ w(1), of a] w(2) cur cv
    by (auto simp: accepted_caller_def has_open_assistance_def list_ex_iff)
  have new: "as_instance b = ?i \<and> as_visit b = te_visit env" if "b \<in> set cases" for b
    using that esc by (auto simp: escalation_rows_def pending_case_def)
  have "list_all receipt_done rs" "\<forall>b\<in>set cases. as_status b = ''OWNER_PENDING''"
    using esc by (auto simp: escalation_rows_def pending_case_def request_receipt_def receipt_done_def)
  then have typed: "tables_typed s'"
    using wf by (auto simp: run_wf_def tables_typed_def s' final_store_def list_all_iff known_status
        receipt_done_def answered_receipt_def)
  show ?thesis
  proof (rule row_change_step [OF wf step reaches_commit_wf [OF swf fresh frame reach] reaches_commit_sound [OF frame reach] typed])
    fix b assume "b \<in> set (assistances s')" and "is_open b"
    then show "(as_instance b = ?i \<and> wi_current_visit ?x = Some (as_visit b)) \<or>
      (\<exists>a\<in>set (assistances s). is_open a \<and> as_instance a = as_instance b \<and> as_visit a = as_visit b \<and> as_instance b \<noteq> ?i)"
      using free new x(1) by (auto simp: s' final_store_def)
    show "\<not> closed ?x" by (rule x)
  next
    show "grows_by keeps_case (assistances s) (assistances s')"
      by (simp add: s' final_store_def grows_by_append keeps_case_refl)
    show "history_grows s s'" by (rule writes_history [OF writes w(2)])
  qed (simp_all add: s' final_store_def)
qed

lemma failed_answers:
  assumes "failure_stored env cmd hash e s s'" and "fresh_command env cmd s"
  shows "only_answers s s'"
proof -
  from assms(1) obtain d au where "s' = s\<lparr>audits := audits s @ au,
        receipts := receipts s @ [answered_receipt env cmd hash (transition_error_code e) (error_response_body e) d]\<rparr>"
    by (auto simp: failure_stored_def)
  then have "s' = s\<lparr>receipts := receipts s @ [answered_receipt env cmd hash (transition_error_code e) (error_response_body e) d],
      audits := audits s @ au\<rparr>" by simp
  moreover have "list_all receipt_done [answered_receipt env cmd hash (transition_error_code e) (error_response_body e) d]"
    by (simp add: receipt_done_def answered_receipt_def)
  ultimately show ?thesis using failure_wf [OF assms] unfolding only_answers_def by blast
qed

lemma transition_run_step:
  assumes ex: "execute_workflow_transition env cmd hash proposal s = (r, s')" and frame: "terminal_hook_frame env"
    and wf: "run_wf s"
  shows "run_wf s' \<and> run_le s s'"
  using ex
proof (cases rule: execute_ends)
  case taken
  with replay_same obtain au where s': "s' = s\<lparr>audits := audits s @ au\<rparr>" by metis
  show ?thesis unfolding s' by (rule only_answers_step [OF only_answers_audit wf])
next
  case rolled_back
  with wf run_le_refl show ?thesis by simp
next
  case failed
  show ?thesis by (rule only_answers_step [OF failed_answers [OF failed(3,1)] wf])
next
  case commits
  show ?thesis by (rule committed_step [OF wf commits(1) frame commits(2)])
qed

section \<open>The system\<close>

text \<open>One command with arbitrary arguments; the library and the RETURN limit are those of the service.\<close>

inductive command_step :: "library \<Rightarrow> int \<Rightarrow> store \<Rightarrow> store \<Rightarrow> bool" for lib maximum where
  transition: "transition_step lib maximum s s' \<Longrightarrow> command_step lib maximum s s'"
| cancel: "cancel_workflow_instance env cmd hash s = (r, s') \<Longrightarrow> command_step lib maximum s s'"
| archive: "archive_workflow_instance env cmd hash s = (r', s') \<Longrightarrow> command_step lib maximum s s'"
| wake: "wake_dispatch_intent wenv wcmd hash s = (out, s') \<Longrightarrow> command_step lib maximum s s'"
| request: "request_assistance aenv rcmd hash s = (ar, s') \<Longrightarrow> command_step lib maximum s s'"
| owner: "owner_action_command aenv ocmd action hash s = (ar, s') \<Longrightarrow> command_step lib maximum s s'"
| escalation: "system_execution_escalation lib eenv proposed aid forum_row scmd s = (er, s') \<Longrightarrow> command_step lib maximum s s'"

lemma command_step_facts: "command_step lib maximum s s' \<Longrightarrow> run_wf s \<Longrightarrow> run_wf s' \<and> run_le s s'"
proof (induction rule: command_step.induct)
  case (transition s s')
  from transition(1) show ?case
    by (rule transition_stepE) (use transition(2) transition_run_step in blast)
next
  case (cancel env cmd hash s r s')
  then have "store_wf s" by (simp add: run_wf_def)
  with cancel(1) show ?case
  proof (cases rule: cancel_ends)
    case quiet
    then show ?thesis using only_answers_step cancel(2) by blast
  next
    case cancelled
    show ?thesis by (rule cancel_step [OF cancel(2) cancelled(4,5,7,9,10)])
  qed
next
  case (archive env cmd hash s r' s')
  then have "store_wf s" by (simp add: run_wf_def)
  with archive(1) show ?case
  proof (cases rule: archive_ends)
    case quiet
    then show ?thesis using only_answers_step archive(2) by blast
  next
    case archived
    show ?thesis by (rule archive_step [OF archive(2) archived(4,5,7,9,10)])
  qed
next
  case (wake wenv wcmd hash s out s')
  then have "store_wf s" by (simp add: run_wf_def)
  with wake(1) show ?case
  proof (cases rule: wake_ends)
    case quiet
    then show ?thesis using only_answers_step wake(2) by blast
  next
    case applied
    show ?thesis by (rule wake_step [OF wake(2) applied(3-6)])
  qed
next
  case (request aenv rcmd hash s ar s')
  then have "store_wf s" by (simp add: run_wf_def)
  with request(1) show ?case
  proof (cases rule: request_ends)
    case quiet
    then show ?thesis using only_answers_step request(2) by blast
  next
    case requested
    show ?thesis by (rule request_step [OF request(2) requested(3-5)])
  qed
next
  case (owner aenv ocmd action hash s ar s')
  then have "store_wf s" by (simp add: run_wf_def)
  with owner(1) show ?case
  proof (cases rule: owner_ends)
    case quiet
    then show ?thesis using only_answers_step owner(2) by blast
  next
    case acted
    show ?thesis by (rule owner_step [OF owner(2) acted(3-5)])
  qed
next
  case (escalation eenv proposed aid forum_row scmd s er s')
  then have "store_wf s" by (simp add: run_wf_def)
  with escalation(1) show ?case
  proof (cases rule: system_ends)
    case quiet
    then show ?thesis using only_answers_step escalation(2) by blast
  next
    case escalated
    then show ?thesis using added_step joined_step escalation(2) by blast
  qed
qed

interpretation command_run: step_system "command_step lib maximum" run_wf run_le
  by unfold_locales (use command_step_facts in \<open>blast intro: run_le_refl run_le_trans\<close>)+

end
