(* ===== verification/Run_Properties.thy ===== *)
theory Run_Properties
  imports Command_System Transition_Properties
begin

text \<open>What holds whatever commands are run, in any order and with any arguments.\<close>

section \<open>Rows and their later selves\<close>

lemma run_row:
  assumes "(command_step lib maximum)\<^sup>*\<^sup>* s s'" and "run_wf s" and "w \<in> set (instances s)"
  shows "\<exists>x\<in>set (instances s'). keeps_instance w x"
proof -
  have rel: "list_all2 keeps_instance (instances s) (instances s')"
    using command_run.run_le [OF assms(1,2)] by (simp add: run_le_def)
  from assms(3) obtain n where "n < length (instances s)" "w = instances s ! n" by (auto simp: in_set_conv_nth)
  with rel show ?thesis by (auto simp: list_all2_conv_all_nth intro!: bexI [of _ "instances s' ! n"])
qed

lemma same_id_row:
  assumes "store_wf s" and "x \<in> set (instances s)" and "y \<in> set (instances s)" and "wi_id x = wi_id y"
  shows "x = y"
  using assms distinct_map_eqD [of wi_id "instances s" x y] by (simp add: store_wf_def)

lemma closed_no_open_case:
  assumes "run_wf s" and "w \<in> set (instances s)" and "closed w" and "a \<in> set (assistances s)" and "as_instance a = wi_id w"
  shows "\<not> is_open a"
  using placedD [OF assms(1,4) _ assms(2)] assms(3,5) by auto

lemma no_processing:
  assumes "tables_typed s" shows "acquire_by st g n ty cid p key hash s \<noteq> Inr (Acq_Processing c, t)"
proof -
  have "rc_status r = ''COMPLETED''" if "find_receipt p key s = Some r" for r
    using that assms by (auto simp: tables_typed_def list_all_iff receipt_done_def find_receipt_def find_Some_iff)
  then show ?thesis
    by (auto simp: acquire_by_def try_insert_receipt_cases result_simps split: option.splits if_splits sum.splits)
qed

section \<open>An example run\<close>

text \<open>An instance that its domain owner cancels and archives, while a retry and a wake come in between.\<close>

text \<open>The size limits compare numerals: the evaluator counts them as integers.\<close>

lemma validate_payload_code [code]:
  "validate_payload lib p =
     (let msg = py_message p in
      if trim msg \<noteq> msg \<or> msg = [] \<or> int (length (utf8_chars msg)) > 2000
      then Inl (A_InvalidPayload ''message must be trimmed and contain 1-2000 characters'')
      else if list_ex is_control (utf8_chars msg)
      then Inl (A_InvalidPayload ''message must not contain control characters'')
      else if (case py_supporting p of None \<Rightarrow> False | Some v \<Rightarrow> \<not> is_object v)
      then Inl (A_InvalidPayload ''supportingPayload must be an object'')
      else andThen (lib_error (json_length lib (payload_json p))) (\<lambda>n.
             if int n > 65536 then Inl A_SizeLimitExceeded else Inr (payload_json p)))"
  by (simp add: validate_payload_def Let_def)

definition desk_command :: "string \<Rightarrow> lifecycle_command" where
  "desk_command key = \<lparr>lc_principal = 6, lc_key = key, lc_instance = 20, lc_expected = 0, lc_reason = ''done''\<rparr>"

definition desk_env :: "uuid \<Rightarrow> lifecycle_env" where
  "desk_env n =
     \<lparr>le_lib = unary_library, le_now = 100, le_command = n, le_event = n + 1, le_audit = n + 2, le_row = n + 3,
      le_commit = None\<rparr>"

definition desk_request :: request_command where
  "desk_request = \<lparr>rq_principal = 5, rq_key = ''help'', rq_instance = 20, rq_visit = 22, rq_expected = 3,
     rq_payload = \<lparr>py_message = ''help'', py_supporting = None\<rparr>\<rparr>"

definition desk_assist :: "uuid \<Rightarrow> assist_env" where
  "desk_assist n =
     \<lparr>ae_lib = unary_library, ae_now = 100, ae_show_time = (\<lambda>t. replicate (nat t) CHR ''t''),
      ae_parse_time = (\<lambda>t. Some (int (length t))), ae_command = n, ae_case = n + 1, ae_event = n + 2,
      ae_intent = n + 3, ae_forum_row = n + 4, ae_wake_row = n + 5, ae_review = (\<lambda>_ _ _. Inr None), ae_commit = None\<rparr>"

definition asked_store :: store where
  "asked_store = snd (request_assistance (desk_assist 70) desk_request ''hash'' review_store)"

definition cancelled_store :: store where
  "cancelled_store = snd (cancel_workflow_instance (desk_env 80) (desk_command ''stop'') ''hash'' asked_store)"

definition archived_store :: store where
  "archived_store = snd (archive_workflow_instance (desk_env 90) (desk_command ''file'') ''hash'' cancelled_store)"

lemma review_run_wf: "run_wf review_store"
proof -
  have "case_keys (assistances review_store)" "cases_placed review_store" "tables_typed review_store" "intents_wf review_store"
    by code_simp+
  moreover have "visits_known review_store" "archived_ended review_store"
    by (simp_all add: visits_known_def archived_ended_def review_store_def review_instance_def)
  ultimately show ?thesis using review_store_wf by (simp add: run_wf_def)
qed

lemma asked_step: "command_step unary_library 1 review_store asked_store"
  unfolding asked_store_def by (rule command_step.request) (rule surjective_pairing)

lemma cancelled_step: "command_step unary_library 1 asked_store cancelled_store"
  unfolding cancelled_store_def by (rule command_step.cancel) (rule surjective_pairing)

lemma archived_step: "command_step unary_library 1 cancelled_store archived_store"
  unfolding archived_store_def by (rule command_step.archive) (rule surjective_pairing)

definition glance :: "store \<Rightarrow> (uuid \<times> bool \<times> bool \<times> int) list \<times> (uuid \<times> string) list \<times> nat" where
  "glance s =
     (map (\<lambda>w. (wi_id w, wi_cancelled w, wi_archived w, wi_state_version w)) (instances s),
      map (\<lambda>a. (as_instance a, as_status a)) (assistances s), length (receipts s))"

lemma example_asked: "glance asked_store = ([(20, False, False, 4)], [(20, ''OWNER_PENDING'')], 1)"
  by code_simp

lemma example_cancelled: "glance cancelled_store = ([(20, True, False, 5)], [(20, ''VOIDED'')], 2)"
  by code_simp

lemma example_archived: "glance archived_store = ([(20, True, True, 6)], [(20, ''VOIDED'')], 3)"
  by code_simp

lemma single: "map f xs = [y] \<Longrightarrow> \<exists>x. xs = [x] \<and> f x = y"
  by (cases xs) auto

lemma asked_wf: "run_wf asked_store"
  using command_step_facts [OF asked_step review_run_wf] by simp

lemma cancelled_wf: "run_wf cancelled_store"
  using command_step_facts [OF cancelled_step asked_wf] by simp

lemma archived_wf: "run_wf archived_store"
  using command_step_facts [OF archived_step cancelled_wf] by simp

lemma whole_run: "(command_step unary_library 1)\<^sup>*\<^sup>* review_store archived_store"
  using asked_step cancelled_step archived_step by (meson converse_rtranclp_into_rtranclp r_into_rtranclp)

section \<open>Properties\<close>

text \<open>
  C7. The runtime keeps its promises: from a well-formed store every run of transitions, cancellations,
  archivals, wakes, assistance commands and escalations ends in a well-formed store (keys, intents, one open
  case per visit, open cases on the current visit of running instances), and events, visits, closures,
  submissions, receipts and eligibility facts are only appended to.
\<close>
theorem runtime_keeps_promises:
  assumes "(command_step lib maximum)\<^sup>*\<^sup>* s s'" and "run_wf s"
  shows "run_wf s' \<and> history_grows s s' \<and> (\<exists>rs. receipts s' = receipts s @ rs) \<and>
    (\<exists>es. eligibilities s' = eligibilities s @ es) \<and> intents_le s s'"
  using command_run.run_inv [OF assms] command_run.run_le [OF assms] by (simp add: run_le_def)

theorem runtime_keeps_promises_witness:
  "run_wf archived_store \<and> history_grows review_store archived_store"
  using runtime_keeps_promises [OF whole_run review_run_wf] by simp





text \<open>
  C8. The life of an assistance case: under every run a case keeps its request, moves only from
  OWNER_PENDING to HUMAN_REQUIRED and on to RESOLVED or VOIDED, is never changed once settled, and a visit
  never has two open cases.
\<close>
theorem case_life_cycle:
  assumes "(command_step lib maximum)\<^sup>*\<^sup>* s s'" and "run_wf s" and "n < length (assistances s)"
  shows "n < length (assistances s') \<and> keeps_case (assistances s ! n) (assistances s' ! n) \<and>
    (\<not> is_open (assistances s ! n) \<longrightarrow> assistances s' ! n = assistances s ! n) \<and>
    sorted_wrt (\<lambda>a b. \<not> rivals a b) (assistances s')"
proof -
  have "grows_by keeps_case (assistances s) (assistances s')" using command_run.run_le [OF assms(1,2)] by (simp add: run_le_def)
  then obtain zs new where "assistances s' = zs @ new" "list_all2 keeps_case (assistances s) zs" by (auto simp: grows_by_def)
  then have "n < length (assistances s')" "keeps_case (assistances s ! n) (assistances s' ! n)"
    using assms(3) by (auto simp: list_all2_conv_all_nth nth_append)
  moreover have "sorted_wrt (\<lambda>a b. \<not> rivals a b) (assistances s')"
    using command_run.run_inv [OF assms(1,2)] by (simp add: run_wf_def case_keys_def)
  ultimately show ?thesis by (simp add: keeps_case_def)
qed

theorem case_life_cycle_witness:
  "as_status (assistances asked_store ! 0) = ''OWNER_PENDING'' \<and>
   keeps_case (assistances asked_store ! 0) (assistances cancelled_store ! 0)"
proof -
  have "0 < length (assistances asked_store)" "as_status (assistances asked_store ! 0) = ''OWNER_PENDING''"
    using example_asked by (auto simp: glance_def dest!: single)
  with case_life_cycle [OF r_into_rtranclp [of "command_step unary_library 1", OF cancelled_step] asked_wf]
  show ?thesis by blast
qed

text \<open>
  C11. The version fixes the row: an instance row that is found again at the version it was read at is the
  row that was read, so the expected version of a command guards everything it has seen of the row.
\<close>
theorem version_fixes_row:
  assumes "(command_step lib maximum)\<^sup>*\<^sup>* s s'" and "run_wf s" and "w \<in> set (instances s)"
    and "x \<in> set (instances s')" and "wi_id x = wi_id w"
  shows "wi_state_version w \<le> wi_state_version x \<and> (wi_state_version x = wi_state_version w \<longrightarrow> x = w)"
proof -
  obtain y where y: "y \<in> set (instances s')" and k: "keeps_instance w y" using run_row [OF assms(1-3)] by blast
  have "store_wf s'" using command_run.run_inv [OF assms(1,2)] by (simp add: run_wf_def)
  then have "y = x" using same_id_row y assms(4,5) keeps_instanceD(1) [OF k] by metis
  with keeps_instanceD(1,2) [OF k] show ?thesis by blast
qed

theorem version_fixes_row_witness:
  "\<exists>w\<in>set (instances review_store). \<exists>x\<in>set (instances archived_store). wi_state_version w \<le> wi_state_version x"
proof -
  obtain w where w: "w \<in> set (instances review_store)" by (simp add: review_store_def)
  obtain x where x: "x \<in> set (instances archived_store)" "keeps_instance w x" using run_row [OF whole_run review_run_wf w] by blast
  from version_fixes_row [OF whole_run review_run_wf w x(1)] keeps_instanceD(1) [OF x(2)] w x(1) show ?thesis by blast
qed



end
