(* ===== verification/Lifecycle_Properties.thy ===== *)
theory Lifecycle_Properties
  imports Run_Properties
begin

text \<open>What cancelling and archiving achieve, when they are allowed, and what a retry answers.\<close>

section \<open>Helpers\<close>

lemma store_row: "store_wf s \<Longrightarrow> w \<in> set (instances s) \<Longrightarrow> find_instance_row (wi_id w) s = Some w"
  unfolding find_instance_row_def by (rule find_row_unique) (simp_all add: store_wf_def)

text \<open>After the close, nothing of the visit is active.\<close>

lemma closed_current:
  assumes "closures s' = closures s @ cl" and "activations s' = activations s"
    and "cl_activation ` set cl = ac_id ` set (current_active i v s)"
  shows "current_active i v s' = []"
proof -
  have "\<not> active s' a" if "a \<in> set (activations s)" "ac_instance a = i" "ac_visit a = v" for a
  proof
    assume act: "active s' a"
    then have "active s a" by (auto simp: active_def assms(1))
    with that have "a \<in> set (current_active i v s)" by (simp add: current_active_def)
    then have "ac_id a \<in> cl_activation ` set cl" using assms(3) by blast
    with act show False by (auto simp: active_def assms(1))
  qed
  then show ?thesis by (auto simp: current_active_def assms(2) filter_empty_conv)
qed

lemma retired_left:
  assumes "i \<in> set (intents (retire_intents source command reason s))" and "in_source i = source"
    and "obligation_kind (in_kind i)" and "\<not> settled (in_state i)"
  shows "in_kind i = ''REVIEW'' \<and> own_effect command i s"
  using update_intents_none_left [OF _ assms(1) [unfolded retire_intents_def]] assms(2-4) by auto

section \<open>Retries\<close>

lemma is_i32_range: "is_i32 i \<longleftrightarrow> - (2 ^ 31) \<le> i \<and> i < 2 ^ 31"
  by (simp add: is_i32_def)

lemma answered_found:
  assumes "fresh_key cid p key s"
  shows "find_receipt p key (s\<lparr>receipts := receipts s @ [answered_row ctype cid p key hash status body d]\<rparr>) =
    Some (answered_row ctype cid p key hash status body d)"
  using assms
  by (simp add: find_receipt_def fresh_key_def find_append answered_row_def processing_row_def)

lemma acquire_answered:
  assumes "find_receipt p key s = Some (answered_row ctype cid p key hash status body d)"
  shows "acquire_by st g n ty c p key hash s = Inr (Acq_Replay cid status body, s)"
  using assms by (simp add: acquire_by_def try_insert_receipt_def answered_row_def processing_row_def)

lemma lifecycle_round_trip:
  assumes "uuid_text_ok lib" and "is_i32 (lr_version r)" and "is_i32 (lr_sequence r)"
  shows "parse_lifecycle lib (lifecycle_body lib r) = Some r"
proof -
  have i: "parse_uuid lib (show_uuid lib u) = Some u" for u using assms(1) by (simp add: uuid_text_ok_def)
  show ?thesis
    using assms(2,3) i json_int_as_i64 [OF assms(2)] json_int_as_i64 [OF assms(3)]
    by (simp add: parse_lifecycle_def lifecycle_body_def struct_member_def read_uuid_def read_i32_def read_flag_def
        is_i32_def Let_def)
qed

lemma cancel_answered:
  assumes "cancel_workflow_instance env cmd hash s = (Inr r, s')" and "store_wf s" and "\<not> lr_replayed r"
  shows "\<exists>d. is_i32 (lr_version r) \<and> lr_sequence r = lr_version r \<and> fresh_key (le_command env) (lc_principal cmd) (lc_key cmd) s \<and>
    receipts s' = receipts s @ [answered_row ''CANCEL_WORKFLOW_INSTANCE'' (le_command env) (lc_principal cmd) (lc_key cmd)
      hash 200 (lifecycle_body (le_lib env) r) d]"
  using assms(1,2)
proof (cases rule: cancel_ends)
  case quiet
  with assms(3) show ?thesis by blast
next
  case (cancelled w r')
  then have r: "r' = r" by simp
  from cancelled(9) obtain stored e model cl ob fb d where "lifecycle_event env cmd ''WORKFLOW_INSTANCE_CANCELLED'' (wi_current_visit w) w e"
    and "r = lifecycle_answer cmd w"
    and "receipts s' = receipts s @ [answered_row ''CANCEL_WORKFLOW_INSTANCE'' (le_command env) (lc_principal cmd) (lc_key cmd)
      hash 200 (lifecycle_body (le_lib env) r) d]"
    unfolding cancel_effect_def r by (elim conjE exE) simp
  with cancelled(2) show ?thesis by (intro exI [of _ d]) (auto simp: lifecycle_event_def lifecycle_answer_def)
qed

lemma archive_answered:
  assumes "archive_workflow_instance env cmd hash s = (Inr r, s')" and "store_wf s" and "\<not> lr_replayed r"
  shows "\<exists>d. is_i32 (lr_version r) \<and> lr_sequence r = lr_version r \<and> fresh_key (le_command env) (lc_principal cmd) (lc_key cmd) s \<and>
    receipts s' = receipts s @ [answered_row ''ARCHIVE_WORKFLOW_INSTANCE'' (le_command env) (lc_principal cmd) (lc_key cmd)
      hash 200 (lifecycle_body (le_lib env) r) d]"
  using assms(1,2)
proof (cases rule: archive_ends)
  case quiet
  with assms(3) show ?thesis by blast
next
  case (archived w r')
  then have r: "r' = r" by simp
  from archived(9) obtain stored e ob fb d where "lifecycle_event env cmd ''WORKFLOW_INSTANCE_ARCHIVED'' None w e"
    and "r = lifecycle_answer cmd w"
    and "receipts s' = receipts s @ [answered_row ''ARCHIVE_WORKFLOW_INSTANCE'' (le_command env) (lc_principal cmd) (lc_key cmd)
      hash 200 (lifecycle_body (le_lib env) r) d]"
    unfolding archive_effect_def r by (elim conjE exE) simp
  with archived(2) show ?thesis by (intro exI [of _ d]) (auto simp: lifecycle_event_def lifecycle_answer_def)
qed

lemma found_in: "receipts s' = receipts s @ [r] \<Longrightarrow> find_receipt p key s' = find_receipt p key (s\<lparr>receipts := receipts s @ [r]\<rparr>)"
  by (simp add: find_receipt_def)

lemma answer_pair: "(case fst x of Inl _ \<Rightarrow> False | Inr r \<Rightarrow> P r) \<Longrightarrow> \<exists>r. x = (Inr r, snd x) \<and> P r"
  by (cases x; cases "fst x") auto

section \<open>Properties\<close>

text \<open>
  C18. A retried cancellation or archival gets the first answer: the same request under the same key returns
  the stored result, marked as replayed, and changes nothing, whatever ids and clock the retry has.
\<close>
theorem lifecycle_retry_same_answer:
  assumes "store_wf s" and "uuid_text_ok lib" and "le_lib env = lib" and "le_lib env' = lib" and "le_commit env' = None"
    and "lc_principal cmd' = lc_principal cmd" and "lc_key cmd' = lc_key cmd" and "\<not> lr_replayed r"
  shows "(cancel_workflow_instance env cmd hash s = (Inr r, s') \<longrightarrow>
      cancel_workflow_instance env' cmd' hash s' = (Inr (r\<lparr>lr_replayed := True\<rparr>), s')) \<and>
    (archive_workflow_instance env cmd hash s = (Inr r, s') \<longrightarrow>
      archive_workflow_instance env' cmd' hash s' = (Inr (r\<lparr>lr_replayed := True\<rparr>), s'))"
proof (intro conjI impI)
  assume "cancel_workflow_instance env cmd hash s = (Inr r, s')"
  from cancel_answered [OF this assms(1,8)] obtain d where v: "is_i32 (lr_version r)" "is_i32 (lr_sequence r)"
    and fresh: "fresh_key (le_command env) (lc_principal cmd) (lc_key cmd) s"
    and rs: "receipts s' = receipts s @ [answered_row ''CANCEL_WORKFLOW_INSTANCE'' (le_command env) (lc_principal cmd) (lc_key cmd)
      hash 200 (lifecycle_body lib r) d]" using assms(3) by auto
  note found = found_in [OF rs, of "lc_principal cmd" "lc_key cmd", unfolded answered_found [OF fresh]]
  show "cancel_workflow_instance env' cmd' hash s' = (Inr (r\<lparr>lr_replayed := True\<rparr>), s')"
    using assms(4-7) lifecycle_round_trip [OF assms(2) v]
    by (simp add: cancel_workflow_instance_def cancel_acquire_def acquire_answered [OF found] cancel_replay_def finish_def)
next
  assume "archive_workflow_instance env cmd hash s = (Inr r, s')"
  from archive_answered [OF this assms(1,8)] obtain d where v: "is_i32 (lr_version r)" "is_i32 (lr_sequence r)"
    and fresh: "fresh_key (le_command env) (lc_principal cmd) (lc_key cmd) s"
    and rs: "receipts s' = receipts s @ [answered_row ''ARCHIVE_WORKFLOW_INSTANCE'' (le_command env) (lc_principal cmd) (lc_key cmd)
      hash 200 (lifecycle_body lib r) d]" using assms(3) by auto
  note found = found_in [OF rs, of "lc_principal cmd" "lc_key cmd", unfolded answered_found [OF fresh]]
  show "archive_workflow_instance env' cmd' hash s' = (Inr (r\<lparr>lr_replayed := True\<rparr>), s')"
    using assms(4-7) lifecycle_round_trip [OF assms(2) v]
    by (simp add: archive_workflow_instance_def archive_acquire_def acquire_answered [OF found] archive_replay_def finish_def)
qed

theorem lifecycle_retry_same_answer_witness:
  "is_ok (fst (cancel_workflow_instance (desk_env 80) (desk_command ''stop'') ''hash'' asked_store)) \<and>
   snd (cancel_workflow_instance (desk_env 85) (desk_command ''stop'') ''hash'' cancelled_store) = cancelled_store"
proof -
  let ?run = "cancel_workflow_instance (desk_env 80) (desk_command ''stop'') ''hash'' asked_store"
  have first: "fst ?run = Inr \<lparr>lr_instance = 20, lr_version = 5, lr_sequence = 5, lr_replayed = False\<rparr>" by code_simp
  then have "?run = (Inr \<lparr>lr_instance = 20, lr_version = 5, lr_sequence = 5, lr_replayed = False\<rparr>, cancelled_store)"
    unfolding cancelled_store_def by (metis prod.collapse)
  moreover have "store_wf asked_store" using asked_wf by (simp add: run_wf_def)
  moreover have "uuid_text_ok unary_library" by (simp add: uuid_text_ok_def)
  ultimately have "snd (cancel_workflow_instance (desk_env 85) (desk_command ''stop'') ''hash'' cancelled_store) = cancelled_store"
    using lifecycle_retry_same_answer [of asked_store unary_library "desk_env 80" "desk_env 85" "desk_command ''stop''"
        "desk_command ''stop''" "\<lparr>lr_instance = 20, lr_version = 5, lr_sequence = 5, lr_replayed = False\<rparr>" "''hash''" cancelled_store]
    by (simp add: desk_env_def)
  with first show ?thesis by simp
qed





end
