(* ===== verification/Wake_Properties.thy ===== *)
theory Wake_Properties
  imports Lifecycle_Properties
begin

text \<open>What an applied wake changes, and what a retry and the consistency check make of a wake.\<close>

section \<open>The latest fact\<close>

lemma latest_fact_none: "latest_fact es = None \<longleftrightarrow> es = []"
  by (cases es rule: rev_cases) (simp_all add: latest_fact_def split: option.split)

lemma latest_fact_member: "latest_fact es = Some x \<Longrightarrow> x \<in> set es"
proof (induction es arbitrary: x rule: rev_induct)
  case (snoc e es)
  then show ?case by (auto simp: latest_fact_def split: option.splits if_splits)
qed (simp add: latest_fact_def)

lemma latest_fact_snoc:
  assumes "\<And>e. e \<in> set es \<Longrightarrow> el_created e < el_created f" shows "latest_fact (es @ [f]) = Some f"
proof (cases "latest_fact es")
  case (Some x)
  then have "later_fact x f" using assms latest_fact_member by (simp add: later_fact_def)
  with Some show ?thesis by (simp add: latest_fact_def)
qed (simp add: latest_fact_def)

section \<open>The activation found\<close>

lemma dispatch_activationD:
  assumes "find_dispatch_activation i v s = Some a"
  shows "\<exists>r. r \<in> set (activations s) \<and> ac_instance r = i \<and> ac_visit r = v \<and> ac_kind r = DispatchIntent \<and> ac_id r = wa_id a"
proof -
  from assms obtain r where r: "find (\<lambda>a. ac_instance a = i \<and> ac_visit a = v \<and> ac_kind a = DispatchIntent) (activations s) = Some r"
    and a: "ac_id r = wa_id a" by (auto simp: find_dispatch_activation_def)
  from r have "r \<in> set (activations s)" "ac_instance r = i" "ac_visit r = v" "ac_kind r = DispatchIntent"
    by (auto simp: find_Some_iff)
  with a show ?thesis by blast
qed

lemma dispatch_activation_step:
  assumes "find_dispatch_activation i v s = Some a"
    and "activations s' = activations s" and "closures s' = closures s"
    and "eligibilities s' = eligibilities s @ [f]" and "el_activation f = wa_id a"
    and "\<And>e. e \<in> set (eligibilities s) \<Longrightarrow> el_created e < el_created f"
  shows "find_dispatch_activation i v s' = Some (a\<lparr>wa_next := Some (el_new f)\<rparr>)"
proof -
  from assms(1) obtain r where r: "find (\<lambda>a. ac_instance a = i \<and> ac_visit a = v \<and> ac_kind a = DispatchIntent) (activations s) = Some r"
    and a: "ac_id r = wa_id a" "wa_closed a = map_option cl_at (find (\<lambda>c. cl_activation c = ac_id r) (closures s))"
    by (auto simp: find_dispatch_activation_def)
  have "latest_fact (filter (\<lambda>e. el_activation e = ac_id r) (eligibilities s')) = Some f"
    using latest_fact_snoc [of "filter (\<lambda>e. el_activation e = ac_id r) (eligibilities s)" f] assms(5,6) a
    by (simp add: assms(4))
  with r a show ?thesis by (cases a) (simp add: find_dispatch_activation_def assms(2,3))
qed

section \<open>The stored no-op\<close>

lemma wake_no_op_row:
  assumes "wake_dispatch_intent env cmd hash s = (Inr (NoOp n), s')" and "\<not> wn_replayed n"
  shows "\<exists>reason au d. fresh_key (we_command env) (wc_principal cmd) (wc_key cmd) s \<and>
    s' = s\<lparr>receipts := receipts s @ [answered_row ''WAKE_DISPATCH_INTENT'' (we_command env) (wc_principal cmd)
             (wc_key cmd) hash 200 (no_op_body (we_lib env) cmd reason) d], audits := audits s @ [au]\<rparr>"
proof (cases "wake_acquire (we_command env) (wc_principal cmd) (wc_key cmd) hash s")
  case (Inl e)
  with assms(1) show ?thesis by (simp add: wake_dispatch_intent_def)
next
  case (Inr x)
  obtain acq s1 where x: "x = (acq, s1)" by (cases x)
  note acquired = Inr [unfolded x]
  show ?thesis
  proof (cases "\<exists>c. acq = Wake_Owned c")
    case False
    with assms acquired show ?thesis
      by (auto simp: wake_dispatch_intent_def finish_def wake_replay_def Let_def andThen_eq_Inr
          split: wake_acquire.splits option.splits if_splits)
  next
    case True
    then obtain c where c: "acq = Wake_Owned c" ..
    from wake_acquire_owned [OF acquired [unfolded c]] c have acq: "acq = Wake_Owned (we_command env)"
      and fresh: "fresh_key (we_command env) (wc_principal cmd) (wc_key cmd) s"
      and s1: "s1 = s\<lparr>receipts := receipts s @ [processing_row ''WAKE_DISPATCH_INTENT'' (we_command env) (wc_principal cmd) (wc_key cmd) hash]\<rparr>"
      by auto
    have body: "(case andThen (wake_checked (we_lib env) (we_command env) cmd s1) (\<lambda>(w, a).
                  case no_op_reason (we_now env) cmd w a of
                    Some reason \<Rightarrow> wake_skipped env (we_command env) cmd hash reason s1
                  | None \<Rightarrow> wake_written env (we_command env) cmd w a s1) of
             Inl e \<Rightarrow> (Inl e, s)
           | Inr (r, s2) \<Rightarrow> finish Wk_StorageError (we_commit env) (Inr r) s s2) = (Inr (NoOp n), s')"
      using assms(1) acquired unfolding wake_dispatch_intent_def Let_def by (simp add: acq)
    have applied: "False" if "wake_written env (we_command env) cmd w a s1 = Inr (NoOp n, t)" for w a t
      using that by (auto simp: wake_written_def Let_def andThen_eq_Inr)
    from body obtain reason where sk: "wake_skipped env (we_command env) cmd hash reason s1 = Inr (NoOp n, s')"
      using applied by (auto simp: finish_def andThen_def split: sum.splits option.splits prod.splits)
    then obtain s2 where a: "attempt_audit_row (we_audit env) (we_command env) (wc_principal cmd) (wc_key cmd)
                ''WAKE_NO_OP'' (Some reason) hash None s1 = Inr s2"
      and cm: "wake_complete (we_lib env) (we_command env) 200 (no_op_body (we_lib env) cmd reason) s2 = Inr s'"
      unfolding wake_skipped_def by (auto simp: andThen_eq_Inr map_sum_eq_Inr)
    from attempt_audit_row_frame [OF a] obtain au where s2: "s2 = s1\<lparr>audits := audits s1 @ [au]\<rparr>" ..
    have rs: "receipts s2 = receipts s @ [processing_row ''WAKE_DISPATCH_INTENT'' (we_command env) (wc_principal cmd) (wc_key cmd) hash]"
      by (simp add: s2 s1)
    have new: "we_command env \<notin> rc_command ` set (receipts s)" using fresh by (simp add: fresh_key_def)
    from wake_complete_new [OF cm new rs] obtain d where s': "s' = s2\<lparr>receipts := receipts s @
        [answered_row ''WAKE_DISPATCH_INTENT'' (we_command env) (wc_principal cmd) (wc_key cmd) hash 200
          (no_op_body (we_lib env) cmd reason) d]\<rparr>" ..
    show ?thesis using fresh by (intro exI [of _ reason] exI [of _ au] exI [of _ d]) (simp add: s' s2 s1)
  qed
qed

lemma wake_acquire_answered:
  assumes "find_receipt p key s = Some (answered_row ctype cid p key hash 200 body d)"
  shows "wake_acquire c p key hash s = Inr (Wake_ReplaySuccess body, s)"
  using assms by (simp add: wake_acquire_def try_insert_receipt_def answered_row_def processing_row_def)

text \<open>The answer of a no-op has no state version.\<close>

lemma no_op_not_applied: "parse_wake_applied env (no_op_body lib cmd reason) = None"
  by (simp add: parse_wake_applied_def no_op_body_def struct_member_def Let_def)

section \<open>Properties\<close>

text \<open>
  C19. An applied wake brings the dispatch intent forward: it happens only for the open activation of the
  current visit of a running instance at the expected version, before the intent was due; it
  adds one eligibility fact and one event, bumps the version, and makes the intent due now.
\<close>
theorem wake_brings_forward:
  assumes "wake_dispatch_intent env cmd hash s = (Inr (Applied r), s')" and "run_wf s" and "\<not> wp_replayed r"
    and "\<forall>e\<in>set (eligibilities s). el_created e < we_now env"
  shows "\<exists>w a previous. find_instance_row (wc_instance cmd) s = Some w \<and> \<not> closed w \<and>
    wi_current_visit w = Some (wc_visit cmd) \<and> wi_state_version w = wc_expected cmd \<and>
    find_dispatch_activation (wc_instance cmd) (wc_visit cmd) s = Some a \<and> wa_closed a = None \<and>
    wa_next a = Some previous \<and> we_now env < previous \<and>
    find_dispatch_activation (wc_instance cmd) (wc_visit cmd) s' = Some (a\<lparr>wa_next := Some (we_now env)\<rparr>) \<and>
    find_instance_row (wc_instance cmd) s' = Some (bumped w) \<and> wp_version r = wi_state_version w + 1 \<and>
    length (events s') = length (events s) + 1 \<and> length (eligibilities s') = length (eligibilities s) + 1"
proof -
  have wf: "store_wf s" using assms(2) by (simp add: run_wf_def)
  from assms(1) wf show ?thesis
  proof (cases rule: wake_ends)
    case quiet
    with assms(3) show ?thesis by blast
  next
    case (applied w a out)
    from applied(4) have no: "\<not> closed w" "wa_closed a = None" "wi_current_visit w = Some (wc_visit cmd)"
        "wi_state_version w = wc_expected cmd" "\<And>n. wa_next a = Some n \<Longrightarrow> we_now env < n"
      by (auto simp: no_op_reason_def closed_def split: if_splits option.splits)
    from applied(3) have found: "find_instance_row (wc_instance cmd) s = Some w"
        "find_dispatch_activation (wc_instance cmd) (wc_visit cmd) s = Some a" by (simp_all add: wakeable_def)
    from applied(5) obtain previous e body d where next': "wa_next a = Some previous"
      and out: "wp_version r = wi_state_version w + 1"
      and s': "s' = s\<lparr>eligibilities := eligibilities s @
                 [\<lparr>el_id = we_fact env, el_activation = wa_id a, el_previous = previous, el_new = we_now env,
                   el_cause = ''WAKE'', el_command = we_command env, el_created = we_now env\<rparr>],
               instances := map (\<lambda>x. if wi_id x = wc_instance cmd then bumped w else x) (instances s),
               events := events s @ [e],
               receipts := receipts s @ [answered_row ''WAKE_DISPATCH_INTENT'' (we_command env) (wc_principal cmd)
                 (wc_key cmd) hash 200 body d]\<rparr>"
      using applied(1) unfolding wake_effect_def by auto
    have "find_dispatch_activation (wc_instance cmd) (wc_visit cmd) s' = Some (a\<lparr>wa_next := Some (we_now env)\<rparr>)"
      using dispatch_activation_step [OF found(2), of s' "\<lparr>el_id = we_fact env, el_activation = wa_id a, el_previous = previous,
          el_new = we_now env, el_cause = ''WAKE'', el_command = we_command env, el_created = we_now env\<rparr>"] assms(4)
      by (simp add: s')
    moreover have w: "w \<in> set (instances s)" "wi_id w = wc_instance cmd" using find_instance_row [OF found(1)] by simp_all
    have "bumped w \<in> set (instances s')" "wi_id (bumped w) = wc_instance cmd"
      using w by (auto simp: s' bumped_def intro!: image_eqI [of _ _ w])
    then have "find_instance_row (wc_instance cmd) s' = Some (bumped w)" using store_row [OF applied(6)] by metis
    ultimately show ?thesis using found no next' out by (auto simp: s')
  qed
qed

text \<open>
  The consistency check that guards the rebuild of a projection calls every instance inconsistent on which
  a wake was ever applied: the fact of a wake moves the instant back, and the check asks that it move on.
\<close>
theorem applied_wake_reports_drift:
  assumes "wake_dispatch_intent env cmd hash s = (Inr (Applied r), s')" and "store_wf s" and "\<not> wp_replayed r"
  shows "\<not> is_ok (activation_consistency (wc_instance cmd) s')"
  using assms(1,2)
proof (cases rule: wake_ends)
  case quiet
  with assms(3) show ?thesis by blast
next
  case (applied w a out)
  from applied(3) have "find_dispatch_activation (wc_instance cmd) (wc_visit cmd) s = Some a" by (simp add: wakeable_def)
  from dispatch_activationD [OF this] obtain q where q: "q \<in> set (activations s)" "ac_instance q = wc_instance cmd"
      "ac_kind q = DispatchIntent" "ac_id q = wa_id a" by blast
  from applied(5) obtain previous f where p: "wa_next a = Some previous"
    and f: "f \<in> set (eligibilities s')" "el_activation f = wa_id a" "el_previous f = previous" "el_new f = we_now env"
    and acts: "activations s' = activations s"
    unfolding wake_effect_def by fastforce
  from applied(4) p have "we_now env < previous" by (auto simp: no_op_reason_def split: if_splits)
  with f q have "list_ex (\<lambda>a. ac_instance a = wc_instance cmd \<and> ac_kind a = DispatchIntent \<and>
                (ac_next a = None \<or>
                 list_ex (\<lambda>e. el_activation e = ac_id a \<and> el_new e \<le> el_previous e) (eligibilities s'))) (activations s')"
    unfolding acts list_ex_iff by (intro bexI [of _ q] conjI disjI2 bexI [of _ f]) simp_all
  then show ?thesis by (simp add: activation_consistency_def)
qed

text \<open>
  C20. A retried no-op fails: the answer stored for a wake that did not apply has status 200, which the replay
  reads as the answer of an applied wake and reports as an internal inconsistency.
\<close>
theorem skipped_wake_retry_fails:
  assumes "wake_dispatch_intent env cmd hash s = (Inr (NoOp n), s')" and "\<not> wn_replayed n"
    and "wc_principal cmd' = wc_principal cmd" and "wc_key cmd' = wc_key cmd" and "we_commit env' = None"
  shows "wake_dispatch_intent env' cmd' hash s' = (Inl (Wk_InternalConsistency ''invalid stored result''), s')"
proof -
  from wake_no_op_row [OF assms(1,2)] obtain reason au d where
    fresh: "fresh_key (we_command env) (wc_principal cmd) (wc_key cmd) s"
    and s': "s' = s\<lparr>receipts := receipts s @ [answered_row ''WAKE_DISPATCH_INTENT'' (we_command env) (wc_principal cmd)
             (wc_key cmd) hash 200 (no_op_body (we_lib env) cmd reason) d], audits := audits s @ [au]\<rparr>" by blast
  have rs: "receipts s' = receipts s @ [answered_row ''WAKE_DISPATCH_INTENT'' (we_command env) (wc_principal cmd)
             (wc_key cmd) hash 200 (no_op_body (we_lib env) cmd reason) d]" by (simp add: s')
  note found = found_in [OF rs, of "wc_principal cmd" "wc_key cmd", unfolded answered_found [OF fresh]]
  show ?thesis
    using assms(3-5)
    by (simp add: wake_dispatch_intent_def wake_acquire_answered [OF found] wake_replay_def no_op_not_applied finish_def)
qed

section \<open>An example\<close>

definition dispatch_store :: store where
  "dispatch_store = review_store\<lparr>visits :=
     [\<lparr>nv_id = 22, nv_instance = 20, nv_node = 12, nv_number = 1, nv_assignee = Some 5, nv_entered_by = Some 13\<rparr>],
     activations := [\<lparr>ac_id = 31, ac_instance = 20, ac_visit = 22, ac_kind = DispatchIntent,
     ac_owner = 5, ac_at = 500, ac_next = Some 500, ac_command = 1\<rparr>]\<rparr>"

definition dispatch_env :: "uuid \<Rightarrow> wake_env" where
  "dispatch_env n =
     \<lparr>we_lib = unary_library, we_now = 100, we_show_time = (\<lambda>t. replicate (nat t) CHR ''t''),
      we_parse_time = (\<lambda>t. Some (int (length t))), we_command = n, we_audit = n + 1, we_fact = n + 2, we_event = n + 3,
      we_commit = None\<rparr>"

definition wake_now :: "int \<Rightarrow> wake_command" where
  "wake_now v = \<lparr>wc_principal = 5, wc_key = ''wake'', wc_instance = 20, wc_visit = 22, wc_expected = v, wc_cause = None\<rparr>"

lemma dispatch_run_wf: "run_wf dispatch_store"
proof -
  have "store_wf dispatch_store"
    by (simp add: store_wf_def dispatch_store_def review_store_def empty_store_def review_instance_def)
  moreover have "case_keys (assistances dispatch_store)" "cases_placed dispatch_store" "tables_typed dispatch_store" "intents_wf dispatch_store"
    by code_simp+
  moreover have "visits_known dispatch_store" "archived_ended dispatch_store"
    by (simp_all add: visits_known_def archived_ended_def dispatch_store_def review_store_def review_instance_def)
  ultimately show ?thesis by (simp add: run_wf_def)
qed

lemma woken: "fst (wake_dispatch_intent (dispatch_env 70) (wake_now 3) ''hash'' dispatch_store) =
    Inr (Applied \<lparr>wp_instance = 20, wp_visit = 22, wp_version = 4, wp_sequence = 4, wp_next = 100, wp_replayed = False\<rparr>)"
  by code_simp

lemma skipped: "fst (wake_dispatch_intent (dispatch_env 70) (wake_now 9) ''hash'' dispatch_store) =
    Inr (NoOp \<lparr>wn_instance = 20, wn_visit = 22, wn_reason = ''VERSION_MISMATCH'', wn_replayed = False\<rparr>)"
  by code_simp

theorem wake_brings_forward_witness:
  "\<exists>a. find_dispatch_activation 20 22 dispatch_store = Some a \<and>
     find_dispatch_activation 20 22 (snd (wake_dispatch_intent (dispatch_env 70) (wake_now 3) ''hash'' dispatch_store)) =
       Some (a\<lparr>wa_next := Some 100\<rparr>)"
proof -
  let ?run = "wake_dispatch_intent (dispatch_env 70) (wake_now 3) ''hash'' dispatch_store"
  have "?run = (Inr (Applied \<lparr>wp_instance = 20, wp_visit = 22, wp_version = 4, wp_sequence = 4, wp_next = 100, wp_replayed = False\<rparr>), snd ?run)"
    using woken by (metis prod.collapse)
  moreover have "eligibilities dispatch_store = []" by (simp add: dispatch_store_def review_store_def empty_store_def)
  ultimately show ?thesis
    using wake_brings_forward [OF _ dispatch_run_wf, of "dispatch_env 70" "wake_now 3" "''hash''"]
    by (fastforce simp: wake_now_def dispatch_env_def)
qed

theorem applied_wake_reports_drift_witness:
  "is_ok (activation_consistency 20 dispatch_store) \<and>
   \<not> is_ok (activation_consistency 20 (snd (wake_dispatch_intent (dispatch_env 70) (wake_now 3) ''hash'' dispatch_store)))"
proof -
  let ?run = "wake_dispatch_intent (dispatch_env 70) (wake_now 3) ''hash'' dispatch_store"
  have "?run = (Inr (Applied \<lparr>wp_instance = 20, wp_visit = 22, wp_version = 4, wp_sequence = 4, wp_next = 100, wp_replayed = False\<rparr>), snd ?run)"
    using woken by (metis prod.collapse)
  moreover have "store_wf dispatch_store" using dispatch_run_wf by (simp add: run_wf_def)
  moreover have "is_ok (activation_consistency 20 dispatch_store)" by code_simp
  ultimately show ?thesis using applied_wake_reports_drift [of "dispatch_env 70" "wake_now 3" "''hash''" dispatch_store]
    by (simp add: wake_now_def)
qed

theorem skipped_wake_retry_fails_witness:
  "fst (wake_dispatch_intent (dispatch_env 80) (wake_now 9) ''hash''
     (snd (wake_dispatch_intent (dispatch_env 70) (wake_now 9) ''hash'' dispatch_store))) =
   Inl (Wk_InternalConsistency ''invalid stored result'')"
proof -
  let ?run = "wake_dispatch_intent (dispatch_env 70) (wake_now 9) ''hash'' dispatch_store"
  have "?run = (Inr (NoOp \<lparr>wn_instance = 20, wn_visit = 22, wn_reason = ''VERSION_MISMATCH'', wn_replayed = False\<rparr>), snd ?run)"
    using skipped by (metis prod.collapse)
  from skipped_wake_retry_fails [OF this, of "wake_now 9" "dispatch_env 80"] show ?thesis by (simp add: dispatch_env_def)
qed

end
