(* ===== verification/Help_Properties.thy ===== *)
theory Help_Properties
  imports Lifecycle_Properties
begin

text \<open>Who may open, escalate and settle an assistance case, and what a retry of a request answers.\<close>

section \<open>Stored errors\<close>

definition replays :: "assistance_error \<Rightarrow> bool" where
  "replays e \<longleftrightarrow>
     assistance_status_code e \<noteq> 200 \<and> assistance_status_code e \<noteq> 201 \<and>
     replay_error (assistance_status_code e) (assistance_error_body e) = e"

lemma stored_errors_replay [simp]:
  "replays A_PrincipalDisabled" "replays A_InstanceNotFound" "replays A_CurrentNodeVisitMismatch"
  "replays A_PrincipalNotAssignee" "replays A_SourceNodeTerminal" "replays A_InstanceCancelled" "replays A_InstanceArchived"
  "replays A_DomainOwnerMissing" "replays A_AssistanceAlreadyOpen" "replays A_SizeLimitExceeded"
  "replays (A_InvalidPayload d)"
  by (simp_all add: replays_def replay_error_def assistance_error_body_def jindex_def)

lemma conflict_replays:
  "is_i32 a \<Longrightarrow> is_i32 b \<Longrightarrow> replays (A_WorkflowStateVersionConflict a b)"
  by (simp add: replays_def replay_error_def assistance_error_body_def jindex_def i32_or_zero_def json_int_as_i64 as_i32_id)

lemma kept_Inl [simp]: "map_sum Keep id r = Inl (Keep e) \<longleftrightarrow> r = Inl e" "map_sum Drop id r \<noteq> Inl (Keep e)"
  by (cases r; simp)+

lemma kept_error_replays:
  assumes "request_checked env cmd s = Inl (Keep e)" and "\<forall>j. is_ok (json_length (ae_lib env) j)"
    and "principal_enabled (rq_principal cmd) s \<noteq> None"
    and "is_i32 (rq_expected cmd)" and "\<forall>w\<in>set (instances s). is_i32 (wi_state_version w)"
  shows "replays e"
proof -
  have payload: "replays e'" if "validate_payload (ae_lib env) p = Inl e'" for p e'
    using that assms(2)
    by (auto simp: validate_payload_def Let_def lib_error_def is_ok_def andThen_def split: if_splits sum.splits)
  have owner: "replays e'" if "effective_owner d s = Inl e'" for d e'
    using that by (auto simp: effective_owner_def split: if_splits list.splits)
  have version: "is_i32 (wi_state_version w)" if "find_instance_row i s = Some w" for i w
    using find_instance_row [OF that] assms(5) by simp
  show ?thesis
    using assms(1,3,4) payload owner version
    by (auto simp: request_checked_def andThen_def keep_def drop_error_def guard_r_def ok_or_def request_lifecycle_def
        validate_actor_enabled_def request_assignee_def request_open_case_def conflict_replays
        split: sum.splits if_splits option.splits bool.splits)
qed

section \<open>The stored answer of a request\<close>

lemma assistance_round_trip:
  assumes "uuid_text_ok (ae_lib env)" and "ae_parse_time env (ae_show_time env (ar_created r)) = Some (ar_created r)"
    and "is_i32 (ar_version r)" and "is_i32 (ar_sequence r)" and "\<not> ar_replayed r"
  shows "parse_assistance env (assistance_body env r) = Some r"
proof -
  have i: "parse_uuid (ae_lib env) (show_uuid (ae_lib env) u) = Some u" for u using assms(1) by (simp add: uuid_text_ok_def)
  have st: "read_status (JString (case_status_to_string st)) = Some st" for st
    by (cases st) (simp_all add: read_status_def parse_case_status_def)
  show ?thesis
    using assms(2-5) i st json_int_as_i64 [OF assms(3)] json_int_as_i64 [OF assms(4)]
    by (simp add: parse_assistance_def assistance_body_def struct_member_def read_uuid_def read_i32_def read_flag_def
        is_i32_def Let_def)
qed

lemma request_receipts [simp]:
  "request_lifecycle w (s\<lparr>receipts := rs\<rparr>) = request_lifecycle w s"
  "validate_actor_enabled p (s\<lparr>receipts := rs\<rparr>) = validate_actor_enabled p s"
  "request_assignee w p (s\<lparr>receipts := rs\<rparr>) = request_assignee w p s"
  "effective_owner d (s\<lparr>receipts := rs\<rparr>) = effective_owner d s"
  by (simp_all add: request_lifecycle_def validate_actor_enabled_def request_assignee_def current_assignee_def
      effective_owner_def)

text \<open>What a request stores: the answer of an accepted request, or the error of a refused one.\<close>

definition stored_answer :: "assist_env \<Rightarrow> (assistance_error, assistance_result) res \<Rightarrow> int \<times> json" where
  "stored_answer env res =
     (case res of Inl e \<Rightarrow> (assistance_status_code e, assistance_error_body e) | Inr r \<Rightarrow> (201, assistance_body env r))"

lemma request_answered:
  assumes run: "request_assistance env cmd hash s = (res, s')" and wf: "store_wf s"
    and key: "find_receipt (rq_principal cmd) (rq_key cmd) s = None"
    and stored: "find_receipt (rq_principal cmd) (rq_key cmd) s' \<noteq> None"
  shows "(\<exists>d. find_receipt (rq_principal cmd) (rq_key cmd) s' = Some (answered_row ''REQUEST_WORKFLOW_ASSISTANCE'' (ae_command env)
      (rq_principal cmd) (rq_key cmd) hash (fst (stored_answer env res)) (snd (stored_answer env res)) d)) \<and>
    (case res of Inl e \<Rightarrow> request_checked env cmd s = Inl (Keep e)
     | Inr r \<Rightarrow> \<not> ar_replayed r \<and> is_i32 (ar_version r) \<and> ar_sequence r = ar_version r \<and> ar_created r = ae_now env)"
proof -
  let ?cid = "ae_command env"
  have unchanged: "s' \<noteq> s" using key stored by auto
  obtain c s1 where acq: "assist_acquire ''REQUEST_WORKFLOW_ASSISTANCE'' ?cid (rq_principal cmd) (rq_key cmd) hash s = Inr (Acq_Owned c, s1)"
    using run unchanged key
    by (auto simp: request_assistance_def Let_def assist_acquire_def acquire_by_def try_insert_receipt_def split: if_splits)
  from acquire_by_owned [OF acq [unfolded assist_acquire_def]] have c: "c = ?cid"
    and fresh: "fresh_key ?cid (rq_principal cmd) (rq_key cmd) s"
    and s1: "s1 = s\<lparr>receipts := receipts s @ [processing_row ''REQUEST_WORKFLOW_ASSISTANCE'' ?cid (rq_principal cmd) (rq_key cmd) hash]\<rparr>"
    by simp_all
  have checks: "request_checked env cmd s1 = request_checked env cmd s"
    by (simp add: request_checked_def s1)
  have body: "(case request_checked env cmd s of
             Inl (Keep e) \<Rightarrow> assist_failure env ?cid e s s1
           | Inl (Drop e) \<Rightarrow> (Inl e, s)
           | Inr (payload, dig, w, owner) \<Rightarrow>
               (case request_written env ?cid cmd payload dig w owner s1 of
                  Inl e \<Rightarrow> (Inl e, s)
                | Inr (r, s2) \<Rightarrow> finish A_StorageError (ae_commit env) (Inr r) s s2)) = (res, s')"
    using run acq unfolding request_assistance_def Let_def c by (simp add: checks)
  have rs: "receipts s1 = receipts s @ [processing_row ''REQUEST_WORKFLOW_ASSISTANCE'' ?cid (rq_principal cmd) (rq_key cmd) hash]"
    by (simp add: s1)
  have new: "?cid \<notin> rc_command ` set (receipts s)" using fresh by (simp add: fresh_key_def)
  show ?thesis
  proof (cases "request_checked env cmd s")
    case (Inl st)
    with body unchanged obtain e s2 where e: "request_checked env cmd s = Inl (Keep e)" "res = Inl e"
      and cm: "assist_complete (ae_lib env) ?cid (assistance_status_code e) (assistance_error_body e) s1 = Inr s2" and "s' = s2"
      by (auto simp: assist_failure_def finish_def split: assist_stop.splits sum.splits option.splits)
    from complete_by_new [OF cm [unfolded assist_complete_def] new rs] this(4) obtain d where
      "s' = s1\<lparr>receipts := receipts s @ [answered_row ''REQUEST_WORKFLOW_ASSISTANCE'' ?cid (rq_principal cmd) (rq_key cmd) hash
        (assistance_status_code e) (assistance_error_body e) d]\<rparr>" by auto
    then have "receipts s' = receipts s @ [answered_row ''REQUEST_WORKFLOW_ASSISTANCE'' ?cid (rq_principal cmd) (rq_key cmd) hash
        (assistance_status_code e) (assistance_error_body e) d]" by simp
    from found_in [OF this, of "rq_principal cmd" "rq_key cmd", unfolded answered_found [OF fresh]] e show ?thesis
      by (auto simp: stored_answer_def)
  next
    case (Inr x)
    with body unchanged have ok: "is_ok res"
      by (auto simp: finish_def split: sum.splits option.splits prod.splits)
    from run wf show ?thesis
    proof (cases rule: request_ends)
      case quiet
      obtain payload dig w owner where "x = (payload, dig, w, owner)" by (cases x) auto
      with body Inr ok obtain r where "request_written env ?cid cmd payload dig w owner s1 = Inr (r, s')" "res = Inr r"
        by (auto simp: finish_def split: sum.splits option.splits)
      moreover from this(1) have "\<not> ar_replayed r" by (auto simp: request_written_def Let_def andThen_eq_Inr)
      ultimately show ?thesis using quiet by blast
    next
      case (requested w owner r)
      from requested(4) obtain e d where r: "r = requested_answer env cmd w"
        and ev: "case_event env w (rq_principal cmd) ''ASSISTANCE_REQUESTED'' e"
        and rs': "receipts s' = receipts s @ [answered_row ''REQUEST_WORKFLOW_ASSISTANCE'' ?cid (rq_principal cmd) (rq_key cmd)
           hash 201 (assistance_body env r) d]"
        unfolding request_effect_def by (elim conjE exE) simp
      from found_in [OF rs', of "rq_principal cmd" "rq_key cmd", unfolded answered_found [OF fresh]]
      show ?thesis using r ev requested(1) by (auto simp: stored_answer_def requested_answer_def case_event_def)
    qed
  qed
qed

section \<open>Properties\<close>

text \<open>
  C17. A retried request for assistance gets the first answer, the accepted one as well as the refusal: whatever
  the first call stored under the key comes back for the same request, an accepted result marked as replayed,
  and nothing changes, whatever ids, clock and command the retry has.
\<close>
theorem assistance_retry_same_answer:
  assumes "request_assistance env cmd hash s = (res, s')" and "store_wf s"
    and "find_receipt (rq_principal cmd) (rq_key cmd) s = None"
    and "find_receipt (rq_principal cmd) (rq_key cmd) s' \<noteq> None"
    and "rq_principal cmd' = rq_principal cmd" and "rq_key cmd' = rq_key cmd"
    and "ae_lib env' = ae_lib env" and "ae_parse_time env' = ae_parse_time env" and "ae_commit env' = None"
    and "uuid_text_ok (ae_lib env)" and "ae_parse_time env (ae_show_time env (ae_now env)) = Some (ae_now env)"
    and "\<forall>j. is_ok (json_length (ae_lib env) j)" and "principal_enabled (rq_principal cmd) s \<noteq> None"
    and "is_i32 (rq_expected cmd)" and "\<forall>w\<in>set (instances s). is_i32 (wi_state_version w)"
  shows "request_assistance env' cmd' hash s' = (map_sum id (\<lambda>r. r\<lparr>ar_replayed := True\<rparr>) res, s')"
proof -
  from request_answered [OF assms(1-4)] obtain d
    where found: "find_receipt (rq_principal cmd) (rq_key cmd) s' = Some (answered_row ''REQUEST_WORKFLOW_ASSISTANCE''
        (ae_command env) (rq_principal cmd) (rq_key cmd) hash (fst (stored_answer env res)) (snd (stored_answer env res)) d)"
      and kind: "case res of Inl e \<Rightarrow> request_checked env cmd s = Inl (Keep e)
        | Inr r \<Rightarrow> \<not> ar_replayed r \<and> is_i32 (ar_version r) \<and> ar_sequence r = ar_version r \<and> ar_created r = ae_now env"
    by blast
  have "assist_replay env' (fst (stored_answer env res)) (snd (stored_answer env res)) =
      map_sum id (\<lambda>r. r\<lparr>ar_replayed := True\<rparr>) res"
  proof (cases res)
    case (Inl e)
    with kind kept_error_replays [of env cmd s e] assms(12-15) show ?thesis
      by (simp add: stored_answer_def assist_replay_def replays_def)
  next
    case (Inr r)
    with kind have "parse_assistance env (assistance_body env r) = Some r"
      using assms(10,11) by (intro assistance_round_trip) simp_all
    moreover have "parse_assistance env' b = parse_assistance env b" for b
      using assms(7,8) by (simp add: parse_assistance_def)
    ultimately show ?thesis using Inr by (simp add: stored_answer_def assist_replay_def)
  qed
  then show ?thesis
    using assms(5,6,9) by (simp add: request_assistance_def assist_acquire_def acquire_answered [OF found] finish_def)
qed

theorem assistance_retry_same_answer_witness:
  "request_assistance (desk_assist 90) desk_request ''hash'' asked_store =
     (map_sum id (\<lambda>r. r\<lparr>ar_replayed := True\<rparr>) (fst (request_assistance (desk_assist 70) desk_request ''hash'' review_store)),
      asked_store)"
proof -
  have "request_assistance (desk_assist 70) desk_request ''hash'' review_store =
      (fst (request_assistance (desk_assist 70) desk_request ''hash'' review_store), asked_store)"
    by (simp add: asked_store_def)
  moreover have "find_receipt 5 ''help'' review_store = None" by code_simp
  moreover have "\<not> Option.is_none (find_receipt 5 ''help'' asked_store)" by code_simp
  moreover have "principal_enabled 5 review_store = Some True" by code_simp
  moreover have "uuid_text_ok unary_library" by (simp add: uuid_text_ok_def)
  moreover have "\<forall>w\<in>set (instances review_store). is_i32 (wi_state_version w)"
    by (simp add: review_store_def review_instance_def is_i32_def)
  moreover have "\<forall>j. is_ok (json_length unary_library j)" by (simp add: unary_library_def is_ok_def)
  ultimately show ?thesis
    using review_store_wf
    by (intro assistance_retry_same_answer [where env = "desk_assist 70" and s = review_store and cmd = desk_request])
      (simp_all add: desk_request_def desk_assist_def is_i32_def Option.is_none_def split: option.splits)
qed



text \<open>
  C16. A case is escalated or resolved only by the domain's owner: an action accepted for the first time was taken by the
  enabled owner of the domain of the case's instance, at the expected version, while the visit of the case is the
  current one and the status allows the action. It changes the status of that case, records who acted, and takes the instance one version up.
\<close>
theorem case_settled_by_owner:
  assumes "owner_action_command env cmd action hash s = (Inr r, s')" and "store_wf s" and "\<not> ar_replayed r"
  shows "\<exists>w a act. actionable (ae_command env) cmd action w a s \<and> ca_by act = oc_principal cmd \<and>
    assistances s' = map (\<lambda>x. if as_id x = oc_case cmd \<and> allows action x then acted action act x else x) (assistances s) \<and>
    instances s' = map (\<lambda>x. if wi_id x = as_instance a then bumped w else x) (instances s)"
  using assms(1,2)
proof (cases rule: owner_ends)
  case quiet
  with assms(3) show ?thesis by simp
next
  case (acted w a r')
  from acted(4) obtain payload dig where
    "assistances s' = map (\<lambda>x. if as_id x = oc_case cmd \<and> allows action x
       then acted action \<lparr>ca_by = oc_principal cmd, ca_payload = payload, ca_digest = dig, ca_command = ae_command env,
              ca_at = ae_now env\<rparr> x else x) (assistances s)"
    "instances s' = map (\<lambda>x. if wi_id x = as_instance a then bumped w else x) (instances s)"
    unfolding owner_effect_def by (elim conjE exE) (rule that, simp_all del: map_eq_conv)
  moreover have "ca_by \<lparr>ca_by = oc_principal cmd, ca_payload = payload, ca_digest = dig, ca_command = ae_command env,
              ca_at = ae_now env\<rparr> = oc_principal cmd" by simp
  ultimately show ?thesis using acted(3) by blast
qed

definition owner_answer :: owner_command where
  "owner_answer = \<lparr>oc_principal = 6, oc_key = ''answer'', oc_case = 71, oc_expected = 4\<rparr>"

definition answer_action :: owner_action where
  "answer_action = Resolve \<lparr>py_message = ''done'', py_supporting = None\<rparr>"

theorem case_settled_by_owner_witness:
  "\<exists>w a. actionable 75 owner_answer answer_action w a asked_store"
proof -
  let ?run = "owner_action_command (desk_assist 75) owner_answer answer_action ''hash'' asked_store"
  have "case fst ?run of Inl _ \<Rightarrow> False | Inr r \<Rightarrow> \<not> ar_replayed r" by code_simp
  from answer_pair [OF this] obtain r where run: "?run = (Inr r, snd ?run)" and new: "\<not> ar_replayed r" by blast
  have "store_wf asked_store" using asked_wf by (simp add: run_wf_def)
  from case_settled_by_owner [OF run this new] show ?thesis
    unfolding desk_assist_def assist_env.simps by blast
qed

end
