(* ===== verification/Recovery_Rows.thy ===== *)
theory Recovery_Rows
  imports Wake Lifecycle Assistance_Commands
begin

text \<open>
  Values of the administrative recovery: commands, errors and snapshots of \<open>domain/workflow_instance/recovery.rs\<close>,
  the fact rows of \<open>admin_recovery_repository/rows.rs\<close> with the queries of \<open>snapshot.rs\<close> that load them, and
  the field readers of \<open>event_fields.rs\<close>.
\<close>

section \<open>Commands and errors\<close>

datatype admin_operation = MoveToNode | TerminateInstance

fun admin_operation_to_string :: "admin_operation \<Rightarrow> string" where
  "admin_operation_to_string MoveToNode = ''MOVE_TO_NODE''"
| "admin_operation_to_string TerminateInstance = ''TERMINATE_INSTANCE''"

record related_reference =
  rr_type :: string
  rr_id :: string

record rebuild_command =
  rb_actor :: uuid
  rb_key :: string
  rb_schema :: string
  rb_instance :: uuid
  rb_before :: "string option"

record override_command =
  oo_principal :: uuid
  oo_key :: string
  oo_schema :: string
  oo_instance :: uuid
  oo_expected :: int
  oo_operation :: admin_operation
  oo_target :: uuid
  oo_reason :: string
  oo_references :: "related_reference list"
  oo_before :: "string option"

record projection =
  pj_context :: "uuid option"
  pj_visit :: "uuid option"
  pj_version :: int

datatype recovery_error =
    Rv_PrincipalNotFound
  | Rv_PrincipalDisabled
  | Rv_PrincipalTypeNotAllowed
  | Rv_PermissionDenied
  | Rv_InstanceNotFound
  | Rv_InvalidInput string
  | Rv_BeforeSnapshotDigestMismatch string string
  | Rv_WorkflowStateVersionConflict int int
  | Rv_InvalidImmutableFacts string
  | Rv_InvalidTarget string
  | Rv_AssigneeResolutionFailed string
  | Rv_AdmissionFailed admission_error
  | Rv_IdempotencyConflict
  | Rv_CommandStillProcessing
  | Rv_InternalConsistency string
  | Rv_StorageError string

fun recovery_status_code :: "recovery_error \<Rightarrow> int" where
  "recovery_status_code Rv_PrincipalNotFound = 404"
| "recovery_status_code Rv_InstanceNotFound = 404"
| "recovery_status_code Rv_PrincipalDisabled = 403"
| "recovery_status_code Rv_PrincipalTypeNotAllowed = 403"
| "recovery_status_code Rv_PermissionDenied = 403"
| "recovery_status_code (Rv_InvalidInput _) = 422"
| "recovery_status_code (Rv_InvalidTarget _) = 422"
| "recovery_status_code (Rv_AssigneeResolutionFailed _) = 422"
| "recovery_status_code (Rv_AdmissionFailed e) = sanitized_status e"
| "recovery_status_code (Rv_BeforeSnapshotDigestMismatch _ _) = 409"
| "recovery_status_code (Rv_WorkflowStateVersionConflict _ _) = 409"
| "recovery_status_code Rv_IdempotencyConflict = 409"
| "recovery_status_code Rv_CommandStillProcessing = 425"
| "recovery_status_code (Rv_InvalidImmutableFacts _) = 500"
| "recovery_status_code (Rv_InternalConsistency _) = 500"
| "recovery_status_code (Rv_StorageError _) = 500"

fun recovery_label :: "recovery_error \<Rightarrow> string" where
  "recovery_label Rv_PrincipalNotFound = ''principal_not_found''"
| "recovery_label Rv_PrincipalDisabled = ''principal_disabled''"
| "recovery_label Rv_PrincipalTypeNotAllowed = ''principal_type_not_allowed''"
| "recovery_label Rv_PermissionDenied = ''permission_denied''"
| "recovery_label Rv_InstanceNotFound = ''instance_not_found''"
| "recovery_label (Rv_InvalidInput _) = ''invalid_input''"
| "recovery_label (Rv_BeforeSnapshotDigestMismatch _ _) = ''before_snapshot_digest_mismatch''"
| "recovery_label (Rv_WorkflowStateVersionConflict _ _) = ''workflow_state_version_conflict''"
| "recovery_label (Rv_InvalidImmutableFacts _) = ''invalid_immutable_facts''"
| "recovery_label (Rv_InvalidTarget _) = ''invalid_target''"
| "recovery_label (Rv_AssigneeResolutionFailed _) = ''assignee_resolution_failed''"
| "recovery_label (Rv_AdmissionFailed e) = sanitized_code e"
| "recovery_label Rv_IdempotencyConflict = ''idempotency_conflict''"
| "recovery_label Rv_CommandStillProcessing = ''command_still_processing''"
| "recovery_label (Rv_InternalConsistency _) = ''internal_consistency_error''"
| "recovery_label (Rv_StorageError _) = ''storage_error''"

fun recovery_detail :: "recovery_error \<Rightarrow> string option" where
  "recovery_detail (Rv_InvalidInput v) = Some v"
| "recovery_detail (Rv_InvalidImmutableFacts v) = Some v"
| "recovery_detail (Rv_InvalidTarget v) = Some v"
| "recovery_detail (Rv_AssigneeResolutionFailed v) = Some v"
| "recovery_detail (Rv_InternalConsistency v) = Some v"
| "recovery_detail (Rv_StorageError v) = Some v"
| "recovery_detail _ = None"

abbreviation invalid :: "string \<Rightarrow> recovery_error" where
  "invalid \<equiv> Rv_InvalidImmutableFacts"

section \<open>Fact rows\<close>

record recovery_instance =
  ri_id :: uuid
  ri_domain :: uuid
  ri_version :: uuid
  ri_creator :: uuid
  ri_creator_type :: string
  ri_reference :: "string option"
  ri_context :: "uuid option"
  ri_visit :: "uuid option"
  ri_state :: int

definition row_projection :: "recovery_instance \<Rightarrow> projection" where
  "row_projection w = \<lparr>pj_context = ri_context w, pj_visit = ri_visit w, pj_version = ri_state w\<rparr>"

record context_fact =
  cf_id :: uuid
  cf_instance :: uuid
  cf_number :: int
  cf_previous :: "uuid option"
  cf_payload :: json
  cf_digest :: string
  cf_author :: uuid

record visit_fact =
  vf_id :: uuid
  vf_instance :: uuid
  vf_node :: uuid
  vf_number :: int
  vf_assignee :: "uuid option"
  vf_entered_by :: "uuid option"
  vf_version :: uuid
  vf_type :: string
  vf_ref_type :: "string option"

record submission_fact =
  sf_id :: uuid
  sf_instance :: uuid
  sf_source :: uuid
  sf_context :: uuid
  sf_transition :: uuid
  sf_payload :: json
  sf_digest :: string

record transition_fact =
  tf_id :: uuid
  tf_version :: uuid
  tf_key :: string
  tf_source :: uuid
  tf_target :: uuid
  tf_effect :: string

record event_fact =
  ef_id :: uuid
  ef_instance :: uuid
  ef_sequence :: int
  ef_schema :: string
  ef_type :: string
  ef_effect :: "string option"
  ef_source :: "uuid option"
  ef_target :: "uuid option"
  ef_context :: "uuid option"
  ef_submission :: "uuid option"
  ef_data :: "json option"
  ef_digest :: "string option"
  ef_command :: "uuid option"
  ef_actor :: uuid
  ef_actor_type :: string
  ef_from :: "uuid option"
  ef_to :: "uuid option"
  ef_old :: int
  ef_new :: int

section \<open>Snapshots\<close>

text \<open>
  \<open>jcs_canonicalize::sha256_jcs_hex\<close>: \<open>compute_json_digest\<close> is the same call with a prefix on the message of a failure.
\<close>

definition jcs_digest :: "library \<Rightarrow> json \<Rightarrow> (recovery_error, string) res" where
  "jcs_digest lib j =
     map_sum (\<lambda>m. Rv_StorageError (drop (length ''JCS canonicalization failed: '') m)) id (json_digest lib j)"

definition uuid_json :: "library \<Rightarrow> uuid \<Rightarrow> json" where
  "uuid_json lib u = JString (show_uuid lib u)"

definition opt_uuid_json :: "library \<Rightarrow> uuid option \<Rightarrow> json" where
  "opt_uuid_json lib u = (case u of None \<Rightarrow> JNull | Some v \<Rightarrow> uuid_json lib v)"

text \<open>\<open>BeforeSnapshotV1\<close> of a row with some projection.\<close>

definition snapshot_json :: "library \<Rightarrow> recovery_instance \<Rightarrow> projection \<Rightarrow> json" where
  "snapshot_json lib w p =
     JObject [(''createdByPrincipalId'', uuid_json lib (ri_creator w)),
              (''currentContextRevisionId'', opt_uuid_json lib (pj_context p)),
              (''currentNodeVisitId'', opt_uuid_json lib (pj_visit p)),
              (''definitionVersionId'', uuid_json lib (ri_version w)),
              (''domainId'', uuid_json lib (ri_domain w)),
              (''schemaVersion'', JString ''WORKFLOW_INSTANCE_BEFORE_SNAPSHOT_V1''),
              (''workflowInstanceId'', uuid_json lib (ri_id w)),
              (''workflowStateVersion'', json_int (pj_version p))]"

definition snapshot_digest :: "library \<Rightarrow> recovery_instance \<Rightarrow> projection \<Rightarrow> (recovery_error, string) res" where
  "snapshot_digest lib w p = jcs_digest lib (snapshot_json lib w p)"

definition lowercase_digest :: "string \<Rightarrow> bool" where
  "lowercase_digest v \<longleftrightarrow>
     length v = 64 \<and> list_all (\<lambda>c. is_ascii_digit c \<or> CHR ''a'' \<le> c \<and> c \<le> CHR ''f'') v"

definition verify_expected_digest :: "string option \<Rightarrow> string \<Rightarrow> (recovery_error, unit) res" where
  "verify_expected_digest wanted found =
     (case wanted of
        None \<Rightarrow> Inr ()
      | Some e \<Rightarrow>
          if \<not> lowercase_digest e
          then Inl (Rv_InvalidInput ''expected_before_snapshot_digest must be lowercase SHA-256 hex'')
          else guard_r (e = found) (Rv_BeforeSnapshotDigestMismatch e found))"

section \<open>Reading event data\<close>

definition exact_keys :: "json \<Rightarrow> string list \<Rightarrow> bool" where
  "exact_keys v ks =
     (case as_object v of
        None \<Rightarrow> False
      | Some kvs \<Rightarrow> length kvs = length ks \<and> list_all (\<lambda>k. k \<in> set (map fst kvs)) ks)"

definition uuid_field :: "library \<Rightarrow> json \<Rightarrow> string \<Rightarrow> uuid option" where
  "uuid_field lib v k = Option.bind (Option.bind (jget v k) as_str) (parse_uuid lib)"

definition string_field :: "json \<Rightarrow> string \<Rightarrow> string option" where
  "string_field v k = Option.bind (jget v k) as_str"

definition optional_string_field :: "json \<Rightarrow> string \<Rightarrow> string option option" where
  "optional_string_field v k =
     Option.bind (jget v k) (\<lambda>x. case x of JNull \<Rightarrow> Some None | JString t \<Rightarrow> Some (Some t) | _ \<Rightarrow> None)"

definition event_data :: "library \<Rightarrow> event_fact \<Rightarrow> (recovery_error, json) res" where
  "event_data lib e =
     andThen (ok_or (invalid ''event data is missing'') (ef_data e)) (\<lambda>data.
     andThen (map_sum Rv_StorageError id (json_digest lib data)) (\<lambda>actual.
     andThen (guard_r (ef_digest e = Some actual) (invalid ''event data digest mismatch'')) (\<lambda>_. Inr data)))"

definition no_controls :: "string \<Rightarrow> bool" where
  "no_controls t \<longleftrightarrow> \<not> list_ex is_control (utf8_chars t)"

definition reason_bounded :: "string \<Rightarrow> bool" where
  "reason_bounded reason \<longleftrightarrow>
     reason = trim reason \<and> reason \<noteq> [] \<and> length (utf8_chars reason) \<le> 2000 \<and> no_controls reason"

definition reference_bounded :: "json \<Rightarrow> bool" where
  "reference_bounded r \<longleftrightarrow>
     exact_keys r [''resourceType'', ''resourceId''] \<and>
     (case (string_field r ''resourceType'', string_field r ''resourceId'') of
        (Some t, Some i) \<Rightarrow>
          t \<noteq> [] \<and> length t \<le> 128 \<and> i \<noteq> [] \<and> length i \<le> 256 \<and> no_controls t \<and> no_controls i
      | _ \<Rightarrow> False)"

definition admin_payload_is_bounded :: "json \<Rightarrow> bool" where
  "admin_payload_is_bounded data =
     (case string_field data ''reason'' of
        None \<Rightarrow> False
      | Some reason \<Rightarrow>
          reason_bounded reason \<and>
          (case as_array (jindex data ''relatedReferences'') of
             None \<Rightarrow> False
           | Some refs \<Rightarrow> length refs \<le> 20 \<and> list_all reference_bounded refs))"

section \<open>Loading the facts\<close>

text \<open>
  Columns the runtime tables of the store do not hold: the external reference of an instance and the digest of a
  definition version.  Every event the code writes has the schema version v1.
\<close>

record recovery_columns =
  rk_reference :: "uuid \<Rightarrow> string option"
  rk_definition_digest :: "uuid \<Rightarrow> string option"

definition lock_instance :: "recovery_columns \<Rightarrow> uuid \<Rightarrow> store \<Rightarrow> (recovery_error, recovery_instance) res" where
  "lock_instance cols i s =
     ok_or Rv_InstanceNotFound
       (Option.bind (find_instance_row i s) (\<lambda>w.
        map_option (\<lambda>p. \<lparr>ri_id = wi_id w, ri_domain = wi_domain w, ri_version = wi_version w,
            ri_creator = wi_created_by w, ri_creator_type = pr_type p, ri_reference = rk_reference cols i,
            ri_context = Some (wi_context w), ri_visit = wi_current_visit w, ri_state = wi_state_version w\<rparr>)
          (find_principal (wi_created_by w) s)))"

definition load_contexts :: "uuid \<Rightarrow> store \<Rightarrow> context_fact list" where
  "load_contexts i s =
     map (\<lambda>c. \<lparr>cf_id = cx_id c, cf_instance = cx_instance c, cf_number = cx_number c, cf_previous = cx_previous c,
               cf_payload = cx_payload c, cf_digest = cx_digest c, cf_author = cx_author c\<rparr>)
       (sort_key cx_number (filter (\<lambda>c. cx_instance c = i) (contexts s)))"

definition load_visits :: "uuid \<Rightarrow> store \<Rightarrow> visit_fact list" where
  "load_visits i s =
     List.map_filter (\<lambda>v. map_option (\<lambda>n.
         \<lparr>vf_id = nv_id v, vf_instance = nv_instance v, vf_node = nv_node v, vf_number = nv_number v,
          vf_assignee = nv_assignee v, vf_entered_by = nv_entered_by v, vf_version = nr_version n,
          vf_type = nr_type n, vf_ref_type = nr_ref_type n\<rparr>) (find_node (nv_node v) s))
       (filter (\<lambda>v. nv_instance v = i) (visits s))"

definition load_submissions :: "uuid \<Rightarrow> store \<Rightarrow> submission_fact list" where
  "load_submissions i s =
     map (\<lambda>b. \<lparr>sf_id = sb_id b, sf_instance = sb_instance b, sf_source = sb_visit b, sf_context = sb_context b,
               sf_transition = sb_transition b, sf_payload = sb_payload b, sf_digest = sb_digest b\<rparr>)
       (filter (\<lambda>b. sb_instance b = i) (submissions s))"

definition load_transitions :: "uuid \<Rightarrow> store \<Rightarrow> transition_fact list" where
  "load_transitions v s =
     map (\<lambda>t. \<lparr>tf_id = tr_id t, tf_version = tr_version t, tf_key = tr_key t, tf_source = tr_source t,
               tf_target = tr_target t, tf_effect = tr_effect t\<rparr>)
       (filter (\<lambda>t. tr_version t = v) (transition_rows s))"

definition load_events :: "uuid \<Rightarrow> store \<Rightarrow> event_fact list" where
  "load_events i s =
     List.map_filter (\<lambda>e. map_option (\<lambda>p.
         \<lparr>ef_id = ev_id e, ef_instance = ev_instance e, ef_sequence = ev_sequence e, ef_schema = ''v1'',
          ef_type = ev_type e, ef_effect = ev_effect e, ef_source = ev_source_visit e, ef_target = ev_target_visit e,
          ef_context = ev_context e, ef_submission = ev_submission e, ef_data = Some (ev_data e),
          ef_digest = Some (ev_digest e), ef_command = Some (ev_command e), ef_actor = ev_actor e,
          ef_actor_type = pr_type p, ef_from = ev_from e, ef_to = ev_to e, ef_old = ev_old e, ef_new = ev_new e\<rparr>)
         (find_principal (ev_actor e) s))
       (sort_key ev_sequence (filter (\<lambda>e. ev_instance e = i) (events s)))"

end
