(* ===== verification/Trusted_Fleet.thy ===== *)
theory Trusted_Fleet
  imports Prelude
begin

text \<open>
  The frozen migration manifest of \<open>admin_recovery_repository/migration_manifest.rs\<close>: which agent and principal
  succeeds which, in the order the events number the pairs.  The table is split in four; no theorem looks into it.
\<close>

definition trusted_fleet_plan :: string where
  "trusted_fleet_plan = ''0a05ed2d6099601a567d0ebf652e9adc737e8dd7c4c9dfc1260a6037c49f3606''"

type_synonym fleet_pair = "string \<times> string \<times> string \<times> string"

definition fleet_pairs_1 :: "fleet_pair list" where
  "fleet_pairs_1 =
     [(''ceo-agent'', ''agt_ceo-agent'',
        ''26b2be56-353f-406c-9865-bff91149b4fb'', ''25a6789f-daa5-4600-a764-b0209b9c8e19''),
      (''stock-agent'', ''agt_stock-agent'',
        ''b09f1417-d26c-4f77-a3ac-8dc4fb4a18f9'', ''8e299ff0-2e28-4998-a062-3a880c65096c''),
      (''research-agent'', ''agt_research-agent'',
        ''1e0bebef-4150-4a24-ad42-aaccded084a2'', ''a4b14810-321b-4060-ae75-042dcb87892b''),
      (''knowledge-curator-agent'', ''agt_knowledge-curator-agent'',
        ''87047adb-2931-400b-b5f0-c384cba37b8d'', ''8402d851-5bae-475c-bdb2-6fa1522803cf''),
      (''daily-thought-agent'', ''agt_daily-thought-agent'',
        ''2a24b855-4640-48ea-9042-56235e451bf1'', ''4074e8c2-67f1-409f-830c-1690cc7c64f2''),
      (''efficiency-manager'', ''agt_efficiency-agent'',
        ''95eab282-22c7-46a2-8580-abfef4942cdc'', ''b21ddb23-42f6-47c4-a27f-bc44950e554c''),
      (''lobster-agent'', ''agt_lobster-agent'',
        ''ccb6cb22-f45b-46bf-959a-87ab2c472bdb'', ''d2c98674-03b1-4b87-bba2-e41eddb0568a''),
      (''itops-agent'', ''agt_itops-agent'',
        ''eee90beb-dfcc-49dd-9dbb-fa6b3db73a72'', ''04dd2c02-502e-4a1e-bc21-7719ab42d718''),
      (''healthcheck-agent'', ''agt_healthcheck-agent'',
        ''25012773-1b80-4018-bc5d-053fc0fcc30f'', ''9758e1d7-fc63-4e7f-9277-ef9020bf923c''),
      (''hr-agent'', ''agt_hr-agent'',
        ''bc970ced-710f-4479-9ff0-e295a1c59424'', ''dc702687-6515-4a2a-91ae-e572a9bbd766''),
      (''security-agent'', ''agt_security-agent'',
        ''af8708f0-eb99-409b-87c9-7c7ee596b967'', ''e15a185f-e82d-49d5-9316-04ebb5b0a251''),
      (''skill-engineer-agent'', ''agt_skill-engineer-agent'',
        ''45f817cc-50ff-4c57-9897-0fd5dc3d2d6a'', ''8eac00cf-fd18-456b-85a5-717ae9e463b4''),
      (''discipline-coach-agent'', ''agt_discipline-coach-agent'',
        ''f1e3fcac-f94b-4845-9c0f-272d66b3c816'', ''ddff9f0a-6ef0-4bf0-aff9-239ee8e38c8c''),
      (''blog-agent'', ''agt_blog-agent'',
        ''81c7fc7e-c696-4b47-bfd6-f12a9ecb68a6'', ''fd58881a-fdba-4ef2-9a80-b733671f24f1''),
      (''education-agent'', ''agt_education-agent'',
        ''137992b6-e09f-40ca-84a3-1f797078ef58'', ''debec784-3bd9-4dcf-aca4-549a7416d680''),
      (''psychology-agent'', ''agt_psychology-agent'',
        ''0477c74b-cb51-47ce-a2ee-5e359b1d7f04'', ''c4f53ae3-c2b9-4eee-a542-f13469b38705''),
      (''game-dev-agent'', ''agt_game-dev-agent'',
        ''913dbd48-2311-4a10-9620-54c8b3e1c61a'', ''6d184076-6037-4d29-96bc-b0196bab5056''),
      (''finance-agent'', ''agt_finance-agent'',
        ''3f99bf95-95c5-437f-bb76-990a88ab97af'', ''3e6c1225-a306-423b-91da-4ed3b9acdd1b''),
      (''devtools-agent'', ''agt_devtools-agent'',
        ''1680fd97-e4c4-42df-9ce6-ba46c9dc31e2'', ''7dadf79c-0144-4212-9695-535d854c88dc''),
      (''voice-tech-agent'', ''agt_voice-tech-agent'',
        ''32f44973-4aca-4b3f-9668-65bde6e5c234'', ''90aac9b8-c1a4-496c-aed7-fe42c08023eb''),
      (''image-gen-agent'', ''agt_image-gen-agent'',
        ''87b760da-14b3-46d1-b529-9350ad95d2c0'', ''bebd919a-9da5-46a0-a0de-57625066ddab''),
      (''email-manager-agent'', ''agt_email-manager-agent'',
        ''446ac233-db75-4086-ba67-d87445bc3f41'', ''af948833-5e48-4965-b1df-fdd565d1d63c'')]"

definition fleet_pairs_2 :: "fleet_pair list" where
  "fleet_pairs_2 =
     [(''account-manager-agent'', ''agt_account-manager-agent'',
        ''bba89c1f-734b-4fc8-95b0-f1a1bdf9b30d'', ''a36ab7b7-490a-4753-b98f-c412959d4b56''),
      (''shopping-list-agent'', ''agt_shopping-list-agent'',
        ''4466ab5c-3a3f-454b-8fe3-a6ff11ad5c1f'', ''fbc89748-6c1c-46cd-8ccf-bfa8b5853a75''),
      (''feishu-expert-agent'', ''agt_feishu-expert-agent'',
        ''029e5deb-81ca-4f9e-a7a6-f92a7e4bc0a6'', ''1e0e3be2-82ee-4bcf-818f-96048664b84f''),
      (''podcast-producer-agent'', ''agt_podcast-producer-agent'',
        ''b75d9e79-4c17-4546-8ff9-1dbafe57e144'', ''16f9a572-4281-4602-9ec6-22a7687378e7''),
      (''soul-questioner-agent'', ''agt_soul-questioner-agent'',
        ''502ce1a2-a141-4782-971b-d60f4efe244d'', ''e5947aa1-7a42-4a56-95aa-9af5601852fe''),
      (''lobster-guide-agent'', ''agt_lobster-guide-agent'',
        ''af31460d-2b2a-4730-b1df-ee5d19e1a876'', ''5ee12519-49bd-4fbc-a626-c9f754f15d09''),
      (''article-publisher-agent'', ''agt_article-publisher-agent'',
        ''d2bec623-56ba-46cb-a217-933cfe63a243'', ''8b44befd-934e-48cd-afac-31ed981fb732''),
      (''travel-planner-agent'', ''agt_travel-planner-agent'',
        ''41dfb084-cc74-4c07-9f51-f526b89dabf7'', ''254db36c-6a88-4356-9dee-f5ee1695841c''),
      (''agent-dev-engineer'', ''agt_agent-dev-engineer'',
        ''39938395-a46c-46e8-b558-849de147f877'', ''1e716670-f3b0-44fd-a9da-9ed46fc65789''),
      (''paper-reviewer-agent'', ''agt_paper-reviewer-agent'',
        ''1338fd22-3bed-4f1d-91a9-ae85e90ad7f0'', ''9004627e-6c97-4eb7-8031-51d881b7722e''),
      (''3d-print-agent'', ''agt_3d-print-agent'',
        ''30ec9983-32b1-4ffb-80df-6edd1d24e3ef'', ''ed55e35c-f0a1-43fe-a2db-f6b7c45b7005''),
      (''writing-style-analyst-agent'', ''agt_writing-style-analyst-agent'',
        ''61819256-07e1-4bd0-adea-e93e51243fa1'', ''9e3adced-575f-4fb2-b351-f7698b59127d''),
      (''family-doctor-2-agent'', ''agt_family-doctor-2-agent'',
        ''a45858d2-f72a-47c8-b75a-cb5bf1d4aee3'', ''3affffb7-feb9-4fe7-b865-9fee4d760fb1''),
      (''feishu-expert-2-agent'', ''agt_feishu-expert-2-agent'',
        ''fe04ccdf-5902-4536-a4ac-22cc633cbd00'', ''ab1cd4a3-5b01-45ea-a165-20a97b4af87f''),
      (''reimbursement-expert'', ''agt_reimbursement-expert'',
        ''64bbfc4c-c842-4d2d-bf97-a5c3cd7376da'', ''86f138b7-43cf-42ec-8694-9e32be0f0862''),
      (''mobile-app-engineer'', ''agt_mobile-app-engineer'',
        ''50042be0-57ef-4f37-a8d0-d936eddf24d1'', ''858da6a2-ccbd-49e1-bc94-1afceb92d423''),
      (''miniapp-game-engineer'', ''agt_miniapp-game-engineer'',
        ''fe836dbd-896f-40f0-a74f-9c273d5ac233'', ''d2691e77-4ce4-493d-96e8-870e56f4977e''),
      (''trend-tracker'', ''agt_trend-tracker'',
        ''c05d2cba-837f-41f0-a7db-f587550eace2'', ''4bb26368-52ec-4def-82c0-3a64400c7818''),
      (''biz-explorer'', ''agt_biz-explorer'',
        ''fe2bfbbb-229f-483d-aaa1-42ae14b79a49'', ''9ddbb1c7-ea91-43af-832d-59033375cb7f''),
      (''video-producer'', ''agt_video-producer'',
        ''96db2152-2dc7-4eb3-89ad-6c532dd9e625'', ''94c55acc-8b93-46f9-81af-9f28382f8fbc''),
      (''creative-writer'', ''agt_creative-writer'',
        ''3c4b92a3-fe95-407c-8363-5b44b78d46f6'', ''622cc051-9388-4e41-9f0d-7b8cec035b0e''),
      (''test-engineer'', ''agt_test-engineer'',
        ''93c7cade-4f0a-47aa-bb6e-7d31a3a147f8'', ''033ea97d-296b-4cd1-a92a-eb638f42d49f'')]"

definition fleet_pairs_3 :: "fleet_pair list" where
  "fleet_pairs_3 =
     [(''learning-expert'', ''agt_learning-expert'',
        ''6ccdae57-0a2c-4a2e-b3e4-e3f4ec1edf2a'', ''40daa67b-af5a-462d-b4ca-d40213147afb''),
      (''content-ops-agent'', ''agt_content-ops-agent'',
        ''aed2c679-71c0-4e23-8d73-c448c5ea6dd2'', ''271876c1-5bc9-4902-855d-68bf5c99eccb''),
      (''finance-housekeeper-agent'', ''agt_finance-housekeeper-agent'',
        ''018f6e50-9744-4dd1-b005-51a66a305db8'', ''5a647224-fa7e-490f-91fe-a134daf37479''),
      (''quant-trading-agent'', ''agt_quant-trading-agent'',
        ''14d8845d-d59c-428b-b0e4-4d3e88497f54'', ''fddf93dd-fbe2-4664-8e09-26601bdef58f''),
      (''novel-writer'', ''agt_novel-writer'',
        ''f3b8bb2d-8963-4416-80ee-3d167e196391'', ''d15420ee-90fa-4f52-8114-b66b4a6c2f98''),
      (''frontend-react-engineer'', ''agt_frontend-react-engineer'',
        ''54922e8e-9ce1-41b9-bea4-9caca051c0eb'', ''f62285fc-e36d-4d16-9de5-8cd869f410c8''),
      (''open-source-agent'', ''agt_open-source-agent'',
        ''00e0b5ef-487d-4eea-8999-7be1309ace70'', ''9edc2b13-c543-4776-acdc-b7a7474ce2cb''),
      (''smart-home-agent'', ''agt_smart-home-agent'',
        ''3c80e5b1-6951-49a2-b448-5ad5bea0a2cd'', ''ea95eef8-b7c8-4fa7-b73d-e51839d44a44''),
      (''product-manager'', ''agt_product-manager'',
        ''e4215c47-de83-455b-9e12-53edc983cf76'', ''33a71ab4-0eee-4bb7-86fe-a513cac7cbe0''),
      (''product-designer'', ''agt_product-designer'',
        ''968bff25-17f5-4e72-8bb9-5e2238b4bbbc'', ''3d4eb075-235c-4ad7-8abd-a8e8d36d879d''),
      (''qa-reviewer'', ''agt_qa-reviewer'',
        ''d1ffc337-6ecf-494a-89ce-53b16a95dee3'', ''18f52e76-3922-47d1-92d7-cec00ce8ac8d''),
      (''investment-debater'', ''agt_investment-debater'',
        ''d602cde4-e2e1-4f07-b92b-8131d4999013'', ''69c92a47-6c42-4e72-9617-b887fb871b57''),
      (''backend-engineer-2'', ''agt_backend-engineer-2'',
        ''b2b67eed-38b6-4aed-899b-b2b93fc56f80'', ''3fd24642-b6c9-4fcb-8d63-59acd47baefe''),
      (''qa-reviewer-2'', ''agt_qa-reviewer-2'',
        ''f8c9c7c6-dee4-455b-8be7-2286e5967b1e'', ''1fa1e12d-24fb-47da-ac7b-fb4ab3eae080''),
      (''social-butterfly-agent'', ''agt_social-butterfly-agent'',
        ''5f2a2010-2634-4391-a012-0cecd567eb81'', ''05459bc9-abca-4632-a297-c1c7cb97ddde''),
      (''arch-reviewer'', ''agt_arch-reviewer'',
        ''4684680a-60c4-487b-b362-de7a3367fed2'', ''9df952bc-237e-4dc9-845f-cd52776bf25f''),
      (''explorer'', ''agt_explorer'',
        ''c1c359a0-df35-41db-ae91-a1e26b44fa53'', ''5b9a9cb8-a027-42b7-a3b3-17d7e7afe5f7''),
      (''ppt-designer'', ''agt_ppt-designer'',
        ''5a23fa35-4783-4bdd-a7b0-736e92acf974'', ''b2d51a5e-a2e5-4a2c-951d-d24b892ac2ce''),
      (''training-expert-agent'', ''agt_training-expert-agent'',
        ''17b9f2b8-e8e8-4ef0-ad67-f36da95a9b2b'', ''41f0eadc-0774-4063-8c24-ca6dbc122398''),
      (''needs-radar-agent'', ''agt_needs-radar-agent'',
        ''0c6a8e58-3275-4d40-a099-811832523cc4'', ''92e1d6d0-e722-41c9-b68b-90d97faa830f''),
      (''delivery-review-agent'', ''agt_delivery-review-agent'',
        ''6bbb8dcb-62e2-4550-a59c-a5f13ba7d056'', ''823bf0e2-0c25-49c7-87ad-c77405c6c133''),
      (''course-community-agent'', ''agt_course-community-agent'',
        ''1f5b6d46-4abd-4964-9575-1ccad219a1b2'', ''aaaf53e6-140b-4af4-9e34-82d0e6c92f2d'')]"

definition fleet_pairs_4 :: "fleet_pair list" where
  "fleet_pairs_4 =
     [(''biz-product-designer'', ''agt_biz-product-designer'',
        ''ff90d51e-1a67-47ab-aaa9-67f6852a579b'', ''01599df6-d9aa-4e98-874c-77f6729f5941''),
      (''private-chef-agent'', ''agt_private-chef-agent'',
        ''9b1c0122-df68-4aa1-a599-68c4416c4f56'', ''88e5cb26-349a-42e0-afed-bf741dbadc42''),
      (''course-community-agent-2'', ''agt_course-community-agent-2'',
        ''132ab857-35ab-408b-b909-bc0b1deab55b'', ''9f7cf4c5-7b2c-4239-9993-d9b2a2e0df56''),
      (''book-deconstructor-agent'', ''agt_book-deconstructor-agent'',
        ''1aa584d1-28c1-4260-8c21-015f47f34b87'', ''4b25917d-93df-496f-8715-afc9d734abc3''),
      (''build-in-public-agent'', ''agt_build-in-public-agent'',
        ''bb9d8f48-7962-4321-8fb1-554bb428c159'', ''d5b3aeb2-e754-49a9-9914-b963521c0985''),
      (''job-watch-agent'', ''agt_job-watch-agent'',
        ''5464f426-e91e-45e9-af21-85a1233d7bae'', ''30527120-2894-4f87-9516-302059149ddd''),
      (''search-expert-agent'', ''agt_search-expert-agent'',
        ''935d0d15-3bd5-489b-a5ba-d577257c2638'', ''2fae18ce-c81e-411d-b9cc-76346d37ab5c''),
      (''transcript-editor-agent'', ''agt_transcript-editor-agent'',
        ''66efbc9f-c618-47ba-b9da-0668cf5c7301'', ''79e4a43b-002b-4a03-90ca-82ee4724c287''),
      (''home-repair-agent'', ''agt_home-repair-agent'',
        ''34a1263c-1a2b-4e90-a94e-a7f4d9c3ce70'', ''a8e69d20-c784-4f4a-aac9-6a24e5302717''),
      (''sales-copy-agent'', ''agt_sales-copy-agent'',
        ''7702461e-b31d-493e-b6df-739d98bbc92c'', ''28588c07-82b6-4212-aa65-e633a93723bc''),
      (''hao-yang-mao-agent'', ''agt_hao-yang-mao-agent'',
        ''03bd2421-1bd7-41a1-9ef8-709d03519aca'', ''8a81aa51-bbaa-4c93-9510-eb4f0da7a06c''),
      (''family-steward-agent'', ''agt_family-steward-agent'',
        ''cd9243a4-8550-4869-b77a-eb30036cfb0f'', ''e4c0ca12-eaf5-406a-91b2-47ef07c0de9b''),
      (''video-model-expert'', ''agt_video-model-expert'',
        ''e272c87d-8093-40e3-b285-6bacd9c74c9f'', ''08c18ba3-c594-43b1-9493-6b3e22b6bbbe''),
      (''game-designer-agent'', ''agt_game-designer-agent'',
        ''4af8d4e7-8eae-4904-a142-b3f3d8f0b959'', ''4f16b012-4bc9-45ae-ab9d-6418f9a01fd4''),
      (''game-producer-agent'', ''agt_game-producer-agent'',
        ''3b35907e-f3a5-4ce9-b09d-fcedd59cee94'', ''208f91e9-90da-4109-bfa7-710d8713212e''),
      (''reader-simulator-agent'', ''agt_reader-simulator-agent'',
        ''ecdb0a53-d79c-4c7e-9b66-5e9436500e81'', ''93130a60-3c59-4ab9-88b5-70f152451e5b''),
      (''thesis-advisor-agent'', ''agt_thesis-advisor-agent'',
        ''097f197d-dc71-4107-8db2-f2bdc8eb7ec5'', ''72ff7ee1-9260-485d-8400-5768f2b59acd''),
      (''biz-reviewer'', ''agt_biz-reviewer'',
        ''fedef046-3289-4b0c-83c1-f7681373dce0'', ''3ca56da2-f00a-4e5e-8779-653be8057b4f''),
      (''translator-agent'', ''agt_translator-agent'',
        ''1bd07594-230c-4e39-8b98-0e6895db52e1'', ''75707797-542b-44fe-be0e-38c0f11512b6''),
      (''translation-qa-agent'', ''agt_translation-qa-agent'',
        ''64ccdc42-98f3-4b2a-b1ff-4e81b6ee8b03'', ''6bbdfbcc-7a6f-4925-ae70-07eeccf74d65'')]"

definition trusted_fleet_pairs :: "fleet_pair list" where
  "trusted_fleet_pairs = fleet_pairs_1 @ fleet_pairs_2 @ fleet_pairs_3 @ fleet_pairs_4"

end
