(* ===== verification/Event_Replay.thy ===== *)
theory Event_Replay
  imports Recovery_Rows Trusted_Fleet
begin

text \<open>
  \<open>admin_recovery_repository/event_replay.rs\<close> and \<open>import_event.rs\<close>: the projection of an instance rebuilt from its
  events.  The state of the replay is a record; each \<open>apply\<close> function checks one event against the state
  and the immutable facts and moves the state on.  The facts are collected into hash maps by their ids (\<open>hm_find\<close>, a
  later fact replaces an earlier one); the introduced ids are lists without repetition.
\<close>

section \<open>The state\<close>

definition hm_find :: "('f \<Rightarrow> uuid) \<Rightarrow> uuid \<Rightarrow> 'f list \<Rightarrow> 'f option" where
  "hm_find key i facts = find (\<lambda>f. key f = i) (rev facts)"

definition hm_len :: "('f \<Rightarrow> uuid) \<Rightarrow> 'f list \<Rightarrow> nat" where
  "hm_len key facts = length (remdups (map key facts))"

record replay =
  rp_instance :: recovery_instance
  rp_definition_digest :: "string option"
  rp_contexts :: "context_fact list"
  rp_visits :: "visit_fact list"
  rp_submissions :: "submission_fact list"
  rp_transitions :: "transition_fact list"
  rp_introduced_contexts :: "uuid list"
  rp_introduced_visits :: "uuid list"
  rp_introduced_submissions :: "uuid list"
  rp_counts :: "uuid \<Rightarrow> int"
  rp_context :: "uuid option"
  rp_visit :: "uuid option"
  rp_version :: int
  rp_cases :: "(uuid \<times> (string \<times> uuid)) list"
  rp_bindings :: "(uuid \<times> json) list"

definition new_replay ::
  "recovery_instance \<Rightarrow> string option \<Rightarrow> context_fact list \<Rightarrow> visit_fact list \<Rightarrow> submission_fact list \<Rightarrow>
     transition_fact list \<Rightarrow> replay" where
  "new_replay w dd cs vs ss ts =
     \<lparr>rp_instance = w, rp_definition_digest = dd, rp_contexts = cs, rp_visits = vs, rp_submissions = ss,
      rp_transitions = ts, rp_introduced_contexts = [], rp_introduced_visits = [], rp_introduced_submissions = [],
      rp_counts = (\<lambda>_. 0), rp_context = None, rp_visit = None, rp_version = 0, rp_cases = [], rp_bindings = []\<rparr>"

definition replay_visit :: "uuid option \<Rightarrow> replay \<Rightarrow> (recovery_error, visit_fact) res" where
  "replay_visit i r =
     ok_or (invalid ''event references an invalid node visit'') (Option.bind i (\<lambda>v. hm_find vf_id v (rp_visits r)))"

definition replay_context :: "uuid option \<Rightarrow> replay \<Rightarrow> (recovery_error, context_fact) res" where
  "replay_context i r =
     ok_or (invalid ''event references an invalid context revision'')
       (Option.bind i (\<lambda>c. hm_find cf_id c (rp_contexts r)))"

definition visit_has_open_assistance :: "uuid \<Rightarrow> replay \<Rightarrow> bool" where
  "visit_has_open_assistance v r =
     list_ex (\<lambda>(_, status, visit). visit = v \<and> (status = ''OWNER_PENDING'' \<or> status = ''HUMAN_REQUIRED'')) (rp_cases r)"

definition introduce_visit :: "visit_fact \<Rightarrow> replay \<Rightarrow> (recovery_error, replay) res" where
  "introduce_visit v r =
     (if vf_id v \<in> set (rp_introduced_visits r) then Inl (invalid ''node visit is introduced more than once'')
      else let n = rp_counts r (vf_node v) + 1 in
        if 2 ^ 31 \<le> n then Inl (invalid ''node visit count overflow'')
        else if vf_number v \<noteq> n then Inl (invalid ''node visit number does not follow event order'')
        else Inr (r\<lparr>rp_introduced_visits := rp_introduced_visits r @ [vf_id v],
                    rp_counts := (rp_counts r)(vf_node v := n)\<rparr>))"

definition introduce_context :: "context_fact \<Rightarrow> replay \<Rightarrow> (recovery_error, replay) res" where
  "introduce_context c r =
     (if cf_id c \<in> set (rp_introduced_contexts r)
      then Inl (invalid ''context revision is introduced more than once'')
      else Inr (r\<lparr>rp_introduced_contexts := rp_introduced_contexts r @ [cf_id c]\<rparr>))"

definition introduce_submission :: "submission_fact \<Rightarrow> replay \<Rightarrow> (recovery_error, replay) res" where
  "introduce_submission b r =
     (if sf_id b \<in> set (rp_introduced_submissions r) then Inl (invalid ''submission is introduced more than once'')
      else Inr (r\<lparr>rp_introduced_submissions := rp_introduced_submissions r @ [sf_id b]\<rparr>))"

definition validate_node_columns ::
  "event_fact \<Rightarrow> visit_fact option \<Rightarrow> visit_fact option \<Rightarrow> (recovery_error, unit) res" where
  "validate_node_columns e source target =
     guard_r (ef_from e = map_option vf_node source \<and> ef_to e = map_option vf_node target)
       (invalid ''event node fields disagree with visit references'')"

section \<open>Creation and import\<close>

text \<open>The parsing of times belongs to \<open>chrono\<close>.\<close>

record time_text =
  tt_rfc3339 :: "string \<Rightarrow> bool"
  tt_parse_second :: "string \<Rightarrow> int option"
  tt_show_second :: "int \<Rightarrow> string"

definition canonical_uuid :: "library \<Rightarrow> string \<Rightarrow> uuid option" where
  "canonical_uuid lib t =
     Option.bind (parse_uuid lib t) (\<lambda>u. if show_uuid lib u = t then Some u else None)"

definition whole_second_utc :: "time_text \<Rightarrow> string \<Rightarrow> bool" where
  "whole_second_utc tt v \<longleftrightarrow>
     length v = 20 \<and> (case tt_parse_second tt v of None \<Rightarrow> False | Some t \<Rightarrow> tt_show_second tt t = v)"

definition import_keys :: "string list" where
  "import_keys = [''legacySystem'', ''legacyRecordId'', ''legacySnapshotDigest'', ''importedNodeId'', ''importedAt'',
                  ''creatorResolution'']"

definition validate_import ::
  "library \<Rightarrow> time_text \<Rightarrow> json \<Rightarrow> event_fact \<Rightarrow> recovery_instance \<Rightarrow> context_fact \<Rightarrow> visit_fact \<Rightarrow>
     (recovery_error, unit) res" where
  "validate_import lib tt data e w c v =
     (let record_id = Option.bind (string_field data ''legacyRecordId'') (canonical_uuid lib);
          node = Option.bind (string_field data ''importedNodeId'') (canonical_uuid lib);
          reference = map_option (\<lambda>i. ''migration:adc:'' @ show_uuid lib i @ '':v1'') record_id;
          resolution = string_field data ''creatorResolution'' in
      guard_r
        (exact_keys data import_keys \<and>
         string_field data ''legacySystem'' = Some ''adc'' \<and> node = Some (vf_node v) \<and>
         (case string_field data ''legacySnapshotDigest'' of None \<Rightarrow> False | Some d \<Rightarrow> lowercase_digest d) \<and>
         (case string_field data ''importedAt'' of None \<Rightarrow> False | Some t \<Rightarrow> whole_second_utc tt t) \<and>
         (resolution = Some ''LEGACY_CREATOR'' \<or> resolution = Some ''DOMAIN_OWNER_FALLBACK'') \<and>
         ri_reference w = reference \<and> ri_creator_type w \<noteq> ''SERVICE'' \<and> ef_actor_type e = ''SERVICE'' \<and>
         ef_actor e \<noteq> ri_creator w \<and> cf_author c = ri_creator w \<and>
         \<not> (vf_type v = ''TERMINAL'' \<and> vf_assignee v \<noteq> None) \<and>
         \<not> (vf_type v \<noteq> ''TERMINAL'' \<and> vf_assignee v = None))
        (invalid ''import event data or identity facts are invalid''))"

definition creation_keys :: "string list" where
  "creation_keys = [''definition_version_id'', ''definition_digest'', ''initial_node_id'', ''assignee_resolution_type'']"

definition apply_initial :: "library \<Rightarrow> time_text \<Rightarrow> event_fact \<Rightarrow> replay \<Rightarrow> (recovery_error, replay) res" where
  "apply_initial lib tt e r =
     andThen (event_data lib e) (\<lambda>data.
     let imported = (ef_type e = ''WORKFLOW_INSTANCE_IMPORTED'');
         keys = (if imported then import_keys else creation_keys);
         w = rp_instance r in
     andThen (replay_context (ef_context e) r) (\<lambda>c.
     andThen (replay_visit (ef_target e) r) (\<lambda>v.
     andThen (guard_r
         (rp_version r = 0 \<and> exact_keys data keys \<and> ef_source e = None \<and> ef_submission e = None \<and>
          ef_effect e = None \<and> ef_from e = None \<and> ef_to e = None \<and> cf_number c = 1 \<and> cf_previous c = None \<and>
          vf_entered_by v = None \<and> vf_number v = 1)
         (invalid ''initial event does not introduce revision 1 and visit 1'')) (\<lambda>_.
     andThen (if imported then validate_import lib tt data e w c v
         else guard_r
           (uuid_field lib data ''definition_version_id'' = Some (ri_version w) \<and>
            string_field data ''definition_digest'' =
              Some (case rp_definition_digest r of None \<Rightarrow> [] | Some d \<Rightarrow> d) \<and>
            uuid_field lib data ''initial_node_id'' = Some (vf_node v) \<and>
            string_field data ''assignee_resolution_type'' = vf_ref_type v \<and>
            vf_type v = ''DRAFT'' \<and> vf_assignee v \<noteq> None)
           (invalid ''creation event data does not match the initial facts'')) (\<lambda>_.
     andThen (introduce_context c r) (\<lambda>r1.
     andThen (introduce_visit v r1) (\<lambda>r2.
       Inr (r2\<lparr>rp_context := Some (cf_id c), rp_visit := Some (vf_id v)\<rparr>))))))))"

section \<open>Context revisions\<close>

definition apply_context_revision :: "library \<Rightarrow> event_fact \<Rightarrow> replay \<Rightarrow> (recovery_error, replay) res" where
  "apply_context_revision lib e r =
     andThen (event_data lib e) (\<lambda>data.
     andThen (replay_context (ef_context e) r) (\<lambda>c.
     andThen (replay_visit (ef_source e) r) (\<lambda>v.
     andThen (replay_context (rp_context r) r) (\<lambda>previous.
     andThen (guard_r
         (exact_keys data [''previous_context_revision_id'', ''new_context_revision_id'', ''previous_payload_digest'',
            ''new_payload_digest'', ''current_node_id''] \<and>
          ef_source e = rp_visit r \<and> ef_target e = rp_visit r \<and> ef_submission e = None \<and> ef_effect e = None \<and>
          ef_from e = None \<and> ef_to e = None \<and> cf_previous c = rp_context r \<and>
          cf_number c = as_i32 (cf_number previous + 1) \<and>
          uuid_field lib data ''previous_context_revision_id'' = rp_context r \<and>
          uuid_field lib data ''new_context_revision_id'' = Some (cf_id c) \<and>
          string_field data ''previous_payload_digest'' = Some (cf_digest previous) \<and>
          string_field data ''new_payload_digest'' = Some (cf_digest c) \<and>
          uuid_field lib data ''current_node_id'' = Some (vf_node v) \<and> vf_type v = ''DRAFT'')
         (invalid ''context revision event disagrees with replay state'')) (\<lambda>_.
     andThen (introduce_context c r) (\<lambda>r1. Inr (r1\<lparr>rp_context := Some (cf_id c)\<rparr>)))))))"

section \<open>Transitions\<close>

definition transition_and_visits ::
  "library \<Rightarrow> event_fact \<Rightarrow> json \<Rightarrow> replay \<Rightarrow> (recovery_error, visit_fact \<times> visit_fact \<times> transition_fact) res" where
  "transition_and_visits lib e data r =
     andThen (replay_visit (ef_source e) r) (\<lambda>source.
     andThen (replay_visit (ef_target e) r) (\<lambda>target.
     andThen (ok_or (invalid ''transition event has no valid transition id'')
                (uuid_field lib data ''transition_definition_id'')) (\<lambda>tid.
     andThen (ok_or (invalid ''transition event references an invalid definition'')
                (hm_find tf_id tid (rp_transitions r))) (\<lambda>t.
     andThen (guard_r
         (ef_source e = rp_visit r \<and> vf_id target \<notin> set (rp_introduced_visits r) \<and>
          vf_entered_by target = Some (tf_id t) \<and> tf_source t = vf_node source \<and> tf_target t = vf_node target \<and>
          ef_effect e = Some (tf_effect t) \<and> string_field data ''transition_key'' = Some (tf_key t) \<and>
          string_field data ''transition_effect'' = Some (tf_effect t) \<and>
          uuid_field lib data ''source_node_id'' = Some (vf_node source) \<and>
          uuid_field lib data ''target_node_id'' = Some (vf_node target) \<and>
          uuid_field lib data ''source_node_visit_id'' = Some (vf_id source) \<and>
          uuid_field lib data ''target_node_visit_id'' = Some (vf_id target))
         (invalid ''transition event disagrees with definition or replay state'')) (\<lambda>_.
     andThen (validate_node_columns e (Some source) (Some target)) (\<lambda>_. Inr (source, target, t)))))))"

text \<open>The runtime refuses to move a visit with an open case; a recorded move of one is a forged history.\<close>

definition assistance_gate :: "string \<Rightarrow> replay \<Rightarrow> (recovery_error, unit) res" where
  "assistance_gate msg r =
     (case rp_visit r of
        None \<Rightarrow> Inr ()
      | Some v \<Rightarrow> guard_r (\<not> visit_has_open_assistance v r) (invalid msg))"

definition transition_keys :: "string list" where
  "transition_keys =
     [''transition_definition_id'', ''transition_key'', ''transition_effect'', ''source_node_id'', ''target_node_id'',
      ''source_node_visit_id'', ''target_node_visit_id'', ''context_revision_id'', ''submission_payload_digest'']"

definition transition_submission ::
  "event_fact \<Rightarrow> json \<Rightarrow> transition_fact \<Rightarrow> replay \<Rightarrow> (recovery_error, replay) res" where
  "transition_submission e data t r =
     (case ef_submission e of
        Some i \<Rightarrow>
          andThen (ok_or (invalid ''transition event references an invalid submission'')
                     (hm_find sf_id i (rp_submissions r))) (\<lambda>b.
          andThen (guard_r
              (Some (sf_source b) = ef_source e \<and> Some (sf_context b) = rp_context r \<and> sf_transition b = tf_id t \<and>
               optional_string_field data ''submission_payload_digest'' = Some (Some (sf_digest b)))
              (invalid ''transition submission disagrees with event'')) (\<lambda>_. introduce_submission b r))
      | None \<Rightarrow>
          if optional_string_field data ''submission_payload_digest'' \<noteq> Some None
          then Inl (invalid ''transition event omits a referenced submission digest'') else Inr r)"

definition apply_transition :: "library \<Rightarrow> event_fact \<Rightarrow> replay \<Rightarrow> (recovery_error, replay) res" where
  "apply_transition lib e r =
     andThen (event_data lib e) (\<lambda>data.
     andThen (guard_r (exact_keys data transition_keys \<and> ef_context e = rp_context r \<and>
                       uuid_field lib data ''context_revision_id'' = rp_context r)
         (invalid ''transition event data shape is invalid'')) (\<lambda>_.
     andThen (assistance_gate ''transition is blocked by an open assistance case on the source visit'' r) (\<lambda>_.
     andThen (transition_and_visits lib e data r) (\<lambda>(source, target, t).
     andThen (transition_submission e data t r) (\<lambda>r1.
     andThen (introduce_visit target r1) (\<lambda>r2. Inr (r2\<lparr>rp_visit := Some (vf_id target)\<rparr>)))))))"

definition apply_combined :: "library \<Rightarrow> event_fact \<Rightarrow> replay \<Rightarrow> (recovery_error, replay) res" where
  "apply_combined lib e r =
     andThen (event_data lib e) (\<lambda>data.
     andThen (replay_context (rp_context r) r) (\<lambda>previous.
     andThen (replay_context (ef_context e) r) (\<lambda>c.
     andThen (guard_r
         (exact_keys data [''previous_context_revision_id'', ''new_context_revision_id'',
            ''previous_context_payload_digest'', ''new_context_payload_digest'', ''transition_definition_id'',
            ''transition_key'', ''transition_effect'', ''source_node_id'', ''target_node_id'', ''source_node_visit_id'',
            ''target_node_visit_id'', ''submission_payload_digest''] \<and>
          ef_effect e = Some ''ADVANCE'' \<and> cf_previous c = rp_context r \<and>
          cf_number c = as_i32 (cf_number previous + 1) \<and>
          uuid_field lib data ''previous_context_revision_id'' = rp_context r \<and>
          uuid_field lib data ''new_context_revision_id'' = Some (cf_id c) \<and>
          string_field data ''previous_context_payload_digest'' = Some (cf_digest previous) \<and>
          string_field data ''new_context_payload_digest'' = Some (cf_digest c))
         (invalid ''combined event context disagrees with replay state'')) (\<lambda>_.
     andThen (assistance_gate ''combined transition is blocked by an open assistance case on the source visit'' r) (\<lambda>_.
     andThen (transition_and_visits lib e data r) (\<lambda>(source, target, t).
     andThen (ok_or (invalid ''combined event requires a submission'')
                (Option.bind (ef_submission e) (\<lambda>i. hm_find sf_id i (rp_submissions r)))) (\<lambda>b.
     andThen (guard_r
         (Some (sf_source b) = ef_source e \<and> sf_context b = cf_id c \<and> sf_transition b = tf_id t \<and>
          string_field data ''submission_payload_digest'' = Some (sf_digest b))
         (invalid ''combined submission disagrees with event'')) (\<lambda>_.
     andThen (introduce_context c r) (\<lambda>r1.
     andThen (introduce_submission b r1) (\<lambda>r2.
     andThen (introduce_visit target r2) (\<lambda>r3.
       Inr (r3\<lparr>rp_context := Some (cf_id c), rp_visit := Some (vf_id target)\<rparr>))))))))))))"

section \<open>Overrides\<close>

definition replay_projection :: "replay \<Rightarrow> projection" where
  "replay_projection r = \<lparr>pj_context = rp_context r, pj_visit = rp_visit r, pj_version = rp_version r\<rparr>"

definition admin_effect :: "json \<Rightarrow> visit_fact \<Rightarrow> string option" where
  "admin_effect data target =
     (if string_field data ''operation'' = Some ''MOVE_TO_NODE'' \<and> vf_type target \<noteq> ''TERMINAL'' then Some ''ADVANCE''
      else if string_field data ''operation'' = Some ''TERMINATE_INSTANCE'' \<and> vf_type target = ''TERMINAL''
      then Some ''TERMINATE'' else None)"

definition apply_admin :: "library \<Rightarrow> event_fact \<Rightarrow> replay \<Rightarrow> (recovery_error, replay) res" where
  "apply_admin lib e r =
     andThen (event_data lib e) (\<lambda>data.
     andThen (replay_visit (ef_source e) r) (\<lambda>source.
     andThen (replay_visit (ef_target e) r) (\<lambda>target.
     andThen (ok_or (invalid ''admin operation does not match target node type'') (admin_effect data target)) (\<lambda>effect.
     andThen (snapshot_digest lib (rp_instance r) (replay_projection r)) (\<lambda>before.
     andThen (guard_r
         (exact_keys data [''operation'', ''reason'', ''relatedReferences'', ''beforeSnapshotDigest''] \<and>
          ef_source e = rp_visit r \<and> ef_context e = rp_context r \<and> ef_submission e = None \<and>
          vf_id target \<notin> set (rp_introduced_visits r) \<and> vf_entered_by target = None \<and>
          ef_effect e = Some effect \<and> admin_payload_is_bounded data \<and>
          string_field data ''beforeSnapshotDigest'' = Some before)
         (invalid ''admin event disagrees with replay state'')) (\<lambda>_.
     andThen (validate_node_columns e (Some source) (Some target)) (\<lambda>_.
     andThen (introduce_visit target r) (\<lambda>r1. Inr (r1\<lparr>rp_visit := Some (vf_id target)\<rparr>)))))))))"

section \<open>Assistance\<close>

definition put_entry :: "uuid \<Rightarrow> 'v \<Rightarrow> (uuid \<times> 'v) list \<Rightarrow> (uuid \<times> 'v) list" where
  "put_entry = AList.update"

definition assistance_shape :: "string \<Rightarrow> string option option \<Rightarrow> string option \<Rightarrow> bool" where
  "assistance_shape ty previous new =
     (if ty = ''ASSISTANCE_REQUESTED'' then previous = Some None \<and> new = Some ''OWNER_PENDING''
      else if ty = ''ASSISTANCE_ESCALATED_TO_HUMAN''
        then previous = Some (Some ''OWNER_PENDING'') \<and> new = Some ''HUMAN_REQUIRED''
      else if ty = ''GOVERNANCE_CHILD_BOUND''
        then previous = Some (Some ''OWNER_PENDING'') \<and> new = Some ''OWNER_PENDING''
      else if ty = ''ASSISTANCE_RESOLVED''
        then (previous = Some (Some ''OWNER_PENDING'') \<or> previous = Some (Some ''HUMAN_REQUIRED'')) \<and>
             new = Some ''RESOLVED''
      else False)"

definition assistance_keys :: "string \<Rightarrow> json \<Rightarrow> string list" where
  "assistance_keys ty data =
     [''assistanceCaseId'', ''previousStatus'', ''newStatus'', ''payloadDigest''] @
     (if ty = ''GOVERNANCE_CHILD_BOUND'' then [''governanceBinding''] else []) @
     (if ty = ''ASSISTANCE_RESOLVED'' \<and> jget data ''governanceChildReview'' \<noteq> None
      then [''governanceChildReview''] else [])"

definition binding_receipt_valid :: "library \<Rightarrow> event_fact \<Rightarrow> json \<Rightarrow> uuid \<Rightarrow> uuid \<Rightarrow> json \<Rightarrow> bool" where
  "binding_receipt_valid lib e data c current b \<longleftrightarrow>
     jindex b ''assistanceCaseId'' = uuid_json lib c \<and>
     jindex (jindex b ''source'') ''workflowInstanceId'' = uuid_json lib (ef_instance e) \<and>
     jindex (jindex b ''source'') ''nodeVisitId'' = uuid_json lib current \<and>
     as_str (jindex b ''acceptanceContractDigest'') = string_field data ''payloadDigest'' \<and>
     jindex b ''status'' = JString ''BOUND'' \<and>
     Option.bind (as_str (jindex b ''bindingId'')) (parse_uuid lib) \<noteq> None"

text \<open>The closed struct \<open>GovernanceChildReview\<close>, of which the binding and the contract are compared.\<close>

definition review_fields :: "string list" where
  "review_fields = [''bindingId'', ''terminalEventId'', ''submissionId'', ''submissionDigest'', ''acceptanceContractDigest'']"

definition parse_child_review :: "library \<Rightarrow> json \<Rightarrow> (uuid \<times> string) option" where
  "parse_child_review lib v =
     (let m = struct_member review_fields v;
          extra = (case v of JObject kvs \<Rightarrow> \<not> list_all (\<lambda>k. k \<in> set review_fields) (map fst kvs) | _ \<Rightarrow> False) in
      if extra then None
      else Option.bind (Option.bind (m ''bindingId'') (read_uuid lib)) (\<lambda>b.
           Option.bind (Option.bind (m ''terminalEventId'') (read_uuid lib)) (\<lambda>_.
           Option.bind (Option.bind (m ''submissionId'') (read_uuid lib)) (\<lambda>_.
           Option.bind (Option.bind (m ''submissionDigest'') as_str) (\<lambda>_.
           Option.bind (Option.bind (m ''acceptanceContractDigest'') as_str) (\<lambda>d. Some (b, d)))))))"

definition linked_review_valid :: "library \<Rightarrow> json \<Rightarrow> json \<Rightarrow> (recovery_error, unit) res" where
  "linked_review_valid lib data b =
     andThen (ok_or (invalid ''linked resolution has no governance review'') (jget data ''governanceChildReview'')) (\<lambda>v.
     andThen (ok_or (invalid ''invalid governance review reference'') (parse_child_review lib v)) (\<lambda>(bid, contract).
     guard_r (uuid_json lib bid = jindex b ''bindingId'' \<and> JString contract = jindex b ''acceptanceContractDigest'')
       (invalid ''linked resolution disagrees with binding'')))"

text \<open>The state machine of the cases, over the shape that has been checked.\<close>

definition move_case ::
  "library \<Rightarrow> event_fact \<Rightarrow> json \<Rightarrow> uuid \<Rightarrow> uuid \<Rightarrow> replay \<Rightarrow> (recovery_error, replay) res" where
  "move_case lib e data c current r =
     (let known = map_of (rp_cases r) c in
      if ef_type e = ''ASSISTANCE_REQUESTED'' then
        andThen (guard_r (known = None) (invalid ''assistance case is requested more than once'')) (\<lambda>_.
        Inr (r\<lparr>rp_cases := put_entry c (''OWNER_PENDING'', current) (rp_cases r)\<rparr>))
      else if ef_type e = ''GOVERNANCE_CHILD_BOUND'' then
        andThen (guard_r (known = Some (''OWNER_PENDING'', current) \<and> map_of (rp_bindings r) c = None)
                   (invalid ''governance binding references a stale or already-bound case'')) (\<lambda>_.
        andThen (ok_or (invalid ''binding receipt missing'') (jget data ''governanceBinding'')) (\<lambda>b.
        andThen (guard_r (binding_receipt_valid lib e data c current b)
                   (invalid ''governance binding receipt disagrees with event'')) (\<lambda>_.
        Inr (r\<lparr>rp_bindings := put_entry c b (rp_bindings r)\<rparr>))))
      else if ef_type e = ''ASSISTANCE_ESCALATED_TO_HUMAN'' then
        andThen (ok_or (invalid ''assistance escalation references an unknown case'') known) (\<lambda>(status, visit).
        andThen (guard_r (visit = current)
                   (invalid ''assistance case is escalated on a different visit than it was opened'')) (\<lambda>_.
        andThen (guard_r (status = ''OWNER_PENDING'')
                   (invalid ''assistance case is not OWNER_PENDING when it is escalated'')) (\<lambda>_.
        Inr (r\<lparr>rp_cases := put_entry c (''HUMAN_REQUIRED'', current) (rp_cases r)\<rparr>))))
      else if ef_type e = ''ASSISTANCE_RESOLVED'' then
        andThen (ok_or (invalid ''assistance resolution references an unknown case'') known) (\<lambda>(status, visit).
        andThen (guard_r (visit = current)
                   (invalid ''assistance case is resolved on a different visit than it was opened'')) (\<lambda>_.
        andThen (guard_r (status = ''OWNER_PENDING'' \<or> status = ''HUMAN_REQUIRED'')
                   (invalid ''assistance case is resolved after it already reached a terminal state'')) (\<lambda>_.
        andThen (guard_r (optional_string_field data ''previousStatus'' = Some (Some status))
                   (invalid ''assistance event previousStatus disagrees with replayed case status'')) (\<lambda>_.
        andThen (case map_of (rp_bindings r) c of None \<Rightarrow> Inr () | Some b \<Rightarrow> linked_review_valid lib data b) (\<lambda>_.
        Inr (r\<lparr>rp_cases := put_entry c (''RESOLVED'', current) (rp_cases r)\<rparr>))))))
      else Inl (invalid ''unsupported assistance event type''))"

definition apply_assistance :: "library \<Rightarrow> event_fact \<Rightarrow> replay \<Rightarrow> (recovery_error, replay) res" where
  "apply_assistance lib e r =
     andThen (event_data lib e) (\<lambda>data.
     andThen (replay_visit (ef_source e) r) (\<lambda>v.
     andThen (ok_or (invalid ''assistance event has no valid assistanceCaseId'') (uuid_field lib data ''assistanceCaseId'')) (\<lambda>c.
     andThen (guard_r
         (exact_keys data (assistance_keys (ef_type e) data) \<and>
          assistance_shape (ef_type e) (optional_string_field data ''previousStatus'') (string_field data ''newStatus'') \<and>
          (case string_field data ''payloadDigest'' of None \<Rightarrow> False | Some d \<Rightarrow> lowercase_digest d) \<and>
          ef_source e = rp_visit r \<and> ef_target e = rp_visit r \<and> ef_context e = rp_context r \<and>
          ef_submission e = None \<and> ef_effect e = None)
         (invalid ''assistance event disagrees with replay state'')) (\<lambda>_.
     andThen (validate_node_columns e (Some v) (Some v)) (\<lambda>_.
     andThen (ok_or (invalid ''assistance event precedes the initial visit'') (rp_visit r)) (\<lambda>current.
       move_case lib e data c current r))))))"

section \<open>Principal successors\<close>

definition fleet_migration_id :: "library \<Rightarrow> fleet_pair \<Rightarrow> (recovery_error, string) res" where
  "fleet_migration_id lib pair =
     (case pair of (_, _, old, new) \<Rightarrow>
        andThen (jcs_digest lib (JObject [(''newPrincipal'', JString new), (''oldPrincipal'', JString old),
                                          (''planFileSha256'', JString trusted_fleet_plan)])) (\<lambda>d.
        Inr (''trusted-fleet-v1:'' @ d)))"

definition fleet_keys :: "string list" where
  "fleet_keys =
     [''migration_id'', ''plan_sha256'', ''pair_index'', ''old_agent_id'', ''new_agent_id'', ''old_principal_id'',
      ''new_principal_id'', ''workflow_instance_id'', ''old_visit_id'', ''new_visit_id'', ''node_id'',
      ''expected_state_version'', ''resulting_state_version'', ''before_projection_digest'', ''after_projection_digest'',
      ''causation_id'', ''correlation_id'', ''occurred_at'']"

text \<open>The ids of the manifest are well formed; the panic of \<open>expect\<close> on one that is not is an error of its message.\<close>

definition manifest_uuid :: "library \<Rightarrow> string \<Rightarrow> string \<Rightarrow> (recovery_error, uuid) res" where
  "manifest_uuid lib what t = ok_or (Rv_InternalConsistency what) (parse_uuid lib t)"

definition fleet_event_valid ::
  "library \<Rightarrow> time_text \<Rightarrow> event_fact \<Rightarrow> json \<Rightarrow> replay \<Rightarrow> fleet_pair \<Rightarrow> uuid \<Rightarrow> uuid \<Rightarrow> visit_fact \<Rightarrow> visit_fact \<Rightarrow>
     string \<Rightarrow> bool" where
  "fleet_event_valid lib tt e data r pair old new source target before \<longleftrightarrow>
     string_field data ''old_agent_id'' = Some (fst pair) \<and>
     string_field data ''new_agent_id'' = Some (fst (snd pair)) \<and>
     uuid_field lib data ''old_principal_id'' = Some old \<and> uuid_field lib data ''new_principal_id'' = Some new \<and>
     uuid_field lib data ''workflow_instance_id'' = Some (ri_id (rp_instance r)) \<and>
     uuid_field lib data ''old_visit_id'' = Some (vf_id source) \<and>
     uuid_field lib data ''new_visit_id'' = Some (vf_id target) \<and>
     uuid_field lib data ''node_id'' = Some (vf_node source) \<and>
     Option.bind (jget data ''expected_state_version'') as_i64 = Some (rp_version r) \<and>
     Option.bind (jget data ''resulting_state_version'') as_i64 = Some (as_i32 (rp_version r + 1)) \<and>
     string_field data ''before_projection_digest'' = Some before \<and>
     jget data ''causation_id'' = Some JNull \<and> jget data ''correlation_id'' = Some JNull \<and>
     (case string_field data ''occurred_at'' of None \<Rightarrow> False | Some t \<Rightarrow> tt_rfc3339 tt t) \<and>
     ef_command e \<noteq> None \<and> ef_actor e \<noteq> old \<and> ef_actor e \<noteq> new \<and>
     ef_source e = rp_visit r \<and> ef_context e = rp_context r \<and> ef_submission e = None \<and> ef_effect e = None \<and>
     vf_id target \<notin> set (rp_introduced_visits r) \<and> vf_entered_by target = None \<and>
     vf_node source = vf_node target \<and> vf_assignee source = Some old \<and> vf_assignee target = Some new"

definition apply_fleet_successor :: "library \<Rightarrow> time_text \<Rightarrow> event_fact \<Rightarrow> replay \<Rightarrow> (recovery_error, replay) res" where
  "apply_fleet_successor lib tt e r =
     andThen (event_data lib e) (\<lambda>data.
     andThen (guard_r (exact_keys data fleet_keys \<and> string_field data ''plan_sha256'' = Some trusted_fleet_plan)
         (invalid ''trusted fleet successor event shape/plan is invalid'')) (\<lambda>_.
     andThen (ok_or (invalid ''trusted fleet successor pair_index is invalid'')
         (Option.bind (Option.bind (jget data ''pair_index'') as_u64)
            (\<lambda>n. if 1 \<le> n \<and> n \<le> length trusted_fleet_pairs then Some n else None))) (\<lambda>n.
     let pair = trusted_fleet_pairs ! (n - 1) in
     andThen (fleet_migration_id lib pair) (\<lambda>mid.
     andThen (guard_r (string_field data ''migration_id'' = Some mid)
         (invalid ''trusted fleet successor migration_id is invalid'')) (\<lambda>_.
     andThen (manifest_uuid lib ''compiled OLD UUID'' (fst (snd (snd pair)))) (\<lambda>old.
     andThen (manifest_uuid lib ''compiled NEW UUID'' (snd (snd (snd pair)))) (\<lambda>new.
     andThen (replay_visit (ef_source e) r) (\<lambda>source.
     andThen (replay_visit (ef_target e) r) (\<lambda>target.
     andThen (snapshot_digest lib (rp_instance r) (replay_projection r)) (\<lambda>before.
     andThen (guard_r (fleet_event_valid lib tt e data r pair old new source target before)
         (invalid ''trusted fleet successor event disagrees with replay state'')) (\<lambda>_.
     andThen (validate_node_columns e (Some source) (Some target)) (\<lambda>_.
     andThen (snapshot_digest lib (rp_instance r)
         \<lparr>pj_context = rp_context r, pj_visit = Some (vf_id target), pj_version = as_i32 (rp_version r + 1)\<rparr>) (\<lambda>after.
     andThen (guard_r (string_field data ''after_projection_digest'' = Some after)
         (invalid ''trusted fleet successor after projection digest mismatch'')) (\<lambda>_.
     andThen (introduce_visit target r) (\<lambda>r1. Inr (r1\<lparr>rp_visit := Some (vf_id target)\<rparr>))))))))))))))))"

section \<open>The whole log\<close>

definition apply_by_type :: "library \<Rightarrow> time_text \<Rightarrow> event_fact \<Rightarrow> replay \<Rightarrow> (recovery_error, replay) res" where
  "apply_by_type lib tt e r =
     (let ty = ef_type e in
      if ty \<in> set [''INSTANCE_CREATED'', ''WORKFLOW_INSTANCE_CREATED'', ''WORKFLOW_INSTANCE_IMPORTED''] then apply_initial lib tt e r
      else if ty = ''CONTEXT_REVISED'' \<or> ty = ''WORKFLOW_CONTEXT_REVISED'' then apply_context_revision lib e r
      else if ty = ''WORKFLOW_TRANSITION_COMMITTED'' then apply_transition lib e r
      else if ty = ''WORKFLOW_CONTEXT_REVISED_AND_TRANSITION_COMMITTED'' then apply_combined lib e r
      else if ty = ''ADMIN_EMERGENCY_OVERRIDE_COMMITTED'' then apply_admin lib e r
      else if ty = ''PRINCIPAL_SUCCESSOR_MIGRATION_COMMITTED'' then apply_fleet_successor lib tt e r
      else if ty \<in> set [''ASSISTANCE_REQUESTED'', ''ASSISTANCE_ESCALATED_TO_HUMAN'', ''ASSISTANCE_RESOLVED'',
                      ''GOVERNANCE_CHILD_BOUND''] then apply_assistance lib e r
      else Inl (invalid ''event type is not supported by recovery replay''))"

definition apply_event :: "library \<Rightarrow> time_text \<Rightarrow> event_fact \<Rightarrow> int \<Rightarrow> replay \<Rightarrow> (recovery_error, replay) res" where
  "apply_event lib tt e n r =
     andThen (guard_r (ef_instance e = ri_id (rp_instance r) \<and> ef_sequence e = n \<and> ef_schema e = ''v1'' \<and>
                       ef_old e = rp_version r \<and> ef_new e = n)
         (invalid ''event sequence and state versions are not contiguous'')) (\<lambda>_.
     andThen (apply_by_type lib tt e r) (\<lambda>r1. Inr (r1\<lparr>rp_version := n\<rparr>)))"

text \<open>The events from the one with index \<open>n\<close> on.\<close>

fun apply_events :: "library \<Rightarrow> time_text \<Rightarrow> int \<Rightarrow> event_fact list \<Rightarrow> replay \<Rightarrow> (recovery_error, replay) res" where
  "apply_events lib tt n [] r = Inr r"
| "apply_events lib tt n (e # es) r =
     (if n + 1 \<ge> 2 ^ 31 then Inl (invalid ''event sequence overflows i32'')
      else andThen (apply_event lib tt e (n + 1) r) (apply_events lib tt (n + 1) es))"

definition finish_replay :: "replay \<Rightarrow> (recovery_error, projection) res" where
  "finish_replay r =
     (if length (rp_introduced_contexts r) \<noteq> hm_len cf_id (rp_contexts r) \<or>
         length (rp_introduced_visits r) \<noteq> hm_len vf_id (rp_visits r) \<or>
         length (rp_introduced_submissions r) \<noteq> hm_len sf_id (rp_submissions r)
      then Inl (invalid ''immutable fact exists outside its introducing event'')
      else Inr (replay_projection r))"

definition replay_log ::
  "library \<Rightarrow> time_text \<Rightarrow> recovery_instance \<Rightarrow> string option \<Rightarrow> context_fact list \<Rightarrow> visit_fact list \<Rightarrow>
     submission_fact list \<Rightarrow> transition_fact list \<Rightarrow> event_fact list \<Rightarrow> (recovery_error, projection) res" where
  "replay_log lib tt w dd cs vs ss ts es =
     (if es = [] then Inl (invalid ''event fact sequence is empty'')
      else andThen (apply_events lib tt 0 es (new_replay w dd cs vs ss ts)) finish_replay)"

end
