(* ===== verification/Fact_Checks.thy ===== *)
theory Fact_Checks
  imports Event_Replay
begin

text \<open>
  The checks on the immutable facts before a replay (\<open>admin_recovery_repository/snapshot.rs\<close>), the receipt an
  imported instance must be anchored to (\<open>import_receipt_validation.rs\<close>, \<open>import_event.rs\<close>), and the
  projection reconstructed from the store.
\<close>

section \<open>Import receipts\<close>

datatype creator_resolution = LegacyCreator | DomainOwnerFallback

fun creator_resolution_to_string :: "creator_resolution \<Rightarrow> string" where
  "creator_resolution_to_string LegacyCreator = ''LEGACY_CREATOR''"
| "creator_resolution_to_string DomainOwnerFallback = ''DOMAIN_OWNER_FALLBACK''"

definition read_resolution :: "json \<Rightarrow> creator_resolution option" where
  "read_resolution v =
     (let named = (\<lambda>t. if t = ''LEGACY_CREATOR'' then Some LegacyCreator
                       else if t = ''DOMAIN_OWNER_FALLBACK'' then Some DomainOwnerFallback else None) in
      case v of JString t \<Rightarrow> named t | JObject [(t, JNull)] \<Rightarrow> named t | _ \<Rightarrow> None)"

record import_result =
  ir_command :: uuid
  ir_instance :: uuid
  ir_context :: uuid
  ir_visit :: uuid
  ir_event :: uuid
  ir_version :: int
  ir_sequence :: int
  ir_digest :: string
  ir_resolution :: creator_resolution
  ir_replayed :: bool

definition import_fields :: "string list" where
  "import_fields =
     [''commandId'', ''workflowInstanceId'', ''currentContextRevisionId'', ''currentNodeVisitId'', ''eventId'',
      ''workflowStateVersion'', ''eventSequence'', ''legacySnapshotDigest'', ''creatorResolution'', ''replayed'']"

definition parse_import_result :: "library \<Rightarrow> json \<Rightarrow> import_result option" where
  "parse_import_result lib v =
     (let m = struct_member import_fields v;
          u = (\<lambda>k. Option.bind (m k) (read_uuid lib));
          extra = (case v of JObject kvs \<Rightarrow> \<not> list_all (\<lambda>k. k \<in> set import_fields) (map fst kvs) | _ \<Rightarrow> False) in
      if extra then None
      else Option.bind (u ''commandId'') (\<lambda>c. Option.bind (u ''workflowInstanceId'') (\<lambda>i.
           Option.bind (u ''currentContextRevisionId'') (\<lambda>x. Option.bind (u ''currentNodeVisitId'') (\<lambda>n.
           Option.bind (u ''eventId'') (\<lambda>e.
           Option.bind (Option.bind (m ''workflowStateVersion'') read_i32) (\<lambda>w.
           Option.bind (Option.bind (m ''eventSequence'') read_i32) (\<lambda>q.
           Option.bind (Option.bind (m ''legacySnapshotDigest'') as_str) (\<lambda>d.
           Option.bind (Option.bind (m ''creatorResolution'') read_resolution) (\<lambda>r.
           Option.bind (Option.bind (m ''replayed'') as_bool) (\<lambda>b.
             Some \<lparr>ir_command = c, ir_instance = i, ir_context = x, ir_visit = n, ir_event = e, ir_version = w,
                   ir_sequence = q, ir_digest = d, ir_resolution = r, ir_replayed = b\<rparr>)))))))))))"

text \<open>The comparison in constant time: the differences of all bytes are collected.\<close>

definition digest_equal :: "string \<Rightarrow> string \<Rightarrow> bool" where
  "digest_equal l r \<longleftrightarrow>
     length l = length r \<and>
     fold (\<lambda>(a, b) d. or d (xor (of_char a) (of_char b))) (zip l r) (0 :: 8 word) = 0"

definition validate_stored_digest :: "library \<Rightarrow> command_receipt \<Rightarrow> (string, unit) res" where
  "validate_stored_digest lib r =
     andThen (ok_or ''completed import receipt has no response body'' (rc_response_body r)) (\<lambda>body.
     andThen (ok_or ''completed import receipt has no valid response digest''
                (Option.bind (rc_response_digest r) (\<lambda>d. if lowercase_digest d then Some d else None))) (\<lambda>stored.
     andThen (json_digest lib body) (\<lambda>found.
     guard_r (digest_equal stored found) ''import receipt response digest mismatch'')))"

definition parse_success :: "library \<Rightarrow> command_receipt \<Rightarrow> (string, import_result) res" where
  "parse_success lib r =
     andThen (validate_stored_digest lib r) (\<lambda>_.
     andThen (guard_r (rc_status r = ''COMPLETED'' \<and> rc_response_status r = Some 200)
                ''import receipt is not a completed success'') (\<lambda>_.
     andThen (ok_or ''completed import receipt has no response body'' (rc_response_body r)) (\<lambda>body.
     andThen (ok_or ''invalid import success response'' (parse_import_result lib body)) (\<lambda>x.
     andThen (guard_r (\<not> ir_replayed x \<and> ir_version x = 1 \<and> ir_sequence x = 1 \<and> lowercase_digest (ir_digest x))
                ''import success response has invalid fixed fields'') (\<lambda>_. Inr x)))))"

record imported_identity =
  ii_command :: uuid
  ii_actor :: uuid
  ii_reference :: string
  ii_instance :: uuid
  ii_context :: uuid
  ii_visit :: uuid
  ii_event :: uuid
  ii_digest :: string
  ii_resolution :: string

definition validate_success :: "library \<Rightarrow> command_receipt \<Rightarrow> imported_identity \<Rightarrow> (string, import_result) res" where
  "validate_success lib r i =
     andThen (guard_r (rc_command r = ii_command i \<and> rc_type r = ''IMPORT_LEGACY_WORKFLOW_INSTANCE'' \<and>
                       rc_principal r = ii_actor i \<and> rc_key r = ii_reference i)
                ''import receipt identity does not match immutable facts'') (\<lambda>_.
     andThen (parse_success lib r) (\<lambda>x.
     andThen (guard_r (ir_command x = ii_command i \<and> ir_instance x = ii_instance i \<and> ir_context x = ii_context i \<and>
                       ir_visit x = ii_visit i \<and> ir_event x = ii_event i \<and> ir_digest x = ii_digest i \<and>
                       creator_resolution_to_string (ir_resolution x) = ii_resolution i)
                ''import receipt response does not match immutable facts'') (\<lambda>_. Inr x)))"

definition validate_receipt_linkage ::
  "library \<Rightarrow> event_fact \<Rightarrow> recovery_instance \<Rightarrow> context_fact \<Rightarrow> visit_fact \<Rightarrow> store \<Rightarrow> (recovery_error, unit) res" where
  "validate_receipt_linkage lib e w c v s =
     andThen (ok_or (invalid ''imported event is not anchored to an import command receipt'') (ef_command e)) (\<lambda>cid.
     andThen (ok_or (invalid ''imported instance has no external reference'') (ri_reference w)) (\<lambda>reference.
     andThen (ok_or (invalid ''imported event references a missing command receipt'')
                (find (\<lambda>r. rc_command r = cid) (receipts s))) (\<lambda>r.
     andThen (ok_or (invalid ''import event data is missing'') (ef_data e)) (\<lambda>data.
     andThen (ok_or (invalid ''import event snapshot digest is invalid'')
                (Option.bind (string_field data ''legacySnapshotDigest'')
                   (\<lambda>d. if lowercase_digest d then Some d else None))) (\<lambda>d.
     andThen (ok_or (invalid ''import event creator resolution is invalid'')
                (string_field data ''creatorResolution'')) (\<lambda>resolution.
     andThen (map_sum (\<lambda>m. invalid (''import receipt linkage is invalid: '' @ m)) id
         (validate_success lib r
            \<lparr>ii_command = cid, ii_actor = ef_actor e, ii_reference = reference, ii_instance = ri_id w,
             ii_context = cf_id c, ii_visit = vf_id v, ii_event = ef_id e, ii_digest = d,
             ii_resolution = resolution\<rparr>)) (\<lambda>_. Inr ())))))))"

section \<open>Fact checks\<close>

definition fact_digest :: "library \<Rightarrow> json \<Rightarrow> string \<Rightarrow> string \<Rightarrow> (recovery_error, unit) res" where
  "fact_digest lib payload stored msg =
     andThen (map_sum Rv_StorageError id (json_digest lib payload)) (\<lambda>found. guard_r (found = stored) (invalid msg))"

text \<open>The chain from index \<open>n\<close> on; \<open>previous\<close> is the id of the revision before it.\<close>

fun context_chain ::
  "library \<Rightarrow> recovery_instance \<Rightarrow> int \<Rightarrow> uuid option \<Rightarrow> context_fact list \<Rightarrow> (recovery_error, unit) res" where
  "context_chain lib w n previous [] = Inr ()"
| "context_chain lib w n previous (c # cs) =
     andThen (guard_r (cf_instance c = ri_id w \<and> cf_number c = as_i32 (as_i32 n + 1) \<and> cf_previous c = previous)
                (invalid ''context revision chain is not contiguous'')) (\<lambda>_.
     andThen (fact_digest lib (cf_payload c) (cf_digest c) ''context payload digest mismatch'') (\<lambda>_.
       context_chain lib w (n + 1) (Some (cf_id c)) cs))"

definition validate_contexts :: "library \<Rightarrow> recovery_instance \<Rightarrow> context_fact list \<Rightarrow> (recovery_error, unit) res" where
  "validate_contexts lib w cs =
     (if cs = [] then Inl (invalid ''context fact chain is empty'') else context_chain lib w 0 None cs)"

definition validate_visit :: "recovery_instance \<Rightarrow> transition_fact list \<Rightarrow> visit_fact \<Rightarrow> (recovery_error, unit) res" where
  "validate_visit w ts v =
     andThen (guard_r (vf_instance v = ri_id w \<and> vf_version v = ri_version w \<and> 1 \<le> vf_number v)
                (invalid ''node visit escapes instance definition'')) (\<lambda>_.
     andThen (guard_r (\<not> (vf_type v \<noteq> ''TERMINAL'' \<and> vf_assignee v = None))
                (invalid ''non-terminal node visit has no assignee'')) (\<lambda>_.
       case vf_entered_by v of
         None \<Rightarrow> Inr ()
       | Some i \<Rightarrow>
           guard_r (list_ex (\<lambda>t. tf_id t = i \<and> tf_version t = ri_version w \<and> tf_target t = vf_node v) ts)
             (invalid ''node visit entered transition relationship is invalid'')))"

fun each_fact :: "('f \<Rightarrow> (recovery_error, unit) res) \<Rightarrow> 'f list \<Rightarrow> (recovery_error, unit) res" where
  "each_fact f [] = Inr ()"
| "each_fact f (x # xs) = andThen (f x) (\<lambda>_. each_fact f xs)"

definition validate_visits ::
  "recovery_instance \<Rightarrow> visit_fact list \<Rightarrow> transition_fact list \<Rightarrow> (recovery_error, unit) res" where
  "validate_visits w vs ts =
     (if vs = [] then Inl (invalid ''node visit fact set is empty'') else each_fact (validate_visit w ts) vs)"

definition validate_submission ::
  "library \<Rightarrow> recovery_instance \<Rightarrow> context_fact list \<Rightarrow> visit_fact list \<Rightarrow> transition_fact list \<Rightarrow> submission_fact \<Rightarrow>
     (recovery_error, unit) res" where
  "validate_submission lib w cs vs ts b =
     (let source = hm_find vf_id (sf_source b) vs;
          t = find (\<lambda>t. tf_id t = sf_transition b) ts in
      andThen (guard_r (sf_instance b = ri_id w \<and> sf_context b \<in> set (map cf_id cs) \<and>
                        map_option tf_version t = Some (ri_version w) \<and>
                        map_option vf_node source = map_option tf_source t)
                 (invalid ''submission relationship is invalid'')) (\<lambda>_.
        fact_digest lib (sf_payload b) (sf_digest b) ''submission payload digest mismatch''))"

definition validate_submissions ::
  "library \<Rightarrow> recovery_instance \<Rightarrow> context_fact list \<Rightarrow> visit_fact list \<Rightarrow> submission_fact list \<Rightarrow> transition_fact list \<Rightarrow>
     (recovery_error, unit) res" where
  "validate_submissions lib w cs vs bs ts = each_fact (validate_submission lib w cs vs ts) bs"

section \<open>The reconstructed projection\<close>

definition import_anchor ::
  "library \<Rightarrow> recovery_instance \<Rightarrow> context_fact list \<Rightarrow> visit_fact list \<Rightarrow> event_fact list \<Rightarrow> store \<Rightarrow>
     (recovery_error, unit) res" where
  "import_anchor lib w cs vs es s =
     (case es of
        [] \<Rightarrow> Inr ()
      | e # _ \<Rightarrow>
          if ef_type e \<noteq> ''WORKFLOW_INSTANCE_IMPORTED'' then Inr ()
          else
            andThen (ok_or (invalid ''imported initial event references a missing context'')
                       (find (\<lambda>c. Some (cf_id c) = ef_context e) cs)) (\<lambda>c.
            andThen (ok_or (invalid ''imported initial event references a missing visit'')
                       (find (\<lambda>v. Some (vf_id v) = ef_target e) vs)) (\<lambda>v.
              validate_receipt_linkage lib e w c v s)))"

definition reconstruct_projection ::
  "library \<Rightarrow> time_text \<Rightarrow> recovery_columns \<Rightarrow> recovery_instance \<Rightarrow> store \<Rightarrow> (recovery_error, projection) res" where
  "reconstruct_projection lib tt cols w s =
     (let cs = load_contexts (ri_id w) s; vs = load_visits (ri_id w) s; bs = load_submissions (ri_id w) s;
          ts = load_transitions (ri_version w) s; es = load_events (ri_id w) s in
      andThen (validate_contexts lib w cs) (\<lambda>_.
      andThen (validate_visits w vs ts) (\<lambda>_.
      andThen (validate_submissions lib w cs vs bs ts) (\<lambda>_.
      andThen (import_anchor lib w cs vs es s) (\<lambda>_.
        replay_log lib tt w (rk_definition_digest cols (ri_version w)) cs vs bs ts es)))))"

lemma fold_or_xor_zero:
  "fold (\<lambda>(a, b) d. or d (xor (f a) (f b))) ps (d0 :: 8 word) = 0 \<longleftrightarrow> d0 = 0 \<and> (\<forall>(a, b)\<in>set ps. f a = f b)"
proof (induction ps arbitrary: d0)
  case (Cons p ps)
  obtain a b where p: "p = (a, b)" by (cases p)
  have "or d0 (xor (f a) (f b)) = 0 \<longleftrightarrow> d0 = 0 \<and> f a = f b"
  proof -
    have "f a = f b" if "xor (f a) (f b) = 0"
      using that by (metis xor.assoc xor.left_neutral xor_self_eq)
    then show ?thesis by (auto simp: or_eq_0_iff)
  qed
  with Cons p show ?case by auto
qed simp

lemma digest_equal_eq [simp]: "digest_equal l r \<longleftrightarrow> l = r"
proof -
  have inj: "(of_char a :: 8 word) = of_char b \<longleftrightarrow> a = b" for a b :: char
  proof
    assume "(of_char a :: 8 word) = of_char b"
    then have "word_of_nat (of_char a) = (word_of_nat (of_char b) :: 8 word)" by (simp add: of_nat_of_char)
    then have "take_bit 8 (of_char a :: nat) = take_bit 8 (of_char b)" by (simp add: word_of_nat_eq_iff)
    then have "(of_char a :: nat) = of_char b" by (simp add: take_bit_eq_mod)
    then show "a = b" by simp
  qed simp
  show ?thesis
    unfolding digest_equal_def fold_or_xor_zero inj list_eq_iff_zip_eq by simp
qed

end
