(* ===== verification/Admin_Recovery.thy ===== *)
theory Admin_Recovery
  imports Fact_Checks
begin

text \<open>
  The two administrative commands (\<open>admin_recovery_repository\<close>: \<open>authorization.rs\<close>, \<open>receipt.rs\<close>,
  \<open>rebuild_transaction.rs\<close>, \<open>override_transaction.rs\<close>), from the receipt to COMMIT.  Besides the store they write the
  security audits, so a command acts on the pair of both.
\<close>

section \<open>State\<close>

record security_row =
  se_id :: uuid
  se_principal :: uuid
  se_action :: string
  se_instance :: uuid
  se_details :: json

record admin_state =
  am_store :: store
  am_security :: "security_row list"

record recovery_env =
  re_lib :: library
  re_time :: time_text
  re_columns :: recovery_columns
  re_now :: int
  re_command :: uuid
  re_visit :: uuid
  re_activation :: uuid
  re_event :: uuid
  re_audit :: uuid
  re_security :: uuid
  re_gate :: admission_gate
  re_commit :: "string option"

text \<open>An error of COMMIT leaves the state the transaction started from.\<close>

definition settle ::
  "recovery_env \<Rightarrow> (recovery_error, 'r) res \<Rightarrow> admin_state \<Rightarrow> admin_state \<Rightarrow> (recovery_error, 'r) res \<times> admin_state" where
  "settle env res a0 a =
     (case re_commit env of None \<Rightarrow> (res, a) | Some m \<Rightarrow> (Inl (Rv_StorageError m), a0))"

section \<open>Receipts and audits\<close>

definition recovery_acquire ::
  "string \<Rightarrow> uuid \<Rightarrow> uuid \<Rightarrow> string \<Rightarrow> string \<Rightarrow> store \<Rightarrow> (recovery_error, acquire_result \<times> store) res" where
  "recovery_acquire ctype proposed p key hash s =
     (case try_insert_receipt ctype proposed p key hash s of
        Inl _ \<Rightarrow> Inl (Rv_StorageError ''duplicate key value violates unique constraint'')
      | Inr (Some cid, s') \<Rightarrow> Inr (Acq_Owned cid, s')
      | Inr (None, s') \<Rightarrow>
          (case find_receipt p key s' of
             None \<Rightarrow> Inl (Rv_InternalConsistency ''receipt disappeared'')
           | Some r \<Rightarrow>
               if rc_hash r \<noteq> hash then Inr (Acq_Conflict (rc_command r), s')
               else if rc_status r = ''PROCESSING'' then Inr (Acq_Processing (rc_command r), s')
               else
                 andThen (ok_or (Rv_InternalConsistency ''completed receipt has no status'') (rc_response_status r)) (\<lambda>st.
                 andThen (ok_or (Rv_InternalConsistency ''completed receipt has no body'') (rc_response_body r)) (\<lambda>b.
                   Inr (Acq_Replay (rc_command r) st b, s')))))"

definition acquired_command :: "acquire_result \<Rightarrow> uuid" where
  "acquired_command acq =
     (case acq of Acq_Owned c \<Rightarrow> c | Acq_Replay c _ _ \<Rightarrow> c | Acq_Conflict c \<Rightarrow> c | Acq_Processing c \<Rightarrow> c)"

definition recovery_complete :: "library \<Rightarrow> uuid \<Rightarrow> int \<Rightarrow> json \<Rightarrow> admin_state \<Rightarrow> (recovery_error, admin_state) res" where
  "recovery_complete lib cid status body a =
     andThen (complete_by Rv_StorageError
                (Rv_InternalConsistency ''receipt completion affected an unexpected row count'') lib cid status body (am_store a))
       (\<lambda>s. Inr (a\<lparr>am_store := s\<rparr>))"

definition write_attempt ::
  "recovery_env \<Rightarrow> uuid \<Rightarrow> uuid \<Rightarrow> string \<Rightarrow> string \<Rightarrow> string option \<Rightarrow> string \<Rightarrow> json \<Rightarrow> admin_state \<Rightarrow>
     (recovery_error, admin_state) res" where
  "write_attempt env cid p key attempt reason hash details a =
     andThen (map_sum Rv_StorageError id
                (attempt_audit_row (re_audit env) cid p key attempt reason hash (Some details) (am_store a)))
       (\<lambda>s. Inr (a\<lparr>am_store := s\<rparr>))"

definition write_security ::
  "recovery_env \<Rightarrow> uuid \<Rightarrow> string \<Rightarrow> uuid \<Rightarrow> json \<Rightarrow> admin_state \<Rightarrow> (recovery_error, admin_state) res" where
  "write_security env p action inst details a =
     (if re_security env \<in> se_id ` set (am_security a)
      then Inl (Rv_StorageError ''duplicate key value violates unique constraint'')
      else Inr (a\<lparr>am_security := am_security a @
        [\<lparr>se_id = re_security env, se_principal = p, se_action = action, se_instance = inst, se_details = details\<rparr>]\<rparr>))"

definition recovery_error_body :: "recovery_error \<Rightarrow> json" where
  "recovery_error_body e =
     (case e of
        Rv_BeforeSnapshotDigestMismatch w f \<Rightarrow>
          JObject [(''actual'', JString f), (''error'', JString (recovery_label e)), (''expected'', JString w)]
      | Rv_WorkflowStateVersionConflict w f \<Rightarrow>
          JObject [(''actual'', json_int f), (''error'', JString (recovery_label e)), (''expected'', json_int w)]
      | _ \<Rightarrow> (case recovery_detail e of
               Some d \<Rightarrow> JObject [(''detail'', JString d), (''error'', JString (recovery_label e))]
             | None \<Rightarrow> JObject [(''error'', JString (recovery_label e))]))"

definition recovery_error_from_body :: "json \<Rightarrow> recovery_error" where
  "recovery_error_from_body body =
     (let text = (\<lambda>k dflt. case as_str (jindex body k) of None \<Rightarrow> dflt | Some t \<Rightarrow> t);
          detail = text ''detail'' ''replayed failure'';
          label = text ''error'' ''internal_consistency_error'' in
      if label = ''principal_disabled'' then Rv_PrincipalDisabled
      else if label = ''principal_type_not_allowed'' then Rv_PrincipalTypeNotAllowed
      else if label = ''permission_denied'' then Rv_PermissionDenied
      else if label = ''instance_not_found'' then Rv_InstanceNotFound
      else if label = ''invalid_input'' then Rv_InvalidInput detail
      else if label = ''before_snapshot_digest_mismatch''
        then Rv_BeforeSnapshotDigestMismatch (text ''expected'' []) (text ''actual'' [])
      else if label = ''workflow_state_version_conflict''
        then Rv_WorkflowStateVersionConflict (i32_or_zero body ''expected'') (i32_or_zero body ''actual'')
      else if label = ''invalid_immutable_facts'' then Rv_InvalidImmutableFacts detail
      else if label = ''invalid_target'' then Rv_InvalidTarget detail
      else if label = ''assignee_resolution_failed'' then Rv_AssigneeResolutionFailed detail
      else Rv_InternalConsistency detail)"

text \<open>
  \<open>record_failure\<close> and \<open>commit_failure\<close>: the error is the answer of the receipt, with an attempt and a security audit.
  Whatever the transaction has written before stays.
\<close>

definition commit_failure ::
  "recovery_env \<Rightarrow> string \<Rightarrow> uuid \<Rightarrow> uuid \<Rightarrow> string \<Rightarrow> string \<Rightarrow> uuid \<Rightarrow> recovery_error \<Rightarrow> admin_state \<Rightarrow> admin_state \<Rightarrow>
     (recovery_error, 'r) res \<times> admin_state" where
  "commit_failure env action cid actor key hash inst e a0 a =
     (case andThen (recovery_complete (re_lib env) cid (recovery_status_code e) (recovery_error_body e) a) (\<lambda>a1.
           andThen (write_attempt env cid actor key ''DETERMINISTIC_FAILURE'' (Some (recovery_label e)) hash
                      (JObject [(''error'', JString (recovery_label e))]) a1) (\<lambda>a2.
           write_security env actor action inst
             (JObject [(''commandId'', uuid_json (re_lib env) cid), (''reason'', JString (recovery_label e))]) a2)) of
        Inl e' \<Rightarrow> (Inl e', a0)
      | Inr a3 \<Rightarrow> settle env (Inl e) a0 a3)"

definition deny_access ::
  "recovery_env \<Rightarrow> string \<Rightarrow> acquire_result \<Rightarrow> uuid \<Rightarrow> string \<Rightarrow> string \<Rightarrow> uuid \<Rightarrow> recovery_error \<Rightarrow> admin_state \<Rightarrow>
     admin_state \<Rightarrow> (recovery_error, 'r) res \<times> admin_state" where
  "deny_access env action acq actor key hash inst e a0 a =
     (case acq of
        Acq_Owned cid \<Rightarrow> commit_failure env action cid actor key hash inst e a0 a
      | _ \<Rightarrow>
          (case andThen (write_attempt env (acquired_command acq) actor key ''PERMISSION_DENIED''
                           (Some ''current authorization denied'') hash
                           (JObject [(''error'', JString ''permission_denied'')]) a)
                  (write_security env actor action inst (JObject [(''reason'', JString ''permission_denied'')])) of
             Inl e' \<Rightarrow> (Inl e', a0)
           | Inr a1 \<Rightarrow> settle env (Inl e) a0 a1))"

definition conflict_or_processing ::
  "recovery_env \<Rightarrow> acquire_result \<Rightarrow> uuid \<Rightarrow> string \<Rightarrow> string \<Rightarrow> admin_state \<Rightarrow> admin_state \<Rightarrow>
     (recovery_error, 'r) res \<times> admin_state" where
  "conflict_or_processing env acq actor key hash a0 a =
     (let (attempt, reason, e) =
            (case acq of
               Acq_Conflict _ \<Rightarrow> (''IDEMPOTENCY_CONFLICT'', ''request hash mismatch'', Rv_IdempotencyConflict)
             | _ \<Rightarrow> (''STILL_PROCESSING'', ''existing receipt is still processing'', Rv_CommandStillProcessing)) in
      case write_attempt env (acquired_command acq) actor key attempt (Some reason) hash
             (JObject [(''error'', JString (recovery_label e))]) a of
        Inl e' \<Rightarrow> (Inl e', a0)
      | Inr a1 \<Rightarrow> settle env (Inl e) a0 a1)"

section \<open>Authorization\<close>

definition validate_actor :: "uuid \<Rightarrow> store \<Rightarrow> (recovery_error, unit) res" where
  "validate_actor p s =
     andThen (ok_or Rv_PrincipalNotFound (find_principal p s)) (\<lambda>r.
     andThen (guard_r (pr_enabled r) Rv_PrincipalDisabled) (\<lambda>_.
     guard_r (pr_type r \<noteq> ''SERVICE'') Rv_PrincipalTypeNotAllowed))"

definition validate_workflow_admin :: "uuid \<Rightarrow> uuid \<Rightarrow> store \<Rightarrow> (recovery_error, unit) res" where
  "validate_workflow_admin p d s =
     andThen (validate_actor p s) (\<lambda>_.
     guard_r (list_ex (\<lambda>b. rb_domain b = d \<and> rb_principal b = p \<and> rb_role b = ''WORKFLOW_ADMIN'' \<and> rb_enabled b)
                (role_bindings s)) Rv_PermissionDenied)"

definition admin_access :: "uuid \<Rightarrow> uuid \<Rightarrow> store \<Rightarrow> (recovery_error, unit) res" where
  "admin_access p d s = andThen (validate_actor p s) (\<lambda>_. validate_workflow_admin p d s)"

definition lock_definition_version :: "uuid \<Rightarrow> store \<Rightarrow> (recovery_error, version_row) res" where
  "lock_definition_version v s = ok_or (Rv_InternalConsistency ''definition version missing'') (find_version v s)"

definition validate_override_status :: "string \<Rightarrow> (recovery_error, unit) res" where
  "validate_override_status st =
     (if st = ''PUBLISHED'' \<or> st = ''DEPRECATED'' \<or> st = ''REVOKED'' then Inr ()
      else if st = ''DRAFT''
        then Inl (Rv_InvalidTarget ''emergency override is not available for a DRAFT definition version'')
      else Inl (Rv_InternalConsistency ''definition version has an unknown status''))"

definition read_target_node :: "uuid \<Rightarrow> uuid \<Rightarrow> store \<Rightarrow> (recovery_error, node_row) res" where
  "read_target_node node version s =
     ok_or (Rv_InvalidTarget ''target node is not in the fixed definition version'')
       (find (\<lambda>n. nr_id n = node \<and> nr_version n = version) (node_rows s))"

definition resolve_non_terminal_assignee :: "node_row \<Rightarrow> uuid \<Rightarrow> uuid \<Rightarrow> store \<Rightarrow> (recovery_error, uuid) res" where
  "resolve_non_terminal_assignee n author d s =
     andThen (guard_r (nr_type n \<noteq> ''TERMINAL'') (Rv_InvalidTarget ''MOVE_TO_NODE target must be non-terminal'')) (\<lambda>_.
     andThen
       (if nr_ref_type n = Some ''WORKFLOW_CREATOR'' then Inr author
        else if nr_ref_type n = Some ''DOMAIN_OWNER'' then
          ok_or (Rv_AssigneeResolutionFailed ''enabled DOMAIN_OWNER unavailable'')
            (map_option rb_principal
               (find (\<lambda>b. rb_domain b = d \<and> rb_role b = ''DOMAIN_OWNER'' \<and> rb_enabled b \<and>
                          principal_enabled (rb_principal b) s = Some True) (role_bindings s)))
        else if nr_ref_type n = Some ''FIXED_PRINCIPAL'' then
          ok_or (Rv_AssigneeResolutionFailed ''fixed principal is missing'') (nr_fixed_principal n)
        else Inl (Rv_AssigneeResolutionFailed ''non-terminal target has no valid assignee reference'')) (\<lambda>p.
     andThen (guard_r (principal_enabled p s = Some True)
                (Rv_AssigneeResolutionFailed ''target assignee is unavailable'')) (\<lambda>_. Inr p)))"

section \<open>Rebuild\<close>

record rebuild_result =
  bw_command :: uuid
  bw_instance :: uuid
  bw_before :: projection
  bw_after :: projection
  bw_digest :: string
  bw_changed :: bool
  bw_replayed :: bool

definition projection_json :: "library \<Rightarrow> projection \<Rightarrow> json" where
  "projection_json lib p =
     JObject [(''currentContextRevisionId'', opt_uuid_json lib (pj_context p)),
              (''currentNodeVisitId'', opt_uuid_json lib (pj_visit p)),
              (''workflowStateVersion'', json_int (pj_version p))]"

text \<open>A missing member reads as the \<open>None\<close> of an option.\<close>

definition read_opt_uuid :: "library \<Rightarrow> json option \<Rightarrow> uuid option option" where
  "read_opt_uuid lib m =
     (case m of None \<Rightarrow> Some None | Some JNull \<Rightarrow> Some None | Some v \<Rightarrow> map_option Some (read_uuid lib v))"

definition parse_projection :: "library \<Rightarrow> json \<Rightarrow> projection option" where
  "parse_projection lib v =
     (let m = struct_member [''currentContextRevisionId'', ''currentNodeVisitId'', ''workflowStateVersion''] v in
      Option.bind (read_opt_uuid lib (m ''currentContextRevisionId'')) (\<lambda>c.
      Option.bind (read_opt_uuid lib (m ''currentNodeVisitId'')) (\<lambda>n.
      Option.bind (Option.bind (m ''workflowStateVersion'') read_i32) (\<lambda>w.
        Some \<lparr>pj_context = c, pj_visit = n, pj_version = w\<rparr>))))"

definition rebuild_body :: "library \<Rightarrow> rebuild_result \<Rightarrow> json" where
  "rebuild_body lib r =
     JObject [(''afterProjection'', projection_json lib (bw_after r)),
              (''beforeProjection'', projection_json lib (bw_before r)),
              (''beforeSnapshotDigest'', JString (bw_digest r)), (''changed'', JBool (bw_changed r)),
              (''commandId'', uuid_json lib (bw_command r)), (''replayed'', JBool (bw_replayed r)),
              (''workflowInstanceId'', uuid_json lib (bw_instance r))]"

definition parse_rebuild :: "library \<Rightarrow> json \<Rightarrow> rebuild_result option" where
  "parse_rebuild lib v =
     (let m = struct_member [''commandId'', ''workflowInstanceId'', ''beforeProjection'', ''afterProjection'',
                ''beforeSnapshotDigest'', ''changed'', ''replayed''] v in
      Option.bind (Option.bind (m ''commandId'') (read_uuid lib)) (\<lambda>c.
      Option.bind (Option.bind (m ''workflowInstanceId'') (read_uuid lib)) (\<lambda>i.
      Option.bind (Option.bind (m ''beforeProjection'') (parse_projection lib)) (\<lambda>b.
      Option.bind (Option.bind (m ''afterProjection'') (parse_projection lib)) (\<lambda>a.
      Option.bind (Option.bind (m ''beforeSnapshotDigest'') as_str) (\<lambda>d.
      Option.bind (Option.bind (m ''changed'') as_bool) (\<lambda>ch.
      Option.bind (Option.bind (m ''replayed'') as_bool) (\<lambda>rp.
        Some \<lparr>bw_command = c, bw_instance = i, bw_before = b, bw_after = a, bw_digest = d, bw_changed = ch,
              bw_replayed = rp\<rparr>))))))))"

definition rebuild_replay :: "library \<Rightarrow> uuid \<Rightarrow> int \<Rightarrow> json \<Rightarrow> (recovery_error, rebuild_result) res" where
  "rebuild_replay lib cid status body =
     (if status \<noteq> 200 then Inl (recovery_error_from_body body)
      else andThen (ok_or (Rv_InternalConsistency ''invalid stored result'') (parse_rebuild lib body)) (\<lambda>r.
           andThen (guard_r (bw_command r = cid) (Rv_InternalConsistency ''receipt response command id mismatch'')) (\<lambda>_.
             Inr (r\<lparr>bw_replayed := True\<rparr>))))"

text \<open>
  The three columns of the projection.  A replayed log has a context (\<open>replay_log_context\<close>), so the column is never
  set to NULL.
\<close>

definition set_projection :: "uuid \<Rightarrow> projection \<Rightarrow> store \<Rightarrow> (recovery_error, store) res" where
  "set_projection i p s =
     (if length (filter (\<lambda>w. wi_id w = i) (instances s)) \<noteq> 1
      then Inl (Rv_InternalConsistency ''projection rebuild updated an unexpected row count'')
      else Inr (s\<lparr>instances := map (\<lambda>w. if wi_id w = i
             then w\<lparr>wi_context := (case pj_context p of None \<Rightarrow> wi_context w | Some c \<Rightarrow> c),
                    wi_current_visit := pj_visit p, wi_state_version := pj_version p\<rparr> else w) (instances s)\<rparr>))"

text \<open>What stops a command after its receipt is owned: an answer to be recorded, or a rollback.\<close>

datatype recovery_stop = Recorded recovery_error admin_state | Rolled_Back recovery_error

definition record_at :: "admin_state \<Rightarrow> (recovery_error, 'a) res \<Rightarrow> (recovery_stop, 'a) res" where
  "record_at a r = map_sum (\<lambda>e. Recorded e a) id r"

definition roll_back :: "(recovery_error, 'a) res \<Rightarrow> (recovery_stop, 'a) res" where
  "roll_back r = map_sum Rolled_Back id r"

text \<open>A reconstruction records only the errors on the facts.\<close>

definition record_facts :: "admin_state \<Rightarrow> (recovery_error, 'a) res \<Rightarrow> (recovery_stop, 'a) res" where
  "record_facts a r =
     map_sum (\<lambda>e. case e of Rv_InvalidImmutableFacts _ \<Rightarrow> Recorded e a | _ \<Rightarrow> Rolled_Back e) id r"

definition rebuild_owned ::
  "recovery_env \<Rightarrow> rebuild_command \<Rightarrow> uuid \<Rightarrow> recovery_instance \<Rightarrow> admin_state \<Rightarrow>
     (recovery_stop, rebuild_result \<times> admin_state) res" where
  "rebuild_owned env cmd cid w a =
     (let lib = re_lib env; s = am_store a; before = row_projection w in
      andThen (roll_back (snapshot_digest lib w before)) (\<lambda>digest.
      andThen (record_at a (verify_expected_digest (rb_before cmd) digest)) (\<lambda>_.
      andThen (record_facts a (reconstruct_projection lib (re_time env) (re_columns env) w s)) (\<lambda>after.
      let changed = (before \<noteq> after);
          s1 = (if pj_visit before \<noteq> pj_visit after
                then void_open_cases (re_now env) (ri_id w) (rb_actor cmd) cid ''ADMIN_PROJECTION_REBUILD'' s else s) in
      andThen (roll_back (if changed then set_projection (ri_id w) after s1 else Inr s1)) (\<lambda>s2.
      let r = \<lparr>bw_command = cid, bw_instance = ri_id w, bw_before = before, bw_after = after, bw_digest = digest,
               bw_changed = changed, bw_replayed = False\<rparr> in
      andThen (roll_back (recovery_complete lib cid 200 (rebuild_body lib r) (a\<lparr>am_store := s2\<rparr>))) (\<lambda>a1.
      andThen (roll_back (write_security env (rb_actor cmd) ''REBUILD_PROJECTION_COMMITTED'' (ri_id w)
                 (JObject [(''beforeSnapshotDigest'', JString digest), (''changed'', JBool changed),
                           (''commandId'', uuid_json lib cid)]) a1)) (\<lambda>a2. Inr (r, a2))))))))"

definition rebuild_denial :: "uuid \<Rightarrow> recovery_instance \<Rightarrow> version_row \<Rightarrow> store \<Rightarrow> (recovery_error, unit) res" where
  "rebuild_denial actor w v s =
     andThen (if vr_semantic v = 3 then map_sum Rv_InvalidImmutableFacts id (activation_consistency (ri_id w) s)
              else Inr ()) (\<lambda>_. admin_access actor (ri_domain w) s)"

definition rebuild_projection ::
  "recovery_env \<Rightarrow> rebuild_command \<Rightarrow> string \<Rightarrow> admin_state \<Rightarrow> (recovery_error, rebuild_result) res \<times> admin_state" where
  "rebuild_projection env cmd hash a0 =
     (let actor = rb_actor cmd; key = rb_key cmd; inst = rb_instance cmd; rejected = ''REBUILD_PROJECTION_REJECTED'' in
      case recovery_acquire ''REBUILD_PROJECTION'' (re_command env) actor key hash (am_store a0) of
        Inl e \<Rightarrow> (Inl e, a0)
      | Inr (acq, s1) \<Rightarrow>
          (let a1 = a0\<lparr>am_store := s1\<rparr> in
           case lock_instance (re_columns env) inst s1 of
             Inl _ \<Rightarrow> deny_access env rejected acq actor key hash inst Rv_PermissionDenied a0 a1
           | Inr w \<Rightarrow>
               (case lock_definition_version (ri_version w) s1 of
                  Inl e \<Rightarrow> (Inl e, a0)
                | Inr v \<Rightarrow>
                    (case rebuild_denial actor w v s1 of
                       Inl e \<Rightarrow> deny_access env rejected acq actor key hash inst e a0 a1
                     | Inr _ \<Rightarrow>
                         (case acq of
                            Acq_Replay cid status body \<Rightarrow> settle env (rebuild_replay (re_lib env) cid status body) a0 a1
                          | Acq_Owned cid \<Rightarrow>
                              (case rebuild_owned env cmd cid w a1 of
                                 Inl (Recorded e a) \<Rightarrow> commit_failure env rejected cid actor key hash inst e a0 a
                               | Inl (Rolled_Back e) \<Rightarrow> (Inl e, a0)
                               | Inr (r, a2) \<Rightarrow> settle env (Inr r) a0 a2)
                          | _ \<Rightarrow> conflict_or_processing env acq actor key hash a0 a1)))))"

section \<open>Override\<close>

record override_result =
  ow_command :: uuid
  ow_instance :: uuid
  ow_source :: uuid
  ow_current :: uuid
  ow_version :: int
  ow_sequence :: int
  ow_digest :: string
  ow_replayed :: bool

definition override_body :: "library \<Rightarrow> override_result \<Rightarrow> json" where
  "override_body lib r =
     JObject [(''beforeSnapshotDigest'', JString (ow_digest r)), (''commandId'', uuid_json lib (ow_command r)),
              (''currentNodeVisitId'', uuid_json lib (ow_current r)), (''eventSequence'', json_int (ow_sequence r)),
              (''replayed'', JBool (ow_replayed r)), (''sourceNodeVisitId'', uuid_json lib (ow_source r)),
              (''workflowInstanceId'', uuid_json lib (ow_instance r)),
              (''workflowStateVersion'', json_int (ow_version r))]"

definition parse_override :: "library \<Rightarrow> json \<Rightarrow> override_result option" where
  "parse_override lib v =
     (let m = struct_member [''commandId'', ''workflowInstanceId'', ''sourceNodeVisitId'', ''currentNodeVisitId'',
                ''workflowStateVersion'', ''eventSequence'', ''beforeSnapshotDigest'', ''replayed''] v in
      Option.bind (Option.bind (m ''commandId'') (read_uuid lib)) (\<lambda>c.
      Option.bind (Option.bind (m ''workflowInstanceId'') (read_uuid lib)) (\<lambda>i.
      Option.bind (Option.bind (m ''sourceNodeVisitId'') (read_uuid lib)) (\<lambda>sv.
      Option.bind (Option.bind (m ''currentNodeVisitId'') (read_uuid lib)) (\<lambda>cv.
      Option.bind (Option.bind (m ''workflowStateVersion'') read_i32) (\<lambda>w.
      Option.bind (Option.bind (m ''eventSequence'') read_i32) (\<lambda>q.
      Option.bind (Option.bind (m ''beforeSnapshotDigest'') as_str) (\<lambda>d.
      Option.bind (Option.bind (m ''replayed'') as_bool) (\<lambda>rp.
        Some \<lparr>ow_command = c, ow_instance = i, ow_source = sv, ow_current = cv, ow_version = w, ow_sequence = q,
              ow_digest = d, ow_replayed = rp\<rparr>)))))))))"

definition override_replay :: "library \<Rightarrow> uuid \<Rightarrow> int \<Rightarrow> json \<Rightarrow> (recovery_error, override_result) res" where
  "override_replay lib cid status body =
     (if status \<noteq> 200 then Inl (recovery_error_from_body body)
      else andThen (ok_or (Rv_InternalConsistency ''invalid stored result'') (parse_override lib body)) (\<lambda>r.
           andThen (guard_r (ow_command r = cid) (Rv_InternalConsistency ''receipt response command id mismatch'')) (\<lambda>_.
             Inr (r\<lparr>ow_replayed := True\<rparr>))))"

definition reference_valid :: "related_reference \<Rightarrow> bool" where
  "reference_valid r \<longleftrightarrow>
     rr_type r \<noteq> [] \<and> length (rr_type r) \<le> 128 \<and> rr_id r \<noteq> [] \<and> length (rr_id r) \<le> 256 \<and>
     no_controls (rr_type r) \<and> no_controls (rr_id r)"

definition validate_override_input :: "override_command \<Rightarrow> (recovery_error, unit) res" where
  "validate_override_input cmd =
     andThen (guard_r (reason_bounded (oo_reason cmd))
       (Rv_InvalidInput ''reason must contain 1..2000 printable characters without surrounding whitespace'')) (\<lambda>_.
     andThen (guard_r (length (oo_references cmd) \<le> 20)
       (Rv_InvalidInput ''related_references must contain at most 20 entries'')) (\<lambda>_.
     guard_r (list_all reference_valid (oo_references cmd))
       (Rv_InvalidInput ''related reference fields are empty, oversized, or contain controls'')))"

text \<open>What the checks establish for the writes.\<close>

record override_plan =
  vp_digest :: string
  vp_context :: uuid
  vp_source :: uuid
  vp_source_node :: uuid
  vp_node :: node_row
  vp_activates :: bool
  vp_assignee :: "uuid option"
  vp_effect :: string

definition override_assignee ::
  "override_command \<Rightarrow> recovery_instance \<Rightarrow> node_row \<Rightarrow> bool \<Rightarrow> store \<Rightarrow> (recovery_error, uuid option \<times> string) res" where
  "override_assignee cmd w n activates s =
     (case oo_operation cmd of
        MoveToNode \<Rightarrow>
          andThen (guard_r (\<not> (activates \<and> nr_type n \<noteq> ''TASK''))
            (Rv_InvalidTarget ''VISIT_ACTIVATION_V1 MOVE_TO_NODE target must be a TASK node'')) (\<lambda>_.
          andThen (resolve_non_terminal_assignee n (ri_creator w) (ri_domain w) s) (\<lambda>p.
          andThen (if activates then map_sum Rv_AssigneeResolutionFailed id (validate_owner_is_human_or_agent p s)
                   else Inr ()) (\<lambda>_. Inr (Some p, ''ADVANCE''))))
      | TerminateInstance \<Rightarrow>
          andThen (guard_r (nr_type n = ''TERMINAL'') (Rv_InvalidTarget ''TERMINATE_INSTANCE target must be terminal''))
            (\<lambda>_. Inr (None, ''TERMINATE'')))"

definition override_checked ::
  "recovery_env \<Rightarrow> override_command \<Rightarrow> recovery_instance \<Rightarrow> version_row \<Rightarrow> admin_state \<Rightarrow> (recovery_stop, override_plan) res" where
  "override_checked env cmd w ver a =
     (let lib = re_lib env; s = am_store a in
      andThen (record_at a (validate_override_input cmd)) (\<lambda>_.
      andThen (record_at a (validate_override_status (vr_status ver))) (\<lambda>_.
      andThen (record_facts a (reconstruct_projection lib (re_time env) (re_columns env) w s)) (\<lambda>p.
      andThen (record_at a (guard_r (p = row_projection w)
                 (invalid ''instance projection does not match immutable event replay''))) (\<lambda>_.
      andThen (record_at a (guard_r (oo_expected cmd = ri_state w)
                 (Rv_WorkflowStateVersionConflict (oo_expected cmd) (ri_state w)))) (\<lambda>_.
      andThen (roll_back (snapshot_digest lib w (row_projection w))) (\<lambda>digest.
      andThen (record_at a (verify_expected_digest (oo_before cmd) digest)) (\<lambda>_.
      andThen (record_at a (ok_or (Rv_InternalConsistency ''current context projection is null'') (ri_context w))) (\<lambda>ctx.
      andThen (record_at a (ok_or (Rv_InternalConsistency ''current visit projection is null'') (ri_visit w))) (\<lambda>source.
      andThen (record_at a (ok_or (Rv_InternalConsistency ''replayed source visit disappeared'') (visit_node source s))) (\<lambda>node.
      andThen (record_at a (read_target_node (oo_target cmd) (ri_version w) s)) (\<lambda>n.
      let activates = (vr_semantic ver = 3) in
      andThen (record_at a (override_assignee cmd w n activates s)) (\<lambda>(assignee, effect).
      andThen (roll_back (map_sum Rv_AdmissionFailed id
                 (admit_on_tx (show_uuid lib) (re_gate env) (case assignee of None \<Rightarrow> [] | Some p \<Rightarrow> [p]) s))) (\<lambda>_.
        Inr \<lparr>vp_digest = digest, vp_context = ctx, vp_source = source, vp_source_node = node, vp_node = n,
             vp_activates = activates, vp_assignee = assignee, vp_effect = effect\<rparr>))))))))))))))"

definition insert_override_visit ::
  "uuid \<Rightarrow> uuid \<Rightarrow> uuid \<Rightarrow> int \<Rightarrow> uuid option \<Rightarrow> store \<Rightarrow> (recovery_error, store) res" where
  "insert_override_visit vid inst node number assignee s =
     (if vid \<in> nv_id ` set (visits s) \<or>
         (inst, node, number) \<in> (\<lambda>v. (nv_instance v, nv_node v, nv_number v)) ` set (visits s)
      then Inl (Rv_StorageError ''duplicate key value violates unique constraint'')
      else Inr (s\<lparr>visits := visits s @
        [\<lparr>nv_id = vid, nv_instance = inst, nv_node = node, nv_number = number, nv_assignee = assignee,
          nv_entered_by = None\<rparr>]\<rparr>))"

definition override_activation ::
  "recovery_env \<Rightarrow> uuid \<Rightarrow> uuid \<Rightarrow> override_plan \<Rightarrow> store \<Rightarrow> (recovery_error, store) res" where
  "override_activation env cid inst pl s =
     (case (vp_activates pl, vp_assignee pl) of
        (True, Some owner) \<Rightarrow>
          andThen (ok_or (Rv_StorageError row_not_found) (find_principal owner s)) (\<lambda>p.
          map_sum (\<lambda>e. Rv_StorageError (event_failure e)) id
            (insert_activation (re_now env) (re_activation env) inst (re_visit env)
               (if pr_type p = ''AGENT'' then DispatchIntent else HumanWorkItem) owner cid s))
      | _ \<Rightarrow> Inr s)"

definition reference_json :: "related_reference \<Rightarrow> json" where
  "reference_json r = JObject [(''resourceId'', JString (rr_id r)), (''resourceType'', JString (rr_type r))]"

definition override_event_data :: "override_command \<Rightarrow> string \<Rightarrow> json" where
  "override_event_data cmd digest =
     JObject [(''beforeSnapshotDigest'', JString digest),
              (''operation'', JString (admin_operation_to_string (oo_operation cmd))),
              (''reason'', JString (oo_reason cmd)),
              (''relatedReferences'', JArray (map reference_json (oo_references cmd)))]"

text \<open>The writes after the source activation is closed: visit, activation, projection, event.\<close>

definition override_facts ::
  "recovery_env \<Rightarrow> override_command \<Rightarrow> uuid \<Rightarrow> recovery_instance \<Rightarrow> override_plan \<Rightarrow> int \<Rightarrow> store \<Rightarrow> (recovery_error, store) res" where
  "override_facts env cmd cid w pl number s =
     (let inst = ri_id w; new = ri_state w + 1;
          data = override_event_data cmd (vp_digest pl) in
      andThen (insert_override_visit (re_visit env) inst (nr_id (vp_node pl)) number (vp_assignee pl) s) (\<lambda>s1.
      andThen (override_activation env cid inst pl s1) (\<lambda>s2.
      let hit = (\<lambda>x. wi_id x = inst \<and> wi_state_version x = ri_state w \<and> wi_current_visit x = Some (vp_source pl)) in
      andThen (guard_r (length (filter hit (instances s2)) = 1)
                 (Rv_InternalConsistency ''override projection update affected an unexpected row count'')) (\<lambda>_.
      let s3 = s2\<lparr>instances := map (\<lambda>x. if hit x
                  then x\<lparr>wi_current_visit := Some (re_visit env), wi_state_version := new\<rparr> else x) (instances s2)\<rparr> in
      andThen (map_sum Rv_StorageError id (json_digest (re_lib env) data)) (\<lambda>d.
      map_sum (\<lambda>e. Rv_StorageError (event_failure e)) id
        (append_event
           \<lparr>ev_id = re_event env, ev_instance = inst, ev_sequence = new, ev_command = cid,
            ev_type = ''ADMIN_EMERGENCY_OVERRIDE_COMMITTED'', ev_effect = Some (vp_effect pl),
            ev_source_visit = Some (vp_source pl), ev_target_visit = Some (re_visit env), ev_context = Some (vp_context pl),
            ev_submission = None, ev_data = data, ev_digest = d, ev_actor = oo_principal cmd,
            ev_from = Some (vp_source_node pl), ev_to = Some (nr_id (vp_node pl)),
            ev_old = ri_state w, ev_new = new\<rparr> s3))))))"

text \<open>
  The source activation: when there is none to close, the failure is recorded on top of the void of the
  open cases, which has been written already.
\<close>

definition override_closed ::
  "recovery_env \<Rightarrow> override_command \<Rightarrow> uuid \<Rightarrow> recovery_instance \<Rightarrow> override_plan \<Rightarrow> admin_state \<Rightarrow> (recovery_stop, store) res" where
  "override_closed env cmd cid w pl a =
     (let s1 = void_open_cases (re_now env) (ri_id w) (oo_principal cmd) cid ''ADMIN_EMERGENCY_OVERRIDE'' (am_store a) in
      if \<not> vp_activates pl then Inr s1
      else (let (closed, s2) = close_activation_by_visit_required (re_now env) (ri_id w) (vp_source pl)
                (case oo_operation cmd of MoveToNode \<Rightarrow> ''ADMIN_MOVE'' | TerminateInstance \<Rightarrow> ''ADMIN_TERMINATE'') cid None s1
            in if closed then Inr s2
               else Inl (Recorded (invalid ''VISIT_ACTIVATION_V1 source visit has no active activation to close'')
                           (a\<lparr>am_store := s2\<rparr>))))"

definition override_owned ::
  "recovery_env \<Rightarrow> override_command \<Rightarrow> uuid \<Rightarrow> recovery_instance \<Rightarrow> version_row \<Rightarrow> admin_state \<Rightarrow>
     (recovery_stop, override_result \<times> admin_state) res" where
  "override_owned env cmd cid w ver a =
     (let lib = re_lib env in
      andThen (override_checked env cmd w ver a) (\<lambda>pl.
      let number = next_visit_number (ri_id w) (nr_id (vp_node pl)) (am_store a); new = ri_state w + 1 in
      andThen (record_at a (guard_r (number < 2 ^ 31) (Rv_InternalConsistency ''node visit number overflow''))) (\<lambda>_.
      andThen (record_at a (guard_r (new < 2 ^ 31) (Rv_InternalConsistency ''workflow state version overflow''))) (\<lambda>_.
      andThen (override_closed env cmd cid w pl a) (\<lambda>s1.
      andThen (roll_back (override_facts env cmd cid w pl number s1)) (\<lambda>s2.
      andThen (roll_back (snapshot_digest lib w (row_projection w))) (\<lambda>digest.
      let r = \<lparr>ow_command = cid, ow_instance = ri_id w, ow_source = vp_source pl, ow_current = re_visit env,
               ow_version = new, ow_sequence = new, ow_digest = digest, ow_replayed = False\<rparr> in
      andThen (roll_back (recovery_complete lib cid 200 (override_body lib r) (a\<lparr>am_store := s2\<rparr>))) (\<lambda>a1.
      andThen (roll_back (write_security env (oo_principal cmd) ''ADMIN_EMERGENCY_OVERRIDE_COMMITTED'' (ri_id w)
                 (JObject [(''beforeSnapshotDigest'', JString digest), (''commandId'', uuid_json lib cid),
                           (''operation'', JString (admin_operation_to_string (oo_operation cmd)))]) a1)) (\<lambda>a2.
      andThen (roll_back (map_sum Rv_AdmissionFailed id (check_commit_budget (re_gate env)))) (\<lambda>_.
        Inr (r, a2)))))))))))"

definition admin_emergency_override ::
  "recovery_env \<Rightarrow> override_command \<Rightarrow> string \<Rightarrow> admin_state \<Rightarrow> (recovery_error, override_result) res \<times> admin_state" where
  "admin_emergency_override env cmd hash a0 =
     (let actor = oo_principal cmd; key = oo_key cmd; inst = oo_instance cmd; refused = ''ADMIN_EMERGENCY_OVERRIDE_REJECTED'' in
      case recovery_acquire ''ADMIN_EMERGENCY_OVERRIDE'' (re_command env) actor key hash (am_store a0) of
        Inl e \<Rightarrow> (Inl e, a0)
      | Inr (acq, s1) \<Rightarrow>
          (let a1 = a0\<lparr>am_store := s1\<rparr> in
           case lock_instance (re_columns env) inst s1 of
             Inl _ \<Rightarrow> deny_access env refused acq actor key hash inst Rv_PermissionDenied a0 a1
           | Inr w \<Rightarrow>
               (case lock_definition_version (ri_version w) s1 of
                  Inl e \<Rightarrow> (Inl e, a0)
                | Inr ver \<Rightarrow>
                    (case admin_access actor (ri_domain w) s1 of
                       Inl e \<Rightarrow> deny_access env refused acq actor key hash inst e a0 a1
                     | Inr _ \<Rightarrow>
                         (case acq of
                            Acq_Replay cid status body \<Rightarrow> settle env (override_replay (re_lib env) cid status body) a0 a1
                          | Acq_Owned cid \<Rightarrow>
                              (case override_owned env cmd cid w ver a1 of
                                 Inl (Recorded e a) \<Rightarrow> commit_failure env refused cid actor key hash inst e a0 a
                               | Inl (Rolled_Back e) \<Rightarrow> (Inl e, a0)
                               | Inr (r, a2) \<Rightarrow> settle env (Inr r) a0 a2)
                          | _ \<Rightarrow> conflict_or_processing env acq actor key hash a0 a1)))))"

end
