(* ===== verification/Replay_Facts.thy ===== *)
theory Replay_Facts
  imports Admin_Recovery Command_Facts
begin

text \<open>
  What the replay keeps: the facts it was started on, and that more visit facts or another projection of the same
  instance do not disturb a log that replays.
\<close>

section \<open>More facts\<close>

definition same_identity :: "recovery_instance \<Rightarrow> recovery_instance \<Rightarrow> bool" where
  "same_identity w w' \<longleftrightarrow>
     ri_id w' = ri_id w \<and> ri_domain w' = ri_domain w \<and> ri_version w' = ri_version w \<and> ri_creator w' = ri_creator w \<and>
     ri_creator_type w' = ri_creator_type w \<and> ri_reference w' = ri_reference w"

definition extended :: "recovery_instance \<Rightarrow> visit_fact list \<Rightarrow> replay \<Rightarrow> replay" where
  "extended w' xs r = r\<lparr>rp_instance := w', rp_visits := rp_visits r @ xs\<rparr>"

definition fresh_facts :: "visit_fact list \<Rightarrow> visit_fact list \<Rightarrow> bool" where
  "fresh_facts xs vs \<longleftrightarrow> set (map vf_id xs) \<inter> set (map vf_id vs) = {}"

lemma extend_simps [simp]:
  "rp_instance (extended w' xs r) = w'" "rp_visits (extended w' xs r) = rp_visits r @ xs"
  "rp_definition_digest (extended w' xs r) = rp_definition_digest r" "rp_contexts (extended w' xs r) = rp_contexts r"
  "rp_submissions (extended w' xs r) = rp_submissions r" "rp_transitions (extended w' xs r) = rp_transitions r"
  "rp_introduced_contexts (extended w' xs r) = rp_introduced_contexts r"
  "rp_introduced_visits (extended w' xs r) = rp_introduced_visits r"
  "rp_introduced_submissions (extended w' xs r) = rp_introduced_submissions r" "rp_counts (extended w' xs r) = rp_counts r"
  "rp_context (extended w' xs r) = rp_context r" "rp_visit (extended w' xs r) = rp_visit r"
  "rp_version (extended w' xs r) = rp_version r" "rp_cases (extended w' xs r) = rp_cases r"
  "rp_bindings (extended w' xs r) = rp_bindings r"
  by (simp_all add: extended_def)

lemma extend_update [simp]:
  "(extended w' xs r)\<lparr>rp_visit := x\<rparr> = extended w' xs (r\<lparr>rp_visit := x\<rparr>)"
  "(extended w' xs r)\<lparr>rp_context := x\<rparr> = extended w' xs (r\<lparr>rp_context := x\<rparr>)"
  "(extended w' xs r)\<lparr>rp_version := y\<rparr> = extended w' xs (r\<lparr>rp_version := y\<rparr>)"
  "(extended w' xs r)\<lparr>rp_cases := z\<rparr> = extended w' xs (r\<lparr>rp_cases := z\<rparr>)"
  "(extended w' xs r)\<lparr>rp_bindings := b\<rparr> = extended w' xs (r\<lparr>rp_bindings := b\<rparr>)"
  "(extended w' xs r)\<lparr>rp_introduced_visits := l\<rparr> = extended w' xs (r\<lparr>rp_introduced_visits := l\<rparr>)"
  "(extended w' xs r)\<lparr>rp_introduced_contexts := l\<rparr> = extended w' xs (r\<lparr>rp_introduced_contexts := l\<rparr>)"
  "(extended w' xs r)\<lparr>rp_introduced_submissions := l\<rparr> = extended w' xs (r\<lparr>rp_introduced_submissions := l\<rparr>)"
  "(extended w' xs r)\<lparr>rp_counts := c\<rparr> = extended w' xs (r\<lparr>rp_counts := c\<rparr>)"
  by (simp_all add: extended_def)

lemma hm_find_Some: "hm_find key i fs = Some f \<Longrightarrow> f \<in> set fs \<and> key f = i"
  unfolding hm_find_def by (metis (mono_tags, lifting) find_Some_iff nth_mem set_rev)

lemma hm_find_append: "hm_find key i fs = Some f \<Longrightarrow> i \<notin> set (map key xs) \<Longrightarrow> hm_find key i (fs @ xs) = Some f"
proof (induction xs rule: rev_induct)
  case (snoc x xs)
  then show ?case by (auto simp: hm_find_def)
qed simp

lemma replay_visit_extend:
  assumes "replay_visit i r = Inr v" and "fresh_facts xs (rp_visits r)"
  shows "replay_visit i (extended w' xs r) = Inr v"
proof -
  from assms(1) obtain j where j: "i = Some j" "hm_find vf_id j (rp_visits r) = Some v"
    by (auto simp: replay_visit_def result_simps bind_eq_Some_conv)
  with hm_find_Some [OF j(2)] assms(2) have "j \<notin> set (map vf_id xs)" by (auto simp: fresh_facts_def)
  with j show ?thesis by (simp add: replay_visit_def hm_find_append)
qed

lemma introduce_extend:
  "introduce_visit v (extended w' xs r) = map_sum id (extended w' xs) (introduce_visit v r)"
  "introduce_context c (extended w' xs r) = map_sum id (extended w' xs) (introduce_context c r)"
  "introduce_submission b (extended w' xs r) = map_sum id (extended w' xs) (introduce_submission b r)"
  by (simp_all add: introduce_visit_def introduce_context_def introduce_submission_def Let_def)

lemma open_extend [simp]: "visit_has_open_assistance v (extended w' xs r) = visit_has_open_assistance v r"
  by (simp add: visit_has_open_assistance_def)

lemma unchanged_extend [simp]:
  "replay_context i (extended w' xs r) = replay_context i r"
  "assistance_gate m (extended w' xs r) = assistance_gate m r"
  "replay_projection (extended w' xs r) = replay_projection r"
  by (simp_all add: replay_context_def assistance_gate_def replay_projection_def split: option.split)

lemma snapshot_identity: "same_identity w w' \<Longrightarrow> snapshot_digest lib w' p = snapshot_digest lib w p"
  by (simp add: snapshot_digest_def snapshot_json_def same_identity_def)

lemma import_identity: "same_identity w w' \<Longrightarrow> validate_import lib tt d e w' c v = validate_import lib tt d e w c v"
  by (simp add: validate_import_def same_identity_def)

section \<open>What an event leaves alone\<close>

definition same_facts :: "replay \<Rightarrow> replay \<Rightarrow> bool" where
  "same_facts r r' \<longleftrightarrow>
     rp_instance r' = rp_instance r \<and> rp_definition_digest r' = rp_definition_digest r \<and>
     rp_contexts r' = rp_contexts r \<and> rp_visits r' = rp_visits r \<and> rp_submissions r' = rp_submissions r \<and>
     rp_transitions r' = rp_transitions r"

lemma introduce_same_facts:
  "introduce_visit v r = Inr r' \<Longrightarrow> same_facts r r'"
  "introduce_context c r = Inr r' \<Longrightarrow> same_facts r r'"
  "introduce_submission b r = Inr r' \<Longrightarrow> same_facts r r'"
  by (auto simp: introduce_visit_def introduce_context_def introduce_submission_def same_facts_def Let_def
      split: if_splits)

lemma same_facts_trans: "same_facts a b \<Longrightarrow> same_facts b c \<Longrightarrow> same_facts a c"
  by (simp add: same_facts_def)

lemma same_facts_update:
  "same_facts r (r'\<lparr>rp_visit := x\<rparr>) = same_facts r r'" "same_facts r (r'\<lparr>rp_context := x\<rparr>) = same_facts r r'"
  "same_facts r (r'\<lparr>rp_version := y\<rparr>) = same_facts r r'" "same_facts r (r'\<lparr>rp_cases := z\<rparr>) = same_facts r r'"
  "same_facts r (r'\<lparr>rp_bindings := b\<rparr>) = same_facts r r'" "same_facts r r"
  by (simp_all add: same_facts_def)

lemmas same_facts_intros = same_facts_trans same_facts_update introduce_same_facts

lemma apply_initial_same: "apply_initial lib tt e r = Inr r' \<Longrightarrow> same_facts r r'"
  by (auto simp: apply_initial_def result_simps Let_def same_facts_update dest!: introduce_same_facts)
     (blast intro: same_facts_trans)+

lemma apply_context_same: "apply_context_revision lib e r = Inr r' \<Longrightarrow> same_facts r r'"
  by (auto simp: apply_context_revision_def result_simps same_facts_update dest!: introduce_same_facts)

lemma submission_same: "transition_submission e d t r = Inr r' \<Longrightarrow> same_facts r r'"
  by (auto simp: transition_submission_def result_simps same_facts_update dest!: introduce_same_facts
      split: option.splits if_splits)

lemma apply_transition_same: "apply_transition lib e r = Inr r' \<Longrightarrow> same_facts r r'"
  by (auto simp: apply_transition_def result_simps same_facts_update dest!: introduce_same_facts submission_same)
     (blast intro: same_facts_trans)

lemma apply_combined_same: "apply_combined lib e r = Inr r' \<Longrightarrow> same_facts r r'"
  by (auto simp: apply_combined_def result_simps same_facts_update dest!: introduce_same_facts)
     (blast intro: same_facts_trans)

lemma apply_admin_same: "apply_admin lib e r = Inr r' \<Longrightarrow> same_facts r r'"
  by (auto simp: apply_admin_def result_simps same_facts_update dest!: introduce_same_facts)

lemma apply_fleet_same: "apply_fleet_successor lib tt e r = Inr r' \<Longrightarrow> same_facts r r'"
  by (auto simp: apply_fleet_successor_def result_simps Let_def same_facts_update dest!: introduce_same_facts)

lemma apply_assistance_same: "apply_assistance lib e r = Inr r' \<Longrightarrow> same_facts r r'"
  by (auto simp: apply_assistance_def move_case_def result_simps Let_def same_facts_update split: if_splits)

lemma apply_by_type_same: "apply_by_type lib tt e r = Inr r' \<Longrightarrow> same_facts r r'"
  by (auto simp: apply_by_type_def Let_def split: if_splits
      dest: apply_initial_same apply_context_same apply_transition_same apply_combined_same apply_admin_same
        apply_fleet_same apply_assistance_same)

section \<open>A log that replays still replays\<close>

lemma apply_initial_extended:
  assumes "fresh_facts xs (rp_visits r)" and "same_identity (rp_instance r) w'" and "apply_initial lib tt e r = Inr r'"
  shows "apply_initial lib tt e (extended w' xs r) = Inr (extended w' xs r')"
  using assms(2,3)
  by (auto simp: apply_initial_def result_simps Let_def introduce_extend replay_visit_extend [OF _ assms(1)]
      import_identity [OF assms(2)] same_identity_def split: if_splits)

lemma apply_context_extended:
  assumes "fresh_facts xs (rp_visits r)" and "apply_context_revision lib e r = Inr r'"
  shows "apply_context_revision lib e (extended w' xs r) = Inr (extended w' xs r')"
  using assms(2)
  by (auto simp: apply_context_revision_def result_simps introduce_extend replay_visit_extend [OF _ assms(1)])

lemma transition_and_visits_extended:
  assumes "fresh_facts xs (rp_visits r)" and "transition_and_visits lib e d r = Inr x"
  shows "transition_and_visits lib e d (extended w' xs r) = Inr x"
  using assms(2) by (auto simp: transition_and_visits_def result_simps replay_visit_extend [OF _ assms(1)])

lemma transition_submission_extended:
  "transition_submission e d t (extended w' xs r) = map_sum id (extended w' xs) (transition_submission e d t r)"
  by (simp add: transition_submission_def introduce_extend andThen_def guard_r_def ok_or_def split: option.split sum.split)

lemma apply_transition_extended:
  assumes "fresh_facts xs (rp_visits r)" and "apply_transition lib e r = Inr r'"
  shows "apply_transition lib e (extended w' xs r) = Inr (extended w' xs r')"
  using assms(2)
  by (auto simp: apply_transition_def result_simps introduce_extend transition_and_visits_extended [OF assms(1)]
      transition_submission_extended)

lemma apply_combined_extended:
  assumes "fresh_facts xs (rp_visits r)" and "apply_combined lib e r = Inr r'"
  shows "apply_combined lib e (extended w' xs r) = Inr (extended w' xs r')"
  using assms(2)
  by (auto simp: apply_combined_def result_simps introduce_extend transition_and_visits_extended [OF assms(1)])

lemma apply_admin_extended:
  assumes "fresh_facts xs (rp_visits r)" and "same_identity (rp_instance r) w'" and "apply_admin lib e r = Inr r'"
  shows "apply_admin lib e (extended w' xs r) = Inr (extended w' xs r')"
  using assms(3)
  by (auto simp: apply_admin_def result_simps introduce_extend replay_visit_extend [OF _ assms(1)]
      snapshot_identity [OF assms(2)])

lemma apply_fleet_extended:
  assumes "fresh_facts xs (rp_visits r)" and "same_identity (rp_instance r) w'"
    and "apply_fleet_successor lib tt e r = Inr r'"
  shows "apply_fleet_successor lib tt e (extended w' xs r) = Inr (extended w' xs r')"
proof -
  have valid: "fleet_event_valid lib tt e d (extended w' xs r) p i j v v' b = fleet_event_valid lib tt e d r p i j v v' b"
    for d p i j v v' b using assms(2) by (simp add: fleet_event_valid_def same_identity_def)
  show ?thesis
    using assms(3)
    unfolding apply_fleet_successor_def Let_def andThen_eq_Inr guard_r_eq_Inr ok_or_eq_Inr
    apply (elim exE conjE)
    apply (intro exI conjI; (assumption | rule replay_visit_extend [OF _ assms(1)])?)
    apply (auto simp: introduce_extend valid snapshot_identity [OF assms(2)])
    done
qed

lemma apply_assistance_extended:
  assumes "fresh_facts xs (rp_visits r)" and "apply_assistance lib e r = Inr r'"
  shows "apply_assistance lib e (extended w' xs r) = Inr (extended w' xs r')"
proof -
  have move: "move_case lib e d c v (extended w' xs r) = map_sum id (extended w' xs) (move_case lib e d c v r)" for d c v
    by (simp add: move_case_def Let_def andThen_def guard_r_def ok_or_def split: option.split sum.split prod.split)
  show ?thesis
    using assms(2)
    by (auto simp: apply_assistance_def result_simps move replay_visit_extend [OF _ assms(1)])
qed

lemma apply_event_extended:
  assumes "fresh_facts xs (rp_visits r)" and "same_identity (rp_instance r) w'" and "apply_event lib tt e n r = Inr r'"
  shows "apply_event lib tt e n (extended w' xs r) = Inr (extended w' xs r')"
proof -
  obtain r1 where r1: "apply_by_type lib tt e r = Inr r1" "r' = r1\<lparr>rp_version := n\<rparr>"
    and ok: "ef_instance e = ri_id (rp_instance r)" "ef_sequence e = n" "ef_schema e = ''v1''" "ef_old e = rp_version r" "ef_new e = n"
    using assms(3) by (auto simp: apply_event_def result_simps)
  have "apply_by_type lib tt e (extended w' xs r) = Inr (extended w' xs r1)"
    using r1(1) apply_initial_extended [OF assms(1,2)] apply_context_extended [OF assms(1)]
      apply_transition_extended [OF assms(1)] apply_combined_extended [OF assms(1)] apply_admin_extended [OF assms(1,2)]
      apply_fleet_extended [OF assms(1,2)] apply_assistance_extended [OF assms(1)]
    by (auto simp: apply_by_type_def Let_def split: if_split_asm)
  with r1(2) ok assms(2) show ?thesis by (simp add: apply_event_def same_identity_def guard_r_def)
qed

lemma apply_event_same: "apply_event lib tt e n r = Inr r' \<Longrightarrow> same_facts r r'"
  by (auto simp: apply_event_def result_simps same_facts_update dest: apply_by_type_same)

lemma apply_events_same: "apply_events lib tt n es r = Inr r' \<Longrightarrow> same_facts r r'"
  by (induction es arbitrary: n r)
     (auto simp: result_simps same_facts_update split: if_splits dest!: apply_event_same intro: same_facts_trans)

lemma apply_events_extended:
  assumes "apply_events lib tt n es r = Inr r'" and "fresh_facts xs (rp_visits r)" and "same_identity (rp_instance r) w'"
  shows "apply_events lib tt n es (extended w' xs r) = Inr (extended w' xs r')"
  using assms
proof (induction es arbitrary: n r)
  case (Cons e es)
  from Cons.prems(1) obtain r1 where n: "n + 1 < 2 ^ 31" and r1: "apply_event lib tt e (n + 1) r = Inr r1"
    "apply_events lib tt (n + 1) es r1 = Inr r'" by (auto simp: result_simps split: if_splits)
  have "rp_visits r1 = rp_visits r" "rp_instance r1 = rp_instance r"
    using apply_event_same [OF r1(1)] by (simp_all add: same_facts_def)
  with Cons.IH [OF r1(2)] Cons.prems(2,3) n apply_event_extended [OF Cons.prems(2,3) r1(1)] show ?case by simp
qed simp

lemma andThen_assoc: "andThen (andThen x f) g = andThen x (\<lambda>a. andThen (f a) g)"
  by (cases x) simp_all

lemma apply_events_append:
  "apply_events lib tt n (es @ fs) r =
   andThen (apply_events lib tt n es r) (apply_events lib tt (n + int (length es)) fs)"
proof (induction es arbitrary: n r)
  case (Cons e es)
  have "apply_events lib tt (n + 1) (es @ fs) =
      (\<lambda>a. andThen (apply_events lib tt (n + 1) es a) (apply_events lib tt (n + int (length (e # es))) fs))"
    by (rule ext) (simp add: Cons.IH add.assoc)
  then show ?case by (simp add: andThen_assoc)
qed simp

section \<open>What a replayed log has introduced\<close>

text \<open>
  The visits of a node are introduced in the order of their numbers; the current visit and context are among the
  facts; the version counts the events.
\<close>

definition replay_wf :: "replay \<Rightarrow> bool" where
  "replay_wf r \<longleftrightarrow>
     distinct (rp_introduced_visits r) \<and> set (rp_introduced_visits r) \<subseteq> set (map vf_id (rp_visits r)) \<and>
     (\<forall>n. 0 \<le> rp_counts r n \<and>
        vf_number ` {v \<in> set (rp_visits r). vf_id v \<in> set (rp_introduced_visits r) \<and> vf_node v = n} = {1..rp_counts r n}) \<and>
     (\<forall>v. rp_visit r = Some v \<longrightarrow> v \<in> set (rp_introduced_visits r)) \<and>
     (rp_visit r = None \<longleftrightarrow> rp_context r = None)"

lemma replay_wf_new: "replay_wf (new_replay w dd cs vs bs ts)"
  by (simp add: replay_wf_def new_replay_def)

lemma introduce_visit_wf:
  assumes "introduce_visit v r = Inr r'" and "replay_wf r" and "v \<in> set (rp_visits r)" and "distinct (map vf_id (rp_visits r))"
  shows "replay_wf r' \<and> vf_id v \<in> set (rp_introduced_visits r') \<and> rp_visit r' = rp_visit r \<and> rp_context r' = rp_context r"
proof -
  have new: "vf_id v \<notin> set (rp_introduced_visits r)" and num: "vf_number v = rp_counts r (vf_node v) + 1"
    and r': "r' = r\<lparr>rp_introduced_visits := rp_introduced_visits r @ [vf_id v],
               rp_counts := (rp_counts r)(vf_node v := rp_counts r (vf_node v) + 1)\<rparr>"
    using assms(1) by (auto simp: introduce_visit_def Let_def split: if_splits)
  have only: "x = v" if "x \<in> set (rp_visits r)" "vf_id x = vf_id v" for x
    using that assms(3,4) by (auto simp: distinct_map inj_on_def)
  let ?at = "\<lambda>n. {x \<in> set (rp_visits r). vf_id x \<in> set (rp_introduced_visits r) \<and> vf_node x = n}"
  have "{x \<in> set (rp_visits r'). vf_id x \<in> set (rp_introduced_visits r') \<and> vf_node x = n} =
      (if n = vf_node v then insert v (?at n) else ?at n)" for n
    using r' only assms(3) by auto
  moreover have "0 \<le> rp_counts r n" "vf_number ` ?at n = {1..rp_counts r n}" for n using assms(2) by (auto simp: replay_wf_def)
  moreover have "insert (k + 1) {1..k} = {1..k + 1}" if "0 \<le> k" for k :: int using that by auto
  ultimately have "0 \<le> rp_counts r' n \<and>
      vf_number ` {x \<in> set (rp_visits r'). vf_id x \<in> set (rp_introduced_visits r') \<and> vf_node x = n} = {1..rp_counts r' n}" for n
    using num r' by (cases "n = vf_node v") simp_all
  then show ?thesis using assms(2,3) new r' by (auto simp: replay_wf_def)
qed

lemma replay_wf_update:
  "replay_wf (r\<lparr>rp_version := y\<rparr>) = replay_wf r" "replay_wf (r\<lparr>rp_cases := z\<rparr>) = replay_wf r"
  "replay_wf (r\<lparr>rp_bindings := b\<rparr>) = replay_wf r" "replay_wf (r\<lparr>rp_introduced_contexts := l\<rparr>) = replay_wf r"
  "replay_wf (r\<lparr>rp_introduced_submissions := l\<rparr>) = replay_wf r"
  by (simp_all add: replay_wf_def)

lemma introduce_other:
  "introduce_context c r = Inr r' \<Longrightarrow> replay_wf r' = replay_wf r \<and> rp_visits r' = rp_visits r \<and>
     rp_introduced_visits r' = rp_introduced_visits r \<and> rp_visit r' = rp_visit r \<and> rp_context r' = rp_context r"
  "introduce_submission b r = Inr r' \<Longrightarrow> replay_wf r' = replay_wf r \<and> rp_visits r' = rp_visits r \<and>
     rp_introduced_visits r' = rp_introduced_visits r \<and> rp_visit r' = rp_visit r \<and> rp_context r' = rp_context r"
  by (auto simp: introduce_context_def introduce_submission_def replay_wf_update split: if_splits)

lemma replay_visit_in: "replay_visit i r = Inr v \<Longrightarrow> v \<in> set (rp_visits r)"
  by (auto simp: replay_visit_def result_simps bind_eq_Some_conv dest: hm_find_Some)

lemma replay_wf_move:
  assumes "replay_wf r" and "v \<in> set (rp_introduced_visits r)"
  shows "replay_wf (r\<lparr>rp_context := Some c, rp_visit := Some v\<rparr>)"
    and "rp_context r \<noteq> None \<Longrightarrow> replay_wf (r\<lparr>rp_visit := Some v\<rparr>)"
  using assms by (simp_all add: replay_wf_def)

lemma replay_wf_context: "replay_wf r \<Longrightarrow> rp_visit r \<noteq> None \<Longrightarrow> replay_wf (r\<lparr>rp_context := Some c\<rparr>)"
  by (simp add: replay_wf_def)

lemma move_case_wf: "move_case lib e d c v r = Inr r' \<Longrightarrow> replay_wf r \<Longrightarrow> replay_wf r'"
  by (auto simp: move_case_def result_simps Let_def replay_wf_update split: if_splits)

lemma known_current:
  "replay_wf r \<Longrightarrow> rp_visit r = Some i \<Longrightarrow> rp_context r \<noteq> None"
  "replay_visit (ef_source e) r = Inr v \<Longrightarrow> ef_source e = rp_visit r \<Longrightarrow> replay_wf r \<Longrightarrow> rp_context r \<noteq> None"
  by (auto simp: replay_wf_def replay_visit_def result_simps bind_eq_Some_conv)

lemma apply_initial_wf:
  assumes "apply_initial lib tt e r = Inr r'" and "replay_wf r" and "distinct (map vf_id (rp_visits r))"
  shows "replay_wf r'"
proof -
  obtain c v r1 r2 where v: "replay_visit (ef_target e) r = Inr v" and r1: "introduce_context c r = Inr r1"
    and r2: "introduce_visit v r1 = Inr r2" and r': "r' = r2\<lparr>rp_context := Some (cf_id c), rp_visit := Some (vf_id v)\<rparr>"
    using assms(1) by (auto simp: apply_initial_def result_simps Let_def)
  from introduce_visit_wf [OF r2] introduce_other(1) [OF r1] replay_visit_in [OF v] assms(2,3) r' show ?thesis
    by (simp add: replay_wf_move)
qed

lemma apply_context_wf:
  assumes "apply_context_revision lib e r = Inr r'" and "replay_wf r"
  shows "replay_wf r'"
proof -
  obtain c v r1 where v: "replay_visit (ef_source e) r = Inr v" "ef_source e = rp_visit r" and r1: "introduce_context c r = Inr r1"
    and r': "r' = r1\<lparr>rp_context := Some (cf_id c)\<rparr>"
    using assms(1) by (auto simp: apply_context_revision_def result_simps)
  from v obtain x where "rp_visit r = Some x" by (auto simp: replay_visit_def result_simps bind_eq_Some_conv)
  then show ?thesis using introduce_other(1) [OF r1] assms(2) r' by (simp add: replay_wf_context)
qed

lemma transition_and_visits_target:
  "transition_and_visits lib e d r = Inr (s, t, x) \<Longrightarrow>
     t \<in> set (rp_visits r) \<and> replay_visit (ef_source e) r = Inr s \<and> ef_source e = rp_visit r"
  by (auto simp: transition_and_visits_def result_simps dest: replay_visit_in)

lemma submission_other:
  "transition_submission e d t r = Inr r' \<Longrightarrow> replay_wf r' = replay_wf r \<and> rp_visits r' = rp_visits r \<and>
     rp_introduced_visits r' = rp_introduced_visits r \<and> rp_visit r' = rp_visit r \<and> rp_context r' = rp_context r"
  by (auto simp: transition_submission_def result_simps split: option.splits if_splits dest: introduce_other)

lemma apply_transition_wf:
  assumes "apply_transition lib e r = Inr r'" and "replay_wf r" and "distinct (map vf_id (rp_visits r))"
  shows "replay_wf r'"
proof -
  obtain d s t x r1 r2 where tv: "transition_and_visits lib e d r = Inr (s, t, x)" and r1: "transition_submission e d x r = Inr r1"
    and r2: "introduce_visit t r1 = Inr r2" and r': "r' = r2\<lparr>rp_visit := Some (vf_id t)\<rparr>"
    using assms(1) by (auto simp: apply_transition_def result_simps)
  note target = transition_and_visits_target [OF tv]
  have "rp_context r \<noteq> None" using known_current(2) [OF _ _ assms(2)] target by blast
  with introduce_visit_wf [OF r2] submission_other [OF r1] target assms(2,3) r' show ?thesis
    by (simp add: replay_wf_move)
qed

lemma apply_combined_wf:
  assumes "apply_combined lib e r = Inr r'" and "replay_wf r" and "distinct (map vf_id (rp_visits r))"
  shows "replay_wf r'"
proof -
  obtain c b d s t x r1 r2 r3 where tv: "transition_and_visits lib e d r = Inr (s, t, x)" and r1: "introduce_context c r = Inr r1"
    and r2: "introduce_submission b r1 = Inr r2" and r3: "introduce_visit t r2 = Inr r3"
    and r': "r' = r3\<lparr>rp_context := Some (cf_id c), rp_visit := Some (vf_id t)\<rparr>"
    using assms(1) by (auto simp: apply_combined_def result_simps)
  from introduce_visit_wf [OF r3] introduce_other(1) [OF r1] introduce_other(2) [OF r2] transition_and_visits_target [OF tv]
    assms(2,3) r' show ?thesis
    by (simp add: replay_wf_move)
qed

lemma move_to_target_wf:
  assumes "introduce_visit t r = Inr r1" and "t \<in> set (rp_visits r)" and "replay_visit (ef_source e) r = Inr s"
    and "ef_source e = rp_visit r" and "replay_wf r" and "distinct (map vf_id (rp_visits r))"
  shows "replay_wf (r1\<lparr>rp_visit := Some (vf_id t)\<rparr>)"
  using introduce_visit_wf [OF assms(1,5,2,6)] known_current(2) [OF assms(3-5)] by (simp add: replay_wf_move)

lemma apply_admin_wf:
  assumes "apply_admin lib e r = Inr r'" and "replay_wf r" and "distinct (map vf_id (rp_visits r))"
  shows "replay_wf r'"
  using assms by (auto simp: apply_admin_def result_simps intro: move_to_target_wf replay_visit_in)

lemma apply_fleet_wf:
  assumes "apply_fleet_successor lib tt e r = Inr r'" and "replay_wf r" and "distinct (map vf_id (rp_visits r))"
  shows "replay_wf r'"
  using assms
  by (auto simp: apply_fleet_successor_def fleet_event_valid_def result_simps Let_def
      intro: move_to_target_wf replay_visit_in)

lemma move_case_visit: "move_case lib e d c v r = Inr r' \<Longrightarrow> rp_visit r' = rp_visit r"
  by (auto simp: move_case_def result_simps Let_def split: if_splits)

lemma apply_current:
  assumes "apply_by_type lib tt e r = Inr r'"
  shows "rp_visit r' \<noteq> None"
proof -
  have "rp_visit r' \<noteq> None" if "apply_context_revision lib e r = Inr r'"
    using that
    by (auto simp: apply_context_revision_def replay_visit_def introduce_context_def result_simps bind_eq_Some_conv split: if_splits)
  moreover have "rp_visit r' \<noteq> None" if "apply_assistance lib e r = Inr r'"
    using that by (auto simp: apply_assistance_def result_simps dest: move_case_visit)
  moreover have "rp_visit r' \<noteq> None" if "apply_initial lib tt e r = Inr r'"
    using that by (auto simp: apply_initial_def result_simps Let_def)
  moreover have "rp_visit r' \<noteq> None" if "apply_transition lib e r = Inr r' \<or> apply_combined lib e r = Inr r' \<or> apply_admin lib e r = Inr r'"
    using that by (auto simp: apply_transition_def apply_combined_def apply_admin_def result_simps)
  moreover have "rp_visit r' \<noteq> None" if "apply_fleet_successor lib tt e r = Inr r'"
    using that by (auto simp: apply_fleet_successor_def result_simps Let_def)
  ultimately show ?thesis
    using assms unfolding apply_by_type_def Let_def by (auto split: if_split_asm)
qed

lemma apply_event_wf:
  assumes "apply_event lib tt e n r = Inr r'" and "replay_wf r" and "distinct (map vf_id (rp_visits r))"
  shows "replay_wf r' \<and> rp_version r' = n \<and> rp_visit r' \<noteq> None"
proof -
  obtain r1 where r1: "apply_by_type lib tt e r = Inr r1" "r' = r1\<lparr>rp_version := n\<rparr>"
    using assms(1) by (auto simp: apply_event_def result_simps)
  have "replay_wf r1"
    using r1(1) assms(2,3)
    by (auto simp: apply_by_type_def Let_def apply_assistance_def result_simps split: if_split_asm
        dest: apply_initial_wf apply_context_wf apply_transition_wf apply_combined_wf apply_admin_wf apply_fleet_wf move_case_wf)
  moreover have "rp_visit r1 \<noteq> None" using apply_current [OF r1(1)] .
  ultimately show ?thesis using r1(2) by (simp add: replay_wf_update)
qed

text \<open>The event types a log may have to be replayed.\<close>

definition supported_types :: "string list" where
  "supported_types =
     [''INSTANCE_CREATED'', ''WORKFLOW_INSTANCE_CREATED'', ''WORKFLOW_INSTANCE_IMPORTED'', ''CONTEXT_REVISED'',
      ''WORKFLOW_CONTEXT_REVISED'', ''WORKFLOW_TRANSITION_COMMITTED'', ''WORKFLOW_CONTEXT_REVISED_AND_TRANSITION_COMMITTED'',
      ''ADMIN_EMERGENCY_OVERRIDE_COMMITTED'', ''PRINCIPAL_SUCCESSOR_MIGRATION_COMMITTED'', ''ASSISTANCE_REQUESTED'',
      ''ASSISTANCE_ESCALATED_TO_HUMAN'', ''ASSISTANCE_RESOLVED'', ''GOVERNANCE_CHILD_BOUND'']"

lemma apply_by_type_supported: "apply_by_type lib tt e r = Inr r' \<Longrightarrow> ef_type e \<in> set supported_types"
  unfolding apply_by_type_def Let_def supported_types_def by (auto split: if_split_asm)

definition replays_as :: "int \<Rightarrow> event_fact list \<Rightarrow> replay \<Rightarrow> replay \<Rightarrow> bool" where
  "replays_as n es r r' \<longleftrightarrow>
     replay_wf r' \<and> same_facts r r' \<and> (es \<noteq> [] \<longrightarrow> rp_version r' = n + int (length es) \<and> rp_visit r' \<noteq> None) \<and>
     (\<forall>i<length es. ef_sequence (es ! i) = n + int i + 1 \<and> ef_type (es ! i) \<in> set supported_types \<and>
        ef_instance (es ! i) = ri_id (rp_instance r))"

lemma apply_events_wf:
  assumes "apply_events lib tt n es r = Inr r'" and "replay_wf r" and "distinct (map vf_id (rp_visits r))"
  shows "replays_as n es r r'"
  using assms
proof (induction es arbitrary: n r)
  case (Cons e es)
  from Cons.prems(1) obtain r1 where r1: "apply_event lib tt e (n + 1) r = Inr r1"
    "apply_events lib tt (n + 1) es r1 = Inr r'" by (auto simp: result_simps split: if_splits)
  have e: "ef_sequence e = n + 1" "ef_type e \<in> set supported_types" "ef_instance e = ri_id (rp_instance r)"
    using r1(1) by (auto simp: apply_event_def result_simps dest: apply_by_type_supported)
  note w = apply_event_wf [OF r1(1) Cons.prems(2,3)] and f = apply_event_same [OF r1(1)]
  from f have "rp_visits r1 = rp_visits r" "rp_instance r1 = rp_instance r" by (simp_all add: same_facts_def)
  with Cons.IH [OF r1(2)] w Cons.prems(3) have ih: "replays_as (n + 1) es r1 r'" by simp
  show ?case
  proof (cases "es = []")
    case True
    with r1 w f e show ?thesis by (simp add: replays_as_def)
  next
    case False
    have "ef_sequence ((e # es) ! i) = n + int i + 1 \<and> ef_type ((e # es) ! i) \<in> set supported_types \<and>
        ef_instance ((e # es) ! i) = ri_id (rp_instance r)" if "i < length (e # es)" for i
      using that e ih \<open>rp_instance r1 = rp_instance r\<close> by (cases i) (auto simp: replays_as_def)
    with ih False same_facts_trans [OF f] show ?thesis by (simp add: replays_as_def)
  qed
qed (simp add: replays_as_def same_facts_def)

end
