(* ===== verification/Recovery_Effects.thy ===== *)
theory Recovery_Effects
  imports Replay_Facts Lifecycle_Facts
begin

text \<open>
  Reconstruction of one store carried over to another: what the loaded facts must have in common, and the loads
  after a visit or an event is appended.
\<close>

section \<open>Reconstruction carried over\<close>

lemma each_fact_append: "each_fact f (xs @ ys) = andThen (each_fact f xs) (\<lambda>_. each_fact f ys)"
  by (induction xs) (simp_all add: andThen_assoc)

lemma each_fact_Inr: "each_fact f xs = Inr () \<longleftrightarrow> (\<forall>x\<in>set xs. f x = Inr ())"
  by (induction xs) (auto simp: result_simps)

lemma context_chain_identity:
  "same_identity w w' \<Longrightarrow> context_chain lib w' n p cs = context_chain lib w n p cs"
  by (induction lib w n p cs rule: context_chain.induct) (simp_all add: same_identity_def andThen_def split: sum.split)

lemma validate_contexts_identity: "same_identity w w' \<Longrightarrow> validate_contexts lib w' cs = validate_contexts lib w cs"
  by (simp add: validate_contexts_def context_chain_identity)

lemma validate_visits_extended:
  assumes "validate_visits w vs ts = Inr ()" and "same_identity w w'" and "each_fact (validate_visit w ts) xs = Inr ()"
  shows "validate_visits w' (vs @ xs) ts = Inr ()"
proof -
  have "validate_visit w' ts = validate_visit w ts" using assms(2)
    by (simp add: validate_visit_def same_identity_def fun_eq_iff cong: option.case_cong)
  with assms(1,3) show ?thesis by (auto simp: validate_visits_def each_fact_append split: if_splits)
qed

lemma validate_submissions_extended:
  assumes "validate_submissions lib w cs vs bs ts = Inr ()" and "same_identity w w'" and "fresh_facts xs vs"
  shows "validate_submissions lib w' cs (vs @ xs) bs ts = Inr ()"
proof -
  have "validate_submission lib w' cs (vs @ xs) ts b = Inr ()" if "validate_submission lib w cs vs ts b = Inr ()" for b
  proof -
    from that obtain v where "hm_find vf_id (sf_source b) vs = Some v"
      by (cases "hm_find vf_id (sf_source b) vs") (auto simp: validate_submission_def Let_def result_simps)
    moreover from this have "sf_source b \<notin> set (map vf_id xs)" using assms(3) hm_find_Some by (fastforce simp: fresh_facts_def)
    ultimately show ?thesis
      using that assms(2) by (simp add: validate_submission_def Let_def hm_find_append same_identity_def)
  qed
  with assms(1) show ?thesis by (auto simp: validate_submissions_def each_fact_Inr)
qed

definition import_type :: string where "import_type = ''IMPORT_LEGACY_WORKFLOW_INSTANCE''"

definition keeps_imports :: "store \<Rightarrow> store \<Rightarrow> bool" where
  "keeps_imports s s' \<longleftrightarrow>
     (\<forall>c r. find (\<lambda>r. rc_command r = c) (receipts s) = Some r \<and> rc_type r = import_type \<longrightarrow>
            find (\<lambda>r. rc_command r = c) (receipts s') = Some r)"

lemma receipt_linkage_kept:
  assumes "validate_receipt_linkage lib e w c v s = Inr ()" and "same_identity w w'" and "keeps_imports s s'"
  shows "validate_receipt_linkage lib e w' c v s' = Inr ()"
proof -
  from assms(1) obtain cid r where r: "ef_command e = Some cid" "find (\<lambda>r. rc_command r = cid) (receipts s) = Some r"
    "rc_type r = import_type"
    by (auto simp: validate_receipt_linkage_def validate_success_def import_type_def result_simps map_sum_eq_Inr)
  then have "find (\<lambda>r. rc_command r = cid) (receipts s') = Some r" using assms(3) by (auto simp: keeps_imports_def)
  with r assms(1,2) show ?thesis by (simp add: validate_receipt_linkage_def same_identity_def)
qed

lemma import_anchor_kept:
  assumes "import_anchor lib w cs vs es s = Inr ()" and "es \<noteq> []" and "same_identity w w'" and "keeps_imports s s'"
  shows "import_anchor lib w' cs (vs @ xs) (es @ fs) s' = Inr ()"
proof (cases es)
  case (Cons e es')
  show ?thesis
  proof (cases "ef_type e = ''WORKFLOW_INSTANCE_IMPORTED''")
    case True
    with assms(1) Cons obtain c v where cv: "find (\<lambda>c. Some (cf_id c) = ef_context e) cs = Some c"
      "find (\<lambda>v. Some (vf_id v) = ef_target e) vs = Some v" "validate_receipt_linkage lib e w c v s = Inr ()"
      by (auto simp: import_anchor_def result_simps)
    moreover from cv(2) have "find (\<lambda>v. Some (vf_id v) = ef_target e) (vs @ xs) = Some v"
      by (simp add: find_append)
    ultimately show ?thesis
      using Cons True receipt_linkage_kept [OF cv(3) assms(3,4)] by (simp add: import_anchor_def)
  qed (use Cons in \<open>simp add: import_anchor_def\<close>)
qed (use assms(2) in simp)

lemma new_replay_extended: "new_replay w' dd cs (vs @ xs) bs ts = extended w' xs (new_replay w dd cs vs bs ts)"
  by (simp add: new_replay_def extended_def)

text \<open>The facts of the second store: those of the first, more visits and more events.\<close>

definition facts_extended ::
  "uuid \<Rightarrow> uuid \<Rightarrow> visit_fact list \<Rightarrow> event_fact list \<Rightarrow> store \<Rightarrow> store \<Rightarrow> bool" where
  "facts_extended i v xs fs s s' \<longleftrightarrow>
     load_contexts i s' = load_contexts i s \<and> load_submissions i s' = load_submissions i s \<and>
     load_transitions v s' = load_transitions v s \<and> load_visits i s' = load_visits i s @ xs \<and>
     load_events i s' = load_events i s @ fs \<and> keeps_imports s s'"

definition old_replay ::
  "library \<Rightarrow> time_text \<Rightarrow> recovery_columns \<Rightarrow> recovery_instance \<Rightarrow> store \<Rightarrow> replay \<Rightarrow> bool" where
  "old_replay lib tt cols w s r \<longleftrightarrow>
     apply_events lib tt 0 (load_events (ri_id w) s)
       (new_replay w (rk_definition_digest cols (ri_version w)) (load_contexts (ri_id w) s) (load_visits (ri_id w) s)
          (load_submissions (ri_id w) s) (load_transitions (ri_version w) s)) = Inr r"

lemma reconstructed_replay:
  assumes "reconstruct_projection lib tt cols w s = Inr p"
  obtains r where "old_replay lib tt cols w s r" and "finish_replay r = Inr p" and "load_events (ri_id w) s \<noteq> []"
  using assms that
  by (auto simp: reconstruct_projection_def replay_log_def old_replay_def Let_def result_simps split: if_splits)

lemma reconstruct_extended:
  assumes "reconstruct_projection lib tt cols w s = Inr p" and "same_identity w w'"
    and "facts_extended (ri_id w) (ri_version w) xs fs s s'" and "fresh_facts xs (load_visits (ri_id w) s)"
    and "each_fact (validate_visit w (load_transitions (ri_version w) s)) xs = Inr ()"
    and "\<And>r. old_replay lib tt cols w s r \<Longrightarrow> finish_replay r = Inr p \<Longrightarrow>
           \<exists>r'. apply_events lib tt (int (length (load_events (ri_id w) s))) fs (extended w' xs r) = Inr r' \<and>
                finish_replay r' = Inr p'"
  shows "reconstruct_projection lib tt cols w' s' = Inr p'"
proof -
  let ?i = "ri_id w" and ?v = "ri_version w"
  obtain r where r: "old_replay lib tt cols w s r" "finish_replay r = Inr p" and ne: "load_events ?i s \<noteq> []"
    using reconstructed_replay [OF assms(1)] .
  from assms(6) [OF r] obtain r' where r': "apply_events lib tt (int (length (load_events ?i s))) fs (extended w' xs r) = Inr r'"
    "finish_replay r' = Inr p'" by blast
  have id: "ri_id w' = ?i" "ri_version w' = ?v" using assms(2) by (simp_all add: same_identity_def)
  let ?new = "new_replay w (rk_definition_digest cols ?v) (load_contexts ?i s) (load_visits ?i s) (load_submissions ?i s)
      (load_transitions ?v s)"
  have "fresh_facts xs (rp_visits ?new)" "same_identity (rp_instance ?new) w'"
    using assms(2,4) by (simp_all add: new_replay_def)
  from apply_events_extended [OF r(1) [unfolded old_replay_def] this]
  have "apply_events lib tt 0 (load_events ?i s @ fs) (extended w' xs ?new) = Inr r'"
    using r'(1) by (simp add: apply_events_append)
  moreover have checks: "validate_contexts lib w (load_contexts ?i s) = Inr ()"
    "validate_visits w (load_visits ?i s) (load_transitions ?v s) = Inr ()"
    "validate_submissions lib w (load_contexts ?i s) (load_visits ?i s) (load_submissions ?i s) (load_transitions ?v s) = Inr ()"
    "import_anchor lib w (load_contexts ?i s) (load_visits ?i s) (load_events ?i s) s = Inr ()"
    using assms(1) by (simp_all add: reconstruct_projection_def Let_def result_simps)
  ultimately show ?thesis
    using assms(3) ne r'(2) id validate_contexts_identity [OF assms(2)] validate_visits_extended [OF checks(2) assms(2,5)]
      validate_submissions_extended [OF checks(3) assms(2,4)] import_anchor_kept [OF checks(4) ne assms(2)]
    by (simp add: reconstruct_projection_def Let_def replay_log_def facts_extended_def new_replay_extended [of w' _ _ _ xs _ _ w])
qed

section \<open>Loads after an append\<close>

definition visit_fact_of :: "visit_row \<Rightarrow> node_row \<Rightarrow> visit_fact" where
  "visit_fact_of v n =
     \<lparr>vf_id = nv_id v, vf_instance = nv_instance v, vf_node = nv_node v, vf_number = nv_number v,
      vf_assignee = nv_assignee v, vf_entered_by = nv_entered_by v, vf_version = nr_version n, vf_type = nr_type n,
      vf_ref_type = nr_ref_type n\<rparr>"

definition event_fact_of :: "event_row \<Rightarrow> principal_row \<Rightarrow> event_fact" where
  "event_fact_of e p =
     \<lparr>ef_id = ev_id e, ef_instance = ev_instance e, ef_sequence = ev_sequence e, ef_schema = ''v1'', ef_type = ev_type e,
      ef_effect = ev_effect e, ef_source = ev_source_visit e, ef_target = ev_target_visit e, ef_context = ev_context e,
      ef_submission = ev_submission e, ef_data = Some (ev_data e), ef_digest = Some (ev_digest e),
      ef_command = Some (ev_command e), ef_actor = ev_actor e, ef_actor_type = pr_type p, ef_from = ev_from e,
      ef_to = ev_to e, ef_old = ev_old e, ef_new = ev_new e\<rparr>"

lemma load_visits_alt:
  "load_visits i s = map (\<lambda>v. visit_fact_of v (the (find_node (nv_node v) s)))
     (filter (\<lambda>v. nv_instance v = i \<and> find_node (nv_node v) s \<noteq> None) (visits s))"
proof -
  have "List.map_filter (\<lambda>v. map_option (\<lambda>n. visit_fact_of v n) (find_node (nv_node v) s)) xs =
      map (\<lambda>v. visit_fact_of v (the (find_node (nv_node v) s))) (filter (\<lambda>v. find_node (nv_node v) s \<noteq> None) xs)" for xs
    by (induction xs) (auto simp: List.map_filter_def)
  then show ?thesis by (simp add: load_visits_def visit_fact_of_def [symmetric] conj_commute)
qed

lemma load_events_alt:
  "load_events i s = map (\<lambda>e. event_fact_of e (the (find_principal (ev_actor e) s)))
     (sort_key ev_sequence (filter (\<lambda>e. ev_instance e = i \<and> find_principal (ev_actor e) s \<noteq> None) (events s)))"
proof -
  have "List.map_filter (\<lambda>e. map_option (\<lambda>p. event_fact_of e p) (find_principal (ev_actor e) s)) xs =
      map (\<lambda>e. event_fact_of e (the (find_principal (ev_actor e) s))) (filter (\<lambda>e. find_principal (ev_actor e) s \<noteq> None) xs)" for xs
    by (induction xs) (auto simp: List.map_filter_def)
  then show ?thesis by (simp add: load_events_def event_fact_of_def [symmetric] filter_sort conj_commute)
qed

lemma insort_key_snoc: "f x \<le> f e \<Longrightarrow> insort_key f x (ys @ [e]) = insort_key f x ys @ [e]"
  by (induction ys) auto

lemma sort_key_snoc: "(\<And>x. x \<in> set xs \<Longrightarrow> f x \<le> f e) \<Longrightarrow> sort_key f (xs @ [e]) = sort_key f xs @ [e]"
  by (induction xs) (simp_all add: insort_key_snoc)

lemma load_visits_snoc:
  assumes "visits s' = visits s @ [v]" and "node_rows s' = node_rows s" and "nv_instance v = i"
    and "find_node (nv_node v) s = Some n"
  shows "load_visits i s' = load_visits i s @ [visit_fact_of v n]"
proof -
  have "find_node m s' = find_node m s" for m using assms(2) by (simp add: find_node_def)
  with assms show ?thesis by (simp add: load_visits_alt)
qed

lemma load_events_snoc:
  assumes "events s' = events s @ [e]" and "principals s' = principals s" and "ev_instance e = i"
    and "find_principal (ev_actor e) s = Some p" and "\<And>x. x \<in> set (load_events i s) \<Longrightarrow> ef_sequence x \<le> ev_sequence e"
  shows "load_events i s' = load_events i s @ [event_fact_of e p]"
proof -
  have same: "find_principal m s' = find_principal m s" for m using assms(2) by (simp add: find_principal_def)
  have le: "ev_sequence x \<le> ev_sequence e"
    if "x \<in> set (filter (\<lambda>e. ev_instance e = i \<and> find_principal (ev_actor e) s \<noteq> None) (events s))" for x
    using that assms(5) [of "event_fact_of x (the (find_principal (ev_actor x) s))"]
    by (auto simp: load_events_alt event_fact_of_def)
  have "sort_key ev_sequence (filter (\<lambda>e. ev_instance e = i \<and> find_principal (ev_actor e) s \<noteq> None) (events s) @ [e]) =
      sort_key ev_sequence (filter (\<lambda>e. ev_instance e = i \<and> find_principal (ev_actor e) s \<noteq> None) (events s)) @ [e]"
    by (rule sort_key_snoc) (rule le)
  then show ?thesis
    unfolding load_events_alt using assms(1,3,4) same by simp
qed

lemma loads_cong:
  "contexts s' = contexts s \<Longrightarrow> load_contexts i s' = load_contexts i s"
  "submissions s' = submissions s \<Longrightarrow> load_submissions i s' = load_submissions i s"
  "transition_rows s' = transition_rows s \<Longrightarrow> load_transitions v s' = load_transitions v s"
  by (simp_all add: load_contexts_def load_submissions_def load_transitions_def)

lemma loads_same:
  "visits s' = visits s \<Longrightarrow> node_rows s' = node_rows s \<Longrightarrow> load_visits i s' = load_visits i s"
  "events s' = events s \<Longrightarrow> principals s' = principals s \<Longrightarrow> load_events i s' = load_events i s"
  by (simp_all add: load_visits_def load_events_def find_node_def find_principal_def)

lemma keeps_imports_new:
  assumes "receipts s = rs @ [processing_row ctype c p k h]" and "receipts s' = rs @ [r]" and "rc_command r = c"
    and "c \<notin> rc_command ` set rs" and "ctype \<noteq> import_type"
  shows "keeps_imports s s'"
  using assms by (auto simp: keeps_imports_def find_append processing_row_def split: option.splits)

section \<open>A new receipt\<close>

lemma recovery_acquire_owned:
  assumes "recovery_acquire ctype cid p key hash s = Inr (Acq_Owned c, s1)"
  shows "c = cid \<and> fresh_key cid p key s \<and> s1 = s\<lparr>receipts := receipts s @ [processing_row ctype cid p key hash]\<rparr>"
  using assms
  by (auto simp: recovery_acquire_def try_insert_receipt_cases result_simps split: option.splits if_splits sum.splits)

lemma settle_Inr: "settle env x a0 a = (Inr r, a1) \<Longrightarrow> x = Inr r \<and> a1 = a"
  by (auto simp: settle_def split: option.splits)

lemma never_accepts:
  "commit_failure env action cid actor key hash inst e a0 a \<noteq> (Inr r, a1)"
  "deny_access env action acq actor key hash inst e a0 a \<noteq> (Inr r, a1)"
  "conflict_or_processing env acq actor key hash a0 a \<noteq> (Inr r, a1)"
  by (auto simp: commit_failure_def deny_access_def conflict_or_processing_def settle_def Let_def
      split: sum.splits option.splits acquire_result.splits prod.splits)

lemma write_security_store: "write_security env p ac i d a = Inr a' \<Longrightarrow> am_store a' = am_store a"
  by (auto simp: write_security_def split: if_splits)

lemma roll_back_Inr [simp]: "roll_back x = Inr y \<longleftrightarrow> x = Inr y"
  by (simp add: roll_back_def map_sum_eq_Inr)

lemma record_at_Inr [simp]: "record_at a x = Inr y \<longleftrightarrow> x = Inr y"
  by (simp add: record_at_def map_sum_eq_Inr)

lemma record_facts_Inr [simp]: "record_facts a x = Inr y \<longleftrightarrow> x = Inr y"
  by (simp add: record_facts_def map_sum_eq_Inr)

text \<open>The row of a new receipt, completed.\<close>

lemma recovery_complete_new:
  assumes "recovery_complete lib cid status body a = Inr a'" and "receipts (am_store a) = rs @ [processing_row ctype cid p key hash]"
    and "cid \<notin> rc_command ` set rs"
  obtains d where "am_store a' = (am_store a)\<lparr>receipts := rs @ [answered_row ctype cid p key hash status body d]\<rparr>"
proof -
  obtain s1 where s1: "am_store a' = s1" "complete_by Rv_StorageError
      (Rv_InternalConsistency ''receipt completion affected an unexpected row count'') lib cid status body (am_store a) = Inr s1"
    using assms(1) by (auto simp: recovery_complete_def result_simps)
  from complete_by_new [OF s1(2) assms(3,2)] s1(1) that show thesis by blast
qed

end
