(* ===== verification/Recovery_Properties.thy ===== *)
theory Recovery_Properties
  imports Recovery_Effects
begin

text \<open>What the administrative recovery promises: what it writes can be replayed again.\<close>

section \<open>The locked row\<close>

lemma find_row_map:
  assumes "\<And>w. wi_id (f w) = wi_id w"
  shows "find (\<lambda>w. wi_id w = i) (map (\<lambda>w. if wi_id w = i then f w else w) ws) = map_option f (find (\<lambda>w. wi_id w = i) ws)"
  by (induction ws) (auto simp: assms)

lemma lock_instance_row:
  assumes "lock_instance cols i s = Inr w"
  obtains x p where "find_instance_row i s = Some x" "find_principal (wi_created_by x) s = Some p"
    "w = \<lparr>ri_id = i, ri_domain = wi_domain x, ri_version = wi_version x, ri_creator = wi_created_by x,
          ri_creator_type = pr_type p, ri_reference = rk_reference cols i, ri_context = Some (wi_context x),
          ri_visit = wi_current_visit x, ri_state = wi_state_version x\<rparr>"
  using assms that find_instance_row [of i s]
  by (auto simp: lock_instance_def result_simps bind_eq_Some_conv)

lemma lock_after_update:
  assumes "lock_instance cols i s = Inr w" and "principals s' = principals s"
    and "instances s' = map (\<lambda>x. if wi_id x = i then f x else x) (instances s)"
    and "\<And>x. wi_id (f x) = wi_id x" and "\<And>x. wi_domain (f x) = wi_domain x" and "\<And>x. wi_version (f x) = wi_version x"
    and "\<And>x. wi_created_by (f x) = wi_created_by x"
  obtains x where "find_instance_row i s = Some x" "ri_context w = Some (wi_context x)" "ri_visit w = wi_current_visit x"
    "ri_state w = wi_state_version x" "ri_id w = i"
    "lock_instance cols i s' = Inr (w\<lparr>ri_context := Some (wi_context (f x)), ri_visit := wi_current_visit (f x),
       ri_state := wi_state_version (f x)\<rparr>)"
proof -
  from lock_instance_row [OF assms(1)] obtain x p where x: "find_instance_row i s = Some x" "find_principal (wi_created_by x) s = Some p"
    and w: "w = \<lparr>ri_id = i, ri_domain = wi_domain x, ri_version = wi_version x, ri_creator = wi_created_by x,
          ri_creator_type = pr_type p, ri_reference = rk_reference cols i, ri_context = Some (wi_context x),
          ri_visit = wi_current_visit x, ri_state = wi_state_version x\<rparr>" .
  have "find_instance_row i s' = Some (f x)"
    using x(1) find_row_map [of f i "instances s", OF assms(4)] assms(3) by (simp add: find_instance_row_def)
  moreover have "find_principal (wi_created_by (f x)) s' = Some p" using x(2) assms(2,7) by (simp add: find_principal_def)
  moreover have "wi_id (f x) = i" using find_instance_row [OF x(1)] assms(4) by simp
  ultimately have "lock_instance cols i s' = Inr (w\<lparr>ri_context := Some (wi_context (f x)), ri_visit := wi_current_visit (f x),
       ri_state := wi_state_version (f x)\<rparr>)"
    using assms(5-7) w by (simp add: lock_instance_def)
  with that [of x] x w show thesis by simp
qed

lemma same_identity_update [simp]:
  "same_identity w (w\<lparr>ri_context := c, ri_visit := v, ri_state := n\<rparr>)" "same_identity w w"
  by (simp_all add: same_identity_def)

lemma locked_id: "lock_instance cols i s = Inr w \<Longrightarrow> ri_id w = i"
  by (erule lock_instance_row) simp

section \<open>What a reconstruction establishes\<close>

lemma loaded_visits_distinct: "store_wf s \<Longrightarrow> distinct (map vf_id (load_visits i s))"
proof -
  assume "store_wf s"
  then have "distinct (map nv_id (visits s))" by (simp add: store_wf_def)
  then show ?thesis by (simp add: load_visits_alt visit_fact_of_def distinct_map o_def inj_on_def)
qed

lemma old_replay_facts:
  assumes "old_replay lib tt cols w s r" and "store_wf s"
  shows "replays_as 0 (load_events (ri_id w) s)
      (new_replay w (rk_definition_digest cols (ri_version w)) (load_contexts (ri_id w) s) (load_visits (ri_id w) s)
         (load_submissions (ri_id w) s) (load_transitions (ri_version w) s)) r"
  using assms(1) loaded_visits_distinct [OF assms(2)] unfolding old_replay_def
  by (intro apply_events_wf replay_wf_new) (simp_all add: new_replay_def)

lemma finish_replay_Inr: "finish_replay r = Inr p \<Longrightarrow> p = replay_projection r"
  by (simp add: finish_replay_def split: if_splits)

lemma reconstructed_known:
  assumes "reconstruct_projection lib tt cols w s = Inr p" and "store_wf s"
  shows "pj_context p \<noteq> None \<and> pj_visit p \<noteq> None \<and> pj_version p = int (length (load_events (ri_id w) s)) \<and>
    (\<forall>e\<in>set (load_events (ri_id w) s). ef_type e \<in> set supported_types \<and> ef_sequence e \<le> pj_version p)"
proof -
  obtain r where r: "old_replay lib tt cols w s r" "finish_replay r = Inr p" and ne: "load_events (ri_id w) s \<noteq> []"
    using reconstructed_replay [OF assms(1)] .
  note f = old_replay_facts [OF r(1) assms(2)]
  have "p = replay_projection r" using finish_replay_Inr [OF r(2)] .
  with f ne show ?thesis by (force simp: replays_as_def replay_projection_def replay_wf_def in_set_conv_nth)
qed

lemma store_wf_new_receipt:
  assumes "fresh_key cid p key s" and "store_wf s"
  shows "store_wf (s\<lparr>receipts := receipts s @ [processing_row ctype cid p key hash]\<rparr>)"
  using assms by (intro store_wf_receipt) (simp_all add: fresh_key_def processing_row_def)

section \<open>Rebuild\<close>

lemma rebuild_new:
  assumes "rebuild_projection env cmd hash a0 = (Inr r, a1)" and "\<not> bw_replayed r"
  obtains s1 w where "fresh_key (re_command env) (rb_actor cmd) (rb_key cmd) (am_store a0)"
    "s1 = (am_store a0)\<lparr>receipts := receipts (am_store a0) @
       [processing_row ''REBUILD_PROJECTION'' (re_command env) (rb_actor cmd) (rb_key cmd) hash]\<rparr>"
    "lock_instance (re_columns env) (rb_instance cmd) s1 = Inr w"
    "admin_access (rb_actor cmd) (ri_domain w) s1 = Inr ()"
    "rebuild_owned env cmd (re_command env) w (a0\<lparr>am_store := s1\<rparr>) = Inr (r, a1)"
proof -
  obtain acq s1 where acq: "recovery_acquire ''REBUILD_PROJECTION'' (re_command env) (rb_actor cmd) (rb_key cmd) hash (am_store a0) = Inr (acq, s1)"
    using assms(1) by (auto simp: rebuild_projection_def Let_def split: sum.splits)
  obtain w ver where w: "lock_instance (re_columns env) (rb_instance cmd) s1 = Inr w" "lock_definition_version (ri_version w) s1 = Inr ver"
    "rebuild_denial (rb_actor cmd) w ver s1 = Inr ()"
    using assms(1) acq by (auto simp: rebuild_projection_def Let_def never_accepts split: sum.splits)
  have "\<exists>cid. acq = Acq_Owned cid"
    using assms acq w
    by (cases acq) (auto simp: rebuild_projection_def Let_def never_accepts rebuild_replay_def result_simps
        dest!: settle_Inr split: if_splits)
  then obtain cid where cid: "acq = Acq_Owned cid" by blast
  have owned: "rebuild_owned env cmd cid w (a0\<lparr>am_store := s1\<rparr>) = Inr (r, a1)"
    using assms acq w cid
    by (auto simp: rebuild_projection_def Let_def never_accepts dest!: settle_Inr split: sum.splits recovery_stop.splits)
  from recovery_acquire_owned [OF acq [unfolded cid]] w owned that [of s1 w] show thesis
    by (simp add: rebuild_denial_def result_simps)
qed

lemma answered_command: "rc_command (answered_row ctype cid p key hash status body d) = cid"
  by (simp add: answered_row_def processing_row_def)

lemma rebuild_type: "''REBUILD_PROJECTION'' \<noteq> import_type" "''ADMIN_EMERGENCY_OVERRIDE'' \<noteq> import_type"
  by (simp_all add: import_type_def)

lemma finish_extended: "finish_replay r = Inr p \<Longrightarrow> finish_replay (extended w' [] r) = Inr p"
  by (auto simp: finish_replay_def split: if_splits)

lemma reconstruct_same_log:
  assumes "reconstruct_projection lib tt cols w s = Inr p" and "same_identity w w'"
    and "facts_extended (ri_id w) (ri_version w) [] [] s s'"
  shows "reconstruct_projection lib tt cols w' s' = Inr p"
proof (rule reconstruct_extended [OF assms])
  fix r assume "finish_replay r = Inr p"
  then show "\<exists>r'. apply_events lib tt (int (length (load_events (ri_id w) s))) [] (extended w' [] r) = Inr r' \<and>
      finish_replay r' = Inr p"
    using finish_extended by simp
qed (simp_all add: fresh_facts_def)

lemma facts_same:
  assumes "contexts s' = contexts s" and "submissions s' = submissions s" and "transition_rows s' = transition_rows s"
    and "visits s' = visits s" and "node_rows s' = node_rows s" and "events s' = events s" and "principals s' = principals s"
    and "keeps_imports s s'"
  shows "facts_extended i v [] [] s s'"
  using loads_cong(1) [OF assms(1)] loads_cong(2) [OF assms(2)] loads_cong(3) [OF assms(3)]
    loads_same(1) [OF assms(4,5)] loads_same(2) [OF assms(6,7)] assms(8) by (simp add: facts_extended_def)

definition projected :: "projection \<Rightarrow> instance_row \<Rightarrow> instance_row" where
  "projected p w = w\<lparr>wi_context := (case pj_context p of None \<Rightarrow> wi_context w | Some c \<Rightarrow> c),
     wi_current_visit := pj_visit p, wi_state_version := pj_version p\<rparr>"

lemma set_projection_frame:
  "set_projection i p s = Inr s' \<Longrightarrow> s' = s\<lparr>instances := map (\<lambda>w. if wi_id w = i then projected p w else w) (instances s)\<rparr>"
  by (auto simp: set_projection_def projected_def split: if_splits)

text \<open>What an owned rebuild writes.\<close>

lemma rebuild_effect:
  assumes "rebuild_owned env cmd cid w a = Inr (r, a')" and "receipts (am_store a) = rs @ [processing_row ctype cid p key hash]"
    and "cid \<notin> rc_command ` set rs"
  obtains after as it d body where
    "reconstruct_projection (re_lib env) (re_time env) (re_columns env) w (am_store a) = Inr after" "bw_after r = after"
    "am_store a' = (am_store a)\<lparr>assistances := as, intents := it,
       instances := (if row_projection w = after then instances (am_store a)
                     else map (\<lambda>x. if wi_id x = ri_id w then projected after x else x) (instances (am_store a))),
       receipts := rs @ [answered_row ctype cid p key hash 200 body d]\<rparr>"
proof -
  obtain digest after s2 a1 where after: "reconstruct_projection (re_lib env) (re_time env) (re_columns env) w (am_store a) = Inr after"
    and s2: "(if row_projection w \<noteq> after then set_projection (ri_id w) after
        (if pj_visit (row_projection w) \<noteq> pj_visit after
         then void_open_cases (re_now env) (ri_id w) (rb_actor cmd) cid ''ADMIN_PROJECTION_REBUILD'' (am_store a) else am_store a)
       else Inr (if pj_visit (row_projection w) \<noteq> pj_visit after
         then void_open_cases (re_now env) (ri_id w) (rb_actor cmd) cid ''ADMIN_PROJECTION_REBUILD'' (am_store a) else am_store a)) = Inr s2"
    and r: "bw_after r = after" and a1: "recovery_complete (re_lib env) cid 200 (rebuild_body (re_lib env) r) (a\<lparr>am_store := s2\<rparr>) = Inr a1"
    and a': "am_store a' = am_store a1"
    using assms(1) by (auto simp: rebuild_owned_def Let_def result_simps dest: write_security_store)
  obtain as it where sv: "(if pj_visit (row_projection w) \<noteq> pj_visit after
      then void_open_cases (re_now env) (ri_id w) (rb_actor cmd) cid ''ADMIN_PROJECTION_REBUILD'' (am_store a) else am_store a) =
      (am_store a)\<lparr>assistances := as, intents := it\<rparr>"
  proof (cases "pj_visit (row_projection w) = pj_visit after")
    case True
    then show thesis by (intro that [of "intents (am_store a)" "assistances (am_store a)"]) simp
  next
    case False
    then show thesis
      by (intro that [of "intents (retire_intents (ri_id w) cid ''ADMIN_PROJECTION_REBUILD'' (am_store a))"
            "map (voided (re_now env) (ri_id w) (rb_actor cmd) cid ''ADMIN_PROJECTION_REBUILD'') (assistances (am_store a))"])
        (simp add: void_open_cases_eq)
  qed
  have s2': "s2 = (am_store a)\<lparr>assistances := as, intents := it,
       instances := (if row_projection w = after then instances (am_store a)
                     else map (\<lambda>x. if wi_id x = ri_id w then projected after x else x) (instances (am_store a)))\<rparr>"
  proof (cases "row_projection w = after")
    case True
    with s2 have eq: "s2 = (am_store a)\<lparr>assistances := as, intents := it\<rparr>" unfolding sv by simp
    show ?thesis unfolding eq using True by simp
  next
    case False
    with s2 have "set_projection (ri_id w) after ((am_store a)\<lparr>assistances := as, intents := it\<rparr>) = Inr s2" unfolding sv by simp
    from set_projection_frame [OF this] False show ?thesis by simp
  qed
  have "receipts (am_store (a\<lparr>am_store := s2\<rparr>)) = rs @ [processing_row ctype cid p key hash]" using s2' assms(2) by simp
  from recovery_complete_new [OF a1 this assms(3)] obtain d where
    "am_store a1 = s2\<lparr>receipts := rs @ [answered_row ctype cid p key hash 200 (rebuild_body (re_lib env) r) d]\<rparr>" by auto
  with that [OF after r] a' s2' show thesis by simp
qed

lemma rebuilt_row:
  assumes "reconstruct_projection lib tt cols w s = Inr after" and "store_wf s" and "lock_instance cols i s = Inr w"
    and "principals s' = principals s"
    and "instances s' = (if row_projection w = after then instances s
                     else map (\<lambda>x. if wi_id x = ri_id w then projected after x else x) (instances s))"
  shows "\<exists>w'. lock_instance cols i s' = Inr w' \<and> same_identity w w' \<and> row_projection w' = after"
proof (cases "row_projection w = after")
  case True
  with assms(3-5) have "lock_instance cols i s' = Inr w"
    by (simp add: lock_instance_def find_instance_row_def find_principal_def)
  with True show ?thesis by auto
next
  case False
  then have rows: "instances s' = map (\<lambda>x. if wi_id x = i then projected after x else x) (instances s)"
    using assms(5) locked_id [OF assms(3)] by simp
  obtain x where x: "lock_instance cols i s' = Inr (w\<lparr>ri_context := Some (wi_context (projected after x)),
      ri_visit := wi_current_visit (projected after x), ri_state := wi_state_version (projected after x)\<rparr>)"
    by (rule lock_after_update [OF assms(3,4) rows]) (simp_all add: projected_def)
  from reconstructed_known [OF assms(1,2)] obtain c where "pj_context after = Some c" by blast
  with x show ?thesis by (auto simp: projected_def row_projection_def)
qed

text \<open>
  C22. A rebuild restores the projection: after a successful rebuild the row holds the projection that the
  event log gives, and the log, replayed again from what is now stored, gives it again, so that a second rebuild
  changes nothing.
\<close>
theorem rebuild_restores_projection:
  assumes "rebuild_projection env cmd hash a0 = (Inr r, a1)" and "\<not> bw_replayed r" and "store_wf (am_store a0)"
  shows "\<exists>w. lock_instance (re_columns env) (rb_instance cmd) (am_store a1) = Inr w \<and> row_projection w = bw_after r \<and>
    reconstruct_projection (re_lib env) (re_time env) (re_columns env) w (am_store a1) = Inr (row_projection w)"
proof -
  let ?s0 = "am_store a0" and ?lib = "re_lib env" and ?cols = "re_columns env"
  obtain s1 w where key: "fresh_key (re_command env) (rb_actor cmd) (rb_key cmd) ?s0"
    and s1: "s1 = ?s0\<lparr>receipts := receipts ?s0 @ [processing_row ''REBUILD_PROJECTION'' (re_command env) (rb_actor cmd) (rb_key cmd) hash]\<rparr>"
    and w: "lock_instance ?cols (rb_instance cmd) s1 = Inr w"
    and owned: "rebuild_owned env cmd (re_command env) w (a0\<lparr>am_store := s1\<rparr>) = Inr (r, a1)"
    using rebuild_new [OF assms(1,2)] by metis
  have wf: "store_wf s1" using store_wf_new_receipt [OF key assms(3)] s1 by simp
  have new: "re_command env \<notin> rc_command ` set (receipts ?s0)" using key by (simp add: fresh_key_def)
  have "receipts (am_store (a0\<lparr>am_store := s1\<rparr>)) =
      receipts ?s0 @ [processing_row ''REBUILD_PROJECTION'' (re_command env) (rb_actor cmd) (rb_key cmd) hash]"
    using s1 by simp
  then have row: "receipts s1 =
      receipts ?s0 @ [processing_row ''REBUILD_PROJECTION'' (re_command env) (rb_actor cmd) (rb_key cmd) hash]"
    by simp
  have am: "am_store (a0\<lparr>am_store := s1\<rparr>) = s1" by simp
  from rebuild_effect [OF owned, unfolded am, OF row new] obtain after as it d body where
    rec: "reconstruct_projection ?lib (re_time env) ?cols w s1 = Inr after" and after: "bw_after r = after"
    and s': "am_store a1 = s1\<lparr>assistances := as, intents := it,
       instances := (if row_projection w = after then instances s1
                     else map (\<lambda>x. if wi_id x = ri_id w then projected after x else x) (instances s1)),
       receipts := receipts ?s0 @ [answered_row ''REBUILD_PROJECTION'' (re_command env) (rb_actor cmd) (rb_key cmd) hash 200 body d]\<rparr>" .
  have "receipts (am_store a1) = receipts ?s0 @
      [answered_row ''REBUILD_PROJECTION'' (re_command env) (rb_actor cmd) (rb_key cmd) hash 200 body d]" by (simp add: s')
  note kept = keeps_imports_new [OF row this answered_command new rebuild_type(1)]
  have same: "facts_extended (ri_id w) (ri_version w) [] [] s1 (am_store a1)"
    by (rule facts_same [OF _ _ _ _ _ _ _ kept]) (simp_all add: s')
  have "principals (am_store a1) = principals s1"
    "instances (am_store a1) = (if row_projection w = after then instances s1
       else map (\<lambda>x. if wi_id x = ri_id w then projected after x else x) (instances s1))" by (simp_all add: s')
  from rebuilt_row [OF rec wf w this] obtain w' where
    "lock_instance ?cols (rb_instance cmd) (am_store a1) = Inr w'" "same_identity w w'" "row_projection w' = after" by blast
  with reconstruct_same_log [OF rec _ same] after show ?thesis by auto
qed

end
