(* ===== verification/Override_Properties.thy ===== *)
theory Override_Properties
  imports Recovery_Properties
begin

text \<open>What an emergency override writes, and that its event can be replayed.\<close>

section \<open>An accepted override\<close>

lemma override_new:
  assumes "admin_emergency_override env cmd hash a0 = (Inr r, a1)" and "\<not> ow_replayed r"
  obtains s1 w ver where "fresh_key (re_command env) (oo_principal cmd) (oo_key cmd) (am_store a0)"
    "s1 = (am_store a0)\<lparr>receipts := receipts (am_store a0) @
       [processing_row ''ADMIN_EMERGENCY_OVERRIDE'' (re_command env) (oo_principal cmd) (oo_key cmd) hash]\<rparr>"
    "lock_instance (re_columns env) (oo_instance cmd) s1 = Inr w"
    "find_version (ri_version w) s1 = Some ver"
    "admin_access (oo_principal cmd) (ri_domain w) s1 = Inr ()"
    "override_owned env cmd (re_command env) w ver (a0\<lparr>am_store := s1\<rparr>) = Inr (r, a1)"
proof -
  obtain acq s1 where acq: "recovery_acquire ''ADMIN_EMERGENCY_OVERRIDE'' (re_command env) (oo_principal cmd) (oo_key cmd) hash (am_store a0) = Inr (acq, s1)"
    using assms(1) by (auto simp: admin_emergency_override_def Let_def split: sum.splits)
  obtain w ver where w: "lock_instance (re_columns env) (oo_instance cmd) s1 = Inr w" "lock_definition_version (ri_version w) s1 = Inr ver"
    "admin_access (oo_principal cmd) (ri_domain w) s1 = Inr ()"
    using assms(1) acq by (auto simp: admin_emergency_override_def Let_def never_accepts split: sum.splits)
  have "\<exists>cid. acq = Acq_Owned cid"
    using assms acq w
    by (cases acq) (auto simp: admin_emergency_override_def Let_def never_accepts override_replay_def result_simps
        dest!: settle_Inr split: if_splits)
  then obtain cid where cid: "acq = Acq_Owned cid" by blast
  have owned: "override_owned env cmd cid w ver (a0\<lparr>am_store := s1\<rparr>) = Inr (r, a1)"
    using assms acq w cid
    by (auto simp: admin_emergency_override_def Let_def never_accepts dest!: settle_Inr split: sum.splits recovery_stop.splits)
  from recovery_acquire_owned [OF acq [unfolded cid]] w owned that [of s1 w ver] show thesis
    by (simp add: lock_definition_version_def result_simps)
qed

text \<open>What the checks of an override establish.\<close>

definition overridable :: "recovery_env \<Rightarrow> override_command \<Rightarrow> recovery_instance \<Rightarrow> override_plan \<Rightarrow> store \<Rightarrow> bool" where
  "overridable env cmd w pl s \<longleftrightarrow>
     validate_override_input cmd = Inr () \<and>
     reconstruct_projection (re_lib env) (re_time env) (re_columns env) w s = Inr (row_projection w) \<and>
     snapshot_digest (re_lib env) w (row_projection w) = Inr (vp_digest pl) \<and> oo_expected cmd = ri_state w \<and>
     ri_context w = Some (vp_context pl) \<and> ri_visit w = Some (vp_source pl) \<and>
     visit_node (vp_source pl) s = Some (vp_source_node pl) \<and>
     read_target_node (oo_target cmd) (ri_version w) s = Inr (vp_node pl) \<and>
     override_assignee cmd w (vp_node pl) (vp_activates pl) s = Inr (vp_assignee pl, vp_effect pl)"

lemma override_checkedD: "override_checked env cmd w ver a = Inr pl \<Longrightarrow> overridable env cmd w pl (am_store a)"
  by (auto simp: override_checked_def overridable_def Let_def result_simps)

definition override_row :: "recovery_env \<Rightarrow> recovery_instance \<Rightarrow> override_plan \<Rightarrow> int \<Rightarrow> visit_row" where
  "override_row env w pl number =
     \<lparr>nv_id = re_visit env, nv_instance = ri_id w, nv_node = nr_id (vp_node pl), nv_number = number,
      nv_assignee = vp_assignee pl, nv_entered_by = None\<rparr>"

definition override_event :: "recovery_env \<Rightarrow> override_command \<Rightarrow> uuid \<Rightarrow> recovery_instance \<Rightarrow> override_plan \<Rightarrow> string \<Rightarrow> event_row" where
  "override_event env cmd cid w pl d =
     \<lparr>ev_id = re_event env, ev_instance = ri_id w, ev_sequence = ri_state w + 1, ev_command = cid,
      ev_type = ''ADMIN_EMERGENCY_OVERRIDE_COMMITTED'', ev_effect = Some (vp_effect pl),
      ev_source_visit = Some (vp_source pl), ev_target_visit = Some (re_visit env), ev_context = Some (vp_context pl),
      ev_submission = None, ev_data = override_event_data cmd (vp_digest pl), ev_digest = d, ev_actor = oo_principal cmd,
      ev_from = Some (vp_source_node pl), ev_to = Some (nr_id (vp_node pl)), ev_old = ri_state w, ev_new = ri_state w + 1\<rparr>"

definition overridden :: "recovery_env \<Rightarrow> recovery_instance \<Rightarrow> instance_row \<Rightarrow> instance_row" where
  "overridden env w x = x\<lparr>wi_current_visit := Some (re_visit env), wi_state_version := ri_state w + 1\<rparr>"

lemma override_activation_frame:
  "override_activation env cid i pl s = Inr s' \<Longrightarrow> \<exists>ac. s' = s\<lparr>activations := ac\<rparr>"
proof -
  assume run: "override_activation env cid i pl s = Inr s'"
  show ?thesis
  proof (cases "vp_activates pl \<and> vp_assignee pl \<noteq> None")
    case True
    with run show ?thesis
      by (auto simp: override_activation_def insert_activation_def result_simps split: if_splits)
  next
    case False
    with run have "s' = s" by (auto simp: override_activation_def split: bool.splits option.splits)
    then show ?thesis by (intro exI [of _ "activations s"]) simp
  qed
qed

lemma override_event_frame: "append_event e s = Inr s' \<Longrightarrow> s' = s\<lparr>events := events s @ [e]\<rparr>"
  by (simp add: append_event_def split: if_splits)

lemma storage_append: "map_sum f id (append_event e s) = Inr s' \<longleftrightarrow> append_event e s = Inr s'"
  by (cases "append_event e s") simp_all

lemma override_facts_effect:
  assumes "override_facts env cmd cid w pl number s = Inr s'"
  obtains ac d where "re_visit env \<notin> nv_id ` set (visits s)" "json_digest (re_lib env) (override_event_data cmd (vp_digest pl)) = Inr d"
    "s' = s\<lparr>visits := visits s @ [override_row env w pl number], activations := ac,
       instances := map (\<lambda>x. if wi_id x = ri_id w \<and> wi_state_version x = ri_state w \<and> wi_current_visit x = Some (vp_source pl)
                             then overridden env w x else x) (instances s),
       events := events s @ [override_event env cmd cid w pl d]\<rparr>"
proof -
  obtain s1 s2 d where s1: "insert_override_visit (re_visit env) (ri_id w) (nr_id (vp_node pl)) number (vp_assignee pl) s = Inr s1"
    and s2: "override_activation env cid (ri_id w) pl s1 = Inr s2"
    and d: "json_digest (re_lib env) (override_event_data cmd (vp_digest pl)) = Inr d"
    and ev: "append_event (override_event env cmd cid w pl d)
      (s2\<lparr>instances := map (\<lambda>x. if wi_id x = ri_id w \<and> wi_state_version x = ri_state w \<and> wi_current_visit x = Some (vp_source pl)
         then overridden env w x else x) (instances s2)\<rparr>) = Inr s'"
    using assms unfolding override_facts_def Let_def andThen_eq_Inr guard_r_eq_Inr map_sum_eq_Inr storage_append
    by (elim exE conjE) (rule that, assumption+, unfold override_event_def overridden_def, assumption)
  obtain ac where "s2 = s1\<lparr>activations := ac\<rparr>" using override_activation_frame [OF s2] by blast
  moreover have "re_visit env \<notin> nv_id ` set (visits s)" "s1 = s\<lparr>visits := visits s @ [override_row env w pl number]\<rparr>"
    using s1 by (simp_all add: insert_override_visit_def override_row_def split: if_splits)
  ultimately show thesis using that [OF _ d, of ac] override_event_frame [OF ev] by simp
qed

lemma override_closed_frame:
  assumes "override_closed env cmd cid w pl a = Inr s'"
  obtains as it cl where "s' = (am_store a)\<lparr>assistances := as, intents := it, closures := cl\<rparr>"
proof -
  let ?s = "am_store a"
  let ?v = "void_open_cases (re_now env) (ri_id w) (oo_principal cmd) cid ''ADMIN_EMERGENCY_OVERRIDE'' ?s"
  have "\<exists>cl. s' = ?v\<lparr>closures := cl\<rparr>"
  proof (cases "vp_activates pl")
    case True
    with assms show ?thesis
      by (auto simp: override_closed_def Let_def close_activation_by_visit_required_def close_activation_by_visit_def
          split: prod.splits if_splits)
  next
    case False
    with assms have "s' = ?v" by (simp add: override_closed_def Let_def)
    then show ?thesis by (intro exI [of _ "closures ?v"]) simp
  qed
  then obtain cl where cl: "s' = ?v\<lparr>closures := cl\<rparr>" by blast
  show thesis
    by (rule that [of cl "intents (retire_intents (ri_id w) cid ''ADMIN_EMERGENCY_OVERRIDE'' ?s)"
          "map (voided (re_now env) (ri_id w) (oo_principal cmd) cid ''ADMIN_EMERGENCY_OVERRIDE'') (assistances ?s)"])
      (simp add: cl void_open_cases_eq)
qed

text \<open>The whole effect of an accepted override on the store.\<close>

definition override_effect ::
  "recovery_env \<Rightarrow> override_command \<Rightarrow> string \<Rightarrow> recovery_instance \<Rightarrow> override_plan \<Rightarrow> store \<Rightarrow> override_result \<Rightarrow> store \<Rightarrow> bool" where
  "override_effect env cmd hash w pl s r s' \<longleftrightarrow>
     (\<exists>as it cl ac d body q.
        re_visit env \<notin> nv_id ` set (visits s) \<and>
        json_digest (re_lib env) (override_event_data cmd (vp_digest pl)) = Inr d \<and>
        next_visit_number (ri_id w) (nr_id (vp_node pl)) s < 2 ^ 31 \<and> ri_state w + 1 < 2 ^ 31 \<and>
        ow_current r = re_visit env \<and> ow_version r = ri_state w + 1 \<and> ow_source r = vp_source pl \<and>
        s' = s\<lparr>assistances := as, intents := it, closures := cl, activations := ac,
               visits := visits s @ [override_row env w pl (next_visit_number (ri_id w) (nr_id (vp_node pl)) s)],
               instances := map (\<lambda>x. if wi_id x = ri_id w \<and> wi_state_version x = ri_state w \<and>
                   wi_current_visit x = Some (vp_source pl) then overridden env w x else x) (instances s),
               events := events s @ [override_event env cmd (re_command env) w pl d],
               receipts := receipts s @ [answered_row ''ADMIN_EMERGENCY_OVERRIDE'' (re_command env) (oo_principal cmd)
                 (oo_key cmd) hash 200 body q]\<rparr>)"

lemma override_new_effect:
  assumes "admin_emergency_override env cmd hash a0 = (Inr r, a1)" and "\<not> ow_replayed r"
  obtains w pl where "fresh_key (re_command env) (oo_principal cmd) (oo_key cmd) (am_store a0)"
    "lock_instance (re_columns env) (oo_instance cmd) (am_store a0) = Inr w"
    "admin_access (oo_principal cmd) (ri_domain w) (am_store a0) = Inr ()"
    "overridable env cmd w pl ((am_store a0)\<lparr>receipts := receipts (am_store a0) @
       [processing_row ''ADMIN_EMERGENCY_OVERRIDE'' (re_command env) (oo_principal cmd) (oo_key cmd) hash]\<rparr>)"
    "override_effect env cmd hash w pl (am_store a0) r (am_store a1)"
proof -
  let ?s0 = "am_store a0"
  let ?row = "processing_row ''ADMIN_EMERGENCY_OVERRIDE'' (re_command env) (oo_principal cmd) (oo_key cmd) hash"
  obtain s1 w ver where key: "fresh_key (re_command env) (oo_principal cmd) (oo_key cmd) ?s0"
    and s1: "s1 = ?s0\<lparr>receipts := receipts ?s0 @ [?row]\<rparr>" and w: "lock_instance (re_columns env) (oo_instance cmd) s1 = Inr w"
    and access: "admin_access (oo_principal cmd) (ri_domain w) s1 = Inr ()"
    and owned: "override_owned env cmd (re_command env) w ver (a0\<lparr>am_store := s1\<rparr>) = Inr (r, a1)"
    using override_new [OF assms] by metis
  obtain pl s2 s3 a2 where pl: "override_checked env cmd w ver (a0\<lparr>am_store := s1\<rparr>) = Inr pl"
    and num: "next_visit_number (ri_id w) (nr_id (vp_node pl)) s1 < 2 ^ 31" "ri_state w + 1 < 2 ^ 31"
    and s2: "override_closed env cmd (re_command env) w pl (a0\<lparr>am_store := s1\<rparr>) = Inr s2"
    and s3: "override_facts env cmd (re_command env) w pl (next_visit_number (ri_id w) (nr_id (vp_node pl)) s1) s2 = Inr s3"
    and a2: "recovery_complete (re_lib env) (re_command env) 200 (override_body (re_lib env) r) (a0\<lparr>am_store := s3\<rparr>) = Inr a2"
    and r: "ow_current r = re_visit env" "ow_version r = ri_state w + 1" "ow_source r = vp_source pl"
    and a1: "am_store a1 = am_store a2"
    using owned by (auto simp: override_owned_def Let_def result_simps map_sum_eq_Inr dest: write_security_store)
  have am: "am_store (a0\<lparr>am_store := s1\<rparr>) = s1" by simp
  obtain as it cl where s2': "s2 = s1\<lparr>assistances := as, intents := it, closures := cl\<rparr>"
    by (rule override_closed_frame [OF s2, unfolded am]) (rule that)
  obtain ac d where new: "re_visit env \<notin> nv_id ` set (visits s2)"
    and d: "json_digest (re_lib env) (override_event_data cmd (vp_digest pl)) = Inr d"
    and s3': "s3 = s2\<lparr>visits := visits s2 @ [override_row env w pl (next_visit_number (ri_id w) (nr_id (vp_node pl)) s1)],
       activations := ac,
       instances := map (\<lambda>x. if wi_id x = ri_id w \<and> wi_state_version x = ri_state w \<and> wi_current_visit x = Some (vp_source pl)
                             then overridden env w x else x) (instances s2),
       events := events s2 @ [override_event env cmd (re_command env) w pl d]\<rparr>"
    using override_facts_effect [OF s3] .
  have "receipts (am_store (a0\<lparr>am_store := s3\<rparr>)) = receipts ?s0 @ [?row]" by (simp add: s3' s2' s1)
  from recovery_complete_new [OF a2 this] key obtain q where
    q: "am_store a2 = s3\<lparr>receipts := receipts ?s0 @ [answered_row ''ADMIN_EMERGENCY_OVERRIDE'' (re_command env)
       (oo_principal cmd) (oo_key cmd) hash 200 (override_body (re_lib env) r) q]\<rparr>" by (auto simp: fresh_key_def)
  have same_number: "next_visit_number i n (?s0\<lparr>receipts := x\<rparr>) = next_visit_number i n ?s0" for i n x
    by (simp add: next_visit_number_def)
  have "override_effect env cmd hash w pl ?s0 r (am_store a1)"
    unfolding override_effect_def
    by (rule exI [of _ as], rule exI [of _ it], rule exI [of _ cl], rule exI [of _ ac], rule exI [of _ d],
        rule exI [of _ "override_body (re_lib env) r"], rule exI [of _ q])
      (use new d num r in \<open>simp add: a1 q s3' s2' s1 same_number\<close>)
  moreover have "lock_instance (re_columns env) (oo_instance cmd) ?s0 = Inr w" "admin_access (oo_principal cmd) (ri_domain w) ?s0 = Inr ()"
    using w access
    by (simp_all add: s1 lock_instance_def find_instance_row_def find_principal_def admin_access_def validate_actor_def
        validate_workflow_admin_def)
  ultimately show thesis using that key override_checkedD [OF pl] s1 by simp
qed

section \<open>The event of an override replays\<close>

lemma bounded_payload:
  assumes "validate_override_input cmd = Inr ()"
  shows "admin_payload_is_bounded (override_event_data cmd d)"
proof -
  have "reference_bounded (reference_json r) = reference_valid r" for r
    by (simp add: reference_bounded_def reference_json_def reference_valid_def exact_keys_def string_field_def)
  then have "list_all reference_bounded (map reference_json rs) = list_all reference_valid rs" for rs
    by (simp add: list.pred_map o_def)
  with assms show ?thesis
    by (simp add: validate_override_input_def result_simps admin_payload_is_bounded_def override_event_data_def
        string_field_def jindex_def)
qed

lemma override_target:
  assumes "override_assignee cmd w n act s = Inr (assignee, effect)"
  shows "admin_effect (override_event_data cmd d) (visit_fact_of v n) = Some effect"
    and "nr_type n \<noteq> ''TERMINAL'' \<Longrightarrow> assignee \<noteq> None"
  using assms
  by (cases "oo_operation cmd"; auto simp: override_assignee_def admin_effect_def override_event_data_def string_field_def
      visit_fact_of_def resolve_non_terminal_assignee_def result_simps)+

text \<open>The number the store gives to a new visit is the one the replay counts.\<close>

lemma fold_max:
  "fold (\<lambda>v m. max (f v) m) xs (m0 :: int) = Max (insert m0 (f ` set xs))"
proof (induction xs arbitrary: m0)
  case (Cons x xs)
  have "Max (insert (max (f x) m0) (f ` set xs)) = Max (insert m0 (insert (f x) (f ` set xs)))"
    by (cases "set xs = {}") (simp_all add: max.commute max.left_commute)
  with Cons show ?case by simp
qed simp

lemma all_introduced:
  assumes "replay_wf r" and "finish_replay r = Inr p"
  shows "set (rp_introduced_visits r) = set (map vf_id (rp_visits r))"
proof (rule card_subset_eq)
  have "length (rp_introduced_visits r) = length (remdups (map vf_id (rp_visits r)))"
    using assms(2) by (simp add: finish_replay_def hm_len_def split: if_splits)
  then show "card (set (rp_introduced_visits r)) = card (set (map vf_id (rp_visits r)))"
    using assms(1) by (simp add: replay_wf_def distinct_card length_remdups_card_conv)
qed (use assms(1) in \<open>auto simp: replay_wf_def\<close>)

lemma count_is_max:
  assumes "replay_wf r" and "finish_replay r = Inr p" and "rp_visits r = load_visits i s" and "find_node n s = Some x"
  shows "next_visit_number i n s = rp_counts r n + 1"
proof -
  have "{v \<in> set (rp_visits r). vf_id v \<in> set (rp_introduced_visits r) \<and> vf_node v = n} = {v \<in> set (rp_visits r). vf_node v = n}"
    using all_introduced [OF assms(1,2)] by auto
  moreover have "0 \<le> rp_counts r n \<and>
      vf_number ` {v \<in> set (rp_visits r). vf_id v \<in> set (rp_introduced_visits r) \<and> vf_node v = n} = {1..rp_counts r n}"
    using assms(1) unfolding replay_wf_def by blast
  ultimately have counts: "0 \<le> rp_counts r n" and at: "vf_number ` {v \<in> set (rp_visits r). vf_node v = n} = {1..rp_counts r n}"
    by simp_all
  have "{v \<in> set (load_visits i s). vf_node v = n} =
      (\<lambda>v. visit_fact_of v x) ` set (filter (\<lambda>v. nv_instance v = i \<and> nv_node v = n) (visits s))"
    using assms(4) by (auto simp: load_visits_alt visit_fact_of_def)
  then have "nv_number ` set (filter (\<lambda>v. nv_instance v = i \<and> nv_node v = n) (visits s)) = {1..rp_counts r n}"
    using at assms(3) by (simp add: image_image visit_fact_of_def)
  moreover have "Max (insert 0 {1..k}) = k" if "0 \<le> k" for k :: int
    using that by (intro Max_eqI) auto
  ultimately show ?thesis using counts by (simp add: next_visit_number_def fold_max)
qed

text \<open>The replay of the old log, standing at the projection of the row.\<close>

definition standing :: "recovery_instance \<Rightarrow> override_plan \<Rightarrow> store \<Rightarrow> replay \<Rightarrow> bool" where
  "standing w pl s r \<longleftrightarrow>
     replay_wf r \<and> rp_instance r = w \<and> rp_visits r = load_visits (ri_id w) s \<and> finish_replay r = Inr (row_projection w) \<and>
     rp_context r = Some (vp_context pl) \<and> rp_visit r = Some (vp_source pl) \<and> rp_version r = ri_state w \<and>
     (\<exists>v. replay_visit (Some (vp_source pl)) r = Inr v \<and> vf_node v = vp_source_node pl)"

lemma find_Some_member: "find P xs = Some x \<Longrightarrow> x \<in> set xs \<and> P x"
  by (auto simp: find_Some_iff)

lemma remdups_snoc_length: "a \<notin> set xs \<Longrightarrow> length (remdups (xs @ [a])) = Suc (length (remdups xs))"
  by (simp add: length_remdups_card_conv)

lemma hm_find_known: "i \<in> set (map key fs) \<Longrightarrow> \<exists>f. hm_find key i fs = Some f"
  using find_None_iff [of "\<lambda>f. key f = i" "rev fs"] by (auto simp: hm_find_def)

lemma old_replay_stands:
  assumes "old_replay lib tt cols w s r" and "finish_replay r = Inr (row_projection w)" and "store_wf s"
    and "overridable env cmd w pl s"
  shows "standing w pl s r"
proof -
  note f = old_replay_facts [OF assms(1,3)]
  have now: "rp_context r = Some (vp_context pl)" "rp_visit r = Some (vp_source pl)" "rp_version r = ri_state w"
    using finish_replay_Inr [OF assms(2)] assms(4) by (simp_all add: replay_projection_def row_projection_def overridable_def)
  have facts: "replay_wf r" "rp_instance r = w" "rp_visits r = load_visits (ri_id w) s"
    using f by (simp_all add: replays_as_def same_facts_def new_replay_def)
  have "vp_source pl \<in> set (map vf_id (load_visits (ri_id w) s))" using facts now(2) by (auto simp: replay_wf_def)
  then obtain v where v: "hm_find vf_id (vp_source pl) (load_visits (ri_id w) s) = Some v" using hm_find_known by metis
  from hm_find_Some [OF this] obtain x where x: "x \<in> set (visits s)" "nv_id x = vp_source pl" "vf_node v = nv_node x"
    by (auto simp: load_visits_alt visit_fact_of_def)
  obtain y where y: "y \<in> set (visits s)" "nv_id y = vp_source pl" "nv_node y = vp_source_node pl"
    using assms(4) by (auto simp: overridable_def visit_node_def dest: find_Some_member)
  have "inj_on nv_id (set (visits s))" using assms(3) by (simp add: store_wf_def distinct_map)
  with x y have "vf_node v = vp_source_node pl" by (metis inj_onD)
  with facts now v assms(2) show ?thesis by (auto simp: standing_def replay_visit_def)
qed

lemma event_data_keys:
  "exact_keys (override_event_data cmd d) [''operation'', ''reason'', ''relatedReferences'', ''beforeSnapshotDigest'']"
  "string_field (override_event_data cmd d) ''beforeSnapshotDigest'' = Some d"
  by (simp_all add: override_event_data_def exact_keys_def string_field_def)

lemma find_target_node:
  assumes "read_target_node n v s = Inr x" and "distinct (map nr_id (node_rows s))"
  shows "find_node (nr_id x) s = Some x" and "nr_version x = v"
proof -
  from assms(1) have x: "x \<in> set (node_rows s)" "nr_version x = v"
    by (auto simp: read_target_node_def result_simps find_Some_iff)
  then obtain y where y: "find_node (nr_id x) s = Some y"
    by (cases "find_node (nr_id x) s") (auto simp: find_node_def find_None_iff)
  then have "y \<in> set (node_rows s)" "nr_id y = nr_id x" by (auto simp: find_node_def find_Some_iff)
  with x assms(2) have "y = x" by (metis distinct_map inj_onD)
  with y x show "find_node (nr_id x) s = Some x" "nr_version x = v" by simp_all
qed

lemma override_event_replays:
  assumes "standing w pl s r" and "overridable env cmd w pl s" and "same_identity w w'"
    and "find_node (nr_id (vp_node pl)) s = Some (vp_node pl)" and "re_visit env \<notin> nv_id ` set (visits s)"
    and "next_visit_number (ri_id w) (nr_id (vp_node pl)) s = n" and "n < 2 ^ 31" and "ri_state w + 1 < 2 ^ 31"
    and "json_digest (re_lib env) (override_event_data cmd (vp_digest pl)) = Inr d"
  shows "\<exists>r'. apply_events (re_lib env) tt (ri_state w) [event_fact_of (override_event env cmd cid w pl d) p]
      (extended w' [visit_fact_of (override_row env w pl n) (vp_node pl)] r) = Inr r' \<and>
      finish_replay r' = Inr \<lparr>pj_context = ri_context w, pj_visit = Some (re_visit env), pj_version = ri_state w + 1\<rparr>"
proof -
  let ?x = "visit_fact_of (override_row env w pl n) (vp_node pl)"
  let ?e = "event_fact_of (override_event env cmd cid w pl d) p"
  let ?r = "extended w' [?x] r" and ?lib = "re_lib env"
  have x: "vf_id ?x = re_visit env" "vf_node ?x = nr_id (vp_node pl)" "vf_number ?x = n" "vf_entered_by ?x = None"
    by (simp_all add: visit_fact_of_def override_row_def)
  have fresh: "re_visit env \<notin> set (map vf_id (load_visits (ri_id w) s))"
    using assms(5) by (auto simp: load_visits_alt visit_fact_of_def)
  then have ff: "fresh_facts [?x] (rp_visits r)" using assms(1) x by (simp add: fresh_facts_def standing_def)
  have old: "re_visit env \<notin> set (rp_introduced_visits r)" using fresh assms(1) by (auto simp: standing_def replay_wf_def)
  obtain v where v: "replay_visit (Some (vp_source pl)) r = Inr v" "vf_node v = vp_source_node pl"
    using assms(1) by (auto simp: standing_def)
  have source: "replay_visit (Some (vp_source pl)) ?r = Inr v" by (rule replay_visit_extend [OF v(1) ff])
  have target: "replay_visit (Some (re_visit env)) ?r = Inr ?x" using x by (simp add: replay_visit_def hm_find_def)
  have count: "rp_counts r (nr_id (vp_node pl)) + 1 = n"
    using count_is_max [of r _ _ s] assms(1,4,6) by (simp add: standing_def)
  have effect: "admin_effect (override_event_data cmd (vp_digest pl)) ?x = Some (vp_effect pl)"
    using assms(2) override_target(1) by (auto simp: overridable_def)
  have before: "snapshot_digest ?lib w' (replay_projection r) = Inr (vp_digest pl)"
    using assms(1,2) snapshot_identity [OF assms(3)] by (auto simp: overridable_def standing_def dest!: finish_replay_Inr)
  have bounded: "admin_payload_is_bounded (override_event_data cmd (vp_digest pl))"
    using assms(2) by (simp add: overridable_def bounded_payload)
  let ?r1 = "?r\<lparr>rp_introduced_visits := rp_introduced_visits r @ [re_visit env],
      rp_counts := (rp_counts r)(nr_id (vp_node pl) := n)\<rparr>"
  have e: "ef_source ?e = Some (vp_source pl)" "ef_target ?e = Some (re_visit env)" "ef_context ?e = Some (vp_context pl)"
    "ef_submission ?e = None" "ef_effect ?e = Some (vp_effect pl)" "ef_from ?e = Some (vp_source_node pl)"
    "ef_to ?e = Some (nr_id (vp_node pl))" "ef_type ?e = ''ADMIN_EMERGENCY_OVERRIDE_COMMITTED''" "ef_instance ?e = ri_id w"
    "ef_sequence ?e = ri_state w + 1" "ef_schema ?e = ''v1''" "ef_old ?e = ri_state w" "ef_new ?e = ri_state w + 1"
    by (simp_all add: event_fact_of_def override_event_def)
  have data: "event_data ?lib ?e = Inr (override_event_data cmd (vp_digest pl))"
    using assms(9) by (simp add: event_data_def event_fact_of_def override_event_def guard_r_def)
  have new: "introduce_visit ?x ?r = Inr ?r1"
    using old count x assms(7) by (simp add: introduce_visit_def Let_def)
  have "apply_admin ?lib ?e ?r = Inr (?r1\<lparr>rp_visit := Some (re_visit env)\<rparr>)"
    unfolding apply_admin_def data e
    using assms(1) source target effect before bounded old x new v(2)
    by (simp add: event_data_keys validate_node_columns_def e guard_r_def standing_def del: extend_update)
  then have "apply_by_type ?lib tt ?e ?r = Inr (?r1\<lparr>rp_visit := Some (re_visit env)\<rparr>)"
    by (simp add: apply_by_type_def Let_def e)
  then have "apply_events ?lib tt (ri_state w) [?e] ?r =
      Inr (?r1\<lparr>rp_visit := Some (re_visit env), rp_version := ri_state w + 1\<rparr>)"
    using assms(1,3,8) by (simp add: apply_event_def e guard_r_def standing_def same_identity_def)
  moreover have "finish_replay (?r1\<lparr>rp_visit := Some (re_visit env), rp_version := ri_state w + 1\<rparr>) =
      Inr \<lparr>pj_context = ri_context w, pj_visit = Some (re_visit env), pj_version = ri_state w + 1\<rparr>"
    using assms(1,2) fresh x remdups_snoc_length [OF fresh]
    by (auto simp: finish_replay_def hm_len_def replay_projection_def standing_def overridable_def split: if_splits)
  ultimately show ?thesis by blast
qed

section \<open>The store after an override\<close>

lemma overridden_lock:
  assumes "lock_instance cols i s = Inr w" and "store_wf s" and "ri_visit w = Some source" and "principals s' = principals s"
    and "instances s' = map (\<lambda>x. if wi_id x = ri_id w \<and> wi_state_version x = ri_state w \<and> wi_current_visit x = Some source
      then overridden env w x else x) (instances s)"
  obtains w' where "lock_instance cols i s' = Inr w'" "same_identity w w'"
    "row_projection w' = \<lparr>pj_context = ri_context w, pj_visit = Some (re_visit env), pj_version = ri_state w + 1\<rparr>"
proof -
  obtain x where x: "find_instance_row i s = Some x" "ri_state w = wi_state_version x" "ri_visit w = wi_current_visit x" "ri_id w = i"
    "ri_context w = Some (wi_context x)"
    by (rule lock_instance_row [OF assms(1)]) simp
  have "y = x" if "y \<in> set (instances s)" "wi_id y = i" for y
    using that find_instance_row [OF x(1)] assms(2) by (auto simp: store_wf_def distinct_map dest: inj_onD)
  then have rows: "instances s' = map (\<lambda>y. if wi_id y = i then overridden env w y else y) (instances s)"
    using assms(3,5) x by auto
  obtain y where y: "find_instance_row i s = Some y" "lock_instance cols i s' = Inr (w\<lparr>ri_context := Some (wi_context (overridden env w y)),
      ri_visit := wi_current_visit (overridden env w y), ri_state := wi_state_version (overridden env w y)\<rparr>)"
    by (rule lock_after_update [OF assms(1,4) rows]) (simp_all add: overridden_def)
  show thesis
    by (rule that [OF y(2)]) (use x y(1) in \<open>simp_all add: overridden_def row_projection_def\<close>)
qed

lemma override_effect_frame:
  assumes "override_effect env cmd hash w pl s r s'"
  shows "principals s' = principals s"
    and "instances s' = map (\<lambda>x. if wi_id x = ri_id w \<and> wi_state_version x = ri_state w \<and>
      wi_current_visit x = Some (vp_source pl) then overridden env w x else x) (instances s)"
  using assms unfolding override_effect_def by (elim exE conjE, simp)+

lemma override_extends:
  assumes "override_effect env cmd hash w pl s r s'" and "fresh_key (re_command env) (oo_principal cmd) (oo_key cmd) s"
    and "s1 = s\<lparr>receipts := receipts s @ [processing_row ''ADMIN_EMERGENCY_OVERRIDE'' (re_command env) (oo_principal cmd) (oo_key cmd) hash]\<rparr>"
    and "find_node (nr_id (vp_node pl)) s = Some (vp_node pl)" and "find_principal (oo_principal cmd) s = Some p"
    and "\<And>e. e \<in> set (load_events (ri_id w) s) \<Longrightarrow> ef_sequence e \<le> ri_state w"
  obtains d where "json_digest (re_lib env) (override_event_data cmd (vp_digest pl)) = Inr d"
    "facts_extended (ri_id w) (ri_version w)
       [visit_fact_of (override_row env w pl (next_visit_number (ri_id w) (nr_id (vp_node pl)) s)) (vp_node pl)]
       [event_fact_of (override_event env cmd (re_command env) w pl d) p] s1 s'"
proof -
  let ?x = "override_row env w pl (next_visit_number (ri_id w) (nr_id (vp_node pl)) s)"
  from assms(1) obtain as it cl ac d body q where d: "json_digest (re_lib env) (override_event_data cmd (vp_digest pl)) = Inr d"
    and s': "s' = s\<lparr>assistances := as, intents := it, closures := cl, activations := ac, visits := visits s @ [?x],
       instances := map (\<lambda>x. if wi_id x = ri_id w \<and> wi_state_version x = ri_state w \<and>
         wi_current_visit x = Some (vp_source pl) then overridden env w x else x) (instances s),
       events := events s @ [override_event env cmd (re_command env) w pl d],
       receipts := receipts s @ [answered_row ''ADMIN_EMERGENCY_OVERRIDE'' (re_command env) (oo_principal cmd)
         (oo_key cmd) hash 200 body q]\<rparr>"
    unfolding override_effect_def by blast
  let ?e = "override_event env cmd (re_command env) w pl d"
  have "load_visits (ri_id w) s' = load_visits (ri_id w) s1 @ [visit_fact_of ?x (vp_node pl)]"
    by (rule load_visits_snoc) (use assms(3,4) s' in \<open>simp_all add: override_row_def find_node_def\<close>)
  moreover have "load_events (ri_id w) s' = load_events (ri_id w) s1 @ [event_fact_of ?e p]"
  proof (rule load_events_snoc)
    fix e assume "e \<in> set (load_events (ri_id w) s1)"
    then have "e \<in> set (load_events (ri_id w) s)" using assms(3) loads_same(2) [of s1 s] by simp
    from assms(6) [OF this] show "ef_sequence e \<le> ev_sequence ?e" by (simp add: override_event_def)
  qed (use assms(3,5) s' in \<open>simp_all add: override_event_def find_principal_def\<close>)
  moreover have "keeps_imports s1 s'"
  proof (rule keeps_imports_new)
    show "receipts s1 = receipts s @ [processing_row ''ADMIN_EMERGENCY_OVERRIDE'' (re_command env) (oo_principal cmd) (oo_key cmd) hash]"
      by (simp add: assms(3))
    show "receipts s' = receipts s @ [answered_row ''ADMIN_EMERGENCY_OVERRIDE'' (re_command env) (oo_principal cmd)
         (oo_key cmd) hash 200 body q]" by (simp add: s')
  qed (use assms(2) in \<open>simp_all add: answered_command rebuild_type fresh_key_def\<close>)
  ultimately have "facts_extended (ri_id w) (ri_version w) [visit_fact_of ?x (vp_node pl)] [event_fact_of ?e p] s1 s'"
    using loads_cong [of s' s1] assms(3) s' by (simp add: facts_extended_def)
  with that d show thesis by blast
qed

lemma override_visit_valid:
  assumes "override_assignee cmd w n act s = Inr (vp_assignee pl, eff)" and "vp_node pl = n" and "nr_version n = ri_version w"
    and "1 \<le> k"
  shows "validate_visit w ts (visit_fact_of (override_row env w pl k) n) = Inr ()"
proof -
  have "nr_type n \<noteq> ''TERMINAL'' \<Longrightarrow> vp_assignee pl \<noteq> None" using override_target(2) [OF assms(1)] .
  with assms(2-4) show ?thesis by (auto simp: validate_visit_def visit_fact_of_def override_row_def guard_r_def)
qed

lemma admin_known: "admin_access p d s = Inr () \<Longrightarrow> \<exists>r. find_principal p s = Some r"
  by (auto simp: admin_access_def validate_actor_def result_simps)


end
