(* ===== verification/Recovery_Examples.thy ===== *)
theory Recovery_Examples
  imports Override_Properties
begin

text \<open>An instance at its draft node, its emergency override to the next node, and its rebuild.\<close>

section \<open>Evaluation\<close>

text \<open>The size limits compare numerals: the evaluator counts them as integers.\<close>

lemma reason_bounded_code [code]:
  "reason_bounded reason \<longleftrightarrow>
     reason = trim reason \<and> reason \<noteq> [] \<and> int (length (utf8_chars reason)) \<le> 2000 \<and> no_controls reason"
  by (simp add: reason_bounded_def)

lemma validate_override_input_code [code]:
  "validate_override_input cmd =
     andThen (guard_r (reason_bounded (oo_reason cmd))
       (Rv_InvalidInput ''reason must contain 1..2000 printable characters without surrounding whitespace'')) (\<lambda>_.
     andThen (guard_r (int (length (oo_references cmd)) \<le> 20)
       (Rv_InvalidInput ''related_references must contain at most 20 entries'')) (\<lambda>_.
     guard_r (list_all reference_valid (oo_references cmd))
       (Rv_InvalidInput ''related reference fields are empty, oversized, or contain controls'')))"
  by (simp add: validate_override_input_def)

lemma admin_payload_code [code]:
  "admin_payload_is_bounded data =
     (case string_field data ''reason'' of
        None \<Rightarrow> False
      | Some reason \<Rightarrow>
          reason_bounded reason \<and>
          (case as_array (jindex data ''relatedReferences'') of
             None \<Rightarrow> False
           | Some refs \<Rightarrow> int (length refs) \<le> 20 \<and> list_all reference_bounded refs))"
  by (simp add: admin_payload_is_bounded_def cong: option.case_cong)

section \<open>The example\<close>

definition desk_node :: "uuid \<Rightarrow> string \<Rightarrow> int \<Rightarrow> node_row" where
  "desk_node n ty order =
     \<lparr>nr_id = n, nr_version = 7, nr_key = ''node'', nr_type = ty, nr_ref_type = Some ''FIXED_PRINCIPAL'',
      nr_fixed_principal = Some 5, nr_input_key = None, nr_primary = None, nr_order = order, nr_metadata = None\<rparr>"

definition created_event :: event_row where
  "created_event =
     \<lparr>ev_id = 41, ev_instance = 20, ev_sequence = 1, ev_command = 42, ev_type = ''WORKFLOW_INSTANCE_CREATED'',
      ev_effect = None, ev_source_visit = None, ev_target_visit = Some 21, ev_context = Some 30, ev_submission = None,
      ev_data = JObject [(''assignee_resolution_type'', JString ''FIXED_PRINCIPAL''), (''definition_digest'', JString ''digest''),
        (''definition_version_id'', JString (show_uuid unary_library 7)), (''initial_node_id'', JString (show_uuid unary_library 11))],
      ev_digest = ''digest'', ev_actor = 5, ev_from = None, ev_to = None, ev_old = 0, ev_new = 1\<rparr>"

definition desk_instance :: instance_row where
  "desk_instance =
     \<lparr>wi_id = 20, wi_domain = 40, wi_created_by = 5, wi_version = 7, wi_context = 30, wi_current_visit = Some 21,
      wi_state_version = 1, wi_cancelled = False, wi_cancellation = None, wi_archival = None, wi_class = Business\<rparr>"

definition desk_store :: store where
  "desk_store = empty_store
     \<lparr>versions := [\<lparr>vr_id = 7, vr_status = ''PUBLISHED'', vr_semantic = 2, vr_context_schema = None\<rparr>],
      node_rows := [desk_node 11 ''DRAFT'' 0, desk_node 12 ''NORMAL'' 1],
      domains := [(40, True)],
      principals := [\<lparr>pr_id = 5, pr_type = ''HUMAN'', pr_enabled = True\<rparr>, \<lparr>pr_id = 6, pr_type = ''HUMAN'', pr_enabled = True\<rparr>],
      role_bindings := [\<lparr>rb_domain = 40, rb_principal = 6, rb_role = ''WORKFLOW_ADMIN'', rb_enabled = True\<rparr>],
      instances := [desk_instance],
      visits := [\<lparr>nv_id = 21, nv_instance = 20, nv_node = 11, nv_number = 1, nv_assignee = Some 5, nv_entered_by = None\<rparr>],
      contexts := [\<lparr>cx_id = 30, cx_instance = 20, cx_number = 1, cx_previous = None, cx_payload = JObject [],
                     cx_digest = ''digest'', cx_author = 5\<rparr>],
      events := [created_event]\<rparr>"

text \<open>The same with a projection that has lost the visit.\<close>

definition broken_store :: store where
  "broken_store = desk_store\<lparr>instances := [desk_instance\<lparr>wi_current_visit := None, wi_state_version := 0\<rparr>]\<rparr>"

definition desk_recovery :: recovery_env where
  "desk_recovery =
     \<lparr>re_lib = unary_library,
      re_time = \<lparr>tt_rfc3339 = (\<lambda>_. True), tt_parse_second = (\<lambda>_. None), tt_show_second = (\<lambda>_. [])\<rparr>,
      re_columns = \<lparr>rk_reference = (\<lambda>_. None), rk_definition_digest = (\<lambda>_. Some ''digest'')\<rparr>,
      re_now = 100, re_command = 50, re_visit = 23, re_activation = 32, re_event = 51, re_audit = 53, re_security = 54,
      re_gate = \<lparr>gate_client = None, gate_remaining_ms = 0, gate_commit_ms = 0\<rparr>, re_commit = None\<rparr>"

definition desk_override :: override_command where
  "desk_override =
     \<lparr>oo_principal = 6, oo_key = ''key'', oo_schema = ''v1'', oo_instance = 20, oo_expected = 1, oo_operation = MoveToNode,
      oo_target = 12, oo_reason = ''stuck'', oo_references = [], oo_before = None\<rparr>"

definition desk_rebuild :: rebuild_command where
  "desk_rebuild = \<lparr>rb_actor = 6, rb_key = ''key'', rb_schema = ''v1'', rb_instance = 20, rb_before = None\<rparr>"

definition admin_at :: "store \<Rightarrow> admin_state" where "admin_at s = \<lparr>am_store = s, am_security = []\<rparr>"

definition run_override :: "store \<Rightarrow> (recovery_error, override_result) res \<times> admin_state" where
  "run_override s = admin_emergency_override desk_recovery desk_override ''hash'' (admin_at s)"

definition run_rebuild :: "store \<Rightarrow> (recovery_error, rebuild_result) res \<times> admin_state" where
  "run_rebuild s = rebuild_projection desk_recovery desk_rebuild ''hash'' (admin_at s)"

lemma example_override:
  "map_sum id (\<lambda>r. (ow_current r, ow_version r, ow_replayed r)) (fst (run_override desk_store)) = Inr (23, 2, False)"
  by code_simp

lemma example_rebuild:
  "map_sum id (\<lambda>r. (bw_after r, bw_changed r, bw_replayed r)) (fst (run_rebuild broken_store)) =
     Inr (\<lparr>pj_context = Some 30, pj_visit = Some 21, pj_version = 1\<rparr>, True, False)"
  by code_simp

lemma desk_store_wf: "store_wf desk_store" "store_wf broken_store"
  by (simp_all add: store_wf_def desk_store_def broken_store_def desk_instance_def created_event_def empty_store_def)

lemma fst_map_Inr: "map_sum id f (fst p) = Inr x \<Longrightarrow> \<exists>r. p = (Inr r, snd p) \<and> f r = x"
  by (cases p; cases "fst p") auto

theorem rebuild_restores_projection_witness:
  "\<exists>r w. fst (run_rebuild broken_store) = Inr r \<and> lock_instance (re_columns desk_recovery) 20 (am_store (snd (run_rebuild broken_store))) = Inr w \<and>
     row_projection w = bw_after r \<and> ri_visit w = Some 21 \<and> ri_state w = 1"
proof -
  from fst_map_Inr [OF example_rebuild] obtain r where r: "run_rebuild broken_store = (Inr r, snd (run_rebuild broken_store))"
    "bw_after r = \<lparr>pj_context = Some 30, pj_visit = Some 21, pj_version = 1\<rparr>" "\<not> bw_replayed r" by auto
  have "store_wf (am_store (admin_at broken_store))" using desk_store_wf(2) by (simp add: admin_at_def)
  from rebuild_restores_projection [OF r(1) [unfolded run_rebuild_def] r(3) this] obtain w where
    w: "lock_instance (re_columns desk_recovery) (rb_instance desk_rebuild) (am_store (snd (run_rebuild broken_store))) = Inr w"
    "row_projection w = bw_after r" by (auto simp: run_rebuild_def)
  have "fst (run_rebuild broken_store) = Inr r" using r(1) by (metis fst_conv)
  moreover have "lock_instance (re_columns desk_recovery) 20 (am_store (snd (run_rebuild broken_store))) = Inr w"
    using w(1) by (simp add: desk_rebuild_def)
  moreover have "ri_visit w = Some 21" "ri_state w = 1" using w(2) r(2) by (simp_all add: row_projection_def)
  ultimately show ?thesis using w(2) by blast
qed


end
