(* ===== verification/Recovery_Limits.thy ===== *)
theory Recovery_Limits
  imports Recovery_Examples Lifecycle_Properties Run_Properties
begin

text \<open>Where the administrative recovery ends: logs it cannot replay, and what a refused override leaves behind.\<close>

section \<open>Logs that do not replay\<close>

lemma loaded_event:
  assumes "e \<in> set (events s)" and "ev_instance e = i" and "find_principal (ev_actor e) s = Some p"
  shows "event_fact_of e p \<in> set (load_events i s)"
  using assms by (auto simp: load_events_alt intro!: image_eqI [of _ _ e])

lemma enabled_known: "principal_enabled p s = Some b \<Longrightarrow> \<exists>r. find_principal p s = Some r"
  by (auto simp: principal_enabled_def)

lemma cancel_effect_event:
  assumes "cancel_effect env cmd hash w s r s'"
  shows "\<exists>e. e \<in> set (events s') \<and> ev_type e = ''WORKFLOW_INSTANCE_CANCELLED'' \<and> ev_instance e = lc_instance cmd \<and>
    ev_actor e = lc_principal cmd \<and> principals s' = principals s"
proof -
  from assms obtain e where e: "lifecycle_event env cmd ''WORKFLOW_INSTANCE_CANCELLED'' (wi_current_visit w) w e"
    and "events s' = events s @ [e]" "principals s' = principals s"
    unfolding cancel_effect_def by (elim conjE exE) simp
  then show ?thesis by (intro exI [of _ e]) (simp add: lifecycle_event_def)
qed

text \<open>
  C24. A cancelled instance is out of reach of the administrative recovery: its log holds the cancellation event, a type
  the replay does not know, so that no projection is reconstructed from it and every rebuild or override fails.
\<close>
theorem cancelled_log_not_replayable:
  assumes "cancel_workflow_instance env cmd hash s = (Inr r, s')" and "store_wf s" and "\<not> lr_replayed r"
    and "ri_id w = lc_instance cmd"
  shows "reconstruct_projection lib tt cols w s' \<noteq> Inr p"
  using assms(1,2)
proof (cases rule: cancel_ends)
  case quiet
  with assms(3) show ?thesis by blast
next
  case (cancelled x r')
  from cancel_effect_event [OF cancelled(9)] obtain e where e: "e \<in> set (events s')" "ev_type e = ''WORKFLOW_INSTANCE_CANCELLED''"
      "ev_instance e = lc_instance cmd" "ev_actor e = lc_principal cmd" and same: "principals s' = principals s" by blast
  obtain q where "find_principal (lc_principal cmd) s' = Some q"
    using enabled_known [OF cancelled(6)] same by (auto simp: find_principal_def)
  from loaded_event [OF e(1) refl, of q] this e assms(4) have "event_fact_of e q \<in> set (load_events (ri_id w) s')" by simp
  moreover have "ef_type (event_fact_of e q) \<notin> set supported_types" using e(2) by (simp add: event_fact_of_def supported_types_def)
  ultimately show ?thesis using reconstructed_known [of lib tt cols w s' p] cancelled(10) by blast
qed

section \<open>Refused overrides\<close>

definition bookkeeping :: "store \<Rightarrow> store \<Rightarrow> bool" where
  "bookkeeping s s' \<longleftrightarrow> (\<exists>rs au. s' = s\<lparr>receipts := rs, audits := au\<rparr>)"

lemma bookkeeping_trans: "bookkeeping a b \<Longrightarrow> bookkeeping b c \<Longrightarrow> bookkeeping a c"
proof -
  assume "bookkeeping a b" "bookkeeping b c"
  then obtain rs au where "c = b\<lparr>receipts := rs, audits := au\<rparr>" "\<exists>qs av. b = a\<lparr>receipts := qs, audits := av\<rparr>"
    unfolding bookkeeping_def by blast
  then show ?thesis unfolding bookkeeping_def by (intro exI [of _ rs] exI [of _ au]) auto
qed

lemma bookkeeping_writes:
  "bookkeeping s s" "bookkeeping s (s\<lparr>receipts := rs\<rparr>)" "bookkeeping s (s\<lparr>audits := au\<rparr>)"
proof -
  have "s = s\<lparr>receipts := receipts s, audits := audits s\<rparr>" "s\<lparr>receipts := rs\<rparr> = s\<lparr>receipts := rs, audits := audits s\<rparr>"
    "s\<lparr>audits := au\<rparr> = s\<lparr>receipts := receipts s, audits := au\<rparr>" by simp_all
  then show "bookkeeping s s" "bookkeeping s (s\<lparr>receipts := rs\<rparr>)" "bookkeeping s (s\<lparr>audits := au\<rparr>)"
    unfolding bookkeeping_def by blast+
qed

lemma recovery_complete_books: "recovery_complete lib cid st body a = Inr a' \<Longrightarrow> bookkeeping (am_store a) (am_store a')"
  by (auto simp: recovery_complete_def complete_by_def complete_transition_receipt_def result_simps intro: bookkeeping_writes
      split: if_splits)

lemma write_attempt_books: "write_attempt env cid p k at rs h d a = Inr a' \<Longrightarrow> bookkeeping (am_store a) (am_store a')"
  by (auto simp: write_attempt_def result_simps map_sum_eq_Inr intro: bookkeeping_writes dest!: attempt_audit_row_frame)

lemma settle_books: "settle env res a0 a = (x, a1) \<Longrightarrow> a1 = a0 \<or> a1 = a \<and> x = res"
  by (auto simp: settle_def split: option.splits)

lemma commit_failure_books:
  assumes "commit_failure env ac cid actor key hash i e a0 a = (Inl e', a1)"
  shows "a1 = a0 \<or> e' = e \<and> bookkeeping (am_store a) (am_store a1)"
proof -
  consider "a1 = a0" | b c d where "recovery_complete (re_lib env) cid (recovery_status_code e) (recovery_error_body e) a = Inr b"
      "write_attempt env cid actor key ''DETERMINISTIC_FAILURE'' (Some (recovery_label e)) hash
         (JObject [(''error'', JString (recovery_label e))]) b = Inr c"
      "write_security env actor ac i (JObject [(''commandId'', Recovery_Rows.uuid_json (re_lib env) cid), (''reason'', JString (recovery_label e))]) c = Inr d"
      "a1 = d" "e' = e"
    using assms by (auto simp: commit_failure_def result_simps dest!: settle_books split: sum.splits)
  then show ?thesis
  proof cases
    case 2
    then have "am_store a1 = am_store c" using write_security_store by simp
    with 2 bookkeeping_trans [OF recovery_complete_books [OF 2(1)] write_attempt_books [OF 2(2)]] show ?thesis by simp
  qed simp
qed

lemma denied_books:
  assumes "deny_access env ac acq actor key hash i e a0 a = (Inl e', a1)"
  shows "a1 = a0 \<or> bookkeeping (am_store a) (am_store a1)"
proof (cases "\<exists>cid. acq = Acq_Owned cid")
  case True
  with assms show ?thesis by (auto simp: deny_access_def dest: commit_failure_books)
next
  case False
  then consider "a1 = a0" | b d where
      "write_attempt env (acquired_command acq) actor key ''PERMISSION_DENIED'' (Some ''current authorization denied'') hash
         (JObject [(''error'', JString ''permission_denied'')]) a = Inr b"
      "write_security env actor ac i (JObject [(''reason'', JString ''permission_denied'')]) b = Inr d" "a1 = d"
    using assms by (cases acq) (auto simp: deny_access_def result_simps dest!: settle_books split: sum.splits)
  then show ?thesis
    by cases (auto dest!: write_attempt_books write_security_store)
qed

lemma conflict_books:
  assumes "conflict_or_processing env acq actor key hash a0 a = (Inl e', a1)"
  shows "a1 = a0 \<or> bookkeeping (am_store a) (am_store a1)"
  using assms
  by (cases acq) (auto simp: conflict_or_processing_def Let_def dest!: settle_books dest: write_attempt_books split: sum.splits)

text \<open>What the checks before the first write can leave: nothing, or the void of the open cases.\<close>

definition void_by :: "recovery_env \<Rightarrow> override_command \<Rightarrow> assistance_row \<Rightarrow> assistance_row" where
  "void_by env cmd = voided (re_now env) (oo_instance cmd) (oo_principal cmd) (re_command env) ''ADMIN_EMERGENCY_OVERRIDE''"

definition no_source_activation :: recovery_error where
  "no_source_activation = Rv_InvalidImmutableFacts ''VISIT_ACTIVATION_V1 source visit has no active activation to close''"

lemma override_closed_stop:
  assumes "override_closed env cmd (re_command env) w pl a = Inl st" and "ri_id w = oo_instance cmd"
  obtains it where "st = Recorded no_source_activation
    (a\<lparr>am_store := (am_store a)\<lparr>intents := it, assistances := map (void_by env cmd) (assistances (am_store a))\<rparr>\<rparr>)"
proof -
  have "\<exists>it. st = Recorded no_source_activation
    (a\<lparr>am_store := (am_store a)\<lparr>intents := it, assistances := map (void_by env cmd) (assistances (am_store a))\<rparr>\<rparr>)"
    using assms
    by (auto simp: override_closed_def Let_def close_activation_by_visit_required_def close_activation_by_visit_def
        validate_current_activation_def void_open_cases_eq void_by_def no_source_activation_def split: prod.splits if_splits)
  with that show thesis by blast
qed

lemma record_at_Inl: "record_at a x = Inl st \<Longrightarrow> \<exists>e. st = Recorded e a"
  and roll_back_Inl: "roll_back x = Inl st \<Longrightarrow> \<exists>e. st = Rolled_Back e"
  and record_facts_Inl: "record_facts a x = Inl st \<Longrightarrow> \<exists>e. st = Recorded e a \<or> st = Rolled_Back e"
  by (cases x; auto simp: record_at_def roll_back_def record_facts_def split: recovery_error.splits)+

lemma override_checked_stop: "override_checked env cmd w ver a = Inl st \<Longrightarrow> \<exists>e. st = Recorded e a \<or> st = Rolled_Back e"
  unfolding override_checked_def Let_def
  by (auto simp: andThen_eq_Inl split: prod.splits dest!: record_at_Inl roll_back_Inl record_facts_Inl)

lemma override_owned_stop:
  assumes "override_owned env cmd (re_command env) w ver a = Inl (Recorded e b)" and "ri_id w = oo_instance cmd"
  shows "b = a \<or> e = no_source_activation \<and>
    (\<exists>it. am_store b = (am_store a)\<lparr>intents := it, assistances := map (void_by env cmd) (assistances (am_store a))\<rparr>)"
proof -
  consider "override_checked env cmd w ver a = Inl (Recorded e b)" | x where "record_at a x = Inl (Recorded e b)"
    | x :: "(recovery_error, unit) res" where "record_at a x = Inl (Recorded e b)"
    | pl where "override_closed env cmd (re_command env) w pl a = Inl (Recorded e b)"
    using assms(1) unfolding override_owned_def Let_def
    by (auto simp: andThen_eq_Inl split: prod.splits dest: roll_back_Inl)
  then show ?thesis
  proof cases
    case (4 pl)
    obtain it where "Recorded e b = Recorded no_source_activation
        (a\<lparr>am_store := (am_store a)\<lparr>intents := it, assistances := map (void_by env cmd) (assistances (am_store a))\<rparr>\<rparr>)"
      by (rule override_closed_stop [OF 4 assms(2)])
    then show ?thesis by auto
  qed (auto dest: override_checked_stop record_at_Inl)
qed

lemma override_replay_kept:
  "settle env x a0 a = (Inl e, a1) \<Longrightarrow> a1 = a0 \<or> a1 = a" by (auto dest: settle_books)

lemma recovery_acquire_books: "recovery_acquire ty cid p k h s = Inr (acq, s1) \<Longrightarrow> bookkeeping s s1"
  by (auto simp: recovery_acquire_def try_insert_receipt_cases result_simps split: option.splits if_splits
      intro: bookkeeping_writes)

definition override_left :: "recovery_env \<Rightarrow> override_command \<Rightarrow> recovery_error \<Rightarrow> store \<Rightarrow> store \<Rightarrow> bool" where
  "override_left env cmd e s s' \<longleftrightarrow>
     (\<exists>rs au. s' = s\<lparr>receipts := rs, audits := au\<rparr>) \<or>
     e = no_source_activation \<and>
     (\<exists>rs au it. s' = s\<lparr>receipts := rs, audits := au, intents := it, assistances := map (void_by env cmd) (assistances s)\<rparr>)"

lemma books_left: "bookkeeping s s' \<Longrightarrow> override_left env cmd e s s'"
  by (simp add: bookkeeping_def override_left_def)

lemma voided_left:
  assumes "bookkeeping s s1" and "t = s1\<lparr>intents := it, assistances := map (void_by env cmd) (assistances s1)\<rparr>"
    and "bookkeeping t s'"
  shows "override_left env cmd no_source_activation s s'"
proof -
  from assms obtain rs au rs' au' where "s1 = s\<lparr>receipts := rs, audits := au\<rparr>" "s' = t\<lparr>receipts := rs', audits := au'\<rparr>"
    unfolding bookkeeping_def by blast
  then have "s' = s\<lparr>receipts := rs', audits := au', intents := it, assistances := map (void_by env cmd) (assistances s)\<rparr>"
    using assms(2) by simp
  then show ?thesis unfolding override_left_def by blast
qed

lemma override_refusals:
  assumes "admin_emergency_override env cmd hash a0 = (Inl e, a1)"
    and "recovery_acquire ''ADMIN_EMERGENCY_OVERRIDE'' (re_command env) (oo_principal cmd) (oo_key cmd) hash (am_store a0) = Inr (acq, s1)"
    and "a1 \<noteq> a0"
  shows "(\<exists>e'. deny_access env ''ADMIN_EMERGENCY_OVERRIDE_REJECTED'' acq (oo_principal cmd) (oo_key cmd) hash (oo_instance cmd) e' a0
        (a0\<lparr>am_store := s1\<rparr>) = (Inl e :: (recovery_error, override_result) res, a1)) \<or>
    conflict_or_processing env acq (oo_principal cmd) (oo_key cmd) hash a0 (a0\<lparr>am_store := s1\<rparr>) = (Inl e :: (recovery_error, override_result) res, a1) \<or>
    (\<exists>x. settle env x a0 (a0\<lparr>am_store := s1\<rparr>) = (Inl e :: (recovery_error, override_result) res, a1)) \<or>
    (\<exists>w ver cid e' b. lock_instance (re_columns env) (oo_instance cmd) s1 = Inr w \<and> acq = Acq_Owned cid \<and>
        override_owned env cmd cid w ver (a0\<lparr>am_store := s1\<rparr>) = Inl (Recorded e' b) \<and>
        commit_failure env ''ADMIN_EMERGENCY_OVERRIDE_REJECTED'' cid (oo_principal cmd) (oo_key cmd) hash (oo_instance cmd) e' a0 b = (Inl e :: (recovery_error, override_result) res, a1)) \<or>
    (\<exists>r b. settle env (Inr r) a0 b = (Inl e :: (recovery_error, override_result) res, a1))"
proof (cases "lock_instance (re_columns env) (oo_instance cmd) s1")
  case (Inl x)
  with assms show ?thesis by (auto simp: admin_emergency_override_def Let_def)
next
  case w: (Inr w)
  show ?thesis
  proof (cases "lock_definition_version (ri_version w) s1")
    case (Inl x)
    with assms w show ?thesis by (simp add: admin_emergency_override_def Let_def)
  next
    case ver: (Inr ver)
    show ?thesis
    proof (cases "admin_access (oo_principal cmd) (ri_domain w) s1")
      case (Inl x)
      with assms w ver show ?thesis by (auto simp: admin_emergency_override_def Let_def)
    next
      case (Inr u)
      with assms w ver show ?thesis
        by (cases acq) (auto simp: admin_emergency_override_def Let_def split: sum.splits recovery_stop.splits)
    qed
  qed
qed


section \<open>Examples\<close>

theorem cancelled_log_not_replayable_witness:
  "\<forall>p. reconstruct_projection unary_library (re_time desk_recovery) (re_columns desk_recovery)
     \<lparr>ri_id = 20, ri_domain = 40, ri_version = 7, ri_creator = 5, ri_creator_type = ''HUMAN'', ri_reference = None,
      ri_context = Some 30, ri_visit = Some 22, ri_state = 5\<rparr> cancelled_store \<noteq> Inr p"
proof -
  let ?run = "cancel_workflow_instance (desk_env 80) (desk_command ''stop'') ''hash'' asked_store"
  have "fst ?run = Inr \<lparr>lr_instance = 20, lr_version = 5, lr_sequence = 5, lr_replayed = False\<rparr>" by code_simp
  then have "?run = (Inr \<lparr>lr_instance = 20, lr_version = 5, lr_sequence = 5, lr_replayed = False\<rparr>, cancelled_store)"
    unfolding cancelled_store_def by (metis prod.collapse)
  moreover have "store_wf asked_store" using asked_wf by (simp add: run_wf_def)
  moreover have "\<not> lr_replayed \<lparr>lr_instance = 20, lr_version = 5, lr_sequence = 5, lr_replayed = False\<rparr>" by simp
  moreover have "ri_id \<lparr>ri_id = 20, ri_domain = 40, ri_version = 7, ri_creator = 5, ri_creator_type = ''HUMAN'', ri_reference = None,
      ri_context = Some 30, ri_visit = Some 22, ri_state = 5\<rparr> = lc_instance (desk_command ''stop'')" by (simp add: desk_command_def)
  ultimately show ?thesis by (intro allI) (rule cancelled_log_not_replayable)
qed

definition stuck_case :: assistance_row where
  "stuck_case =
     \<lparr>as_id = 60, as_instance = 20, as_visit = 21, as_status = ''OWNER_PENDING'', as_requester = 5, as_payload = JObject [],
      as_digest = ''digest'', as_command = 61, as_escalation = None, as_resolution = None, as_void = None, as_created = 0\<rparr>"

definition stuck_store :: store where
  "stuck_store = desk_store
     \<lparr>versions := [\<lparr>vr_id = 7, vr_status = ''PUBLISHED'', vr_semantic = 3, vr_context_schema = None\<rparr>],
      node_rows := [desk_node 11 ''DRAFT'' 0, desk_node 12 ''TASK'' 1], assistances := [stuck_case]\<rparr>"


end
