(* ===== verification/Spec2Isabelle.thy ===== *)
theory Spec2Isabelle
  imports Legacy_Properties Minimal_Properties Visit_Properties Runtime_Properties Receipt_Properties
    Outbox_Promises Acceptance_Properties Transition_Properties Intent_Properties
    Run_Properties Lifecycle_Properties Wake_Properties Help_Properties
    Recovery_Properties Override_Properties Recovery_Examples Recovery_Limits
begin

text \<open>
  A model of the workflow engine \<open>svc-workflow\<close> and the theorems that make it correct.

  The program.  A \<^emph>\<open>definition version\<close> is a graph of nodes and transitions (\<open>src/domain/definition\<close>).
  While it is a DRAFT its graph is replaced as a whole; on publication one of three validators, chosen
  by the semantic model of the version, must accept it.  An \<^emph>\<open>instance\<close> then walks over the graph: the
  transition command (\<open>src/store/postgres/workflow_instance_repository/transition_transaction.rs\<close>)
  claims a receipt for its idempotency key, checks the request against the locked instance and the
  definition rows, writes the facts of the step and completes the receipt, in one transaction.

  The theories, bottom up.
  \<^item> \<open>Prelude\<close>, \<open>Json\<close>: results as sums, hash-map collection, iteration orders; \<open>serde_json\<close> values.
  \<^item> \<open>Model\<close>: \<open>domain/enums.rs\<close> (one interpretation of \<open>enum_codec\<close> per enum), \<open>definition/model.rs\<close>,
    \<open>definition/error.rs\<close>.
  \<^item> \<open>Graph_Search\<close>, \<open>Cycle_Test\<close>, \<open>Primary_Trunk\<close>: the graph algorithms of \<open>graph_helpers.rs\<close>,
    \<open>minimal_validator.rs\<close> and \<open>transition_validation.rs\<close> (worklist searches, Kahn's test, the primary
    walks).  The locale \<open>graph_search\<close> states what a search computes; both searches interpret it.
  \<^item> \<open>Legacy_Validator\<close>, \<open>Minimal_Validator\<close>, \<open>Visit_Activation_Validator\<close>: the validators of
    \<open>definition/graph\<close>, with \<open>Legacy_Spec\<close>, \<open>Minimal_Spec\<close> and the three \<open>_Properties\<close> theories: each
    accepts exactly the graphs of a declarative specification (\<open>legacy_ok\<close>, \<open>minimal_ok\<close>, \<open>visit_ok\<close>).
  \<^item> \<open>Transition_Errors\<close>: the errors of the transition command, their status, label and receipt body.
  \<^item> \<open>Instance_Store\<close>: the runtime tables as lists of rows with their keys, the insert and update
    statements, and the invariant \<open>store_wf\<close>.
  \<^item> \<open>Transition_Rules\<close>: the checks of \<open>transition_checks.rs\<close> and \<open>transition_validation.rs\<close>.
  \<^item> \<open>Graph_Write\<close>, \<open>Runtime_Selection\<close>, \<open>Runtime_Properties\<close>: the writer of draft graphs, and the
    agreement of the runtime's checks with the validators on the rows it writes.
  \<^item> \<open>Transition_Receipts\<close>, \<open>Receipt_Properties\<close>: receipts, replay, conflicts.  The locale
    \<open>receipt_log\<close> states what a command needs of its receipts; the receipt table interprets it.

  \<^item> \<open>Acceptance_Binding\<close>, \<open>Acceptance_Properties\<close>: \<open>definition/acceptance_binding.rs\<close>: the annotation, the
    catalog, the report and the placement of annotations in a graph.  The locale \<open>entry_loop\<close> states what
    the loops over JSON entries compute; both loops interpret it.
  \<^item> \<open>Text_Format\<close>: the text operations of the standard library the code uses on UTF-8 bytes.
  \<^item> \<open>Outbox\<close>, \<open>Forum_Sync\<close>: the durable outbox (\<open>outbox.rs\<close>) and one pass of its worker
    (\<open>forum_sync.rs\<close>), with \<open>Outbox_Properties\<close> (the steps, their invariant, and that a pass is a sequence
    of them) and \<open>Outbox_Promises\<close> (order, dead letters, disabled channels).
  \<^item> \<open>Step_System\<close>: the locale of step relations with an invariant and a preorder, interpreted on the
    outbox steps and on the runs of transition commands.
  \<^item> \<open>Admission\<close>, \<open>Admission_Facts\<close>: identity successors, the admission gate, the write-path gates
    (\<open>identity_successor.rs\<close>, \<open>admission_gate.rs\<close>, \<open>write_path_enabled.rs\<close>).
  \<^item> \<open>Escalation\<close>: the OWNER_PENDING escalation and its system ingress (\<open>execution_escalation.rs\<close>).
  \<^item> \<open>Execute_Transition\<close>: the whole transition command (\<open>transition_transaction.rs\<close>), with
    \<open>Transition_Facts\<close> (what each write does), \<open>Transition_Ends\<close> (the ways a command ends),
    \<open>Transition_Invariant\<close> (what the checks establish, the keys of the tables, the RETURN budget, runs)
    and \<open>Transition_Properties\<close>.
  \<^item> \<open>Assistance_Cases\<close>, \<open>Owner_Intents\<close>: the rows of assistance cases and of responsibility intents, with
    every producer, stop and completion of \<open>owner_obligation/intents.rs\<close> and the guards of \<open>guards.rs\<close>;
    \<open>Table_Growth\<close> states how tables grow, \<open>Intent_Properties\<close> that a settled intent is final.
  \<^item> \<open>Command_Receipts\<close>: the receipt statements the other commands share, with the errors of each as arguments.
  \<^item> \<open>Lifecycle\<close> (\<open>cancel_transaction.rs\<close>, \<open>archive_transaction.rs\<close> with their \<open>identity_state\<close>), \<open>Wake\<close>
    (\<open>wake_transaction.rs\<close>) and \<open>Assistance_Commands\<close> (\<open>assistance_transaction.rs\<close>, \<open>checks.rs\<close>, \<open>write.rs\<close>): each command
    from its receipt to COMMIT, on the store of the transition command.
  \<^item> \<open>Command_Facts\<close>, \<open>Lifecycle_Facts\<close>, \<open>Wake_Facts\<close>, \<open>Assistance_Facts\<close>, \<open>Escalation_Ends\<close>: the ways each command
    ends, as case rules (\<open>cancel_ends\<close>, \<open>archive_ends\<close>, \<open>wake_ends\<close>, \<open>request_ends\<close>, \<open>owner_ends\<close>, \<open>system_ends\<close>):
    quiet, when at most a receipt is written, or with its whole effect.
  \<^item> \<open>Case_Keys\<close>, \<open>Command_Runs\<close>, \<open>Command_Steps\<close>, \<open>Command_System\<close>: the invariant \<open>run_wf\<close> of the whole runtime
    and the order \<open>run_le\<close> its history grows by; \<open>command_step\<close> is the step relation of all commands, and
    interprets \<open>step_system\<close>.
  \<^item> \<open>Run_Properties\<close>, \<open>Lifecycle_Properties\<close>, \<open>Wake_Properties\<close>, \<open>Help_Properties\<close>: what holds under every run,
    and what each command does, to whom it answers and what a retry gets.
  \<^item> \<open>Trusted_Fleet\<close>, \<open>Recovery_Rows\<close>, \<open>Event_Replay\<close>, \<open>Fact_Checks\<close>, \<open>Admin_Recovery\<close>: the administrative recovery
    (\<open>admin_recovery_repository\<close>, \<open>import_receipt_validation.rs\<close>): the facts of an instance loaded from the store
    and checked, the projection rebuilt from them by the replay of its events, and the two commands, rebuild and
    emergency override, with their receipts and security audits.
  \<^item> \<open>Replay_Facts\<close>, \<open>Recovery_Effects\<close>: what a replay keeps and knows (\<open>replay_wf\<close>), and how a reconstruction is
    carried from one store to a later one (\<open>reconstruct_extended\<close>); \<open>Recovery_Properties\<close>, \<open>Override_Properties\<close>,
    \<open>Recovery_Limits\<close>: what the two commands write can be replayed again, what a refusal leaves, and which logs
    do not replay; \<open>Recovery_Examples\<close>: both commands on a concrete store.

  Conventions.  A Rust \<open>Result<T, E>\<close> is \<open>E + T\<close>; a panic or a loop that does not end is \<open>None\<close>.
  Iteration over a hash map or set takes its order from a parameter \<open>it\<close> with \<open>is_iteration it\<close>, so the
  theorems hold for every order.  A database error of an insert is the violation of a key of the table.
  The UUID text form, the JSON digest, the serialized length and the JSON-schema library are the fields
  of the record \<open>library\<close>.

  Bounds.  The searches terminate by a measure on the unvisited nodes; the trunk walk of the Legacy
  validator is a \<open>partial_function\<close>, because it need not terminate.  No definition uses fuel.

  Integers.  State versions are \<open>i32\<close>: \<open>as_i32\<close> wraps them as a release build does, and the CHECK of the
  event table (the new version is the old one plus one) makes a wrapped version fail.

  Parameters.  Fresh ids, the clock, the answers of remote services and of COMMIT, and the hooks of the
  governance children and of the governed effects, which act on tables outside the store, are fields
  of the environment records.  Theorems about committed transitions assume of the hook of a completed
  workflow that, of the store, it writes the outbox, the child bindings and the intents at most, and
  the intents only as their own promise allows (\<open>terminal_hook_frame\<close>).

  Not modelled: SQL isolation, foreign keys and triggers (a statement acts on the tables as a whole, and
  one transaction runs at a time); the authorization directory; the HTTP layer, the coordinator loops
  and the operator binaries, which are I/O around the modelled core.
\<close>

end
